(* ===== verification/Prelude.thy ===== *)
theory Prelude
  imports Complex_Main "HOL-Library.AList" "HOL-Library.Char_ord" "HOL-Library.List_Lexorder"
begin

text \<open>
  What every component of the model shares: results that carry the error a function throws,
  JavaScript strings and the string methods the source calls, insertion-ordered maps and sets,
  JSON values, and dates.

  \<^item> A string is a list of code units below 256 (\<open>char\<close>); the methods below are those of the
    language restricted to that alphabet, so \<open>trim\<close> also strips the no-break space and
    \<open>toLowerCase\<close> also maps the accented capitals.
  \<^item> An optional property or parameter (\<open>x?: t\<close>) is a \<open>t option\<close>; \<open>undefined\<close> is \<open>None\<close>.
  \<^item> A \<open>Map\<close> is an association list in insertion order: \<open>set\<close> is \<open>AList.update\<close>, which
    overwrites in place and appends a new key at the end, and \<open>delete\<close> is \<open>AList.delete\<close>.
  \<^item> A \<open>Date\<close> is its time value, an integer number of milliseconds since the epoch.
\<close>

section \<open>Results\<close>

text \<open>
  The exceptions of the source: the HTTP exceptions of the API, a plain \<open>Error\<close>, and the
  errors with which the database rejects a statement.
\<close>

datatype error =
    BadRequest string
  | Unauthorized string
  | Forbidden string
  | NotFound string
  | Conflict string
  | TooManyRequests string
  | ServiceUnavailable string
  | JsError string
  | RecordNotFound
  | UniqueViolation
  | ForeignKeyViolation
  | InvalidValue
  | IntegerOutOfRange

type_synonym 'a result = "error + 'a"

definition bindR :: "'a result \<Rightarrow> ('a \<Rightarrow> 'b result) \<Rightarrow> 'b result" where
  "bindR r f = (case r of Inl e \<Rightarrow> Inl e | Inr x \<Rightarrow> f x)"

lemma bindR_simps [simp]:
  "bindR (Inl e) f = Inl e"
  "bindR (Inr x) f = f x"
  by (simp_all add: bindR_def)

lemma bindR_eq_Inr [simp]: "bindR r f = Inr y \<longleftrightarrow> (\<exists>x. r = Inr x \<and> f x = Inr y)"
  by (cases r) auto

definition isOk :: "'a result \<Rightarrow> bool" where
  "isOk r = (case r of Inl _ \<Rightarrow> False | Inr _ \<Rightarrow> True)"

lemma isOk_simps [simp]: "\<not> isOk (Inl e)" "isOk (Inr x)"
  by (simp_all add: isOk_def)

lemma isOk_iff: "isOk r \<longleftrightarrow> (\<exists>x. r = Inr x)"
  by (cases r) auto

text \<open>A loop whose body may throw: the first error ends it.\<close>

fun foldR :: "('a \<Rightarrow> 's \<Rightarrow> 's result) \<Rightarrow> 'a list \<Rightarrow> 's \<Rightarrow> 's result" where
  "foldR f [] s = Inr s"
| "foldR f (x # xs) s = bindR (f x s) (foldR f xs)"

lemma foldR_invariant:
  assumes "foldR f xs s = Inr t" and "P s"
    and "\<And>x s t. x \<in> set xs \<Longrightarrow> P s \<Longrightarrow> f x s = Inr t \<Longrightarrow> P t"
  shows "P t"
  using assms
proof (induction xs arbitrary: s)
  case (Cons x xs)
  then obtain u where u: "f x s = Inr u" "foldR f xs u = Inr t" by auto
  then have "P u" using Cons.prems(2,3) by auto
  then show ?case using Cons.IH[OF u(2)] Cons.prems(3) by auto
qed simp

lemma foldR_append: "foldR f (xs @ ys) s = bindR (foldR f xs s) (foldR f ys)"
proof (induction xs arbitrary: s)
  case (Cons x xs)
  show ?case using Cons by (cases "f x s") auto
qed simp

section \<open>Operations on a store\<close>

text \<open>
  An asynchronous function that works on a store may throw after some of its effects: it returns
  the store it leaves beside its result. \<open>transaction\<close> undoes the effects of a body that throws.
\<close>

type_synonym ('s, 'a) op = "'s \<Rightarrow> 's \<times> 'a result"

definition retS :: "'a \<Rightarrow> ('s, 'a) op" where
  "retS x s = (s, Inr x)"

definition throwS :: "error \<Rightarrow> ('s, 'a) op" where
  "throwS e s = (s, Inl e)"

definition getS :: "('s \<Rightarrow> 'a) \<Rightarrow> ('s, 'a) op" where
  "getS f s = (s, Inr (f s))"

definition putS :: "('s \<Rightarrow> 's) \<Rightarrow> ('s, unit) op" where
  "putS f s = (f s, Inr ())"

definition bindS :: "('s, 'a) op \<Rightarrow> ('a \<Rightarrow> ('s, 'b) op) \<Rightarrow> ('s, 'b) op" where
  "bindS m f s = (case m s of (s', r) \<Rightarrow> (case r of Inl e \<Rightarrow> (s', Inl e) | Inr x \<Rightarrow> f x s'))"

definition thenS :: "('s, 'a) op \<Rightarrow> ('s, 'b) op \<Rightarrow> ('s, 'b) op" where
  "thenS m k = bindS m (\<lambda>_. k)"

definition liftS :: "'a result \<Rightarrow> ('s, 'a) op" where
  "liftS r s = (s, r)"

definition whenS :: "bool \<Rightarrow> ('s, unit) op \<Rightarrow> ('s, unit) op" where
  "whenS b m = (if b then m else retS ())"

definition transaction :: "('s, 'a) op \<Rightarrow> ('s, 'a) op" where
  "transaction m s = (case m s of (s', r) \<Rightarrow> (case r of Inl e \<Rightarrow> (s, Inl e) | Inr x \<Rightarrow> (s', Inr x)))"

fun forS :: "'a list \<Rightarrow> ('a \<Rightarrow> ('s, unit) op) \<Rightarrow> ('s, unit) op" where
  "forS [] f = retS ()"
| "forS (x # xs) f = thenS (f x) (forS xs f)"

named_theorems op_simps \<open>computation rules of the operations on a store\<close>

lemma op_rules [op_simps]:
  "retS x s = (s, Inr x)" "throwS e s = (s, Inl e)" "getS f s = (s, Inr (f s))" "putS g s = (g s, Inr ())"
  "liftS r s = (s, r)" "whenS True m = m" "whenS False m = retS ()" "thenS m k = bindS m (\<lambda>_. k)"
  by (simp_all add: retS_def throwS_def getS_def putS_def liftS_def whenS_def thenS_def)

lemma bindS_Inr [op_simps]: "m s = (s', Inr x) \<Longrightarrow> bindS m f s = f x s'"
  by (simp add: bindS_def)

lemma bindS_Inl [op_simps]: "m s = (s', Inl e) \<Longrightarrow> bindS m f s = (s', Inl e)"
  by (simp add: bindS_def)

lemma bindS_ret [op_simps]:
  "bindS (retS x) f = f x" "bindS (throwS e) f = throwS e" "bindS (getS g) f s = f (g s) s"
  "bindS (putS h) f s = f () (h s)"
  by (auto simp: bindS_def retS_def throwS_def getS_def putS_def)

lemma bindS_assoc: "bindS (bindS m f) g = bindS m (\<lambda>x. bindS (f x) g)"
  by (rule ext) (simp add: bindS_def split: prod.splits sum.splits)

lemma transaction_Inl: "snd (transaction m s) = Inl e \<Longrightarrow> fst (transaction m s) = s"
  by (auto simp: transaction_def split: prod.splits sum.splits)

lemma transaction_Inr [op_simps]: "m s = (s', Inr x) \<Longrightarrow> transaction m s = (s', Inr x)"
  by (simp add: transaction_def)

lemma transaction_throw [op_simps]: "m s = (s', Inl e) \<Longrightarrow> transaction m s = (s, Inl e)"
  by (simp add: transaction_def)

text \<open>A successful run of a sequence is made of successful runs of its parts.\<close>

named_theorems op_elims \<open>analysis of a successful operation\<close>

lemma bindS_success [op_elims]:
  "bindS m f s = (s', Inr y) \<longleftrightarrow> (\<exists>s1 x. m s = (s1, Inr x) \<and> f x s1 = (s', Inr y))"
  by (auto simp: bindS_def split: prod.splits sum.splits)

lemma thenS_success [op_elims]:
  "thenS m k s = (s', Inr y) \<longleftrightarrow> (\<exists>s1 x. m s = (s1, Inr x) \<and> k s1 = (s', Inr y))"
  by (simp add: thenS_def bindS_success)

lemma basic_success [op_elims]:
  "retS x s = (s', r) \<longleftrightarrow> s' = s \<and> r = Inr x"
  "throwS e s = (s', r) \<longleftrightarrow> s' = s \<and> r = Inl e"
  "getS f s = (s', r) \<longleftrightarrow> s' = s \<and> r = Inr (f s)"
  "putS g s = (s', r') \<longleftrightarrow> s' = g s \<and> r' = Inr ()"
  by (auto simp: op_rules)

lemma liftS_success [op_elims]: "liftS r s = (s', Inr x) \<longleftrightarrow> r = Inr x \<and> s' = s"
  by (cases r) (auto simp: liftS_def)

lemma transaction_success [op_elims]: "transaction m s = (s', Inr x) \<longleftrightarrow> m s = (s', Inr x)"
  by (auto simp: transaction_def split: prod.splits sum.splits)

lemma transaction_cases:
  "transaction m s = (s', r) \<Longrightarrow> (\<exists>x. r = Inr x \<and> m s = (s', Inr x)) \<or> (\<exists>e. r = Inl e \<and> s' = s)"
  by (auto simp: transaction_def split: prod.splits sum.splits)

text \<open>An invariant that the parts of an operation keep is kept by the operation, thrown or not.\<close>

definition keepsS :: "('s \<Rightarrow> bool) \<Rightarrow> ('s, 'a) op \<Rightarrow> bool" where
  "keepsS P m \<longleftrightarrow> (\<forall>s. P s \<longrightarrow> P (fst (m s)))"

named_theorems keeps_intros \<open>rules for invariants of operations\<close>

lemma keepsS_ret [keeps_intros]: "keepsS P (retS x)"
  and keepsS_throw [keeps_intros]: "keepsS P (throwS e)"
  and keepsS_get [keeps_intros]: "keepsS P (getS f)"
  and keepsS_lift [keeps_intros]: "keepsS P (liftS r)"
  by (simp_all add: keepsS_def op_simps)

lemma keepsS_put: "(\<And>s. P s \<Longrightarrow> P (f s)) \<Longrightarrow> keepsS P (putS f)"
  by (simp add: keepsS_def op_simps)

lemma keepsS_bind [keeps_intros]: "keepsS P m \<Longrightarrow> (\<And>x. keepsS P (f x)) \<Longrightarrow> keepsS P (bindS m f)"
  by (auto simp: keepsS_def bindS_def split: prod.splits sum.splits)

lemma keepsS_then [keeps_intros]: "keepsS P m \<Longrightarrow> keepsS P k \<Longrightarrow> keepsS P (thenS m k)"
  by (simp add: thenS_def keepsS_bind)

lemma keepsS_when [keeps_intros]: "keepsS P m \<Longrightarrow> keepsS P (whenS b m)"
  by (simp add: whenS_def keepsS_ret)

lemma keepsS_transaction [keeps_intros]: "keepsS P m \<Longrightarrow> keepsS P (transaction m)"
  by (auto simp: keepsS_def transaction_def split: prod.splits sum.splits)

lemma keepsS_for [keeps_intros]: "(\<And>x. x \<in> set xs \<Longrightarrow> keepsS P (f x)) \<Longrightarrow> keepsS P (forS xs f)"
  by (induction xs) (auto intro: keeps_intros)

lemma keepsS_atomic:
  "(\<And>s s' x. P s \<Longrightarrow> m s = (s', Inr x) \<Longrightarrow> P s') \<Longrightarrow> keepsS P (transaction m)"
  unfolding keepsS_def using transaction_cases by (metis prod.collapse)

lemma keepsS_if [keeps_intros]: "keepsS P m \<Longrightarrow> keepsS P k \<Longrightarrow> keepsS P (if b then m else k)"
  by simp

section \<open>Strings\<close>

definition js_space :: "char \<Rightarrow> bool" where
  "js_space c = (c \<in> set [CHR 0x09, CHR 0x0A, CHR 0x0B, CHR 0x0C, CHR 0x0D, CHR '' '', CHR 0xA0])"

definition trim :: "string \<Rightarrow> string" where
  "trim s = rev (dropWhile js_space (rev (dropWhile js_space s)))"

text \<open>\<open>toLowerCase\<close> and \<open>toUpperCase\<close> of one code unit (Latin-1: the ASCII letters and the
  accented ones, without the multiplication and division signs; the three code units whose
  capital lies outside the alphabet or is two letters keep their value).\<close>

definition lower_char :: "char \<Rightarrow> char" where
  "lower_char c = (let n = (of_char c :: nat) in
     if (65 \<le> n \<and> n \<le> 90) \<or> (192 \<le> n \<and> n \<le> 222 \<and> n \<noteq> 215) then char_of (n + 32) else c)"

definition upper_char :: "char \<Rightarrow> char" where
  "upper_char c = (let n = (of_char c :: nat) in
     if (97 \<le> n \<and> n \<le> 122) \<or> (224 \<le> n \<and> n \<le> 254 \<and> n \<noteq> 247) then char_of (n - 32) else c)"

definition toLowerCase :: "string \<Rightarrow> string" where
  "toLowerCase s = map lower_char s"

fun startsWith :: "string \<Rightarrow> string \<Rightarrow> bool" where
  "startsWith s [] = True"
| "startsWith [] (p # ps) = False"
| "startsWith (c # cs) (p # ps) = (c = p \<and> startsWith cs ps)"

fun str_includes :: "string \<Rightarrow> string \<Rightarrow> bool" where
  "str_includes [] t = (t = [])"
| "str_includes (c # cs) t = (startsWith (c # cs) t \<or> str_includes cs t)"

text \<open>\<open>split\<close> at a one-character separator; \<open>split(sep, n)\<close> keeps the first \<open>n\<close> pieces.\<close>

fun split_on :: "char \<Rightarrow> string \<Rightarrow> string list" where
  "split_on c [] = [[]]"
| "split_on c (x # xs) =
     (if x = c then [] # split_on c xs
      else (case split_on c xs of [] \<Rightarrow> [[x]] | p # ps \<Rightarrow> (x # p) # ps))"

definition split_limit :: "char \<Rightarrow> nat \<Rightarrow> string \<Rightarrow> string list" where
  "split_limit c n s = take n (split_on c s)"

fun join :: "string \<Rightarrow> string list \<Rightarrow> string" where
  "join sep [] = []"
| "join sep [x] = x"
| "join sep (x # y # ys) = x @ sep @ join sep (y # ys)"

text \<open>\<open>slice(0, n)\<close> is \<open>take n\<close>; \<open>slice(-n)\<close> keeps the last \<open>n\<close> code units.\<close>

definition slice_last :: "nat \<Rightarrow> 'a list \<Rightarrow> 'a list" where
  "slice_last n s = drop (length s - n) s"

text \<open>A string is truthy when it is not empty; \<open>undefined\<close> and \<open>null\<close> are falsy.\<close>

definition truthy :: "string option \<Rightarrow> bool" where
  "truthy v = (case v of None \<Rightarrow> False | Some s \<Rightarrow> s \<noteq> [])"

definition or_undefined :: "string \<Rightarrow> string option" where
  "or_undefined s = (if s = [] then None else Some s)"

text \<open>\<open>a ?? b\<close>.\<close>

definition nullish :: "'a option \<Rightarrow> 'a \<Rightarrow> 'a" where
  "nullish a b = (case a of None \<Rightarrow> b | Some x \<Rightarrow> x)"

definition orElse :: "'a option \<Rightarrow> 'a option \<Rightarrow> 'a option" where
  "orElse a b = (case a of None \<Rightarrow> b | Some x \<Rightarrow> Some x)"

lemma nullish_simps [simp]: "nullish None b = b" "nullish (Some x) b = x"
  by (simp_all add: nullish_def)

lemma orElse_simps [simp]: "orElse None b = b" "orElse (Some x) b = Some x"
  by (simp_all add: orElse_def)

lemma truthy_simps [simp]: "\<not> truthy None" "truthy (Some s) \<longleftrightarrow> s \<noteq> []"
  by (simp_all add: truthy_def)

lemma truthy_obtain: "truthy v \<Longrightarrow> \<exists>s. v = Some s \<and> s \<noteq> []"
  by (cases v) auto

lemma or_undefined_eq [simp]:
  "or_undefined s = None \<longleftrightarrow> s = []"
  "or_undefined s = Some t \<longleftrightarrow> s = t \<and> s \<noteq> []"
  by (auto simp: or_undefined_def)

lemma split_on_not_Nil [simp]: "split_on c s \<noteq> []"
  by (induction s) (auto split: list.splits)

lemma split_on_Cons: "\<exists>p ps. split_on c s = p # ps"
  by (cases "split_on c s") auto

lemma split_on_no_sep: "p \<in> set (split_on c s) \<Longrightarrow> c \<notin> set p"
proof (induction s arbitrary: p)
  case (Cons x xs)
  then show ?case by (auto split: if_splits list.splits)
qed simp

lemma join_Cons: "ps \<noteq> [] \<Longrightarrow> join sep (p # ps) = p @ sep @ join sep ps"
  by (cases ps) auto

lemma join_prepend: "join sep ((x # p) # ps) = x # join sep (p # ps)"
  by (cases ps) auto

lemma join_split_on: "join [c] (split_on c s) = s"
proof (induction s)
  case (Cons x xs)
  obtain p ps where s: "split_on c xs = p # ps" using split_on_Cons by blast
  show ?case
    using Cons s by (auto simp: join_prepend)
qed simp

lemma split_on_plain: "c \<notin> set s \<Longrightarrow> split_on c s = [s]"
  by (induction s) auto

lemma split_on_append_sep: "c \<notin> set p \<Longrightarrow> split_on c (p @ c # s) = p # split_on c s"
  by (induction p) auto

lemma split_on_join:
  "ps \<noteq> [] \<Longrightarrow> (\<And>p. p \<in> set ps \<Longrightarrow> c \<notin> set p) \<Longrightarrow> split_on c (join [c] ps) = ps"
proof (induction ps)
  case (Cons p ps)
  show ?case
  proof (cases "ps = []")
    case True
    with Cons.prems show ?thesis by (simp add: split_on_plain)
  next
    case False
    with Cons show ?thesis by (simp add: join_Cons split_on_append_sep)
  qed
qed simp

lemma startsWith_iff: "startsWith s p \<longleftrightarrow> (\<exists>t. s = p @ t)"
  by (induction s p rule: startsWith.induct) auto

lemma str_includes_iff: "str_includes s t \<longleftrightarrow> (\<exists>u v. s = u @ t @ v)"
proof (induction s)
  case (Cons c cs)
  show ?case
  proof
    assume "str_includes (c # cs) t"
    then consider "startsWith (c # cs) t" | "str_includes cs t" by auto
    then show "\<exists>u v. c # cs = u @ t @ v"
    proof cases
      case 1
      then obtain v where "c # cs = [] @ t @ v" by (auto simp: startsWith_iff)
      then show ?thesis by blast
    next
      case 2
      with Cons obtain u v where "cs = u @ t @ v" by blast
      then have "c # cs = (c # u) @ t @ v" by simp
      then show ?thesis by blast
    qed
  next
    assume "\<exists>u v. c # cs = u @ t @ v"
    then obtain u v where e: "c # cs = u @ t @ v" by blast
    show "str_includes (c # cs) t"
    proof (cases u)
      case Nil
      with e have "startsWith (c # cs) t" by (auto simp: startsWith_iff)
      then show ?thesis by simp
    next
      case (Cons a u')
      with e have "\<exists>u v. cs = u @ t @ v" by auto
      with \<open>str_includes cs t \<longleftrightarrow> (\<exists>u v. cs = u @ t @ v)\<close> show ?thesis by simp
    qed
  qed
qed auto

lemma trim_subset: "set (trim s) \<subseteq> set s"
proof -
  have "set (dropWhile P xs) \<subseteq> set xs" for P and xs :: string
    by (metis set_dropWhileD subsetI)
  then show ?thesis unfolding trim_def by (metis set_rev subset_trans)
qed

lemma trim_trim: "trim (trim s) = trim s"
proof -
  let ?u = "dropWhile js_space s"
  let ?t = "rev (dropWhile js_space (rev ?u))"
  obtain v where u: "?u = ?t @ v" using takeWhile_dropWhile_id [of js_space "rev ?u"] by (metis rev_append rev_rev_ident)
  have "dropWhile js_space ?t = ?t"
  proof (cases ?t)
    case (Cons c cs)
    with u have "?u \<noteq> []" "hd ?u = c" by auto
    then have "\<not> js_space c" using hd_dropWhile by metis
    then show ?thesis using Cons by simp
  next
    case Nil
    then show ?thesis by (simp only: dropWhile.simps)
  qed
  then have "trim ?t = rev (dropWhile js_space (rev ?t))" by (simp only: trim_def)
  also have "\<dots> = ?t" by simp
  finally show ?thesis by (simp only: trim_def [of s])
qed

section \<open>Insertion-ordered sets\<close>

text \<open>\<open>Array.from(new Set(xs))\<close>: the first occurrence of each element, in order.\<close>

fun uniq :: "'a list \<Rightarrow> 'a list" where
  "uniq [] = []"
| "uniq (x # xs) = x # filter (\<lambda>y. y \<noteq> x) (uniq xs)"

lemma set_uniq [simp]: "set (uniq xs) = set xs"
  by (induction xs) auto

lemma distinct_uniq [simp]: "distinct (uniq xs)"
  by (induction xs) auto

lemma uniq_distinct: "distinct xs \<Longrightarrow> uniq xs = xs"
proof (induction xs)
  case (Cons x xs)
  then have "filter (\<lambda>y. y \<noteq> x) xs = xs" by (auto intro: filter_True)
  with Cons show ?case by simp
qed simp

section \<open>Tables\<close>

text \<open>A table is a list of rows; a unique column makes \<open>find\<close> a lookup.\<close>

lemma find_unique: "distinct (map k xs) \<Longrightarrow> x \<in> set xs \<Longrightarrow> find (\<lambda>y. k y = k x) xs = Some x"
  by (induction xs) auto

lemma find_map_preserving: "(\<And>x. P (f x) = P x) \<Longrightarrow> find P (map f xs) = map_option f (find P xs)"
  by (induction xs) auto

lemma find_SomeD: "find P xs = Some x \<Longrightarrow> x \<in> set xs \<and> P x"
  by (induction xs) (auto split: if_splits)

lemma find_None_iff_all: "find P xs = None \<longleftrightarrow> (\<forall>x \<in> set xs. \<not> P x)"
  by (induction xs) auto

lemma distinct_key_eq: "distinct (map k xs) \<Longrightarrow> x \<in> set xs \<Longrightarrow> y \<in> set xs \<Longrightarrow> k x = k y \<Longrightarrow> x = y"
  by (metis distinct_map inj_onD)

lemma find_append: "find P (xs @ ys) = (case find P xs of None \<Rightarrow> find P ys | Some x \<Rightarrow> Some x)"
  by (induction xs) auto

lemma find_append_new: "(\<And>x. x \<in> set xs \<Longrightarrow> \<not> P x) \<Longrightarrow> P y \<Longrightarrow> find P (xs @ [y]) = Some y"
  by (induction xs) auto

lemma filter_map_update: "(\<And>x. P (f x) = P x) \<Longrightarrow> filter P (map f xs) = map f (filter P xs)"
  by (induction xs) auto

section \<open>Sorting with a comparator\<close>

text \<open>
  \<open>xs.sort(cmp)\<close> is a stable sort. For a consistent comparator its result is determined, and
  insertion computes it; for a comparator \<open>f a - f b\<close> it is \<open>sort_key f\<close>.
\<close>

fun insert_by :: "('a \<Rightarrow> 'a \<Rightarrow> int) \<Rightarrow> 'a \<Rightarrow> 'a list \<Rightarrow> 'a list" where
  "insert_by cmp x [] = [x]"
| "insert_by cmp x (y # ys) = (if cmp x y \<le> 0 then x # y # ys else y # insert_by cmp x ys)"

fun sort_by :: "('a \<Rightarrow> 'a \<Rightarrow> int) \<Rightarrow> 'a list \<Rightarrow> 'a list" where
  "sort_by cmp [] = []"
| "sort_by cmp (x # xs) = insert_by cmp x (sort_by cmp xs)"

lemma set_insert_by [simp]: "set (insert_by cmp x ys) = insert x (set ys)"
  by (induction ys) auto

lemma set_sort_by [simp]: "set (sort_by cmp xs) = set xs"
  by (induction xs) auto

lemma length_insert_by [simp]: "length (insert_by cmp x ys) = Suc (length ys)"
  by (induction ys) auto

lemma length_sort_by [simp]: "length (sort_by cmp xs) = length xs"
  by (induction xs) auto

lemma distinct_insert_by [simp]: "distinct (insert_by cmp x ys) \<longleftrightarrow> x \<notin> set ys \<and> distinct ys"
  by (induction ys) auto

lemma distinct_sort_by [simp]: "distinct (sort_by cmp xs) = distinct xs"
  by (induction xs) auto

lemma insert_by_key: "insert_by (\<lambda>a b. f a - f b) x ys = insort_key f x ys"
  by (induction ys) auto

lemma sort_by_key: "sort_by (\<lambda>a b. f a - f b) xs = sort_key f xs"
  by (induction xs) (auto simp: insert_by_key)

lemma insert_by_cong:
  "(\<And>y. y \<in> set ys \<Longrightarrow> (cmp x y \<le> 0) = (cmp' x y \<le> 0)) \<Longrightarrow> insert_by cmp x ys = insert_by cmp' x ys"
  by (induction ys) auto

lemma map_insort_key:
  "(\<And>x. k' (f x) = k x) \<Longrightarrow> map f (insort_key k x xs) = insort_key k' (f x) (map f xs)"
  by (induction xs) auto

lemma map_sort_key:
  assumes "\<And>x. k' (f x) = k x"
  shows "map f (sort_key k xs) = sort_key k' (map f xs)"
  by (induction xs) (simp_all add: map_insort_key [of k' f k, OF assms])

lemma sort_key_sorted: "sorted (map k xs) \<Longrightarrow> sort_key k xs = xs"
  by (induction xs) (auto simp: insort_is_Cons)

lemma sort_key_idem [simp]: "sort_key k (sort_key k xs) = sort_key k xs"
  by (rule sort_key_sorted) simp

lemma sort_by_distinct_key:
  assumes "distinct (map k xs)" and "\<And>x y. k x \<noteq> k y \<Longrightarrow> (cmp x y \<le> 0) = (k x \<le> (k y :: int))"
  shows "sort_by cmp xs = sort_key k xs"
  using assms(1)
proof (induction xs)
  case (Cons x xs)
  have "insert_by cmp x (sort_key k xs) = insert_by (\<lambda>a b. k a - k b) x (sort_key k xs)"
  proof (rule insert_by_cong)
    fix y
    assume "y \<in> set (sort_key k xs)"
    then have "k x \<noteq> k y" using Cons.prems by auto
    then show "(cmp x y \<le> 0) = (k x - k y \<le> 0)" using assms(2) by simp
  qed
  then show ?case using Cons by (simp add: insert_by_key)
qed simp

section \<open>JSON values\<close>

text \<open>
  A value of type \<open>unknown\<close> that came out of \<open>JSON.parse\<close> or a database \<open>Json\<close> column, and the
  numbers of the language: a finite double (its exact rational value), or one of the three
  values that are not finite. The two zeros are one value: no code of the model tells them apart.
\<close>

datatype jsnum = Fin rat | NaN | PosInf | NegInf

datatype json =
    JNull
  | JBool bool
  | JNum jsnum
  | JStr string
  | JArr "json list"
  | JObj "(string \<times> json) list"

definition num_is_integer :: "jsnum \<Rightarrow> bool" where
  "num_is_integer n = (case n of Fin q \<Rightarrow> snd (quotient_of q) = 1 | _ \<Rightarrow> False)"

definition num_is_finite :: "jsnum \<Rightarrow> bool" where
  "num_is_finite n = (case n of Fin _ \<Rightarrow> True | _ \<Rightarrow> False)"

text \<open>The integer a finite integral number stands for.\<close>

definition num_to_int :: "jsnum \<Rightarrow> int" where
  "num_to_int n = (case n of Fin q \<Rightarrow> \<lfloor>q\<rfloor> | _ \<Rightarrow> 0)"

text \<open>Which values an \<open>if\<close> takes for true.\<close>

definition json_truthy :: "json \<Rightarrow> bool" where
  "json_truthy v = (case v of JNull \<Rightarrow> False | JBool b \<Rightarrow> b | JNum n \<Rightarrow> n \<noteq> Fin 0 \<and> n \<noteq> NaN | JStr s \<Rightarrow> s \<noteq> [] | _ \<Rightarrow> True)"

fun json_is_string :: "json \<Rightarrow> bool" where
  "json_is_string (JStr _) = True"
| "json_is_string _ = False"

text \<open>\<open>x?.trim()\<close> of a value that is neither a string nor missing throws.\<close>

definition trim_field ::
  "(string \<times> json) list \<Rightarrow> string \<Rightarrow> string option result" where
  "trim_field raw key = (case map_of raw key of
     None \<Rightarrow> Inr None
   | Some JNull \<Rightarrow> Inr None
   | Some (JStr s) \<Rightarrow> Inr (Some (trim s))
   | Some _ \<Rightarrow> Inl (JsError ''trim is not a function''))"

text \<open>\<open>isStringArray\<close>, as \<open>Some\<close> of the strings when the check succeeds.\<close>

fun json_strings :: "json list \<Rightarrow> string list option" where
  "json_strings [] = Some []"
| "json_strings (JStr s # xs) = map_option (\<lambda>ss. s # ss) (json_strings xs)"
| "json_strings (_ # xs) = None"

lemma json_strings_Some: "json_strings xs = Some ss \<Longrightarrow> xs = map JStr ss"
  by (induction xs arbitrary: ss rule: json_strings.induct) auto

lemma json_strings_map [simp]: "json_strings (map JStr ss) = Some ss"
  by (induction ss) auto

lemma num_is_integer_of_int [simp]: "num_is_integer (Fin (of_int k))"
  by (simp add: num_is_integer_def)

lemma num_to_int_of_int [simp]: "num_to_int (Fin (of_int k)) = k"
  by (simp add: num_to_int_def)

section \<open>Dates\<close>

definition ms_per_day :: int where
  "ms_per_day = 86400000"

text \<open>Decimal digits, as \<open>String\<close> of an integer prints them.\<close>

function show_digits :: "int \<Rightarrow> string" where
  "show_digits n =
     (if n < 10 then [char_of (48 + n)] else show_digits (n div 10) @ [char_of (48 + n mod 10)])"
  by pat_completeness auto
termination
  by (relation "measure nat") auto

declare show_digits.simps [simp del]

definition show_int :: "int \<Rightarrow> string" where
  "show_int i = (if i < 0 then CHR ''-'' # show_digits (- i) else show_digits i)"

definition pad :: "nat \<Rightarrow> int \<Rightarrow> string" where
  "pad w n = (let s = show_digits n in replicate (w - length s) (CHR ''0'') @ s)"

text \<open>The proleptic Gregorian date of a day number counted from 1970-01-01.\<close>

definition civil_from_days :: "int \<Rightarrow> int \<times> int \<times> int" where
  "civil_from_days d =
     (let z = d + 719468;
          era = z div 146097;
          doe = z mod 146097;
          cent = min 3 (doe div 36524);
          doc = doe - 36524 * cent;
          quad = doc div 1461;
          doq = doc mod 1461;
          yoq = min 3 (doq div 365);
          doy = doq - 365 * yoq;
          mp = (5 * doy + 2) div 153;
          day = doy - (153 * mp + 2) div 5 + 1;
          month = (if mp < 10 then mp + 3 else mp - 9);
          year = 400 * era + 100 * cent + 4 * quad + yoq + (if month \<le> 2 then 1 else 0)
      in (year, month, day))"

text \<open>\<open>toISOString\<close>: four digits for the years 0 to 9999, a sign and six digits for the others.\<close>

definition iso_year :: "int \<Rightarrow> string" where
  "iso_year y = (if 0 \<le> y \<and> y \<le> 9999 then pad 4 y
     else if 0 \<le> y then CHR ''+'' # pad 6 y else CHR ''-'' # pad 6 (- y))"

definition toISOString :: "int \<Rightarrow> string" where
  "toISOString t =
     (let (y, m, d) = civil_from_days (t div ms_per_day);
          r = t mod ms_per_day
      in iso_year y @ ''-'' @ pad 2 m @ ''-'' @ pad 2 d @ ''T''
         @ pad 2 (r div 3600000) @ '':'' @ pad 2 (r div 60000 mod 60) @ '':''
         @ pad 2 (r div 1000 mod 60) @ ''.'' @ pad 3 (r mod 1000) @ ''Z'')"

end
