(* ===== verification/JsNumber.thy ===== *)
theory JsNumber
  imports Prelude "HOL-Library.Log_Nat"
begin

text \<open>
  The numbers of the language: IEEE-754 binary64 values under round-to-nearest-even. A finite
  double is kept as its exact rational value; \<open>fl\<close> rounds an exact result to the nearest double
  and \<open>num_of_rat\<close> turns an overflow into an infinity, so every operation of the source is one
  exact rational operation followed by one rounding, as the standard prescribes. The conversion
  \<open>Number(s)\<close> of a string and the \<open>Math\<close> functions the source calls are here too.
\<close>

section \<open>Powers of two\<close>

definition pw :: "int \<Rightarrow> rat" where
  "pw k = (if 0 \<le> k then 2 ^ nat k else 1 / 2 ^ nat (- k))"

lemma pw_powi: "pw k = 2 powi k"
  by (simp add: pw_def power_int_def field_simps)

lemma pw_pos [simp]: "0 < pw k"
  by (simp add: pw_def)

lemma pw_nonzero [simp]: "pw k \<noteq> 0"
  by (metis less_irrefl pw_pos)

lemma pw_nonneg [simp]: "0 \<le> pw k"
  by (rule less_imp_le [OF pw_pos])

lemma pw_add: "pw (a + b) = pw a * pw b"
  by (simp add: pw_powi power_int_add)

lemma pw_mono: "a \<le> b \<Longrightarrow> pw a \<le> pw b"
  by (simp add: pw_powi power_int_increasing)

lemma pw_strict_mono: "a < b \<Longrightarrow> pw a < pw b"
  by (simp add: pw_powi power_int_strict_increasing)

lemma pw_le_iff [simp]: "pw a \<le> pw b \<longleftrightarrow> a \<le> b"
  using pw_mono pw_strict_mono by (meson linorder_not_le)

lemma pw_nat: "0 \<le> k \<Longrightarrow> pw k = of_int (2 ^ nat k)"
  by (simp add: pw_def)

lemma pw_minus: "pw (- k) = 1 / pw k"
  using pw_add [of k "- k"] by (simp add: pw_def field_simps split: if_splits)

section \<open>The exponent of a positive rational\<close>

definition expo :: "rat \<Rightarrow> int" where
  "expo x = (let (p, q) = quotient_of x; k = bitlen p - bitlen q in if pw k \<le> x then k else k - 1)"

lemma expo_bounds:
  assumes "0 < x"
  shows "pw (expo x) \<le> x" and "x < pw (expo x + 1)"
proof -
  obtain p q where pq: "quotient_of x = (p, q)" by force
  have q: "0 < q" using quotient_of_denom_pos [OF pq] .
  have x: "x = of_int p / of_int q" using quotient_of_div [OF pq] .
  have p: "0 < p" using assms q by (simp add: x zero_less_divide_iff)
  define k where "k = bitlen p - bitlen q"
  have bp: "2 ^ nat (bitlen p - 1) \<le> p" "p < 2 ^ nat (bitlen p)"
    using bitlen_bounds [OF p] by auto
  have bq: "2 ^ nat (bitlen q - 1) \<le> q" "q < 2 ^ nat (bitlen q)"
    using bitlen_bounds [OF q] by auto
  have lp: "1 \<le> bitlen p" and lq: "1 \<le> bitlen q"
    using p q by (simp_all add: bitlen_eq_zero_iff bitlen_nonneg int_one_le_iff_zero_less order_less_le)
  have P: "pw (bitlen p - 1) \<le> of_int p" "of_int p < pw (bitlen p)"
    using bp lp by (simp_all add: pw_nat del: of_int_power)
  have Q: "pw (bitlen q - 1) \<le> of_int q" "of_int q < pw (bitlen q)"
    using bq lq by (simp_all add: pw_nat del: of_int_power)
  have up: "x < pw (k + 1)"
  proof -
    have "of_int p < pw (k + 1) * pw (bitlen q - 1)"
      using P(2) by (simp add: k_def flip: pw_add)
    also have "\<dots> \<le> pw (k + 1) * of_int q"
      using Q(1) by (simp add: mult_left_mono)
    finally show ?thesis using q by (simp add: x divide_less_eq)
  qed
  have lo: "pw (k - 1) \<le> x"
  proof -
    have "pw (k - 1) * of_int q \<le> pw (k - 1) * pw (bitlen q)"
      using Q(2) by (simp add: mult_left_mono)
    also have "\<dots> = pw (bitlen p - 1)" by (simp add: k_def flip: pw_add)
    also have "\<dots> \<le> of_int p" by (rule P(1))
    finally show ?thesis using q by (simp add: x le_divide_eq)
  qed
  have e: "expo x = (if pw k \<le> x then k else k - 1)"
    by (simp add: expo_def pq k_def)
  show "pw (expo x) \<le> x" using lo by (simp add: e)
  show "x < pw (expo x + 1)" using up by (simp add: e)
qed

lemma expo_unique:
  assumes "pw e \<le> x" and "x < pw (e + 1)"
  shows "expo x = e"
proof -
  have x: "0 < x" using assms(1) pw_pos [of e] by (rule less_le_trans [rotated])
  have "pw e < pw (expo x + 1)" using assms(1) expo_bounds(2) [OF x] by simp
  moreover have "pw (expo x) < pw (e + 1)" using expo_bounds(1) [OF x] assms(2) by simp
  ultimately show ?thesis by (simp add: not_le [symmetric])
qed

lemma expo_mono: "0 < x \<Longrightarrow> x \<le> y \<Longrightarrow> expo x \<le> expo y"
proof -
  assume x: "0 < x" and xy: "x \<le> y"
  have "pw (expo x) < pw (expo y + 1)"
    using expo_bounds(1) [OF x] expo_bounds(2) [of y] x xy by simp
  then show ?thesis by (simp add: not_le [symmetric])
qed

section \<open>Rounding\<close>

definition rne :: "rat \<Rightarrow> int" where
  "rne x = (let f = \<lfloor>x\<rfloor>; r = x - of_int f in
     if r < 1 / 2 then f else if 1 / 2 < r then f + 1 else if even f then f else f + 1)"

lemma rne_of_int [simp]: "rne (of_int n) = n"
  by (simp add: rne_def)

lemma rne_bounds: "\<lfloor>x\<rfloor> \<le> rne x" "rne x \<le> \<lfloor>x\<rfloor> + 1"
  by (auto simp: rne_def Let_def)

lemma rne_error: "\<bar>of_int (rne x) - x\<bar> \<le> 1 / 2"
  using floor_correct [of x] by (auto simp: rne_def Let_def abs_le_iff)

lemma rne_mono: "x \<le> y \<Longrightarrow> rne x \<le> rne y"
proof -
  assume xy: "x \<le> y"
  then have fl: "\<lfloor>x\<rfloor> \<le> \<lfloor>y\<rfloor>" by (rule floor_mono)
  show ?thesis
  proof (cases "\<lfloor>x\<rfloor> = \<lfloor>y\<rfloor>")
    case True
    with xy show ?thesis by (auto simp: rne_def Let_def)
  next
    case False
    with fl have "\<lfloor>x\<rfloor> + 1 \<le> \<lfloor>y\<rfloor>" by simp
    with rne_bounds [of x] rne_bounds [of y] show ?thesis by linarith
  qed
qed

text \<open>The exponent of the last place of a positive double: subnormal numbers share the smallest.\<close>

definition ulp_exp :: "rat \<Rightarrow> int" where
  "ulp_exp x = max (expo x - 52) (- 1074)"

definition fl_pos :: "rat \<Rightarrow> rat" where
  "fl_pos x = of_int (rne (x / pw (ulp_exp x))) * pw (ulp_exp x)"

definition fl :: "rat \<Rightarrow> rat" where
  "fl x = (if x = 0 then 0 else if 0 < x then fl_pos x else - fl_pos (- x))"

lemma fl_0 [simp]: "fl 0 = 0"
  by (simp add: fl_def)

lemma fl_minus [simp]: "fl (- x) = - fl x"
  by (auto simp: fl_def)

lemma fl_pos_nonneg: "0 < x \<Longrightarrow> 0 \<le> fl_pos x"
proof -
  assume "0 < x"
  then have "0 \<le> \<lfloor>x / pw (ulp_exp x)\<rfloor>" by simp
  then have "0 \<le> rne (x / pw (ulp_exp x))" using rne_bounds(1) by (rule order_trans)
  then show ?thesis by (simp add: fl_pos_def)
qed

text \<open>Rounding never leaves a binade: a power of two on the grid bounds it from both sides.\<close>

lemma pw_diff_int: "u \<le> k \<Longrightarrow> pw k / pw u = of_int (2 ^ nat (k - u))"
  using pw_add [of "k - u" u] by (simp add: pw_nat field_simps)

lemma fl_pos_le_pw:
  assumes "0 < x" and "x \<le> pw k" and "ulp_exp x \<le> k"
  shows "fl_pos x \<le> pw k"
proof -
  let ?u = "ulp_exp x"
  have "x / pw ?u \<le> pw k / pw ?u" using assms(2) by (simp add: divide_right_mono)
  also have "\<dots> = of_int (2 ^ nat (k - ?u))" by (rule pw_diff_int [OF assms(3)])
  finally have "rne (x / pw ?u) \<le> 2 ^ nat (k - ?u)"
    using rne_mono rne_of_int by metis
  then have "of_int (rne (x / pw ?u)) * pw ?u \<le> of_int (2 ^ nat (k - ?u)) * pw ?u"
    by (intro mult_right_mono) (simp_all only: of_int_le_iff pw_nonneg)
  also have "\<dots> = pw k" using pw_diff_int [OF assms(3)] by (simp add: field_simps del: of_int_power)
  finally show ?thesis by (simp add: fl_pos_def)
qed

lemma fl_pos_ge_pw:
  assumes "0 < x" and "pw k \<le> x" and "ulp_exp x \<le> k"
  shows "pw k \<le> fl_pos x"
proof -
  let ?u = "ulp_exp x"
  have "of_int (2 ^ nat (k - ?u)) = pw k / pw ?u" by (rule pw_diff_int [OF assms(3), symmetric])
  also have "\<dots> \<le> x / pw ?u" using assms(2) by (simp add: divide_right_mono)
  finally have "2 ^ nat (k - ?u) \<le> rne (x / pw ?u)"
    using rne_mono rne_of_int by metis
  then have "of_int (2 ^ nat (k - ?u)) * pw ?u \<le> of_int (rne (x / pw ?u)) * pw ?u"
    by (intro mult_right_mono) (simp_all only: of_int_le_iff pw_nonneg)
  moreover have "of_int (2 ^ nat (k - ?u)) * pw ?u = pw k"
    using pw_diff_int [OF assms(3)] by (simp add: field_simps del: of_int_power)
  ultimately show ?thesis unfolding fl_pos_def by (simp only:)
qed

lemma fl_pos_mono:
  assumes "0 < x" and "x \<le> y"
  shows "fl_pos x \<le> fl_pos y"
proof (cases "ulp_exp x = ulp_exp y")
  case True
  have "rne (x / pw (ulp_exp x)) \<le> rne (y / pw (ulp_exp x))"
    using assms(2) by (intro rne_mono) (simp add: divide_right_mono)
  then show ?thesis by (simp add: fl_pos_def True mult_right_mono)
next
  case False
  have le: "expo x \<le> expo y" by (rule expo_mono [OF assms])
  with False have lt: "expo x < expo y" and u: "ulp_exp x \<le> expo y" "ulp_exp y \<le> expo y"
    by (auto simp: ulp_exp_def max_def split: if_splits)
  have y: "0 < y" using assms by simp
  have "x \<le> pw (expo y)"
  proof -
    have "pw (expo x + 1) \<le> pw (expo y)" using lt by simp
    with expo_bounds(2) [OF assms(1)] show ?thesis by linarith
  qed
  then have "fl_pos x \<le> pw (expo y)" by (rule fl_pos_le_pw [OF assms(1) _ u(1)])
  also have "\<dots> \<le> fl_pos y" by (rule fl_pos_ge_pw [OF y expo_bounds(1) [OF y] u(2)])
  finally show ?thesis .
qed

lemma fl_nonneg: "0 \<le> x \<Longrightarrow> 0 \<le> fl x"
  using fl_pos_nonneg by (auto simp: fl_def)

lemma fl_nonpos: "x \<le> 0 \<Longrightarrow> fl x \<le> 0"
  using fl_nonneg [of "- x"] by simp

lemma fl_mono: "x \<le> y \<Longrightarrow> fl x \<le> fl y"
proof -
  assume xy: "x \<le> y"
  consider "0 < x" | "x \<le> 0" "0 \<le> y" | "y < 0" by linarith
  then show ?thesis
  proof cases
    case 1
    with xy show ?thesis by (simp add: fl_def fl_pos_mono)
  next
    case 2
    then show ?thesis using fl_nonneg [of y] fl_nonpos [of x] by simp
  next
    case 3
    with xy show ?thesis using fl_pos_mono [of "- y" "- x"] by (simp add: fl_def)
  qed
qed

text \<open>Every value on the grid of its own binade is a double; rounding keeps it.\<close>

lemma fl_exact:
  assumes "x = of_int n * pw u" and "x \<noteq> 0" and "ulp_exp \<bar>x\<bar> \<le> u"
  shows "fl x = x"
proof -
  have pos: "fl_pos y = y" if y: "y = of_int m * pw u" "0 < y" "ulp_exp y \<le> u" for y m
  proof -
    have "y / pw (ulp_exp y) = of_int m * (pw u / pw (ulp_exp y))" using y(1) by simp
    also have "\<dots> = of_int (m * 2 ^ nat (u - ulp_exp y))"
      by (simp only: pw_diff_int [OF y(3)] of_int_mult)
    finally have i: "y / pw (ulp_exp y) = of_int (m * 2 ^ nat (u - ulp_exp y))" .
    then have "fl_pos y = y / pw (ulp_exp y) * pw (ulp_exp y)"
      by (simp only: fl_pos_def rne_of_int)
    then show ?thesis by simp
  qed
  show ?thesis
  proof (cases "0 < x")
    case True
    then show ?thesis using pos [of x n] assms by (simp add: fl_def)
  next
    case False
    then show ?thesis using pos [of "- x" "- n"] assms by (simp add: fl_def)
  qed
qed

lemma fl_of_int [simp]:
  assumes "\<bar>n\<bar> \<le> 2 ^ 53"
  shows "fl (of_int n) = of_int n"
proof (cases "n = 0 \<or> \<bar>n\<bar> = 2 ^ 53")
  case True
  have e: "expo (2 ^ 53) = 53"
    by (rule expo_unique) (simp_all add: pw_def)
  show ?thesis
  proof (cases "n = 0")
    case False
    with True have n: "\<bar>n\<bar> = 2 ^ 53" by simp
    have "\<bar>rat_of_int n\<bar> = 2 ^ 53" using n by (metis of_int_abs of_int_numeral of_int_power)
    then have u: "ulp_exp \<bar>rat_of_int n\<bar> = 1" by (simp only: ulp_exp_def e)
    have "n = 9007199254740992 \<or> n = - 9007199254740992" using n by auto
    then have "n = (n div 2) * 2" by auto
    then have r: "rat_of_int n = of_int (n div 2) * pw 1"
      by (simp add: pw_def)
    show ?thesis using False by (intro fl_exact [OF r]) (simp_all add: u)
  qed simp
next
  case False
  with assms have n: "n \<noteq> 0" "\<bar>n\<bar> < 2 ^ 53" by auto
  have pos: "0 < \<bar>rat_of_int n\<bar>" using n by simp
  have "\<bar>rat_of_int n\<bar> < of_int (2 ^ 53)" using n(2) by (metis of_int_abs of_int_less_iff)
  then have "\<bar>rat_of_int n\<bar> < pw 53" by (simp add: pw_def)
  with expo_bounds(1) [OF pos] have "pw (expo \<bar>rat_of_int n\<bar>) < pw 53" by simp
  then have "expo \<bar>rat_of_int n\<bar> < 53" by (simp add: not_le [symmetric])
  then have u: "ulp_exp \<bar>rat_of_int n\<bar> \<le> 0" by (simp add: ulp_exp_def)
  show ?thesis using n by (intro fl_exact [of _ n 0]) (simp_all add: pw_def u)
qed

section \<open>Arithmetic\<close>

definition num_of_rat :: "rat \<Rightarrow> jsnum" where
  "num_of_rat x = (let y = fl x in
     if y = 0 \<or> expo \<bar>y\<bar> < 1024 then Fin y else if 0 < y then PosInf else NegInf)"

definition num_neg :: "jsnum \<Rightarrow> jsnum" where
  "num_neg a = (case a of Fin x \<Rightarrow> Fin (- x) | NaN \<Rightarrow> NaN | PosInf \<Rightarrow> NegInf | NegInf \<Rightarrow> PosInf)"

fun num_add :: "jsnum \<Rightarrow> jsnum \<Rightarrow> jsnum" where
  "num_add (Fin x) (Fin y) = num_of_rat (x + y)"
| "num_add NaN _ = NaN"
| "num_add _ NaN = NaN"
| "num_add PosInf NegInf = NaN"
| "num_add NegInf PosInf = NaN"
| "num_add PosInf _ = PosInf"
| "num_add _ PosInf = PosInf"
| "num_add NegInf _ = NegInf"
| "num_add _ NegInf = NegInf"

text \<open>The sign of a number that is not NaN.\<close>

definition num_sgn :: "jsnum \<Rightarrow> int" where
  "num_sgn a = (case a of Fin x \<Rightarrow> (if 0 < x then 1 else if x < 0 then -1 else 0)
     | PosInf \<Rightarrow> 1 | NegInf \<Rightarrow> -1 | NaN \<Rightarrow> 0)"

definition num_inf :: "int \<Rightarrow> jsnum" where
  "num_inf s = (if 0 < s then PosInf else if s < 0 then NegInf else NaN)"

fun num_mul :: "jsnum \<Rightarrow> jsnum \<Rightarrow> jsnum" where
  "num_mul (Fin x) (Fin y) = num_of_rat (x * y)"
| "num_mul NaN _ = NaN"
| "num_mul _ NaN = NaN"
| "num_mul a b = num_inf (num_sgn a * num_sgn b)"

text \<open>Division; a zero divisor counts as the positive zero.\<close>

fun num_div :: "jsnum \<Rightarrow> jsnum \<Rightarrow> jsnum" where
  "num_div NaN _ = NaN"
| "num_div _ NaN = NaN"
| "num_div (Fin x) (Fin y) = (if y = 0 then num_inf (num_sgn (Fin x)) else num_of_rat (x / y))"
| "num_div (Fin x) _ = Fin 0"
| "num_div a (Fin y) = (if y < 0 then num_neg a else a)"
| "num_div _ _ = NaN"

text \<open>Comparisons: false as soon as one side is NaN.\<close>

fun num_less :: "jsnum \<Rightarrow> jsnum \<Rightarrow> bool" where
  "num_less (Fin x) (Fin y) = (x < y)"
| "num_less NaN _ = False"
| "num_less _ NaN = False"
| "num_less _ NegInf = False"
| "num_less NegInf _ = True"
| "num_less PosInf _ = False"
| "num_less _ PosInf = True"

fun num_le :: "jsnum \<Rightarrow> jsnum \<Rightarrow> bool" where
  "num_le (Fin x) (Fin y) = (x \<le> y)"
| "num_le NaN _ = False"
| "num_le _ NaN = False"
| "num_le NegInf _ = True"
| "num_le _ NegInf = False"
| "num_le _ PosInf = True"
| "num_le PosInf _ = False"

text \<open>\<open>Math.max\<close>, \<open>Math.min\<close>: NaN wins. \<open>Math.round\<close> rounds halves up.\<close>

definition math_max :: "jsnum \<Rightarrow> jsnum \<Rightarrow> jsnum" where
  "math_max a b = (if a = NaN \<or> b = NaN then NaN else if num_less a b then b else a)"

definition math_min :: "jsnum \<Rightarrow> jsnum \<Rightarrow> jsnum" where
  "math_min a b = (if a = NaN \<or> b = NaN then NaN else if num_less b a then b else a)"

definition math_round :: "jsnum \<Rightarrow> jsnum" where
  "math_round a = (case a of Fin x \<Rightarrow> Fin (of_int \<lfloor>x + 1 / 2\<rfloor>) | _ \<Rightarrow> a)"

lemma num_of_rat_Fin:
  assumes "\<bar>x\<bar> < 2 ^ 1023"
  shows "num_of_rat x = Fin (fl x)"
proof -
  have hi: "fl_pos y \<le> pw 1023" if y: "0 < y" "y < 2 ^ 1023" for y
  proof (rule fl_pos_le_pw)
    show "y \<le> pw 1023" using y by (simp add: pw_def)
    then have "pw (expo y) \<le> pw 1023" using expo_bounds(1) [OF y(1)] by linarith
    then show "ulp_exp y \<le> 1023" by (simp add: ulp_exp_def)
  qed (rule y(1))
  have "\<bar>fl x\<bar> \<le> pw 1023"
  proof (cases x "0 :: rat" rule: linorder_cases)
    case less
    then have "fl x = - fl_pos (- x)" by (simp add: fl_def)
    moreover have "fl_pos (- x) \<le> pw 1023" using less assms by (intro hi) simp_all
    moreover have "0 \<le> fl_pos (- x)" using less by (intro fl_pos_nonneg) simp
    ultimately show ?thesis by simp
  next
    case greater
    then have "fl x = fl_pos x" by (simp add: fl_def)
    moreover have "fl_pos x \<le> pw 1023" using greater assms by (intro hi) simp_all
    moreover have "0 \<le> fl_pos x" using greater by (rule fl_pos_nonneg)
    ultimately show ?thesis by simp
  qed simp
  moreover have "pw 1023 < (2 ^ 1024 :: rat)"
    using pw_strict_mono [of 1023 1024] by (simp add: pw_def)
  ultimately have lt: "\<bar>fl x\<bar> < pw 1024" by (simp add: pw_def)
  have "expo \<bar>fl x\<bar> < 1024" if "fl x \<noteq> 0"
  proof -
    have "pw (expo \<bar>fl x\<bar>) \<le> \<bar>fl x\<bar>" using that by (intro expo_bounds) simp
    with lt have "pw (expo \<bar>fl x\<bar>) < pw 1024" by simp
    then show ?thesis by (simp add: not_le [symmetric])
  qed
  then have "fl x = 0 \<or> expo \<bar>fl x\<bar> < 1024" by blast
  then show ?thesis by (simp add: num_of_rat_def Let_def del: abs_eq_0)
qed

section \<open>The conversion of a string to a number\<close>

definition is_digit :: "char \<Rightarrow> bool" where
  "is_digit c = (c \<in> set ''0123456789'')"

definition digit_val :: "char \<Rightarrow> int" where
  "digit_val c = of_char c - 48"

definition digits_val :: "string \<Rightarrow> int" where
  "digits_val ds = fold (\<lambda>c n. 10 * n + digit_val c) ds 0"

text \<open>The value of a digit in base 16, 8 or 2.\<close>

definition radix_val :: "char \<Rightarrow> int" where
  "radix_val c = (let n = of_char (lower_char c) in
     if 48 \<le> n \<and> n \<le> 57 then n - 48 else if 97 \<le> n \<and> n \<le> 102 then n - 87 else 99)"

definition parse_radix :: "int \<Rightarrow> string \<Rightarrow> jsnum" where
  "parse_radix b ds =
     (if ds = [] \<or> \<not> list_all (\<lambda>c. radix_val c < b) ds then NaN
      else num_of_rat (of_int (fold (\<lambda>c n. b * n + radix_val c) ds 0)))"

text \<open>The optional exponent part that must end the literal.\<close>

definition parse_exponent :: "string \<Rightarrow> int option" where
  "parse_exponent s = (case s of
     [] \<Rightarrow> Some 0
   | c # r \<Rightarrow>
       if c \<noteq> CHR ''e'' \<and> c \<noteq> CHR ''E'' then None
       else let neg = (case r of d # _ \<Rightarrow> d = CHR ''-'' | [] \<Rightarrow> False);
                ds = (case r of d # r' \<Rightarrow> if d = CHR ''-'' \<or> d = CHR ''+'' then r' else r | [] \<Rightarrow> [])
            in if ds = [] \<or> \<not> list_all is_digit ds then None
               else Some (if neg then - digits_val ds else digits_val ds))"

definition ten_pow :: "int \<Rightarrow> rat" where
  "ten_pow k = (if 0 \<le> k then 10 ^ nat k else 1 / 10 ^ nat (- k))"

text \<open>An unsigned decimal literal.\<close>

definition parse_decimal :: "string \<Rightarrow> rat option" where
  "parse_decimal s =
     (let ds = takeWhile is_digit s;
          r = dropWhile is_digit s;
          dot = (case r of c # _ \<Rightarrow> c = CHR ''.'' | [] \<Rightarrow> False);
          fs = (if dot then takeWhile is_digit (tl r) else []);
          r' = (if dot then dropWhile is_digit (tl r) else r)
      in if ds = [] \<and> fs = [] then None
         else map_option (\<lambda>e. of_int (digits_val (ds @ fs)) * ten_pow (e - int (length fs)))
                (parse_exponent r'))"

definition parse_unsigned :: "string \<Rightarrow> jsnum" where
  "parse_unsigned s =
     (if s = ''Infinity'' then PosInf
      else case parse_decimal s of None \<Rightarrow> NaN | Some q \<Rightarrow> num_of_rat q)"

definition parse_trimmed :: "string \<Rightarrow> jsnum" where
  "parse_trimmed s =
     (if s = [] then Fin 0
      else if startsWith s ''0x'' \<or> startsWith s ''0X'' then parse_radix 16 (drop 2 s)
      else if startsWith s ''0o'' \<or> startsWith s ''0O'' then parse_radix 8 (drop 2 s)
      else if startsWith s ''0b'' \<or> startsWith s ''0B'' then parse_radix 2 (drop 2 s)
      else if hd s = CHR ''-'' then num_neg (parse_unsigned (tl s))
      else if hd s = CHR ''+'' then parse_unsigned (tl s)
      else parse_unsigned s)"

definition Number :: "string \<Rightarrow> jsnum" where
  "Number s = parse_trimmed (trim s)"

subsection \<open>Decimal integers\<close>

text \<open>A plain string of digits converts to the integer it denotes, while that is exact.\<close>

lemma is_digit_not_space: "is_digit c \<Longrightarrow> \<not> js_space c"
  by (auto simp: is_digit_def js_space_def)

lemma dropWhile_none: "list_all (\<lambda>c. \<not> P c) xs \<Longrightarrow> dropWhile P xs = xs"
  by (cases xs) auto

lemma trim_no_space: "list_all (\<lambda>c. \<not> js_space c) s \<Longrightarrow> trim s = s"
  by (simp add: trim_def dropWhile_none list_all_rev)

lemma takeWhile_all_digits: "list_all is_digit ds \<Longrightarrow> takeWhile is_digit ds = ds"
  and dropWhile_all_digits: "list_all is_digit ds \<Longrightarrow> dropWhile is_digit ds = []"
  by (induction ds) auto

lemma digit_plain:
  assumes "is_digit c"
  shows "c \<noteq> CHR ''-''" "c \<noteq> CHR ''+''" "c \<noteq> CHR ''.''" "c \<noteq> CHR ''I''" "c \<noteq> CHR ''x''" "c \<noteq> CHR ''X''"
    "c \<noteq> CHR ''o''" "c \<noteq> CHR ''O''" "c \<noteq> CHR ''b''" "c \<noteq> CHR ''B''"
  using assms by (auto simp: is_digit_def)

lemma digits_not_prefixed:
  assumes "list_all is_digit ds" and "\<not> is_digit p"
  shows "\<not> startsWith ds [CHR ''0'', p]"
  using assms by (cases ds; cases "tl ds") auto

lemma non_digits:
  "\<not> is_digit (CHR ''x'')" "\<not> is_digit (CHR ''X'')" "\<not> is_digit (CHR ''o'')" "\<not> is_digit (CHR ''O'')"
  "\<not> is_digit (CHR ''b'')" "\<not> is_digit (CHR ''B'')"
  by (simp_all add: is_digit_def)

lemma parse_decimal_digits:
  assumes "list_all is_digit ds" and "ds \<noteq> []"
  shows "parse_decimal ds = Some (of_int (digits_val ds))"
  using assms by (simp add: parse_decimal_def takeWhile_all_digits dropWhile_all_digits
      parse_exponent_def ten_pow_def)

lemma Number_digits:
  assumes "list_all is_digit ds" and "ds \<noteq> []"
  shows "Number ds = num_of_rat (of_int (digits_val ds))"
proof -
  have t: "trim ds = ds"
    using assms(1) by (intro trim_no_space) (auto simp: list_all_iff is_digit_not_space)
  obtain c cs where c: "ds = c # cs" using assms(2) by (cases ds) auto
  have "is_digit c" using assms(1) c by simp
  note pl = digit_plain [OF this]
  have "ds \<noteq> ''Infinity''" using pl c by auto
  then have "parse_unsigned ds = num_of_rat (of_int (digits_val ds))"
    using assms by (simp add: parse_unsigned_def parse_decimal_digits)
  then show ?thesis
    using pl c digits_not_prefixed [OF assms(1)] non_digits t
    by (simp add: Number_def parse_trimmed_def del: startsWith.simps)
qed

lemma digits_val_snoc: "digits_val (ds @ [c]) = 10 * digits_val ds + digit_val c"
  by (simp add: digits_val_def)

lemma digit_char:
  assumes "0 \<le> k" and "k < 10"
  shows "is_digit (char_of (48 + k))" and "digit_val (char_of (48 + k)) = k"
proof -
  have "k \<in> {0, 1, 2, 3, 4, 5, 6, 7, 8, 9}" using assms by (simp only: insert_iff empty_iff) presburger
  then show "is_digit (char_of (48 + k))" and "digit_val (char_of (48 + k)) = k"
    by (elim insertE; simp add: is_digit_def digit_val_def char_of_def of_char_def)+
qed

lemma show_digits_not_Nil: "show_digits n \<noteq> []"
  by (subst show_digits.simps) simp

lemma show_digits_digits: "0 \<le> n \<Longrightarrow> list_all is_digit (show_digits n)"
proof (induction n rule: show_digits.induct)
  case (1 n)
  show ?case
  proof (cases "n < 10")
    case True
    with 1 show ?thesis by (simp add: show_digits.simps [of n] digit_char)
  next
    case False
    with 1 show ?thesis by (simp add: show_digits.simps [of n] digit_char)
  qed
qed

lemma digits_val_show: "0 \<le> n \<Longrightarrow> digits_val (show_digits n) = n"
proof (induction n rule: show_digits.induct)
  case (1 n)
  show ?case
  proof (cases "n < 10")
    case True
    with 1 show ?thesis by (simp add: show_digits.simps [of n] digits_val_def digit_char)
  next
    case False
    with 1 show ?thesis by (simp add: show_digits.simps [of n] digits_val_snoc digit_char)
  qed
qed

lemma show_digits_inj: "0 \<le> m \<Longrightarrow> 0 \<le> n \<Longrightarrow> show_digits m = show_digits n \<Longrightarrow> m = n"
  by (metis digits_val_show)

lemma num_of_rat_of_int: "\<bar>n\<bar> \<le> 2 ^ 53 \<Longrightarrow> num_of_rat (of_int n) = Fin (of_int n)"
proof -
  assume n: "\<bar>n\<bar> \<le> 2 ^ 53"
  have "\<bar>rat_of_int n\<bar> \<le> of_int (2 ^ 53)" using n by (metis of_int_abs of_int_le_iff)
  also have "\<dots> < 2 ^ 1023" by simp
  finally show ?thesis using n by (simp add: num_of_rat_Fin)
qed

lemma Number_show_digits: "0 \<le> n \<Longrightarrow> n \<le> 2 ^ 53 \<Longrightarrow> Number (show_digits n) = Fin (of_int n)"
  by (simp add: Number_digits show_digits_digits show_digits_not_Nil digits_val_show num_of_rat_of_int)

section \<open>The conversion of a number to a string\<close>

text \<open>
  \<open>String(n)\<close>: the shortest decimal that rounds to the number, at most seventeen digits.
  \<open>decimal_exp x\<close> is the \<open>n\<close> with \<open>10^(n-1) \<le> x < 10^n\<close>, estimated from the binary exponent.
\<close>

definition decimal_exp :: "rat \<Rightarrow> int" where
  "decimal_exp x = (let n = expo x * 30103 div 100000 + 1 in
     if ten_pow n \<le> x then n + 1 else if x < ten_pow (n - 1) then n - 1 else n)"

definition decimal_candidates :: "rat \<Rightarrow> int \<Rightarrow> int list" where
  "decimal_candidates x e = (let f = \<lfloor>x / ten_pow e\<rfloor>;
       ok = filter (\<lambda>s. fl (of_int s * ten_pow e) = x) [f, f + 1]
     in if length ok = 2 \<and> of_int (f + 1) * ten_pow e - x < x - of_int f * ten_pow e then [f + 1] else take 1 ok)"

fun shortest_decimal :: "rat \<Rightarrow> int \<Rightarrow> int list \<Rightarrow> int \<times> int" where
  "shortest_decimal x n [] = (rne (x / ten_pow (n - 17)), n - 17)"
| "shortest_decimal x n (k # ks) = (case decimal_candidates x (n - k) of
     s # _ \<Rightarrow> (s, n - k)
   | [] \<Rightarrow> shortest_decimal x n ks)"

definition strip_zeros :: "string \<Rightarrow> string" where
  "strip_zeros ds = rev (dropWhile (\<lambda>c. c = CHR ''0'') (rev ds))"

definition zeros :: "int \<Rightarrow> string" where
  "zeros k = replicate (nat k) (CHR ''0'')"

definition layout_decimal :: "string \<Rightarrow> int \<Rightarrow> string" where
  "layout_decimal ds n =
     (let k = int (length ds) in
      if k \<le> n \<and> n \<le> 21 then ds @ zeros (n - k)
      else if 0 < n \<and> n \<le> 21 then take (nat n) ds @ ''.'' @ drop (nat n) ds
      else if - 6 < n \<and> n \<le> 0 then ''0.'' @ zeros (- n) @ ds
      else let e = n - 1; es = (if e < 0 then CHR ''-'' # show_digits (- e) else CHR ''+'' # show_digits e)
           in (if k = 1 then ds else take 1 ds @ ''.'' @ drop 1 ds) @ ''e'' @ es)"

definition show_positive :: "rat \<Rightarrow> string" where
  "show_positive x =
     (let (s, e) = shortest_decimal x (decimal_exp x) [1, 2, 3, 4, 5, 6, 7, 8, 9, 10, 11, 12, 13, 14, 15, 16, 17];
          ds = show_digits s
      in layout_decimal (strip_zeros ds) (e + int (length ds)))"

definition num_to_string :: "jsnum \<Rightarrow> string" where
  "num_to_string n = (case n of
     NaN \<Rightarrow> ''NaN'' | PosInf \<Rightarrow> ''Infinity'' | NegInf \<Rightarrow> ''-Infinity''
   | Fin q \<Rightarrow> (if q = 0 then ''0'' else if 0 < q then show_positive q else CHR ''-'' # show_positive (- q)))"

text \<open>\<open>toFixed(d)\<close> of a number below \<open>10^21\<close>: the nearest decimal with \<open>d\<close> places, ties away from zero.\<close>

definition fixed_digits :: "nat \<Rightarrow> int \<Rightarrow> string" where
  "fixed_digits d n = (let ds = pad (Suc d) n; k = length ds - d
     in if d = 0 then show_digits n else take k ds @ ''.'' @ drop k ds)"

definition toFixed :: "nat \<Rightarrow> jsnum \<Rightarrow> string" where
  "toFixed d x = (case x of
     Fin q \<Rightarrow>
       if 10 ^ 21 \<le> \<bar>q\<bar> then num_to_string x
       else let n = \<lfloor>\<bar>q\<bar> * 10 ^ d + 1 / 2\<rfloor>
            in (if q < 0 then [CHR ''-''] else []) @ fixed_digits d n
   | _ \<Rightarrow> num_to_string x)"

lemma fl_error: "0 < x \<Longrightarrow> \<bar>fl x - x\<bar> \<le> pw (ulp_exp x) / 2"
proof -
  assume x: "0 < x"
  let ?u = "pw (ulp_exp x)"
  let ?d = "of_int (rne (x / ?u)) - x / ?u"
  have "fl x - x = ?d * ?u" using x by (simp add: fl_def fl_pos_def left_diff_distrib)
  then have "\<bar>fl x - x\<bar> = \<bar>?d\<bar> * ?u" by (simp add: abs_mult)
  also have "\<dots> \<le> 1 / 2 * ?u" by (rule mult_right_mono [OF rne_error]) simp
  finally show ?thesis by simp
qed

lemma fl_close:
  assumes "0 < x" and "x < pw k" and "- 1021 \<le> k"
  shows "\<bar>fl x - x\<bar> \<le> pw (k - 53) / 2"
proof -
  have "pw (expo x) < pw k" using expo_bounds(1) [OF assms(1)] assms(2) by simp
  then have "expo x < k" by (simp add: not_le [symmetric])
  then have "ulp_exp x \<le> k - 53" using assms(3) by (simp add: ulp_exp_def)
  then have "pw (ulp_exp x) \<le> pw (k - 53)" by simp
  with fl_error [OF assms(1)] show ?thesis by linarith
qed

end
