(* ===== verification/Dates.thy ===== *)
theory Dates
  imports JsNumber
begin

text \<open>
  Calendar arithmetic on time values and the ISO date format: what \<open>getUTC...\<close>, \<open>setUTCDate\<close>,
  \<open>Date.UTC\<close>, \<open>toISOString\<close> and \<open>new Date(string)\<close> compute. Strings in another format are parsed as
  the host likes; the functions that parse one take that behaviour as a parameter.
\<close>

section \<open>Days and civil dates\<close>

definition days_from_civil :: "int \<Rightarrow> int \<Rightarrow> int \<Rightarrow> int" where
  "days_from_civil y m d =
     (let y' = (if m \<le> 2 then y - 1 else y);
          era = y' div 400;
          yoe = y' mod 400;
          mp = (if m \<le> 2 then m + 9 else m - 3);
          doy = (153 * mp + 2) div 5 + d - 1;
          doe = yoe * 365 + yoe div 4 - yoe div 100 + doy
      in era * 146097 + doe - 719468)"

text \<open>The parts of a day number, with the bounds the calendar gives them.\<close>

lemma civil_parts:
  obtains era cent quad yoq doy where
    "d + 719468 = 146097 * era + 36524 * cent + 1461 * quad + 365 * yoq + doy"
    "0 \<le> cent" "cent \<le> 3" "0 \<le> quad" "quad \<le> 24" "0 \<le> yoq" "yoq \<le> 3" "0 \<le> doy" "doy \<le> 365"
    "civil_from_days d =
       (let mp = (5 * doy + 2) div 153; month = (if mp < 10 then mp + 3 else mp - 9)
        in (400 * era + 100 * cent + 4 * quad + yoq + (if month \<le> 2 then 1 else 0), month,
            doy - (153 * mp + 2) div 5 + 1))"
proof -
  define z era doe cent where "z = d + 719468" and "era = z div 146097" and "doe = z mod 146097"
    and "cent = min 3 (doe div 36524)"
  define doc quad doq yoq doy where "doc = doe - 36524 * cent" and "quad = doc div 1461"
    and "doq = doc mod 1461" and "yoq = min 3 (doq div 365)" and "doy = doq - 365 * yoq"
  have doe: "0 \<le> doe" "doe \<le> 146096" by (simp_all add: doe_def)
  have cent: "0 \<le> cent" "cent \<le> 3" using doe by (auto simp: cent_def)
  have doc: "0 \<le> doc" "doc \<le> 36524" using doe by (auto simp: doc_def cent_def min_def)
  then have "quad \<le> 36524 div 1461" unfolding quad_def by (intro zdiv_mono1) simp_all
  then have quad: "0 \<le> quad" "quad \<le> 24" using doc by (simp_all add: quad_def pos_imp_zdiv_nonneg_iff)
  have doq: "0 \<le> doq" "doq \<le> 1460" by (simp_all add: doq_def)
  have yoq: "0 \<le> yoq" "yoq \<le> 3" using doq by (auto simp: yoq_def)
  have doy: "0 \<le> doy" "doy \<le> 365" using doq by (auto simp: doy_def yoq_def min_def)
  have "z = 146097 * era + doe" "doc = 1461 * quad + doq"
    by (simp_all add: era_def doe_def quad_def doq_def)
  then have sum: "d + 719468 = 146097 * era + 36524 * cent + 1461 * quad + 365 * yoq + doy"
    using z_def doc_def doy_def by simp
  have civil: "civil_from_days d =
       (let mp = (5 * doy + 2) div 153; month = (if mp < 10 then mp + 3 else mp - 9)
        in (400 * era + 100 * cent + 4 * quad + yoq + (if month \<le> 2 then 1 else 0), month,
            doy - (153 * mp + 2) div 5 + 1))"
    unfolding civil_from_days_def Let_def doy_def yoq_def doq_def quad_def doc_def cent_def doe_def era_def z_def
    by (rule refl)
  show thesis by (rule that [OF sum cent quad yoq doy civil])
qed

lemma civil_ranges:
  assumes "civil_from_days d = (y, m, dd)"
  shows "1 \<le> m" and "m \<le> 12" and "1 \<le> dd" and "dd \<le> 31" and "days_from_civil y m dd = d"
proof -
  obtain era cent quad yoq doy where
    z: "d + 719468 = 146097 * era + 36524 * cent + 1461 * quad + 365 * yoq + doy" and
    b: "0 \<le> cent" "cent \<le> 3" "0 \<le> quad" "quad \<le> 24" "0 \<le> yoq" "yoq \<le> 3" "0 \<le> doy" "doy \<le> 365" and
    c: "civil_from_days d =
       (let mp = (5 * doy + 2) div 153; month = (if mp < 10 then mp + 3 else mp - 9)
        in (400 * era + 100 * cent + 4 * quad + yoq + (if month \<le> 2 then 1 else 0), month,
            doy - (153 * mp + 2) div 5 + 1))"
    by (rule civil_parts)
  define mp where "mp = (5 * doy + 2) div 153"
  define yoe where "yoe = 100 * cent + 4 * quad + yoq"
  have m: "m = (if mp < 10 then mp + 3 else mp - 9)" and y: "y = 400 * era + yoe + (if m \<le> 2 then 1 else 0)"
    and dd: "dd = doy - (153 * mp + 2) div 5 + 1"
    using assms unfolding c by (auto simp: Let_def mp_def yoe_def)
  have mp: "0 \<le> mp" "mp \<le> 11" using b(7,8) unfolding mp_def by (simp_all add: pos_imp_zdiv_nonneg_iff)
  show "1 \<le> m" "m \<le> 12" using mp by (auto simp: m)
  have "153 * mp \<le> 5 * doy + 2" "5 * doy + 2 < 153 * mp + 153"
    using div_mult_mod_eq [of "5 * doy + 2" 153] pos_mod_bound [of 153 "5 * doy + 2"]
      pos_mod_sign [of 153 "5 * doy + 2"] unfolding mp_def by linarith+
  moreover have "5 * ((153 * mp + 2) div 5) \<le> 153 * mp + 2" "153 * mp + 2 < 5 * ((153 * mp + 2) div 5) + 5"
    using div_mult_mod_eq [of "153 * mp + 2" 5] pos_mod_bound [of 5 "153 * mp + 2"]
      pos_mod_sign [of 5 "153 * mp + 2"] by linarith+
  ultimately show "1 \<le> dd" "dd \<le> 31" unfolding dd by linarith+
  have yoe: "0 \<le> yoe" "yoe < 400" using b unfolding yoe_def by linarith+
  have "yoe div 4 = 25 * cent + quad" 
    using b by (intro int_div_pos_eq [of _ _ _ yoq]) (simp_all add: yoe_def)
  moreover have "yoe div 100 = cent"
    using b by (intro int_div_pos_eq [of _ _ _ "4 * quad + yoq"]) (simp_all add: yoe_def)
  moreover have "yoe * 365 = 36500 * cent + 1460 * quad + 365 * yoq" by (simp add: yoe_def)
  ultimately have doe: "yoe * 365 + yoe div 4 - yoe div 100 = 36524 * cent + 1461 * quad + 365 * yoq"
    by simp
  have y': "(if m \<le> 2 then y - 1 else y) = 400 * era + yoe" by (simp add: y)
  have e: "(400 * era + yoe) div 400 = era" "(400 * era + yoe) mod 400 = yoe" using yoe by simp_all
  have mp': "(if m \<le> 2 then m + 9 else m - 3) = mp" using mp by (auto simp: m)
  show "days_from_civil y m dd = d"
    unfolding days_from_civil_def Let_def y' e mp' doe dd using z by linarith
qed

lemma civil_year_range:
  assumes "civil_from_days d = (y, m, dd)" and "- 719528 \<le> d" and "d < 2932897"
  shows "0 \<le> y" and "y \<le> 9999"
proof -
  obtain era cent quad yoq doy where
    z: "d + 719468 = 146097 * era + 36524 * cent + 1461 * quad + 365 * yoq + doy" and
    b: "0 \<le> cent" "cent \<le> 3" "0 \<le> quad" "quad \<le> 24" "0 \<le> yoq" "yoq \<le> 3" "0 \<le> doy" "doy \<le> 365" and
    c: "civil_from_days d =
       (let mp = (5 * doy + 2) div 153; month = (if mp < 10 then mp + 3 else mp - 9)
        in (400 * era + 100 * cent + 4 * quad + yoq + (if month \<le> 2 then 1 else 0), month,
            doy - (153 * mp + 2) div 5 + 1))"
    by (rule civil_parts)
  define late where "late = (if (5 * doy + 2) div 153 < 10 then 0 else 1 :: int)"
  have late: "doy < 306 \<Longrightarrow> late = 0" "306 \<le> doy \<Longrightarrow> late = 1" and l01: "0 \<le> late" "late \<le> 1"
    unfolding late_def by auto
  have y: "y = 400 * era + 100 * cent + 4 * quad + yoq + late"
    using assms(1) b(7,8) unfolding c late_def by (auto simp: Let_def split: if_splits)
  have era: "- 1 \<le> era" "era \<le> 24" using z b assms(2,3) by linarith+
  show "0 \<le> y"
  proof (cases "era = - 1")
    case True
    with z b assms(2) have "cent = 3" "quad = 24" "yoq = 3" "306 \<le> doy" by linarith+
    with True late show ?thesis by (simp add: y)
  next
    case False
    with era b l01 show ?thesis by (simp add: y)
  qed
  show "y \<le> 9999"
  proof (cases "era = 24 \<and> cent = 3 \<and> quad = 24 \<and> yoq = 3")
    case True
    with z assms(3) have "doy < 306" by linarith
    with True late show ?thesis by (simp add: y)
  next
    case False
    with era b have "400 * era + 100 * cent + 4 * quad + yoq \<le> 9998" by linarith
    with l01 show ?thesis by (simp add: y)
  qed
qed

section \<open>Reading the ISO format\<close>

definition digits_at :: "nat \<Rightarrow> nat \<Rightarrow> string \<Rightarrow> int option" where
  "digits_at i n s = (let ds = take n (drop i s) in
     if length ds = n \<and> list_all is_digit ds then Some (digits_val ds) else None)"

text \<open>The format \<open>toISOString\<close> prints, for the dates of the calendar.\<close>

definition parseISO :: "string \<Rightarrow> int option" where
  "parseISO s =
     (if length s = 24 \<and> map (\<lambda>i. s ! i) [4, 7, 10, 13, 16, 19, 23] = ''--T::.Z'' then
        (case (digits_at 0 4 s, digits_at 5 2 s, digits_at 8 2 s, digits_at 11 2 s, digits_at 14 2 s,
               digits_at 17 2 s, digits_at 20 3 s) of
           (Some y, Some m, Some d, Some h, Some mi, Some sc, Some ms) \<Rightarrow>
             (if civil_from_days (days_from_civil y m d) = (y, m, d) \<and> h \<le> 23 \<and> mi \<le> 59 \<and> sc \<le> 59
              then Some (days_from_civil y m d * ms_per_day + h * 3600000 + mi * 60000 + sc * 1000 + ms)
              else None)
         | _ \<Rightarrow> None)
      else None)"

text \<open>\<open>new Date(s).getTime()\<close>; \<open>host\<close> parses the other spellings, \<open>None\<close> is an invalid date.\<close>

definition date_parse :: "(string \<Rightarrow> int option) \<Rightarrow> string \<Rightarrow> int option" where
  "date_parse host s = orElse (parseISO s) (host s)"

section \<open>Date methods\<close>

text \<open>\<open>Date.UTC(y, m - 1, d)\<close>: the years 0 to 99 stand for 1900 to 1999.\<close>

definition date_UTC :: "int \<Rightarrow> int \<Rightarrow> int \<Rightarrow> int" where
  "date_UTC y m d = days_from_civil (if 0 \<le> y \<and> y \<le> 99 then 1900 + y else y) m 1 * ms_per_day + (d - 1) * ms_per_day"

definition setUTCDate :: "int \<Rightarrow> int \<Rightarrow> int" where
  "setUTCDate t dt = (let (y, m, d) = civil_from_days (t div ms_per_day)
     in (days_from_civil y m 1 + dt - 1) * ms_per_day + t mod ms_per_day)"

definition getUTCDate :: "int \<Rightarrow> int" where
  "getUTCDate t = snd (snd (civil_from_days (t div ms_per_day)))"

lemma days_from_civil_day: "days_from_civil y m d = days_from_civil y m 1 + d - 1"
  by (simp add: days_from_civil_def Let_def)

lemma setUTCDate_shift: "setUTCDate t (getUTCDate t + k) = t + k * ms_per_day"
proof -
  obtain y m d where c: "civil_from_days (t div ms_per_day) = (y, m, d)" by (metis prod_cases3)
  have "days_from_civil y m d = t div ms_per_day" by (rule civil_ranges [OF c])
  then have "days_from_civil y m 1 + (d + k) - 1 = t div ms_per_day + k"
    using days_from_civil_day [of y m d] by simp
  then have "setUTCDate t (getUTCDate t + k) = (t div ms_per_day + k) * ms_per_day + t mod ms_per_day"
    by (simp add: setUTCDate_def getUTCDate_def c)
  also have "\<dots> = t + k * ms_per_day"
    using div_mult_mod_eq [of t ms_per_day] by (simp add: algebra_simps)
  finally show ?thesis .
qed

section \<open>Printing and reading back\<close>

lemma length_show_digits: "0 \<le> n \<Longrightarrow> n < 10 ^ k \<Longrightarrow> 0 < k \<Longrightarrow> length (show_digits n) \<le> k"
proof (induction n arbitrary: k rule: show_digits.induct)
  case (1 n)
  show ?case
  proof (cases "n < 10")
    case True
    with 1 show ?thesis by (simp add: show_digits.simps [of n])
  next
    case False
    obtain j where k: "k = Suc j" using 1(4) by (cases k) auto
    have "j \<noteq> 0" using False 1(3) k by (cases j) auto
    moreover have "n div 10 < 10 ^ j" using 1(3) k by simp
    ultimately have "length (show_digits (n div 10)) \<le> j" using 1(1) [OF False, of j] 1(2) by simp
    with False show ?thesis by (simp add: show_digits.simps [of n] k)
  qed
qed

lemma digits_val_zeros: "digits_val (replicate k (CHR ''0'') @ ds) = digits_val ds"
  by (induction k) (simp_all add: digits_val_def digit_val_def)

lemma pad_facts:
  assumes "0 \<le> n" and "n < 10 ^ w" and "0 < w"
  shows "length (pad w n) = w" and "list_all is_digit (pad w n)" and "digits_val (pad w n) = n"
proof -
  show "length (pad w n) = w" using length_show_digits [OF assms] by (simp add: pad_def Let_def)
  have "list_all is_digit (replicate k (CHR ''0''))" for k by (induction k) (simp_all add: is_digit_def)
  then show "list_all is_digit (pad w n)"
    using show_digits_digits [OF assms(1)] by (simp add: pad_def Let_def)
  show "digits_val (pad w n) = n"
    by (simp only: pad_def Let_def digits_val_zeros digits_val_show [OF assms(1)])
qed

lemma digits_at_append:
  assumes "length u = i" and "length p = n" and "list_all is_digit p"
  shows "digits_at i n (u @ p @ v) = Some (digits_val p)"
  using assms by (simp add: digits_at_def)

lemma time_of_day:
  assumes "0 \<le> r" and "r < ms_per_day"
  shows "0 \<le> r div 3600000" "r div 3600000 \<le> 23"
    "r div 3600000 * 3600000 + r div 60000 mod 60 * 60000 + r div 1000 mod 60 * 1000 + r mod 1000 = r"
proof -
  show "0 \<le> r div 3600000" using assms(1) by (simp add: pos_imp_zdiv_nonneg_iff)
  have "r div 3600000 \<le> 86399999 div 3600000" using assms(2) by (intro zdiv_mono1) (simp_all add: ms_per_day_def)
  then show "r div 3600000 \<le> 23" by simp
  have "r div 60000 = r div 1000 div 60" "r div 3600000 = r div 60000 div 60"
    by (simp_all add: zdiv_zmult2_eq [symmetric])
  then show "r div 3600000 * 3600000 + r div 60000 mod 60 * 60000 + r div 1000 mod 60 * 1000 + r mod 1000 = r"
    using div_mult_mod_eq [of r 1000] div_mult_mod_eq [of "r div 1000" 60] div_mult_mod_eq [of "r div 60000" 60]
    by linarith
qed

lemma parseISO_fields:
  assumes "length Y = 4" "length M = 2" "length D = 2" "length H = 2" "length I = 2" "length S = 2" "length L = 3"
    and "list_all is_digit Y" "list_all is_digit M" "list_all is_digit D" "list_all is_digit H"
      "list_all is_digit I" "list_all is_digit S" "list_all is_digit L"
    and "civil_from_days (days_from_civil (digits_val Y) (digits_val M) (digits_val D))
      = (digits_val Y, digits_val M, digits_val D)"
    and "digits_val H \<le> 23" "digits_val I \<le> 59" "digits_val S \<le> 59"
  shows "parseISO (Y @ ''-'' @ M @ ''-'' @ D @ ''T'' @ H @ '':'' @ I @ '':'' @ S @ ''.'' @ L @ ''Z'')
    = Some (days_from_civil (digits_val Y) (digits_val M) (digits_val D) * ms_per_day
        + digits_val H * 3600000 + digits_val I * 60000 + digits_val S * 1000 + digits_val L)"
  (is "parseISO ?s = _")
proof -
  have len: "length ?s = 24" using assms(1-7) by simp
  have seps: "map (\<lambda>i. ?s ! i) [4, 7, 10, 13, 16, 19, 23] = ''--T::.Z''"
    using assms(1-7) by (simp add: nth_append nth_Cons')
  have f: "digits_at 0 4 ?s = Some (digits_val Y)" "digits_at 5 2 ?s = Some (digits_val M)"
    "digits_at 8 2 ?s = Some (digits_val D)" "digits_at 11 2 ?s = Some (digits_val H)"
    "digits_at 14 2 ?s = Some (digits_val I)" "digits_at 17 2 ?s = Some (digits_val S)"
    "digits_at 20 3 ?s = Some (digits_val L)"
    using assms(1-14) by (simp_all add: digits_at_def)
  show ?thesis unfolding parseISO_def f using len seps assms(15-) by simp
qed

lemma parseISO_toISOString:
  assumes "- 62167219200000 \<le> t" and "t < 253402300800000"
  shows "parseISO (toISOString t) = Some t"
proof -
  obtain y m d where c: "civil_from_days (t div ms_per_day) = (y, m, d)" by (metis prod_cases3)
  let ?r = "t mod ms_per_day"
  have "- 62167219200000 div 86400000 \<le> t div 86400000" "t div 86400000 \<le> 253402300799999 div 86400000"
    using assms by (intro zdiv_mono1; simp)+
  then have "- 719528 \<le> t div ms_per_day" "t div ms_per_day < 2932897"
    by (simp_all add: ms_per_day_def)
  note y = civil_year_range [OF c this] and md = civil_ranges [OF c]
  have r: "0 \<le> ?r" "?r < ms_per_day" by (simp_all add: ms_per_day_def)
  note tod = time_of_day [OF r]
  have p: "length (pad w n) = w \<and> list_all is_digit (pad w n) \<and> digits_val (pad w n) = n"
    if "0 \<le> n" "n < 10 ^ w" "0 < w" for n w using pad_facts [OF that] by blast
  have Y: "length (pad 4 y) = 4 \<and> list_all is_digit (pad 4 y) \<and> digits_val (pad 4 y) = y" using y by (intro p) auto
  have M: "length (pad 2 m) = 2 \<and> list_all is_digit (pad 2 m) \<and> digits_val (pad 2 m) = m" using md by (intro p) auto
  have D: "length (pad 2 d) = 2 \<and> list_all is_digit (pad 2 d) \<and> digits_val (pad 2 d) = d" using md by (intro p) auto
  let ?h = "?r div 3600000" and ?i = "?r div 60000 mod 60" and ?s = "?r div 1000 mod 60" and ?l = "?r mod 1000"
  have H: "length (pad 2 ?h) = 2 \<and> list_all is_digit (pad 2 ?h) \<and> digits_val (pad 2 ?h) = ?h"
    using tod(1,2) by (intro p) simp_all
  have I: "length (pad 2 ?i) = 2 \<and> list_all is_digit (pad 2 ?i) \<and> digits_val (pad 2 ?i) = ?i"
    using pos_mod_bound [of 60 "?r div 60000"] by (intro p) auto
  have S: "length (pad 2 ?s) = 2 \<and> list_all is_digit (pad 2 ?s) \<and> digits_val (pad 2 ?s) = ?s"
    using pos_mod_bound [of 60 "?r div 1000"] by (intro p) auto
  have L: "length (pad 3 ?l) = 3 \<and> list_all is_digit (pad 3 ?l) \<and> digits_val (pad 3 ?l) = ?l"
    using pos_mod_bound [of 1000 ?r] by (intro p) auto
  have b: "?i \<le> 59" "?s \<le> 59" using pos_mod_bound [of 60 "?r div 60000"] pos_mod_bound [of 60 "?r div 1000"] by auto
  have iy: "iso_year y = pad 4 y" using y by (simp add: iso_year_def)
  have "parseISO (toISOString t) = Some (days_from_civil (digits_val (pad 4 y)) (digits_val (pad 2 m)) (digits_val (pad 2 d))
      * ms_per_day + digits_val (pad 2 ?h) * 3600000 + digits_val (pad 2 ?i) * 60000
      + digits_val (pad 2 ?s) * 1000 + digits_val (pad 3 ?l))"
    unfolding toISOString_def Let_def c prod.case iy
    by (rule parseISO_fields) (simp_all only: Y M D H I S L b tod(2) md(5) c)
  also have "\<dots> = Some (days_from_civil y m d * ms_per_day + ?h * 3600000 + ?i * 60000 + ?s * 1000 + ?l)"
    by (simp only: Y M D H I S L)
  also have "\<dots> = Some (t div ms_per_day * ms_per_day + (?h * 3600000 + ?i * 60000 + ?s * 1000 + ?l))"
    by (simp only: md(5) add.assoc)
  also have "\<dots> = Some t" by (simp only: tod(3) div_mult_mod_eq)
  finally show ?thesis .
qed

lemma date_parse_toISOString:
  "- 62167219200000 \<le> t \<Longrightarrow> t < 253402300800000 \<Longrightarrow> date_parse host (toISOString t) = Some t"
  by (simp add: date_parse_def parseISO_toISOString)

end
