(* ===== verification/Logger.thy ===== *)
theory Logger
  imports Dates
begin

text \<open>
  Structured log events (\<open>packages/logger/src/index.ts\<close>, the base \<open>AuditEvent\<close> of
  \<open>packages/contracts/src/index.ts\<close>) and the domain events the worker derives from them
  (\<open>apps/worker/src/jobs/queue-log-domain-event.ts\<close>). A metadata object is the list of its
  entries; a constructor that spreads an event is a record update.
\<close>

section \<open>Events\<close>

datatype subject_type = SubjectUser | SubjectWorkspace | SubjectSystem

datatype log_category = CatAudit | CatActivity | CatDomain | CatSystem | CatSecurity | CatExtension

datatype log_severity = SevDebug | SevInfo | SevWarn | SevError

datatype log_status = StatusSuccess | StatusFailure

type_synonym json_object = "(string \<times> json) list"

record log_event =
  le_eventId :: string
  le_eventType :: string
  le_actorId :: string
  le_actorType :: subject_type
  le_targetType :: string
  le_targetId :: string
  le_occurredAt :: string
  le_metadata :: "json_object option"
  le_category :: log_category
  le_severity :: log_severity
  le_status :: "log_status option"

definition createLogEvent :: "log_event \<Rightarrow> log_event" where
  "createLogEvent event = event\<lparr>le_metadata := Some (nullish (le_metadata event) [])\<rparr>"

definition createAuditLogEvent :: "log_event \<Rightarrow> log_event" where
  "createAuditLogEvent event = createLogEvent (event\<lparr>le_category := CatAudit\<rparr>)"

definition createSecurityLogEvent :: "log_event \<Rightarrow> log_event" where
  "createSecurityLogEvent event = createLogEvent (event\<lparr>le_category := CatSecurity\<rparr>)"

section \<open>Redaction\<close>

text \<open>The test \<open>/(token|secret|password|key)/i\<close>: the flag folds the ASCII letters.\<close>

definition secret_key :: "string \<Rightarrow> bool" where
  "secret_key key = list_ex (str_includes (toLowerCase key)) [''token'', ''secret'', ''password'', ''key'']"

definition redactSecrets :: "json_object \<Rightarrow> json_object" where
  "redactSecrets payload =
     map (\<lambda>(key, v). if secret_key key then (key, JStr ''***redacted***'') else (key, v)) payload"

section \<open>Domain events of queue jobs\<close>

record queue_job_context =
  qc_queueName :: string
  qc_queueJobId :: string
  qc_attemptNumber :: int
  qc_processedAt :: string

text \<open>\<open>createdAt\<close> is \<open>None\<close> for an invalid date.\<close>

record domain_event_input =
  de_eventType :: string
  de_payloadJson :: json_object
  de_createdAt :: "int option"

text \<open>
  What a thrown value offers to the error readers: an \<open>Error\<close> with its name, message and optional
  code, a string, or anything else with an optional code.
\<close>

datatype thrown = ThrownError string string "json option" | ThrownString string | ThrownOther "json option"

definition normalizeMetadata :: "json_object option \<Rightarrow> json_object" where
  "normalizeMetadata value = nullish value []"

definition readSummary :: "json_object \<Rightarrow> string \<Rightarrow> string" where
  "readSummary metadata fallback = (case map_of metadata ''summary'' of
     Some (JStr s) \<Rightarrow> if trim s \<noteq> [] then trim s else fallback
   | _ \<Rightarrow> fallback)"

definition readErrorName :: "thrown \<Rightarrow> string" where
  "readErrorName e = (case e of ThrownError name _ _ \<Rightarrow> if trim name \<noteq> [] then name else ''Error'' | _ \<Rightarrow> ''Error'')"

definition readErrorMessage :: "string \<Rightarrow> thrown \<Rightarrow> string" where
  "readErrorMessage fallback e = (case e of
     ThrownError _ message _ \<Rightarrow> if trim message \<noteq> [] then take 1000 message else fallback
   | ThrownString s \<Rightarrow> if trim s \<noteq> [] then take 1000 s else fallback
   | ThrownOther _ \<Rightarrow> fallback)"

definition readErrorCode :: "thrown \<Rightarrow> string option" where
  "readErrorCode e =
     (let code = (case e of ThrownError _ _ c \<Rightarrow> c | ThrownString _ \<Rightarrow> None | ThrownOther c \<Rightarrow> c)
      in case code of Some (JStr s) \<Rightarrow> if trim s \<noteq> [] then Some s else None | _ \<Rightarrow> None)"

definition show_subject :: "subject_type \<Rightarrow> string" where
  "show_subject s = (case s of SubjectUser \<Rightarrow> ''user'' | SubjectWorkspace \<Rightarrow> ''workspace'' | SubjectSystem \<Rightarrow> ''system'')"

definition show_severity :: "log_severity \<Rightarrow> string" where
  "show_severity s = (case s of SevDebug \<Rightarrow> ''debug'' | SevInfo \<Rightarrow> ''info'' | SevWarn \<Rightarrow> ''warn'' | SevError \<Rightarrow> ''error'')"

definition show_status :: "log_status \<Rightarrow> string" where
  "show_status s = (case s of StatusSuccess \<Rightarrow> ''success'' | StatusFailure \<Rightarrow> ''failure'')"

definition jnull_or :: "string option \<Rightarrow> json" where
  "jnull_or v = (case v of None \<Rightarrow> JNull | Some s \<Rightarrow> JStr s)"

definition jint :: "int \<Rightarrow> json" where
  "jint i = JNum (Fin (of_int i))"

definition buildQueueLogDomainEvent ::
  "(string \<Rightarrow> int option) \<Rightarrow> log_event \<Rightarrow> queue_job_context \<Rightarrow> domain_event_input" where
  "buildQueueLogDomainEvent host logEvent c =
     (let metadata = normalizeMetadata (le_metadata logEvent);
          summary = readSummary metadata (le_eventType logEvent @ '' processed on '' @ qc_queueName c @ ''.'')
      in \<lparr>de_eventType = le_eventType logEvent,
          de_payloadJson =
            [(''summary'', JStr summary), (''queue'', JStr (qc_queueName c)), (''queueJobId'', JStr (qc_queueJobId c)),
             (''queueAttempt'', jint (qc_attemptNumber c)), (''logEventId'', JStr (le_eventId logEvent)),
             (''actorId'', JStr (le_actorId logEvent)), (''actorType'', JStr (show_subject (le_actorType logEvent))),
             (''targetType'', JStr (le_targetType logEvent)), (''targetId'', JStr (le_targetId logEvent)),
             (''occurredAt'', JStr (le_occurredAt logEvent)), (''severity'', JStr (show_severity (le_severity logEvent))),
             (''status'', jnull_or (map_option show_status (le_status logEvent))), (''metadata'', JObj metadata)],
          de_createdAt = date_parse host (qc_processedAt c)\<rparr>)"

definition buildQueueJobFailedDomainEvent ::
  "(string \<Rightarrow> int option) \<Rightarrow> queue_job_context \<Rightarrow> thrown \<Rightarrow> domain_event_input" where
  "buildQueueJobFailedDomainEvent host c e =
     \<lparr>de_eventType = qc_queueName c @ ''.job_failed'',
      de_payloadJson =
        [(''summary'', JStr (''Failed to process '' @ qc_queueName c @ '' queue job '' @ qc_queueJobId c @ ''.'')),
         (''queue'', JStr (qc_queueName c)), (''queueJobId'', JStr (qc_queueJobId c)),
         (''queueAttempt'', jint (qc_attemptNumber c)), (''processedAt'', JStr (qc_processedAt c)),
         (''errorName'', JStr (readErrorName e)), (''errorCode'', jnull_or (readErrorCode e)),
         (''errorMessage'', JStr (readErrorMessage ''Queue job processing failed.'' e))],
      de_createdAt = date_parse host (qc_processedAt c)\<rparr>"

section \<open>Lemmas\<close>

lemma map_fst_redactSecrets [simp]: "map fst (redactSecrets payload) = map fst payload"
  by (induction payload) (auto simp: redactSecrets_def)

lemma map_of_redactSecrets:
  "map_of (redactSecrets payload) key =
     (if secret_key key then map_option (\<lambda>_. JStr ''***redacted***'') (map_of payload key) else map_of payload key)"
  by (induction payload) (auto simp: redactSecrets_def)

lemma redactSecrets_idem [simp]: "redactSecrets (redactSecrets payload) = redactSecrets payload"
  by (induction payload) (auto simp: redactSecrets_def)

text \<open>No value under a secret key survives: payloads that differ only there redact alike.\<close>

definition same_public :: "json_object \<Rightarrow> json_object \<Rightarrow> bool" where
  "same_public = list_all2 (\<lambda>(k, v) (k', v'). k = k' \<and> (secret_key k \<or> v = v'))"

lemma redactSecrets_hides: "same_public p q \<Longrightarrow> redactSecrets p = redactSecrets q"
  unfolding same_public_def by (induction p q rule: list_all2_induct) (auto simp: redactSecrets_def)

lemma redactSecrets_same_public: "redactSecrets p = redactSecrets q \<Longrightarrow> map fst p = map fst q"
  by (metis map_fst_redactSecrets)

section \<open>Properties\<close>



end
