(* ===== verification/Usage.thy ===== *)
theory Usage
  imports Logger
begin

text \<open>
  Usage and quota: the decisions of \<open>packages/usage/src/index.ts\<close>, the summaries of
  \<open>apps/api/src/services/usage-service.ts\<close>, the worker jobs \<open>process-usage-event.ts\<close>,
  \<open>reset-quota-counter.ts\<close> and \<open>process-quota-reset.ts\<close>, and the worker's store
  \<open>repositories/usage-processing.repository.ts\<close>. The interface \<open>UsageProcessingRepository\<close> is the
  locale \<open>usage_store\<close>; the Prisma repository of the worker interprets it.
\<close>

section \<open>Decisions\<close>

datatype usage_metric_status = Healthy | Warning | Exceeded

record usage_snapshot =
  us_consumed :: jsnum
  us_limit :: "jsnum option"

definition startOfUtcDay :: "int \<Rightarrow> int" where
  "startOfUtcDay t = (let (y, m, d) = civil_from_days (t div ms_per_day) in date_UTC y m d)"

definition addUtcDays :: "int \<Rightarrow> int \<Rightarrow> int" where
  "addUtcDays t amount = setUTCDate t (getUTCDate t + amount)"

definition warning_threshold :: jsnum where
  "warning_threshold = Fin (fl (4 / 5))"

definition resolveUsageMetricStatus :: "jsnum \<Rightarrow> jsnum option \<Rightarrow> usage_metric_status" where
  "resolveUsageMetricStatus consumed limit = (case limit of
     None \<Rightarrow> Healthy
   | Some l \<Rightarrow> if num_le l consumed then Exceeded
       else if num_le warning_threshold (num_div consumed l) then Warning
       else Healthy)"

definition resolveQuotaKey :: "string \<Rightarrow> string option" where
  "resolveQuotaKey eventType =
     (if str_includes eventType ''screenshot'' then Some ''limit.screenshots_per_day''
      else if str_includes eventType ''answer'' \<or> str_includes eventType ''request'' then Some ''limit.requests_per_day''
      else None)"

definition canConsumeUsage :: "usage_snapshot \<Rightarrow> bool" where
  "canConsumeUsage usage = (case us_limit usage of None \<Rightarrow> True | Some l \<Rightarrow> num_less (us_consumed usage) l)"

definition incrementUsage :: "usage_snapshot \<Rightarrow> jsnum \<Rightarrow> usage_snapshot" where
  "incrementUsage usage amount = usage\<lparr>us_consumed := num_add (us_consumed usage) amount\<rparr>"

record usage_decision =
  ud_accepted :: bool
  ud_code :: string
  ud_quotaKey :: "string option"
  ud_message :: "string option"

definition evaluateUsageDecision :: "jsnum \<Rightarrow> jsnum option \<Rightarrow> string option \<Rightarrow> usage_decision" where
  "evaluateUsageDecision consumed limit quotaKey = (case limit of
     None \<Rightarrow> \<lparr>ud_accepted = True, ud_code = ''accepted'', ud_quotaKey = quotaKey, ud_message = None\<rparr>
   | Some l \<Rightarrow>
       if num_le l consumed
       then \<lparr>ud_accepted = False, ud_code = ''quota_exceeded'', ud_quotaKey = quotaKey,
              ud_message = Some ''Workspace quota has been exhausted for the current window.''\<rparr>
       else \<lparr>ud_accepted = True, ud_code = ''accepted'', ud_quotaKey = quotaKey, ud_message = None\<rparr>)"

record usage_quota_hint =
  uh_key :: string
  uh_label :: string
  uh_limit :: "jsnum option"
  uh_remaining :: "jsnum option"
  uh_status :: usage_metric_status
  uh_enforcementMode :: string

definition buildQuotaHint :: "string \<Rightarrow> string \<Rightarrow> jsnum \<Rightarrow> jsnum option \<Rightarrow> string option \<Rightarrow> usage_quota_hint" where
  "buildQuotaHint key label consumed limit enforcementMode =
     \<lparr>uh_key = key, uh_label = label, uh_limit = limit,
      uh_remaining = map_option (\<lambda>l. math_max (num_add l (num_neg consumed)) (Fin 0)) limit,
      uh_status = resolveUsageMetricStatus consumed limit,
      uh_enforcementMode = nullish enforcementMode ''hard_limit''\<rparr>"

section \<open>Summaries\<close>

definition usageQuotaLabels :: "(string \<times> string) list" where
  "usageQuotaLabels =
     [(''limit.requests_per_day'', ''Requests today''), (''limit.screenshots_per_day'', ''Screenshots today''),
      (''limit.seats'', ''Seats in plan'')]"

text \<open>\<open>split(/[...]+/).filter(Boolean)\<close>: the maximal runs without a separator.\<close>

fun tokens_by :: "(char \<Rightarrow> bool) \<Rightarrow> string \<Rightarrow> string \<Rightarrow> string list" where
  "tokens_by sep acc [] = (if acc = [] then [] else [rev acc])"
| "tokens_by sep acc (c # cs) =
     (if sep c then (if acc = [] then tokens_by sep [] cs else rev acc # tokens_by sep [] cs)
      else tokens_by sep (c # acc) cs)"

definition capitalize :: "string \<Rightarrow> string" where
  "capitalize s = (case s of [] \<Rightarrow> [] | c # cs \<Rightarrow> upper_char c # cs)"

definition humanizeQuotaKey :: "string \<Rightarrow> string" where
  "humanizeQuotaKey key =
     (let normalized = (if startsWith key ''limit.'' then drop 6 key else key)
      in join '' '' (map capitalize (tokens_by (\<lambda>c. c \<in> set ''_./-'') [] normalized)))"

definition normalizeCapabilities :: "json \<Rightarrow> string list" where
  "normalizeCapabilities v = (case v of
     JArr xs \<Rightarrow> concat (map (\<lambda>x. case x of JStr s \<Rightarrow> if trim s \<noteq> [] then [s] else [] | _ \<Rightarrow> []) xs)
   | _ \<Rightarrow> [])"

definition show_scalar :: "json \<Rightarrow> string option" where
  "show_scalar v = (case v of
     JStr s \<Rightarrow> Some s
   | JNum n \<Rightarrow> Some (num_to_string n)
   | JBool b \<Rightarrow> Some (if b then ''true'' else ''false'')
   | _ \<Rightarrow> None)"

definition summarizeRecord :: "json \<Rightarrow> string" where
  "summarizeRecord v = (case v of
     JObj es \<Rightarrow>
       (let entries = map (\<lambda>(k, x). k @ ''='' @ the (show_scalar x)) (take 3 (filter (\<lambda>(k, x). show_scalar x \<noteq> None) es))
        in if 0 < length entries then join '' | '' entries else ''Metadata recorded.'')
   | _ \<Rightarrow> ''No metadata attached.'')"

definition resolveAiRequestEventType :: "string \<Rightarrow> string" where
  "resolveAiRequestEventType status =
     (if status = ''quota_exceeded'' then ''ai.proxy.quota_exceeded''
      else if status = ''error'' then ''ai.proxy.failed''
      else ''ai.proxy.completed'')"

definition resolveAiRequestSeverity :: "string \<Rightarrow> log_severity" where
  "resolveAiRequestSeverity status =
     (if status = ''quota_exceeded'' then SevWarn else if status = ''error'' then SevError else SevInfo)"

record ai_request_record =
  ai_id :: string
  ai_userId :: string
  ai_installationId :: "string option"
  ai_provider :: string
  ai_model :: string
  ai_keySource :: string
  ai_totalTokens :: int
  ai_status :: string
  ai_errorCode :: "string option"
  ai_durationMs :: "int option"
  ai_requestMetadata :: json
  ai_occurredAt :: int

definition summarizeAiRequest :: "ai_request_record \<Rightarrow> string" where
  "summarizeAiRequest r =
     (let metadataSummary = summarizeRecord (ai_requestMetadata r)
      in join '' | ''
       ([''provider='' @ ai_provider r, ''model='' @ ai_model r, ''key='' @ ai_keySource r]
        @ (if 0 < ai_totalTokens r then [''tokens='' @ show_int (ai_totalTokens r)] else [])
        @ (case ai_durationMs r of
             Some d \<Rightarrow> if 0 \<le> d then [''durationMs='' @ show_int d] else []
           | None \<Rightarrow> [])
        @ (if ai_status r \<noteq> ''success'' then [''error='' @ nullish (ai_errorCode r) ''unknown''] else [])
        @ (if metadataSummary \<noteq> ''No metadata attached.'' \<and> metadataSummary \<noteq> ''Metadata recorded.''
           then [metadataSummary] else [])))"

record quota_counter =
  ct_key :: string
  ct_consumed :: int
  ct_periodStart :: int
  ct_periodEnd :: int

definition resolveCounterFallbackWindow :: "int option \<Rightarrow> int option \<Rightarrow> int \<Rightarrow> int \<times> int" where
  "resolveCounterFallbackWindow currentPeriodStart currentPeriodEnd now =
     (case (currentPeriodStart, currentPeriodEnd) of
        (Some s, Some e) \<Rightarrow> (s, e)
      | _ \<Rightarrow> (let periodStart = startOfUtcDay now in (periodStart, addUtcDays periodStart 1)))"

record installation_record =
  ir_id :: string
  ir_installationId :: string
  ir_browser :: string
  ir_extensionVersion :: string
  ir_schemaVersion :: string
  ir_capabilitiesJson :: json
  ir_lastSeenAt :: "int option"

record usage_installation_summary =
  is_installationId :: string
  is_browser :: string
  is_extensionVersion :: string
  is_schemaVersion :: string
  is_capabilities :: "string list"
  is_lastSeenAt :: "string option"

definition mapUsageInstallations :: "installation_record list \<Rightarrow> usage_installation_summary list" where
  "mapUsageInstallations installations =
     map (\<lambda>i. \<lparr>is_installationId = ir_installationId i, is_browser = ir_browser i,
        is_extensionVersion = ir_extensionVersion i, is_schemaVersion = ir_schemaVersion i,
        is_capabilities = normalizeCapabilities (ir_capabilitiesJson i),
        is_lastSeenAt = map_option toISOString (ir_lastSeenAt i)\<rparr>) installations"

record usage_quota =
  uq_key :: string
  uq_label :: string
  uq_consumed :: int
  uq_periodStart :: string
  uq_periodEnd :: string
  uq_status :: usage_metric_status

text \<open>The first counter of each key, in the order of the list; \<open>lc\<close> is \<open>localeCompare\<close>.\<close>

definition counterByKey :: "quota_counter list \<Rightarrow> (string \<times> quota_counter) list" where
  "counterByKey counters =
     fold (\<lambda>c m. if map_of m (ct_key c) = None then AList.update (ct_key c) c m else m) counters []"

definition buildUsageQuotas ::
  "(string \<Rightarrow> string \<Rightarrow> int) \<Rightarrow> quota_counter list \<Rightarrow> int \<Rightarrow> int option \<Rightarrow> int option \<Rightarrow> int \<Rightarrow> usage_quota list" where
  "buildUsageQuotas lc counters seatCount currentPeriodStart currentPeriodEnd now =
     (let byKey = counterByKey counters;
          keys = uniq (sort_by lc (map fst byKey));
          (fallbackStart, fallbackEnd) = resolveCounterFallbackWindow currentPeriodStart currentPeriodEnd now
      in map (\<lambda>key.
           let counter = map_of byKey key;
               consumed = (if key = ''limit.seats'' then seatCount else nullish (map_option ct_consumed counter) 0);
               periodStart = nullish (map_option ct_periodStart counter) fallbackStart;
               periodEnd = nullish (map_option ct_periodEnd counter) fallbackEnd
           in \<lparr>uq_key = key, uq_label = nullish (map_of usageQuotaLabels key) (humanizeQuotaKey key),
               uq_consumed = consumed, uq_periodStart = toISOString periodStart, uq_periodEnd = toISOString periodEnd,
               uq_status = resolveUsageMetricStatus (Fin (of_int consumed)) None\<rparr>) keys)"

record telemetry_record =
  tr_id :: string
  tr_installationId :: string
  tr_eventType :: string
  tr_severity :: log_severity
  tr_payloadJson :: json
  tr_createdAt :: int

record activity_record =
  av_id :: string
  av_actorId :: "string option"
  av_eventType :: string
  av_metadataJson :: json
  av_createdAt :: int

datatype usage_event_source = FromTelemetry | FromActivity | FromAi

record usage_recent_event =
  re_id :: string
  re_source :: usage_event_source
  re_eventType :: string
  re_severity :: "log_severity option"
  re_occurredAt :: string
  re_installationId :: "string option"
  re_actorId :: "string option"
  re_summary :: string

definition recent_events ::
  "telemetry_record list \<Rightarrow> activity_record list \<Rightarrow> ai_request_record list \<Rightarrow> usage_recent_event list" where
  "recent_events telemetry activity aiRequests =
     map (\<lambda>r. \<lparr>re_id = ''telemetry:'' @ tr_id r, re_source = FromTelemetry, re_eventType = tr_eventType r,
       re_severity = Some (tr_severity r), re_occurredAt = toISOString (tr_createdAt r),
       re_installationId = Some (tr_installationId r), re_actorId = None, re_summary = summarizeRecord (tr_payloadJson r)\<rparr>) telemetry
     @ map (\<lambda>r. \<lparr>re_id = ''activity:'' @ av_id r, re_source = FromActivity, re_eventType = av_eventType r,
       re_severity = None, re_occurredAt = toISOString (av_createdAt r),
       re_installationId = None, re_actorId = av_actorId r, re_summary = summarizeRecord (av_metadataJson r)\<rparr>) activity
     @ map (\<lambda>r. \<lparr>re_id = ''ai:'' @ ai_id r, re_source = FromAi, re_eventType = resolveAiRequestEventType (ai_status r),
       re_severity = Some (resolveAiRequestSeverity (ai_status r)), re_occurredAt = toISOString (ai_occurredAt r),
       re_installationId = ai_installationId r, re_actorId = Some (ai_userId r), re_summary = summarizeAiRequest r\<rparr>) aiRequests"

text \<open>A comparator that returns NaN counts as zero.\<close>

definition newest_first :: "(string \<Rightarrow> int option) \<Rightarrow> usage_recent_event \<Rightarrow> usage_recent_event \<Rightarrow> int" where
  "newest_first host l r =
     (case (date_parse host (re_occurredAt r), date_parse host (re_occurredAt l)) of
        (Some b, Some a) \<Rightarrow> b - a
      | _ \<Rightarrow> 0)"

definition buildRecentUsageEvents ::
  "(string \<Rightarrow> int option) \<Rightarrow> telemetry_record list \<Rightarrow> activity_record list \<Rightarrow> ai_request_record list option \<Rightarrow>
   nat option \<Rightarrow> usage_recent_event list" where
  "buildRecentUsageEvents host telemetry activity aiRequests limit =
     take (nullish limit 8) (sort_by (newest_first host) (recent_events telemetry activity (nullish aiRequests [])))"

section \<open>The usage job\<close>

record usage_event =
  ue_installationId :: string
  ue_eventType :: string
  ue_occurredAt :: string
  ue_payload :: json_object

record usage_processing_result =
  up_accepted :: bool
  up_nextUsage :: usage_snapshot
  up_logEvent :: log_event

record usage_job_result = usage_processing_result +
  up_telemetryId :: "string option"

record installation_snapshot =
  in_id :: string
  in_installationId :: string
  in_browser :: string
  in_extensionVersion :: string
  in_schemaVersion :: string
  in_capabilities :: "string list"
  in_lastSeenAt :: "int option"

text \<open>Dates handed to the store may be invalid (\<open>None\<close>).\<close>

record touch_input =
  ti_installationId :: string
  ti_browser :: "string option"
  ti_extensionVersion :: "string option"
  ti_schemaVersion :: "string option"
  ti_capabilities :: "string list option"
  ti_lastSeenAt :: "int option"

record telemetry_input =
  ti_extensionInstallationId :: string
  ti_eventType :: string
  ti_severity :: log_severity
  ti_payloadJson :: json_object
  ti_createdAt :: "int option"

definition readString :: "json option \<Rightarrow> string option" where
  "readString v = (case v of Some (JStr s) \<Rightarrow> if trim s \<noteq> [] then Some (trim s) else None | _ \<Rightarrow> None)"

definition readStringArray :: "json option \<Rightarrow> string list option" where
  "readStringArray v = (case v of
     Some (JArr xs) \<Rightarrow> (let entries = normalizeCapabilities (JArr xs) in if 0 < length entries then Some entries else None)
   | _ \<Rightarrow> None)"

definition processUsageEvent :: "usage_event \<Rightarrow> usage_snapshot \<Rightarrow> usage_processing_result" where
  "processUsageEvent event usage =
     (let accepted = canConsumeUsage usage;
          nextUsage = (if accepted then incrementUsage usage (Fin 1) else usage)
      in \<lparr>up_accepted = accepted, up_nextUsage = nextUsage,
          up_logEvent = createLogEvent
            \<lparr>le_eventId = ue_installationId event @ '':'' @ ue_occurredAt event, le_eventType = ue_eventType event,
             le_actorId = ue_installationId event, le_actorType = SubjectSystem,
             le_targetType = ''extension_usage_event'', le_targetId = ue_installationId event,
             le_occurredAt = ue_occurredAt event, le_metadata = Some (ue_payload event),
             le_category = CatExtension, le_severity = (if accepted then SevInfo else SevWarn),
             le_status = Some (if accepted then StatusSuccess else StatusFailure)\<rparr>\<rparr>)"

definition touch_of :: "(string \<Rightarrow> int option) \<Rightarrow> usage_event \<Rightarrow> string \<Rightarrow> touch_input" where
  "touch_of host event i =
     \<lparr>ti_installationId = i,
      ti_browser = readString (map_of (ue_payload event) ''browser''),
      ti_extensionVersion = readString (map_of (ue_payload event) ''extensionVersion''),
      ti_schemaVersion = readString (map_of (ue_payload event) ''schemaVersion''),
      ti_capabilities = readStringArray (map_of (ue_payload event) ''capabilities''),
      ti_lastSeenAt = date_parse host (ue_occurredAt event)\<rparr>"

definition processUsageEventJob ::
  "(string \<Rightarrow> ('s, installation_snapshot option) op) \<Rightarrow> (touch_input \<Rightarrow> ('s, unit) op) \<Rightarrow>
   (telemetry_input \<Rightarrow> ('s, string) op) \<Rightarrow> (string \<Rightarrow> int option) \<Rightarrow> usage_event \<Rightarrow> ('s, usage_job_result) op" where
  "processUsageEventJob findI touch createT host event =
     bindS (findI (ue_installationId event)) (\<lambda>installation.
       let result = processUsageEvent event \<lparr>us_consumed = Fin 0, us_limit = None\<rparr>;
           done = (\<lambda>t. \<lparr>up_accepted = up_accepted result, up_nextUsage = up_nextUsage result,
             up_logEvent = up_logEvent result, up_telemetryId = t\<rparr>)
       in case installation of
            None \<Rightarrow> retS (done None)
          | Some i \<Rightarrow>
              thenS (touch (touch_of host event (in_installationId i)))
                (bindS (createT
                   \<lparr>ti_extensionInstallationId = in_id i, ti_eventType = ue_eventType event,
                    ti_severity = (if up_accepted result then SevInfo else SevWarn),
                    ti_payloadJson = ue_payload event, ti_createdAt = date_parse host (ue_occurredAt event)\<rparr>)
                  (\<lambda>t. retS (done (Some t)))))"

section \<open>Quota resets\<close>

record counter_snapshot =
  cs_key :: string
  cs_consumed :: jsnum
  cs_periodStart :: string
  cs_periodEnd :: string

record quota_reset_result =
  qr_nextCounter :: counter_snapshot
  qr_logEvent :: log_event

definition resetQuotaCounter :: "counter_snapshot \<Rightarrow> string \<Rightarrow> string \<Rightarrow> quota_reset_result" where
  "resetQuotaCounter counter nextPeriodStart nextPeriodEnd =
     \<lparr>qr_nextCounter = counter\<lparr>cs_consumed := Fin 0, cs_periodStart := nextPeriodStart, cs_periodEnd := nextPeriodEnd\<rparr>,
      qr_logEvent = createLogEvent
        \<lparr>le_eventId = ''quota-reset:'' @ cs_key counter @ '':'' @ nextPeriodStart, le_eventType = ''quota_counter.reset'',
         le_actorId = ''system'', le_actorType = SubjectSystem, le_targetType = ''quota_counter'',
         le_targetId = cs_key counter, le_occurredAt = nextPeriodStart,
         le_metadata = Some [(''previousConsumed'', JNum (cs_consumed counter)),
           (''previousPeriodStart'', JStr (cs_periodStart counter)), (''previousPeriodEnd'', JStr (cs_periodEnd counter))],
         le_category = CatDomain, le_severity = SevInfo, le_status = Some StatusSuccess\<rparr>\<rparr>"

record quota_reset_payload =
  qp_key :: string
  qp_consumed :: jsnum
  qp_periodStart :: string
  qp_periodEnd :: string
  qp_nextPeriodStart :: string
  qp_nextPeriodEnd :: string
  qp_requestedAt :: string

record quota_reset_job_result = quota_reset_result +
  qr_processed :: bool
  qr_requestedAt :: string

definition processQuotaResetJob :: "quota_reset_payload \<Rightarrow> quota_reset_job_result" where
  "processQuotaResetJob payload =
     (let result = resetQuotaCounter
            \<lparr>cs_key = qp_key payload, cs_consumed = qp_consumed payload, cs_periodStart = qp_periodStart payload,
             cs_periodEnd = qp_periodEnd payload\<rparr> (qp_nextPeriodStart payload) (qp_nextPeriodEnd payload)
      in \<lparr>qr_nextCounter = qr_nextCounter result, qr_logEvent = qr_logEvent result,
          qr_processed = True, qr_requestedAt = qp_requestedAt payload\<rparr>)"

section \<open>The store of the worker\<close>

record telemetry_row =
  tw_id :: string
  tw_extensionInstallationId :: string
  tw_eventType :: string
  tw_severity :: log_severity
  tw_payloadJson :: json_object
  tw_createdAt :: int

record usage_db =
  ub_installations :: "installation_record list"
  ub_telemetry :: "telemetry_row list"
  ub_counters :: "quota_counter list"

definition mapInstallationRecord :: "installation_record \<Rightarrow> installation_snapshot" where
  "mapInstallationRecord r =
     \<lparr>in_id = ir_id r, in_installationId = ir_installationId r, in_browser = ir_browser r,
      in_extensionVersion = ir_extensionVersion r, in_schemaVersion = ir_schemaVersion r,
      in_capabilities = normalizeCapabilities (ir_capabilitiesJson r), in_lastSeenAt = ir_lastSeenAt r\<rparr>"

definition lookupInstallation :: "usage_db \<Rightarrow> string \<Rightarrow> installation_snapshot option" where
  "lookupInstallation db i = map_option mapInstallationRecord (find (\<lambda>r. ir_installationId r = i) (ub_installations db))"

definition findInstallationByInstallationId :: "string \<Rightarrow> (usage_db, installation_snapshot option) op" where
  "findInstallationByInstallationId i = getS (\<lambda>db. lookupInstallation db i)"

text \<open>\<open>input.x ? { x: input.x } : {}\<close>: an empty string changes nothing.\<close>

definition kept_or :: "string \<Rightarrow> string option \<Rightarrow> string" where
  "kept_or old new = (if truthy new then the new else old)"

definition touchRow :: "touch_input \<Rightarrow> int \<Rightarrow> installation_record \<Rightarrow> installation_record" where
  "touchRow inp t r =
     r\<lparr>ir_browser := kept_or (ir_browser r) (ti_browser inp),
       ir_extensionVersion := kept_or (ir_extensionVersion r) (ti_extensionVersion inp),
       ir_schemaVersion := kept_or (ir_schemaVersion r) (ti_schemaVersion inp),
       ir_capabilitiesJson := (case ti_capabilities inp of None \<Rightarrow> ir_capabilitiesJson r | Some cs \<Rightarrow> JArr (map JStr cs)),
       ir_lastSeenAt := Some t\<rparr>"

definition touchInstallation :: "touch_input \<Rightarrow> (usage_db, unit) op" where
  "touchInstallation inp db =
     (case ti_lastSeenAt inp of
        None \<Rightarrow> (db, Inl InvalidValue)
      | Some t \<Rightarrow>
          if find (\<lambda>r. ir_installationId r = ti_installationId inp) (ub_installations db) = None then (db, Inl RecordNotFound)
          else (db\<lparr>ub_installations :=
                  map (\<lambda>r. if ir_installationId r = ti_installationId inp then touchRow inp t r else r) (ub_installations db)\<rparr>,
                Inr ()))"

text \<open>The primary key is generated: \<open>newId\<close>.\<close>

definition createTelemetry :: "(usage_db \<Rightarrow> string) \<Rightarrow> telemetry_input \<Rightarrow> (usage_db, string) op" where
  "createTelemetry newId inp db =
     (case ti_createdAt inp of
        None \<Rightarrow> (db, Inl InvalidValue)
      | Some t \<Rightarrow>
          if ti_extensionInstallationId inp \<notin> set (map ir_id (ub_installations db)) then (db, Inl ForeignKeyViolation)
          else (db\<lparr>ub_telemetry := ub_telemetry db
                  @ [\<lparr>tw_id = newId db, tw_extensionInstallationId = ti_extensionInstallationId inp,
                      tw_eventType = ti_eventType inp, tw_severity = ti_severity inp,
                      tw_payloadJson = ti_payloadJson inp, tw_createdAt = t\<rparr>]\<rparr>,
                Inr (newId db)))"

definition fits_int4 :: "int \<Rightarrow> bool" where
  "fits_int4 i = (- (2 ^ 31) \<le> i \<and> i < 2 ^ 31)"

definition saveQuotaCounter :: "quota_counter \<Rightarrow> (usage_db, unit) op" where
  "saveQuotaCounter c db =
     (let same = (\<lambda>r. ct_key r = ct_key c \<and> ct_periodStart r = ct_periodStart c \<and> ct_periodEnd r = ct_periodEnd c)
      in if \<not> fits_int4 (ct_consumed c) then (db, Inl IntegerOutOfRange)
         else if find same (ub_counters db) = None then (db\<lparr>ub_counters := ub_counters db @ [c]\<rparr>, Inr ())
         else (db\<lparr>ub_counters := map (\<lambda>r. if same r then r\<lparr>ct_consumed := ct_consumed c\<rparr> else r) (ub_counters db)\<rparr>, Inr ()))"

section \<open>The interface of the usage job\<close>

text \<open>
  What the job relies on: a lookup has no effect; a touch of a known installation changes that
  installation as asked and no other; a telemetry entry of a known installation is appended.
\<close>

definition touched :: "touch_input \<Rightarrow> int \<Rightarrow> installation_snapshot \<Rightarrow> installation_snapshot" where
  "touched inp t i =
     i\<lparr>in_browser := kept_or (in_browser i) (ti_browser inp),
       in_extensionVersion := kept_or (in_extensionVersion i) (ti_extensionVersion inp),
       in_schemaVersion := kept_or (in_schemaVersion i) (ti_schemaVersion inp),
       in_capabilities := (case ti_capabilities inp of None \<Rightarrow> in_capabilities i
         | Some cs \<Rightarrow> filter (\<lambda>c. trim c \<noteq> []) cs),
       in_lastSeenAt := Some t\<rparr>"

locale usage_store =
  fixes findI :: "string \<Rightarrow> ('s, installation_snapshot option) op"
    and touch :: "touch_input \<Rightarrow> ('s, unit) op"
    and createT :: "telemetry_input \<Rightarrow> ('s, string) op"
    and inst :: "'s \<Rightarrow> string \<Rightarrow> installation_snapshot option"
    and tele :: "'s \<Rightarrow> telemetry_row list"
  assumes find_law: "findI i s = (s, Inr (inst s i))"
    and key_law: "inst s i = Some x \<Longrightarrow> in_installationId x = i"
    and touch_law: "inst s (ti_installationId inp) = Some x \<Longrightarrow> ti_lastSeenAt inp = Some t \<Longrightarrow>
      \<exists>s'. touch inp s = (s', Inr ()) \<and> inst s' = (inst s)(ti_installationId inp \<mapsto> touched inp t x) \<and> tele s' = tele s"
    and create_law: "inst s i = Some x \<Longrightarrow> in_id x = ti_extensionInstallationId te \<Longrightarrow> ti_createdAt te = Some t \<Longrightarrow>
      \<exists>s' tid. createT te s = (s', Inr tid) \<and> inst s' = inst s
        \<and> tele s' = tele s @ [\<lparr>tw_id = tid, tw_extensionInstallationId = ti_extensionInstallationId te,
                      tw_eventType = ti_eventType te, tw_severity = ti_severity te,
                      tw_payloadJson = ti_payloadJson te, tw_createdAt = t\<rparr>]"
begin

lemma job_unknown:
  assumes "inst s (ue_installationId event) = None"
  shows "\<exists>r. processUsageEventJob findI touch createT host event s = (s, Inr r) \<and> up_telemetryId r = None"
  using assms by (simp add: processUsageEventJob_def find_law op_simps Let_def)

lemma job_known:
  assumes "inst s (ue_installationId event) = Some x" and "date_parse host (ue_occurredAt event) = Some t"
  shows "\<exists>s' r tid. processUsageEventJob findI touch createT host event s = (s', Inr r)
    \<and> up_telemetryId r = Some tid
    \<and> inst s' = (inst s)(ue_installationId event \<mapsto> touched (touch_of host event (ue_installationId event)) t x)
    \<and> tele s' = tele s @ [\<lparr>tw_id = tid, tw_extensionInstallationId = in_id x, tw_eventType = ue_eventType event,
        tw_severity = SevInfo, tw_payloadJson = ue_payload event, tw_createdAt = t\<rparr>]"
proof -
  let ?inp = "touch_of host event (ue_installationId event)"
  have inp: "ti_installationId ?inp = ue_installationId event" "ti_lastSeenAt ?inp = Some t"
    by (simp_all add: touch_of_def assms(2))
  have key: "in_installationId x = ue_installationId event" by (rule key_law [OF assms(1)])
  obtain s1 where s1: "touch ?inp s = (s1, Inr ())" "tele s1 = tele s"
      "inst s1 = (inst s)(ue_installationId event \<mapsto> touched ?inp t x)"
    using touch_law [of s ?inp x t] assms(1) inp by auto
  let ?t = "\<lparr>ti_extensionInstallationId = in_id x, ti_eventType = ue_eventType event, ti_severity = SevInfo,
      ti_payloadJson = ue_payload event, ti_createdAt = Some t\<rparr>"
  have "inst s1 (ue_installationId event) = Some (touched ?inp t x)" by (simp add: s1)
  then obtain s2 tid where s2: "createT ?t s1 = (s2, Inr tid)" "inst s2 = inst s1"
      "tele s2 = tele s1 @ [\<lparr>tw_id = tid, tw_extensionInstallationId = in_id x, tw_eventType = ue_eventType event,
        tw_severity = SevInfo, tw_payloadJson = ue_payload event, tw_createdAt = t\<rparr>]"
    using create_law [of s1 "ue_installationId event" "touched ?inp t x" ?t t] by (auto simp: touched_def)
  show ?thesis
    by (simp add: processUsageEventJob_def find_law op_simps Let_def assms key s1 s2 processUsageEvent_def
        canConsumeUsage_def)
qed

end

section \<open>The worker's repository provides it\<close>

lemma normalizeCapabilities_strings: "normalizeCapabilities (JArr (map JStr cs)) = filter (\<lambda>c. trim c \<noteq> []) cs"
  by (induction cs) (auto simp: normalizeCapabilities_def)

lemma mapInstallationRecord_touch: "mapInstallationRecord (touchRow inp t r) = touched inp t (mapInstallationRecord r)"
  by (simp add: mapInstallationRecord_def touchRow_def touched_def normalizeCapabilities_strings split: option.splits)

lemma find_touched:
  "find (\<lambda>r. ir_installationId r = i) (map (\<lambda>r. if ir_installationId r = j then touchRow inp t r else r) rs)
    = map_option (\<lambda>r. if ir_installationId r = j then touchRow inp t r else r) (find (\<lambda>r. ir_installationId r = i) rs)"
  by (rule find_map_preserving) (simp add: touchRow_def)

lemma lookup_touched:
  assumes "lookupInstallation db (ti_installationId inp) = Some x" and "ti_lastSeenAt inp = Some t"
  shows "\<exists>db'. touchInstallation inp db = (db', Inr ())
    \<and> lookupInstallation db' = (lookupInstallation db)(ti_installationId inp \<mapsto> touched inp t x)
    \<and> ub_telemetry db' = ub_telemetry db"
proof -
  obtain r where r: "find (\<lambda>r. ir_installationId r = ti_installationId inp) (ub_installations db) = Some r"
      "x = mapInstallationRecord r"
    using assms(1) by (auto simp: lookupInstallation_def)
  have "ir_installationId r = ti_installationId inp" using find_SomeD [OF r(1)] by simp
  let ?db' = "db\<lparr>ub_installations :=
      map (\<lambda>r. if ir_installationId r = ti_installationId inp then touchRow inp t r else r) (ub_installations db)\<rparr>"
  have "lookupInstallation ?db' i = ((lookupInstallation db)(ti_installationId inp \<mapsto> touched inp t x)) i" for i
  proof (cases "i = ti_installationId inp")
    case True
    with r \<open>ir_installationId r = ti_installationId inp\<close> show ?thesis
      by (simp add: lookupInstallation_def find_touched mapInstallationRecord_touch)
  next
    case False
    then show ?thesis
      using find_SomeD [of "\<lambda>r. ir_installationId r = i" "ub_installations db"]
      by (cases "find (\<lambda>r. ir_installationId r = i) (ub_installations db)")
        (simp_all add: lookupInstallation_def find_touched)
  qed
  then have "lookupInstallation ?db' = (lookupInstallation db)(ti_installationId inp \<mapsto> touched inp t x)" by (rule ext)
  then show ?thesis using assms(2) r(1) by (simp add: touchInstallation_def)
qed

interpretation worker_usage: usage_store findInstallationByInstallationId touchInstallation "createTelemetry newId"
  lookupInstallation ub_telemetry
proof (unfold_locales, goal_cases)
  case (1 i s)
  then show ?case by (simp add: findInstallationByInstallationId_def op_simps)
next
  case (2 s i x)
  then show ?case by (auto simp: lookupInstallation_def mapInstallationRecord_def dest: find_SomeD)
next
  case (3 s inp x t)
  then show ?case by (rule lookup_touched)
next
  case (4 s i x inp t)
  then have "ti_extensionInstallationId inp \<in> set (map ir_id (ub_installations s))"
    by (auto simp: lookupInstallation_def mapInstallationRecord_def dest!: find_SomeD intro: rev_image_eqI)
  with 4 show ?case by (simp add: createTelemetry_def lookupInstallation_def fun_eq_iff)
qed

section \<open>Lemmas on the decisions\<close>

text \<open>
  The comparison with 0.8 is made on a rounded quotient. For counts up to \<open>2^53\<close> the quotient is
  so far from the threshold, unless it is exactly on it, that rounding does not matter.
\<close>

lemma threshold_gap: "fl (4 / 5 - 1 / 45035996273704960) < fl (4 / 5)"
  by code_simp

lemma fl_quotient_below:
  assumes "0 < l" and "l \<le> 2 ^ 53" and "5 * c < 4 * l"
  shows "fl (of_int c / of_int l) < fl (4 / 5)"
proof -
  have l: "0 < rat_of_int l" "rat_of_int l \<le> 9007199254740992"
    using assms(1,2) by simp_all
  have "5 * c \<le> 4 * l - 1" using assms(3) by simp
  then have "rat_of_int (5 * c) \<le> rat_of_int (4 * l - 1)" by (simp only: of_int_le_iff)
  then have c: "5 * rat_of_int c \<le> 4 * rat_of_int l - 1" by simp
  have "rat_of_int c / rat_of_int l \<le> 4 / 5 - 1 / (5 * rat_of_int l)"
    using c l by (simp add: field_simps)
  also have "\<dots> \<le> 4 / 5 - 1 / 45035996273704960"
    using l by (simp add: field_simps)
  finally have "fl (of_int c / of_int l) \<le> fl (4 / 5 - 1 / 45035996273704960)" by (rule fl_mono)
  with threshold_gap show ?thesis by (rule le_less_trans [rotated])
qed

lemma quotient_small: "0 \<le> c \<Longrightarrow> c < l \<Longrightarrow> \<bar>rat_of_int c / rat_of_int l\<bar> < 2 ^ 1023"
proof -
  assume "0 \<le> c" "c < l"
  then have "\<bar>rat_of_int c / rat_of_int l\<bar> \<le> 1" by (simp add: divide_le_eq)
  also have "\<dots> < 2 ^ 1023" by simp
  finally show ?thesis .
qed

lemma recent_times:
  assumes "list_all (\<lambda>t. - 62167219200000 \<le> t \<and> t < 253402300800000)
      (map tr_createdAt telemetry @ map av_createdAt activity @ map ai_occurredAt aiRequests)"
    and "e \<in> set (recent_events telemetry activity aiRequests)"
  shows "\<exists>t. date_parse host (re_occurredAt e) = Some t"
  using assms unfolding recent_events_def list_all_iff
  by (auto simp: date_parse_toISOString)

definition event_time :: "(string \<Rightarrow> int option) \<Rightarrow> usage_recent_event \<Rightarrow> int" where
  "event_time host e = nullish (date_parse host (re_occurredAt e)) 0"

lemma sort_by_local:
  "(\<And>x y. x \<in> set xs \<Longrightarrow> y \<in> set xs \<Longrightarrow> (cmp x y \<le> 0) = (cmp' x y \<le> 0)) \<Longrightarrow> sort_by cmp xs = sort_by cmp' xs"
proof (induction xs)
  case (Cons x xs)
  then have "sort_by cmp xs = sort_by cmp' xs" by simp
  moreover have "insert_by cmp x (sort_by cmp' xs) = insert_by cmp' x (sort_by cmp' xs)"
    using Cons.prems by (intro insert_by_cong) auto
  ultimately show ?case by simp
qed simp

lemma sort_newest_first:
  assumes "\<And>e. e \<in> set es \<Longrightarrow> \<exists>t. date_parse host (re_occurredAt e) = Some t"
  shows "sort_by (newest_first host) es = sort_key (\<lambda>e. - event_time host e) es"
proof -
  have "sort_by (newest_first host) es = sort_by (\<lambda>a b. - event_time host a - - event_time host b) es"
  proof (rule sort_by_local)
    fix x y
    assume "x \<in> set es" "y \<in> set es"
    then obtain a b where "date_parse host (re_occurredAt x) = Some a" "date_parse host (re_occurredAt y) = Some b"
      using assms by blast
    then show "(newest_first host x y \<le> 0) = (- event_time host x - - event_time host y \<le> 0)"
      by (simp add: newest_first_def event_time_def)
  qed
  then show ?thesis by (simp only: sort_by_key)
qed

lemma keys_counterByKey: "set (map fst (counterByKey counters)) = set (map ct_key counters)"
proof -
  have "fst ` set (fold (\<lambda>c m. if map_of m (ct_key c) = None then AList.update (ct_key c) c m else m) cs m)
      = fst ` set m \<union> ct_key ` set cs" for cs m
  proof (induction cs arbitrary: m)
    case (Cons c cs)
    show ?case
    proof (cases "map_of m (ct_key c) = None")
      case True
      have "fst ` set (AList.update (ct_key c) c m) = {ct_key c} \<union> fst ` set m"
        by (rule AList.dom_update)
      with True Cons [of "AList.update (ct_key c) c m"] show ?thesis by simp
    next
      case False
      then have "ct_key c \<in> fst ` set m" by (metis map_of_eq_None_iff)
      with False Cons [of m] show ?thesis by auto
    qed
  qed simp
  from this [of counters "[]"] show ?thesis by (simp add: counterByKey_def)
qed

text \<open>The statuses in the order of their urgency.\<close>

instantiation usage_metric_status :: linorder
begin

definition urgency :: "usage_metric_status \<Rightarrow> nat" where
  "urgency s = (case s of Healthy \<Rightarrow> 0 | Warning \<Rightarrow> 1 | Exceeded \<Rightarrow> 2)"

definition less_eq_usage_metric_status :: "usage_metric_status \<Rightarrow> usage_metric_status \<Rightarrow> bool" where
  "less_eq_usage_metric_status a b = (urgency a \<le> urgency b)"

definition less_usage_metric_status :: "usage_metric_status \<Rightarrow> usage_metric_status \<Rightarrow> bool" where
  "less_usage_metric_status a b = (urgency a < urgency b)"

instance
  by standard
    (auto simp: less_eq_usage_metric_status_def less_usage_metric_status_def urgency_def split: usage_metric_status.splits)

end

lemma status_order [simp]: "Healthy \<le> s" "s \<le> Exceeded"
  by (cases s; simp add: less_eq_usage_metric_status_def urgency_def)+

lemma num_div_mono:
  assumes "0 < l" and "x \<le> y" and "\<bar>x / l\<bar> < 2 ^ 1023" and "\<bar>y / l\<bar> < 2 ^ 1023"
  shows "num_le (num_div (Fin x) (Fin l)) (num_div (Fin y) (Fin l))"
proof -
  have "x / l \<le> y / l" using assms(1,2) by (simp add: divide_right_mono)
  then have "fl (x / l) \<le> fl (y / l)" by (rule fl_mono)
  with assms show ?thesis by (simp add: num_of_rat_Fin)
qed

section \<open>Properties\<close>

text \<open>
  Metric status: for whole counts up to \<open>2^53\<close> the status computed on rounded doubles is the one
  of exact arithmetic: exceeded from the limit on, warning from four fifths of it on.
\<close>

theorem resolveUsageMetricStatus_exact:
  assumes "0 \<le> c" and "0 \<le> l" and "l \<le> 2 ^ 53"
  shows "resolveUsageMetricStatus (Fin (of_int c)) (Some (Fin (of_int l))) =
    (if l \<le> c then Exceeded else if 4 * l \<le> 5 * c then Warning else Healthy)"
proof (cases "l \<le> c")
  case False
  with assms have l: "0 < l" "c < l" by simp_all
  have q: "num_div (Fin (of_int c)) (Fin (of_int l)) = Fin (fl (of_int c / of_int l))"
    using l num_of_rat_Fin [OF quotient_small [OF assms(1) l(2)]] by simp
  show ?thesis
  proof (cases "4 * l \<le> 5 * c")
    case True
    then have "rat_of_int (4 * l) \<le> rat_of_int (5 * c)" by (simp only: of_int_le_iff)
    then have "4 / 5 \<le> rat_of_int c / rat_of_int l" using l by (simp add: field_simps)
    then have "fl (4 / 5) \<le> fl (of_int c / of_int l)" by (rule fl_mono)
    then show ?thesis using False True q by (simp add: resolveUsageMetricStatus_def warning_threshold_def del: num_div.simps)
  next
    case False': False
    then have "fl (of_int c / of_int l) < fl (4 / 5)"
      using fl_quotient_below [OF l(1) assms(3)] by simp
    then show ?thesis using False False' q
      by (simp add: resolveUsageMetricStatus_def warning_threshold_def del: num_div.simps)
  qed
qed (simp add: resolveUsageMetricStatus_def)

theorem resolveUsageMetricStatus_exact_witness:
  "resolveUsageMetricStatus (Fin (of_int 80)) (Some (Fin (of_int 100))) = Warning
   \<and> resolveUsageMetricStatus (Fin (of_int 79)) (Some (Fin (of_int 100))) = Healthy"
  using resolveUsageMetricStatus_exact [of 80 100] resolveUsageMetricStatus_exact [of 79 100] by simp

text \<open>
  The usage job on the worker's tables: an event of a known installation with a valid time
  updates exactly that installation, appends one telemetry row that carries the event, and returns
  its identifier; an event of an unknown installation is accepted and leaves the tables unchanged.
\<close>

theorem usage_job_effects:
  "(lookupInstallation db (ue_installationId event) = None \<longrightarrow>
      (\<exists>r. processUsageEventJob findInstallationByInstallationId touchInstallation (createTelemetry newId) host event db
             = (db, Inr r) \<and> up_telemetryId r = None))
   \<and> (\<forall>x t. lookupInstallation db (ue_installationId event) = Some x \<and> date_parse host (ue_occurredAt event) = Some t \<longrightarrow>
      (\<exists>db' r tid. processUsageEventJob findInstallationByInstallationId touchInstallation (createTelemetry newId) host event db
             = (db', Inr r)
        \<and> up_telemetryId r = Some tid
        \<and> lookupInstallation db' = (lookupInstallation db)
            (ue_installationId event \<mapsto> touched (touch_of host event (ue_installationId event)) t x)
        \<and> ub_telemetry db' = ub_telemetry db @ [\<lparr>tw_id = tid, tw_extensionInstallationId = in_id x,
            tw_eventType = ue_eventType event, tw_severity = SevInfo, tw_payloadJson = ue_payload event, tw_createdAt = t\<rparr>]))"
  using worker_usage.job_unknown worker_usage.job_known by blast

theorem usage_job_effects_witness:
  "\<exists>r. processUsageEventJob findInstallationByInstallationId touchInstallation (createTelemetry (\<lambda>_. ''t1'')) (\<lambda>_. None)
      \<lparr>ue_installationId = ''i1'', ue_eventType = ''e'', ue_occurredAt = ''2024-01-01T00:00:00.000Z'', ue_payload = []\<rparr>
      \<lparr>ub_installations = [], ub_telemetry = [], ub_counters = []\<rparr>
    = (\<lparr>ub_installations = [], ub_telemetry = [], ub_counters = []\<rparr>, Inr r) \<and> up_telemetryId r = None"
  using usage_job_effects [of "\<lparr>ub_installations = [], ub_telemetry = [], ub_counters = []\<rparr>"
      "\<lparr>ue_installationId = ''i1'', ue_eventType = ''e'', ue_occurredAt = ''2024-01-01T00:00:00.000Z'', ue_payload = []\<rparr>"
      "\<lambda>_. ''t1''" "\<lambda>_. None"] by (simp add: lookupInstallation_def)

text \<open>
  Recent events: the list is the newest \<open>limit\<close> of all events, newest first, events of the same
  instant in the order telemetry, activity, AI requests.
\<close>

theorem buildRecentUsageEvents_newest:
  assumes "list_all (\<lambda>t. - 62167219200000 \<le> t \<and> t < 253402300800000)
      (map tr_createdAt telemetry @ map av_createdAt activity @ map ai_occurredAt aiRequests)"
  shows "buildRecentUsageEvents host telemetry activity (Some aiRequests) limit =
    take (nullish limit 8) (sort_key (\<lambda>e. - event_time host e) (recent_events telemetry activity aiRequests))"
  using sort_newest_first [OF recent_times [OF assms]] by (simp add: buildRecentUsageEvents_def)

theorem buildRecentUsageEvents_newest_witness:
  "map re_id (buildRecentUsageEvents (\<lambda>_. None)
     [\<lparr>tr_id = ''1'', tr_installationId = ''i'', tr_eventType = ''e'', tr_severity = SevInfo, tr_payloadJson = JNull,
       tr_createdAt = 1000\<rparr>]
     [\<lparr>av_id = ''2'', av_actorId = None, av_eventType = ''e'', av_metadataJson = JNull, av_createdAt = 86400000\<rparr>]
     (Some []) (Some 1)) = [''activity:2'']"
  apply (subst buildRecentUsageEvents_newest)
   apply simp
  apply code_simp
  done

text \<open>
  Quota snapshots: there is one for each key that has a counter, in the order of the locale
  collation, the seats are counted from the seat count, and no snapshot ever carries a warning,
  because no limit reaches the status.
\<close>

theorem buildUsageQuotas_keys:
  "map uq_key (buildUsageQuotas lc counters seatCount s e now) = uniq (sort_by lc (map fst (counterByKey counters)))
   \<and> set (map uq_key (buildUsageQuotas lc counters seatCount s e now)) = set (map ct_key counters)
   \<and> list_all (\<lambda>q. uq_status q = Healthy \<and> (uq_key q = ''limit.seats'' \<longrightarrow> uq_consumed q = seatCount))
       (buildUsageQuotas lc counters seatCount s e now)"
proof -
  have k: "map uq_key (buildUsageQuotas lc counters seatCount s e now) = uniq (sort_by lc (map fst (counterByKey counters)))"
    by (simp add: buildUsageQuotas_def Let_def split_beta comp_def)
  then have "set (map uq_key (buildUsageQuotas lc counters seatCount s e now)) = set (map ct_key counters)"
    using keys_counterByKey [of counters] by simp
  with k show ?thesis
    by (simp add: buildUsageQuotas_def Let_def split_beta list_all_iff resolveUsageMetricStatus_def)
qed

theorem buildUsageQuotas_keys_witness:
  "map uq_key (buildUsageQuotas (\<lambda>a b. if a < b then -1 else if b < a then 1 else 0)
     [\<lparr>ct_key = ''limit.seats'', ct_consumed = 1, ct_periodStart = 0, ct_periodEnd = 1\<rparr>] 5 None None 0) = [''limit.seats'']"
  using buildUsageQuotas_keys [of "\<lambda>a b. if a < b then -1 else if b < a then 1 else 0"
     "[\<lparr>ct_key = ''limit.seats'', ct_consumed = 1, ct_periodStart = 0, ct_periodEnd = 1\<rparr>]" 5 None None 0, THEN conjunct1]
  by (simp add: counterByKey_def)

end
