(* ===== verification/Compatibility.thy ===== *)
theory Compatibility
  imports JsNumber
begin

text \<open>
  Extension versions and compatibility: \<open>compareSemver\<close>, \<open>evaluateCompatibility\<close> of
  \<open>packages/extension/src/index.ts\<close> and the rule mapping of
  \<open>apps/api/src/services/extension-bootstrap-service.ts\<close>.
\<close>

section \<open>Types\<close>

datatype compatibility_status = Supported | SupportedWithWarnings | Deprecated | Unsupported

record compatibility_handshake =
  hs_extensionVersion :: string
  hs_buildId :: "string option"
  hs_schemaVersion :: string
  hs_capabilities :: "string list"
  hs_browser :: string

record compatibility_policy =
  cp_minimumVersion :: string
  cp_recommendedVersion :: string
  cp_supportedSchemaVersions :: "string list"
  cp_requiredCapabilities :: "string list option"
  cp_resultStatus :: "compatibility_status option"
  cp_reason :: "string option"

record compatibility_result =
  cr_status :: compatibility_status
  cr_minimumVersion :: string
  cr_recommendedVersion :: string
  cr_supportedSchemaVersions :: "string list"
  cr_reason :: "string option"

section \<open>Version comparison\<close>

text \<open>
  The loop over the two component lists, a missing component counting as 0; a component that is
  not a number (NaN) is neither above nor below anything.
\<close>

fun compareParts :: "jsnum list \<Rightarrow> jsnum list \<Rightarrow> int" where
  "compareParts [] [] = 0"
| "compareParts (l # ls) [] =
     (if num_less (Fin 0) l then 1 else if num_less l (Fin 0) then -1 else compareParts ls [])"
| "compareParts [] (r # rs) =
     (if num_less r (Fin 0) then 1 else if num_less (Fin 0) r then -1 else compareParts [] rs)"
| "compareParts (l # ls) (r # rs) =
     (if num_less r l then 1 else if num_less l r then -1 else compareParts ls rs)"

definition version_parts :: "string \<Rightarrow> jsnum list" where
  "version_parts v = map Number (split_on (CHR ''.'') v)"

definition compareSemver :: "string \<Rightarrow> string \<Rightarrow> int" where
  "compareSemver left right = compareParts (version_parts left) (version_parts right)"

section \<open>Compatibility of an extension\<close>

definition createCompatibilityResult ::
  "compatibility_policy \<Rightarrow> compatibility_status \<Rightarrow> string option \<Rightarrow> compatibility_result" where
  "createCompatibilityResult policy status reason =
     \<lparr>cr_status = status, cr_minimumVersion = cp_minimumVersion policy,
      cr_recommendedVersion = cp_recommendedVersion policy,
      cr_supportedSchemaVersions = cp_supportedSchemaVersions policy,
      cr_reason = (if truthy reason then reason else None)\<rparr>"

definition missingCapabilities :: "compatibility_handshake \<Rightarrow> compatibility_policy \<Rightarrow> string list" where
  "missingCapabilities handshake policy =
     filter (\<lambda>c. c \<notin> set (hs_capabilities handshake)) (nullish (cp_requiredCapabilities policy) [])"

definition evaluateCompatibility ::
  "compatibility_handshake \<Rightarrow> compatibility_policy \<Rightarrow> compatibility_result" where
  "evaluateCompatibility handshake policy =
     (if compareSemver (hs_extensionVersion handshake) (cp_minimumVersion policy) < 0
      then createCompatibilityResult policy Unsupported
             (Some ''Extension version is below the minimum supported version.'')
      else if hs_schemaVersion handshake \<notin> set (cp_supportedSchemaVersions policy)
      then createCompatibilityResult policy SupportedWithWarnings
             (Some ''Config schema version is not a preferred match.'')
      else let missing = missingCapabilities handshake policy in
        if 0 < length missing
        then createCompatibilityResult policy Deprecated
               (Some (''Missing capabilities: '' @ join '', '' missing))
        else let computedStatus =
                   (if compareSemver (hs_extensionVersion handshake) (cp_recommendedVersion policy) < 0
                    then SupportedWithWarnings else Supported);
                 status = (case cp_resultStatus policy of
                     Some s \<Rightarrow> (if s \<noteq> Supported then s else computedStatus)
                   | None \<Rightarrow> computedStatus);
                 reason = (if status \<noteq> computedStatus then cp_reason policy else orElse (cp_reason policy) None)
             in createCompatibilityResult policy status reason)"

section \<open>Stored compatibility rules\<close>

text \<open>
  A row of the rule table; the two JSON columns hold whatever was stored, and
  \<open>requiredCapabilities\<close> may be SQL null (\<open>None\<close>).
\<close>

record compatibility_rule =
  rl_id :: string
  rl_minimumVersion :: string
  rl_recommendedVersion :: string
  rl_supportedSchemaVersions :: json
  rl_requiredCapabilities :: "json option"
  rl_resultStatus :: compatibility_status
  rl_reason :: "string option"
  rl_createdAt :: int

record compatibility_rule_definition =
  rd_id :: string
  rd_minimumVersion :: string
  rd_recommendedVersion :: string
  rd_supportedSchemaVersions :: "string list"
  rd_requiredCapabilities :: "string list option"
  rd_resultStatus :: compatibility_status
  rd_reason :: "string option"
  rd_createdAt :: string

definition defaultCompatibilityPolicy :: compatibility_policy where
  "defaultCompatibilityPolicy =
     \<lparr>cp_minimumVersion = ''1.0.0'', cp_recommendedVersion = ''1.5.0'',
      cp_supportedSchemaVersions = [''1'', ''2''], cp_requiredCapabilities = Some [''quiz-capture''],
      cp_resultStatus = None, cp_reason = None\<rparr>"

definition stringArray :: "json \<Rightarrow> string list option" where
  "stringArray v = (case v of JArr xs \<Rightarrow> json_strings xs | _ \<Rightarrow> None)"

definition mapExtensionCompatibilityRuleToPolicy ::
  "compatibility_rule \<Rightarrow> compatibility_policy \<Rightarrow> compatibility_policy" where
  "mapExtensionCompatibilityRuleToPolicy rule fallback =
     \<lparr>cp_minimumVersion = rl_minimumVersion rule,
      cp_recommendedVersion = rl_recommendedVersion rule,
      cp_supportedSchemaVersions =
        (case stringArray (rl_supportedSchemaVersions rule) of
           Some vs \<Rightarrow> if 0 < length vs then vs else cp_supportedSchemaVersions fallback
         | None \<Rightarrow> cp_supportedSchemaVersions fallback),
      cp_requiredCapabilities =
        (case rl_requiredCapabilities rule of
           None \<Rightarrow> None
         | Some j \<Rightarrow> (if j = JNull then None
             else case stringArray j of Some cs \<Rightarrow> Some cs | None \<Rightarrow> cp_requiredCapabilities fallback)),
      cp_resultStatus = Some (rl_resultStatus rule),
      cp_reason = (if truthy (rl_reason rule) then rl_reason rule else None)\<rparr>"

definition mapExtensionCompatibilityRuleToDefinition ::
  "compatibility_rule \<Rightarrow> compatibility_rule_definition" where
  "mapExtensionCompatibilityRuleToDefinition rule =
     \<lparr>rd_id = rl_id rule, rd_minimumVersion = rl_minimumVersion rule,
      rd_recommendedVersion = rl_recommendedVersion rule,
      rd_supportedSchemaVersions = nullish (stringArray (rl_supportedSchemaVersions rule)) [],
      rd_requiredCapabilities = Option.bind (rl_requiredCapabilities rule) stringArray,
      rd_resultStatus = rl_resultStatus rule,
      rd_reason = (if truthy (rl_reason rule) then rl_reason rule else None),
      rd_createdAt = toISOString (rl_createdAt rule)\<rparr>"

text \<open>The newest rule of the table: \<open>orderBy createdAt desc, id desc\<close>, first row.\<close>

definition rule_newer :: "compatibility_rule \<Rightarrow> compatibility_rule \<Rightarrow> bool" where
  "rule_newer a b = (rl_createdAt b < rl_createdAt a \<or> (rl_createdAt a = rl_createdAt b \<and> rl_id b < rl_id a))"

definition rule_order :: "compatibility_rule \<Rightarrow> compatibility_rule \<Rightarrow> int" where
  "rule_order a b = (if rule_newer a b then -1 else if rule_newer b a then 1 else 0)"

definition findRecentRules :: "compatibility_rule list \<Rightarrow> nat \<Rightarrow> compatibility_rule list" where
  "findRecentRules rules limit = take limit (sort_by rule_order rules)"

definition findLatestRule :: "compatibility_rule list \<Rightarrow> compatibility_rule option" where
  "findLatestRule rules = (case sort_by rule_order rules of [] \<Rightarrow> None | r # _ \<Rightarrow> Some r)"

section \<open>The abstract order on versions\<close>

text \<open>
  What the comparison is meant to compute: a version is a list of natural components, extended
  by zeros without end, and versions are ordered lexicographically.
\<close>

fun lexCompare :: "int list \<Rightarrow> int list \<Rightarrow> int" where
  "lexCompare [] [] = 0"
| "lexCompare (l # ls) [] = (if 0 < l then 1 else lexCompare ls [])"
| "lexCompare [] (r # rs) = (if 0 < r then -1 else lexCompare [] rs)"
| "lexCompare (l # ls) (r # rs) = (if r < l then 1 else if l < r then -1 else lexCompare ls rs)"

definition component :: "int list \<Rightarrow> nat \<Rightarrow> int" where
  "component ns i = (if i < length ns then ns ! i else 0)"

definition showVersion :: "int list \<Rightarrow> string" where
  "showVersion ns = join ''.'' (map show_digits ns)"

definition version_ok :: "int list \<Rightarrow> bool" where
  "version_ok ns = (ns \<noteq> [] \<and> list_all (\<lambda>n. 0 \<le> n \<and> n \<le> 2 ^ 53) ns)"

section \<open>Lemmas\<close>

lemma num_less_asym: "num_less a b \<Longrightarrow> \<not> num_less b a"
  by (cases a; cases b) auto

lemma compareParts_sum: "compareParts ls rs + compareParts rs ls = 0"
proof (induction ls rs rule: compareParts.induct)
  case (2 l ls)
  then show ?case using num_less_asym [of l "Fin 0"] by auto
next
  case (3 r rs)
  then show ?case using num_less_asym [of r "Fin 0"] by auto
next
  case (4 l ls r rs)
  then show ?case using num_less_asym [of l r] by auto
qed simp

lemma compareParts_swap: "compareParts ls rs = - compareParts rs ls"
  unfolding eq_neg_iff_add_eq_0 by (rule compareParts_sum)

lemma compareParts_refl: "compareParts ls ls = 0"
proof (induction ls)
  case (Cons a ls)
  then show ?case using num_less_asym [of a a] by auto
qed simp

lemma show_digits_no_dot: "0 \<le> n \<Longrightarrow> CHR ''.'' \<notin> set (show_digits n)"
  using show_digits_digits [of n] digit_plain(3) by (auto simp only: list_all_iff)

lemma version_parts_show:
  assumes "version_ok ns"
  shows "version_parts (showVersion ns) = map (\<lambda>n. Fin (of_int n)) ns"
proof -
  have "split_on (CHR ''.'') (showVersion ns) = map show_digits ns"
    unfolding showVersion_def using assms
    by (intro split_on_join) (auto simp: version_ok_def list_all_iff show_digits_no_dot)
  then show ?thesis using assms
    by (auto simp: version_parts_def version_ok_def list_all_iff Number_show_digits)
qed

lemma compareParts_lex:
  "list_all (\<lambda>n. 0 \<le> n) ls \<Longrightarrow> list_all (\<lambda>n. 0 \<le> n) rs \<Longrightarrow>
   compareParts (map (\<lambda>n. Fin (of_int n)) ls) (map (\<lambda>n. Fin (of_int n)) rs) = lexCompare ls rs"
  by (induction ls rs rule: lexCompare.induct) auto

lemma lexCompare_sign: "lexCompare ls rs \<in> {-1, 0, 1}"
  by (induction ls rs rule: lexCompare.induct) auto

lemma component_Nil [simp]: "component [] i = 0"
  by (simp add: component_def)

lemma component_Cons: "component (n # ns) i = (case i of 0 \<Rightarrow> n | Suc j \<Rightarrow> component ns j)"
  by (auto simp: component_def split: nat.splits)

lemma component_Cons_simps [simp]:
  "component (n # ns) 0 = n" "component (n # ns) (Suc j) = component ns j"
  by (simp_all add: component_Cons)

lemma component_nonneg: "list_all (\<lambda>n. 0 \<le> n) ns \<Longrightarrow> 0 \<le> component ns i"
  by (auto simp: component_def list_all_length)

lemma less_first_difference:
  "(\<exists>i. f i < g i \<and> (\<forall>j<i. f j = g j)) \<longleftrightarrow>
     (f 0 :: int) < g 0 \<or> (f 0 = g 0 \<and> (\<exists>i. f (Suc i) < g (Suc i) \<and> (\<forall>j<i. f (Suc j) = g (Suc j))))"
proof
  assume "\<exists>i. f i < g i \<and> (\<forall>j<i. f j = g j)"
  then obtain i where i: "f i < g i" "\<forall>j<i. f j = g j" by blast
  show "f 0 < g 0 \<or> (f 0 = g 0 \<and> (\<exists>i. f (Suc i) < g (Suc i) \<and> (\<forall>j<i. f (Suc j) = g (Suc j))))"
  proof (cases i)
    case (Suc k)
    then have "f 0 = g 0" and "f (Suc k) < g (Suc k) \<and> (\<forall>j<k. f (Suc j) = g (Suc j))"
      using i by auto
    then show ?thesis by blast
  qed (use i in auto)
next
  assume "f 0 < g 0 \<or> (f 0 = g 0 \<and> (\<exists>i. f (Suc i) < g (Suc i) \<and> (\<forall>j<i. f (Suc j) = g (Suc j))))"
  then show "\<exists>i. f i < g i \<and> (\<forall>j<i. f j = g j)"
  proof (elim disjE conjE exE)
    fix i
    assume "f 0 = g 0" "f (Suc i) < g (Suc i)" "\<forall>j<i. f (Suc j) = g (Suc j)"
    then have "f (Suc i) < g (Suc i) \<and> (\<forall>j<Suc i. f j = g j)"
      by (auto simp: less_Suc_eq_0_disj)
    then show ?thesis by blast
  qed auto
qed

text \<open>The abstract comparison is below zero exactly at the first difference.\<close>

lemma lexCompare_less_iff:
  assumes "list_all (\<lambda>n. 0 \<le> n) ls" and "list_all (\<lambda>n. 0 \<le> n) rs"
  shows "lexCompare ls rs < 0 \<longleftrightarrow> (\<exists>i. component ls i < component rs i \<and> (\<forall>j<i. component ls j = component rs j))"
  using assms
proof (induction ls rs rule: lexCompare.induct)
  case (2 l ls)
  then show ?case by (subst less_first_difference) auto
next
  case (3 r rs)
  then show ?case by (subst less_first_difference) auto
next
  case (4 l ls r rs)
  then show ?case by (subst less_first_difference) auto
qed simp

section \<open>Properties\<close>

text \<open>
  On versions of natural components \<open>compareSemver\<close> is the lexicographic order of the
  zero-padded component sequences: it is negative exactly when the first component in which the
  versions differ is smaller on the left, it is antisymmetric on every pair of strings, and no
  string is below itself.
\<close>

theorem compareSemver_refines:
  assumes "version_ok ls" and "version_ok rs"
  shows "compareSemver (showVersion ls) (showVersion rs) = lexCompare ls rs
    \<and> (compareSemver (showVersion ls) (showVersion rs) < 0 \<longleftrightarrow>
         (\<exists>i. component ls i < component rs i \<and> (\<forall>j<i. component ls j = component rs j)))
    \<and> compareSemver a b = - compareSemver b a \<and> compareSemver a a = 0"
proof -
  have nonneg: "list_all (\<lambda>n. 0 \<le> n) ls" "list_all (\<lambda>n. 0 \<le> n) rs"
    using assms by (auto simp: version_ok_def list_all_iff)
  have "compareSemver (showVersion ls) (showVersion rs) = lexCompare ls rs"
    using assms nonneg by (simp add: compareSemver_def version_parts_show compareParts_lex)
  moreover have "compareSemver a b = - compareSemver b a" and "compareSemver a a = 0"
    unfolding compareSemver_def by (rule compareParts_swap) (rule compareParts_refl)
  ultimately show ?thesis using lexCompare_less_iff [OF nonneg] by (intro conjI) (simp_all only:)
qed

theorem compareSemver_refines_witness:
  "compareSemver (showVersion [1, 4, 9]) (showVersion [1, 10]) = lexCompare [1, 4, 9] [1, 10]
    \<and> lexCompare [1, 4, 9] [1, 10] = -1"
  using compareSemver_refines [of "[1, 4, 9]" "[1, 10]", THEN conjunct1] by (simp add: version_ok_def)

text \<open>
  The compatibility verdict: an extension is \<open>Unsupported\<close> exactly when its version is below
  the minimum, or every other check passed and the policy's own status says so; it is \<open>Supported\<close>
  exactly when it reaches the recommended version with a listed schema and every required
  capability and the policy does not lower the status.
\<close>

theorem evaluateCompatibility_verdict:
  "(cr_status (evaluateCompatibility h p) = Unsupported \<longleftrightarrow>
      compareSemver (hs_extensionVersion h) (cp_minimumVersion p) < 0
      \<or> (hs_schemaVersion h \<in> set (cp_supportedSchemaVersions p) \<and> missingCapabilities h p = []
         \<and> cp_resultStatus p = Some Unsupported))
   \<and> (cr_status (evaluateCompatibility h p) = Supported \<longleftrightarrow>
      0 \<le> compareSemver (hs_extensionVersion h) (cp_minimumVersion p)
      \<and> 0 \<le> compareSemver (hs_extensionVersion h) (cp_recommendedVersion p)
      \<and> hs_schemaVersion h \<in> set (cp_supportedSchemaVersions p)
      \<and> set (nullish (cp_requiredCapabilities p) []) \<subseteq> set (hs_capabilities h)
      \<and> cp_resultStatus p \<in> {None, Some Supported})"
proof -
  have m: "missingCapabilities h p = [] \<longleftrightarrow> set (nullish (cp_requiredCapabilities p) []) \<subseteq> set (hs_capabilities h)"
    by (auto simp: missingCapabilities_def filter_empty_conv)
  show ?thesis
    by (auto simp: evaluateCompatibility_def createCompatibilityResult_def Let_def m split: option.splits)
qed

end
