(* ===== verification/FeatureFlags.thy ===== *)
theory FeatureFlags
  imports Compatibility
begin

text \<open>
  Feature flags: their evaluation (\<open>resolveFeatureFlags\<close> of \<open>packages/extension/src/index.ts\<close>),
  the normalisation of an update and the mapping of stored rows
  (\<open>apps/api/src/services/feature-flags-service.ts\<close>), and the replacement of a stored definition
  (\<open>apps/api/src/feature-flags/feature-flag.repository.ts\<close>).
\<close>

section \<open>Types\<close>

datatype feature_flag_status = Draft | Active | Paused | Archived

record feature_flag_definition =
  ff_key :: string
  ff_status :: feature_flag_status
  ff_description :: string
  ff_enabled :: bool
  ff_rolloutPercentage :: "int option"
  ff_allowRoles :: "string list option"
  ff_allowUsers :: "string list option"
  ff_minimumExtensionVersion :: "string option"

record flag_context =
  fc_userId :: "string option"
  fc_roles :: "string list option"
  fc_planCode :: "string option"
  fc_extensionVersion :: "string option"

text \<open>
  An update: a property that is absent, one given as \<open>null\<close>, and one given as a value are
  different requests for \<open>minimumExtensionVersion\<close>, which the source tests with \<open>in\<close>.
\<close>

datatype 'a field = Absent | Null | Given 'a

record feature_flag_update_request =
  fu_description :: "string option"
  fu_status :: "feature_flag_status option"
  fu_enabled :: "bool option"
  fu_rolloutPercentage :: "int option"
  fu_allowRoles :: "string list option"
  fu_allowUsers :: "string list option"
  fu_minimumExtensionVersion :: "string field"

record normalized_feature_flag_update =
  nf_key :: string
  nf_description :: string
  nf_status :: feature_flag_status
  nf_enabled :: bool
  nf_rolloutPercentage :: "int option"
  nf_minimumExtensionVersion :: "string option"
  nf_allowRoles :: "string list"
  nf_allowUsers :: "string list"

record feature_flag_override =
  fo_featureFlagId :: string
  fo_userId :: "string option"
  fo_enabled :: bool

record feature_flag_row =
  fr_id :: string
  fr_key :: string
  fr_status :: feature_flag_status
  fr_description :: string
  fr_enabled :: bool
  fr_rolloutPercentage :: "int option"
  fr_minimumExtensionVersion :: "string option"
  fr_allowRolesJson :: json

section \<open>Evaluation\<close>

definition flag_user_ok :: "feature_flag_definition \<Rightarrow> flag_context \<Rightarrow> bool" where
  "flag_user_ok d c = (case ff_allowUsers d of None \<Rightarrow> True
     | Some us \<Rightarrow> truthy (fc_userId c) \<and> the (fc_userId c) \<in> set us)"

definition flag_role_ok :: "feature_flag_definition \<Rightarrow> flag_context \<Rightarrow> bool" where
  "flag_role_ok d c = (case ff_allowRoles d of None \<Rightarrow> True
     | Some rs \<Rightarrow> (case fc_roles c of None \<Rightarrow> False | Some crs \<Rightarrow> list_ex (\<lambda>r. r \<in> set crs) rs))"

definition flag_version_ok :: "feature_flag_definition \<Rightarrow> flag_context \<Rightarrow> bool" where
  "flag_version_ok d c =
     (if truthy (ff_minimumExtensionVersion d) \<and> truthy (fc_extensionVersion c)
      then 0 \<le> compareSemver (the (fc_extensionVersion c)) (the (ff_minimumExtensionVersion d))
      else \<not> truthy (ff_minimumExtensionVersion d))"

definition flag_matches :: "feature_flag_definition \<Rightarrow> flag_context \<Rightarrow> bool" where
  "flag_matches d c =
     (if \<not> flag_user_ok d c then False
      else if \<not> flag_role_ok d c then False
      else flag_version_ok d c)"

definition resolveFeatureFlags :: "feature_flag_definition list \<Rightarrow> flag_context \<Rightarrow> string list" where
  "resolveFeatureFlags definitions c =
     sort (map ff_key (filter (\<lambda>d. flag_matches d c)
       (filter (\<lambda>d. ff_status d = Active \<and> ff_enabled d) definitions)))"

section \<open>Updates and stored rows\<close>

definition uniqueStrings :: "string option list \<Rightarrow> string list" where
  "uniqueStrings values = uniq (map the (filter truthy values))"

definition validRoleSet :: "string list" where
  "validRoleSet =
     [''admin'', ''workspace_owner'', ''workspace_admin'', ''workspace_billing_manager'',
      ''workspace_security_manager'', ''workspace_manager'', ''workspace_analyst'',
      ''workspace_member'', ''workspace_viewer'']"

definition parseAllowedRoles :: "json \<Rightarrow> string list" where
  "parseAllowedRoles value = (case stringArray value of None \<Rightarrow> []
     | Some rs \<Rightarrow> filter (\<lambda>r. r \<in> set validRoleSet) rs)"

definition normalizeList :: "string list \<Rightarrow> string list" where
  "normalizeList value = uniqueStrings (map (\<lambda>item. Some (trim item)) value)"

definition normalizeOptionalString :: "string option \<Rightarrow> string option" where
  "normalizeOptionalString value = Option.bind value (\<lambda>v. or_undefined (trim v))"

definition normalizeFeatureFlagUpdate ::
  "feature_flag_definition \<Rightarrow> feature_flag_update_request option \<Rightarrow> normalized_feature_flag_update" where
  "normalizeFeatureFlagUpdate existing request =
     (let rolloutPercentage = orElse (Option.bind request fu_rolloutPercentage) (ff_rolloutPercentage existing);
          minimumExtensionVersion =
            (case request of
               None \<Rightarrow> ff_minimumExtensionVersion existing
             | Some r \<Rightarrow> (case fu_minimumExtensionVersion r of
                 Absent \<Rightarrow> ff_minimumExtensionVersion existing
               | Null \<Rightarrow> None
               | Given v \<Rightarrow> normalizeOptionalString (Some v)))
      in \<lparr>nf_key = ff_key existing,
          nf_description = nullish (normalizeOptionalString (Option.bind request fu_description)) (ff_description existing),
          nf_status = nullish (Option.bind request fu_status) (ff_status existing),
          nf_enabled = nullish (Option.bind request fu_enabled) (ff_enabled existing),
          nf_rolloutPercentage = rolloutPercentage,
          nf_minimumExtensionVersion = (if truthy minimumExtensionVersion then minimumExtensionVersion else None),
          nf_allowRoles = (case Option.bind request fu_allowRoles of
              Some rs \<Rightarrow> parseAllowedRoles (JArr (map JStr rs))
            | None \<Rightarrow> nullish (ff_allowRoles existing) []),
          nf_allowUsers = (case Option.bind request fu_allowUsers of
              Some us \<Rightarrow> normalizeList us
            | None \<Rightarrow> nullish (ff_allowUsers existing) [])\<rparr>)"

definition mapFeatureFlagRecordToDefinition ::
  "feature_flag_row \<Rightarrow> feature_flag_override list \<Rightarrow> feature_flag_definition" where
  "mapFeatureFlagRecordToDefinition row overrides =
     (let enabledOverrides = filter fo_enabled overrides;
          allowUsers = uniqueStrings (map fo_userId enabledOverrides);
          allowRoles = parseAllowedRoles (fr_allowRolesJson row)
      in \<lparr>ff_key = fr_key row, ff_status = fr_status row, ff_description = fr_description row,
          ff_enabled = fr_enabled row, ff_rolloutPercentage = fr_rolloutPercentage row,
          ff_allowRoles = (if 0 < length allowRoles then Some allowRoles else None),
          ff_allowUsers = (if 0 < length allowUsers then Some allowUsers else None),
          ff_minimumExtensionVersion = fr_minimumExtensionVersion row\<rparr>)"

section \<open>The flag tables\<close>

text \<open>The two tables; a row is found by its key, the overrides of a flag by its id.\<close>

record flag_db =
  fd_flags :: "feature_flag_row list"
  fd_overrides :: "feature_flag_override list"

definition overrides_of :: "flag_db \<Rightarrow> string \<Rightarrow> feature_flag_override list" where
  "overrides_of db flagId = filter (\<lambda>o'. fo_featureFlagId o' = flagId) (fd_overrides db)"

definition findFlagByKey ::
  "flag_db \<Rightarrow> string \<Rightarrow> (feature_flag_row \<times> feature_flag_override list) option" where
  "findFlagByKey db key =
     map_option (\<lambda>r. (r, overrides_of db (fr_id r))) (find (\<lambda>r. fr_key r = key) (fd_flags db))"

definition findAllFlags :: "flag_db \<Rightarrow> (feature_flag_row \<times> feature_flag_override list) list" where
  "findAllFlags db = map (\<lambda>r. (r, overrides_of db (fr_id r))) (sort_key fr_key (fd_flags db))"

text \<open>
  \<open>replaceDefinition\<close>: one transaction that rewrites the row and replaces all its overrides by
  one enabled override for each allowed user; \<open>null\<close> when there is no such flag.
\<close>

definition replaceDefinition ::
  "flag_db \<Rightarrow> normalized_feature_flag_update \<Rightarrow> flag_db \<times> (feature_flag_row \<times> feature_flag_override list) option" where
  "replaceDefinition db input =
     (case find (\<lambda>r. fr_key r = nf_key input) (fd_flags db) of
        None \<Rightarrow> (db, None)
      | Some existing \<Rightarrow>
          let i = fr_id existing;
              flags = map (\<lambda>r. if fr_id r = i
                then r\<lparr>fr_description := nf_description input, fr_status := nf_status input,
                       fr_enabled := nf_enabled input, fr_rolloutPercentage := nf_rolloutPercentage input,
                       fr_minimumExtensionVersion := nf_minimumExtensionVersion input,
                       fr_allowRolesJson := JArr (map JStr (nf_allowRoles input))\<rparr>
                else r) (fd_flags db);
              kept = filter (\<lambda>o'. fo_featureFlagId o' \<noteq> i) (fd_overrides db);
              added = map (\<lambda>u. \<lparr>fo_featureFlagId = i, fo_userId = Some u, fo_enabled = True\<rparr>) (nf_allowUsers input);
              db' = \<lparr>fd_flags = flags, fd_overrides = kept @ added\<rparr>
          in (db', map_option (\<lambda>r. (r, overrides_of db' i)) (find (\<lambda>r. fr_id r = i) flags)))"

section \<open>Lemmas\<close>

lemma set_resolveFeatureFlags:
  "k \<in> set (resolveFeatureFlags ds c) \<longleftrightarrow>
    (\<exists>d \<in> set ds. ff_key d = k \<and> ff_status d = Active \<and> ff_enabled d \<and> flag_matches d c)"
  by (auto simp: resolveFeatureFlags_def)

lemma sorted_resolveFeatureFlags: "sorted (resolveFeatureFlags ds c)"
  by (simp add: resolveFeatureFlags_def)

lemma flag_matches_rollout: "flag_matches (d\<lparr>ff_rolloutPercentage := p\<rparr>) c = flag_matches d c"
  by (simp add: flag_matches_def flag_user_ok_def flag_role_ok_def flag_version_ok_def)

lemma map_the_Some: "map the (filter truthy (map (\<lambda>u. Some (f u)) us)) = filter (\<lambda>s. s \<noteq> []) (map f us)"
  by (induction us) auto

lemma set_uniqueStrings: "s \<in> set (uniqueStrings vs) \<longleftrightarrow> Some s \<in> set vs \<and> s \<noteq> []"
  by (auto simp: uniqueStrings_def truthy_def image_iff split: option.splits)

lemma distinct_normalizeList: "distinct (normalizeList us)"
  by (simp add: normalizeList_def uniqueStrings_def)

lemma normalizeList_nonempty: "u \<in> set (normalizeList us) \<Longrightarrow> u \<noteq> []"
  by (simp add: normalizeList_def set_uniqueStrings)

lemma uniqueStrings_of_users:
  "distinct us \<Longrightarrow> [] \<notin> set us \<Longrightarrow> uniqueStrings (map Some us) = us"
proof -
  assume d: "distinct us" and n: "[] \<notin> set us"
  have "filter (\<lambda>s. s \<noteq> []) us = us" using n by (auto intro: filter_True)
  then show ?thesis using map_the_Some [of "\<lambda>u. u" us] d by (simp add: uniqueStrings_def uniq_distinct)
qed

lemma parseAllowedRoles_valid: "set rs \<subseteq> set validRoleSet \<Longrightarrow> parseAllowedRoles (JArr (map JStr rs)) = rs"
  by (auto simp: parseAllowedRoles_def stringArray_def intro: filter_True)

lemma distinct_uniqueStrings [simp]: "distinct (uniqueStrings vs)"
  by (simp add: uniqueStrings_def)

lemma nf_key_normalize [simp]: "nf_key (normalizeFeatureFlagUpdate d q) = ff_key d"
  by (simp add: normalizeFeatureFlagUpdate_def Let_def)

lemma ff_key_mapRecord [simp]: "ff_key (mapFeatureFlagRecordToDefinition r os) = fr_key r"
  by (simp add: mapFeatureFlagRecordToDefinition_def Let_def)

lemma mapped_users_ok:
  "distinct (nullish (ff_allowUsers (mapFeatureFlagRecordToDefinition r os)) [])
   \<and> [] \<notin> set (nullish (ff_allowUsers (mapFeatureFlagRecordToDefinition r os)) [])"
  by (simp add: mapFeatureFlagRecordToDefinition_def Let_def set_uniqueStrings)

lemma allowUsers_ok:
  assumes "nf = normalizeFeatureFlagUpdate (mapFeatureFlagRecordToDefinition r os) q"
  shows "distinct (nf_allowUsers nf) \<and> [] \<notin> set (nf_allowUsers nf)"
proof -
  have "nf_allowUsers nf = (case Option.bind q fu_allowUsers of
      Some us \<Rightarrow> normalizeList us
    | None \<Rightarrow> nullish (ff_allowUsers (mapFeatureFlagRecordToDefinition r os)) [])"
    by (simp add: assms normalizeFeatureFlagUpdate_def Let_def)
  then show ?thesis
    using mapped_users_ok [of r os] distinct_normalizeList normalizeList_nonempty
    by (cases "Option.bind q fu_allowUsers") auto
qed

lemma allowRoles_ok:
  assumes "nf = normalizeFeatureFlagUpdate (mapFeatureFlagRecordToDefinition r os) q"
  shows "set (nf_allowRoles nf) \<subseteq> set validRoleSet"
  using assms
  by (auto simp: normalizeFeatureFlagUpdate_def mapFeatureFlagRecordToDefinition_def Let_def
      parseAllowedRoles_def split: option.splits)

text \<open>
  A restriction that names only roles outside the two role enumerations is read back as no
  restriction: the flag is open to callers of every role.
\<close>

lemma unknown_roles_open_to_all:
  assumes "stringArray (fr_allowRolesJson r) = Some rs" and "set rs \<inter> set validRoleSet = {}"
  shows "flag_role_ok (mapFeatureFlagRecordToDefinition r os) c"
proof -
  have "filter (\<lambda>x. x \<in> set validRoleSet) rs = []" using assms(2) by (auto simp: filter_empty_conv)
  then show ?thesis
    using assms(1) by (simp add: mapFeatureFlagRecordToDefinition_def parseAllowedRoles_def flag_role_ok_def Let_def)
qed

section \<open>Properties\<close>

text \<open>
  A flag is resolved exactly when an active, enabled definition of that key matches the
  caller: user list, role list and minimum version; the list is sorted. The rollout percentage
  plays no part: changing it on every definition changes nothing.
\<close>

theorem resolveFeatureFlags_exact:
  "(k \<in> set (resolveFeatureFlags ds c) \<longleftrightarrow>
      (\<exists>d. d \<in> set ds \<and> ff_key d = k \<and> ff_status d = Active \<and> ff_enabled d
         \<and> flag_user_ok d c \<and> flag_role_ok d c \<and> flag_version_ok d c))
   \<and> sorted (resolveFeatureFlags ds c)
   \<and> resolveFeatureFlags (map (\<lambda>d. d\<lparr>ff_rolloutPercentage := f d\<rparr>) ds) c = resolveFeatureFlags ds c"
proof -
  have "resolveFeatureFlags (map (\<lambda>d. d\<lparr>ff_rolloutPercentage := f d\<rparr>) ds) c = resolveFeatureFlags ds c"
    by (simp add: resolveFeatureFlags_def filter_map_update flag_matches_rollout comp_def)
  then show ?thesis
    using set_resolveFeatureFlags [of k ds c] sorted_resolveFeatureFlags [of ds c]
    by (auto simp: flag_matches_def split: if_splits)
qed



end
