(* ===== verification/RemoteConfig.thy ===== *)
theory RemoteConfig
  imports FeatureFlags
begin

text \<open>
  Remote configuration layers: their resolution for a context and the extension bootstrap payload
  (\<open>packages/extension/src/index.ts\<close>), the reading of stored layers and the publish result
  (\<open>apps/api/src/services/remote-config-service.ts\<close>, \<open>extension-bootstrap-service.ts\<close>), the
  starter content (\<open>bootstrap/platform-blueprint.ts\<close>) and the version table
  (\<open>remote-config/remote-config.repository.ts\<close>).
\<close>

section \<open>Types\<close>

datatype primitive = PString string | PNumber jsnum | PBool bool | PNull

datatype condition = CPrim primitive | CStrings "string list"

datatype config_value = VPrim primitive | VArray "primitive list" | VRecord "(string \<times> primitive) list"

datatype remote_config_scope =
  ScGlobal | ScEnvironment | ScPlan | ScWorkspace | ScUser | ScExtensionVersion | ScFlag

record remote_config_layer =
  ly_id :: string
  ly_scope :: remote_config_scope
  ly_priority :: int
  ly_conditions :: "(string \<times> condition) list option"
  ly_values :: "(string \<times> config_value) list"

record resolved_remote_config =
  rc_values :: "(string \<times> config_value) list"
  rc_appliedLayerIds :: "string list"

text \<open>A context is an object whose properties are strings or lists of strings.\<close>

datatype context_value = XString string | XStrings "string list"

type_synonym config_context = "(string \<times> context_value) list"

record bootstrap_context =
  bc_environment :: "string option"
  bc_planCode :: "string option"
  bc_userId :: "string option"
  bc_buildId :: "string option"
  bc_roles :: "string list option"

section \<open>Matching and resolving layers\<close>

text \<open>\<open>String(actual)\<close> of a context property that is not an array.\<close>

definition context_string :: "context_value option \<Rightarrow> string" where
  "context_string actual = (case actual of Some (XString s) \<Rightarrow> s | Some (XStrings ss) \<Rightarrow> join '','' ss | None \<Rightarrow> ''undefined'')"

definition condition_holds :: "condition \<Rightarrow> context_value option \<Rightarrow> bool" where
  "condition_holds expected actual =
     (case expected of
        CStrings es \<Rightarrow> (case actual of
            Some (XStrings as) \<Rightarrow> list_ex (\<lambda>e. e \<in> set as) es
          | _ \<Rightarrow> context_string actual \<in> set es)
      | CPrim p \<Rightarrow> (case (p, actual) of (PString e, Some (XString s)) \<Rightarrow> s = e | _ \<Rightarrow> False))"

definition matchesLayerConditions :: "remote_config_layer \<Rightarrow> config_context \<Rightarrow> bool" where
  "matchesLayerConditions layer context =
     (case ly_conditions layer of None \<Rightarrow> True
      | Some cs \<Rightarrow> list_all (\<lambda>(key, expected). condition_holds expected (map_of context key)) cs)"

definition appliedLayers :: "remote_config_layer list \<Rightarrow> config_context \<Rightarrow> remote_config_layer list" where
  "appliedLayers layers context =
     sort_key ly_priority (filter (\<lambda>l. matchesLayerConditions l context) layers)"

definition writeValues :: "(string \<times> config_value) list \<Rightarrow> (string \<times> config_value) list \<Rightarrow> (string \<times> config_value) list" where
  "writeValues entries values = fold (\<lambda>(k, v) vs. AList.update k v vs) entries values"

definition resolveRemoteConfig :: "remote_config_layer list \<Rightarrow> config_context \<Rightarrow> resolved_remote_config" where
  "resolveRemoteConfig layers context =
     (let applied = appliedLayers layers context
      in \<lparr>rc_values = fold (\<lambda>l vs. writeValues (ly_values l) vs) applied [],
          rc_appliedLayerIds = map ly_id applied\<rparr>)"

section \<open>The bootstrap payload\<close>

record bootstrap_payload =
  bp_compatibility :: compatibility_result
  bp_featureFlags :: "string list"
  bp_remoteConfig :: resolved_remote_config

record quota_hint =
  qh_key :: string
  qh_label :: string
  qh_limit :: "int option"
  qh_remaining :: "int option"
  qh_status :: string
  qh_enforcementMode :: string

record 'policy bootstrap_payload_v2 = bootstrap_payload +
  b2_installationId :: string
  b2_entitlements :: "string list"
  b2_quotaHints :: "quota_hint list"
  b2_aiAccessPolicy :: 'policy
  b2_deprecationMessages :: "string list"
  b2_killSwitches :: "string list"
  b2_refreshAfterSeconds :: int
  b2_issuedAt :: string

definition flag_context_of :: "bootstrap_context \<Rightarrow> compatibility_handshake \<Rightarrow> flag_context" where
  "flag_context_of c h =
     \<lparr>fc_userId = bc_userId c, fc_roles = bc_roles c, fc_planCode = bc_planCode c,
      fc_extensionVersion = Some (hs_extensionVersion h)\<rparr>"

text \<open>An object literal with an optional property: nothing is there when it is \<open>undefined\<close>.\<close>

definition opt_property :: "string \<Rightarrow> context_value option \<Rightarrow> config_context" where
  "opt_property key v = (case v of None \<Rightarrow> [] | Some x \<Rightarrow> [(key, x)])"

definition context_object :: "bootstrap_context \<Rightarrow> config_context" where
  "context_object c =
     opt_property ''environment'' (map_option XString (bc_environment c))
     @ opt_property ''planCode'' (map_option XString (bc_planCode c))
     @ opt_property ''userId'' (map_option XString (bc_userId c))
     @ opt_property ''buildId'' (map_option XString (bc_buildId c))
     @ opt_property ''roles'' (map_option XStrings (bc_roles c))"

definition buildExtensionBootstrap ::
  "compatibility_handshake \<Rightarrow> compatibility_policy \<Rightarrow> feature_flag_definition list \<Rightarrow>
   remote_config_layer list \<Rightarrow> bootstrap_context \<Rightarrow> bootstrap_payload" where
  "buildExtensionBootstrap handshake policy flagDefinitions layers c =
     (let compatibility = evaluateCompatibility handshake policy;
          featureFlags = resolveFeatureFlags flagDefinitions (flag_context_of c handshake);
          remoteConfig = resolveRemoteConfig layers
            (context_object c @ [(''activeFlags'', XStrings featureFlags),
               (''extensionVersion'', XString (hs_extensionVersion handshake))])
      in \<lparr>bp_compatibility = compatibility, bp_featureFlags = featureFlags, bp_remoteConfig = remoteConfig\<rparr>)"

text \<open>\<open>lc\<close> is \<open>localeCompare\<close> of the host; \<open>now\<close> the time of the call.\<close>

definition buildExtensionBootstrapV2 ::
  "(string \<Rightarrow> string \<Rightarrow> int) \<Rightarrow> int \<Rightarrow> string \<Rightarrow> compatibility_handshake \<Rightarrow> compatibility_policy \<Rightarrow>
   feature_flag_definition list \<Rightarrow> remote_config_layer list \<Rightarrow> string list \<Rightarrow> quota_hint list \<Rightarrow> 'policy \<Rightarrow>
   bootstrap_context \<Rightarrow> string option \<Rightarrow> int option \<Rightarrow> 'policy bootstrap_payload_v2" where
  "buildExtensionBootstrapV2 lc now installationId handshake policy flagDefinitions layers entitlements quotaHints
      aiAccessPolicy c issuedAt refreshAfterSeconds =
     (let compatibility = evaluateCompatibility handshake policy;
          featureFlags = resolveFeatureFlags flagDefinitions (flag_context_of c handshake);
          remoteConfig = resolveRemoteConfig layers
            (context_object (c\<lparr>bc_buildId := hs_buildId handshake\<rparr>)
             @ [(''activeFlags'', XStrings featureFlags),
                (''extensionVersion'', XString (hs_extensionVersion handshake))]);
          deprecationMessages = (if truthy (cr_reason compatibility) then [the (cr_reason compatibility)] else []);
          killSwitches = (if cr_status compatibility = Unsupported then [''extension.unsupported''] else [])
      in \<lparr>bp_compatibility = compatibility, bp_featureFlags = featureFlags, bp_remoteConfig = remoteConfig,
          b2_installationId = installationId, b2_entitlements = sort_by lc entitlements,
          b2_quotaHints = sort_by (\<lambda>a b. lc (qh_key a) (qh_key b)) quotaHints,
          b2_aiAccessPolicy = aiAccessPolicy, b2_deprecationMessages = deprecationMessages,
          b2_killSwitches = killSwitches, b2_refreshAfterSeconds = nullish refreshAfterSeconds 300,
          b2_issuedAt = nullish issuedAt (toISOString now)\<rparr>)"

section \<open>Starter content and the bootstrap service\<close>

definition starterFlags :: "feature_flag_definition list" where
  "starterFlags =
     [\<lparr>ff_key = ''beta.remote-config-v2'', ff_status = Active,
       ff_description = ''Enable the second-generation remote config payload.'', ff_enabled = True,
       ff_rolloutPercentage = None, ff_allowRoles = None, ff_allowUsers = None,
       ff_minimumExtensionVersion = Some ''1.5.0''\<rparr>,
      \<lparr>ff_key = ''ops.force-upgrade-banner'', ff_status = Active,
       ff_description = ''Show banner when a client is below the recommended version.'', ff_enabled = True,
       ff_rolloutPercentage = None, ff_allowRoles = None, ff_allowUsers = None,
       ff_minimumExtensionVersion = None\<rparr>]"

definition starterRemoteConfig :: "remote_config_layer list" where
  "starterRemoteConfig =
     [\<lparr>ly_id = ''global-default'', ly_scope = ScGlobal, ly_priority = 10, ly_conditions = None,
       ly_values = [(''defaultModel'', VPrim (PString ''gpt-4.1-mini'')), (''screenshotEnabled'', VPrim (PBool False)),
         (''historyRetentionDays'', VPrim (PNumber (Fin 30)))]\<rparr>,
      \<lparr>ly_id = ''flag-remote-config-v2'', ly_scope = ScFlag, ly_priority = 30,
       ly_conditions = Some [(''activeFlags'', CStrings [''beta.remote-config-v2''])],
       ly_values = [(''configSchemaVersion'', VPrim (PString ''2'')), (''defaultModel'', VPrim (PString ''gpt-4.1''))]\<rparr>]"

record bootstrap_request =
  br_installationId :: string
  br_userId :: string
  br_environment :: string
  br_planCode :: "string option"
  br_handshake :: compatibility_handshake

definition resolveExtensionBootstrap ::
  "bootstrap_request \<Rightarrow> compatibility_policy option \<Rightarrow> feature_flag_definition list option \<Rightarrow>
   remote_config_layer list option \<Rightarrow> bootstrap_payload" where
  "resolveExtensionBootstrap request policy flags layers =
     buildExtensionBootstrap (br_handshake request) (nullish policy defaultCompatibilityPolicy)
       (nullish flags starterFlags) (nullish layers starterRemoteConfig)
       \<lparr>bc_environment = Some (br_environment request), bc_planCode = br_planCode request,
        bc_userId = Some (br_userId request), bc_buildId = None, bc_roles = None\<rparr>"

section \<open>Stored layers\<close>

fun prim_of_json :: "json \<Rightarrow> primitive option" where
  "prim_of_json JNull = Some PNull"
| "prim_of_json (JBool b) = Some (PBool b)"
| "prim_of_json (JNum n) = Some (PNumber n)"
| "prim_of_json (JStr s) = Some (PString s)"
| "prim_of_json (JArr _) = None"
| "prim_of_json (JObj _) = None"

text \<open>All or nothing: the typed view of a list of entries, when every entry has one.\<close>

fun all_some :: "('a \<Rightarrow> 'b option) \<Rightarrow> 'a list \<Rightarrow> 'b list option" where
  "all_some f [] = Some []"
| "all_some f (x # xs) = (case (f x, all_some f xs) of (Some y, Some ys) \<Rightarrow> Some (y # ys) | _ \<Rightarrow> None)"

definition entry_of :: "(json \<Rightarrow> 'b option) \<Rightarrow> string \<times> json \<Rightarrow> (string \<times> 'b) option" where
  "entry_of f e = map_option (\<lambda>y. (fst e, y)) (f (snd e))"

definition config_value_of :: "json \<Rightarrow> config_value option" where
  "config_value_of v = (case v of
     JArr xs \<Rightarrow> map_option VArray (all_some prim_of_json xs)
   | JObj es \<Rightarrow> map_option VRecord (all_some (entry_of prim_of_json) es)
   | _ \<Rightarrow> map_option VPrim (prim_of_json v))"

definition condition_of :: "json \<Rightarrow> condition option" where
  "condition_of v = (case v of
     JArr xs \<Rightarrow> map_option CStrings (json_strings xs)
   | _ \<Rightarrow> map_option CPrim (prim_of_json v))"

definition isRemoteConfigValueRecord :: "json \<Rightarrow> (string \<times> config_value) list option" where
  "isRemoteConfigValueRecord v = (case v of JObj es \<Rightarrow> all_some (entry_of config_value_of) es | _ \<Rightarrow> None)"

definition isConditionsRecord :: "json \<Rightarrow> (string \<times> condition) list option" where
  "isConditionsRecord v = (case v of JObj es \<Rightarrow> all_some (entry_of condition_of) es | _ \<Rightarrow> None)"

record layer_row =
  lr_id :: string
  lr_versionId :: string
  lr_scope :: remote_config_scope
  lr_priority :: int
  lr_conditionsJson :: json
  lr_valuesJson :: json
  lr_createdAt :: int

definition mapRemoteConfigLayerRecordToDefinition :: "layer_row \<Rightarrow> remote_config_layer" where
  "mapRemoteConfigLayerRecordToDefinition r =
     \<lparr>ly_id = lr_id r, ly_scope = lr_scope r, ly_priority = lr_priority r,
      ly_conditions = isConditionsRecord (lr_conditionsJson r),
      ly_values = nullish (isRemoteConfigValueRecord (lr_valuesJson r)) []\<rparr>"

definition json_of_prim :: "primitive \<Rightarrow> json" where
  "json_of_prim p = (case p of PString s \<Rightarrow> JStr s | PNumber n \<Rightarrow> JNum n | PBool b \<Rightarrow> JBool b | PNull \<Rightarrow> JNull)"

definition json_of_value :: "config_value \<Rightarrow> json" where
  "json_of_value v = (case v of
     VPrim p \<Rightarrow> json_of_prim p
   | VArray ps \<Rightarrow> JArr (map json_of_prim ps)
   | VRecord es \<Rightarrow> JObj (map (\<lambda>(k, p). (k, json_of_prim p)) es))"

definition json_of_condition :: "condition \<Rightarrow> json" where
  "json_of_condition c = (case c of CPrim p \<Rightarrow> json_of_prim p | CStrings ss \<Rightarrow> JArr (map JStr ss))"

section \<open>The version table\<close>

record version_row =
  vr_id :: string
  vr_versionLabel :: string
  vr_publishedById :: "string option"
  vr_isActive :: bool
  vr_createdAt :: int

record config_db =
  cd_versions :: "version_row list"
  cd_layers :: "layer_row list"

definition deactivate :: "version_row \<Rightarrow> version_row" where
  "deactivate v = (if vr_isActive v then v\<lparr>vr_isActive := False\<rparr> else v)"

text \<open>
  \<open>publishVersion\<close> in one transaction: every active version is switched off and the new one is
  created active with its layers. The identifiers the database generates are arguments.
\<close>

definition layerRow :: "string \<Rightarrow> int \<Rightarrow> string \<Rightarrow> remote_config_layer \<Rightarrow> layer_row" where
  "layerRow versionId now i l =
     \<lparr>lr_id = i, lr_versionId = versionId, lr_scope = ly_scope l, lr_priority = ly_priority l,
      lr_conditionsJson = (case ly_conditions l of None \<Rightarrow> JNull
         | Some cs \<Rightarrow> JObj (map (\<lambda>(k, c). (k, json_of_condition c)) cs)),
      lr_valuesJson = JObj (map (\<lambda>(k, v). (k, json_of_value v)) (ly_values l)),
      lr_createdAt = now\<rparr>"

definition publishVersion ::
  "config_db \<Rightarrow> string \<Rightarrow> (nat \<Rightarrow> string) \<Rightarrow> int \<Rightarrow> string \<Rightarrow> string \<Rightarrow> remote_config_layer list \<Rightarrow> config_db" where
  "publishVersion db newId layerId now actorId versionLabel layers =
     \<lparr>cd_versions = map deactivate (cd_versions db)
        @ [\<lparr>vr_id = newId, vr_versionLabel = versionLabel, vr_publishedById = Some actorId,
            vr_isActive = True, vr_createdAt = now\<rparr>],
      cd_layers = cd_layers db
        @ map (\<lambda>(i, l). layerRow newId now (layerId i) l) (List.enumerate 0 layers)\<rparr>"

definition activateVersion :: "config_db \<Rightarrow> string \<Rightarrow> config_db \<times> version_row option" where
  "activateVersion db versionId =
     (case find (\<lambda>v. vr_id v = versionId) (cd_versions db) of
        None \<Rightarrow> (db, None)
      | Some existing \<Rightarrow>
          let vs = map (\<lambda>v. if vr_id v = versionId then v\<lparr>vr_isActive := True\<rparr> else v)
                     (map deactivate (cd_versions db))
          in (db\<lparr>cd_versions := vs\<rparr>, find (\<lambda>v. vr_id v = versionId) vs))"

text \<open>
  \<open>findActiveLayers\<close>: the layers of the active versions by priority, then age. \<open>tie\<close> is the order
  the database happens to return rows in that agree in both.
\<close>

definition layer_order :: "(layer_row \<Rightarrow> int) \<Rightarrow> layer_row \<Rightarrow> layer_row \<Rightarrow> int" where
  "layer_order tie a b =
     (if lr_priority a \<noteq> lr_priority b then lr_priority a - lr_priority b
      else if lr_createdAt a \<noteq> lr_createdAt b then lr_createdAt a - lr_createdAt b
      else tie a - tie b)"

definition findActiveLayers :: "(layer_row \<Rightarrow> int) \<Rightarrow> config_db \<Rightarrow> layer_row list" where
  "findActiveLayers tie db =
     sort_by (layer_order tie)
       (filter (\<lambda>l. lr_versionId l \<in> set (map vr_id (filter vr_isActive (cd_versions db)))) (cd_layers db))"

definition findRecentVersions :: "config_db \<Rightarrow> nat \<Rightarrow> version_row list" where
  "findRecentVersions db limit = take limit (sort_by (\<lambda>a b. vr_createdAt b - vr_createdAt a) (cd_versions db))"

section \<open>Lemmas\<close>

lemma map_of_writeValues: "map_of (writeValues es vs) = map_of vs ++ map_of (rev es)"
proof (induction es arbitrary: vs)
  case Nil
  then show ?case by (simp add: writeValues_def)
next
  case (Cons e es)
  obtain k v where e: "e = (k, v)" by force
  have "writeValues (e # es) vs = writeValues es (AList.update k v vs)"
    by (simp add: writeValues_def e)
  then show ?case using Cons
    by (intro ext) (auto simp: e update_conv' map_add_def split: option.splits)
qed

lemma map_of_rev_distinct: "distinct (map fst es) \<Longrightarrow> map_of (rev es) = map_of es"
  by (metis map_of_eqI map_of_is_SomeI map_of_inject_set rev_map set_rev distinct_rev)

definition written :: "remote_config_layer list \<Rightarrow> (string \<times> config_value) list \<Rightarrow> (string \<times> config_value) list" where
  "written ls vs = fold (\<lambda>l vs. writeValues (ly_values l) vs) ls vs"

lemma map_of_written:
  "list_all (\<lambda>l. distinct (map fst (ly_values l))) ls \<Longrightarrow>
   map_of (written ls vs) k =
     (case find (\<lambda>l. map_of (ly_values l) k \<noteq> None) (rev ls) of
        None \<Rightarrow> map_of vs k | Some l \<Rightarrow> map_of (ly_values l) k)"
proof (induction ls rule: rev_induct)
  case Nil
  then show ?case by (simp add: written_def)
next
  case (snoc l ls)
  then have "map_of (rev (ly_values l)) = map_of (ly_values l)" by (simp add: map_of_rev_distinct)
  then have "map_of (written (ls @ [l]) vs) k = (map_of (written ls vs) ++ map_of (ly_values l)) k"
    by (simp add: written_def map_of_writeValues)
  with snoc show ?case by (auto simp: map_add_def split: option.splits)
qed

lemma rc_values_written: "rc_values (resolveRemoteConfig layers c) = written (appliedLayers layers c) []"
  by (simp add: resolveRemoteConfig_def written_def Let_def)

lemma set_appliedLayers: "set (appliedLayers layers c) = {l \<in> set layers. matchesLayerConditions l c}"
  by (auto simp: appliedLayers_def)

text \<open>The identifier of a layer plays no part in the values.\<close>

definition strip_id :: "remote_config_layer \<Rightarrow> remote_config_layer" where
  "strip_id l = l\<lparr>ly_id := []\<rparr>"

lemma strip_id_simps [simp]:
  "ly_priority (strip_id l) = ly_priority l" "ly_values (strip_id l) = ly_values l"
  "matchesLayerConditions (strip_id l) c = matchesLayerConditions l c"
  by (simp_all add: strip_id_def matchesLayerConditions_def)

lemma appliedLayers_strip: "appliedLayers (map strip_id ls) c = map strip_id (appliedLayers ls c)"
  by (simp add: appliedLayers_def map_sort_key [of ly_priority strip_id ly_priority] filter_map comp_def)

lemma written_strip: "written (map strip_id ls) vs = written ls vs"
  by (simp add: written_def fold_map comp_def)

lemma rc_values_strip: "rc_values (resolveRemoteConfig (map strip_id ls) c) = rc_values (resolveRemoteConfig ls c)"
  by (simp add: rc_values_written appliedLayers_strip written_strip)

lemma resolveRemoteConfig_sorted:
  "resolveRemoteConfig (sort_key ly_priority ls) c = resolveRemoteConfig ls c"
  by (simp add: resolveRemoteConfig_def appliedLayers_def filter_sort)

text \<open>What is written into the JSON columns is read back.\<close>

lemma all_some_map: "(\<And>x. x \<in> set xs \<Longrightarrow> f (g x) = Some (h x)) \<Longrightarrow> all_some f (map g xs) = Some (map h xs)"
  by (induction xs) auto

lemma prim_of_json_of_prim [simp]: "prim_of_json (json_of_prim p) = Some p"
  by (cases p) (simp_all add: json_of_prim_def)

lemma json_of_prim_not_compound [simp]: "json_of_prim p \<noteq> JArr xs" "json_of_prim p \<noteq> JObj es"
  by (cases p; simp add: json_of_prim_def)+

lemma config_value_of_prim: "config_value_of (json_of_prim p) = Some (VPrim p)"
  by (cases p) (simp_all add: config_value_of_def json_of_prim_def)

lemma condition_of_prim: "condition_of (json_of_prim p) = Some (CPrim p)"
  by (cases p) (simp_all add: condition_of_def json_of_prim_def)

lemma config_value_roundtrip [simp]: "config_value_of (json_of_value v) = Some v"
proof (cases v)
  case (VPrim p)
  then show ?thesis by (simp add: json_of_value_def config_value_of_prim)
next
  case (VArray ps)
  then show ?thesis using all_some_map [of ps prim_of_json json_of_prim "\<lambda>p. p"]
    by (simp add: json_of_value_def config_value_of_def)
next
  case (VRecord es)
  have "all_some (entry_of prim_of_json) (map (\<lambda>(k, p). (k, json_of_prim p)) es) = Some es"
    using all_some_map [of es "entry_of prim_of_json" "\<lambda>(k, p). (k, json_of_prim p)" "\<lambda>e. e"]
    by (simp add: entry_of_def split_beta)
  then show ?thesis by (simp add: VRecord json_of_value_def config_value_of_def)
qed

lemma condition_roundtrip [simp]: "condition_of (json_of_condition c) = Some c"
  by (cases c) (simp_all add: json_of_condition_def condition_of_prim, simp add: condition_of_def)

lemma values_roundtrip:
  "isRemoteConfigValueRecord (JObj (map (\<lambda>(k, v). (k, json_of_value v)) es)) = Some es"
  using all_some_map [of es "entry_of config_value_of" "\<lambda>(k, v). (k, json_of_value v)" "\<lambda>e. e"]
  by (simp add: isRemoteConfigValueRecord_def entry_of_def split_beta)

lemma conditions_roundtrip:
  "isConditionsRecord (JObj (map (\<lambda>(k, c). (k, json_of_condition c)) es)) = Some es"
  using all_some_map [of es "entry_of condition_of" "\<lambda>(k, c). (k, json_of_condition c)" "\<lambda>e. e"]
  by (simp add: isConditionsRecord_def entry_of_def split_beta)

lemma deactivate_inactive [simp]: "\<not> vr_isActive (deactivate v)"
  by (simp add: deactivate_def)

lemma active_deactivate: "filter vr_isActive (map deactivate vs) = []"
  by (auto simp: filter_empty_conv deactivate_def)

lemma deactivate_id [simp]: "vr_id (deactivate v) = vr_id v"
  by (simp add: deactivate_def)

definition activeVersions :: "config_db \<Rightarrow> version_row list" where
  "activeVersions db = filter vr_isActive (cd_versions db)"

lemma activeVersions_publish:
  "activeVersions (publishVersion db newId layerId now actor label layers) =
     [\<lparr>vr_id = newId, vr_versionLabel = label, vr_publishedById = Some actor, vr_isActive = True, vr_createdAt = now\<rparr>]"
  by (simp add: activeVersions_def publishVersion_def active_deactivate)

lemma filter_set_active:
  "distinct (map vr_id vs) \<Longrightarrow> list_all (\<lambda>v. \<not> vr_isActive v) vs \<Longrightarrow> w \<in> set vs \<Longrightarrow>
   filter vr_isActive (map (\<lambda>v. if vr_id v = vr_id w then v\<lparr>vr_isActive := True\<rparr> else v) vs)
     = [w\<lparr>vr_isActive := True\<rparr>]"
proof (induction vs)
  case (Cons v vs)
  show ?case
  proof (cases "v = w")
    case True
    have fresh: "\<forall>u \<in> set vs. vr_id u \<noteq> vr_id w"
    proof
      fix u
      assume "u \<in> set vs"
      then have "vr_id u \<in> set (map vr_id vs)" by simp
      moreover have "vr_id w \<notin> set (map vr_id vs)" using Cons.prems(1) True by simp
      ultimately show "vr_id u \<noteq> vr_id w" by metis
    qed
    have "filter vr_isActive (map (\<lambda>u. if vr_id u = vr_id w then u\<lparr>vr_isActive := True\<rparr> else u) vs) = []"
      using fresh Cons.prems(2) by (auto simp: filter_empty_conv list_all_iff)
    with True show ?thesis by simp
  next
    case False
    with Cons show ?thesis by auto
  qed
qed simp

lemma activeVersions_activate:
  assumes "distinct (map vr_id (cd_versions db))" and "find (\<lambda>v. vr_id v = i) (cd_versions db) = Some e"
  shows "\<exists>v. activeVersions (fst (activateVersion db i)) = [v] \<and> vr_id v = i"
proof -
  have e: "e \<in> set (cd_versions db)" "vr_id e = i" using find_SomeD [OF assms(2)] by simp_all
  let ?vs = "map deactivate (cd_versions db)"
  have "filter vr_isActive (map (\<lambda>v. if vr_id v = vr_id (deactivate e) then v\<lparr>vr_isActive := True\<rparr> else v) ?vs)
      = [(deactivate e)\<lparr>vr_isActive := True\<rparr>]"
    using assms(1) e by (intro filter_set_active) (auto simp: comp_def list_all_iff)
  then show ?thesis
    using assms(2) e by (simp add: activeVersions_def activateVersion_def Let_def)
qed

lemma layerRow_simps [simp]:
  "lr_versionId (layerRow v now i l) = v" "lr_priority (layerRow v now i l) = ly_priority l"
  by (simp_all add: layerRow_def)

lemma strip_read_back: "strip_id (mapRemoteConfigLayerRecordToDefinition (layerRow v now i l)) = strip_id l"
  by (cases "ly_conditions l")
    (simp_all add: layerRow_def mapRemoteConfigLayerRecordToDefinition_def strip_id_def values_roundtrip
      conditions_roundtrip isConditionsRecord_def [of JNull])

lemma findActiveLayers_publish:
  assumes "newId \<notin> set (map lr_versionId (cd_layers db))"
  shows "findActiveLayers tie (publishVersion db newId layerId now actor label layers) =
    sort_by (layer_order tie) (map (\<lambda>(i, l). layerRow newId now (layerId i) l) (List.enumerate 0 layers))"
proof -
  let ?rows = "map (\<lambda>(i, l). layerRow newId now (layerId i) l) (List.enumerate 0 layers)"
  let ?db = "publishVersion db newId layerId now actor label layers"
  have ids: "set (map vr_id (filter vr_isActive (cd_versions ?db))) = {newId}"
    using activeVersions_publish [of db newId layerId now actor label layers] by (simp add: activeVersions_def)
  have old: "filter (\<lambda>l. lr_versionId l = newId) (cd_layers db) = []"
    using assms by (auto simp: filter_empty_conv)
  have new: "filter (\<lambda>l. lr_versionId l = newId) ?rows = ?rows"
    by (rule filter_True) auto
  have layers: "cd_layers ?db = cd_layers db @ ?rows"
    by (simp add: publishVersion_def)
  show ?thesis
    unfolding findActiveLayers_def ids layers singleton_iff filter_append old new append_Nil ..
qed

section \<open>Properties\<close>

text \<open>
  C8. Remote configuration, last writer wins: the value of a key is the one of the last layer that
  defines it among the layers whose conditions hold, taken by rising priority; layers of equal
  priority keep their order; the applied identifiers are those layers in that order.
\<close>

theorem resolveRemoteConfig_last_writer:
  assumes "list_all (\<lambda>l. distinct (map fst (ly_values l))) layers"
  shows "map_of (rc_values (resolveRemoteConfig layers c)) k =
      Option.bind (find (\<lambda>l. map_of (ly_values l) k \<noteq> None) (rev (appliedLayers layers c)))
        (\<lambda>l. map_of (ly_values l) k)
    \<and> set (appliedLayers layers c) = {l. l \<in> set layers \<and> matchesLayerConditions l c}
    \<and> sorted (map ly_priority (appliedLayers layers c))
    \<and> filter (\<lambda>l. ly_priority l = p) (appliedLayers layers c)
        = filter (\<lambda>l. matchesLayerConditions l c \<and> ly_priority l = p) layers
    \<and> rc_appliedLayerIds (resolveRemoteConfig layers c) = map ly_id (appliedLayers layers c)"
proof -
  have "list_all (\<lambda>l. distinct (map fst (ly_values l))) (appliedLayers layers c)"
    using assms by (auto simp: list_all_iff set_appliedLayers)
  from map_of_written [OF this]
  have "map_of (rc_values (resolveRemoteConfig layers c)) k =
      Option.bind (find (\<lambda>l. map_of (ly_values l) k \<noteq> None) (rev (appliedLayers layers c)))
        (\<lambda>l. map_of (ly_values l) k)"
    by (simp add: rc_values_written split: option.splits)
  moreover have "filter (\<lambda>l. ly_priority l = p) (appliedLayers layers c)
        = filter (\<lambda>l. matchesLayerConditions l c \<and> ly_priority l = p) layers"
    by (simp add: appliedLayers_def sort_key_stable conj_commute)
  moreover have "sorted (map ly_priority (appliedLayers layers c))" by (simp add: appliedLayers_def)
  ultimately show ?thesis by (simp add: set_appliedLayers resolveRemoteConfig_def Let_def)
qed

theorem resolveRemoteConfig_last_writer_witness:
  "map_of (rc_values (resolveRemoteConfig starterRemoteConfig
      [(''activeFlags'', XStrings [''beta.remote-config-v2''])])) ''defaultModel'' = Some (VPrim (PString ''gpt-4.1''))"
  by (subst resolveRemoteConfig_last_writer [THEN conjunct1])
    (simp_all add: starterRemoteConfig_def appliedLayers_def matchesLayerConditions_def condition_holds_def)

text \<open>
  C9. Publishing and activating keep at most one active configuration version: after a publish
  the new version is the only active one, after the activation of a known version that one is,
  and an unknown version changes nothing.
\<close>

theorem one_active_version:
  assumes "distinct (map vr_id (cd_versions db))"
  shows "map vr_id (activeVersions (publishVersion db newId layerId now actor label layers)) = [newId]
    \<and> (if i \<in> set (map vr_id (cd_versions db))
       then map vr_id (activeVersions (fst (activateVersion db i))) = [i]
       else activateVersion db i = (db, None))"
proof (cases "find (\<lambda>v. vr_id v = i) (cd_versions db)")
  case None
  then have "i \<notin> set (map vr_id (cd_versions db))" by (auto simp: find_None_iff)
  with None show ?thesis by (simp add: activeVersions_publish activateVersion_def)
next
  case (Some e)
  then have "i \<in> set (map vr_id (cd_versions db))" by (auto dest!: find_SomeD)
  with activeVersions_activate [OF assms Some] show ?thesis by (auto simp: activeVersions_publish)
qed

theorem one_active_version_witness:
  "map vr_id (activeVersions (fst (activateVersion
     \<lparr>cd_versions = [\<lparr>vr_id = ''a'', vr_versionLabel = ''1'', vr_publishedById = None, vr_isActive = False, vr_createdAt = 0\<rparr>,
                     \<lparr>vr_id = ''b'', vr_versionLabel = ''2'', vr_publishedById = None, vr_isActive = True, vr_createdAt = 1\<rparr>],
      cd_layers = []\<rparr> ''a''))) = [''a'']"
  using one_active_version [of "\<lparr>cd_versions = [\<lparr>vr_id = ''a'', vr_versionLabel = ''1'', vr_publishedById = None, vr_isActive = False, vr_createdAt = 0\<rparr>,
                     \<lparr>vr_id = ''b'', vr_versionLabel = ''2'', vr_publishedById = None, vr_isActive = True, vr_createdAt = 1\<rparr>],
      cd_layers = []\<rparr>" _ _ _ _ _ _ "''a''", THEN conjunct2] by simp



text \<open>
  The kill switch: a bootstrap payload switches the extension off exactly when the handshake is
  judged unsupported, and the remote configuration is the one of the handshake's version and of
  the flags resolved for it.
\<close>

theorem bootstrap_kill_switch:
  "b2_killSwitches (buildExtensionBootstrapV2 lc now i h p ds ls es qs pol c ia ra)
     = (if cr_status (evaluateCompatibility h p) = Unsupported then [''extension.unsupported''] else [])
   \<and> rc_values (bp_remoteConfig (buildExtensionBootstrapV2 lc now i h p ds ls es qs pol c ia ra))
     = rc_values (resolveRemoteConfig ls
         (context_object (c\<lparr>bc_buildId := hs_buildId h\<rparr>)
          @ [(''activeFlags'', XStrings (resolveFeatureFlags ds (flag_context_of c h))),
             (''extensionVersion'', XString (hs_extensionVersion h))]))
   \<and> b2_deprecationMessages (buildExtensionBootstrapV2 lc now i h p ds ls es qs pol c ia ra)
     = (case cr_reason (evaluateCompatibility h p) of None \<Rightarrow> [] | Some r \<Rightarrow> [r])"
proof -
  have "cr_reason (evaluateCompatibility h p) = None \<or> truthy (cr_reason (evaluateCompatibility h p))"
    by (simp add: evaluateCompatibility_def createCompatibilityResult_def Let_def)
  then show ?thesis by (auto simp: buildExtensionBootstrapV2_def Let_def split: option.splits)
qed

end
