(* ===== verification/Email.thy ===== *)
theory Email
  imports Logger
begin

text \<open>
  Transactional email (\<open>packages/email/src/index.ts\<close>): the placeholder language of the templates,
  HTML escaping, the page layout and the three built-in templates, and the delivery through an
  adapter. An adapter is the function it provides; the no-op adapter of the package is a definition.
\<close>

section \<open>Types\<close>

datatype email_template_key = VerifyEmail | PasswordReset | WorkspaceInvitation

definition template_key_name :: "email_template_key \<Rightarrow> string" where
  "template_key_name k = (case k of
     VerifyEmail \<Rightarrow> ''auth.verify-email'' | PasswordReset \<Rightarrow> ''auth.password-reset''
   | WorkspaceInvitation \<Rightarrow> ''workspace.invitation'')"

record email_template_definition =
  et_key :: email_template_key
  et_subject :: string
  et_html :: string
  et_text :: string

text \<open>A template before its variables are known: what \<open>defineTemplate\<close> closes over.\<close>

record email_template =
  tp_key :: email_template_key
  tp_subject :: string
  tp_html :: string
  tp_text :: string

record email_receipt =
  er_provider :: string
  er_messageId :: string
  er_acceptedAt :: string

section \<open>Values and escaping\<close>

text \<open>\<open>String(value)\<close>.\<close>

fun js_String :: "json \<Rightarrow> string" where
  "js_String JNull = ''null''"
| "js_String (JBool b) = (if b then ''true'' else ''false'')"
| "js_String (JNum n) = num_to_string n"
| "js_String (JStr s) = s"
| "js_String (JArr xs) = join '','' (map (\<lambda>x. if x = JNull then [] else js_String x) xs)"
| "js_String (JObj es) = ''[object Object]''"

definition htmlEscape :: "char \<Rightarrow> string" where
  "htmlEscape c =
     (if c = CHR ''&'' then ''&amp;''
      else if c = CHR ''<'' then ''&lt;''
      else if c = CHR ''>'' then ''&gt;''
      else if c = CHR 0x22 then ''&quot;''
      else if c = CHR 0x27 then ''&#39;''
      else [c])"

definition escapeHtml :: "string \<Rightarrow> string" where
  "escapeHtml s = concat (map htmlEscape s)"

section \<open>Interpolation\<close>

text \<open>The character class \<open>[\w.]\<close>.\<close>

definition word_char :: "char \<Rightarrow> bool" where
  "word_char c = (let n = (of_char c :: nat) in
     (48 \<le> n \<and> n \<le> 57) \<or> (65 \<le> n \<and> n \<le> 90) \<or> (97 \<le> n \<and> n \<le> 122) \<or> c = CHR ''_'' \<or> c = CHR ''.'')"

text \<open>A match of \<open>{{\s*([\w.]+)\s*}}\<close> at the front of a string: the key and what follows.\<close>

definition placeholder :: "string \<Rightarrow> (string \<times> string) option" where
  "placeholder s =
     (if \<not> startsWith s ''{{'' then None
      else let r = dropWhile js_space (drop 2 s);
               key = takeWhile word_char r;
               r' = dropWhile js_space (dropWhile word_char r)
           in if key \<noteq> [] \<and> startsWith r' ''}}'' then Some (key, drop 2 r') else None)"

lemma placeholder_shorter: "placeholder s = Some (key, r) \<Longrightarrow> length r < length s"
proof -
  assume p: "placeholder s = Some (key, r)"
  let ?a = "dropWhile js_space (drop 2 s)"
  let ?b = "dropWhile js_space (dropWhile word_char ?a)"
  have r: "r = drop 2 ?b" and s: "startsWith s ''{{''"
    using p by (auto simp: placeholder_def Let_def split: if_splits)
  have "length ?b \<le> length (dropWhile word_char ?a)" by (rule length_dropWhile_le)
  also have "\<dots> \<le> length ?a" by (rule length_dropWhile_le)
  also have "\<dots> \<le> length (drop 2 s)" by (rule length_dropWhile_le)
  finally have "length r \<le> length (drop 2 s)" by (simp add: r)
  moreover have "2 \<le> length s" using s by (auto simp: startsWith_iff)
  ultimately show ?thesis by simp
qed

text \<open>\<open>template.replace(pattern, f)\<close> with the global flag: leftmost matches, one after the other.\<close>

function replace_placeholders :: "(string \<Rightarrow> string) \<Rightarrow> string \<Rightarrow> string" where
  "replace_placeholders f s = (case placeholder s of
     Some (key, r) \<Rightarrow> f key @ replace_placeholders f r
   | None \<Rightarrow> (case s of [] \<Rightarrow> [] | c # cs \<Rightarrow> c # replace_placeholders f cs))"
  by pat_completeness auto
termination
  by (relation "measure (\<lambda>(f, s). length s)") (auto dest: placeholder_shorter)

declare replace_placeholders.simps [simp del]

definition interpolateText :: "string \<Rightarrow> json_object \<Rightarrow> string" where
  "interpolateText template vars = replace_placeholders
     (\<lambda>key. case map_of vars key of None \<Rightarrow> [] | Some v \<Rightarrow> js_String v) template"

definition interpolateHtml :: "string \<Rightarrow> json_object \<Rightarrow> string" where
  "interpolateHtml template vars = replace_placeholders
     (\<lambda>key. case map_of vars key of None \<Rightarrow> [] | Some v \<Rightarrow> escapeHtml (js_String v)) template"

definition render :: "email_template \<Rightarrow> json_object \<Rightarrow> email_template_definition" where
  "render t vars =
     \<lparr>et_key = tp_key t, et_subject = interpolateText (tp_subject t) vars,
      et_html = interpolateHtml (tp_html t) vars, et_text = interpolateText (tp_text t) vars\<rparr>"

section \<open>The layout\<close>

record email_layout_options =
  el_preheader :: string
  el_title :: string
  el_lead :: string
  el_bodyHtml :: string
  el_ctaLabel :: string
  el_ctaUrl :: string
  el_footerHtml :: "string option"

text \<open>The lines of the page, joined by line feeds.\<close>

definition buildEmailLayout :: "email_layout_options \<Rightarrow> string" where
  \<open>buildEmailLayout opts = join [CHR 0x0A]
     [
       ''<!doctype html>'',
       ''<html lang="en">'',
       ''  <head>'',
       ''    <meta charset="utf-8">'',
       ''    <meta name="viewport" content="width=device-width, initial-scale=1">'',
       ''    <meta name="color-scheme" content="light">'',
       ''    <title>'' @ el_title opts @ ''</title>'',
       ''  </head>'',
       ''  <body style="margin:0;padding:0;background:#f5ede3;font-family:Aptos,Segoe UI,Roboto,Helvetica,Arial,sans-serif;color:#1f2933;">'',
       ''    <div style="display:none;max-height:0;overflow:hidden;opacity:0;color:transparent;line-height:1px;font-size:1px;">'',
       ''      '' @ el_preheader opts,
       ''    </div>'',
       ''    <table role="presentation" width="100%" cellspacing="0" cellpadding="0" style="background:#f5ede3;margin:0;padding:36px 16px;width:100%;">'',
       ''      <tr>'',
       ''        <td align="center">'',
       ''          <table role="presentation" width="100%" cellspacing="0" cellpadding="0" style="width:100%;max-width:600px;background:#fffaf1;border-radius:24px;overflow:hidden;border:1px solid rgba(31,41,51,0.12);box-shadow:0 18px 48px rgba(71,56,44,0.12);">'',
       ''            <tr>'',
       ''              <td style="height:7px;background:#b85c38;font-size:0;line-height:0;">&nbsp;</td>'',
       ''            </tr>'',
       ''            <tr>'',
       ''              <td style="padding:30px 34px 20px 34px;background:#fffaf1;">'',
       ''                <table role="presentation" width="100%" cellspacing="0" cellpadding="0">'',
       ''                  <tr>'',
       ''                    <td>'',
       ''                      <div style="display:inline-block;padding:7px 11px;border-radius:999px;background:rgba(184,92,56,0.10);color:#b85c38;font-size:12px;font-weight:800;letter-spacing:0.08em;text-transform:uppercase;">'',
       ''                        QuizMind'',
       ''                      </div>'',
       ''                      <h1 style="margin:18px 0 0 0;color:#1f2933;font-size:28px;line-height:1.2;font-weight:800;letter-spacing:-0.03em;">'',
       ''                        '' @ el_title opts,
       ''                      </h1>'',
       ''                      <p style="margin:10px 0 0 0;color:#5f6c76;font-size:16px;line-height:1.6;">'',
       ''                        '' @ el_lead opts,
       ''                      </p>'',
       ''                    </td>'',
       ''                  </tr>'',
       ''                </table>'',
       ''              </td>'',
       ''            </tr>'',
       ''            <tr>'',
       ''              <td style="padding:20px 34px 10px 34px;">'',
       ''                <div style="font-size:15px;line-height:1.72;color:#1f2933;">'',
       ''                  '' @ el_bodyHtml opts,
       ''                </div>'',
       ''              </td>'',
       ''            </tr>'',
       ''            <tr>'',
       ''              <td align="left" style="padding:18px 34px 30px 34px;">'',
       ''                <a href="'' @ el_ctaUrl opts @ ''" style="display:inline-block;background:#b85c38;color:#ffffff;text-decoration:none;font-size:15px;font-weight:800;line-height:1;border-radius:999px;padding:15px 24px;box-shadow:0 10px 22px rgba(184,92,56,0.20);">'',
       ''                  '' @ el_ctaLabel opts,
       ''                </a>'',
       ''              </td>'',
       ''            </tr>'',
       ''            <tr>'',
       ''              <td style="padding:0 34px 34px 34px;">'',
       ''                <div style="border-top:1px solid rgba(31,41,51,0.10);padding-top:20px;font-size:13px;line-height:1.6;color:#5f6c76;">'',
       ''                  '' @ nullish (el_footerHtml opts) ''This message was sent by QuizMind. If you were not expecting it, you can safely ignore it.'',
       ''                </div>'',
       ''              </td>'',
       ''            </tr>'',
       ''          </table>'',
       ''          <p style="margin:16px 0 0 0;color:#8c7f73;font-size:12px;line-height:1.5;">'',
       ''            '' @ [CHR 0xA9] @ '' QuizMind '' @ [CHR 0xB7] @ '' ods.uz'',
       ''          </p>'',
       ''        </td>'',
       ''      </tr>'',
       ''    </table>'',
       ''  </body>'',
       ''</html>'']\<close>

definition mutedLinkStyle :: string where
  "mutedLinkStyle = ''color:#2c5d88;text-decoration:none;word-break:break-all;font-weight:700;''"

section \<open>The built-in templates\<close>

definition verifyEmailTemplate :: email_template where
  \<open>verifyEmailTemplate =
     \<lparr>tp_key = VerifyEmail,
      tp_subject = ''Verify your {{productName}} email'',
      tp_html = buildEmailLayout
        \<lparr>el_preheader = ''Confirm your email address to activate your QuizMind account.'',
         el_title = ''Verify your email'',
         el_lead = ''Confirm this address to finish setting up your account.'',
         el_bodyHtml =
           ''<p style="margin:0 0 16px 0;">Hello,</p>'' @
           ''<p style="margin:0 0 16px 0;">Confirm the email address for your <strong>{{productName}}</strong> account by pressing the button below.</p>'' @
           ''<p style="margin:0 0 8px 0;color:#5f6c76;font-size:14px;">If the button does not work, copy this secure link into your browser:</p>'' @
           ''<p style="margin:0;"><a href="{{verifyUrl}}" style="'' @ mutedLinkStyle @ ''">{{verifyUrl}}</a></p>'',
         el_ctaLabel = ''Verify email'',
         el_ctaUrl = ''{{verifyUrl}}'',
         el_footerHtml = Some (''If you did not request this email, contact <a href="mailto:{{supportEmail}}" style="'' @ mutedLinkStyle
           @ ''">{{supportEmail}}</a> or ignore this message.'')\<rparr>,
      tp_text = join [CHR 0x0A]
        [''Hello,'', [], ''Verify your email for {{productName}}:'', ''{{verifyUrl}}'', [],
         ''If you did not request this, contact {{supportEmail}}.'']\<rparr>\<close>

definition passwordResetTemplate :: email_template where
  \<open>passwordResetTemplate =
     \<lparr>tp_key = PasswordReset,
      tp_subject = ''Reset your {{productName}} password'',
      tp_html = buildEmailLayout
        \<lparr>el_preheader = ''Use this secure link to reset your QuizMind password.'',
         el_title = ''Reset your password'',
         el_lead = ''We received a request to reset your account password.'',
         el_bodyHtml =
           ''<p style="margin:0 0 16px 0;">Hello,</p>'' @
           ''<p style="margin:0 0 16px 0;">Use the button below to choose a new password for <strong>{{productName}}</strong>.</p>'' @
           ''<div style="margin:18px 0;padding:14px 16px;border-radius:16px;background:#f7efe5;border:1px solid rgba(184,92,56,0.18);color:#3c4852;font-size:14px;">This link expires in <strong>{{expiresInMinutes}} minutes</strong>. For security, do not share it with anyone.</div>'' @
           ''<p style="margin:0 0 8px 0;color:#5f6c76;font-size:14px;">If the button does not work, copy this secure link into your browser:</p>'' @
           ''<p style="margin:0;"><a href="{{resetUrl}}" style="'' @ mutedLinkStyle @ ''">{{resetUrl}}</a></p>'',
         el_ctaLabel = ''Reset password'',
         el_ctaUrl = ''{{resetUrl}}'',
         el_footerHtml = Some ''If you did not request a password reset, you can safely ignore this email. Your password will not change.''\<rparr>,
      tp_text = join [CHR 0x0A]
        [''Hello,'', [], ''Reset your {{productName}} password:'', ''{{resetUrl}}'', [],
         ''This link expires in {{expiresInMinutes}} minutes. If you did not request this, ignore this email.'']\<rparr>\<close>

definition workspaceInvitationTemplate :: email_template where
  \<open>workspaceInvitationTemplate =
     \<lparr>tp_key = WorkspaceInvitation,
      tp_subject = ''You were invited to {{workspaceName}}'',
      tp_html = buildEmailLayout
        \<lparr>el_preheader = ''{{inviterName}} invited you to collaborate in {{workspaceName}} on QuizMind.'',
         el_title = ''Workspace invitation'',
         el_lead = ''Join your team and start working with shared QuizMind tools.'',
         el_bodyHtml =
           ''<p style="margin:0 0 16px 0;"><strong>{{inviterName}}</strong> invited you to join <strong>{{workspaceName}}</strong>.</p>'' @
           ''<p style="margin:0 0 8px 0;color:#5f6c76;font-size:14px;">Accept the invitation with the button below, or copy this link into your browser:</p>'' @
           ''<p style="margin:0;"><a href="{{acceptUrl}}" style="'' @ mutedLinkStyle @ ''">{{acceptUrl}}</a></p>'',
         el_ctaLabel = ''Accept invitation'',
         el_ctaUrl = ''{{acceptUrl}}'',
         el_footerHtml = Some ''This invitation was sent through QuizMind. If you were not expecting it, you can safely ignore it.''\<rparr>,
      tp_text = join [CHR 0x0A]
        [''{{inviterName}} invited you to join {{workspaceName}}.'', [], ''Accept the invitation: {{acceptUrl}}'']\<rparr>\<close>

definition emailTemplateMap :: "email_template_key \<Rightarrow> email_template" where
  "emailTemplateMap k = (case k of
     VerifyEmail \<Rightarrow> verifyEmailTemplate | PasswordReset \<Rightarrow> passwordResetTemplate
   | WorkspaceInvitation \<Rightarrow> workspaceInvitationTemplate)"

section \<open>Delivery\<close>

type_synonym email_adapter = "email_template_definition \<Rightarrow> string \<Rightarrow> email_receipt result"

definition createNoopEmailAdapter :: "int \<Rightarrow> string \<Rightarrow> email_adapter" where
  "createNoopEmailAdapter now provider template to =
     Inr \<lparr>er_provider = provider, er_messageId = provider @ '':'' @ template_key_name (et_key template) @ '':'' @ to,
          er_acceptedAt = toISOString now\<rparr>"

definition sendTemplatedEmail :: "email_adapter \<Rightarrow> email_template \<Rightarrow> string \<Rightarrow> json_object \<Rightarrow> email_receipt result" where
  "sendTemplatedEmail adapter template to vars = adapter (render template vars) to"

section \<open>Lemmas\<close>

definition markup :: "char \<Rightarrow> bool" where
  "markup c = (c = CHR ''<'' \<or> c = CHR ''>'' \<or> c = CHR 0x22 \<or> c = CHR 0x27)"

lemma htmlEscape_no_markup: "list_all (\<lambda>c. \<not> markup c) (htmlEscape c)"
  by (simp add: htmlEscape_def markup_def)

lemma escapeHtml_no_markup: "list_all (\<lambda>c. \<not> markup c) (escapeHtml s)"
  using htmlEscape_no_markup by (induction s) (simp_all add: escapeHtml_def)

text \<open>Reading the five entities back.\<close>

fun unescapeHtml :: "nat \<Rightarrow> string \<Rightarrow> string" where
  "unescapeHtml 0 s = []"
| "unescapeHtml (Suc n) s =
     (if startsWith s ''&amp;'' then CHR ''&'' # unescapeHtml n (drop 5 s)
      else if startsWith s ''&lt;'' then CHR ''<'' # unescapeHtml n (drop 4 s)
      else if startsWith s ''&gt;'' then CHR ''>'' # unescapeHtml n (drop 4 s)
      else if startsWith s ''&quot;'' then CHR 0x22 # unescapeHtml n (drop 6 s)
      else if startsWith s ''&#39;'' then CHR 0x27 # unescapeHtml n (drop 5 s)
      else case s of [] \<Rightarrow> [] | c # cs \<Rightarrow> c # unescapeHtml n cs)"

lemma unescape_step:
  "unescapeHtml (Suc n) (htmlEscape c @ s) = c # unescapeHtml n s"
  by (cases "c \<in> {CHR ''&'', CHR ''<'', CHR ''>'', CHR 0x22, CHR 0x27}")
    (auto simp: htmlEscape_def)

lemma unescape_escape: "unescapeHtml (length s) (escapeHtml s) = s"
  by (induction s) (simp_all add: escapeHtml_def unescape_step del: unescapeHtml.simps(2))

lemma escapeHtml_inj: "escapeHtml s = escapeHtml t \<longleftrightarrow> s = t"
proof
  have len: "length s \<le> length (escapeHtml s)" for s
    by (induction s) (auto simp: escapeHtml_def htmlEscape_def)
  have more: "length s \<le> n \<Longrightarrow> unescapeHtml n (escapeHtml s) = s" for n s
  proof (induction s arbitrary: n)
    case Nil
    then show ?case by (cases n) (simp_all add: escapeHtml_def)
  next
    case (Cons c s)
    then obtain m where "n = Suc m" by (cases n) auto
    with Cons show ?case by (simp add: escapeHtml_def unescape_step del: unescapeHtml.simps(2))
  qed
  assume eq: "escapeHtml s = escapeHtml t"
  have "s = unescapeHtml (length (escapeHtml s)) (escapeHtml s)" by (rule more [OF len, symmetric])
  also have "\<dots> = t" unfolding eq by (rule more [OF len])
  finally show "s = t" .
qed simp

lemma replace_placeholders_rules:
  "replace_placeholders f [] = []"
  "placeholder (c # cs) = None \<Longrightarrow> replace_placeholders f (c # cs) = c # replace_placeholders f cs"
  "placeholder s = Some (key, r) \<Longrightarrow> replace_placeholders f s = f key @ replace_placeholders f r"
  by (simp_all add: replace_placeholders.simps [of f "[]"] replace_placeholders.simps [of f "c # cs"]
      replace_placeholders.simps [of f s] placeholder_def)

lemma markup_replaced:
  assumes "\<And>key. filter markup (f key) = []"
  shows "filter markup (replace_placeholders f s) = filter markup (replace_placeholders (\<lambda>_. []) s)"
  using assms
proof (induction f s rule: replace_placeholders.induct)
  case (1 f s)
  show ?case
  proof (cases "placeholder s")
    case None
    with 1 show ?thesis
      by (cases s) (simp_all add: replace_placeholders_rules)
  next
    case (Some p)
    obtain key r where p: "p = (key, r)" by (cases p)
    with Some 1 show ?thesis by (simp add: replace_placeholders_rules)
  qed
qed

section \<open>Properties\<close>

text \<open>
  C34. No markup injection: the angle brackets and quotes of a rendered page are exactly the ones
  its template has outside the placeholders, in their order, whatever the variables hold.
\<close>

theorem render_markup_fixed:
  "filter markup (et_html (render t vars)) = filter markup (replace_placeholders (\<lambda>_. []) (tp_html t))"
  unfolding render_def email_template_definition.simps interpolateHtml_def
proof (rule markup_replaced)
  fix key
  show "filter markup (case map_of vars key of None \<Rightarrow> [] | Some v \<Rightarrow> escapeHtml (js_String v)) = []"
    using escapeHtml_no_markup by (auto simp: filter_empty_conv list_all_iff split: option.splits)
qed

text \<open>
  Escaping is faithful: different values are never rendered alike, the five entities read back
  to the value, and no bracket or quote remains.
\<close>

theorem escapeHtml_faithful:
  "(escapeHtml s = escapeHtml s') = (s = s')
   \<and> unescapeHtml (length s) (escapeHtml s) = s
   \<and> filter markup (escapeHtml s) = []"
  using escapeHtml_no_markup [of s]
  by (simp add: escapeHtml_inj unescape_escape filter_empty_conv list_all_iff)

end
