(* ===== verification/Queue.thy ===== *)
theory Queue
  imports Usage RemoteConfig Email
begin

text \<open>
  Job queues (\<open>packages/queue/src/index.ts\<close>), their dispatch
  (\<open>apps/api/src/queue/queue-dispatch.service.ts\<close>), the publish result and audit event of a remote
  configuration (\<open>apps/api/src/services/remote-config-service.ts\<close>) and the worker jobs that only
  build a log event (\<open>apps/worker/src/jobs/\<close>). The payload types of a queue are the constructors of
  one datatype, so the payload of a request fixes its queue.
\<close>

section \<open>Publishing a remote configuration\<close>

record remote_config_publish_result =
  pr_versionLabel :: string
  pr_appliedLayerCount :: int
  pr_publishedAt :: string
  pr_actorId :: string
  pr_workspaceId :: "string option"

record remote_config_publish_request =
  pq_actorId :: string
  pq_versionLabel :: string
  pq_layers :: "remote_config_layer list"

definition previewRemoteConfig :: "remote_config_layer list \<Rightarrow> config_context \<Rightarrow> resolved_remote_config" where
  "previewRemoteConfig layers c = resolveRemoteConfig layers c"

definition publishRemoteConfigVersion ::
  "remote_config_publish_request \<Rightarrow> string option \<Rightarrow> int \<Rightarrow> remote_config_publish_result \<times> log_event" where
  "publishRemoteConfigVersion request givenAt now =
     (let publishedAt = nullish givenAt (toISOString now);
          result = \<lparr>pr_versionLabel = pq_versionLabel request, pr_appliedLayerCount = int (length (pq_layers request)),
                    pr_publishedAt = publishedAt, pr_actorId = pq_actorId request, pr_workspaceId = None\<rparr>
      in (result, createLogEvent
           \<lparr>le_eventId = ''remote-config:'' @ pq_versionLabel request, le_eventType = ''remote_config.published'',
            le_actorId = pq_actorId request, le_actorType = SubjectUser, le_targetType = ''remote_config_version'',
            le_targetId = pq_versionLabel request, le_occurredAt = pr_publishedAt result,
            le_metadata = Some [(''layerCount'', jint (int (length (pq_layers request))))],
            le_category = CatAudit, le_severity = SevInfo, le_status = Some StatusSuccess\<rparr>))"

record publisher =
  pb_id :: string
  pb_email :: string
  pb_displayName :: "string option"

record remote_config_version_summary =
  vs_id :: string
  vs_versionLabel :: string
  vs_isActive :: bool
  vs_publishedAt :: string
  vs_publishedBy :: "publisher option"
  vs_layers :: "remote_config_layer list"

definition mapRemoteConfigVersionRecordToSummary ::
  "version_row \<Rightarrow> publisher option \<Rightarrow> layer_row list \<Rightarrow> remote_config_version_summary" where
  "mapRemoteConfigVersionRecordToSummary r publishedBy layers =
     \<lparr>vs_id = vr_id r, vs_versionLabel = vr_versionLabel r, vs_isActive = vr_isActive r,
      vs_publishedAt = toISOString (vr_createdAt r),
      vs_publishedBy = map_option (\<lambda>p. \<lparr>pb_id = pb_id p, pb_email = pb_email p,
         pb_displayName = (if truthy (pb_displayName p) then pb_displayName p else None)\<rparr>) publishedBy,
      vs_layers = map mapRemoteConfigLayerRecordToDefinition layers\<rparr>"

definition propagateRemoteConfigPublish :: "remote_config_publish_result \<Rightarrow> bool \<times> log_event" where
  "propagateRemoteConfigPublish r =
     (True, createLogEvent
        \<lparr>le_eventId = ''remote-config-propagation:'' @ pr_versionLabel r, le_eventType = ''remote_config.propagated'',
         le_actorId = pr_actorId r, le_actorType = SubjectUser, le_targetType = ''remote_config_version'',
         le_targetId = pr_versionLabel r, le_occurredAt = pr_publishedAt r,
         le_metadata = Some [(''appliedLayerCount'', jint (pr_appliedLayerCount r))],
         le_category = CatDomain, le_severity = SevInfo, le_status = Some StatusSuccess\<rparr>)"

section \<open>Queues and payloads\<close>

datatype platform_queue =
  BillingWebhooks | UsageEvents | Emails | QuotaResets | ConfigPublish | AuditExports | HistoryCleanup

definition queueNames :: "platform_queue list" where
  "queueNames = [BillingWebhooks, UsageEvents, Emails, QuotaResets, ConfigPublish, AuditExports, HistoryCleanup]"

definition queue_name :: "platform_queue \<Rightarrow> string" where
  "queue_name q = (case q of
     BillingWebhooks \<Rightarrow> ''billing-webhooks'' | UsageEvents \<Rightarrow> ''usage-events'' | Emails \<Rightarrow> ''emails''
   | QuotaResets \<Rightarrow> ''quota-resets'' | ConfigPublish \<Rightarrow> ''config-publish'' | AuditExports \<Rightarrow> ''audit-exports''
   | HistoryCleanup \<Rightarrow> ''history-cleanup'')"

datatype billing_provider = PvMock | PvStripe | PvManual | PvYookassa | PvPaddle

definition provider_name :: "billing_provider \<Rightarrow> string" where
  "provider_name p = (case p of
     PvMock \<Rightarrow> ''mock'' | PvStripe \<Rightarrow> ''stripe'' | PvManual \<Rightarrow> ''manual'' | PvYookassa \<Rightarrow> ''yookassa'' | PvPaddle \<Rightarrow> ''paddle'')"

record billing_webhook_payload =
  bw_provider :: billing_provider
  bw_webhookEventId :: string
  bw_externalEventId :: string
  bw_eventType :: string
  bw_receivedAt :: string

record email_payload =
  em_to :: string
  em_templateKey :: email_template_key
  em_variables :: json_object
  em_requestedAt :: string
  em_requestedByUserId :: "string option"

datatype audit_export = ExportUsage string | ExportAdminLogs int

text \<open>The usage export carries its scope, the log export its item count.\<close>

record audit_export_payload =
  ae_export :: audit_export
  ae_format :: string
  ae_fileName :: string
  ae_contentType :: string
  ae_exportedAt :: string
  ae_requestedByUserId :: string

record quota_reset_job_payload = quota_reset_payload +
  qp_workspaceId :: string

datatype job_payload =
    BillingWebhookJob billing_webhook_payload
  | UsageEventJob usage_event
  | EmailJob email_payload
  | QuotaResetJob quota_reset_job_payload
  | ConfigPublishJob remote_config_publish_result
  | AuditExportJob audit_export_payload
  | HistoryCleanupJob string

definition queue_of :: "job_payload \<Rightarrow> platform_queue" where
  "queue_of p = (case p of
     BillingWebhookJob _ \<Rightarrow> BillingWebhooks | UsageEventJob _ \<Rightarrow> UsageEvents | EmailJob _ \<Rightarrow> Emails
   | QuotaResetJob _ \<Rightarrow> QuotaResets | ConfigPublishJob _ \<Rightarrow> ConfigPublish | AuditExportJob _ \<Rightarrow> AuditExports
   | HistoryCleanupJob _ \<Rightarrow> HistoryCleanup)"

record queue_policy_entry =
  qe_attempts :: int
  qe_removeOnComplete :: int
  qe_removeOnFail :: int

type_synonym queue_policy = "platform_queue \<Rightarrow> queue_policy_entry"

definition policy_entry :: "int \<Rightarrow> int \<Rightarrow> int \<Rightarrow> queue_policy_entry" where
  "policy_entry a c f = \<lparr>qe_attempts = a, qe_removeOnComplete = c, qe_removeOnFail = f\<rparr>"

definition QUEUE_HISTORY_DEFAULTS :: queue_policy where
  "QUEUE_HISTORY_DEFAULTS q = (case q of
     BillingWebhooks \<Rightarrow> policy_entry 10 250 250
   | UsageEvents \<Rightarrow> policy_entry 5 250 250
   | Emails \<Rightarrow> policy_entry 5 250 250
   | QuotaResets \<Rightarrow> policy_entry 3 250 250
   | ConfigPublish \<Rightarrow> policy_entry 5 250 250
   | AuditExports \<Rightarrow> policy_entry 2 50 250
   | HistoryCleanup \<Rightarrow> policy_entry 3 10 50)"

definition queueDefinitionDescriptions :: "platform_queue \<Rightarrow> string" where
  "queueDefinitionDescriptions q = (case q of
     BillingWebhooks \<Rightarrow> ''Processes billing provider webhook deliveries and retries.''
   | UsageEvents \<Rightarrow> ''Tracks extension and product usage for quota and analytics decisions.''
   | Emails \<Rightarrow> ''Delivers transactional email jobs such as verification, reset, and invites.''
   | QuotaResets \<Rightarrow> ''Resets quota counters at the end of a billing or usage window.''
   | ConfigPublish \<Rightarrow> ''Publishes remote config updates and downstream invalidation events.''
   | AuditExports \<Rightarrow> ''Builds and exports audit log bundles for admins and compliance.''
   | HistoryCleanup \<Rightarrow> ''Purges expired AI request content (prompt/response text) after the 7-day retention window.'')"

definition resolveQueuePolicyEntry :: "platform_queue \<Rightarrow> queue_policy option \<Rightarrow> queue_policy_entry" where
  "resolveQueuePolicyEntry q policy = (case policy of Some p \<Rightarrow> p q | None \<Rightarrow> QUEUE_HISTORY_DEFAULTS q)"

record queue_definition =
  qd_name :: platform_queue
  qd_description :: string
  qd_attempts :: int
  qd_removeOnComplete :: int
  qd_removeOnFail :: int

definition buildQueueDefinitions :: "queue_policy option \<Rightarrow> platform_queue \<Rightarrow> queue_definition" where
  "buildQueueDefinitions policy q =
     (let e = resolveQueuePolicyEntry q policy
      in \<lparr>qd_name = q, qd_description = queueDefinitionDescriptions q, qd_attempts = qe_attempts e,
          qd_removeOnComplete = qe_removeOnComplete e, qd_removeOnFail = qe_removeOnFail e\<rparr>)"

definition getQueueDefinition :: "platform_queue \<Rightarrow> queue_policy option \<Rightarrow> queue_definition" where
  "getQueueDefinition q policy = buildQueueDefinitions policy q"

definition listQueueDefinitions :: "queue_policy option \<Rightarrow> queue_definition list" where
  "listQueueDefinitions policy = map (buildQueueDefinitions policy) queueNames"

definition getQueueRuntimeOptions :: "platform_queue \<Rightarrow> int option \<Rightarrow> queue_policy option \<Rightarrow> queue_policy_entry" where
  "getQueueRuntimeOptions q attempts policy =
     (let d = getQueueDefinition q policy
      in \<lparr>qe_attempts = nullish attempts (qd_attempts d), qe_removeOnComplete = qd_removeOnComplete d,
          qe_removeOnFail = qd_removeOnFail d\<rparr>)"

section \<open>Requests and jobs\<close>

record queue_dispatch_request =
  dr_payload :: job_payload
  dr_dedupeKey :: "string option"
  dr_attempts :: "int option"
  dr_jobId :: "string option"
  dr_createdAt :: "string option"

record queue_job =
  qj_id :: string
  qj_queue :: platform_queue
  qj_payload :: job_payload
  qj_dedupeKey :: "string option"
  qj_createdAt :: string
  qj_attempts :: "int option"

definition buildQueueDedupeKey :: "job_payload \<Rightarrow> string option" where
  "buildQueueDedupeKey payload = (case payload of
     BillingWebhookJob p \<Rightarrow> Some (provider_name (bw_provider p) @ '':'' @ bw_externalEventId p)
   | UsageEventJob p \<Rightarrow> Some (ue_installationId p @ '':'' @ ue_occurredAt p @ '':'' @ ue_eventType p)
   | QuotaResetJob p \<Rightarrow> Some (qp_workspaceId p @ '':'' @ qp_key p @ '':'' @ qp_nextPeriodStart p)
   | ConfigPublishJob p \<Rightarrow> Some (nullish (pr_workspaceId p) ''global'' @ '':'' @ pr_versionLabel p @ '':'' @ pr_publishedAt p)
   | _ \<Rightarrow> None)"

definition buildQueueJobId :: "int \<Rightarrow> platform_queue \<Rightarrow> string option \<Rightarrow> string" where
  "buildQueueJobId now q dedupeKey =
     (if truthy dedupeKey then queue_name q @ '':'' @ the dedupeKey else queue_name q @ '':'' @ show_int now)"

definition createQueueDispatchRequest :: "queue_dispatch_request \<Rightarrow> queue_policy option \<Rightarrow> queue_dispatch_request" where
  "createQueueDispatchRequest request policy =
     (let dedupeKey = orElse (dr_dedupeKey request) (buildQueueDedupeKey (dr_payload request));
          runtimeOptions = getQueueRuntimeOptions (queue_of (dr_payload request)) (dr_attempts request) policy
      in request\<lparr>dr_dedupeKey := (if truthy dedupeKey then dedupeKey else dr_dedupeKey request),
                 dr_attempts := Some (qe_attempts runtimeOptions)\<rparr>)"

definition buildQueueJob :: "int \<Rightarrow> queue_dispatch_request \<Rightarrow> queue_policy option \<Rightarrow> queue_job" where
  "buildQueueJob now request policy =
     (let q = queue_of (dr_payload request);
          runtimeOptions = getQueueRuntimeOptions q (dr_attempts request) policy
      in \<lparr>qj_id = nullish (dr_jobId request) (buildQueueJobId now q (dr_dedupeKey request)), qj_queue = q,
          qj_payload = dr_payload request, qj_dedupeKey = dr_dedupeKey request,
          qj_createdAt = nullish (dr_createdAt request) (toISOString now),
          qj_attempts = Some (qe_attempts runtimeOptions)\<rparr>)"

section \<open>Dispatch\<close>

text \<open>\<open>encodeURIComponent\<close>: unreserved characters stay, the others become their UTF-8 bytes.\<close>

definition hex_digit :: "int \<Rightarrow> char" where
  "hex_digit n = (if n < 10 then char_of (48 + n) else char_of (55 + n))"

definition percent :: "int \<Rightarrow> string" where
  "percent b = [CHR ''%'', hex_digit (b div 16), hex_digit (b mod 16)]"

definition unreserved :: "char \<Rightarrow> bool" where
  "unreserved c = (let n = (of_char c :: int) in
     (48 \<le> n \<and> n \<le> 57) \<or> (65 \<le> n \<and> n \<le> 90) \<or> (97 \<le> n \<and> n \<le> 122)
     \<or> c \<in> set [CHR ''-'', CHR ''_'', CHR ''.'', CHR ''!'', CHR ''~'', CHR ''*'', CHR 0x27, CHR ''('', CHR '')''])"

definition encode_char :: "char \<Rightarrow> string" where
  "encode_char c = (let n = of_char c in
     if unreserved c then [c]
     else if n < 128 then percent n
     else percent (192 + n div 64) @ percent (128 + n mod 64))"

definition encodeURIComponent :: "string \<Rightarrow> string" where
  "encodeURIComponent s = concat (map encode_char s)"

definition toBullMqJobId :: "string \<Rightarrow> string" where
  "toBullMqJobId jobId = encodeURIComponent jobId"

record bull_add =
  ba_queue :: platform_queue
  ba_name :: string
  ba_payload :: job_payload
  ba_jobId :: string
  ba_options :: queue_policy_entry

text \<open>
  \<open>dispatch\<close>: the job it returns and the call \<open>queue.add\<close> it makes, if any; \<open>policy\<close> is \<open>None\<close> when
  the retention settings cannot be read.
\<close>

definition dispatch :: "bool \<Rightarrow> queue_policy option \<Rightarrow> int \<Rightarrow> queue_dispatch_request \<Rightarrow> queue_job \<times> bull_add option" where
  "dispatch isConnected policy now request =
     (let job = buildQueueJob now request policy;
          runtimeOptions = getQueueRuntimeOptions (qj_queue job) (qj_attempts job) policy
      in if \<not> isConnected then (job, None)
         else (job, Some \<lparr>ba_queue = qj_queue job, ba_name = qj_id job, ba_payload = qj_payload job,
                         ba_jobId = toBullMqJobId (qj_id job), ba_options = runtimeOptions\<rparr>))"

section \<open>Throttled error logging\<close>

text \<open>The state of the closure: the time of the last message of each key.\<close>

type_synonym throttle_state = "(string \<times> int) list"

definition throttled_log :: "string \<Rightarrow> int option \<Rightarrow> string \<Rightarrow> int \<Rightarrow> throttle_state \<Rightarrow> throttle_state \<times> string option" where
  "throttled_log context intervalMs message now seen =
     (let key = context @ '':'' @ message;
          prev = nullish (map_of seen key) 0
      in if now - prev < nullish intervalMs 60000 then (seen, None)
         else (AList.update key now seen, Some (''['' @ context @ ''] '' @ message)))"

fun throttled_run :: "string \<Rightarrow> int option \<Rightarrow> (string \<times> int) list \<Rightarrow> throttle_state \<Rightarrow> (string \<times> int) list" where
  "throttled_run context intervalMs [] seen = []"
| "throttled_run context intervalMs ((message, now) # es) seen =
     (case throttled_log context intervalMs message now seen of
        (seen', None) \<Rightarrow> throttled_run context intervalMs es seen'
      | (seen', Some _) \<Rightarrow> (message, now) # throttled_run context intervalMs es seen')"

section \<open>The encoding of job identifiers\<close>

lemma of_char_range: "0 \<le> (of_char c :: int)" "(of_char c :: int) < 256"
  by (metis of_char_mod_256 pos_mod_sign zero_less_numeral, metis of_char_mod_256 pos_mod_bound zero_less_numeral)

lemma nibbles: "0 \<le> b \<Longrightarrow> b < 256 \<Longrightarrow> 0 \<le> b div 16 \<and> b div 16 < 16 \<and> 0 \<le> b mod 16 \<and> b mod 16 < (16 :: int)"
  by (auto simp: pos_imp_zdiv_nonneg_iff)

lemma of_hex_digit: "0 \<le> n \<Longrightarrow> n < 16 \<Longrightarrow> (of_char (hex_digit n) :: int) = (if n < 10 then 48 + n else 55 + n)"
  by (simp add: hex_digit_def of_char_of)

lemma hex_digit_inj: "hex_digit a = hex_digit b \<Longrightarrow> 0 \<le> a \<Longrightarrow> a < 16 \<Longrightarrow> 0 \<le> b \<Longrightarrow> b < 16 \<Longrightarrow> a = b"
proof -
  assume eq: "hex_digit a = hex_digit b" and r: "0 \<le> a" "a < 16" "0 \<le> b" "b < 16"
  have "(of_char (hex_digit a) :: int) = of_char (hex_digit b)" by (simp add: eq)
  then show "a = b" using r by (simp add: of_hex_digit split: if_splits)
qed

lemma percent_inj:
  assumes "percent a @ x = percent b @ y" and "0 \<le> a" "a < 256" "0 \<le> b" "b < 256"
  shows "a = b \<and> x = y"
proof -
  have h: "hex_digit (a div 16) = hex_digit (b div 16)" "hex_digit (a mod 16) = hex_digit (b mod 16)" "x = y"
    using assms(1) by (simp_all add: percent_def)
  note r = nibbles
  have "a div 16 = b div 16" using h(1) r [OF assms(2,3)] r [OF assms(4,5)] by (intro hex_digit_inj) auto
  moreover have "a mod 16 = b mod 16" using h(2) by (intro hex_digit_inj) auto
  ultimately show ?thesis using h(3) by (metis div_mult_mod_eq)
qed

lemma not_unreserved_percent: "\<not> unreserved (CHR ''%'')"
  by (simp add: unreserved_def)

lemma not_unreserved_colon: "\<not> unreserved (CHR '':'')"
  by (simp add: unreserved_def)

lemma encode_char_cases:
  obtains (plain) "unreserved c" "encode_char c = [c]"
    | (ascii) "\<not> unreserved c" "(of_char c :: int) < 128" "encode_char c = percent (of_char c)"
    | (high) "\<not> unreserved c" "128 \<le> (of_char c :: int)"
        "encode_char c = percent (192 + of_char c div 64) @ percent (128 + of_char c mod 64)"
  by (cases "unreserved c"; cases "(of_char c :: int) < 128") (auto simp: encode_char_def Let_def)

lemma high_bytes:
  assumes "128 \<le> n" and "n < (256 :: int)"
  shows "0 \<le> 192 + n div 64" "192 + n div 64 < 256" "128 \<le> 192 + n div 64"
    "0 \<le> 128 + n mod 64" "128 + n mod 64 < 256"
  using assms by (simp_all add: pos_imp_zdiv_nonneg_iff)

lemma encode_char_prefix_free:
  assumes "encode_char c @ x = encode_char d @ y"
  shows "c = d \<and> x = y"
proof -
  note rc = of_char_range [of c] and rd = of_char_range [of d]
  show ?thesis
  proof (cases c rule: encode_char_cases)
    case plain
    then show ?thesis
      using assms not_unreserved_percent by (cases d rule: encode_char_cases) (auto simp: percent_def)
  next
    case ascii
    note c = this
    show ?thesis
    proof (cases d rule: encode_char_cases)
      case plain
      then show ?thesis using assms c not_unreserved_percent by (auto simp: percent_def)
    next
      case ascii
      with assms c rc rd have "(of_char c :: int) = of_char d \<and> x = y" by (intro percent_inj) auto
      then show ?thesis by simp
    next
      case high
      with assms c have "percent (of_char c) @ x = percent (192 + of_char d div 64) @ (percent (128 + of_char d mod 64) @ y)"
        by simp
      then have "(of_char c :: int) = 192 + of_char d div 64"
        using percent_inj rc high_bytes [OF high(2) rd(2)] by blast
      then show ?thesis using c(2) high_bytes [OF high(2) rd(2)] by simp
    qed
  next
    case high
    note c = this
    show ?thesis
    proof (cases d rule: encode_char_cases)
      case plain
      then show ?thesis using assms c not_unreserved_percent by (auto simp: percent_def)
    next
      case ascii
      with assms c have "percent (192 + of_char c div 64) @ (percent (128 + of_char c mod 64) @ x) = percent (of_char d) @ y"
        by simp
      then have "192 + of_char c div 64 = (of_char d :: int)"
        using percent_inj rd high_bytes [OF c(2) rc(2)] by blast
      then show ?thesis using ascii(2) high_bytes [OF c(2) rc(2)] by simp
    next
      case high
      note hc = high_bytes [OF c(2) rc(2)] and hd = high_bytes [OF high(2) rd(2)]
      have "percent (192 + of_char c div 64) @ (percent (128 + of_char c mod 64) @ x)
          = percent (192 + of_char d div 64) @ (percent (128 + of_char d mod 64) @ y)"
        using assms c high by simp
      then have a: "192 + of_char c div 64 = (192 + of_char d div 64 :: int)"
          "percent (128 + of_char c mod 64) @ x = percent (128 + of_char d mod 64) @ y"
        using percent_inj hc hd by blast+
      then have b: "128 + of_char c mod 64 = (128 + of_char d mod 64 :: int)" "x = y"
        using percent_inj hc hd by blast+
      from a(1) b(1) have "(of_char c :: int) = of_char d" by (metis add_left_cancel div_mult_mod_eq)
      with b(2) show ?thesis by simp
    qed
  qed
qed

lemma encode_char_not_Nil: "encode_char c \<noteq> []"
  by (cases c rule: encode_char_cases) (simp_all add: percent_def)

lemma encodeURIComponent_inj: "encodeURIComponent s = encodeURIComponent t \<longleftrightarrow> s = t"
proof
  show "encodeURIComponent s = encodeURIComponent t \<Longrightarrow> s = t"
  proof (induction s arbitrary: t)
    case Nil
    then show ?case using encode_char_not_Nil by (cases t) (auto simp: encodeURIComponent_def)
  next
    case (Cons c s)
    then obtain d u where t: "t = d # u"
      using encode_char_not_Nil by (cases t) (auto simp: encodeURIComponent_def)
    with Cons.prems have "encode_char c @ encodeURIComponent s = encode_char d @ encodeURIComponent u"
      by (simp add: encodeURIComponent_def)
    with encode_char_prefix_free Cons.IH t show ?case by blast
  qed
qed simp

lemma hex_digit_not_colon: "0 \<le> n \<Longrightarrow> n < 16 \<Longrightarrow> hex_digit n \<noteq> CHR '':''"
proof
  assume r: "0 \<le> n" "n < 16" and "hex_digit n = CHR '':''"
  then have "(of_char (hex_digit n) :: int) = 58" by simp
  with r show False by (simp add: of_hex_digit split: if_splits)
qed

lemma percent_no_colon: "0 \<le> b \<Longrightarrow> b < 256 \<Longrightarrow> CHR '':'' \<notin> set (percent b)"
  using hex_digit_not_colon [of "b div 16"] hex_digit_not_colon [of "b mod 16"] nibbles [of b]
  by (auto simp: percent_def)

lemma encodeURIComponent_no_colon: "CHR '':'' \<notin> set (encodeURIComponent s)"
proof (induction s)
  case (Cons c s)
  have "CHR '':'' \<notin> set (encode_char c)"
    using of_char_range [of c] not_unreserved_colon
    by (cases c rule: encode_char_cases) (auto simp: percent_no_colon high_bytes)
  with Cons show ?case by (simp add: encodeURIComponent_def)
qed (simp add: encodeURIComponent_def)

lemma queue_name_inj: "queue_name q = queue_name q' \<longleftrightarrow> q = q'"
  by (cases q; cases q'; simp add: queue_name_def)

lemma queue_name_no_colon: "CHR '':'' \<notin> set (queue_name q)"
  by (cases q; simp add: queue_name_def)

lemma provider_name_inj: "provider_name p = provider_name p' \<longleftrightarrow> p = p'"
  by (cases p; cases p'; simp add: provider_name_def)

lemma provider_name_no_colon: "CHR '':'' \<notin> set (provider_name p)"
  by (cases p; simp add: provider_name_def)

lemma before_colon_eq:
  assumes "CHR '':'' \<notin> set a" and "CHR '':'' \<notin> set b" and "a @ '':'' @ x = b @ '':'' @ y"
  shows "a = b \<and> x = y"
proof -
  have "takeWhile (\<lambda>c. c \<noteq> CHR '':'') (z @ '':'' @ w) = z" if "CHR '':'' \<notin> set z" for z w
    using that by (induction z) auto
  then have "a = b" using assms by metis
  with assms(3) show ?thesis by simp
qed

section \<open>Lemmas on dispatch and throttling\<close>

definition keyed :: "queue_dispatch_request \<Rightarrow> bool" where
  "keyed r = (truthy (dr_dedupeKey r) \<and> dr_jobId r = None)"

lemma dispatch_job_id:
  "keyed r \<Longrightarrow> qj_id (fst (dispatch con policy now r)) = queue_name (queue_of (dr_payload r)) @ '':'' @ the (dr_dedupeKey r)"
  by (simp add: keyed_def dispatch_def buildQueueJob_def buildQueueJobId_def Let_def)

text \<open>Requests without a key are told apart by the millisecond of their dispatch only.\<close>

lemma unkeyed_same_millisecond:
  assumes "dr_dedupeKey r = None" "dr_jobId r = None" "dr_dedupeKey r' = None" "dr_jobId r' = None"
    and "queue_of (dr_payload r) = queue_of (dr_payload r')"
  shows "map_option ba_jobId (snd (dispatch True policy now r)) = map_option ba_jobId (snd (dispatch True policy now r'))"
  using assms by (simp add: dispatch_def buildQueueJob_def buildQueueJobId_def Let_def)

lemma throttled_log_cases:
  "throttled_log context iv m t seen =
     (if t - nullish (map_of seen (context @ '':'' @ m)) 0 < nullish iv 60000 then (seen, None)
      else (AList.update (context @ '':'' @ m) t seen, Some (''['' @ context @ ''] '' @ m)))"
  by (simp add: throttled_log_def Let_def)

lemma throttled_run_Cons:
  "throttled_run context iv ((m, t) # es) seen =
     (if t - nullish (map_of seen (context @ '':'' @ m)) 0 < nullish iv 60000 then throttled_run context iv es seen
      else (m, t) # throttled_run context iv es (AList.update (context @ '':'' @ m) t seen))"
  by (simp add: throttled_log_cases)

declare throttled_run.simps(2) [simp del]

lemma throttled_run_after:
  "0 \<le> nullish iv 60000 \<Longrightarrow> (m, t) \<in> set (throttled_run context iv es seen) \<Longrightarrow>
     nullish (map_of seen (context @ '':'' @ m)) 0 + nullish iv 60000 \<le> t"
proof (induction es arbitrary: seen)
  case (Cons e es)
  obtain m0 t0 where e: "e = (m0, t0)" by (cases e)
  show ?case
  proof (cases "t0 - nullish (map_of seen (context @ '':'' @ m0)) 0 < nullish iv 60000")
    case True
    with Cons e show ?thesis by (simp add: throttled_run_Cons)
  next
    case False
    with Cons.prems e consider "m = m0" "t = t0"
      | "(m, t) \<in> set (throttled_run context iv es (AList.update (context @ '':'' @ m0) t0 seen))"
      by (auto simp: throttled_run_Cons)
    then show ?thesis
    proof cases
      case 1
      with False show ?thesis by simp
    next
      case 2
      from Cons.IH [OF Cons.prems(1) this] show ?thesis
        using False Cons.prems(1) by (cases "m = m0") (simp_all add: update_conv')
    qed
  qed
qed simp

lemma throttled_run_spaced:
  assumes "0 \<le> nullish iv 60000"
  shows "sorted_wrt (\<lambda>(m, t) (m', t'). m = m' \<longrightarrow> t + nullish iv 60000 \<le> t') (throttled_run context iv es seen)"
proof (induction es arbitrary: seen)
  case (Cons e es)
  obtain m0 t0 where e: "e = (m0, t0)" by (cases e)
  show ?case
  proof (cases "t0 - nullish (map_of seen (context @ '':'' @ m0)) 0 < nullish iv 60000")
    case True
    with Cons e show ?thesis by (simp add: throttled_run_Cons)
  next
    case False
    have "t0 + nullish iv 60000 \<le> t'"
      if "(m0, t') \<in> set (throttled_run context iv es (AList.update (context @ '':'' @ m0) t0 seen))" for t'
      using throttled_run_after [OF assms that] by (simp add: update_conv')
    with False Cons e show ?thesis by (auto simp: throttled_run_Cons)
  qed
qed simp

section \<open>Properties\<close>

text \<open>
  Deduplication at the queue boundary: two dispatches that carry a key get the same job
  identifier exactly when they agree in queue and key, so encoding loses nothing, and the
  identifier contains no colon, which the queue library forbids.
\<close>

theorem dispatch_dedupes:
  assumes "keyed r" and "keyed r'"
  shows "(map_option ba_jobId (snd (dispatch True policy now r)) = map_option ba_jobId (snd (dispatch True policy' now' r')))
      = (queue_of (dr_payload r) = queue_of (dr_payload r') \<and> dr_dedupeKey r = dr_dedupeKey r')
    \<and> (\<forall>b. snd (dispatch True policy now r) = Some b \<longrightarrow> CHR '':'' \<notin> set (ba_jobId b))"
proof -
  let ?id = "\<lambda>r. queue_name (queue_of (dr_payload r)) @ '':'' @ the (dr_dedupeKey r)"
  have b: "map_option ba_jobId (snd (dispatch True policy now r)) = Some (encodeURIComponent (?id r))"
    if "keyed r" for policy now r
    using dispatch_job_id [OF that, of True policy now]
    by (simp add: dispatch_def Let_def toBullMqJobId_def)
  have "?id r = ?id r' \<longleftrightarrow> queue_of (dr_payload r) = queue_of (dr_payload r') \<and> the (dr_dedupeKey r) = the (dr_dedupeKey r')"
    using before_colon_eq [OF queue_name_no_colon queue_name_no_colon] queue_name_inj by metis
  moreover have "the (dr_dedupeKey r) = the (dr_dedupeKey r') \<longleftrightarrow> dr_dedupeKey r = dr_dedupeKey r'"
    using assms by (auto simp: keyed_def dest!: truthy_obtain)
  ultimately have "(?id r = ?id r') = (queue_of (dr_payload r) = queue_of (dr_payload r') \<and> dr_dedupeKey r = dr_dedupeKey r')"
    by simp
  moreover have "CHR '':'' \<notin> set (ba_jobId x)" if "snd (dispatch True policy now r) = Some x" for x
    using b [OF assms(1), of policy now] that encodeURIComponent_no_colon by simp
  ultimately show ?thesis
    by (simp only: b [OF assms(1)] b [OF assms(2)] option.inject encodeURIComponent_inj) blast
qed

theorem dispatch_dedupes_witness:
  "map_option ba_jobId (snd (dispatch True None 5
      \<lparr>dr_payload = HistoryCleanupJob ''t'', dr_dedupeKey = Some ''a:b'', dr_attempts = None, dr_jobId = None, dr_createdAt = None\<rparr>))
   \<noteq> map_option ba_jobId (snd (dispatch True None 5
      \<lparr>dr_payload = HistoryCleanupJob ''t'', dr_dedupeKey = Some ''a%3Ab'', dr_attempts = None, dr_jobId = None, dr_createdAt = None\<rparr>))"
  using dispatch_dedupes [of
      "\<lparr>dr_payload = HistoryCleanupJob ''t'', dr_dedupeKey = Some ''a:b'', dr_attempts = None, dr_jobId = None, dr_createdAt = None\<rparr>"
      "\<lparr>dr_payload = HistoryCleanupJob ''t'', dr_dedupeKey = Some ''a%3Ab'', dr_attempts = None, dr_jobId = None, dr_createdAt = None\<rparr>"
      None 5 None 5]
  by (simp add: keyed_def)

text \<open>
  Retry policy: a prepared request keeps its own number of attempts, or gets the one of the
  effective policy of its queue; preparing twice changes nothing; and the job and the options
  handed to the queue agree on it, with the retention counts of the policy.
\<close>

theorem dispatch_attempts:
  "dr_attempts (createQueueDispatchRequest r p) = Some (nullish (dr_attempts r) (qe_attempts (resolveQueuePolicyEntry (queue_of (dr_payload r)) p)))
   \<and> createQueueDispatchRequest (createQueueDispatchRequest r p) p' = createQueueDispatchRequest r p
   \<and> map_option ba_options (snd (dispatch True p now (createQueueDispatchRequest r p))) =
       Some ((resolveQueuePolicyEntry (queue_of (dr_payload r)) p)
         \<lparr>qe_attempts := nullish (dr_attempts r) (qe_attempts (resolveQueuePolicyEntry (queue_of (dr_payload r)) p))\<rparr>)
   \<and> qj_attempts (fst (dispatch True p now (createQueueDispatchRequest r p))) = dr_attempts (createQueueDispatchRequest r p)"
  by (auto simp: createQueueDispatchRequest_def dispatch_def buildQueueJob_def getQueueRuntimeOptions_def
      getQueueDefinition_def buildQueueDefinitions_def Let_def orElse_def split: option.splits)

text \<open>
  Throttled logging: among the messages written, two equal ones are at least the interval
  apart, whatever the sequence of errors and times.
\<close>

theorem throttled_logger_spacing:
  assumes "0 \<le> nullish intervalMs 60000"
  shows "sorted_wrt (\<lambda>(m, t) (m', t'). m = m' \<longrightarrow> t + nullish intervalMs 60000 \<le> t') (throttled_run context intervalMs errors [])"
  by (rule throttled_run_spaced [OF assms])

theorem throttled_logger_spacing_witness:
  "sorted_wrt (\<lambda>(m, t) (m', t'). m = m' \<longrightarrow> t + nullish (Some 10) 60000 \<le> t')
     (throttled_run ''queue'' (Some 10) [(''down'', 100), (''down'', 105), (''up'', 106), (''down'', 111)] [])
   \<and> throttled_run ''queue'' (Some 10) [(''down'', 100), (''down'', 105), (''up'', 106), (''down'', 111)] []
     = [(''down'', 100), (''up'', 106), (''down'', 111)]"
  using throttled_logger_spacing [of "Some 10" "''queue''" "[(''down'', 100), (''down'', 105), (''up'', 106), (''down'', 111)]"]
  by (simp add: throttled_run_Cons)

end
