(* ===== verification/WorkerJobs.thy ===== *)
theory WorkerJobs
  imports Queue
begin

text \<open>
  Worker jobs (\<open>apps/worker/src/jobs/\<close>): email delivery and its domain events, audit exports, and
  the cleanup of expired request history with its two batched loops
  (\<open>process-history-cleanup.ts\<close>).
\<close>

section \<open>Email\<close>

record email_job_result =
  ej_delivered :: bool
  ej_provider :: string
  ej_messageId :: string
  ej_logEvent :: log_event

definition processEmailJob :: "email_adapter \<Rightarrow> email_payload \<Rightarrow> email_job_result result" where
  "processEmailJob adapter p =
     bindR (sendTemplatedEmail adapter (emailTemplateMap (em_templateKey p)) (em_to p) (em_variables p)) (\<lambda>delivery.
       Inr \<lparr>ej_delivered = True, ej_provider = er_provider delivery, ej_messageId = er_messageId delivery,
            ej_logEvent = createLogEvent
              \<lparr>le_eventId = ''email:'' @ template_key_name (em_templateKey p) @ '':'' @ em_to p @ '':'' @ em_requestedAt p,
               le_eventType = ''email.delivered'', le_actorId = nullish (em_requestedByUserId p) ''system'',
               le_actorType = (if truthy (em_requestedByUserId p) then SubjectUser else SubjectSystem),
               le_targetType = ''email'', le_targetId = em_to p, le_occurredAt = em_requestedAt p,
               le_metadata = Some [(''templateKey'', JStr (template_key_name (em_templateKey p))),
                 (''provider'', JStr (er_provider delivery)), (''messageId'', JStr (er_messageId delivery)),
                 (''variableCount'', jint (int (length (em_variables p))))],
               le_category = CatSystem, le_severity = SevInfo, le_status = Some StatusSuccess\<rparr>\<rparr>)"

definition buildBasePayload :: "email_payload \<Rightarrow> queue_job_context \<Rightarrow> json_object" where
  "buildBasePayload p c =
     [(''queue'', JStr (qc_queueName c)), (''queueJobId'', JStr (qc_queueJobId c)),
      (''queueAttempt'', jint (qc_attemptNumber c)), (''templateKey'', JStr (template_key_name (em_templateKey p))),
      (''recipient'', JStr (em_to p)), (''requestedAt'', JStr (em_requestedAt p)),
      (''requestedByUserId'', jnull_or (em_requestedByUserId p)), (''processedAt'', JStr (qc_processedAt c))]"

definition buildEmailJobProcessedDomainEvent ::
  "(string \<Rightarrow> int option) \<Rightarrow> email_payload \<Rightarrow> email_job_result \<Rightarrow> queue_job_context \<Rightarrow> domain_event_input" where
  "buildEmailJobProcessedDomainEvent host p r c =
     \<lparr>de_eventType = ''email.job_processed'',
      de_payloadJson = buildBasePayload p c @
        [(''summary'', JStr (''Delivered '' @ template_key_name (em_templateKey p) @ '' to '' @ em_to p @ ''.'')),
         (''deliveryProvider'', JStr (ej_provider r)), (''deliveryMessageId'', JStr (ej_messageId r)),
         (''delivered'', JBool (ej_delivered r)), (''logEventId'', JStr (le_eventId (ej_logEvent r))),
         (''logSeverity'', JStr (show_severity (le_severity (ej_logEvent r)))),
         (''logStatus'', jnull_or (map_option show_status (le_status (ej_logEvent r))))],
      de_createdAt = date_parse host (qc_processedAt c)\<rparr>"

definition buildEmailJobFailedDomainEvent ::
  "(string \<Rightarrow> int option) \<Rightarrow> email_payload \<Rightarrow> thrown \<Rightarrow> queue_job_context \<Rightarrow> domain_event_input" where
  "buildEmailJobFailedDomainEvent host p e c =
     \<lparr>de_eventType = ''email.job_failed'',
      de_payloadJson = buildBasePayload p c @
        [(''summary'', JStr (''Failed '' @ template_key_name (em_templateKey p) @ '' delivery to '' @ em_to p @ ''.'')),
         (''errorName'', JStr (readErrorName e)), (''errorCode'', jnull_or (readErrorCode e)),
         (''errorMessage'', JStr (readErrorMessage ''Email queue processing failed.'' e))],
      de_createdAt = date_parse host (qc_processedAt c)\<rparr>"

section \<open>Audit exports\<close>

definition processAuditExportJob :: "audit_export_payload \<Rightarrow> bool \<times> log_event" where
  "processAuditExportJob p =
     (let kind = (case ae_export p of ExportUsage _ \<Rightarrow> ''usage'' | ExportAdminLogs _ \<Rightarrow> ''admin_logs'')
      in (True, createLogEvent
        \<lparr>le_eventId = ''audit-export:'' @ kind @ '':'' @ ae_fileName p @ '':'' @ ae_exportedAt p,
         le_eventType = ''audit.export_processed'', le_actorId = ae_requestedByUserId p, le_actorType = SubjectUser,
         le_targetType = (case ae_export p of ExportUsage _ \<Rightarrow> ''usage_export'' | ExportAdminLogs _ \<Rightarrow> ''audit_log_export''),
         le_targetId = ae_fileName p, le_occurredAt = ae_exportedAt p,
         le_metadata = Some (case ae_export p of
             ExportUsage scope \<Rightarrow> [(''format'', JStr (ae_format p)), (''scope'', JStr scope), (''contentType'', JStr (ae_contentType p))]
           | ExportAdminLogs n \<Rightarrow> [(''format'', JStr (ae_format p)), (''itemCount'', jint n), (''contentType'', JStr (ae_contentType p))]),
         le_category = CatDomain, le_severity = SevInfo, le_status = Some StatusSuccess\<rparr>))"

section \<open>Paths\<close>

text \<open>\<open>path.join(dir, key)\<close> of POSIX: the segments of the joined path, normalised.\<close>

fun norm_segs :: "bool \<Rightarrow> string list \<Rightarrow> string list \<Rightarrow> string list" where
  "norm_segs isAbs acc [] = rev acc"
| "norm_segs isAbs acc (x # xs) =
     (if x = [] \<or> x = ''.'' then norm_segs isAbs acc xs
      else if x = ''..'' then
        (case acc of
           [] \<Rightarrow> norm_segs isAbs (if isAbs then [] else [x]) xs
         | a # as \<Rightarrow> if a = ''..'' then norm_segs isAbs (x # acc) xs else norm_segs isAbs as xs)
      else norm_segs isAbs (x # acc) xs)"

definition path_join :: "string \<Rightarrow> string \<Rightarrow> string" where
  "path_join dir key =
     (let joined = dir @ ''/'' @ key;
          isAbs = startsWith joined ''/'';
          segs = norm_segs isAbs [] (split_on (CHR ''/'') joined)
      in if segs = [] then (if isAbs then ''/'' else ''.'')
         else (if isAbs then ''/'' else []) @ join ''/'' segs
           @ (if key \<noteq> [] \<and> last key = CHR ''/'' then ''/'' else []))"

definition resolveSafeBlobPath :: "string \<Rightarrow> string \<Rightarrow> string option" where
  "resolveSafeBlobPath blobDir blobKey =
     (let normalized = map (\<lambda>c. if c = CHR 0x5C then CHR ''/'' else c) (trim blobKey)
      in if normalized = [] \<or> startsWith normalized ''/'' \<or> str_includes normalized ''..'' then None
         else Some (path_join blobDir normalized))"

section \<open>History cleanup\<close>

record content_row =
  cw_id :: string
  cw_aiRequestEventId :: string
  cw_promptBlobKey :: "string option"
  cw_responseBlobKey :: "string option"
  cw_fileBlobKey :: "string option"
  cw_expiresAt :: int
  cw_deletedAt :: "int option"

record attachment_row =
  at_id :: string
  at_aiRequestEventId :: string
  at_blobKey :: string
  at_deletedAt :: "int option"

record legacy_row =
  lg_id :: string
  lg_expiresAt :: int

text \<open>The tables and the files the job works on.\<close>

record history_db =
  hd_contents :: "content_row list"
  hd_attachments :: "attachment_row list"
  hd_requests :: "legacy_row list"
  hd_eventIds :: "string list"
  hd_files :: "string list"

definition unlink_all :: "string list \<Rightarrow> history_db \<Rightarrow> history_db" where
  "unlink_all paths db = db\<lparr>hd_files := filter (\<lambda>f. f \<notin> set paths) (hd_files db)\<rparr>"

definition safe_paths :: "string \<Rightarrow> string list \<Rightarrow> string list" where
  "safe_paths blobDir keys = concat (map (\<lambda>k. case resolveSafeBlobPath blobDir k of None \<Rightarrow> [] | Some p \<Rightarrow> [p]) keys)"

definition content_keys :: "content_row \<Rightarrow> string list" where
  "content_keys r = map the (filter truthy [cw_promptBlobKey r, cw_responseBlobKey r, cw_fileBlobKey r])"

definition expired_content :: "int \<Rightarrow> content_row \<Rightarrow> bool" where
  "expired_content now r = (cw_expiresAt r < now \<and> cw_deletedAt r = None)"

text \<open>The first page of expired contents; rows that expire at the same time come as \<open>tie\<close> says.\<close>

definition content_order :: "(content_row \<Rightarrow> int) \<Rightarrow> content_row \<Rightarrow> content_row \<Rightarrow> int" where
  "content_order tie a b =
     (if cw_expiresAt a \<noteq> cw_expiresAt b then cw_expiresAt a - cw_expiresAt b else tie a - tie b)"

definition expired_page :: "nat \<Rightarrow> (content_row \<Rightarrow> int) \<Rightarrow> int \<Rightarrow> history_db \<Rightarrow> content_row list" where
  "expired_page batch tie now db =
     take batch (sort_by (content_order tie)
       (filter (expired_content now) (hd_contents db)))"

definition mark_contents :: "string list \<Rightarrow> int \<Rightarrow> content_row list \<Rightarrow> content_row list" where
  "mark_contents ids now rows =
     map (\<lambda>r. if cw_id r \<in> set ids \<and> cw_deletedAt r = None then r\<lparr>cw_deletedAt := Some now\<rparr> else r) rows"

definition mark_attachments :: "string list \<Rightarrow> int \<Rightarrow> attachment_row list \<Rightarrow> attachment_row list" where
  "mark_attachments ids now rows =
     map (\<lambda>r. if at_id r \<in> set ids \<and> at_deletedAt r = None then r\<lparr>at_deletedAt := Some now\<rparr> else r) rows"

text \<open>
  One round of the first loop on a non-empty page: the blobs of the contents and of their
  attachments are unlinked, then both are marked. \<open>now\<close> is the time of the round. The result
  carries the number of contents marked.
\<close>

definition cleanup_round :: "string \<Rightarrow> int \<Rightarrow> content_row list \<Rightarrow> history_db \<Rightarrow> history_db \<times> int" where
  "cleanup_round blobDir now expiredContents db =
     (let db1 = unlink_all (safe_paths blobDir (concat (map content_keys expiredContents))) db;
          eventIds = map cw_aiRequestEventId expiredContents;
          expiredAttachments = filter (\<lambda>a. at_aiRequestEventId a \<in> set eventIds \<and> at_deletedAt a = None) (hd_attachments db1);
          db2 = unlink_all (safe_paths blobDir (map at_blobKey expiredAttachments)) db1;
          db3 = (if 0 < length expiredAttachments
                 then db2\<lparr>hd_attachments := mark_attachments (map at_id expiredAttachments) now (hd_attachments db2)\<rparr> else db2);
          ids = map cw_id expiredContents
      in (db3\<lparr>hd_contents := mark_contents ids now (hd_contents db3)\<rparr>,
          int (length (filter (\<lambda>r. cw_id r \<in> set ids \<and> cw_deletedAt r = None) (hd_contents db3)))))"

definition live_contents :: "history_db \<Rightarrow> nat" where
  "live_contents db = length (filter (\<lambda>r. cw_deletedAt r = None) (hd_contents db))"

lemma cleanup_round_contents:
  "hd_contents (fst (cleanup_round blobDir now page db)) = mark_contents (map cw_id page) now (hd_contents db)"
  "snd (cleanup_round blobDir now page db)
     = int (length (filter (\<lambda>r. cw_id r \<in> set (map cw_id page) \<and> cw_deletedAt r = None) (hd_contents db)))"
  by (simp_all add: cleanup_round_def Let_def unlink_all_def)

lemma live_mark:
  "length (filter (\<lambda>r. cw_deletedAt r = None) (mark_contents ids now rows))
     + length (filter (\<lambda>r. cw_id r \<in> set ids \<and> cw_deletedAt r = None) rows)
   = length (filter (\<lambda>r. cw_deletedAt r = None) rows)"
proof (induction rows)
  case (Cons r rows)
  let ?hit = "cw_id r \<in> set ids \<and> cw_deletedAt r = None"
  have "mark_contents ids now (r # rows)
      = (if ?hit then r\<lparr>cw_deletedAt := Some now\<rparr> else r) # mark_contents ids now rows"
    by (simp add: mark_contents_def)
  with Cons show ?case by (cases ?hit) simp_all
qed (simp add: mark_contents_def)

lemma set_expired_page: "set (expired_page batch tie now db) \<subseteq> set (filter (expired_content now) (hd_contents db))"
  unfolding expired_page_def by (rule subset_trans [OF set_take_subset]) simp

lemma cleanup_round_live:
  "int (live_contents (fst (cleanup_round blobDir now page db))) + snd (cleanup_round blobDir now page db)
     = int (live_contents db)"
  using live_mark [of "map cw_id page" now "hd_contents db"]
  by (simp only: live_contents_def cleanup_round_contents of_nat_add [symmetric])

lemma cleanup_round_decreases:
  assumes "expired_page batch tie now db \<noteq> []"
  shows "live_contents (fst (cleanup_round blobDir now (expired_page batch tie now db) db)) < live_contents db"
proof -
  let ?page = "expired_page batch tie now db"
  obtain r where r: "r \<in> set ?page" using assms by (cases ?page) auto
  then have "r \<in> set (filter (\<lambda>r. cw_id r \<in> set (map cw_id ?page) \<and> cw_deletedAt r = None) (hd_contents db))"
    using set_expired_page by (fastforce simp: expired_content_def)
  then have "0 < snd (cleanup_round blobDir now ?page db)"
    unfolding cleanup_round_contents by (metis length_pos_if_in_set of_nat_0_less_iff)
  with cleanup_round_live [of blobDir now ?page db] show ?thesis by linarith
qed

text \<open>The first loop; \<open>clock i\<close> is the time of round \<open>i\<close>. It ends because every round marks a content.\<close>

function cleanup_loop ::
  "nat \<Rightarrow> (content_row \<Rightarrow> int) \<Rightarrow> string \<Rightarrow> (nat \<Rightarrow> int) \<Rightarrow> nat \<Rightarrow> history_db \<Rightarrow> int \<Rightarrow> history_db \<times> int" where
  "cleanup_loop batch tie blobDir clock i db deletedRows =
     (let page = expired_page batch tie (clock i) db
      in if page = [] then (db, deletedRows)
         else let (db', n) = cleanup_round blobDir (clock i) page db
              in if length page < batch then (db', deletedRows + n)
                 else cleanup_loop batch tie blobDir clock (Suc i) db' (deletedRows + n))"
  by pat_completeness auto
termination
proof (relation "measure (\<lambda>(batch, tie, blobDir, clock, i, db, n). live_contents db)", goal_cases)
  case (2 batch tie blobDir clock i db deletedRows page x db' n)
  then have "db' = fst (cleanup_round blobDir (clock i) page db)" by (metis fst_conv)
  with 2 cleanup_round_decreases [of batch tie "clock i" db blobDir] show ?case by simp
qed simp

declare cleanup_loop.simps [simp del]

text \<open>
  The second loop walks the old table by a cursor, the last identifier of the page before. \<open>gone\<close> is
  what the database layer returns when the row of the cursor no longer exists.
\<close>

definition legacy_page ::
  "nat \<Rightarrow> (string \<Rightarrow> legacy_row list \<Rightarrow> legacy_row list) \<Rightarrow> int \<Rightarrow> string option \<Rightarrow> history_db \<Rightarrow> legacy_row list" where
  "legacy_page batch gone now cursor db =
     (let rows = sort_key lg_id (filter (\<lambda>r. lg_expiresAt r < now) (hd_requests db))
      in case cursor of
           None \<Rightarrow> take batch rows
         | Some c \<Rightarrow>
             if c \<in> set (map lg_id (hd_requests db)) then take batch (drop 1 (filter (\<lambda>r. c \<le> lg_id r) rows))
             else take batch (gone c rows))"

definition legacy_paths :: "string \<Rightarrow> string \<Rightarrow> string list" where
  "legacy_paths blobDir i = safe_paths blobDir
     [''requests/'' @ i @ ''/prompt.json'', ''requests/'' @ i @ ''/response.json'', ''requests/'' @ i @ ''/file.bin'',
      i @ ''.prompt.json'', i @ ''.response.json'', i @ ''.file.bin'']"

definition legacy_round :: "string \<Rightarrow> legacy_row list \<Rightarrow> history_db \<Rightarrow> history_db \<times> int" where
  "legacy_round blobDir legacy db =
     (let legacyIds = map lg_id legacy;
          matchingEventIds = filter (\<lambda>e. e \<in> set legacyIds) (hd_eventIds db);
          legacyOnlyIds = filter (\<lambda>i. i \<notin> set matchingEventIds) legacyIds
      in if 0 < length legacyOnlyIds then
           let db1 = unlink_all (concat (map (legacy_paths blobDir) legacyOnlyIds)) db
           in (db1\<lparr>hd_requests := filter (\<lambda>r. lg_id r \<notin> set legacyOnlyIds) (hd_requests db1)\<rparr>,
               int (length (filter (\<lambda>r. lg_id r \<in> set legacyOnlyIds) (hd_requests db1))))
         else (db, 0))"

fun legacy_loop ::
  "nat \<Rightarrow> nat \<Rightarrow> (string \<Rightarrow> legacy_row list \<Rightarrow> legacy_row list) \<Rightarrow> string \<Rightarrow> (nat \<Rightarrow> int) \<Rightarrow> nat \<Rightarrow> string option \<Rightarrow>
   history_db \<Rightarrow> int \<Rightarrow> (history_db \<times> int) option" where
  "legacy_loop 0 batch gone blobDir clock i cursor db deletedRows = None"
| "legacy_loop (Suc fuel) batch gone blobDir clock i cursor db deletedRows =
     (let legacy = legacy_page batch gone (clock i) cursor db
      in if legacy = [] then Some (db, deletedRows)
         else let (db', n) = legacy_round blobDir legacy db
              in if length legacy < batch then Some (db', deletedRows + n)
                 else legacy_loop fuel batch gone blobDir clock (Suc i) (Some (lg_id (last legacy))) db' (deletedRows + n))"

definition BATCH :: nat where
  "BATCH = 200"

definition processHistoryCleanupJob ::
  "nat \<Rightarrow> (content_row \<Rightarrow> int) \<Rightarrow> (string \<Rightarrow> legacy_row list \<Rightarrow> legacy_row list) \<Rightarrow> string \<Rightarrow>
   (nat \<Rightarrow> int) \<Rightarrow> (nat \<Rightarrow> int) \<Rightarrow> int \<Rightarrow> string \<Rightarrow> history_db \<Rightarrow> (history_db \<times> log_event \<times> int) option" where
  "processHistoryCleanupJob fuel tie gone blobDir clock clock' endTime triggeredAt db =
     (let (db1, n1) = cleanup_loop BATCH tie blobDir clock 0 db 0
      in map_option (\<lambda>(db2, deletedRows).
           (db2, createLogEvent
              \<lparr>le_eventId = ''history-cleanup:'' @ triggeredAt, le_eventType = ''platform.history_cleanup_completed'',
               le_actorId = ''worker'', le_actorType = SubjectSystem, le_targetType = ''ai_request_history'',
               le_targetId = ''all'', le_occurredAt = toISOString endTime,
               le_metadata = Some [(''deletedRows'', jint deletedRows), (''triggeredAt'', JStr triggeredAt)],
               le_category = CatSystem, le_severity = SevInfo, le_status = Some StatusSuccess\<rparr>, deletedRows))
         (legacy_loop fuel BATCH gone blobDir clock' 0 None db1 n1))"

section \<open>Lemmas on the cleanup\<close>

lemma mark_live:
  "r \<in> set (mark_contents ids now rows) \<Longrightarrow> cw_deletedAt r = None \<Longrightarrow> r \<in> set rows \<and> cw_id r \<notin> set ids"
  by (auto simp: mark_contents_def split: if_splits)

lemma mark_ids [simp]: "map cw_id (mark_contents ids now rows) = map cw_id rows"
  by (simp add: mark_contents_def comp_def if_distrib cong: if_cong)

lemma page_Nil:
  assumes "0 < batch" and "expired_page batch tie now db = []" and "r \<in> set (hd_contents db)"
  shows "\<not> expired_content now r"
proof -
  let ?s = "sort_by (content_order tie)
       (filter (expired_content now) (hd_contents db))"
  have "batch = 0 \<or> ?s = []" using assms(2) unfolding expired_page_def take_eq_Nil .
  with assms(1) have "?s = []" by simp
  then have "set ?s = {}" by simp
  then have "set (filter (expired_content now) (hd_contents db)) = {}" by (simp only: set_sort_by)
  with assms(3) show ?thesis by auto
qed

lemma page_short:
  assumes "length (expired_page batch tie now db) < batch" and "r \<in> set (hd_contents db)" and "expired_content now r"
  shows "cw_id r \<in> set (map cw_id (expired_page batch tie now db))"
proof -
  let ?s = "sort_by (content_order tie)
       (filter (expired_content now) (hd_contents db))"
  have "expired_page batch tie now db = ?s"
    using assms(1) unfolding expired_page_def by (simp only: length_take take_all_iff)
  moreover have "r \<in> set ?s" using assms(2,3) by simp
  ultimately show ?thesis by (metis imageI list.set_map)
qed

lemma cleanup_loop_step:
  "cleanup_loop batch tie blobDir clock i db n =
     (let page = expired_page batch tie (clock i) db; (db', k) = cleanup_round blobDir (clock i) page db
      in if page = [] then (db, n)
         else if length page < batch then (db', n + k)
         else cleanup_loop batch tie blobDir clock (Suc i) db' (n + k))"
  by (simp add: cleanup_loop.simps [of batch tie blobDir clock i db n] Let_def)

lemma cleanup_loop_cases [consumes 1, case_names Stop Last More]:
  assumes "cleanup_loop batch tie blobDir clock i db n = (db', n')"
  obtains "expired_page batch tie (clock i) db = []" "db' = db" "n' = n"
  | "length (expired_page batch tie (clock i) db) < batch" "expired_page batch tie (clock i) db \<noteq> []"
    "(db', n' - n) = cleanup_round blobDir (clock i) (expired_page batch tie (clock i) db) db"
  | db1 k where "expired_page batch tie (clock i) db \<noteq> []"
    "(db1, k) = cleanup_round blobDir (clock i) (expired_page batch tie (clock i) db) db"
    "cleanup_loop batch tie blobDir clock (Suc i) db1 (n + k) = (db', n')"
proof -
  obtain db1 k where r: "cleanup_round blobDir (clock i) (expired_page batch tie (clock i) db) db = (db1, k)" by force
  show thesis
    using assms that r by (auto simp: cleanup_loop_step [of batch tie blobDir clock i db n] Let_def split: if_splits)
qed

text \<open>Properties of a run follow from what one round keeps, by induction on the live contents.\<close>

lemma cleanup_loop_induct [consumes 1, case_names Stop Last More]:
  assumes "cleanup_loop batch tie blobDir clock i db n = (db', n')"
    and stop: "\<And>i db n. expired_page batch tie (clock i) db = [] \<Longrightarrow> P i db n db n"
    and fin: "\<And>i db n db' k. expired_page batch tie (clock i) db \<noteq> [] \<Longrightarrow> length (expired_page batch tie (clock i) db) < batch \<Longrightarrow>
      (db', k) = cleanup_round blobDir (clock i) (expired_page batch tie (clock i) db) db \<Longrightarrow> P i db n db' (n + k)"
    and more: "\<And>i db n db1 k db' n'. expired_page batch tie (clock i) db \<noteq> [] \<Longrightarrow>
      (db1, k) = cleanup_round blobDir (clock i) (expired_page batch tie (clock i) db) db \<Longrightarrow>
      P (Suc i) db1 (n + k) db' n' \<Longrightarrow> P i db n db' n'"
  shows "P i db n db' n'"
  using assms(1)
proof (induction "live_contents db" arbitrary: i db n rule: less_induct)
  case less
  from less.prems show ?case
  proof (cases rule: cleanup_loop_cases)
    case Stop
    with stop show ?thesis by simp
  next
    case Last
    with fin [of i db db' "n' - n" n] show ?thesis by simp
  next
    case (More db1 k)
    then have "db1 = fst (cleanup_round blobDir (clock i) (expired_page batch tie (clock i) db) db)" by (metis fst_conv)
    with cleanup_round_decreases [OF More(1), of blobDir] have "live_contents db1 < live_contents db" by simp
    then have "P (Suc i) db1 (n + k) db' n'" by (rule less.hyps) (rule More(3))
    with More show ?thesis by (rule_tac more)
  qed
qed

lemma cleanup_loop_complete:
  assumes "cleanup_loop batch tie blobDir clock i db n = (db', n')" and "0 < batch" and "mono clock"
  shows "\<forall>r \<in> set (hd_contents db'). cw_deletedAt r = None \<longrightarrow> clock i \<le> cw_expiresAt r"
  using assms(1)
proof (induction rule: cleanup_loop_induct)
  case (Stop i db n)
  with page_Nil [OF assms(2)] show ?case by (force simp: expired_content_def)
next
  case (Last i db n db' k)
  then have c: "hd_contents db' = mark_contents (map cw_id (expired_page batch tie (clock i) db)) (clock i) (hd_contents db)"
    by (metis cleanup_round_contents(1) fst_conv)
  show ?case
  proof (intro ballI impI)
    fix r
    assume "r \<in> set (hd_contents db')" "cw_deletedAt r = None"
    then have "r \<in> set (hd_contents db)" "cw_id r \<notin> set (map cw_id (expired_page batch tie (clock i) db))"
      unfolding c using mark_live by blast+
    then have "\<not> expired_content (clock i) r" using page_short [OF Last(2)] by blast
    then show "clock i \<le> cw_expiresAt r" using \<open>cw_deletedAt r = None\<close> by (simp add: expired_content_def)
  qed
next
  case (More i db n db1 k db' n')
  moreover have "clock i \<le> clock (Suc i)" using assms(3) by (simp add: monoD)
  ultimately show ?case by fastforce
qed

lemma cleanup_loop_counts:
  assumes "cleanup_loop batch tie blobDir clock i db n = (db', n')"
  shows "n' - n = int (live_contents db) - int (live_contents db')"
  using assms
proof (induction rule: cleanup_loop_induct)
  case (Last i db n db' k)
  then show ?case
    using cleanup_round_live [of blobDir "clock i" "expired_page batch tie (clock i) db" db] by (simp flip: Last(3))
next
  case (More i db n db1 k db' n')
  then show ?case
    using cleanup_round_live [of blobDir "clock i" "expired_page batch tie (clock i) db" db] by (simp flip: More(2))
qed simp

text \<open>Nothing that has not expired is touched, and only the mark of a row ever changes.\<close>

definition only_expired_marked :: "content_row list \<Rightarrow> content_row list \<Rightarrow> bool" where
  "only_expired_marked = list_all2 (\<lambda>a b. a = b \<or> cw_deletedAt a = None \<and> (\<exists>t. b = a\<lparr>cw_deletedAt := Some t\<rparr> \<and> cw_expiresAt a < t))"

lemma only_expired_refl: "only_expired_marked xs xs"
  unfolding only_expired_marked_def by (simp add: list_all2_refl)

lemma only_expired_trans:
  assumes "only_expired_marked xs ys" and "only_expired_marked ys zs"
  shows "only_expired_marked xs zs"
  using assms unfolding only_expired_marked_def by (rule list_all2_trans [rotated]) auto

lemma mark_only_expired:
  assumes "distinct (map cw_id rows)" and "set page \<subseteq> set (filter (expired_content now) rows)"
  shows "only_expired_marked rows (mark_contents (map cw_id page) now rows)"
proof -
  have "cw_expiresAt r < now" if "r \<in> set rows" "cw_id r \<in> set (map cw_id page)" for r
  proof -
    from that(2) obtain p where p: "p \<in> set page" "cw_id p = cw_id r" by auto
    then have "p \<in> set rows" "expired_content now p" using assms(2) by auto
    then have "p = r" using assms(1) that(1) p(2) by (auto simp: distinct_map inj_on_def)
    with \<open>expired_content now p\<close> show ?thesis by (simp add: expired_content_def)
  qed
  then show ?thesis
    unfolding only_expired_marked_def mark_contents_def list_all2_map2 list_all2_same
    by (metis (no_types, lifting))
qed

lemma cleanup_loop_only_expired:
  assumes "cleanup_loop batch tie blobDir clock i db n = (db', n')" and "distinct (map cw_id (hd_contents db))"
  shows "only_expired_marked (hd_contents db) (hd_contents db')"
  using assms
proof (induction rule: cleanup_loop_induct)
  case (Stop i db n)
  show ?case by (rule only_expired_refl)
next
  case (Last i db n db' k)
  then have "hd_contents db' = mark_contents (map cw_id (expired_page batch tie (clock i) db)) (clock i) (hd_contents db)"
    by (metis cleanup_round_contents(1) fst_conv)
  with mark_only_expired [OF Last(4) set_expired_page] show ?case by simp
next
  case (More i db n db1 k db' n')
  then have c: "hd_contents db1 = mark_contents (map cw_id (expired_page batch tie (clock i) db)) (clock i) (hd_contents db)"
    by (metis cleanup_round_contents(1) fst_conv)
  have "only_expired_marked (hd_contents db) (hd_contents db1)"
    unfolding c by (rule mark_only_expired [OF More(4) set_expired_page])
  moreover have "only_expired_marked (hd_contents db1) (hd_contents db')"
    by (rule More(3)) (simp add: c More(4))
  ultimately show ?case by (rule only_expired_trans)
qed

section \<open>Lemmas on paths\<close>

lemma norm_segs_append:
  "norm_segs isAbs acc (xs @ ys) = norm_segs isAbs (rev (norm_segs isAbs acc xs)) ys"
  by (induction isAbs acc xs rule: norm_segs.induct) (auto split: list.splits)

lemma norm_segs_plain:
  "''..'' \<notin> set ys \<Longrightarrow> norm_segs isAbs acc ys = rev acc @ filter (\<lambda>x. x \<noteq> [] \<and> x \<noteq> ''.'') ys"
  by (induction ys arbitrary: acc) auto

lemma split_on_append: "split_on c (xs @ c # ys) = split_on c xs @ split_on c ys"
proof (induction xs)
  case (Cons x xs)
  obtain q qs where "split_on c xs = q # qs" using split_on_Cons by blast
  with Cons show ?case by auto
qed simp

lemma split_on_infix: "p \<in> set (split_on c s) \<Longrightarrow> \<exists>u v. s = u @ p @ v"
proof (induction s arbitrary: p)
  case (Cons x xs)
  obtain q qs where s: "split_on c xs = q # qs" using split_on_Cons by blast
  show ?case
  proof (cases "x = c")
    case True
    with Cons.prems consider "p = []" | "p \<in> set (split_on c xs)" by auto
    then show ?thesis
    proof cases
      case 2
      with Cons.IH obtain u v where "xs = u @ p @ v" by blast
      then have "x # xs = (x # u) @ p @ v" by simp
      then show ?thesis by blast
    qed auto
  next
    case False
    with Cons.prems s consider "p = x # q" | "p \<in> set qs" by auto
    then show ?thesis
    proof cases
      case 1
      have "\<exists>v. xs = q @ v" using join_split_on [of c xs] s by (cases qs) auto
      with 1 show ?thesis by (metis append_Cons append_Nil)
    next
      case 2
      with s have "p \<in> set (split_on c xs)" by simp
      with Cons.IH obtain u v where "xs = u @ p @ v" by blast
      then have "x # xs = (x # u) @ p @ v" by simp
      then show ?thesis by blast
    qed
  qed
qed simp

lemma no_parent_segment: "\<not> str_includes s ''..'' \<Longrightarrow> ''..'' \<notin> set (split_on c s)"
  using split_on_infix str_includes_iff by blast

section \<open>Properties\<close>



text \<open>
  C25. Blob keys cannot leave the blob directory: a resolved path is the normalised directory
  followed by segments none of which is empty, a dot or a parent reference; keys that are empty,
  absolute or contain a parent reference resolve to nothing.
\<close>

theorem resolveSafeBlobPath_confined:
  assumes "resolveSafeBlobPath dir key = Some p" and "startsWith dir ''/''"
  shows "\<exists>segs t. p = ''/'' @ join ''/'' (norm_segs True [] (split_on (CHR ''/'') dir) @ segs) @ t
      \<and> t \<in> {[], ''/''} \<and> list_all (\<lambda>s. s \<noteq> [] \<and> s \<noteq> ''.'' \<and> s \<noteq> ''..'' \<and> CHR ''/'' \<notin> set s) segs"
proof -
  define k where "k = map (\<lambda>c. if c = CHR 0x5C then CHR ''/'' else c) (trim key)"
  have k: "k \<noteq> []" "\<not> str_includes k ''..''" "p = path_join dir k"
    using assms(1) by (auto simp: resolveSafeBlobPath_def k_def Let_def split: if_splits)
  let ?segs = "filter (\<lambda>x. x \<noteq> [] \<and> x \<noteq> ''.'') (split_on (CHR ''/'') k)"
  let ?all = "norm_segs True [] (split_on (CHR ''/'') dir) @ ?segs"
  have np: "''..'' \<notin> set (split_on (CHR ''/'') k)" by (rule no_parent_segment [OF k(2)])
  have abs: "startsWith (dir @ ''/'' @ k) ''/''" using assms(2) by (auto simp: startsWith_iff)
  have all: "norm_segs True [] (split_on (CHR ''/'') (dir @ ''/'' @ k)) = ?all"
    using split_on_append [of "CHR ''/''" dir k] by (simp add: norm_segs_append norm_segs_plain [OF np])
  have ok: "list_all (\<lambda>s. s \<noteq> [] \<and> s \<noteq> ''.'' \<and> s \<noteq> ''..'' \<and> CHR ''/'' \<notin> set s) ?segs"
    using np split_on_no_sep by (auto simp: list_all_iff)
  define path where "path = ?all"
  define t where "t = (if path = [] then [] else if last k = CHR ''/'' then ''/'' else [])"
  have "p = ''/'' @ join ''/'' path @ t"
    unfolding k(3) path_join_def Let_def using abs k(1) all [folded path_def] by (simp add: t_def)
  moreover have "t \<in> {[], ''/''}" by (simp add: t_def)
  ultimately show ?thesis using ok unfolding path_def by blast
qed

theorem resolveSafeBlobPath_confined_witness:
  "\<exists>segs t. ''/data/a/b.json'' = ''/'' @ join ''/'' (norm_segs True [] (split_on (CHR ''/'') ''/data'') @ segs) @ t
      \<and> t \<in> {[], ''/''} \<and> list_all (\<lambda>s. s \<noteq> [] \<and> s \<noteq> ''.'' \<and> s \<noteq> ''..'' \<and> CHR ''/'' \<notin> set s) segs"
  by (rule resolveSafeBlobPath_confined [of "''/data''" "''a/./b.json''"]) (code_simp+)

text \<open>
  The walk over the old table stops early: if a vanished cursor row makes the database layer
  return an empty page, and the first page of expired rows is full and has no newer counterpart,
  the job deletes that page and ends; every later expired row stays.
\<close>

theorem legacy_cleanup_stops_early:
  assumes "\<And>c rows. gone c rows = []"
    and "distinct (map lg_id (hd_requests db))"
    and "BATCH < length (filter (\<lambda>r. lg_expiresAt r < clock 0) (hd_requests db))"
    and "list_all (\<lambda>r. lg_id r \<notin> set (hd_eventIds db)) (hd_requests db)"
  shows "\<exists>db' n. legacy_loop (Suc (Suc fuel)) BATCH gone blobDir clock 0 None db 0 = Some (db', n)
    \<and> length (filter (\<lambda>r. lg_expiresAt r < clock 0) (hd_requests db'))
        = length (filter (\<lambda>r. lg_expiresAt r < clock 0) (hd_requests db)) - BATCH"
proof -
  let ?exp = "filter (\<lambda>r. lg_expiresAt r < clock 0) (hd_requests db)"
  define page where "page = legacy_page BATCH gone (clock 0) None db"
  obtain db1 n1 where round: "legacy_round blobDir page db = (db1, n1)" by force
  have page: "page = take BATCH (sort_key lg_id ?exp)" by (simp add: page_def legacy_page_def)
  have len: "length page = BATCH" using assms(3) by (simp add: page)
  have ne: "page \<noteq> []" using len by (auto simp: BATCH_def)
  have "set page \<subseteq> set (sort_key lg_id ?exp)" unfolding page by (rule set_take_subset)
  then have sub: "set page \<subseteq> set ?exp" by simp
  have reqs: "hd_requests db1 = filter (\<lambda>r. lg_id r \<notin> set (map lg_id page)) (hd_requests db)"
  proof -
    have old: "lg_id r \<notin> set (hd_eventIds db)" if "r \<in> set page" for r
      using that sub assms(4) by (auto simp: list_all_iff)
    have m: "filter (\<lambda>i. i \<notin> set (filter (\<lambda>e. e \<in> set (map lg_id page)) (hd_eventIds db))) (map lg_id page) = map lg_id page"
      by (rule filter_True) (auto dest: old)
    have "legacy_round blobDir page db = (db1, n1)" by (rule round)
    then show ?thesis unfolding legacy_round_def Let_def m using ne by (auto simp: unlink_all_def)
  qed
  have "lg_id (last page) \<in> set (map lg_id page)" using ne by simp
  then have "lg_id (last page) \<notin> set (map lg_id (hd_requests db1))" unfolding reqs by auto
  then have "legacy_page BATCH gone (clock 1) (Some (lg_id (last page))) db1 = []"
    by (simp add: legacy_page_def assms(1))
  then have run: "legacy_loop (Suc (Suc fuel)) BATCH gone blobDir clock 0 None db 0 = Some (db1, n1)"
    using ne len by (simp add: page_def [symmetric] round)
  have dist: "distinct (map lg_id ?exp)" using assms(2) by (rule distinct_map_filter)
  then have de: "distinct ?exp" by (simp add: distinct_map)
  have inj: "r = r'" if "r \<in> set ?exp" "r' \<in> set ?exp" "lg_id r = lg_id r'" for r r'
    using dist that by (auto simp: distinct_map dest: inj_onD)
  have "set (filter (\<lambda>r. lg_id r \<in> set (map lg_id page)) ?exp) = set page"
  proof
    show "set page \<subseteq> set (filter (\<lambda>r. lg_id r \<in> set (map lg_id page)) ?exp)"
      using sub by (simp add: subset_iff)
    show "set (filter (\<lambda>r. lg_id r \<in> set (map lg_id page)) ?exp) \<subseteq> set page"
    proof
      fix r
      assume "r \<in> set (filter (\<lambda>r. lg_id r \<in> set (map lg_id page)) ?exp)"
      then have "r \<in> set ?exp" and "lg_id r \<in> lg_id ` set page" by simp_all
      then obtain r' where "r' \<in> set page" "lg_id r = lg_id r'" by blast
      moreover from this(1) have "r' \<in> set ?exp" using sub by blast
      ultimately show "r \<in> set page" using inj \<open>r \<in> set ?exp\<close> by metis
    qed
  qed
  moreover have "distinct page" unfolding page by (rule distinct_take) (simp only: distinct_sort de)
  ultimately have "length (filter (\<lambda>r. lg_id r \<in> set (map lg_id page)) ?exp) = length page"
    using distinct_card [OF distinct_filter [OF de]] distinct_card by metis
  moreover have "length (filter (\<lambda>r. lg_id r \<in> set (map lg_id page)) ?exp)
      + length (filter (\<lambda>r. lg_id r \<notin> set (map lg_id page)) ?exp) = length ?exp"
    by (rule sum_length_filter_compl)
  moreover have "filter (\<lambda>r. lg_expiresAt r < clock 0) (hd_requests db1)
      = filter (\<lambda>r. lg_id r \<notin> set (map lg_id page)) ?exp"
    unfolding reqs by (simp add: conj_commute)
  ultimately show ?thesis using run len by auto
qed

definition many_requests :: history_db where
  "many_requests = \<lparr>hd_contents = [], hd_attachments = [],
     hd_requests = map (\<lambda>i. \<lparr>lg_id = show_digits i, lg_expiresAt = 0\<rparr>) [0..200], hd_eventIds = [], hd_files = []\<rparr>"

theorem legacy_cleanup_stops_early_witness:
  "\<exists>db' n. legacy_loop (Suc (Suc 7)) BATCH (\<lambda>_ _. []) ''/d'' (\<lambda>_. 10) 0 None many_requests 0 = Some (db', n)
    \<and> length (filter (\<lambda>r. lg_expiresAt r < 10) (hd_requests db')) = 1"
proof -
  have l: "length (filter (\<lambda>r. lg_expiresAt r < 10) (hd_requests many_requests)) = 201"
    by (simp add: many_requests_def comp_def filter_map)
  have d: "distinct (map lg_id (hd_requests many_requests))"
    by (auto simp: many_requests_def comp_def distinct_map inj_on_def dest: show_digits_inj)
  have e: "list_all (\<lambda>r. lg_id r \<notin> set (hd_eventIds many_requests)) (hd_requests many_requests)"
    by (simp add: many_requests_def list_all_iff)
  have b: "BATCH < length (filter (\<lambda>r. lg_expiresAt r < 10) (hd_requests many_requests))" "201 - BATCH = 1"
    by (simp_all add: l BATCH_def)
  show ?thesis
    using legacy_cleanup_stops_early [of "\<lambda>_ _. []" many_requests "\<lambda>_. 10" 7 "''/d''", OF refl d b(1) e]
    by (simp only: l b(2))
qed

end
