(* ===== verification/Permissions.thy ===== *)
theory Permissions
  imports Prelude
begin

text \<open>
  Role based access control: \<open>packages/permissions/src/index.ts\<close>, the principal functions of
  \<open>packages/auth/src/index.ts\<close> and the guards of \<open>apps/api/src/services/access-service.ts\<close>.
  A permission is the string the source uses; the sets the source builds are insertion ordered
  and sorted by code unit at the end.
\<close>

section \<open>Types\<close>

record access_context =
  ac_userId :: string
  ac_systemRoles :: "string list"
  ac_entitlements :: "string list"
  ac_featureFlags :: "string list"

record access_requirement =
  ar_permission :: "string option"
  ar_requiredEntitlements :: "string list option"
  ar_requiredFlags :: "string list option"
  ar_requireSystemRole :: "string option"

record access_decision =
  ad_allowed :: bool
  ad_reasons :: "string list"

record session_principal =
  sp_userId :: string
  sp_email :: string
  sp_systemRoles :: "string list"
  sp_entitlements :: "string list"
  sp_featureFlags :: "string list"

section \<open>The permission registry\<close>

definition permissionRegistry :: "string list" where
  "permissionRegistry =
    [''users:read'', ''users:update'', ''users:suspend'', ''workspaces:read'', ''workspaces:update'',
     ''installations:read'', ''installations:write'', ''subscriptions:read'', ''subscriptions:update'',
     ''payments:read'', ''payments:refund'', ''plans:manage'', ''billing_providers:manage'',
     ''ai_providers:manage'', ''entitlements:read'', ''entitlements:override'', ''credentials:read'',
     ''credentials:write'', ''credentials:rotate'', ''feature_flags:read'', ''feature_flags:write'',
     ''feature_flags:publish'', ''flags:simulate'', ''remote_config:read'', ''remote_config:write'',
     ''remote_config:publish'', ''config:simulate'', ''extension_versions:manage'',
     ''compatibility_rules:manage'', ''audit_logs:read'', ''audit_logs:export'',
     ''support:impersonate'', ''impersonation:end'', ''support_tickets:manage'', ''usage:read'',
     ''usage:export'', ''jobs:read'', ''jobs:retry'']"

definition authenticatedUserPermissions :: "string list" where
  "authenticatedUserPermissions =
    [''installations:read'', ''installations:write'', ''credentials:read'', ''credentials:write'',
     ''credentials:rotate'', ''usage:read'', ''usage:export'']"

definition resolvePermissions :: "string list option \<Rightarrow> bool \<Rightarrow> string list" where
  "resolvePermissions systemRoles authenticatedUser =
     sort (uniq ((if authenticatedUser then authenticatedUserPermissions else [])
       @ (if ''admin'' \<in> set (nullish systemRoles []) then permissionRegistry else [])))"

definition hasPermission :: "string list \<Rightarrow> string \<Rightarrow> bool" where
  "hasPermission permissions permission = (permission \<in> set permissions)"

section \<open>Evaluating a requirement\<close>

text \<open>
  The four groups of reasons in the order the source pushes them. An empty string in
  \<open>permission\<close> or \<open>requireSystemRole\<close> is falsy and skips its check.
\<close>

definition permissionReasons :: "string list \<Rightarrow> string option \<Rightarrow> string list" where
  "permissionReasons permissions p =
     (if truthy p \<and> \<not> hasPermission permissions (the p) then [''Missing permission: '' @ the p] else [])"

definition roleReasons :: "string list \<Rightarrow> string option \<Rightarrow> string list" where
  "roleReasons roles r =
     (if truthy r \<and> the r \<notin> set roles then [''Missing system role: '' @ the r] else [])"

definition evaluateAccess :: "access_context \<Rightarrow> access_requirement \<Rightarrow> access_decision" where
  "evaluateAccess context requirement =
     (let permissions = resolvePermissions (Some (ac_systemRoles context)) True;
          reasons =
            permissionReasons permissions (ar_permission requirement)
            @ roleReasons (ac_systemRoles context) (ar_requireSystemRole requirement)
            @ map (\<lambda>e. ''Missing entitlement: '' @ e)
                (filter (\<lambda>e. e \<notin> set (ac_entitlements context))
                  (nullish (ar_requiredEntitlements requirement) []))
            @ map (\<lambda>f. ''Missing feature flag: '' @ f)
                (filter (\<lambda>f. f \<notin> set (ac_featureFlags context))
                  (nullish (ar_requiredFlags requirement) []))
      in \<lparr>ad_allowed = (length reasons = 0), ad_reasons = reasons\<rparr>)"

definition buildAccessContext :: "session_principal \<Rightarrow> access_context" where
  "buildAccessContext p =
     \<lparr>ac_userId = sp_userId p, ac_systemRoles = sp_systemRoles p,
      ac_entitlements = sp_entitlements p, ac_featureFlags = sp_featureFlags p\<rparr>"

definition getPrincipalPermissions :: "session_principal \<Rightarrow> string list" where
  "getPrincipalPermissions p = resolvePermissions (Some (sp_systemRoles p)) True"

section \<open>The guards of the API\<close>

definition requirePermission :: "string \<Rightarrow> access_requirement" where
  "requirePermission p =
     \<lparr>ar_permission = Some p, ar_requiredEntitlements = None, ar_requiredFlags = None,
      ar_requireSystemRole = None\<rparr>"

definition canPublishRemoteConfig :: "session_principal \<Rightarrow> access_decision" where
  "canPublishRemoteConfig p = evaluateAccess (buildAccessContext p) (requirePermission ''remote_config:publish'')"

definition canReadFeatureFlags :: "session_principal \<Rightarrow> access_decision" where
  "canReadFeatureFlags p = evaluateAccess (buildAccessContext p) (requirePermission ''feature_flags:read'')"

definition canWriteFeatureFlags :: "session_principal \<Rightarrow> access_decision" where
  "canWriteFeatureFlags p = evaluateAccess (buildAccessContext p) (requirePermission ''feature_flags:write'')"

definition canReadUsers :: "session_principal \<Rightarrow> access_decision" where
  "canReadUsers p = evaluateAccess (buildAccessContext p) (requirePermission ''users:read'')"

definition canUpdateUsers :: "session_principal \<Rightarrow> access_decision" where
  "canUpdateUsers p = evaluateAccess (buildAccessContext p) (requirePermission ''users:update'')"

definition canReadAuditLogs :: "session_principal \<Rightarrow> access_decision" where
  "canReadAuditLogs p = evaluateAccess (buildAccessContext p) (requirePermission ''audit_logs:read'')"

definition canExportAuditLogs :: "session_principal \<Rightarrow> access_decision" where
  "canExportAuditLogs p = evaluateAccess (buildAccessContext p) (requirePermission ''audit_logs:export'')"

definition canReadJobs :: "session_principal \<Rightarrow> access_decision" where
  "canReadJobs p = evaluateAccess (buildAccessContext p) (requirePermission ''jobs:read'')"

definition canRetryJobs :: "session_principal \<Rightarrow> access_decision" where
  "canRetryJobs p = evaluateAccess (buildAccessContext p) (requirePermission ''jobs:retry'')"

definition canReadExtensionInstallations :: "session_principal \<Rightarrow> access_decision" where
  "canReadExtensionInstallations p = evaluateAccess (buildAccessContext p) (requirePermission ''installations:read'')"

definition canWriteExtensionInstallations :: "session_principal \<Rightarrow> access_decision" where
  "canWriteExtensionInstallations p = evaluateAccess (buildAccessContext p) (requirePermission ''installations:write'')"

definition canReadProviderCredentials :: "session_principal \<Rightarrow> access_decision" where
  "canReadProviderCredentials p = evaluateAccess (buildAccessContext p) (requirePermission ''credentials:read'')"

definition canWriteProviderCredentials :: "session_principal \<Rightarrow> access_decision" where
  "canWriteProviderCredentials p = evaluateAccess (buildAccessContext p) (requirePermission ''credentials:write'')"

definition canRotateProviderCredentials :: "session_principal \<Rightarrow> access_decision" where
  "canRotateProviderCredentials p = evaluateAccess (buildAccessContext p) (requirePermission ''credentials:rotate'')"

definition canManageAiProviders :: "session_principal \<Rightarrow> access_decision" where
  "canManageAiProviders p = evaluateAccess (buildAccessContext p) (requirePermission ''ai_providers:manage'')"

definition canManageCompatibilityRules :: "session_principal \<Rightarrow> access_decision" where
  "canManageCompatibilityRules p = evaluateAccess (buildAccessContext p) (requirePermission ''compatibility_rules:manage'')"

definition canReadUsage :: "session_principal \<Rightarrow> access_decision" where
  "canReadUsage p = evaluateAccess (buildAccessContext p) (requirePermission ''usage:read'')"

definition canExportUsage :: "session_principal \<Rightarrow> access_decision" where
  "canExportUsage p = evaluateAccess (buildAccessContext p) (requirePermission ''usage:export'')"

definition canReadBilling :: "session_principal \<Rightarrow> access_decision" where
  "canReadBilling p = evaluateAccess (buildAccessContext p) (requirePermission ''subscriptions:read'')"

definition canUpdateBilling :: "session_principal \<Rightarrow> access_decision" where
  "canUpdateBilling p = evaluateAccess (buildAccessContext p) (requirePermission ''subscriptions:update'')"

definition canStartSupportImpersonation :: "session_principal \<Rightarrow> access_decision" where
  "canStartSupportImpersonation p = evaluateAccess (buildAccessContext p) (requirePermission ''support:impersonate'')"

definition canReadSupportImpersonationSessions :: "session_principal \<Rightarrow> access_decision" where
  "canReadSupportImpersonationSessions p = evaluateAccess (buildAccessContext p) (requirePermission ''support:impersonate'')"

definition canReadSupportTickets :: "session_principal \<Rightarrow> access_decision" where
  "canReadSupportTickets p = evaluateAccess (buildAccessContext p) (requirePermission ''support:impersonate'')"

definition canEndSupportImpersonation :: "session_principal \<Rightarrow> access_decision" where
  "canEndSupportImpersonation p = evaluateAccess (buildAccessContext p) (requirePermission ''support:impersonate'')"

definition listPrincipalPermissions :: "session_principal \<Rightarrow> string list" where
  "listPrincipalPermissions p = getPrincipalPermissions p"

lemmas guard_defs =
  canPublishRemoteConfig_def canReadFeatureFlags_def canWriteFeatureFlags_def canReadUsers_def
  canUpdateUsers_def canReadAuditLogs_def canExportAuditLogs_def canReadJobs_def canRetryJobs_def
  canReadExtensionInstallations_def canWriteExtensionInstallations_def
  canReadProviderCredentials_def canWriteProviderCredentials_def canRotateProviderCredentials_def
  canManageAiProviders_def canManageCompatibilityRules_def canReadUsage_def canExportUsage_def
  canReadBilling_def canUpdateBilling_def canStartSupportImpersonation_def
  canReadSupportImpersonationSessions_def canReadSupportTickets_def canEndSupportImpersonation_def

section \<open>Lemmas\<close>

lemma base_subset_registry: "set authenticatedUserPermissions \<subseteq> set permissionRegistry"
  by (simp add: authenticatedUserPermissions_def permissionRegistry_def)

lemma set_resolvePermissions:
  "set (resolvePermissions roles auth) =
     (if ''admin'' \<in> set (nullish roles []) then set permissionRegistry
      else if auth then set authenticatedUserPermissions else {})"
  using base_subset_registry by (auto simp: resolvePermissions_def)

lemma sorted_resolvePermissions: "sorted (resolvePermissions roles auth)"
  by (simp add: resolvePermissions_def)

lemma distinct_resolvePermissions: "distinct (resolvePermissions roles auth)"
  by (simp add: resolvePermissions_def)

lemma permissionReasons_Nil: "permissionReasons ps p = [] \<longleftrightarrow> \<not> truthy p \<or> the p \<in> set ps"
  by (auto simp add: permissionReasons_def hasPermission_def)

lemma roleReasons_Nil: "roleReasons rs r = [] \<longleftrightarrow> \<not> truthy r \<or> the r \<in> set rs"
  by (auto simp add: roleReasons_def)

lemma filter_notin_Nil: "filter (\<lambda>x. x \<notin> A) xs = [] \<longleftrightarrow> set xs \<subseteq> A"
  by (auto simp: filter_empty_conv)

text \<open>A requirement of one permission is met exactly by the principals that hold it.\<close>

lemma allowed_requirePermission:
  assumes "p \<noteq> []"
  shows "ad_allowed (evaluateAccess c (requirePermission p)) \<longleftrightarrow>
     p \<in> set (resolvePermissions (Some (ac_systemRoles c)) True)"
  using assms
  by (simp add: evaluateAccess_def Let_def requirePermission_def permissionReasons_Nil roleReasons_Nil
      filter_notin_Nil)

lemma base_guard:
  assumes "p \<in> set authenticatedUserPermissions" and "p \<noteq> []"
  shows "ad_allowed (evaluateAccess c (requirePermission p))"
  using assms base_subset_registry [THEN subsetD, of p]
  by (simp add: allowed_requirePermission set_resolvePermissions)

lemma admin_guard:
  assumes "p \<in> set permissionRegistry" and "p \<notin> set authenticatedUserPermissions" and "p \<noteq> []"
  shows "ad_allowed (evaluateAccess (buildAccessContext u) (requirePermission p)) \<longleftrightarrow>
    ''admin'' \<in> set (sp_systemRoles u)"
  using assms by (simp add: allowed_requirePermission set_resolvePermissions buildAccessContext_def)

section \<open>Properties\<close>

text \<open>
  C7. A requirement is allowed exactly when the caller holds the permission, has the system role,
  every required entitlement and every required flag; a decision is allowed exactly when it lists
  no reason.
\<close>

theorem evaluateAccess_allowed_iff:
  "(ad_allowed (evaluateAccess c r) \<longleftrightarrow>
      (\<not> truthy (ar_permission r)
         \<or> the (ar_permission r) \<in> set (resolvePermissions (Some (ac_systemRoles c)) True))
      \<and> (\<not> truthy (ar_requireSystemRole r) \<or> the (ar_requireSystemRole r) \<in> set (ac_systemRoles c))
      \<and> set (nullish (ar_requiredEntitlements r) []) \<subseteq> set (ac_entitlements c)
      \<and> set (nullish (ar_requiredFlags r) []) \<subseteq> set (ac_featureFlags c))
   \<and> (ad_allowed (evaluateAccess c r) \<longleftrightarrow> ad_reasons (evaluateAccess c r) = [])"
  by (simp add: evaluateAccess_def Let_def permissionReasons_Nil roleReasons_Nil filter_notin_Nil)

theorem evaluateAccess_allowed_iff_witness:
  "ad_allowed (evaluateAccess \<lparr>ac_userId = ''u'', ac_systemRoles = [], ac_entitlements = [''pro''], ac_featureFlags = []\<rparr>
      \<lparr>ar_permission = Some ''usage:read'', ar_requiredEntitlements = Some [''pro''],
       ar_requiredFlags = None, ar_requireSystemRole = None\<rparr>)"
  by (subst evaluateAccess_allowed_iff [THEN conjunct1])
    (simp add: set_resolvePermissions authenticatedUserPermissions_def)

text \<open>
  The resolved permissions of a caller: sorted and without duplicates; the whole registry for
  an admin, the seven personal-scope permissions for any other authenticated user, nothing for
  an anonymous one.
\<close>

theorem resolvePermissions_exact:
  "sorted (resolvePermissions roles auth) \<and> distinct (resolvePermissions roles auth)
   \<and> set (resolvePermissions roles auth) =
       (if ''admin'' \<in> set (nullish roles []) then set permissionRegistry
        else if auth then set authenticatedUserPermissions else {})"
  by (simp add: sorted_resolvePermissions distinct_resolvePermissions set_resolvePermissions)

text \<open>
  The guards of the API: the personal-scope guards let every signed-in principal through, all
  the others exactly the admins.
\<close>

theorem guards_exact:
  "list_all (\<lambda>g. ad_allowed (g p))
     [canReadExtensionInstallations, canWriteExtensionInstallations, canReadProviderCredentials,
      canWriteProviderCredentials, canRotateProviderCredentials, canReadUsage, canExportUsage]
   \<and> list_all (\<lambda>g. ad_allowed (g p) = (''admin'' \<in> set (sp_systemRoles p)))
     [canPublishRemoteConfig, canReadFeatureFlags, canWriteFeatureFlags, canReadUsers, canUpdateUsers,
      canReadAuditLogs, canExportAuditLogs, canReadJobs, canRetryJobs, canManageAiProviders,
      canManageCompatibilityRules, canReadBilling, canUpdateBilling, canStartSupportImpersonation,
      canReadSupportImpersonationSessions, canReadSupportTickets, canEndSupportImpersonation]"
  unfolding list.pred_inject guard_defs
  by (intro conjI TrueI base_guard admin_guard)
    (simp_all add: authenticatedUserPermissions_def permissionRegistry_def)

end
