(* ===== verification/Operations.thy ===== *)
theory Operations
  imports Prelude
begin

text \<open>
  Weakest preconditions for operations on a state: \<open>after m Q s\<close> holds when running \<open>m\<close> on \<open>s\<close> ends in a
  state and a result that satisfy \<open>Q\<close>. The rules in \<open>after_simps\<close> compute it along the structure of a
  handler, so a statement about a handler becomes one about its branches. \<open>keepsS\<close> is extended to the
  constructs the account services use.
\<close>

definition after :: "('s, 'a) op \<Rightarrow> ('s \<Rightarrow> 'a result \<Rightarrow> bool) \<Rightarrow> 's \<Rightarrow> bool" where
  "after m Q s = (case m s of (s', r) \<Rightarrow> Q s' r)"

named_theorems after_simps \<open>weakest preconditions of the basic operations\<close>

text \<open>The two outcomes of the first part of a sequence.\<close>

definition on_success :: "('s \<Rightarrow> 'b result \<Rightarrow> bool) \<Rightarrow> ('a \<Rightarrow> 's \<Rightarrow> bool) \<Rightarrow> 's \<Rightarrow> 'a result \<Rightarrow> bool" where
  "on_success Q k s r = (case r of Inl e \<Rightarrow> Q s (Inl e) | Inr x \<Rightarrow> k x s)"

lemma on_success_simps [simp]:
  "on_success Q k s (Inl e) = Q s (Inl e)" "on_success Q k s (Inr x) = k x s"
  by (simp_all add: on_success_def)

lemma after_ret [after_simps]: "after (retS x) Q s = Q s (Inr x)"
  and after_throw [after_simps]: "after (throwS e) Q' s = Q' s (Inl e)"
  and after_get [after_simps]: "after (getS g) Q'' s = Q'' s (Inr (g s))"
  and after_put [after_simps]: "after (putS h) R s = R (h s) (Inr ())"
  and after_lift [after_simps]: "after (liftS r) R' s = R' s r"
  by (simp_all add: after_def retS_def throwS_def getS_def putS_def liftS_def)

lemma after_bind [after_simps]: "after (bindS m f) Q s = after m (on_success Q (\<lambda>x. after (f x) Q)) s"
  by (simp add: after_def bindS_def on_success_def split: prod.splits sum.splits)

lemma after_then [after_simps]: "after (thenS m k) Q s = after m (on_success Q (\<lambda>_. after k Q)) s"
  by (simp add: thenS_def after_bind)

lemma after_if [after_simps]: "after (if b then m else k) Q s = (if b then after m Q s else after k Q s)"
  and after_option [after_simps]:
    "after (case v of None \<Rightarrow> m' | Some x \<Rightarrow> g x) Q' s' = (case v of None \<Rightarrow> after m' Q' s' | Some x \<Rightarrow> after (g x) Q' s')"
  and after_pair [after_simps]: "after (case p of (a, b) \<Rightarrow> h a b) R t = (case p of (a, b) \<Rightarrow> after (h a b) R t)"
  by (simp_all split: option.split prod.split)

lemma after_run: "after m Q s \<Longrightarrow> m s = (s', r) \<Longrightarrow> Q s' r"
  by (simp add: after_def)

lemma afterI: "(\<And>s' r. m s = (s', r) \<Longrightarrow> Q s' r) \<Longrightarrow> after m Q s"
  by (cases "m s") (simp add: after_def)

lemma after_mono: "after m Q s \<Longrightarrow> (\<And>s' r. Q s' r \<Longrightarrow> Q' s' r) \<Longrightarrow> after m Q' s"
  by (simp add: after_def split: prod.splits)

lemma keepsS_after: "keepsS P m \<longleftrightarrow> (\<forall>s. P s \<longrightarrow> after m (\<lambda>s' _. P s') s)"
  by (simp add: keepsS_def after_def split_beta)

lemma keepsS_case [keeps_intros]:
  "keepsS P m \<Longrightarrow> (\<And>x. keepsS P (f x)) \<Longrightarrow> keepsS P (case v of None \<Rightarrow> m | Some x \<Rightarrow> f x)"
  and keepsS_pair [keeps_intros]: "(\<And>a b. keepsS R (g a b)) \<Longrightarrow> keepsS R (case p of (a, b) \<Rightarrow> g a b)"
  by (simp_all split: option.split prod.split)

lemma keepsS_let [keeps_intros]: "(\<And>x. keepsS P (f x)) \<Longrightarrow> keepsS P (Let v f)"
  by simp

text \<open>\<open>catch (error) { if (error is e) throw e'; throw error; }\<close>.\<close>

definition rethrow :: "error \<Rightarrow> error \<Rightarrow> ('s, 'a) op \<Rightarrow> ('s, 'a) op" where
  "rethrow e e' m s = (case m s of (s', Inl x) \<Rightarrow> (s', Inl (if x = e then e' else x)) | r \<Rightarrow> r)"

lemma after_rethrow [after_simps]:
  "after (rethrow e e' m) Q s = after m (\<lambda>s' r. Q s' (case r of Inl x \<Rightarrow> Inl (if x = e then e' else x) | Inr y \<Rightarrow> Inr y)) s"
  by (simp add: after_def rethrow_def split: prod.splits sum.splits)

lemma keepsS_rethrow [keeps_intros]: "keepsS P m \<Longrightarrow> keepsS P (rethrow e e' m)"
  by (simp add: keepsS_after after_rethrow)

text \<open>When only the final state matters.\<close>

lemma after_state: "after m (\<lambda>s' _. P s') s = P (fst (m s))"
  by (simp add: after_def split_beta)

lemma fst_tail [simp]: "fst (bindS m (\<lambda>x. retS (f x)) s) = fst (m s)" and fst_rethrow [simp]: "fst (rethrow e e' k t) = fst (k t)"
  by (simp_all add: bindS_def retS_def rethrow_def split: prod.splits sum.splits)

lemma keepsS_final: "keepsS P m \<Longrightarrow> P s \<Longrightarrow> P (fst (m s))"
  by (simp add: keepsS_def)

end
