(* ===== verification/Accounts.thy ===== *)
theory Accounts
  imports Permissions Operations
begin

text \<open>
  The account tables, users with their role assignments, sessions and password resets, and the
  repositories over them: \<open>apps/api/src/auth/repositories/user.repository.ts\<close>, \<open>session.repository.ts\<close>
  and \<open>password-reset.repository.ts\<close>. The listing of users by pages is in \<open>UserDirectory\<close>. The
  operations work on any extension of the tables, so a service adds its own state to them.
\<close>

section \<open>Tables\<close>

text \<open>A user with its role assignments (\<open>authUserInclude\<close>).\<close>

record user_row =
  us_id :: string
  us_email :: string
  us_passwordHash :: "string option"
  us_emailVerifiedAt :: "int option"
  us_displayName :: "string option"
  us_avatarUrl :: "string option"
  us_timezone :: "string option"
  us_locale :: "string option"
  us_uiPreferences :: "json option"
  us_suspendedAt :: "int option"
  us_suspendReason :: "string option"
  us_lastLoginAt :: "int option"
  us_createdAt :: int
  us_updatedAt :: int
  us_systemRoles :: "string list"

record session_row =
  se_id :: string
  se_userId :: string
  se_tokenHash :: string
  se_ipAddress :: "string option"
  se_userAgent :: "string option"
  se_browser :: "string option"
  se_deviceName :: "string option"
  se_expiresAt :: int
  se_createdAt :: int
  se_revokedAt :: "int option"

record reset_row =
  rs_id :: string
  rs_userId :: string
  rs_tokenHash :: string
  rs_expiresAt :: int
  rs_usedAt :: "int option"
  rs_createdAt :: int

record account_db =
  ad_users :: "user_row list"
  ad_sessions :: "session_row list"
  ad_resets :: "reset_row list"
  ad_next :: nat

text \<open>
  The pattern of an address, \<open>/^[^\s@]+@[^\s@]+\.[^\s@]+$/\<close>: one at sign, something before it, and in what follows a dot that
  is neither the first nor the last character.
\<close>

definition email_shape :: "string \<Rightarrow> bool" where
  "email_shape s = (list_all (\<lambda>c. \<not> js_space c) s
     \<and> (case split_on (CHR ''@'') s of [a, d] \<Rightarrow> a \<noteq> [] \<and> CHR ''.'' \<in> set (butlast (tl d)) | _ \<Rightarrow> False))"

text \<open>The session a request runs in (\<open>apps/api/src/auth/auth.types.ts\<close>).\<close>

record current_session =
  cs_personaKey :: string
  cs_user_id :: string
  cs_user_email :: string
  cs_user_displayName :: "string option"
  cs_user_emailVerifiedAt :: "string option"
  cs_principal :: session_principal
  cs_permissions :: "string list"

section \<open>Users\<close>

definition findUserById :: "string \<Rightarrow> 'm account_db_scheme \<Rightarrow> user_row option" where
  "findUserById i s = find (\<lambda>u. us_id u = i) (ad_users s)"

definition findUserByEmail :: "string \<Rightarrow> 'm account_db_scheme \<Rightarrow> user_row option" where
  "findUserByEmail e s = find (\<lambda>u. us_email u = e) (ad_users s)"

definition getSystemRoles :: "user_row \<Rightarrow> string list" where
  "getSystemRoles u = us_systemRoles u"

record user_create_input =
  uc_email :: string
  uc_passwordHash :: string
  uc_displayName :: "string option"
  uc_emailVerifiedAt :: "int option"
  uc_systemRoles :: "string list"

definition createUser :: "(nat \<Rightarrow> string) \<Rightarrow> int \<Rightarrow> user_create_input \<Rightarrow> ('m account_db_scheme, user_row) op" where
  "createUser cuid now inp s =
     (if findUserByEmail (uc_email inp) s \<noteq> None then (s, Inl UniqueViolation)
      else let u = \<lparr>us_id = cuid (ad_next s), us_email = uc_email inp, us_passwordHash = Some (uc_passwordHash inp),
                    us_emailVerifiedAt = uc_emailVerifiedAt inp, us_displayName = uc_displayName inp, us_avatarUrl = None,
                    us_timezone = None, us_locale = None, us_uiPreferences = None, us_suspendedAt = None, us_suspendReason = None,
                    us_lastLoginAt = None, us_createdAt = now, us_updatedAt = now, us_systemRoles = uc_systemRoles inp\<rparr>
           in (s\<lparr>ad_users := ad_users s @ [u], ad_next := Suc (ad_next s)\<rparr>, Inr u))"

text \<open>\<open>update\<close>: \<open>f\<close> writes the given columns; no caller changes the identifier or the address.\<close>

definition updateUser :: "string \<Rightarrow> (user_row \<Rightarrow> user_row) \<Rightarrow> int \<Rightarrow> ('m account_db_scheme, user_row) op" where
  "updateUser i f now s = (case findUserById i s of
     None \<Rightarrow> (s, Inl RecordNotFound)
   | Some u \<Rightarrow>
       (s\<lparr>ad_users := map (\<lambda>x. if us_id x = i then (f x)\<lparr>us_updatedAt := now\<rparr> else x) (ad_users s)\<rparr>,
        Inr ((f u)\<lparr>us_updatedAt := now\<rparr>)))"

definition touchLastLogin :: "string \<Rightarrow> int \<Rightarrow> ('m account_db_scheme, user_row) op" where
  "touchLastLogin i now = updateUser i (\<lambda>u. u\<lparr>us_lastLoginAt := Some now\<rparr>) now"

definition markEmailVerified :: "string \<Rightarrow> int \<Rightarrow> ('m account_db_scheme, user_row) op" where
  "markEmailVerified i now = updateUser i (\<lambda>u. u\<lparr>us_emailVerifiedAt := Some now\<rparr>) now"

definition countAdmins :: "'m account_db_scheme \<Rightarrow> nat" where
  "countAdmins s = length (filter (\<lambda>u. us_systemRoles u \<noteq> []) (ad_users s))"

text \<open>Deleting a user deletes its sessions and resets with it.\<close>

definition deleteUser :: "string \<Rightarrow> ('m account_db_scheme, user_row) op" where
  "deleteUser i s = (case findUserById i s of
     None \<Rightarrow> (s, Inl RecordNotFound)
   | Some u \<Rightarrow>
       (s\<lparr>ad_users := filter (\<lambda>x. us_id x \<noteq> i) (ad_users s), ad_sessions := filter (\<lambda>x. se_userId x \<noteq> i) (ad_sessions s),
          ad_resets := filter (\<lambda>x. rs_userId x \<noteq> i) (ad_resets s)\<rparr>, Inr u))"

section \<open>Sessions\<close>

text \<open>The user a session belongs to is read with it.\<close>

definition with_user :: "'m account_db_scheme \<Rightarrow> session_row option \<Rightarrow> (session_row \<times> user_row) option" where
  "with_user s row = Option.bind row (\<lambda>r. map_option (Pair r) (findUserById (se_userId r) s))"

definition findSessionById :: "string \<Rightarrow> 'm account_db_scheme \<Rightarrow> (session_row \<times> user_row) option" where
  "findSessionById i s = with_user s (find (\<lambda>r. se_id r = i) (ad_sessions s))"

definition session_active :: "int \<Rightarrow> session_row \<Rightarrow> bool" where
  "session_active now r = (se_revokedAt r = None \<and> now < se_expiresAt r)"

definition findActiveSession :: "string \<Rightarrow> int \<Rightarrow> 'm account_db_scheme \<Rightarrow> (session_row \<times> user_row) option" where
  "findActiveSession tokenHash now s =
     with_user s (find (\<lambda>r. se_tokenHash r = tokenHash \<and> session_active now r) (ad_sessions s))"

text \<open>\<open>tie\<close> is the order in which the database returns rows of the same instant.\<close>

definition listActiveByUserId ::
  "(session_row list \<Rightarrow> session_row list) \<Rightarrow> string \<Rightarrow> int \<Rightarrow> 'm account_db_scheme \<Rightarrow> session_row list" where
  "listActiveByUserId tie u now s =
     sort_key (\<lambda>r. - se_createdAt r) (tie (filter (\<lambda>r. se_userId r = u \<and> session_active now r) (ad_sessions s)))"

record session_create_input =
  sc_userId :: string
  sc_tokenHash :: string
  sc_expiresAt :: int
  sc_ipAddress :: "string option"
  sc_userAgent :: "string option"
  sc_browser :: "string option"
  sc_deviceName :: "string option"

definition session_of :: "string \<Rightarrow> int \<Rightarrow> session_create_input \<Rightarrow> session_row" where
  "session_of i now inp =
     \<lparr>se_id = i, se_userId = sc_userId inp, se_tokenHash = sc_tokenHash inp, se_ipAddress = sc_ipAddress inp,
      se_userAgent = sc_userAgent inp, se_browser = sc_browser inp, se_deviceName = sc_deviceName inp,
      se_expiresAt = sc_expiresAt inp, se_createdAt = now, se_revokedAt = None\<rparr>"

definition createSession :: "(nat \<Rightarrow> string) \<Rightarrow> int \<Rightarrow> session_create_input \<Rightarrow> ('m account_db_scheme, session_row) op" where
  "createSession cuid now inp s =
     (if findUserById (sc_userId inp) s = None then (s, Inl ForeignKeyViolation)
      else if sc_tokenHash inp \<in> set (map se_tokenHash (ad_sessions s)) then (s, Inl UniqueViolation)
      else let r = session_of (cuid (ad_next s)) now inp
           in (s\<lparr>ad_sessions := ad_sessions s @ [r], ad_next := Suc (ad_next s)\<rparr>, Inr r))"

lemma session_of_simps [simp]:
  "se_id (session_of i now inp) = i" "se_userId (session_of i now inp) = sc_userId inp"
  "se_tokenHash (session_of i now inp) = sc_tokenHash inp" "se_expiresAt (session_of i now inp) = sc_expiresAt inp"
  "se_createdAt (session_of i now inp) = now" "se_revokedAt (session_of i now inp) = None"
  by (simp_all add: session_of_def)

definition revoke :: "string \<Rightarrow> int \<Rightarrow> ('m account_db_scheme, unit) op" where
  "revoke i revokedAt s =
     (if i \<notin> set (map se_id (ad_sessions s)) then (s, Inl RecordNotFound)
      else (s\<lparr>ad_sessions := map (\<lambda>r. if se_id r = i then r\<lparr>se_revokedAt := Some revokedAt\<rparr> else r) (ad_sessions s)\<rparr>, Inr ()))"

text \<open>\<open>updateMany\<close>: the rows that match are revoked and counted.\<close>

definition revoke_where :: "(session_row \<Rightarrow> bool) \<Rightarrow> int \<Rightarrow> ('m account_db_scheme, nat) op" where
  "revoke_where P revokedAt s =
     (s\<lparr>ad_sessions := map (\<lambda>r. if P r then r\<lparr>se_revokedAt := Some revokedAt\<rparr> else r) (ad_sessions s)\<rparr>,
      Inr (length (filter P (ad_sessions s))))"

definition revokeAllForUser :: "string \<Rightarrow> int \<Rightarrow> ('m account_db_scheme, nat) op" where
  "revokeAllForUser u revokedAt = revoke_where (\<lambda>r. se_userId r = u \<and> se_revokedAt r = None) revokedAt"

definition cleanExpired :: "int \<Rightarrow> ('m account_db_scheme, nat) op" where
  "cleanExpired referenceTime = revoke_where (\<lambda>r. se_revokedAt r = None \<and> se_expiresAt r < referenceTime) referenceTime"

section \<open>Password resets\<close>

definition reset_active :: "int \<Rightarrow> reset_row \<Rightarrow> bool" where
  "reset_active now r = (rs_usedAt r = None \<and> now < rs_expiresAt r)"

definition findActiveReset :: "string \<Rightarrow> int \<Rightarrow> 'm account_db_scheme \<Rightarrow> reset_row option" where
  "findActiveReset tokenHash now s = find (\<lambda>r. rs_tokenHash r = tokenHash \<and> reset_active now r) (ad_resets s)"

definition createReset :: "(nat \<Rightarrow> string) \<Rightarrow> int \<Rightarrow> string \<Rightarrow> string \<Rightarrow> int \<Rightarrow> ('m account_db_scheme, unit) op" where
  "createReset cuid now u tokenHash expiresAt s =
     (if findUserById u s = None then (s, Inl ForeignKeyViolation)
      else if tokenHash \<in> set (map rs_tokenHash (ad_resets s)) then (s, Inl UniqueViolation)
      else let r = \<lparr>rs_id = cuid (ad_next s), rs_userId = u, rs_tokenHash = tokenHash, rs_expiresAt = expiresAt,
                    rs_usedAt = None, rs_createdAt = now\<rparr>
           in (s\<lparr>ad_resets := ad_resets s @ [r], ad_next := Suc (ad_next s)\<rparr>, Inr ()))"

definition markUsed :: "string \<Rightarrow> int \<Rightarrow> ('m account_db_scheme, unit) op" where
  "markUsed i usedAt s =
     (if i \<notin> set (map rs_id (ad_resets s)) then (s, Inl RecordNotFound)
      else (s\<lparr>ad_resets := map (\<lambda>r. if rs_id r = i then r\<lparr>rs_usedAt := Some usedAt\<rparr> else r) (ad_resets s)\<rparr>, Inr ()))"

definition close_reset :: "string \<Rightarrow> int \<Rightarrow> reset_row \<Rightarrow> reset_row" where
  "close_reset u usedAt r = (if rs_userId r = u \<and> reset_active usedAt r then r\<lparr>rs_usedAt := Some usedAt\<rparr> else r)"

definition invalidateActiveForUser :: "string \<Rightarrow> int \<Rightarrow> ('m account_db_scheme, nat) op" where
  "invalidateActiveForUser u usedAt s =
     (s\<lparr>ad_resets := map (close_reset u usedAt) (ad_resets s)\<rparr>,
      Inr (length (filter (\<lambda>r. rs_userId r = u \<and> reset_active usedAt r) (ad_resets s))))"

lemma close_reset_keys [simp]:
  "rs_id (close_reset u t r) = rs_id r" "rs_tokenHash (close_reset u t r) = rs_tokenHash r"
  "rs_userId (close_reset u t r) = rs_userId r"
  by (simp_all add: close_reset_def)

section \<open>The tables are well formed\<close>

text \<open>
  Identifiers come from the supply and are used once, addresses and token hashes are unique, every
  session and reset belongs to a user, and at the time \<open>now\<close> a user has at most one open reset.
\<close>

definition ids_ok :: "(nat \<Rightarrow> string) \<Rightarrow> nat \<Rightarrow> string list \<Rightarrow> bool" where
  "ids_ok cuid n ids = (distinct ids \<and> set ids \<subseteq> cuid ` {..<n})"

definition tables_ok :: "(nat \<Rightarrow> string) \<Rightarrow> 'm account_db_scheme \<Rightarrow> bool" where
  "tables_ok cuid s =
     (ids_ok cuid (ad_next s) (map us_id (ad_users s)) \<and> distinct (map us_email (ad_users s))
      \<and> ids_ok cuid (ad_next s) (map se_id (ad_sessions s)) \<and> distinct (map se_tokenHash (ad_sessions s))
      \<and> ids_ok cuid (ad_next s) (map rs_id (ad_resets s)) \<and> distinct (map rs_tokenHash (ad_resets s))
      \<and> se_userId ` set (ad_sessions s) \<subseteq> us_id ` set (ad_users s)
      \<and> rs_userId ` set (ad_resets s) \<subseteq> us_id ` set (ad_users s))"

definition one_reset :: "int \<Rightarrow> 'm account_db_scheme \<Rightarrow> bool" where
  "one_reset now s = (\<forall>u. length (filter (\<lambda>r. rs_userId r = u \<and> reset_active now r) (ad_resets s)) \<le> 1)"

section \<open>Every operation keeps the tables well formed\<close>

lemma ids_ok_Suc: "ids_ok cuid n ids \<Longrightarrow> ids_ok cuid (Suc n) ids"
  by (auto simp: ids_ok_def lessThan_Suc)

lemma ids_ok_new: "inj cuid \<Longrightarrow> ids_ok cuid n ids \<Longrightarrow> ids_ok cuid (Suc n) (ids @ [cuid n])"
proof -
  assume a: "inj cuid" "ids_ok cuid n ids"
  then have "cuid n \<notin> set ids" by (auto simp: ids_ok_def inj_eq dest!: subsetD)
  with a(2) show ?thesis by (auto simp: ids_ok_def lessThan_Suc)
qed

lemma ids_ok_filter: "ids_ok cuid n (map k xs) \<Longrightarrow> ids_ok cuid n (map k (filter P xs))"
  by (auto simp: ids_ok_def distinct_map_filter)

lemma map_key_update: "(\<And>x. k (f x) = k x) \<Longrightarrow> map k (map f xs) = map k xs"
  by simp

lemma findUserById_iff: "findUserById i s = None \<longleftrightarrow> i \<notin> us_id ` set (ad_users s)"
  by (auto simp: findUserById_def find_None_iff_all)

lemma findUserById_SomeD: "findUserById i s = Some u \<Longrightarrow> u \<in> set (ad_users s) \<and> us_id u = i"
  by (auto simp: findUserById_def dest: find_SomeD)

lemma findUserByEmail_SomeD: "findUserByEmail e s = Some u \<Longrightarrow> u \<in> set (ad_users s) \<and> us_email u = e"
  by (auto simp: findUserByEmail_def dest: find_SomeD)

lemma findUserById_member: "tables_ok cuid s \<Longrightarrow> u \<in> set (ad_users s) \<Longrightarrow> findUserById (us_id u) s = Some u"
  by (simp add: findUserById_def tables_ok_def ids_ok_def find_unique)

lemma createUser_ok:
  assumes "inj cuid" and "tables_ok cuid s"
  shows "tables_ok cuid (fst (createUser cuid now inp s))"
  using assms
  by (auto simp: createUser_def tables_ok_def Let_def ids_ok_new [unfolded o_def, simplified] ids_ok_Suc findUserByEmail_def find_None_iff_all)

lemma updateUser_ok:
  assumes "tables_ok cuid s" and "\<And>u. us_id (f u) = us_id u" and "\<And>u. us_email (f u) = us_email u"
  shows "tables_ok cuid (fst (updateUser i f now s))"
proof -
  let ?g = "\<lambda>x. if us_id x = i then (f x)\<lparr>us_updatedAt := now\<rparr> else x"
  have k: "map us_id (map ?g xs) = map us_id xs" "map us_email (map ?g xs) = map us_email xs" for xs
    by (simp_all add: assms(2,3))
  then have "us_id ` set (map ?g xs) = us_id ` set xs" for xs by (metis set_map)
  with k assms(1) show ?thesis by (simp add: updateUser_def tables_ok_def split: option.splits del: map_map set_map)
qed

lemma deleteUser_ok: "tables_ok cuid s \<Longrightarrow> tables_ok cuid (fst (deleteUser i s))"
  by (auto simp: deleteUser_def tables_ok_def ids_ok_filter distinct_map_filter split: option.splits)

lemma createSession_ok:
  assumes "inj cuid" and "tables_ok cuid s"
  shows "tables_ok cuid (fst (createSession cuid now inp s))"
  using assms by (auto simp: createSession_def tables_ok_def Let_def ids_ok_new ids_ok_Suc findUserById_iff)

lemma createReset_ok:
  assumes "inj cuid" and "tables_ok cuid s"
  shows "tables_ok cuid (fst (createReset cuid now u h e s))"
  using assms by (auto simp: createReset_def tables_ok_def Let_def ids_ok_new ids_ok_Suc findUserById_iff)

lemma session_update_ok:
  assumes "tables_ok cuid s" and "\<And>r. se_id (g r) = se_id r" and "\<And>r. se_tokenHash (g r) = se_tokenHash r"
    and "\<And>r. se_userId (g r) = se_userId r"
  shows "tables_ok cuid (s\<lparr>ad_sessions := map g (ad_sessions s)\<rparr>)"
  using assms by (simp add: tables_ok_def o_def image_image)

lemma reset_update_ok:
  assumes "tables_ok cuid s" and "\<And>r. rs_id (g r) = rs_id r" and "\<And>r. rs_tokenHash (g r) = rs_tokenHash r"
    and "\<And>r. rs_userId (g r) = rs_userId r"
  shows "tables_ok cuid (s\<lparr>ad_resets := map g (ad_resets s)\<rparr>)"
  using assms by (simp add: tables_ok_def o_def image_image)

lemma revoke_ok: "tables_ok cuid s \<Longrightarrow> tables_ok cuid (fst (revoke i t s))"
  by (auto simp: revoke_def intro!: session_update_ok)

lemma revoke_where_ok: "tables_ok cuid s \<Longrightarrow> tables_ok cuid (fst (revoke_where P t s))"
  by (auto simp: revoke_where_def intro!: session_update_ok)

lemma markUsed_ok: "tables_ok cuid s \<Longrightarrow> tables_ok cuid (fst (markUsed i t s))"
  by (auto simp: markUsed_def intro!: reset_update_ok)

lemma invalidate_ok: "tables_ok cuid s \<Longrightarrow> tables_ok cuid (fst (invalidateActiveForUser u t s))"
  by (auto simp: invalidateActiveForUser_def intro!: reset_update_ok)

lemma createUser_keeps [keeps_intros]: "inj cuid \<Longrightarrow> keepsS (tables_ok cuid) (createUser cuid now inp)"
  and createSession_keeps [keeps_intros]: "inj cuid \<Longrightarrow> keepsS (tables_ok cuid) (createSession cuid now sinp)"
  and createReset_keeps [keeps_intros]: "inj cuid \<Longrightarrow> keepsS (tables_ok cuid) (createReset cuid now u h e)"
  and deleteUser_keeps [keeps_intros]: "keepsS (tables_ok cuid) (deleteUser i)"
  and revoke_keeps [keeps_intros]: "keepsS (tables_ok cuid) (revoke i t)"
  and revokeAllForUser_keeps [keeps_intros]: "keepsS (tables_ok cuid) (revokeAllForUser u t)"
  and cleanExpired_keeps [keeps_intros]: "keepsS (tables_ok cuid) (cleanExpired t)"
  and markUsed_keeps [keeps_intros]: "keepsS (tables_ok cuid) (markUsed i t)"
  and invalidate_keeps [keeps_intros]: "keepsS (tables_ok cuid) (invalidateActiveForUser u t)"
  by (simp_all add: keepsS_def createUser_ok createSession_ok createReset_ok deleteUser_ok revoke_ok revoke_where_ok
      revokeAllForUser_def cleanExpired_def markUsed_ok invalidate_ok)

lemma updateUser_keeps [keeps_intros]:
  "(\<And>u. us_id (f u) = us_id u) \<Longrightarrow> (\<And>u. us_email (f u) = us_email u) \<Longrightarrow> keepsS (tables_ok cuid) (updateUser i f now)"
  by (simp add: keepsS_def updateUser_ok)

lemma touchLastLogin_keeps [keeps_intros]: "keepsS (tables_ok cuid) (touchLastLogin i now)"
  and markEmailVerified_keeps [keeps_intros]: "keepsS (tables_ok cuid) (markEmailVerified i now)"
  by (simp_all add: touchLastLogin_def markEmailVerified_def updateUser_keeps)

text \<open>Counting the administrators after a change of one user.\<close>

definition admin_weight :: "user_row \<Rightarrow> nat" where
  "admin_weight u = (if us_systemRoles u \<noteq> [] then 1 else 0)"

lemma count_update:
  "distinct (map k us) \<Longrightarrow> u \<in> set us \<Longrightarrow> k u = i \<Longrightarrow>
     length (filter P (map (\<lambda>x. if k x = i then g x else x) us)) + (if P u then 1 else 0)
       = length (filter P us) + (if P (g u) then 1 else 0)"
proof (induction us)
  case (Cons x xs)
  show ?case
  proof (cases "k x = i")
    case True
    with Cons.prems have "x = u" "\<And>y. y \<in> set xs \<Longrightarrow> k y \<noteq> i" by (auto simp: rev_image_eqI)
    then have "map (\<lambda>x. if k x = i then g x else x) xs = xs" by (simp add: map_idI)
    then show ?thesis using True \<open>x = u\<close> by simp
  next
    case False
    with Cons show ?thesis by auto
  qed
qed simp

lemma count_delete:
  "distinct (map k us) \<Longrightarrow> u \<in> set us \<Longrightarrow> k u = i \<Longrightarrow>
     length (filter P (filter (\<lambda>x. k x \<noteq> i) us)) + (if P u then 1 else 0) = length (filter P us)"
proof (induction us)
  case (Cons x xs)
  show ?case
  proof (cases "k x = i")
    case True
    with Cons.prems have "x = u" "\<And>y. y \<in> set xs \<Longrightarrow> k y \<noteq> i" by (auto simp: rev_image_eqI)
    then have "filter (\<lambda>x. k x \<noteq> i) xs = xs" by (simp add: filter_id_conv)
    then show ?thesis using True \<open>x = u\<close> by simp
  next
    case False
    with Cons show ?thesis by auto
  qed
qed simp

lemma countAdmins_update:
  assumes "tables_ok cuid s" and "findUserById i s = Some u"
  shows "countAdmins (fst (updateUser i f now s)) + admin_weight u = countAdmins s + admin_weight (f u)"
  using assms findUserById_SomeD [OF assms(2)]
    count_update [of us_id "ad_users s" u i "\<lambda>u. us_systemRoles u \<noteq> []" "\<lambda>x. (f x)\<lparr>us_updatedAt := now\<rparr>"]
  by (simp add: updateUser_def countAdmins_def tables_ok_def ids_ok_def admin_weight_def)

lemma countAdmins_delete:
  assumes "tables_ok cuid s" and "findUserById i s = Some u"
  shows "countAdmins (fst (deleteUser i s)) + admin_weight u = countAdmins s"
  using assms findUserById_SomeD [OF assms(2)] count_delete [of us_id "ad_users s" u i "\<lambda>u. us_systemRoles u \<noteq> []"]
  by (simp add: deleteUser_def countAdmins_def tables_ok_def ids_ok_def admin_weight_def)

lemma countAdmins_create: "countAdmins s \<le> countAdmins (fst (createUser cuid now inp s))"
  by (simp add: createUser_def countAdmins_def Let_def)

lemma find_unique_with: "distinct (map k xs) \<Longrightarrow> x \<in> set xs \<Longrightarrow> Q x \<Longrightarrow> find (\<lambda>y. k y = k x \<and> Q y) xs = Some x"
  by (induction xs) auto

section \<open>At most one open reset\<close>

definition open_resets :: "int \<Rightarrow> string \<Rightarrow> reset_row list \<Rightarrow> reset_row list" where
  "open_resets now u rs = filter (\<lambda>r. rs_userId r = u \<and> reset_active now r) rs"

lemma one_reset_alt: "one_reset now s \<longleftrightarrow> (\<forall>u. length (open_resets now u (ad_resets s)) \<le> 1)"
  by (simp add: one_reset_def open_resets_def)

lemma one_reset_fewer:
  assumes "one_reset now s" and "\<And>u. length (open_resets later u (ad_resets s')) \<le> length (open_resets now u (ad_resets s))"
  shows "one_reset later s'"
  unfolding one_reset_alt
proof
  fix u
  have "length (open_resets now u (ad_resets s)) \<le> 1" using assms(1) by (simp add: one_reset_alt)
  with assms(2) show "length (open_resets later u (ad_resets s')) \<le> 1" by (rule le_trans)
qed

lemma one_reset_later: "one_reset now s \<Longrightarrow> now \<le> later \<Longrightarrow> one_reset later s"
proof -
  assume a: "one_reset now s" "now \<le> later"
  have "open_resets later u rs = filter (\<lambda>r. later < rs_expiresAt r) (open_resets now u rs)" for u rs
    using a(2) by (auto simp: open_resets_def reset_active_def intro: filter_cong)
  then show ?thesis by (intro one_reset_fewer [OF a(1)]) simp
qed

lemma one_reset_update:
  assumes "one_reset now s" and "\<And>r. rs_userId (g r) = rs_userId r" and "\<And>r. reset_active now (g r) \<Longrightarrow> reset_active now r"
  shows "one_reset now (s\<lparr>ad_resets := map g (ad_resets s)\<rparr>)"
proof -
  have "length (open_resets now u (map g rs)) \<le> length (open_resets now u rs)" for u rs
    using assms(2,3) by (induction rs) (auto simp: open_resets_def)
  then show ?thesis by (intro one_reset_fewer [OF assms(1)]) simp
qed

lemma one_reset_other [simp]:
  "one_reset now (s\<lparr>ad_users := us\<rparr>) = one_reset now s" "one_reset now (s\<lparr>ad_sessions := ss\<rparr>) = one_reset now s"
  "one_reset now (s\<lparr>ad_next := n\<rparr>) = one_reset now s"
  by (simp_all add: one_reset_def)

lemma one_reset_same: "ad_resets s' = ad_resets s \<Longrightarrow> one_reset now s' = one_reset now s"
  by (simp add: one_reset_def)

lemma createUser_one [keeps_intros]: "keepsS (one_reset now) (createUser cuid t inp)"
  and createSession_one [keeps_intros]: "keepsS (one_reset now) (createSession cuid t sinp)"
  and updateUser_one [keeps_intros]: "keepsS (one_reset now) (updateUser i f t)"
  and revoke_one [keeps_intros]: "keepsS (one_reset now) (revoke i t)"
  and revoke_where_one: "keepsS (one_reset now) (revoke_where P t)"
  by (auto simp: keepsS_def createUser_def createSession_def updateUser_def revoke_def revoke_where_def Let_def split: option.splits)

lemma revokeAllForUser_one [keeps_intros]: "keepsS (one_reset now) (revokeAllForUser u t)"
  and cleanExpired_one [keeps_intros]: "keepsS (one_reset now) (cleanExpired t)"
  and touchLastLogin_one [keeps_intros]: "keepsS (one_reset now) (touchLastLogin i t)"
  and markEmailVerified_one [keeps_intros]: "keepsS (one_reset now) (markEmailVerified i t)"
  by (simp_all add: revokeAllForUser_def cleanExpired_def touchLastLogin_def markEmailVerified_def revoke_where_one updateUser_one)

lemma markUsed_one [keeps_intros]: "keepsS (one_reset now) (markUsed i t)"
  by (auto simp: keepsS_def markUsed_def intro!: one_reset_update) (auto simp: reset_active_def split: if_splits)

lemma deleteUser_one [keeps_intros]: "keepsS (one_reset now) (deleteUser i)"
  unfolding keepsS_def
proof (intro allI impI)
  fix s :: "'a account_db_scheme"
  assume s: "one_reset now s"
  have f: "open_resets now u (filter P rs) = filter P (open_resets now u rs)" for u P rs
    by (induction rs) (simp_all add: open_resets_def)
  show "one_reset now (fst (deleteUser i s))"
  proof (cases "findUserById i s")
    case (Some u)
    then show ?thesis by (intro one_reset_fewer [OF s]) (simp add: deleteUser_def f)
  qed (simp add: deleteUser_def s)
qed

text \<open>A new reset after the open ones of its user have been closed.\<close>

lemma open_resets_closed: "open_resets now u (map (close_reset u now) rs) = []"
  by (induction rs) (simp_all add: open_resets_def close_reset_def reset_active_def)

lemma close_reset_active: "reset_active now (close_reset u t r) \<Longrightarrow> reset_active now r"
  by (simp add: close_reset_def reset_active_def split: if_splits)

lemma invalidate_one: "one_reset now s \<Longrightarrow> one_reset now (fst (invalidateActiveForUser u t s))"
  unfolding invalidateActiveForUser_def fst_conv by (rule one_reset_update) (auto dest: close_reset_active)

lemma one_reset_new:
  assumes "one_reset now s" and "open_resets now u (ad_resets s) = []" and "ad_resets s' = ad_resets s @ [r]" and "rs_userId r = u"
  shows "one_reset now s'"
  unfolding one_reset_alt assms(3)
proof
  fix v
  show "length (open_resets now v (ad_resets s @ [r])) \<le> 1"
  proof (cases "v = u")
    case True
    then show ?thesis using assms(2) by (simp add: open_resets_def)
  next
    case False
    then have "open_resets now v (ad_resets s @ [r]) = open_resets now v (ad_resets s)"
      using assms(4) by (simp add: open_resets_def)
    then show ?thesis using assms(1) by (simp add: one_reset_alt)
  qed
qed

lemma createReset_one:
  assumes "one_reset now s" and "open_resets now u (ad_resets s) = []"
  shows "one_reset now (fst (createReset cuid t u h e s))"
  using assms(1) by (auto simp: createReset_def Let_def intro!: one_reset_new [OF assms])

lemma new_reset_one [keeps_intros]:
  assumes "keepsS (one_reset now) k"
  shows "keepsS (one_reset now) (thenS (invalidateActiveForUser u now) (thenS (createReset cuid now u h e) k))"
  unfolding keepsS_after
proof (intro allI impI)
  fix s :: "'a account_db_scheme"
  assume s: "one_reset now s"
  obtain t n where t: "invalidateActiveForUser u now s = (t, Inr n)" "ad_resets t = map (close_reset u now) (ad_resets s)"
    by (simp add: invalidateActiveForUser_def)
  have "one_reset now t" using invalidate_one [OF s, of u now] by (simp add: t(1))
  then have "one_reset now (fst (createReset cuid now u h e t))"
    by (rule createReset_one) (simp add: t(2) open_resets_closed)
  then have "one_reset now (fst (thenS (createReset cuid now u h e) k t))"
    using keepsS_final [OF assms] by (auto simp: thenS_def bindS_def split: prod.splits sum.splits)
  then show "after (thenS (invalidateActiveForUser u now) (thenS (createReset cuid now u h e) k)) (\<lambda>s' _. one_reset now s') s"
    by (simp add: after_state thenS_def [of "invalidateActiveForUser u now"] bindS_def [of "invalidateActiveForUser u now"] t(1))
qed

end
