(* ===== verification/AuthTokens.thy ===== *)
theory AuthTokens
  imports Prelude
begin

text \<open>
  The token and password helpers of \<open>packages/auth/src/index.ts\<close>. The password hash, the JWT
  signature and the random source are library code and appear as parameters: \<open>sign\<close> and
  \<open>jwtVerify\<close> stand for \<open>jose\<close>, with the payload as the list of its claims.
\<close>

section \<open>Constants and types\<close>

definition ACCESS_TOKEN_LIFETIME_MINUTES :: int where "ACCESS_TOKEN_LIFETIME_MINUTES = 15"
definition REFRESH_TOKEN_LIFETIME_DAYS :: int where "REFRESH_TOKEN_LIFETIME_DAYS = 30"
definition EMAIL_VERIFICATION_LIFETIME_HOURS :: int where "EMAIL_VERIFICATION_LIFETIME_HOURS = 24"
definition PASSWORD_RESET_LIFETIME_HOURS :: int where "PASSWORD_RESET_LIFETIME_HOURS = 1"
definition MIN_PASSWORD_LENGTH :: nat where "MIN_PASSWORD_LENGTH = 8"

type_synonym jwt_payload = "(string \<times> json) list"

record access_token_claims =
  cl_userId :: string
  cl_email :: string
  cl_roles :: "string list"
  cl_sessionId :: string

record verified_access_token = access_token_claims +
  vt_sub :: string
  vt_exp :: "json option"
  vt_iat :: "json option"
  vt_iss :: "json option"
  vt_aud :: "json option"

record issue_access_token_input =
  it_secret :: string
  it_sessionId :: string
  it_userId :: string
  it_email :: string
  it_roles :: "string list"
  it_expiresInMinutes :: "int option"
  it_issuer :: "string option"
  it_audience :: "string option"

record 'tok access_token_issue_result =
  ir_token :: 'tok
  ir_expiresAt :: string
  ir_claims :: access_token_claims

section \<open>Passwords and bearer headers\<close>

definition assertPasswordPolicy :: "string \<Rightarrow> unit result" where
  "assertPasswordPolicy password =
     (if length password < MIN_PASSWORD_LENGTH
      then Inl (JsError ''Password must be at least 8 characters long.'') else Inr ())"

text \<open>\<open>split(/\s+/)\<close>: the pieces between the runs of white space.\<close>

function split_spaces :: "string \<Rightarrow> string list" where
  "split_spaces s =
     (let w = takeWhile (\<lambda>c. \<not> js_space c) s; r = dropWhile (\<lambda>c. \<not> js_space c) s
      in if r = [] then [w] else w # split_spaces (dropWhile js_space r))"
  by pat_completeness auto
termination
proof (relation "measure length", goal_cases)
  case (2 s w r)
  then obtain c cs where r: "r = c # cs" by (meson neq_Nil_conv)
  from 2 have "\<not> \<not> js_space (hd r)" using hd_dropWhile [of "\<lambda>c. \<not> js_space c" s] by metis
  with r have "js_space c" by simp
  then have "length (dropWhile js_space r) \<le> length cs" using r by (simp add: length_dropWhile_le)
  also have "length cs < length r" using r by simp
  also have "length r \<le> length s" using 2 by (simp add: length_dropWhile_le)
  finally show ?case by simp
qed simp

declare split_spaces.simps [simp del]

text \<open>The destructured \<open>[scheme, token]\<close> and its check.\<close>

definition bearer_of_parts :: "string list \<Rightarrow> string option" where
  "bearer_of_parts parts =
     (case parts of
        scheme # token # _ \<Rightarrow> if toLowerCase scheme \<noteq> ''bearer'' \<or> token = [] then None else Some token
      | _ \<Rightarrow> None)"

definition parseBearerToken :: "string option \<Rightarrow> string option" where
  "parseBearerToken header =
     (if \<not> truthy header then None else bearer_of_parts (take 2 (split_spaces (trim (the header)))))"

section \<open>Access tokens\<close>

definition claims_of_input :: "issue_access_token_input \<Rightarrow> access_token_claims" where
  "claims_of_input i =
     \<lparr>cl_userId = it_userId i, cl_email = it_email i, cl_roles = it_roles i, cl_sessionId = it_sessionId i\<rparr>"

text \<open>The payload the builder assembles; \<open>setSubject\<close> and the others add the registered claims.\<close>

definition access_payload :: "issue_access_token_input \<Rightarrow> int \<Rightarrow> int \<Rightarrow> jwt_payload" where
  "access_payload i issuedAt expiresAt =
     [(''userId'', JStr (it_userId i)), (''email'', JStr (it_email i)),
      (''roles'', JArr (map JStr (it_roles i))), (''sessionId'', JStr (it_sessionId i)),
      (''type'', JStr ''access''), (''sub'', JStr (it_userId i)),
      (''iat'', JNum (Fin (of_int (issuedAt div 1000)))), (''exp'', JNum (Fin (of_int (expiresAt div 1000))))]
     @ (if truthy (it_issuer i) then [(''iss'', JStr (the (it_issuer i)))] else [])
     @ (if truthy (it_audience i) then [(''aud'', JStr (the (it_audience i)))] else [])"

definition issueAccessToken ::
  "(jwt_payload \<Rightarrow> string \<Rightarrow> 'tok) \<Rightarrow> int \<Rightarrow> issue_access_token_input \<Rightarrow> 'tok access_token_issue_result" where
  "issueAccessToken sign now i =
     (let expiresInMinutes = nullish (it_expiresInMinutes i) ACCESS_TOKEN_LIFETIME_MINUTES;
          expiresAt = now + expiresInMinutes * 60 * 1000
      in \<lparr>ir_token = sign (access_payload i now expiresAt) (it_secret i),
          ir_expiresAt = toISOString expiresAt, ir_claims = claims_of_input i\<rparr>)"

definition jstring :: "json option \<Rightarrow> string option" where
  "jstring v = (case v of Some (JStr s) \<Rightarrow> Some s | _ \<Rightarrow> None)"

definition jnullish :: "json option \<Rightarrow> json option \<Rightarrow> json option" where
  "jnullish a b = (case a of None \<Rightarrow> b | Some JNull \<Rightarrow> b | _ \<Rightarrow> a)"

definition jstring_array :: "json option \<Rightarrow> string list option" where
  "jstring_array v = (case v of Some (JArr xs) \<Rightarrow> json_strings xs | _ \<Rightarrow> None)"

definition read_payload :: "jwt_payload \<Rightarrow> verified_access_token result" where
  "read_payload payload =
     (case (jstring (map_of payload ''sub''), jstring (map_of payload ''email''),
            jstring (map_of payload ''sessionId''),
            jstring (jnullish (map_of payload ''userId'') (map_of payload ''sub'')),
            jstring_array (map_of payload ''roles'')) of
        (Some sub, Some email, Some sessionId, Some userId, Some roles) \<Rightarrow>
          if map_of payload ''type'' \<noteq> Some (JStr ''access'')
          then Inl (JsError ''Invalid access token payload.'')
          else Inr \<lparr>cl_userId = userId, cl_email = email, cl_roles = roles, cl_sessionId = sessionId,
                    vt_sub = sub, vt_exp = map_of payload ''exp'', vt_iat = map_of payload ''iat'',
                    vt_iss = map_of payload ''iss'', vt_aud = map_of payload ''aud''\<rparr>
      | _ \<Rightarrow> Inl (JsError ''Invalid access token payload.''))"

definition verifyAccessToken ::
  "('tok \<Rightarrow> string \<Rightarrow> string option \<Rightarrow> string option \<Rightarrow> jwt_payload result) \<Rightarrow>
   'tok \<Rightarrow> string \<Rightarrow> string option \<Rightarrow> string option \<Rightarrow> verified_access_token result" where
  "verifyAccessToken jwtVerify token secret issuer audience =
     bindR (jwtVerify token secret issuer audience) read_payload"

section \<open>Lemmas\<close>

lemma split_spaces_no_space: "p \<in> set (split_spaces s) \<Longrightarrow> list_all (\<lambda>c. \<not> js_space c) p"
proof (induction s arbitrary: p rule: split_spaces.induct)
  case (1 s)
  let ?w = "takeWhile (\<lambda>c. \<not> js_space c) s" and ?r = "dropWhile (\<lambda>c. \<not> js_space c) s"
  have w: "list_all (\<lambda>c. \<not> js_space c) ?w" by (auto simp: list_all_iff dest: set_takeWhileD)
  show ?case
  proof (cases "?r = []")
    case True
    with 1 w show ?thesis by (simp add: split_spaces.simps [of s])
  next
    case False
    with "1.prems" w have "p = ?w \<or> p \<in> set (split_spaces (dropWhile js_space ?r))"
      by (simp add: split_spaces.simps [of s] Let_def del: dropWhile_eq_Nil_conv)
    with False w "1.IH" [OF refl refl] show ?thesis by blast
  qed
qed

lemma split_spaces_word: "list_all (\<lambda>c. \<not> js_space c) t \<Longrightarrow> split_spaces t = [t]"
proof -
  assume "list_all (\<lambda>c. \<not> js_space c) t"
  then have "takeWhile (\<lambda>c. \<not> js_space c) t = t" "dropWhile (\<lambda>c. \<not> js_space c) t = []"
    by (auto simp: list_all_iff)
  then show ?thesis by (simp add: split_spaces.simps [of t])
qed

lemma split_spaces_two:
  assumes "list_all (\<lambda>c. \<not> js_space c) a" and "list_all (\<lambda>c. \<not> js_space c) t" and "t \<noteq> []"
  shows "split_spaces (a @ CHR '' '' # t) = [a, t]"
proof -
  have sp: "js_space (CHR '' '')" by (simp add: js_space_def)
  have w: "takeWhile (\<lambda>c. \<not> js_space c) (a @ CHR '' '' # t) = a"
    using assms(1) sp by (induction a) auto
  have r: "dropWhile (\<lambda>c. \<not> js_space c) (a @ CHR '' '' # t) = CHR '' '' # t"
    using assms(1) sp by (induction a) auto
  have d: "dropWhile js_space t = t" using assms(2,3) by (cases t) auto
  show ?thesis
    by (subst split_spaces.simps) (simp add: w r sp d split_spaces_word [OF assms(2)])
qed

lemma trim_no_outer_space:
  assumes "\<not> js_space (hd s)" and "\<not> js_space (last s)" and "s \<noteq> []"
  shows "trim s = s"
proof -
  have "dropWhile js_space s = s" using assms(1,3) by (cases s) auto
  moreover have "dropWhile js_space (rev s) = rev s"
    using assms(2,3) by (cases "rev s") (auto simp: last_rev hd_rev [symmetric])
  ultimately show ?thesis by (simp add: trim_def)
qed

lemma bearer_of_parts_Some:
  "bearer_of_parts ps = Some t \<Longrightarrow> \<exists>s r. ps = s # t # r \<and> toLowerCase s = ''bearer'' \<and> t \<noteq> []"
  by (cases ps; cases "tl ps") (auto simp: bearer_of_parts_def split: if_splits)

lemma take_two: "take 2 xs = a # b # zs \<Longrightarrow> \<exists>r. xs = a # b # r"
  by (cases xs; cases "tl xs") auto

lemma map_of_access_payload:
  "map_of (access_payload i a b) ''sub'' = Some (JStr (it_userId i))"
  "map_of (access_payload i a b) ''email'' = Some (JStr (it_email i))"
  "map_of (access_payload i a b) ''sessionId'' = Some (JStr (it_sessionId i))"
  "map_of (access_payload i a b) ''userId'' = Some (JStr (it_userId i))"
  "map_of (access_payload i a b) ''roles'' = Some (JArr (map JStr (it_roles i)))"
  "map_of (access_payload i a b) ''type'' = Some (JStr ''access'')"
  by (simp_all add: access_payload_def)

section \<open>Properties\<close>

text \<open>
  A bearer header: \<open>Bearer t\<close> in any letter case yields exactly the token, whatever the
  scheme's case; a token that is returned is never empty and holds no white space.
\<close>

theorem parseBearerToken_correct:
  assumes "toLowerCase scheme = ''bearer''" and "list_all (\<lambda>c. \<not> js_space c) (scheme @ t)" and "t \<noteq> []"
  shows "parseBearerToken (Some (scheme @ CHR '' '' # t)) = Some t
    \<and> (parseBearerToken h = None
       \<or> (\<exists>tok. parseBearerToken h = Some tok \<and> tok \<noteq> [] \<and> list_all (\<lambda>c. \<not> js_space c) tok))"
proof
  have s: "scheme \<noteq> []" using assms(1) by (auto simp: toLowerCase_def)
  have "trim (scheme @ CHR '' '' # t) = scheme @ CHR '' '' # t"
    using assms s by (intro trim_no_outer_space) (auto simp: list_all_iff)
  then show "parseBearerToken (Some (scheme @ CHR '' '' # t)) = Some t"
    using assms split_spaces_two [of scheme t] by (simp add: parseBearerToken_def bearer_of_parts_def)
next
  show "parseBearerToken h = None
       \<or> (\<exists>tok. parseBearerToken h = Some tok \<and> tok \<noteq> [] \<and> list_all (\<lambda>c. \<not> js_space c) tok)"
  proof (cases "parseBearerToken h")
    case (Some tok)
    let ?ps = "split_spaces (trim (the h))"
    from Some have "bearer_of_parts (take 2 ?ps) = Some tok"
      by (simp add: parseBearerToken_def split: if_splits)
    from bearer_of_parts_Some [OF this] obtain a b where "take 2 ?ps = a # tok # b" and tok: "tok \<noteq> []"
      by (elim exE conjE)
    from take_two [OF this(1)] obtain r where ps: "?ps = a # tok # r" by (elim exE)
    have "list_all (\<lambda>c. \<not> js_space c) tok"
      by (rule split_spaces_no_space [of _ "trim (the h)"]) (simp add: ps)
    then show ?thesis using Some tok by blast
  qed simp
qed

theorem parseBearerToken_correct_witness:
  "parseBearerToken (Some (''BeaRer'' @ CHR '' '' # ''abc.def'')) = Some ''abc.def''"
  by (rule parseBearerToken_correct [THEN conjunct1])
    (simp_all add: toLowerCase_def lower_char_def js_space_def, code_simp)

text \<open>
  What a token was issued for is what verification reads back, under the documented contract
  of the JWT library for this token; a payload whose type is not \<open>access\<close> is never accepted.
\<close>

theorem access_token_roundtrip:
  assumes "jwtVerify (sign (access_payload i now expiry) (it_secret i)) (it_secret i) (it_issuer i) (it_audience i)
      = Inr (access_payload i now expiry)"
    and "expiry = now + nullish (it_expiresInMinutes i) ACCESS_TOKEN_LIFETIME_MINUTES * 60 * 1000"
  shows "(\<exists>v. verifyAccessToken jwtVerify (ir_token (issueAccessToken sign now i)) (it_secret i)
             (it_issuer i) (it_audience i) = Inr v
           \<and> access_token_claims.truncate v = ir_claims (issueAccessToken sign now i)
           \<and> vt_sub v = it_userId i
           \<and> vt_exp v = Some (JNum (Fin (of_int (expiry div 1000)))))
    \<and> (map_of payload ''type'' = Some (JStr ''access'') \<or> \<not> isOk (read_payload payload))"
proof
  let ?p = "access_payload i now expiry"
  have e: "map_of ?p ''exp'' = Some (JNum (Fin (of_int (expiry div 1000))))"
    by (simp add: access_payload_def)
  have "verifyAccessToken jwtVerify (ir_token (issueAccessToken sign now i)) (it_secret i)
      (it_issuer i) (it_audience i) = read_payload ?p"
    using assms by (simp add: verifyAccessToken_def issueAccessToken_def Let_def)
  then show "\<exists>v. verifyAccessToken jwtVerify (ir_token (issueAccessToken sign now i)) (it_secret i)
             (it_issuer i) (it_audience i) = Inr v
           \<and> access_token_claims.truncate v = ir_claims (issueAccessToken sign now i)
           \<and> vt_sub v = it_userId i
           \<and> vt_exp v = Some (JNum (Fin (of_int (expiry div 1000))))"
    by (simp add: read_payload_def map_of_access_payload e jstring_def jnullish_def jstring_array_def
        issueAccessToken_def Let_def claims_of_input_def access_token_claims.truncate_def)
next
  show "map_of payload ''type'' = Some (JStr ''access'') \<or> \<not> isOk (read_payload payload)"
    by (auto simp: read_payload_def split: option.splits)
qed

theorem access_token_roundtrip_witness:
  "\<exists>v. verifyAccessToken (\<lambda>t s iss aud. Inr t) (ir_token (issueAccessToken (\<lambda>p s. p) 5000
      \<lparr>it_secret = ''k'', it_sessionId = ''s1'', it_userId = ''u1'', it_email = ''a@b.c'', it_roles = [''admin''],
       it_expiresInMinutes = None, it_issuer = None, it_audience = None\<rparr>)) ''k'' None None = Inr v
     \<and> vt_sub v = ''u1''"
  using access_token_roundtrip [where jwtVerify = "\<lambda>t s iss aud. Inr t" and sign = "\<lambda>p s. p" and now = 5000
    and i = "\<lparr>it_secret = ''k'', it_sessionId = ''s1'', it_userId = ''u1'', it_email = ''a@b.c'', it_roles = [''admin''],
       it_expiresInMinutes = None, it_issuer = None, it_audience = None\<rparr>", OF refl refl]
  by auto

end
