(* ===== verification/UserAdmin.thy ===== *)
theory UserAdmin
  imports Accounts AuthTokens Logger
begin

text \<open>
  Administration of users and the profile of the caller, from \<open>apps/api/src/platform.service.ts\<close> and
  \<open>services/users-service.ts\<close>: normalisation of the request, creation, deletion, changes of access, and
  the guard that keeps the last administrator. A request body is JSON; a field that is absent is \<open>None\<close>.
  The value \<open>string | null | undefined\<close> of a normalised field is a \<open>string option option\<close>.
\<close>

section \<open>Normalisation\<close>

definition maxAdminUserDisplayNameLength :: nat where "maxAdminUserDisplayNameLength = 120"
definition maxAdminSuspendReasonLength :: nat where "maxAdminSuspendReasonLength = 500"

definition validSystemRoles :: "string list" where
  "validSystemRoles = [''admin'']"

definition normalizeAdminEmail :: "json option \<Rightarrow> string result" where
  "normalizeAdminEmail v = (case v of
     Some (JStr s) \<Rightarrow>
       let normalized = toLowerCase (trim s)
       in if normalized = [] then Inl (BadRequest ''email is required.'')
          else if \<not> email_shape normalized then Inl (BadRequest ''email must be a valid email address.'')
          else Inr normalized
   | _ \<Rightarrow> Inl (BadRequest ''email is required.''))"

definition normalizeAdminPassword :: "json option \<Rightarrow> string result" where
  "normalizeAdminPassword v = (case v of
     Some (JStr s) \<Rightarrow>
       let normalized = trim s
       in if normalized = [] then Inl (BadRequest ''password is required.'')
          else (case assertPasswordPolicy normalized of
                  Inl (JsError message) \<Rightarrow> Inl (BadRequest message)
                | Inl _ \<Rightarrow> Inl (BadRequest ''password does not satisfy policy.'')
                | Inr _ \<Rightarrow> Inr normalized)
   | _ \<Rightarrow> Inl (BadRequest ''password is required.''))"

definition normalizeAdminDisplayName :: "json option \<Rightarrow> string \<Rightarrow> bool \<Rightarrow> string option option result" where
  "normalizeAdminDisplayName v fieldName allowNull = (case v of
     None \<Rightarrow> Inr None
   | Some JNull \<Rightarrow> if allowNull then Inr (Some None) else Inl (BadRequest (fieldName @ '' must be a non-empty string.''))
   | Some (JStr s) \<Rightarrow>
       let normalized = trim s
       in if normalized = [] then Inr (if allowNull then Some None else None)
          else if maxAdminUserDisplayNameLength < length normalized
          then Inl (BadRequest (fieldName @ '' must be at most 120 characters.''))
          else Inr (Some (Some normalized))
   | _ \<Rightarrow> Inl (BadRequest (fieldName @ '' must be a string.'')))"

definition normalizeAdminSuspendReason :: "json option \<Rightarrow> string option option result" where
  "normalizeAdminSuspendReason v = (case v of
     None \<Rightarrow> Inr None
   | Some JNull \<Rightarrow> Inr (Some None)
   | Some (JStr s) \<Rightarrow>
       let normalized = trim s
       in if normalized = [] then Inr (Some None)
          else if maxAdminSuspendReasonLength < length normalized
          then Inl (BadRequest ''suspendReason must be at most 500 characters.'')
          else Inr (Some (Some normalized))
   | _ \<Rightarrow> Inl (BadRequest ''suspendReason must be a string or null.''))"

definition read_role :: "string \<Rightarrow> json \<Rightarrow> string list \<Rightarrow> string list result" where
  \<open>read_role fieldName entry roles = (case entry of
     JStr s \<Rightarrow>
       let role = trim s
       in if role \<notin> set validSystemRoles
          then Inl (BadRequest (fieldName @ '' contains unknown role "'' @ s @ ''".''))
          else Inr (if role \<in> set roles then roles else roles @ [role])
   | _ \<Rightarrow> Inl (BadRequest (fieldName @ '' must contain role ids.'')))\<close>

definition normalizeAdminSystemRoles :: "json \<Rightarrow> string \<Rightarrow> string list result" where
  "normalizeAdminSystemRoles v fieldName = (case v of
     JArr entries \<Rightarrow> foldR (read_role fieldName) entries []
   | _ \<Rightarrow> Inl (BadRequest (fieldName @ '' must be an array of system roles.'')))"

definition normalizeOptionalAdminSystemRoles :: "json option \<Rightarrow> string \<Rightarrow> string list option result" where
  "normalizeOptionalAdminSystemRoles v fieldName = (case v of
     None \<Rightarrow> Inr None
   | Some w \<Rightarrow> bindR (normalizeAdminSystemRoles w fieldName) (\<lambda>roles. Inr (Some roles)))"

section \<open>Directory entries\<close>

record directory_entry =
  de_id :: string
  de_email :: string
  de_displayName :: "string option"
  de_emailVerifiedAt :: "string option"
  de_suspendedAt :: "string option"
  de_lastLoginAt :: "string option"
  de_createdAt :: string
  de_systemRoles :: "string list"

definition mapUserRecordToDirectoryEntry :: "user_row \<Rightarrow> directory_entry" where
  "mapUserRecordToDirectoryEntry u =
     \<lparr>de_id = us_id u, de_email = us_email u, de_displayName = (if truthy (us_displayName u) then us_displayName u else None),
      de_emailVerifiedAt = map_option toISOString (us_emailVerifiedAt u), de_suspendedAt = map_option toISOString (us_suspendedAt u),
      de_lastLoginAt = map_option toISOString (us_lastLoginAt u), de_createdAt = toISOString (us_createdAt u),
      de_systemRoles = us_systemRoles u\<rparr>"

record admin_user_mutation =
  am_user :: directory_entry
  am_updatedAt :: string

definition mutation_result :: "user_row \<Rightarrow> admin_user_mutation" where
  "mutation_result u = \<lparr>am_user = mapUserRecordToDirectoryEntry u, am_updatedAt = toISOString (us_updatedAt u)\<rparr>"

section \<open>Handlers\<close>

definition requireDecision :: "access_decision \<Rightarrow> unit result" where
  "requireDecision d = (if ad_allowed d then Inr () else Inl (Forbidden (join ''; '' (ad_reasons d))))"

definition required_body :: "json option \<Rightarrow> json_object result" where
  "required_body request = (case request of Some (JObj raw) \<Rightarrow> Inr raw | _ \<Rightarrow> Inl (BadRequest ''Request body is required.''))"

definition text_field :: "json_object \<Rightarrow> string \<Rightarrow> string" where
  "text_field raw key = (case map_of raw key of Some (JStr s) \<Rightarrow> trim s | _ \<Rightarrow> [])"

definition created_user ::
  "(string \<Rightarrow> string) \<Rightarrow> int \<Rightarrow> json_object \<Rightarrow> string \<Rightarrow> string \<Rightarrow> string option option \<Rightarrow> string list option \<Rightarrow> user_create_input" where
  "created_user hash now raw email password displayName systemRoles =
     \<lparr>uc_email = email, uc_passwordHash = hash password, uc_displayName = Option.bind displayName (\<lambda>d. d),
      uc_emailVerifiedAt = (if map_of raw ''emailVerified'' = Some (JBool True) then Some now else None),
      uc_systemRoles = (if nullish systemRoles [] \<noteq> [] then [''admin''] else [])\<rparr>"

definition createUserForCurrentSession ::
  "(nat \<Rightarrow> string) \<Rightarrow> (string \<Rightarrow> string) \<Rightarrow> int \<Rightarrow> current_session \<Rightarrow> json option \<Rightarrow> ('m account_db_scheme, admin_user_mutation) op" where
  "createUserForCurrentSession cuid hash now session request =
     thenS (liftS (requireDecision (canUpdateUsers (cs_principal session))))
     (bindS (liftS (required_body request)) (\<lambda>raw.
      bindS (liftS (normalizeAdminEmail (map_of raw ''email''))) (\<lambda>email.
      bindS (liftS (normalizeAdminPassword (map_of raw ''password''))) (\<lambda>password.
      bindS (liftS (normalizeAdminDisplayName (map_of raw ''displayName'') ''displayName'' False)) (\<lambda>displayName.
      bindS (liftS (normalizeOptionalAdminSystemRoles (map_of raw ''systemRoles'') ''systemRoles'')) (\<lambda>systemRoles.
      rethrow UniqueViolation (BadRequest ''A user with this email already exists.'')
        (bindS (createUser cuid now (created_user hash now raw email password displayName systemRoles))
          (\<lambda>u. retS (mutation_result u)))))))))"

text \<open>The guard of the last administrator: it counts the administrators of the table.\<close>

definition keepsLastAdmin :: "user_row \<Rightarrow> string \<Rightarrow> ('m account_db_scheme, unit) op" where
  "keepsLastAdmin existingUser message s =
     (if us_systemRoles existingUser \<noteq> [] \<and> countAdmins s \<le> 1 then (s, Inl (BadRequest message)) else (s, Inr ()))"

definition deleteUserForCurrentSession :: "current_session \<Rightarrow> string option \<Rightarrow> ('m account_db_scheme, string) op" where
  "deleteUserForCurrentSession session requestUserId =
     thenS (liftS (requireDecision (canUpdateUsers (cs_principal session))))
     (let userId = nullish (map_option trim requestUserId) [] in
      if userId = [] then throwS (BadRequest ''userId is required.'')
      else if userId = cs_user_id session then throwS (BadRequest ''Cannot delete your own account.'')
      else bindS (getS (findUserById userId)) (\<lambda>found.
        case found of
          None \<Rightarrow> throwS (NotFound ''User not found.'')
        | Some existingUser \<Rightarrow>
            thenS (keepsLastAdmin existingUser ''Cannot delete the last remaining admin account.'')
            (bindS (deleteUser userId) (\<lambda>_. retS userId))))"

definition access_update ::
  "int \<Rightarrow> string option option \<Rightarrow> string list option \<Rightarrow> json option \<Rightarrow> string option option \<Rightarrow> user_row \<Rightarrow> user_row" where
  "access_update now displayName systemRoles suspend suspendReason u =
     (let u1 = (case displayName of None \<Rightarrow> u | Some d \<Rightarrow> u\<lparr>us_displayName := d\<rparr>);
          u2 = (case systemRoles of None \<Rightarrow> u1 | Some rs \<Rightarrow> u1\<lparr>us_systemRoles := (if rs \<noteq> [] then [''admin''] else [])\<rparr>)
      in case suspend of
           Some (JBool True) \<Rightarrow>
             u2\<lparr>us_suspendedAt := Some now,
                us_suspendReason := Some (nullish (Option.bind suspendReason (\<lambda>r. r)) ''Suspended by admin action.'')\<rparr>
         | Some (JBool False) \<Rightarrow> u2\<lparr>us_suspendedAt := None, us_suspendReason := None\<rparr>
         | _ \<Rightarrow> u2)"

definition has_mutation :: "string option option \<Rightarrow> string list option \<Rightarrow> json option \<Rightarrow> bool" where
  "has_mutation displayName systemRoles suspend =
     (displayName \<noteq> None \<or> systemRoles \<noteq> None \<or> suspend = Some (JBool True) \<or> suspend = Some (JBool False))"

definition updateUserAccessForCurrentSession ::
  "int \<Rightarrow> current_session \<Rightarrow> json option \<Rightarrow> ('m account_db_scheme, admin_user_mutation) op" where
  "updateUserAccessForCurrentSession now session request =
     thenS (liftS (requireDecision (canUpdateUsers (cs_principal session))))
     (bindS (liftS (required_body request)) (\<lambda>raw.
      let userId = text_field raw ''userId''; suspend = map_of raw ''suspend'' in
      if userId = [] then throwS (BadRequest ''userId is required.'')
      else bindS (getS (findUserById userId)) (\<lambda>found.
        case found of
          None \<Rightarrow> throwS (NotFound ''User not found.'')
        | Some existingUser \<Rightarrow>
            bindS (liftS (normalizeAdminDisplayName (map_of raw ''displayName'') ''displayName'' True)) (\<lambda>displayName.
            bindS (liftS (normalizeOptionalAdminSystemRoles (map_of raw ''systemRoles'') ''systemRoles'')) (\<lambda>systemRoles.
            bindS (liftS (normalizeAdminSuspendReason (map_of raw ''suspendReason''))) (\<lambda>suspendReason.
              if suspend = None \<and> suspendReason \<noteq> None
              then throwS (BadRequest ''suspendReason can only be set when suspend is provided.'')
              else
                thenS (if systemRoles = Some [] then keepsLastAdmin existingUser ''Cannot remove admin access from the last remaining admin.''
                       else retS ())
                (if \<not> has_mutation displayName systemRoles suspend
                 then throwS (BadRequest ''Provide at least one mutable field: displayName, systemRoles, suspend.'')
                 else rethrow RecordNotFound (NotFound ''User not found.'')
                   (bindS (updateUser userId (access_update now displayName systemRoles suspend suspendReason) now)
                     (\<lambda>u. retS (mutation_result u))))))))))"

section \<open>Invariants\<close>

lemma access_update_keys [simp]:
  "us_id (access_update now d rs sus sr u) = us_id u" "us_email (access_update now d rs sus sr u) = us_email u"
  by (simp_all add: access_update_def Let_def split: option.splits json.splits bool.splits)

lemma access_update_roles:
  "us_systemRoles (access_update now d rs sus sr u) =
     (case rs of None \<Rightarrow> us_systemRoles u | Some roles \<Rightarrow> if roles \<noteq> [] then [''admin''] else [])"
  by (simp add: access_update_def Let_def split: option.splits json.splits bool.splits)

lemma keepsLastAdmin_keeps [keeps_intros]: "keepsS P (keepsLastAdmin u m)"
  by (simp add: keepsS_def keepsLastAdmin_def)

lemma createUserForCurrentSession_keeps [keeps_intros]:
  "inj cuid \<Longrightarrow> keepsS (tables_ok cuid) (createUserForCurrentSession cuid hash now session request)"
  unfolding createUserForCurrentSession_def by (intro keeps_intros)

lemma deleteUserForCurrentSession_keeps [keeps_intros]:
  "keepsS (tables_ok cuid) (deleteUserForCurrentSession session request)"
  unfolding deleteUserForCurrentSession_def by (intro keeps_intros)

lemma updateUserAccessForCurrentSession_keeps [keeps_intros]:
  "keepsS (tables_ok cuid) (updateUserAccessForCurrentSession now session request)"
  unfolding updateUserAccessForCurrentSession_def by (intro keeps_intros) simp_all

lemma after_keepsLastAdmin [after_simps]:
  "after (keepsLastAdmin u m) Q s =
     (if us_systemRoles u \<noteq> [] \<and> countAdmins s \<le> 1 then Q s (Inl (BadRequest m)) else Q s (Inr ()))"
  by (simp add: after_def keepsLastAdmin_def)

text \<open>An administrator is left: well-formed tables with at least one user that has a role.\<close>

definition admins_ok :: "(nat \<Rightarrow> string) \<Rightarrow> 'm account_db_scheme \<Rightarrow> bool" where
  "admins_ok cuid s = (tables_ok cuid s \<and> 1 \<le> countAdmins s)"

lemma admin_left_delete:
  assumes "admins_ok cuid s" and "findUserById i s = Some u" and "us_systemRoles u \<noteq> [] \<Longrightarrow> 2 \<le> countAdmins s"
  shows "1 \<le> countAdmins (fst (deleteUser i s))"
  using countAdmins_delete [of cuid s i u] assms by (cases "us_systemRoles u = []") (auto simp: admins_ok_def admin_weight_def)

lemma admin_left_update:
  assumes "admins_ok cuid s" and "findUserById i s = Some u" and "rs = Some [] \<Longrightarrow> us_systemRoles u \<noteq> [] \<Longrightarrow> 2 \<le> countAdmins s"
  shows "1 \<le> countAdmins (fst (updateUser i (access_update now d rs sus sr) now s))"
  using countAdmins_update [of cuid s i u "access_update now d rs sus sr" now] assms
  by (cases "us_systemRoles u = []") (auto simp: admins_ok_def admin_weight_def access_update_roles split: option.splits if_splits)

lemma admins_after_delete:
  assumes "admins_ok cuid s" and "findUserById i s = Some u" and "us_systemRoles u \<noteq> [] \<longrightarrow> \<not> countAdmins s \<le> 1"
    and "\<And>s' r. admins_ok cuid s' \<Longrightarrow> Q s' r"
  shows "after (deleteUser i) Q s"
proof -
  have "1 \<le> countAdmins (fst (deleteUser i s))"
    by (rule admin_left_delete [OF assms(1,2)]) (use assms(3) in auto)
  with assms(1) have "admins_ok cuid (fst (deleteUser i s))" by (simp add: admins_ok_def deleteUser_ok)
  with assms(4) show ?thesis by (simp add: after_def split_beta)
qed

lemma admins_after_update:
  assumes "admins_ok cuid s" and "findUserById i s = Some u"
    and "rs = Some [] \<longrightarrow> us_systemRoles u \<noteq> [] \<longrightarrow> \<not> countAdmins s \<le> 1"
    and "\<And>s' r. admins_ok cuid s' \<Longrightarrow> Q s' r"
  shows "after (updateUser i (access_update now d rs sus sr) now) Q s"
proof -
  have "1 \<le> countAdmins (fst (updateUser i (access_update now d rs sus sr) now s))"
    by (rule admin_left_update [OF assms(1,2)]) (use assms(3) in auto)
  with assms(1) have "admins_ok cuid (fst (updateUser i (access_update now d rs sus sr) now s))"
    by (simp add: admins_ok_def updateUser_ok)
  with assms(4) show ?thesis by (simp add: after_def split_beta)
qed

lemma delete_keeps_admin [keeps_intros]: "keepsS (admins_ok cuid) (deleteUserForCurrentSession session request)"
  unfolding keepsS_after deleteUserForCurrentSession_def Let_def
  by (auto simp: after_simps on_success_def split: sum.split option.split elim!: admins_after_delete)

lemma update_keeps_admin [keeps_intros]: "keepsS (admins_ok cuid) (updateUserAccessForCurrentSession now session request)"
  unfolding keepsS_after updateUserAccessForCurrentSession_def Let_def
  by (auto simp: after_simps on_success_def split: sum.split option.split elim!: admins_after_update)

lemma create_keeps_admin [keeps_intros]:
  assumes "inj cuid"
  shows "keepsS (admins_ok cuid) (createUserForCurrentSession cuid hash now session request)"
proof -
  have "admins_ok cuid (fst (createUser cuid now inp s))" if "admins_ok cuid s" for inp and s :: "'a account_db_scheme"
    using that createUser_ok [OF assms, of s now inp] countAdmins_create [of s cuid now inp] by (auto simp: admins_ok_def)
  then have "keepsS (admins_ok cuid) (createUser cuid now inp :: ('a account_db_scheme, user_row) op)" for inp
    by (simp add: keepsS_def)
  then show ?thesis unfolding createUserForCurrentSession_def by (intro keeps_intros)
qed

section \<open>Properties\<close>

text \<open>The states that administrators reach from \<open>s\<close>, whatever the order of their requests.\<close>

inductive admin_run :: "(nat \<Rightarrow> string) \<Rightarrow> account_db \<Rightarrow> account_db \<Rightarrow> bool" for cuid s where
  start: "admin_run cuid s s"
| creates: "admin_run cuid s t \<Longrightarrow> admin_run cuid s (fst (createUserForCurrentSession cuid hash now session request t))"
| deletes: "admin_run cuid s t \<Longrightarrow> admin_run cuid s (fst (deleteUserForCurrentSession session i t))"
| updates: "admin_run cuid s t \<Longrightarrow> admin_run cuid s (fst (updateUserAccessForCurrentSession now session request t))"

text \<open>
  C20. The platform keeps an administrator: from tables that are well formed and have one, no sequence of
  creations, deletions and changes of access, whoever requests them and whether they succeed, reaches a
  state without one; and addresses and identifiers stay unique.
\<close>

theorem admins_never_vanish:
  assumes "inj cuid" and "tables_ok cuid s" and "1 \<le> countAdmins s" and "admin_run cuid s t"
  shows "1 \<le> countAdmins t \<and> tables_ok cuid t"
proof -
  have "admins_ok cuid t" using assms(4)
  proof induction
    case start
    then show ?case using assms(2,3) by (simp add: admins_ok_def)
  qed (auto intro!: keepsS_final [of "admins_ok cuid"] create_keeps_admin delete_keeps_admin update_keeps_admin assms(1))
  then show ?thesis by (simp add: admins_ok_def)
qed

definition root_user :: user_row where
  "root_user = \<lparr>us_id = ''u0'', us_email = ''root@q.io'', us_passwordHash = Some ''h'', us_emailVerifiedAt = None, us_displayName = None,
     us_avatarUrl = None, us_timezone = None, us_locale = None, us_uiPreferences = None, us_suspendedAt = None, us_suspendReason = None,
     us_lastLoginAt = None, us_createdAt = 0, us_updatedAt = 0, us_systemRoles = [''admin'']\<rparr>"

definition root_db :: account_db where
  "root_db = \<lparr>ad_users = [root_user], ad_sessions = [], ad_resets = [], ad_next = 1\<rparr>"

definition root_session :: current_session where
  "root_session = \<lparr>cs_personaKey = ''connected-user'', cs_user_id = ''u0'', cs_user_email = ''root@q.io'', cs_user_displayName = None,
     cs_user_emailVerifiedAt = None,
     cs_principal = \<lparr>sp_userId = ''u0'', sp_email = ''root@q.io'', sp_systemRoles = [''admin''], sp_entitlements = [], sp_featureFlags = []\<rparr>,
     cs_permissions = []\<rparr>"

definition root_ids :: "nat \<Rightarrow> string" where
  "root_ids n = CHR ''u'' # show_digits (int n)"

lemma inj_root_ids: "inj root_ids"
  by (rule injI) (auto simp: root_ids_def dest: show_digits_inj [rotated 2])

lemma root_db_ok: "tables_ok root_ids root_db" "countAdmins root_db = 1"
proof -
  have "root_ids 0 = ''u0''" by code_simp
  then show "tables_ok root_ids root_db" "countAdmins root_db = 1"
    by (simp_all add: tables_ok_def ids_ok_def root_db_def root_user_def countAdmins_def lessThan_Suc)
qed

theorem admins_never_vanish_witness:
  "1 \<le> countAdmins (fst (deleteUserForCurrentSession root_session (Some ''u1'') root_db)) \<and> tables_ok root_ids root_db"
  using admins_never_vanish [OF inj_root_ids root_db_ok(1) _ admin_run.deletes [OF admin_run.start], of root_session "Some ''u1''"] root_db_ok
  by simp

text \<open>
  The guard counts administrators that are suspended: an administrator who is the only user with a
  role may suspend the own account, and then nobody can sign in as an administrator any more.
\<close>

theorem last_admin_can_suspend_itself:
  assumes "tables_ok cuid s" and "findUserById (cs_user_id session) s = Some u"
    and "ad_allowed (canUpdateUsers (cs_principal session))"
    and "cs_user_id session \<noteq> []" and "trim (cs_user_id session) = cs_user_id session"
    and "\<And>v. v \<in> set (ad_users s) \<Longrightarrow> us_systemRoles v \<noteq> [] \<Longrightarrow> v = u"
  shows "\<exists>t r. updateUserAccessForCurrentSession now session
        (Some (JObj [(''userId'', JStr (cs_user_id session)), (''suspend'', JBool True)])) s = (t, Inr r)
      \<and> countAdmins t = countAdmins s
      \<and> (\<forall>v\<in>set (ad_users t). us_systemRoles v \<noteq> [] \<longrightarrow> us_suspendedAt v = Some now)"
proof -
  let ?i = "cs_user_id session"
  let ?f = "access_update now None None (Some (JBool True)) None"
  obtain t where t: "updateUser ?i ?f now s = (t, Inr ((?f u)\<lparr>us_updatedAt := now\<rparr>))"
      "ad_users t = map (\<lambda>x. if us_id x = ?i then (?f x)\<lparr>us_updatedAt := now\<rparr> else x) (ad_users s)"
    using assms(2) by (simp add: updateUser_def)
  have run: "updateUserAccessForCurrentSession now session (Some (JObj [(''userId'', JStr ?i), (''suspend'', JBool True)])) s
      = (t, Inr (mutation_result ((?f u)\<lparr>us_updatedAt := now\<rparr>)))"
    using assms(2-5) t(1)
    by (simp add: updateUserAccessForCurrentSession_def requireDecision_def required_body_def text_field_def Let_def
        normalizeAdminDisplayName_def normalizeOptionalAdminSystemRoles_def normalizeAdminSuspendReason_def has_mutation_def
        thenS_def bindS_def liftS_def getS_def retS_def rethrow_def)
  have "countAdmins t = countAdmins s"
    using countAdmins_update [OF assms(1,2), of ?f now] by (simp add: t(1) admin_weight_def access_update_roles)
  moreover have "us_suspendedAt v = Some now" if "v \<in> set (ad_users t)" "us_systemRoles v \<noteq> []" for v
  proof -
    have "v \<in> (\<lambda>x. if us_id x = ?i then (?f x)\<lparr>us_updatedAt := now\<rparr> else x) ` set (ad_users s)"
      using that(1) by (simp only: t(2) set_map)
    then obtain x where x: "x \<in> set (ad_users s)" "v = (if us_id x = ?i then (?f x)\<lparr>us_updatedAt := now\<rparr> else x)"
      by blast
    then have "us_systemRoles x \<noteq> []" using that(2) by (auto simp: access_update_roles split: if_splits)
    then have "us_id x = ?i" using assms(6) x(1) findUserById_SomeD [OF assms(2)] by blast
    with x(2) show ?thesis by (simp add: access_update_def)
  qed
  ultimately show ?thesis using run by blast
qed

theorem last_admin_can_suspend_itself_witness:
  "\<exists>t r. updateUserAccessForCurrentSession 7 root_session (Some (JObj [(''userId'', JStr ''u0''), (''suspend'', JBool True)])) root_db = (t, Inr r)
      \<and> countAdmins t = 1 \<and> list_all (\<lambda>v. us_systemRoles v = [] \<or> us_suspendedAt v = Some 7) (ad_users t)"
proof -
  have p: "ad_allowed (canUpdateUsers (cs_principal root_session))"
    by (simp add: root_session_def) code_simp
  have "trim ''u0'' = ''u0''" by (simp add: trim_def js_space_def)
  then obtain t r where "updateUserAccessForCurrentSession 7 root_session (Some (JObj [(''userId'', JStr ''u0''), (''suspend'', JBool True)])) root_db = (t, Inr r)"
      "countAdmins t = countAdmins root_db" "\<forall>v\<in>set (ad_users t). us_systemRoles v \<noteq> [] \<longrightarrow> us_suspendedAt v = Some 7"
    using last_admin_can_suspend_itself [OF root_db_ok(1) _ p, of root_user 7]
    by (auto simp: root_session_def root_db_def findUserById_def root_user_def)
  then show ?thesis using root_db_ok(2) by (auto simp: list_all_iff)
qed

end
