(* ===== verification/Settings.thy ===== *)
theory Settings
  imports Logger
begin

text \<open>
  Platform settings: the table of \<open>apps/api/src/settings/platform-settings.repository.ts\<close> and the
  service that \<open>retention-settings.service.ts\<close> and \<open>ai-pricing-settings.service.ts\<close> both implement,
  a policy stored as JSON under a key, read through a cache of one minute and updated by patches. The
  two services differ in the parser, the merge, the fallback and the audit entry, which are the
  parameters here; the locale \<open>policy_service\<close> states what the parser has to meet.
\<close>

section \<open>The table\<close>

record setting_row =
  sr_key :: string
  sr_valueJson :: json
  sr_updatedById :: "string option"
  sr_createdAt :: int
  sr_updatedAt :: int

text \<open>The arguments of an audit entry; the entry is keyed by its stream and source record.\<close>

record audit_entry =
  an_sourceRecordId :: string
  an_eventType :: string
  an_occurredAt :: int
  an_actorId :: string
  an_targetId :: string
  an_metadata :: json_object

record 'p settings_state =
  ss_rows :: "setting_row list"
  ss_cache :: "('p \<times> int) option"
  ss_audit :: "audit_entry list"

definition findByKey :: "string \<Rightarrow> 'p settings_state \<Rightarrow> setting_row option" where
  "findByKey key s = find (\<lambda>r. sr_key r = key) (ss_rows s)"

definition upsertJson :: "string \<Rightarrow> json \<Rightarrow> string option \<Rightarrow> int \<Rightarrow> ('p settings_state, setting_row) op" where
  "upsertJson key v by now s = (case findByKey key s of
     None \<Rightarrow>
       let r = \<lparr>sr_key = key, sr_valueJson = v, sr_updatedById = by, sr_createdAt = now, sr_updatedAt = now\<rparr>
       in (s\<lparr>ss_rows := ss_rows s @ [r]\<rparr>, Inr r)
   | Some old \<Rightarrow>
       let r = old\<lparr>sr_valueJson := v, sr_updatedById := by, sr_updatedAt := now\<rparr>
       in (s\<lparr>ss_rows := map (\<lambda>x. if sr_key x = key then r else x) (ss_rows s)\<rparr>, Inr r))"

definition upsertAudit :: "audit_entry \<Rightarrow> 'p settings_state \<Rightarrow> 'p settings_state" where
  "upsertAudit e s =
     (if an_sourceRecordId e \<in> set (map an_sourceRecordId (ss_audit s))
      then s\<lparr>ss_audit := map (\<lambda>x. if an_sourceRecordId x = an_sourceRecordId e then e else x) (ss_audit s)\<rparr>
      else s\<lparr>ss_audit := ss_audit s @ [e]\<rparr>)"

section \<open>The cached service\<close>

definition CACHE_TTL_MS :: int where
  "CACHE_TTL_MS = 60000"

definition getCachedEffectivePolicy :: "int \<Rightarrow> 'p settings_state \<Rightarrow> 'p option" where
  "getCachedEffectivePolicy now s = (case ss_cache s of
     None \<Rightarrow> None | Some (v, expiresAt) \<Rightarrow> if expiresAt \<le> now then None else Some v)"

definition setCachedEffectivePolicy :: "int \<Rightarrow> 'p \<Rightarrow> 'p settings_state \<Rightarrow> 'p settings_state" where
  "setCachedEffectivePolicy now p s = s\<lparr>ss_cache := Some (p, now + CACHE_TTL_MS)\<rparr>"

text \<open>\<open>up\<close> tells whether the database answers; any failure yields the fallback, which is cached too.\<close>

definition getEffectivePolicy ::
  "(json \<Rightarrow> 'p result) \<Rightarrow> 'p \<Rightarrow> string \<Rightarrow> bool \<Rightarrow> int \<Rightarrow> 'p settings_state \<Rightarrow> 'p settings_state \<times> 'p" where
  "getEffectivePolicy parse fallback key up now s = (case getCachedEffectivePolicy now s of
     Some p \<Rightarrow> (s, p)
   | None \<Rightarrow>
       let effective = (if \<not> up then fallback
             else case findByKey key s of
               None \<Rightarrow> fallback
             | Some row \<Rightarrow> (case parse (sr_valueJson row) of Inl _ \<Rightarrow> fallback | Inr p \<Rightarrow> p))
       in (setCachedEffectivePolicy now effective s, effective))"

record 'p policy_snapshot =
  ps_policy :: 'p
  ps_updatedAt :: "string option"
  ps_updatedById :: "string option"

definition getPolicy :: "(json \<Rightarrow> 'p result) \<Rightarrow> 'p \<Rightarrow> string \<Rightarrow> int \<Rightarrow> ('p settings_state, 'p policy_snapshot) op" where
  "getPolicy parse fallback key now s = (case findByKey key s of
     None \<Rightarrow> (s, Inr \<lparr>ps_policy = fallback, ps_updatedAt = None, ps_updatedById = None\<rparr>)
   | Some row \<Rightarrow> (case parse (sr_valueJson row) of
       Inl e \<Rightarrow> (s, Inl e)
     | Inr p \<Rightarrow> (setCachedEffectivePolicy now p s,
         Inr \<lparr>ps_policy = p, ps_updatedAt = Some (toISOString (sr_updatedAt row)), ps_updatedById = sr_updatedById row\<rparr>)))"

text \<open>Any error of the validation is answered as a bad request with its message.\<close>

definition as_bad_request :: "('s, 'a) op \<Rightarrow> ('s, 'a) op" where
  "as_bad_request m s = (case m s of
     (s', Inl (JsError message)) \<Rightarrow> (s', Inl (BadRequest message)) | r \<Rightarrow> r)"

text \<open>
  \<open>updateRetentionPolicy\<close> and \<open>updatePricingPolicy\<close>: \<open>entry\<close> is the audit entry of a change from a
  policy to another, \<open>auditUp\<close> tells whether writing it succeeds (a failure is only logged).
\<close>

definition updatePolicy ::
  "(json \<Rightarrow> 'p result) \<Rightarrow> (json \<Rightarrow> 'q result) \<Rightarrow> ('p \<Rightarrow> 'q \<Rightarrow> 'p result) \<Rightarrow> ('p \<Rightarrow> json) \<Rightarrow> ('p \<Rightarrow> 'q \<Rightarrow> 'p \<Rightarrow> string list) \<Rightarrow>
   (string list \<Rightarrow> 'p \<Rightarrow> 'p \<Rightarrow> audit_entry) \<Rightarrow> 'p \<Rightarrow> string \<Rightarrow> string \<Rightarrow> bool \<Rightarrow> int \<Rightarrow> json \<Rightarrow>
   ('p settings_state, 'p policy_snapshot) op" where
  "updatePolicy parse parsePatch merge to_json changed entry fallback key userId auditUp now request =
     bindS (as_bad_request
        (bindS (getPolicy parse fallback key now) (\<lambda>current.
           bindS (liftS (parsePatch request)) (\<lambda>patch.
             bindS (liftS (merge (ps_policy current) patch)) (\<lambda>nextPolicy. retS (ps_policy current, patch, nextPolicy))))))
      (\<lambda>(current, patch, nextPolicy).
        bindS (upsertJson key (to_json nextPolicy) (Some userId) now) (\<lambda>row.
          thenS (whenS (0 < length (changed current patch nextPolicy) \<and> auditUp)
              (putS (upsertAudit (entry (changed current patch nextPolicy) current nextPolicy))))
            (bindS (liftS (parse (sr_valueJson row))) (\<lambda>normalized.
              thenS (putS (setCachedEffectivePolicy now normalized))
                (retS \<lparr>ps_policy = normalized, ps_updatedAt = Some (toISOString (sr_updatedAt row)),
                       ps_updatedById = sr_updatedById row\<rparr>)))))"

section \<open>The contract of a policy\<close>

text \<open>
  A policy is read back from what is stored, a parsed policy is valid, and merging a parsed patch
  into a valid policy gives a valid policy.
\<close>

locale policy_service =
  fixes parse :: "json \<Rightarrow> 'p result"
    and parsePatch :: "json \<Rightarrow> 'q result"
    and merge :: "'p \<Rightarrow> 'q \<Rightarrow> 'p result"
    and to_json :: "'p \<Rightarrow> json"
    and valid :: "'p \<Rightarrow> bool"
  assumes parse_json: "valid p \<Longrightarrow> parse (to_json p) = Inr p"
    and parse_valid: "parse v = Inr p \<Longrightarrow> valid p"
    and merge_valid: "valid p \<Longrightarrow> parsePatch v = Inr q \<Longrightarrow> \<exists>p'. merge p q = Inr p' \<and> valid p'"

lemma findByKey_upsert:
  "upsertJson key v by now s = (s', Inr row) \<Longrightarrow>
     findByKey key s' = Some row \<and> sr_valueJson row = v \<and> ss_audit s' = ss_audit s"
proof (cases "findByKey key s")
  case None
  then show "upsertJson key v by now s = (s', Inr row) \<Longrightarrow> ?thesis"
    by (auto simp: upsertJson_def findByKey_def Let_def find_append)
next
  case (Some old)
  let ?new = "old\<lparr>sr_valueJson := v, sr_updatedById := by, sr_updatedAt := now\<rparr>"
  have k: "sr_key old = key" using Some by (auto simp: findByKey_def dest: find_SomeD)
  have "find (\<lambda>r. sr_key r = key) (map (\<lambda>x. if sr_key x = key then ?new else x) (ss_rows s))
      = map_option (\<lambda>x. if sr_key x = key then ?new else x) (findByKey key s)"
    unfolding findByKey_def by (rule find_map_preserving) (simp add: k)
  with Some k show "upsertJson key v by now s = (s', Inr row) \<Longrightarrow> ?thesis"
    by (auto simp: upsertJson_def findByKey_def Let_def)
qed

lemma findByKey_frame [simp]:
  "findByKey key (upsertAudit e s) = findByKey key s"
  "findByKey key (setCachedEffectivePolicy now p s) = findByKey key s"
  by (simp_all add: findByKey_def upsertAudit_def setCachedEffectivePolicy_def)

context policy_service
begin

text \<open>After an update, every read returns the merged policy, from the cache and from the table.\<close>

lemma update_then_read:
  assumes "updatePolicy parse parsePatch merge to_json changed entry fallback key userId auditUp now request s = (s', Inr snap)"
    and "valid fallback"
  shows "\<exists>current patch. parsePatch request = Inr patch \<and> merge current patch = Inr (ps_policy snap)
    \<and> (case findByKey key s of None \<Rightarrow> current = fallback | Some row \<Rightarrow> parse (sr_valueJson row) = Inr current)
    \<and> valid (ps_policy snap)
    \<and> (\<exists>row. findByKey key s' = Some row \<and> parse (sr_valueJson row) = Inr (ps_policy snap))
    \<and> snd (getEffectivePolicy parse fallback key True later s') = ps_policy snap"
proof -
  obtain s1 current patch next_policy s2 row s3 normalized where
    1: "(bindS (getPolicy parse fallback key now) (\<lambda>current.
           bindS (liftS (parsePatch request)) (\<lambda>patch.
             bindS (liftS (merge (ps_policy current) patch)) (\<lambda>nextPolicy. retS (ps_policy current, patch, nextPolicy))))) s
        = (s1, Inr (current, patch, next_policy))"
    and 2: "upsertJson key (to_json next_policy) (Some userId) now s1 = (s2, Inr row)"
    and 3: "whenS (0 < length (changed current patch next_policy) \<and> auditUp)
              (putS (upsertAudit (entry (changed current patch next_policy) current next_policy))) s2 = (s3, Inr ())"
    and 4: "parse (sr_valueJson row) = Inr normalized" "s' = setCachedEffectivePolicy now normalized s3" "ps_policy snap = normalized"
    using assms(1) unfolding updatePolicy_def
    by (auto simp: op_elims as_bad_request_def split: prod.splits sum.splits error.splits)
  obtain snap0 where g: "getPolicy parse fallback key now s = (s1, Inr snap0)" "current = ps_policy snap0"
      "parsePatch request = Inr patch" "merge current patch = Inr next_policy"
    using 1 by (auto simp: op_elims)
  have cur: "(case findByKey key s of None \<Rightarrow> current = fallback | Some row \<Rightarrow> parse (sr_valueJson row) = Inr current)"
    using g(1,2) by (auto simp: getPolicy_def split: option.splits sum.splits)
  then have "valid current" using assms(2) parse_valid by (auto split: option.splits)
  then have v: "valid next_policy" using merge_valid [OF _ g(3)] g(4) by fastforce
  have row: "findByKey key s2 = Some row" "sr_valueJson row = to_json next_policy" using findByKey_upsert [OF 2] by simp_all
  have n: "normalized = next_policy" using 4(1) parse_json [OF v] row(2) by simp
  have f: "findByKey key s' = Some row"
    using 3 row(1) 4(2) by (auto simp: whenS_def op_elims split: if_splits)
  have "snd (getEffectivePolicy parse fallback key True later s') = normalized"
    using f 4(1) by (auto simp: getEffectivePolicy_def getCachedEffectivePolicy_def Let_def 4(2) setCachedEffectivePolicy_def [of _ _ s3])
  with g(3,4) cur v f 4 n show ?thesis by blast
qed

end

end
