(* ===== verification/Retention.thy ===== *)
theory Retention
  imports AuthTokens Queue Settings
begin

text \<open>
  The retention policy of the platform: its fields, ranges, parsing, patching and merging
  (\<open>apps/api/src/settings/retention-policy.ts\<close>), the settings table
  (\<open>platform-settings.repository.ts\<close>) and the service with its cache
  (\<open>retention-settings.service.ts\<close>). The numeric and the boolean fields are two enumerations; a
  policy maps each field to its value.
\<close>

section \<open>Fields\<close>

datatype numeric_field =
    AiHistoryContentDays | AiHistoryAttachmentDays | AdminLogActivityDays | AdminLogDomainDays | AdminLogSystemDays
  | AdminLogAuditDays | AdminLogSecurityDays | AdminLogAdminDays | AccessTokenLifetimeMinutes | RefreshTokenLifetimeDays
  | ExtensionSessionLifetimeHours | ExtensionSessionRefreshAfterSeconds | MaxPromptImageAttachments
  | MaxPromptImageAttachmentMegabytes | PasswordResetLifetimeHours

datatype boolean_field = AdminLogRetentionEnabled | AdminLogSensitiveRetentionEnabled

datatype queue_field = Attempts | RemoveOnComplete | RemoveOnFail

definition numeric_name :: "numeric_field \<Rightarrow> string" where
  "numeric_name f = (case f of
     AiHistoryContentDays \<Rightarrow> ''aiHistoryContentDays'' | AiHistoryAttachmentDays \<Rightarrow> ''aiHistoryAttachmentDays''
   | AdminLogActivityDays \<Rightarrow> ''adminLogActivityDays'' | AdminLogDomainDays \<Rightarrow> ''adminLogDomainDays''
   | AdminLogSystemDays \<Rightarrow> ''adminLogSystemDays'' | AdminLogAuditDays \<Rightarrow> ''adminLogAuditDays''
   | AdminLogSecurityDays \<Rightarrow> ''adminLogSecurityDays'' | AdminLogAdminDays \<Rightarrow> ''adminLogAdminDays''
   | AccessTokenLifetimeMinutes \<Rightarrow> ''accessTokenLifetimeMinutes'' | RefreshTokenLifetimeDays \<Rightarrow> ''refreshTokenLifetimeDays''
   | ExtensionSessionLifetimeHours \<Rightarrow> ''extensionSessionLifetimeHours''
   | ExtensionSessionRefreshAfterSeconds \<Rightarrow> ''extensionSessionRefreshAfterSeconds''
   | MaxPromptImageAttachments \<Rightarrow> ''maxPromptImageAttachments''
   | MaxPromptImageAttachmentMegabytes \<Rightarrow> ''maxPromptImageAttachmentMegabytes''
   | PasswordResetLifetimeHours \<Rightarrow> ''passwordResetLifetimeHours'')"

definition editableNumericFields :: "numeric_field list" where
  "editableNumericFields = [AiHistoryContentDays, AiHistoryAttachmentDays, AdminLogActivityDays, AdminLogDomainDays,
     AdminLogSystemDays, AdminLogAuditDays, AdminLogSecurityDays, AdminLogAdminDays, AccessTokenLifetimeMinutes,
     RefreshTokenLifetimeDays, ExtensionSessionLifetimeHours, ExtensionSessionRefreshAfterSeconds, MaxPromptImageAttachments,
     MaxPromptImageAttachmentMegabytes, PasswordResetLifetimeHours]"

definition retentionPolicyRanges :: "numeric_field \<Rightarrow> int \<times> int" where
  "retentionPolicyRanges f = (case f of
     AiHistoryContentDays \<Rightarrow> (1, 365) | AiHistoryAttachmentDays \<Rightarrow> (1, 365)
   | AdminLogActivityDays \<Rightarrow> (1, 3650) | AdminLogDomainDays \<Rightarrow> (1, 3650) | AdminLogSystemDays \<Rightarrow> (1, 3650)
   | AdminLogAuditDays \<Rightarrow> (30, 3650) | AdminLogSecurityDays \<Rightarrow> (30, 3650) | AdminLogAdminDays \<Rightarrow> (30, 3650)
   | AccessTokenLifetimeMinutes \<Rightarrow> (5, 1440) | RefreshTokenLifetimeDays \<Rightarrow> (1, 365)
   | ExtensionSessionLifetimeHours \<Rightarrow> (1, 720) | ExtensionSessionRefreshAfterSeconds \<Rightarrow> (60, 86400)
   | MaxPromptImageAttachments \<Rightarrow> (1, 20) | MaxPromptImageAttachmentMegabytes \<Rightarrow> (1, 25)
   | PasswordResetLifetimeHours \<Rightarrow> (1, 24))"

definition boolean_name :: "boolean_field \<Rightarrow> string" where
  "boolean_name f = (case f of
     AdminLogRetentionEnabled \<Rightarrow> ''adminLogRetentionEnabled''
   | AdminLogSensitiveRetentionEnabled \<Rightarrow> ''adminLogSensitiveRetentionEnabled'')"

definition editableBooleanFields :: "boolean_field list" where
  "editableBooleanFields = [AdminLogRetentionEnabled, AdminLogSensitiveRetentionEnabled]"

definition queue_field_name :: "queue_field \<Rightarrow> string" where
  "queue_field_name f = (case f of
     Attempts \<Rightarrow> ''attempts'' | RemoveOnComplete \<Rightarrow> ''removeOnComplete'' | RemoveOnFail \<Rightarrow> ''removeOnFail'')"

definition editableQueueHistoryFields :: "queue_field list" where
  "editableQueueHistoryFields = [Attempts, RemoveOnComplete, RemoveOnFail]"

definition queueHistoryFieldRanges :: "queue_field \<Rightarrow> int \<times> int" where
  "queueHistoryFieldRanges f = (case f of
     Attempts \<Rightarrow> (1, 20) | RemoveOnComplete \<Rightarrow> (0, 10000) | RemoveOnFail \<Rightarrow> (0, 10000))"

definition queue_get :: "queue_policy_entry \<Rightarrow> queue_field \<Rightarrow> int" where
  "queue_get e f = (case f of
     Attempts \<Rightarrow> qe_attempts e | RemoveOnComplete \<Rightarrow> qe_removeOnComplete e | RemoveOnFail \<Rightarrow> qe_removeOnFail e)"

definition queue_set :: "queue_field \<Rightarrow> int \<Rightarrow> queue_policy_entry \<Rightarrow> queue_policy_entry" where
  "queue_set f i e = (case f of
     Attempts \<Rightarrow> e\<lparr>qe_attempts := i\<rparr> | RemoveOnComplete \<Rightarrow> e\<lparr>qe_removeOnComplete := i\<rparr>
   | RemoveOnFail \<Rightarrow> e\<lparr>qe_removeOnFail := i\<rparr>)"

record retention_policy =
  po_numbers :: "numeric_field \<Rightarrow> int"
  po_flags :: "boolean_field \<Rightarrow> bool"
  po_legacyAiRequestDays :: int
  po_emailVerificationLifetimeHours :: int
  po_queueHistory :: queue_policy

definition defaultRetentionPolicy :: retention_policy where
  "defaultRetentionPolicy =
     \<lparr>po_numbers = (\<lambda>f. case f of
        AiHistoryContentDays \<Rightarrow> 7 | AiHistoryAttachmentDays \<Rightarrow> 7 | AdminLogActivityDays \<Rightarrow> 30 | AdminLogDomainDays \<Rightarrow> 30
      | AdminLogSystemDays \<Rightarrow> 30 | AdminLogAuditDays \<Rightarrow> 365 | AdminLogSecurityDays \<Rightarrow> 365 | AdminLogAdminDays \<Rightarrow> 365
      | AccessTokenLifetimeMinutes \<Rightarrow> ACCESS_TOKEN_LIFETIME_MINUTES | RefreshTokenLifetimeDays \<Rightarrow> REFRESH_TOKEN_LIFETIME_DAYS
      | ExtensionSessionLifetimeHours \<Rightarrow> 1 | ExtensionSessionRefreshAfterSeconds \<Rightarrow> 900 | MaxPromptImageAttachments \<Rightarrow> 8
      | MaxPromptImageAttachmentMegabytes \<Rightarrow> 10 | PasswordResetLifetimeHours \<Rightarrow> PASSWORD_RESET_LIFETIME_HOURS),
      po_flags = (\<lambda>_. False), po_legacyAiRequestDays = 7,
      po_emailVerificationLifetimeHours = EMAIL_VERIFICATION_LIFETIME_HOURS, po_queueHistory = QUEUE_HISTORY_DEFAULTS\<rparr>"

section \<open>Parsing\<close>

definition range_message :: "string \<Rightarrow> int \<times> int \<Rightarrow> error" where
  "range_message name r = JsError (name @ '' must be between '' @ show_int (fst r) @ '' and '' @ show_int (snd r) @ ''.'')"

text \<open>\<open>parseIntegerField\<close> and \<open>parseQueueHistoryIntegerField\<close> differ in the name and the range only.\<close>

definition parse_integer :: "string \<Rightarrow> int \<times> int \<Rightarrow> json \<Rightarrow> int result" where
  "parse_integer name r v = (case v of
     JNum n \<Rightarrow>
       if \<not> num_is_integer n then Inl (JsError (name @ '' must be a finite integer number.''))
       else if num_to_int n < fst r \<or> snd r < num_to_int n then Inl (range_message name r)
       else Inr (num_to_int n)
   | _ \<Rightarrow> Inl (JsError (name @ '' must be a finite integer number.'')))"

definition parseIntegerField :: "numeric_field \<Rightarrow> json \<Rightarrow> int result" where
  "parseIntegerField f v = parse_integer (numeric_name f) (retentionPolicyRanges f) v"

definition parseBooleanField :: "boolean_field \<Rightarrow> json \<Rightarrow> bool result" where
  "parseBooleanField f v = (case v of JBool b \<Rightarrow> Inr b | _ \<Rightarrow> Inl (JsError (boolean_name f @ '' must be a boolean.'')))"

definition queue_path :: "platform_queue \<Rightarrow> string \<Rightarrow> string" where
  "queue_path q key = ''queueHistory.'' @ queue_name q @ ''.'' @ key"

definition parseQueueHistoryIntegerField :: "platform_queue \<Rightarrow> queue_field \<Rightarrow> json \<Rightarrow> int result" where
  "parseQueueHistoryIntegerField q f v = parse_integer (queue_path q (queue_field_name f)) (queueHistoryFieldRanges f) v"

definition queue_named :: "string \<Rightarrow> platform_queue result" where
  "queue_named name = (case find (\<lambda>q. queue_name q = name) queueNames of
     None \<Rightarrow> Inl (JsError (''Unknown queue history field: '' @ name @ ''.'')) | Some q \<Rightarrow> Inr q)"

definition queue_field_named :: "platform_queue \<Rightarrow> string \<Rightarrow> queue_field result" where
  "queue_field_named q key = (case find (\<lambda>f. queue_field_name f = key) editableQueueHistoryFields of
     None \<Rightarrow> Inl (JsError (''Unknown queue history field: '' @ queue_path q key @ ''.'')) | Some f \<Rightarrow> Inr f)"

definition object_entries :: "string \<Rightarrow> json \<Rightarrow> (string \<times> json) list result" where
  "object_entries name v = (case v of JObj es \<Rightarrow> Inr es | _ \<Rightarrow> Inl (JsError (name @ '' must be an object.'')))"

definition parse_queue_entry :: "platform_queue \<Rightarrow> string \<times> json \<Rightarrow> queue_policy \<Rightarrow> queue_policy result" where
  "parse_queue_entry q = (\<lambda>(key, v) p.
     bindR (queue_field_named q key) (\<lambda>f. bindR (parseQueueHistoryIntegerField q f v) (\<lambda>i. Inr (p(q := queue_set f i (p q))))))"

definition parse_queue :: "string \<times> json \<Rightarrow> queue_policy \<Rightarrow> queue_policy result" where
  "parse_queue = (\<lambda>(name, v) p.
     bindR (queue_named name) (\<lambda>q. bindR (object_entries (''queueHistory.'' @ name) v) (\<lambda>es. foldR (parse_queue_entry q) es p)))"

definition parseQueueHistoryPolicy :: "json \<Rightarrow> queue_policy result" where
  "parseQueueHistoryPolicy v =
     bindR (object_entries ''queueHistory'' v) (\<lambda>es. foldR parse_queue es QUEUE_HISTORY_DEFAULTS)"

definition read_number :: "json_object \<Rightarrow> numeric_field \<Rightarrow> retention_policy \<Rightarrow> retention_policy result" where
  "read_number source f p = (case map_of source (numeric_name f) of
     None \<Rightarrow> Inr p
   | Some v \<Rightarrow> bindR (parseIntegerField f v) (\<lambda>i. Inr (p\<lparr>po_numbers := (po_numbers p)(f := i)\<rparr>)))"

definition read_flag :: "json_object \<Rightarrow> boolean_field \<Rightarrow> retention_policy \<Rightarrow> retention_policy result" where
  "read_flag source f p = (case map_of source (boolean_name f) of
     None \<Rightarrow> Inr p
   | Some v \<Rightarrow> bindR (parseBooleanField f v) (\<lambda>b. Inr (p\<lparr>po_flags := (po_flags p)(f := b)\<rparr>)))"

definition read_legacy :: "json_object \<Rightarrow> retention_policy \<Rightarrow> retention_policy result" where
  "read_legacy source p = (case map_of source ''legacyAiRequestDays'' of
     None \<Rightarrow> Inr p
   | Some v \<Rightarrow> (case parse_integer [] (1, 365) v of
       Inl _ \<Rightarrow> Inl (JsError ''legacyAiRequestDays must be between 1 and 365 when provided.'')
     | Inr i \<Rightarrow> Inr (p\<lparr>po_legacyAiRequestDays := i\<rparr>)))"

definition read_queues :: "json_object \<Rightarrow> retention_policy \<Rightarrow> retention_policy result" where
  "read_queues source p = (case map_of source ''queueHistory'' of
     None \<Rightarrow> Inr p
   | Some v \<Rightarrow> bindR (parseQueueHistoryPolicy v) (\<lambda>q. Inr (p\<lparr>po_queueHistory := q\<rparr>)))"

definition parseAndNormalizeRetentionPolicy :: "json \<Rightarrow> retention_policy result" where
  "parseAndNormalizeRetentionPolicy input =
     (let source = (case input of JObj es \<Rightarrow> es | _ \<Rightarrow> [])
      in bindR (foldR (read_number source) editableNumericFields defaultRetentionPolicy) (\<lambda>p1.
           bindR (foldR (read_flag source) editableBooleanFields p1) (\<lambda>p2.
             bindR (read_legacy source p2) (read_queues source))))"

section \<open>Patches\<close>

record retention_patch =
  pa_numbers :: "numeric_field \<Rightarrow> int option"
  pa_flags :: "boolean_field \<Rightarrow> bool option"
  pa_queueHistory :: "(platform_queue \<Rightarrow> (queue_field \<Rightarrow> int option) option) option"

definition check_patch_key :: "string \<times> json \<Rightarrow> unit result" where
  "check_patch_key = (\<lambda>(key, v).
     if key = ''legacyAiRequestDays'' then Inl (JsError ''legacyAiRequestDays is read-only for legacy rows and cannot be updated.'')
     else if key = ''emailVerificationLifetimeHours'' then Inl (JsError
       ''emailVerificationLifetimeHours is reserved for a future email verification flow and cannot be updated yet.'')
     else if key = ''queueHistory'' then Inr ()
     else if key \<notin> set (map numeric_name editableNumericFields) \<union> set (map boolean_name editableBooleanFields)
       then Inl (JsError (''Unknown retention field: '' @ key @ ''.''))
     else Inr ())"

definition patch_number :: "json_object \<Rightarrow> numeric_field \<Rightarrow> retention_patch \<Rightarrow> retention_patch result" where
  "patch_number source f p = (case map_of source (numeric_name f) of
     None \<Rightarrow> Inr p
   | Some v \<Rightarrow> bindR (parseIntegerField f v) (\<lambda>i. Inr (p\<lparr>pa_numbers := (pa_numbers p)(f := Some i)\<rparr>)))"

definition patch_flag :: "json_object \<Rightarrow> boolean_field \<Rightarrow> retention_patch \<Rightarrow> retention_patch result" where
  "patch_flag source f p = (case map_of source (boolean_name f) of
     None \<Rightarrow> Inr p
   | Some v \<Rightarrow> bindR (parseBooleanField f v) (\<lambda>b. Inr (p\<lparr>pa_flags := (pa_flags p)(f := Some b)\<rparr>)))"

definition patch_queue_entry ::
  "platform_queue \<Rightarrow> string \<times> json \<Rightarrow> (queue_field \<Rightarrow> int option) \<Rightarrow> (queue_field \<Rightarrow> int option) result" where
  "patch_queue_entry q = (\<lambda>(key, v) e.
     bindR (queue_field_named q key) (\<lambda>f. bindR (parseQueueHistoryIntegerField q f v) (\<lambda>i. Inr (e(f := Some i)))))"

definition patch_queue ::
  "string \<times> json \<Rightarrow> (platform_queue \<Rightarrow> (queue_field \<Rightarrow> int option) option) \<Rightarrow>
   (platform_queue \<Rightarrow> (queue_field \<Rightarrow> int option) option) result" where
  "patch_queue = (\<lambda>(name, v) qs.
     bindR (queue_named name) (\<lambda>q. bindR (object_entries (''queueHistory.'' @ name) v) (\<lambda>es.
       bindR (foldR (patch_queue_entry q) es (\<lambda>_. None)) (\<lambda>e. Inr (qs(q := Some e))))))"

definition parseRetentionPolicyPatch :: "json \<Rightarrow> retention_patch result" where
  "parseRetentionPolicyPatch input = (case input of
     JObj source \<Rightarrow>
       bindR (foldR (\<lambda>kv _. check_patch_key kv) source ()) (\<lambda>_.
         bindR (foldR (patch_number source) editableNumericFields
             \<lparr>pa_numbers = (\<lambda>_. None), pa_flags = (\<lambda>_. None), pa_queueHistory = None\<rparr>) (\<lambda>p1.
           bindR (foldR (patch_flag source) editableBooleanFields p1) (\<lambda>p2.
             case map_of source ''queueHistory'' of
               None \<Rightarrow> Inr p2
             | Some v \<Rightarrow> bindR (object_entries ''queueHistory'' v) (\<lambda>es.
                 bindR (foldR patch_queue es (\<lambda>_. None)) (\<lambda>qs. Inr (p2\<lparr>pa_queueHistory := Some qs\<rparr>))))))
   | _ \<Rightarrow> Inl (JsError ''Retention policy patch must be an object.''))"

definition merged_entry :: "queue_policy_entry \<Rightarrow> (queue_field \<Rightarrow> int option) \<Rightarrow> queue_policy_entry" where
  "merged_entry e patch = fold (\<lambda>f e. case patch f of None \<Rightarrow> e | Some i \<Rightarrow> queue_set f i e) editableQueueHistoryFields e"

definition merged_queues :: "queue_policy \<Rightarrow> (platform_queue \<Rightarrow> (queue_field \<Rightarrow> int option) option) option \<Rightarrow> queue_policy" where
  "merged_queues base patch = (case patch of
     None \<Rightarrow> base
   | Some qs \<Rightarrow> (\<lambda>q. case qs q of None \<Rightarrow> base q | Some e \<Rightarrow> merged_entry (base q) e))"

text \<open>A policy as the JSON object that is stored.\<close>

definition queue_json :: "queue_policy \<Rightarrow> json" where
  "queue_json p = JObj (map (\<lambda>q. (queue_name q,
     JObj (map (\<lambda>f. (queue_field_name f, jint (queue_get (p q) f))) editableQueueHistoryFields))) queueNames)"

definition policy_json :: "retention_policy \<Rightarrow> json_object" where
  "policy_json p =
     map (\<lambda>f. (numeric_name f, jint (po_numbers p f))) editableNumericFields
     @ map (\<lambda>f. (boolean_name f, JBool (po_flags p f))) editableBooleanFields
     @ [(''legacyAiRequestDays'', jint (po_legacyAiRequestDays p)),
        (''emailVerificationLifetimeHours'', jint (po_emailVerificationLifetimeHours p)),
        (''queueHistory'', queue_json (po_queueHistory p))]"

text \<open>The fields of the patch over those of the base.\<close>

definition overlay :: "retention_policy \<Rightarrow> retention_patch \<Rightarrow> retention_policy" where
  "overlay base patch = base
     \<lparr>po_numbers := (\<lambda>f. nullish (pa_numbers patch f) (po_numbers base f)),
      po_flags := (\<lambda>f. nullish (pa_flags patch f) (po_flags base f)),
      po_queueHistory := merged_queues (po_queueHistory base) (pa_queueHistory patch)\<rparr>"

definition mergeRetentionPolicy :: "retention_policy \<Rightarrow> retention_patch \<Rightarrow> retention_policy result" where
  "mergeRetentionPolicy base patch = parseAndNormalizeRetentionPolicy (JObj (policy_json (overlay base patch)))"


section \<open>Valid policies\<close>

definition in_range :: "int \<times> int \<Rightarrow> int \<Rightarrow> bool" where
  "in_range r i \<longleftrightarrow> fst r \<le> i \<and> i \<le> snd r"

definition queues_ok :: "queue_policy \<Rightarrow> bool" where
  "queues_ok p \<longleftrightarrow> (\<forall>q f. in_range (queueHistoryFieldRanges f) (queue_get (p q) f))"

definition policy_ok :: "retention_policy \<Rightarrow> bool" where
  "policy_ok p \<longleftrightarrow> (\<forall>f. in_range (retentionPolicyRanges f) (po_numbers p f))
     \<and> in_range (1, 365) (po_legacyAiRequestDays p)
     \<and> po_emailVerificationLifetimeHours p = EMAIL_VERIFICATION_LIFETIME_HOURS
     \<and> queues_ok (po_queueHistory p)"

definition patch_ok :: "retention_patch \<Rightarrow> bool" where
  "patch_ok p \<longleftrightarrow> (\<forall>f i. pa_numbers p f = Some i \<longrightarrow> in_range (retentionPolicyRanges f) i)
     \<and> (\<forall>qs q e f i. pa_queueHistory p = Some qs \<longrightarrow> qs q = Some e \<longrightarrow> e f = Some i \<longrightarrow> in_range (queueHistoryFieldRanges f) i)"

lemma in_fields [simp]:
  "n \<in> set editableNumericFields" "b \<in> set editableBooleanFields" "f \<in> set editableQueueHistoryFields" "q \<in> set queueNames"
  by (cases n, simp_all add: editableNumericFields_def) (cases b, simp_all add: editableBooleanFields_def,
    cases f, simp_all add: editableQueueHistoryFields_def, cases q, simp_all add: queueNames_def)

lemma parse_integer_in_range: "parse_integer name r v = Inr i \<Longrightarrow> in_range r i"
  by (auto simp: parse_integer_def in_range_def split: json.splits if_splits)

lemma parse_integer_jint [simp]:
  "parse_integer name r (jint i) = (if in_range r i then Inr i else Inl (range_message name r))"
  by (auto simp: parse_integer_def in_range_def jint_def)

lemma queue_get_set: "queue_get (queue_set f i e) g = (if g = f then i else queue_get e g)"
  by (cases f; cases g) (simp_all add: queue_get_def queue_set_def)

lemma queues_ok_set: "queues_ok p \<Longrightarrow> in_range (queueHistoryFieldRanges f) i \<Longrightarrow> queues_ok (p(q := queue_set f i (p q)))"
  by (simp add: queues_ok_def queue_get_set)

lemma queues_ok_default: "queues_ok QUEUE_HISTORY_DEFAULTS"
  unfolding queues_ok_def
proof (intro allI)
  fix q f show "in_range (queueHistoryFieldRanges f) (queue_get (QUEUE_HISTORY_DEFAULTS q) f)"
    by (cases q; cases f)
      (simp_all add: QUEUE_HISTORY_DEFAULTS_def policy_entry_def queue_get_def queueHistoryFieldRanges_def in_range_def)
qed

lemma default_ok: "policy_ok defaultRetentionPolicy"
proof -
  have "in_range (retentionPolicyRanges f) (po_numbers defaultRetentionPolicy f)" for f
    by (cases f) (simp_all add: defaultRetentionPolicy_def retentionPolicyRanges_def in_range_def
        ACCESS_TOKEN_LIFETIME_MINUTES_def REFRESH_TOKEN_LIFETIME_DAYS_def PASSWORD_RESET_LIFETIME_HOURS_def)
  then show ?thesis by (simp add: policy_ok_def defaultRetentionPolicy_def queues_ok_default in_range_def)
qed

lemma parse_queue_ok: "parse_queue x p = Inr p' \<Longrightarrow> queues_ok p \<Longrightarrow> queues_ok p'"
  unfolding parse_queue_def
  by (auto split: prod.splits elim!: foldR_invariant [where P = queues_ok]
      simp: parse_queue_entry_def parseQueueHistoryIntegerField_def intro!: queues_ok_set dest: parse_integer_in_range)

lemma parseQueueHistoryPolicy_ok: "parseQueueHistoryPolicy v = Inr p \<Longrightarrow> queues_ok p"
  unfolding parseQueueHistoryPolicy_def
  by (auto elim!: foldR_invariant [where P = queues_ok] simp: queues_ok_default dest: parse_queue_ok)

lemma parsed_policy_ok:
  assumes "parseAndNormalizeRetentionPolicy input = Inr p"
  shows "policy_ok p"
proof -
  define source where "source = (case input of JObj es \<Rightarrow> es | _ \<Rightarrow> [])"
  obtain p1 p2 p3 where 1: "foldR (read_number source) editableNumericFields defaultRetentionPolicy = Inr p1"
    and 2: "foldR (read_flag source) editableBooleanFields p1 = Inr p2"
    and 3: "read_legacy source p2 = Inr p3" and 4: "read_queues source p3 = Inr p"
    using assms by (auto simp: parseAndNormalizeRetentionPolicy_def source_def Let_def)
  have "policy_ok p1" using 1 default_ok
    by (rule foldR_invariant) (auto simp: read_number_def policy_ok_def parseIntegerField_def split: option.splits dest: parse_integer_in_range)
  with 2 have "policy_ok p2"
    by (rule foldR_invariant) (auto simp: read_flag_def policy_ok_def split: option.splits)
  with 3 have "policy_ok p3"
    by (auto simp: read_legacy_def policy_ok_def split: option.splits sum.splits dest: parse_integer_in_range)
  with 4 show ?thesis
    by (auto simp: read_queues_def policy_ok_def split: option.splits dest: parseQueueHistoryPolicy_ok)
qed

section \<open>Reading back a stored policy\<close>

lemma map_of_map_name: "inj name \<Longrightarrow> map_of (map (\<lambda>x. (name x, g x)) xs) (name y) = (if y \<in> set xs then Some (g y) else None)"
  by (induction xs) (auto dest: injD)

lemma names_inj: "inj numeric_name" "inj boolean_name" "inj queue_name" "inj queue_field_name"
  by (rule injI; rename_tac x y; case_tac x; case_tac y;
      simp add: numeric_name_def boolean_name_def queue_name_def queue_field_name_def)+

lemma names_apart:
  "boolean_name b \<noteq> numeric_name f" "numeric_name f \<noteq> ''legacyAiRequestDays''" "numeric_name f \<noteq> ''queueHistory''"
  "boolean_name b \<noteq> ''legacyAiRequestDays''" "boolean_name b \<noteq> ''queueHistory''"
  by (cases f; cases b; simp add: numeric_name_def boolean_name_def)+

lemma map_of_named_None: "(\<And>x. name x \<noteq> k) \<Longrightarrow> map_of (map (\<lambda>x. (name x, g x)) xs) k = None"
  by (induction xs) auto

lemma policy_json_lookup [simp]:
  "map_of (policy_json p) (numeric_name f) = Some (jint (po_numbers p f))"
  "map_of (policy_json p) (boolean_name b) = Some (JBool (po_flags p b))"
  "map_of (policy_json p) ''legacyAiRequestDays'' = Some (jint (po_legacyAiRequestDays p))"
  "map_of (policy_json p) ''queueHistory'' = Some (queue_json (po_queueHistory p))"
  unfolding policy_json_def map_of_append
  by (simp_all add: map_add_def map_of_map_name [OF names_inj(1)] map_of_map_name [OF names_inj(2)] map_of_named_None
      names_apart names_apart [symmetric])

lemma queue_named_name [simp]: "queue_named (queue_name q) = Inr q"
  by (cases q) (simp_all add: queue_named_def queueNames_def queue_name_def)

lemma queue_field_named_name [simp]: "queue_field_named q (queue_field_name f) = Inr f"
  by (cases f) (simp_all add: queue_field_named_def editableQueueHistoryFields_def queue_field_name_def)

lemma parse_entry_json:
  assumes "queues_ok p"
  shows "foldR (parse_queue_entry q) (map (\<lambda>f. (queue_field_name f, jint (queue_get (p q) f))) editableQueueHistoryFields) p0
    = Inr (p0(q := p q))"
proof -
  have r: "in_range (queueHistoryFieldRanges f) (queue_get (p q) f)" for f using assms by (simp add: queues_ok_def)
  have "foldR (parse_queue_entry q) (map (\<lambda>f. (queue_field_name f, jint (queue_get (p q) f))) editableQueueHistoryFields) p0
    = Inr (p0(q := queue_set RemoveOnFail (queue_get (p q) RemoveOnFail)
        (queue_set RemoveOnComplete (queue_get (p q) RemoveOnComplete) (queue_set Attempts (queue_get (p q) Attempts) (p0 q)))))"
    by (simp add: editableQueueHistoryFields_def parse_queue_entry_def parseQueueHistoryIntegerField_def r)
  also have "\<dots> = Inr (p0(q := p q))"
    by (cases "p q"; cases "p0 q") (simp add: queue_set_def queue_get_def)
  finally show ?thesis .
qed

lemma parse_queue_json: "queues_ok p \<Longrightarrow> parseQueueHistoryPolicy (queue_json p) = Inr p"
  by (simp add: parseQueueHistoryPolicy_def queue_json_def object_entries_def)
    (simp add: queueNames_def parse_queue_def object_entries_def parse_entry_json fun_eq_iff split: platform_queue.splits,
      metis platform_queue.exhaust)

lemma foldR_all: "(\<And>x s. x \<in> set xs \<Longrightarrow> f x s = Inr (g x s)) \<Longrightarrow> foldR f xs s = Inr (fold g xs s)"
  by (induction xs arbitrary: s) auto

lemma fold_numbers: "fold (\<lambda>f p. p\<lparr>po_numbers := (po_numbers p)(f := g f)\<rparr>) fs p
    = p\<lparr>po_numbers := (\<lambda>f. if f \<in> set fs then g f else po_numbers p f)\<rparr>"
  by (induction fs arbitrary: p) (auto simp: fun_eq_iff)

lemma fold_flags: "fold (\<lambda>f p. p\<lparr>po_flags := (po_flags p)(f := g f)\<rparr>) fs p
    = p\<lparr>po_flags := (\<lambda>f. if f \<in> set fs then g f else po_flags p f)\<rparr>"
  by (induction fs arbitrary: p) (auto simp: fun_eq_iff)

lemma parse_policy_json:
  assumes "policy_ok p"
  shows "parseAndNormalizeRetentionPolicy (JObj (policy_json p)) = Inr p"
proof -
  let ?s = "policy_json p"
  have n: "foldR (read_number ?s) editableNumericFields d = Inr (d\<lparr>po_numbers := po_numbers p\<rparr>)" for d
    using assms foldR_all [of editableNumericFields "read_number ?s" "\<lambda>f d. d\<lparr>po_numbers := (po_numbers d)(f := po_numbers p f)\<rparr>" d]
    by (simp add: read_number_def parseIntegerField_def policy_ok_def fold_numbers)
  have b: "foldR (read_flag ?s) editableBooleanFields d = Inr (d\<lparr>po_flags := po_flags p\<rparr>)" for d
    using foldR_all [of editableBooleanFields "read_flag ?s" "\<lambda>f d. d\<lparr>po_flags := (po_flags d)(f := po_flags p f)\<rparr>" d]
    by (simp add: read_flag_def parseBooleanField_def fold_flags)
  show ?thesis
    using assms n b by (simp add: parseAndNormalizeRetentionPolicy_def read_legacy_def read_queues_def parse_queue_json policy_ok_def
        defaultRetentionPolicy_def)
qed


section \<open>Patches and merging\<close>

lemma patch_queue_ok:
  assumes "patch_queue x qs = Inr qs'" and "\<And>q e f i. qs q = Some e \<Longrightarrow> e f = Some i \<Longrightarrow> in_range (queueHistoryFieldRanges f) i"
    and "qs' q = Some e" and "e f = Some i"
  shows "in_range (queueHistoryFieldRanges f) i"
proof -
  obtain name v q0 es e0 where x: "x = (name, v)" "queue_named name = Inr q0"
      "foldR (patch_queue_entry q0) es (\<lambda>_. None) = Inr e0" "qs' = qs(q0 := Some e0)"
    using assms(1) by (cases x) (auto simp: patch_queue_def)
  have "\<forall>f i. e0 f = Some i \<longrightarrow> in_range (queueHistoryFieldRanges f) i" using x(3)
    by (rule foldR_invariant)
      (auto simp: patch_queue_entry_def parseQueueHistoryIntegerField_def split: if_splits, erule parse_integer_in_range)
  with assms(2-4) x(4) show ?thesis by (auto split: if_splits)
qed

lemma parsed_patch_ok:
  assumes "parseRetentionPolicyPatch input = Inr p"
  shows "patch_ok p"
proof -
  obtain source where input: "input = JObj source" using assms by (cases input) (auto simp: parseRetentionPolicyPatch_def)
  obtain p1 p2 where
    1: "foldR (patch_number source) editableNumericFields \<lparr>pa_numbers = (\<lambda>_. None), pa_flags = (\<lambda>_. None), pa_queueHistory = None\<rparr> = Inr p1"
    and 2: "foldR (patch_flag source) editableBooleanFields p1 = Inr p2"
    and 3: "(case map_of source ''queueHistory'' of None \<Rightarrow> Inr p2
       | Some v \<Rightarrow> bindR (object_entries ''queueHistory'' v) (\<lambda>es.
           bindR (foldR patch_queue es (\<lambda>_. None)) (\<lambda>qs. Inr (p2\<lparr>pa_queueHistory := Some qs\<rparr>)))) = Inr p"
    using assms by (auto simp: parseRetentionPolicyPatch_def input)
  let ?P = "\<lambda>p. pa_queueHistory p = None \<and> (\<forall>f i. pa_numbers p f = Some i \<longrightarrow> in_range (retentionPolicyRanges f) i)"
  have "?P p1" using 1
    by (rule foldR_invariant) (auto simp: patch_number_def parseIntegerField_def split: option.splits if_splits dest: parse_integer_in_range)
  with 2 have q: "?P p2" by (rule foldR_invariant) (auto simp: patch_flag_def split: option.splits)
  show ?thesis
  proof (cases "map_of source ''queueHistory''")
    case None
    with 3 q show ?thesis by (simp add: patch_ok_def)
  next
    case (Some v)
    then obtain es qs where qs: "foldR patch_queue es (\<lambda>_. None) = Inr qs" "p = p2\<lparr>pa_queueHistory := Some qs\<rparr>"
      using 3 by auto
    have "\<forall>q e f i. qs q = Some e \<longrightarrow> e f = Some i \<longrightarrow> in_range (queueHistoryFieldRanges f) i" using qs(1)
      by (rule foldR_invariant) (auto dest: patch_queue_ok)
    with q qs(2) show ?thesis by (simp add: patch_ok_def)
  qed
qed

lemma merged_entry_get: "queue_get (merged_entry e patch) f = nullish (patch f) (queue_get e f)"
  by (cases f) (simp_all add: merged_entry_def editableQueueHistoryFields_def queue_get_set split: option.splits)

lemma overlay_ok: "policy_ok base \<Longrightarrow> patch_ok patch \<Longrightarrow> policy_ok (overlay base patch)"
  unfolding policy_ok_def patch_ok_def overlay_def queues_ok_def merged_queues_def nullish_def
  by (auto simp: merged_entry_get nullish_def split: option.splits)

section \<open>The service\<close>

definition PLATFORM_RETENTION_POLICY_KEY :: string where
  "PLATFORM_RETENTION_POLICY_KEY = ''platform.retention_policy''"

definition readBooleanEnv :: "(string \<Rightarrow> string option) \<Rightarrow> string \<Rightarrow> bool \<Rightarrow> bool" where
  "readBooleanEnv env name fallback =
     (if \<not> truthy (env name) then fallback
      else toLowerCase (trim (the (env name))) \<in> set [''1'', ''true'', ''yes'', ''on''])"

definition readPositiveIntEnv :: "(string \<Rightarrow> string option) \<Rightarrow> string \<Rightarrow> int \<Rightarrow> int" where
  "readPositiveIntEnv env name fallback =
     (if \<not> truthy (env name) then fallback
      else case Number (the (env name)) of Fin x \<Rightarrow> if 0 < x then \<lfloor>x\<rfloor> else fallback | _ \<Rightarrow> fallback)"

definition env_days :: "(string \<Rightarrow> string option) \<Rightarrow> numeric_field \<Rightarrow> int" where
  "env_days env f =
     (let d = po_numbers defaultRetentionPolicy f
      in case f of
           AdminLogActivityDays \<Rightarrow> readPositiveIntEnv env ''ADMIN_LOG_RETENTION_ACTIVITY_DAYS'' d
         | AdminLogDomainDays \<Rightarrow> readPositiveIntEnv env ''ADMIN_LOG_RETENTION_DOMAIN_DAYS'' d
         | AdminLogSystemDays \<Rightarrow> readPositiveIntEnv env ''ADMIN_LOG_RETENTION_SYSTEM_DAYS'' d
         | AdminLogAuditDays \<Rightarrow> readPositiveIntEnv env ''ADMIN_LOG_RETENTION_AUDIT_DAYS'' d
         | AdminLogSecurityDays \<Rightarrow> readPositiveIntEnv env ''ADMIN_LOG_RETENTION_SECURITY_DAYS'' d
         | AdminLogAdminDays \<Rightarrow> readPositiveIntEnv env ''ADMIN_LOG_RETENTION_ADMIN_DAYS'' d
         | _ \<Rightarrow> d)"

definition readEnvFallbackPolicy :: "(string \<Rightarrow> string option) \<Rightarrow> retention_policy" where
  "readEnvFallbackPolicy env = defaultRetentionPolicy
     \<lparr>po_numbers := env_days env,
      po_flags := (\<lambda>f. case f of
        AdminLogRetentionEnabled \<Rightarrow> readBooleanEnv env ''ADMIN_LOG_RETENTION_ENABLED'' (po_flags defaultRetentionPolicy f)
      | AdminLogSensitiveRetentionEnabled \<Rightarrow>
          readBooleanEnv env ''ADMIN_LOG_RETENTION_SENSITIVE_ENABLED'' (po_flags defaultRetentionPolicy f))\<rparr>"

text \<open>The fields of a patch that change; the queue history is a new object and always counts.\<close>

definition changedFields :: "retention_policy \<Rightarrow> retention_patch \<Rightarrow> retention_policy \<Rightarrow> string list" where
  "changedFields current patch nextPolicy =
     map numeric_name (filter (\<lambda>f. pa_numbers patch f \<noteq> None \<and> po_numbers current f \<noteq> po_numbers nextPolicy f) editableNumericFields)
     @ map boolean_name (filter (\<lambda>f. pa_flags patch f \<noteq> None \<and> po_flags current f \<noteq> po_flags nextPolicy f) editableBooleanFields)
     @ (if pa_queueHistory patch \<noteq> None then [''queueHistory''] else [])"

record session_user =
  su_id :: string
  su_email :: string
  su_displayName :: "string option"

definition retention_audit :: "session_user \<Rightarrow> int \<Rightarrow> string list \<Rightarrow> retention_policy \<Rightarrow> retention_policy \<Rightarrow> audit_entry" where
  "retention_audit user now changed before after =
     \<lparr>an_sourceRecordId = su_id user @ '':'' @ toISOString now, an_eventType = ''admin.retention_policy_updated'',
      an_occurredAt = now, an_actorId = su_id user, an_targetId = PLATFORM_RETENTION_POLICY_KEY,
      an_metadata = [(''summary'', JStr ''Updated retention policy settings''), (''actorEmail'', JStr (su_email user)),
        (''actorDisplayName'', jnull_or (su_displayName user)), (''changedFields'', JArr (map JStr changed)),
        (''before'', JObj (policy_json before)), (''after'', JObj (policy_json after))]\<rparr>"

definition getEffectiveRetentionPolicy ::
  "(string \<Rightarrow> string option) \<Rightarrow> bool \<Rightarrow> int \<Rightarrow> retention_policy settings_state \<Rightarrow> retention_policy settings_state \<times> retention_policy" where
  "getEffectiveRetentionPolicy env = getEffectivePolicy parseAndNormalizeRetentionPolicy (readEnvFallbackPolicy env) PLATFORM_RETENTION_POLICY_KEY"

definition getRetentionPolicy ::
  "(string \<Rightarrow> string option) \<Rightarrow> int \<Rightarrow> (retention_policy settings_state, retention_policy policy_snapshot) op" where
  "getRetentionPolicy env = getPolicy parseAndNormalizeRetentionPolicy (readEnvFallbackPolicy env) PLATFORM_RETENTION_POLICY_KEY"

text \<open>\<open>request\<close> is the body, an empty object when there is none.\<close>

definition updateRetentionPolicy ::
  "(string \<Rightarrow> string option) \<Rightarrow> session_user \<Rightarrow> bool \<Rightarrow> int \<Rightarrow> json \<Rightarrow> (retention_policy settings_state, retention_policy policy_snapshot) op" where
  "updateRetentionPolicy env user auditUp now request =
     updatePolicy parseAndNormalizeRetentionPolicy parseRetentionPolicyPatch mergeRetentionPolicy (\<lambda>p. JObj (policy_json p))
       changedFields (retention_audit user now) (readEnvFallbackPolicy env) PLATFORM_RETENTION_POLICY_KEY (su_id user) auditUp now request"

interpretation retention_service: policy_service parseAndNormalizeRetentionPolicy parseRetentionPolicyPatch mergeRetentionPolicy
  "\<lambda>p. JObj (policy_json p)" policy_ok
proof (unfold_locales, goal_cases)
  case (3 p v q)
  then have "policy_ok (overlay p q)" by (intro overlay_ok parsed_patch_ok)
  then show ?case by (simp add: mergeRetentionPolicy_def parse_policy_json)
qed (simp_all add: parse_policy_json parsed_policy_ok)

section \<open>Properties\<close>

text \<open>
  A patch that is accepted is merged exactly: on a base policy within the ranges the merge never
  fails, every field of the patch takes its value, every other field, of the queues too, keeps the
  base's, and the result is within the ranges again, as is every policy that is ever parsed.
\<close>

theorem retention_merge_exact:
  assumes "policy_ok base" and "parseRetentionPolicyPatch input = Inr patch"
  shows "mergeRetentionPolicy base patch = Inr (overlay base patch)
    \<and> policy_ok (overlay base patch)
    \<and> (\<forall>f. po_numbers (overlay base patch) f = nullish (pa_numbers patch f) (po_numbers base f))
    \<and> (\<forall>q f. queue_get (po_queueHistory (overlay base patch) q) f
        = nullish (Option.bind (pa_queueHistory patch) (\<lambda>qs. Option.bind (qs q) (\<lambda>e. e f))) (queue_get (po_queueHistory base q) f))"
proof -
  have ok: "policy_ok (overlay base patch)" by (rule overlay_ok [OF assms(1) parsed_patch_ok [OF assms(2)]])
  have "queue_get (po_queueHistory (overlay base patch) q) f
        = nullish (Option.bind (pa_queueHistory patch) (\<lambda>qs. Option.bind (qs q) (\<lambda>e. e f))) (queue_get (po_queueHistory base q) f)" for q f
    by (auto simp: overlay_def merged_queues_def merged_entry_get split: option.splits)
  with ok parse_policy_json [OF ok] show ?thesis by (simp add: mergeRetentionPolicy_def overlay_def)
qed

definition sample_patch :: json where
  "sample_patch = JObj [(''adminLogAuditDays'', jint 90), (''queueHistory'', JObj [(''emails'', JObj [(''attempts'', jint 7)])])]"

lemma sample_patch_parses:
  "\<exists>patch. parseRetentionPolicyPatch sample_patch = Inr patch \<and> pa_numbers patch AdminLogAuditDays = Some 90
      \<and> (\<exists>qs e. pa_queueHistory patch = Some qs \<and> qs Emails = Some e \<and> e Attempts = Some 7 \<and> e RemoveOnFail = None)"
  by (simp add: parseRetentionPolicyPatch_def sample_patch_def check_patch_key_def patch_number_def patch_flag_def
        editableNumericFields_def editableBooleanFields_def numeric_name_def boolean_name_def object_entries_def patch_queue_def
        queue_named_def queueNames_def queue_name_def patch_queue_entry_def queue_field_named_def editableQueueHistoryFields_def
        queue_field_name_def parseQueueHistoryIntegerField_def parseIntegerField_def in_range_def retentionPolicyRanges_def
        queueHistoryFieldRanges_def)

lemma sample_patch_merges:
  "\<exists>patch p. parseRetentionPolicyPatch sample_patch = Inr patch \<and> mergeRetentionPolicy defaultRetentionPolicy patch = Inr p"
  using sample_patch_parses retention_service.merge_valid [OF default_ok] by blast

theorem retention_merge_exact_witness:
  "\<exists>patch p. parseRetentionPolicyPatch sample_patch = Inr patch \<and> mergeRetentionPolicy defaultRetentionPolicy patch = Inr p
    \<and> po_numbers p AdminLogAuditDays = 90 \<and> qe_attempts (po_queueHistory p Emails) = 7 \<and> qe_removeOnFail (po_queueHistory p Emails) = 250"
proof -
  obtain patch qs e where p: "parseRetentionPolicyPatch sample_patch = Inr patch" "pa_numbers patch AdminLogAuditDays = Some 90"
      "pa_queueHistory patch = Some qs" "qs Emails = Some e" "e Attempts = Some 7" "e RemoveOnFail = None"
    using sample_patch_parses by blast
  note m = retention_merge_exact [OF default_ok p(1)]
  have "queue_get (po_queueHistory (overlay defaultRetentionPolicy patch) Emails) Attempts = 7"
    using m p(3-6) by simp
  moreover have "queue_get (po_queueHistory defaultRetentionPolicy Emails) RemoveOnFail = 250"
    by (simp add: defaultRetentionPolicy_def QUEUE_HISTORY_DEFAULTS_def policy_entry_def queue_get_def)
  then have "queue_get (po_queueHistory (overlay defaultRetentionPolicy patch) Emails) RemoveOnFail = 250"
    using m p(3-6) by simp
  ultimately show ?thesis using m p(1,2) by (auto simp: queue_get_def)
qed

text \<open>
  Settings are read as they were written: after a successful update of the retention policy every
  later read, through the cache or the table, at any time until another write, returns the policy the
  update returned, which is the policy before with the patch merged into it.
\<close>

theorem retention_update_then_read:
  assumes "policy_ok (readEnvFallbackPolicy env)"
    and "updateRetentionPolicy env user auditUp now request s = (s', Inr snap)"
  shows "snd (getEffectiveRetentionPolicy env True later s') = ps_policy snap
    \<and> (\<exists>snap'. snd (getRetentionPolicy env later s') = Inr snap' \<and> ps_policy snap' = ps_policy snap)
    \<and> (\<exists>current patch. parseRetentionPolicyPatch request = Inr patch \<and> mergeRetentionPolicy current patch = Inr (ps_policy snap)
        \<and> (findByKey PLATFORM_RETENTION_POLICY_KEY s = None \<longrightarrow> current = readEnvFallbackPolicy env))"
  using retention_service.update_then_read [OF assms(2) [unfolded updateRetentionPolicy_def] assms(1), of later]
  unfolding getEffectiveRetentionPolicy_def getRetentionPolicy_def
  by (fastforce simp: getPolicy_def split: option.splits)

lemma env_default: "readEnvFallbackPolicy (\<lambda>_. None) = defaultRetentionPolicy"
  by (simp add: readEnvFallbackPolicy_def env_days_def readPositiveIntEnv_def readBooleanEnv_def truthy_def defaultRetentionPolicy_def
      fun_eq_iff split: numeric_field.splits boolean_field.splits)

definition sample_user :: session_user where
  "sample_user = \<lparr>su_id = ''a'', su_email = ''a@b'', su_displayName = None\<rparr>"

theorem retention_update_then_read_witness:
  "\<exists>s' snap. updateRetentionPolicy (\<lambda>_. None) sample_user True 5 sample_patch \<lparr>ss_rows = [], ss_cache = None, ss_audit = []\<rparr> = (s', Inr snap)
    \<and> snd (getEffectiveRetentionPolicy (\<lambda>_. None) True 99999999 s') = ps_policy snap"
proof -
  obtain patch p where p: "parseRetentionPolicyPatch sample_patch = Inr patch" "mergeRetentionPolicy defaultRetentionPolicy patch = Inr p"
    using sample_patch_merges by blast
  have "parseAndNormalizeRetentionPolicy (JObj (policy_json p)) = Inr p"
    using p(2) parsed_policy_ok parse_policy_json unfolding mergeRetentionPolicy_def by blast
  then have "\<exists>s' snap. updateRetentionPolicy (\<lambda>_. None) sample_user True 5 sample_patch \<lparr>ss_rows = [], ss_cache = None, ss_audit = []\<rparr>
      = (s', Inr snap)"
    using p by (simp add: updateRetentionPolicy_def updatePolicy_def as_bad_request_def getPolicy_def findByKey_def env_default
        bindS_def thenS_def liftS_def retS_def whenS_def putS_def upsertJson_def Let_def)
  then obtain s' snap where run: "updateRetentionPolicy (\<lambda>_. None) sample_user True 5 sample_patch
      \<lparr>ss_rows = [], ss_cache = None, ss_audit = []\<rparr> = (s', Inr snap)" by blast
  show ?thesis using retention_update_then_read [OF _ run, of 99999999] run by (auto simp: env_default default_ok)
qed

end
