(* ===== verification/AuthService.thy ===== *)
theory AuthService
  imports UserAdmin Retention Email
begin

text \<open>
  Registration, login, sessions and password resets: \<open>apps/api/src/auth/auth.service.ts\<close> and the guard
  \<open>jwt-auth.guard.ts\<close>, over the account tables. A handler runs at one instant. What the runtime
  provides is a record: the clock, the generated identifiers, the random token of the call, the
  password hash, the HMAC, the token signature and its check, the queue and the mail adapter.
\<close>

section \<open>Environment, requests and answers\<close>

record auth_runtime =
  rt_now :: int
  rt_cuid :: "nat \<Rightarrow> string"
  rt_token :: string
  rt_hash :: "string \<Rightarrow> string"
  rt_compare :: "string \<Rightarrow> string \<Rightarrow> bool"
  rt_hmac :: "string \<Rightarrow> string \<Rightarrow> string"
  rt_sign :: "jwt_payload \<Rightarrow> string \<Rightarrow> string"
  rt_jwtVerify :: "string \<Rightarrow> string \<Rightarrow> string option \<Rightarrow> string option \<Rightarrow> jwt_payload result"
  rt_processEnv :: "string \<Rightarrow> string option"
  rt_settingsUp :: bool
  rt_queueUp :: bool
  rt_emailAdapter :: email_adapter
  rt_tie :: "session_row list \<Rightarrow> session_row list"

record api_env =
  en_connected :: bool
  en_jwtSecret :: string
  en_jwtRefreshSecret :: string
  en_jwtIssuer :: "string option"
  en_jwtAudience :: "string option"
  en_appUrl :: string

text \<open>The tables, the cache of the retention policy, the security log and the jobs handed to the queue.\<close>

record auth_state = account_db +
  as_settings :: "retention_policy settings_state"
  as_log :: "log_event list"
  as_jobs :: "bull_add list"

record session_metadata =
  md_ipAddress :: "string option"
  md_userAgent :: "string option"

record session_user_payload =
  up_id :: string
  up_email :: string
  up_displayName :: "string option"
  up_systemRoles :: "string list"
  up_emailVerifiedAt :: "string option"

record auth_session_payload =
  ap_accessToken :: string
  ap_refreshToken :: string
  ap_expiresAt :: string
  ap_user :: session_user_payload

text \<open>The answer to a login or registration: the session and when the address was verified.\<close>

record auth_exchange =
  ex_session :: auth_session_payload
  ex_emailVerifiedAt :: "string option"

record reset_accepted =
  ra_accepted :: bool
  ra_expiresInMinutes :: int

record reset_result =
  rr_session :: auth_session_payload
  rr_resetAt :: string

record session_summary =
  ss_id :: string
  ss_browser :: "string option"
  ss_deviceName :: "string option"
  ss_ipAddress :: "string option"
  ss_createdAt :: string
  ss_expiresAt :: string
  ss_current :: bool

section \<open>Helpers\<close>

definition assertConnectedMode :: "api_env \<Rightarrow> unit result" where
  "assertConnectedMode env =
     (if \<not> en_connected env then Inl (ServiceUnavailable ''Real auth requires QUIZMIND_RUNTIME_MODE=connected.'') else Inr ())"

definition normalizeEmail :: "json option \<Rightarrow> string result" where
  "normalizeEmail email = (case email of
     Some (JStr s) \<Rightarrow> Inr (toLowerCase (trim s))
   | _ \<Rightarrow> Inl (BadRequest ''A valid email address is required.''))"

definition assertEmailAddress :: "string \<Rightarrow> unit result" where
  "assertEmailAddress email =
     (if \<not> email_shape email then Inl (BadRequest ''A valid email address is required.'') else Inr ())"

definition inferBrowser :: "string option \<Rightarrow> string option" where
  "inferBrowser userAgent =
     (if \<not> truthy userAgent then None
      else let normalized = toLowerCase (the userAgent)
           in Some (if str_includes normalized ''edg/'' then ''edge''
                    else if str_includes normalized ''chrome/'' then ''chrome''
                    else if str_includes normalized ''firefox/'' then ''firefox''
                    else if str_includes normalized ''safari/'' then ''safari''
                    else ''other''))"

definition hashOpaqueToken :: "auth_runtime \<Rightarrow> api_env \<Rightarrow> string \<Rightarrow> string" where
  "hashOpaqueToken rt env token = rt_hmac rt (en_jwtRefreshSecret env) token"

text \<open>An entry of the metadata that is left out when it is undefined.\<close>

definition opt_entry :: "string \<Rightarrow> string option \<Rightarrow> json_object" where
  "opt_entry k v = (case v of None \<Rightarrow> [] | Some s \<Rightarrow> [(k, JStr s)])"

definition client_entries :: "session_metadata \<Rightarrow> json_object" where
  "client_entries meta = opt_entry ''ipAddress'' (md_ipAddress meta) @ opt_entry ''userAgent'' (md_userAgent meta)"

definition security_event :: "int \<Rightarrow> string \<Rightarrow> string \<Rightarrow> json_object \<Rightarrow> log_event" where
  "security_event now eventType actorId metadata =
     createSecurityLogEvent
       \<lparr>le_eventId = eventType @ '':'' @ show_int now @ '':'' @ actorId, le_eventType = eventType, le_actorId = actorId,
        le_actorType = SubjectUser, le_targetType = ''auth_session'', le_targetId = actorId, le_occurredAt = toISOString now,
        le_metadata = Some metadata, le_category = CatSecurity,
        le_severity = (if str_includes eventType ''failed'' then SevWarn else SevInfo),
        le_status = Some (if str_includes eventType ''failed'' then StatusFailure else StatusSuccess)\<rparr>"

definition logSecurityEvent :: "int \<Rightarrow> string \<Rightarrow> string \<Rightarrow> json_object \<Rightarrow> (auth_state, unit) op" where
  "logSecurityEvent now eventType actorId metadata =
     putS (\<lambda>s. s\<lparr>as_log := as_log s @ [security_event now eventType actorId metadata]\<rparr>)"

text \<open>The effective retention policy, through its cache; reading it never throws.\<close>

definition effective_policy :: "auth_runtime \<Rightarrow> (auth_state, retention_policy) op" where
  "effective_policy rt s =
     (let (st, p) = getEffectiveRetentionPolicy (rt_processEnv rt) (rt_settingsUp rt) (rt_now rt) (as_settings s)
      in (s\<lparr>as_settings := st\<rparr>, Inr p))"

definition policy_number :: "auth_runtime \<Rightarrow> numeric_field \<Rightarrow> (auth_state, int) op" where
  "policy_number rt f = bindS (effective_policy rt) (\<lambda>p. retS (po_numbers p f))"

definition getAccessTokenLifetimeMinutes :: "auth_runtime \<Rightarrow> (auth_state, int) op" where
  "getAccessTokenLifetimeMinutes rt = policy_number rt AccessTokenLifetimeMinutes"

definition getRefreshTokenLifetimeDays :: "auth_runtime \<Rightarrow> (auth_state, int) op" where
  "getRefreshTokenLifetimeDays rt = policy_number rt RefreshTokenLifetimeDays"

definition getPasswordResetLifetimeHours :: "auth_runtime \<Rightarrow> (auth_state, int) op" where
  "getPasswordResetLifetimeHours rt = policy_number rt PasswordResetLifetimeHours"

section \<open>Sessions\<close>

definition new_session :: "auth_runtime \<Rightarrow> api_env \<Rightarrow> int \<Rightarrow> user_row \<Rightarrow> session_metadata \<Rightarrow> session_create_input" where
  "new_session rt env days user meta =
     \<lparr>sc_userId = us_id user, sc_tokenHash = hashOpaqueToken rt env (rt_token rt),
      sc_expiresAt = rt_now rt + days * 24 * 60 * 60 * 1000, sc_ipAddress = md_ipAddress meta, sc_userAgent = md_userAgent meta,
      sc_browser = inferBrowser (md_userAgent meta), sc_deviceName = map_option (take 120) (md_userAgent meta)\<rparr>"

definition token_input :: "api_env \<Rightarrow> int \<Rightarrow> user_row \<Rightarrow> string \<Rightarrow> issue_access_token_input" where
  "token_input env minutes user sessionId =
     \<lparr>it_secret = en_jwtSecret env, it_sessionId = sessionId, it_userId = us_id user, it_email = us_email user,
      it_roles = getSystemRoles user, it_expiresInMinutes = Some minutes, it_issuer = en_jwtIssuer env,
      it_audience = en_jwtAudience env\<rparr>"

definition session_payload :: "auth_runtime \<Rightarrow> api_env \<Rightarrow> int \<Rightarrow> user_row \<Rightarrow> session_row \<Rightarrow> auth_session_payload" where
  "session_payload rt env minutes user row =
     (let accessToken = issueAccessToken (rt_sign rt) (rt_now rt) (token_input env minutes user (se_id row))
      in \<lparr>ap_accessToken = ir_token accessToken, ap_refreshToken = rt_token rt, ap_expiresAt = ir_expiresAt accessToken,
          ap_user = \<lparr>up_id = us_id user, up_email = us_email user, up_displayName = us_displayName user,
            up_systemRoles = getSystemRoles user, up_emailVerifiedAt = map_option toISOString (us_emailVerifiedAt user)\<rparr>\<rparr>)"

definition issueSession ::
  "auth_runtime \<Rightarrow> api_env \<Rightarrow> user_row \<Rightarrow> session_metadata \<Rightarrow> (auth_state, session_row \<times> auth_session_payload) op" where
  "issueSession rt env user meta =
     bindS (getRefreshTokenLifetimeDays rt) (\<lambda>days.
     bindS (getAccessTokenLifetimeMinutes rt) (\<lambda>minutes.
     bindS (createSession (rt_cuid rt) (rt_now rt) (new_session rt env days user meta)) (\<lambda>row.
       retS (row, session_payload rt env minutes user row))))"

record register_request =
  rq_email :: "json option"
  rq_password :: string
  rq_displayName :: "string option"

definition register :: "auth_runtime \<Rightarrow> api_env \<Rightarrow> register_request \<Rightarrow> session_metadata \<Rightarrow> (auth_state, auth_exchange) op" where
  "register rt env request meta =
     thenS (liftS (assertConnectedMode env))
     (bindS (liftS (normalizeEmail (rq_email request))) (\<lambda>email.
      let displayName = Option.bind (map_option trim (rq_displayName request)) or_undefined in
      thenS (liftS (assertEmailAddress email))
      (thenS (liftS (assertPasswordPolicy (rq_password request)))
      (bindS (getS (findUserByEmail email)) (\<lambda>existingUser.
        if existingUser \<noteq> None then throwS (Conflict ''A user with this email already exists.'')
        else bindS (createUser (rt_cuid rt) (rt_now rt)
             \<lparr>uc_email = email, uc_passwordHash = rt_hash rt (rq_password request), uc_displayName = displayName,
              uc_emailVerifiedAt = Some (rt_now rt), uc_systemRoles = []\<rparr>) (\<lambda>user.
          bindS (issueSession rt env user meta) (\<lambda>(row, payload).
          thenS (logSecurityEvent (rt_now rt) ''auth.register_success'' (us_id user) ((''email'', JStr email) # client_entries meta))
            (retS \<lparr>ex_session = payload, ex_emailVerifiedAt = Some (toISOString (rt_now rt))\<rparr>))))))))"

definition login_failed :: "auth_runtime \<Rightarrow> string \<Rightarrow> string \<Rightarrow> string \<Rightarrow> session_metadata \<Rightarrow> error \<Rightarrow> (auth_state, 'a) op" where
  "login_failed rt actor email reason meta e =
     thenS (logSecurityEvent (rt_now rt) ''auth.login_failed'' actor
        ((''email'', JStr email) # (''reason'', JStr reason) # client_entries meta))
      (throwS e)"

definition login :: "auth_runtime \<Rightarrow> api_env \<Rightarrow> json option \<Rightarrow> string \<Rightarrow> session_metadata \<Rightarrow> (auth_state, auth_exchange) op" where
  "login rt env requestEmail password meta =
     thenS (liftS (assertConnectedMode env))
     (bindS (liftS (normalizeEmail requestEmail)) (\<lambda>email.
      bindS (getS (findUserByEmail email)) (\<lambda>found.
        if \<not> truthy (Option.bind found us_passwordHash)
        then login_failed rt ''anonymous'' email ''user_not_found'' meta (Unauthorized ''Invalid email or password.'')
        else let user = the found in
          if us_suspendedAt user \<noteq> None
          then login_failed rt (us_id user) email ''user_suspended'' meta (Unauthorized ''This account is currently suspended.'')
          else if \<not> rt_compare rt password (the (us_passwordHash user))
          then login_failed rt (us_id user) email ''invalid_password'' meta (Unauthorized ''Invalid email or password.'')
          else bindS (touchLastLogin (us_id user) (rt_now rt)) (\<lambda>userWithLastLogin.
            bindS (issueSession rt env userWithLastLogin meta) (\<lambda>(row, payload).
            thenS (logSecurityEvent (rt_now rt) ''auth.login_success'' (us_id userWithLastLogin)
                ((''email'', JStr email) # client_entries meta @ [(''sessionId'', JStr (se_id row))]))
              (retS \<lparr>ex_session = payload,
                     ex_emailVerifiedAt = map_option toISOString (us_emailVerifiedAt userWithLastLogin)\<rparr>))))))"

section \<open>Refresh and logout\<close>

definition refresh :: "auth_runtime \<Rightarrow> api_env \<Rightarrow> string \<Rightarrow> session_metadata \<Rightarrow> (auth_state, auth_session_payload) op" where
  "refresh rt env refreshToken meta =
     thenS (liftS (assertConnectedMode env))
     (bindS (getS (findActiveSession (hashOpaqueToken rt env refreshToken) (rt_now rt))) (\<lambda>found.
       case found of
         None \<Rightarrow>
           thenS (logSecurityEvent (rt_now rt) ''auth.refresh_failed'' ''anonymous''
               ((''reason'', JStr ''session_not_found'') # client_entries meta))
             (throwS (Unauthorized ''Invalid refresh token.''))
       | Some (currentSession, user) \<Rightarrow>
           thenS (revoke (se_id currentSession) (rt_now rt))
           (bindS (issueSession rt env user meta) (\<lambda>(row, payload).
            thenS (logSecurityEvent (rt_now rt) ''auth.refresh_success'' (us_id user)
                ([(''sessionId'', JStr (se_id row)), (''previousSessionId'', JStr (se_id currentSession))] @ client_entries meta))
              (retS payload)))))"

definition verifyBearerToken :: "auth_runtime \<Rightarrow> api_env \<Rightarrow> string \<Rightarrow> verified_access_token result" where
  "verifyBearerToken rt env accessToken =
     (case verifyAccessToken (rt_jwtVerify rt) accessToken (en_jwtSecret env) (en_jwtIssuer env) (en_jwtAudience env) of
        Inl _ \<Rightarrow> Inl (Unauthorized ''Invalid access token.'') | Inr claims \<Rightarrow> Inr claims)"

text \<open>\<open>logout\<close> answers with the identifier of the session it revoked.\<close>

definition logout :: "auth_runtime \<Rightarrow> api_env \<Rightarrow> string option \<Rightarrow> string option \<Rightarrow> (auth_state, string) op" where
  "logout rt env accessToken refreshToken =
     thenS (liftS (assertConnectedMode env))
     (if truthy refreshToken then
        bindS (getS (findActiveSession (hashOpaqueToken rt env (the refreshToken)) (rt_now rt))) (\<lambda>found.
          case found of
            None \<Rightarrow> throwS (Unauthorized ''Invalid refresh token.'')
          | Some (currentSession, user) \<Rightarrow>
              thenS (revoke (se_id currentSession) (rt_now rt))
              (thenS (logSecurityEvent (rt_now rt) ''auth.logout'' (us_id user)
                 [(''sessionId'', JStr (se_id currentSession)), (''method'', JStr ''refresh-token'')])
               (retS (se_id currentSession))))
      else if \<not> truthy accessToken then throwS (BadRequest ''Provide either a refresh token or a bearer access token.'')
      else bindS (liftS (verifyBearerToken rt env (the accessToken))) (\<lambda>claims.
        thenS (revoke (cl_sessionId claims) (rt_now rt))
        (thenS (logSecurityEvent (rt_now rt) ''auth.logout'' (cl_userId claims)
           [(''sessionId'', JStr (cl_sessionId claims)), (''method'', JStr ''access-token'')])
         (retS (cl_sessionId claims)))))"

definition logoutAll :: "auth_runtime \<Rightarrow> api_env \<Rightarrow> string \<Rightarrow> (auth_state, nat) op" where
  "logoutAll rt env userId =
     thenS (liftS (assertConnectedMode env))
     (bindS (revokeAllForUser userId (rt_now rt)) (\<lambda>revokedCount.
      thenS (logSecurityEvent (rt_now rt) ''auth.logout_all'' userId [(''revokedCount'', jint (int revokedCount))])
        (retS revokedCount)))"

section \<open>Password resets\<close>

definition reset_email :: "auth_runtime \<Rightarrow> api_env \<Rightarrow> user_row \<Rightarrow> int \<Rightarrow> email_payload" where
  "reset_email rt env user hours =
     \<lparr>em_to = us_email user, em_templateKey = PasswordReset,
      em_variables = [(''productName'', JStr ''QuizMind'')] @ opt_entry ''displayName'' (us_displayName user)
        @ [(''resetUrl'', JStr (en_appUrl env @ ''/auth/reset-password?token='' @ rt_token rt)), (''expiresInMinutes'', jint (hours * 60))],
      em_requestedAt = toISOString (rt_now rt), em_requestedByUserId = or_undefined (us_id user)\<rparr>"

text \<open>The job goes to the queue; when that throws, the mail is sent at once, and its errors are thrown.\<close>

definition enqueueEmailDeliveryJob :: "auth_runtime \<Rightarrow> email_payload \<Rightarrow> email_template \<Rightarrow> (auth_state, unit) op" where
  "enqueueEmailDeliveryJob rt payload fallbackTemplate =
     bindS (effective_policy rt) (\<lambda>policy.
       let request = createQueueDispatchRequest
             \<lparr>dr_payload = EmailJob payload, dr_dedupeKey = None, dr_attempts = None, dr_jobId = None, dr_createdAt = None\<rparr> None
       in if rt_queueUp rt
          then putS (\<lambda>s. s\<lparr>as_jobs := as_jobs s @
                 (case snd (dispatch True (Some (po_queueHistory policy)) (rt_now rt) request) of None \<Rightarrow> [] | Some a \<Rightarrow> [a])\<rparr>)
          else bindS (liftS (sendTemplatedEmail (rt_emailAdapter rt) fallbackTemplate (em_to payload) (em_variables payload)))
                 (\<lambda>_. retS ()))"

definition requestPasswordReset ::
  "auth_runtime \<Rightarrow> api_env \<Rightarrow> json option \<Rightarrow> session_metadata \<Rightarrow> (auth_state, reset_accepted) op" where
  "requestPasswordReset rt env requestEmail meta =
     thenS (liftS (assertConnectedMode env))
     (bindS (liftS (normalizeEmail requestEmail)) (\<lambda>email.
      thenS (liftS (assertEmailAddress email))
      (bindS (getS (findUserByEmail email)) (\<lambda>found.
       bindS (getPasswordResetLifetimeHours rt) (\<lambda>hours.
        let answer = \<lparr>ra_accepted = True, ra_expiresInMinutes = hours * 60\<rparr> in
        if \<not> truthy (Option.bind found us_passwordHash) \<or> us_suspendedAt (the found) \<noteq> None
        then thenS (logSecurityEvent (rt_now rt) ''auth.password_reset_requested'' (case found of None \<Rightarrow> ''anonymous'' | Some u \<Rightarrow> us_id u)
               ([(''email'', JStr email), (''delivered'', JBool False),
                 (''reason'', JStr (if Option.bind found us_suspendedAt \<noteq> None then ''user_suspended'' else ''user_not_found''))]
                @ client_entries meta))
             (retS answer)
        else let user = the found in
          thenS (invalidateActiveForUser (us_id user) (rt_now rt))
          (thenS (createReset (rt_cuid rt) (rt_now rt) (us_id user) (hashOpaqueToken rt env (rt_token rt))
             (rt_now rt + hours * 60 * 60 * 1000))
          (thenS (enqueueEmailDeliveryJob rt (reset_email rt env user hours) passwordResetTemplate)
          (thenS (logSecurityEvent (rt_now rt) ''auth.password_reset_requested'' (us_id user)
              ([(''email'', JStr email), (''delivered'', JBool True)] @ client_entries meta))
            (retS answer)))))))))"

text \<open>The part of \<open>resetPassword\<close> that writes: the token is spent, the password replaced, the sessions revoked, one opened.\<close>

definition complete_reset ::
  "auth_runtime \<Rightarrow> api_env \<Rightarrow> reset_row \<Rightarrow> user_row \<Rightarrow> string \<Rightarrow> session_metadata \<Rightarrow> (auth_state, reset_result) op" where
  "complete_reset rt env passwordReset user password meta =
     thenS (markUsed (rs_id passwordReset) (rt_now rt))
     (bindS (updateUser (us_id user) (\<lambda>u. u\<lparr>us_passwordHash := Some (rt_hash rt password)\<rparr>) (rt_now rt)) (\<lambda>updatedUser.
      thenS (revokeAllForUser (us_id user) (rt_now rt))
      (bindS (issueSession rt env updatedUser meta) (\<lambda>(row, payload).
       thenS (logSecurityEvent (rt_now rt) ''auth.password_reset_completed'' (us_id user)
           ([(''resetId'', JStr (rs_id passwordReset)), (''sessionId'', JStr (se_id row))] @ client_entries meta))
         (retS \<lparr>rr_session = payload, rr_resetAt = toISOString (rt_now rt)\<rparr>)))))"

definition resetPassword ::
  "auth_runtime \<Rightarrow> api_env \<Rightarrow> string option \<Rightarrow> string \<Rightarrow> session_metadata \<Rightarrow> (auth_state, reset_result) op" where
  "resetPassword rt env requestToken password meta =
     thenS (liftS (assertConnectedMode env))
     (let token = map_option trim requestToken in
      if \<not> truthy token then throwS (BadRequest ''Password reset token is required.'')
      else thenS (liftS (assertPasswordPolicy password))
       (bindS (getS (findActiveReset (hashOpaqueToken rt env (the token)) (rt_now rt))) (\<lambda>found.
         case found of
           None \<Rightarrow> throwS (Unauthorized ''Invalid or expired password reset token.'')
         | Some passwordReset \<Rightarrow>
             bindS (getS (findUserById (rs_userId passwordReset))) (\<lambda>foundUser.
               if \<not> truthy (Option.bind foundUser us_passwordHash)
               then throwS (Unauthorized ''Invalid or expired password reset token.'')
               else let user = the foundUser in
                 if us_suspendedAt user \<noteq> None then throwS (Unauthorized ''This account is currently suspended.'')
                 else complete_reset rt env passwordReset user password meta))))"

section \<open>Reading sessions\<close>

definition buildCurrentSessionSnapshot :: "user_row \<Rightarrow> current_session" where
  "buildCurrentSessionSnapshot user =
     (let principal = \<lparr>sp_userId = us_id user, sp_email = us_email user, sp_systemRoles = getSystemRoles user,
                       sp_entitlements = [], sp_featureFlags = []\<rparr>
      in \<lparr>cs_personaKey = ''connected-user'', cs_user_id = us_id user, cs_user_email = us_email user,
          cs_user_displayName = us_displayName user, cs_user_emailVerifiedAt = map_option toISOString (us_emailVerifiedAt user),
          cs_principal = principal, cs_permissions = getPrincipalPermissions principal\<rparr>)"

definition getCurrentSession :: "auth_runtime \<Rightarrow> api_env \<Rightarrow> string \<Rightarrow> auth_state \<Rightarrow> current_session result" where
  "getCurrentSession rt env accessToken s =
     bindR (assertConnectedMode env) (\<lambda>_.
     bindR (verifyBearerToken rt env accessToken) (\<lambda>claims.
       case findSessionById (cl_sessionId claims) s of
         None \<Rightarrow> Inl (Unauthorized ''Session is no longer active.'')
       | Some (session, user) \<Rightarrow>
           if se_revokedAt session \<noteq> None \<or> se_expiresAt session \<le> rt_now rt
           then Inl (Unauthorized ''Session is no longer active.'')
           else Inr (buildCurrentSessionSnapshot user)))"

definition listSessions :: "auth_runtime \<Rightarrow> api_env \<Rightarrow> string \<Rightarrow> string option \<Rightarrow> auth_state \<Rightarrow> session_summary list result" where
  "listSessions rt env userId currentSessionId s =
     bindR (assertConnectedMode env) (\<lambda>_.
       Inr (map (\<lambda>r. \<lparr>ss_id = se_id r, ss_browser = se_browser r, ss_deviceName = se_deviceName r, ss_ipAddress = se_ipAddress r,
                      ss_createdAt = toISOString (se_createdAt r), ss_expiresAt = toISOString (se_expiresAt r),
                      ss_current = (Some (se_id r) = currentSessionId)\<rparr>)
            (listActiveByUserId (rt_tie rt) userId (rt_now rt) s)))"

text \<open>The guard: the claims of the bearer token, which it puts on the request.\<close>

definition jwt_guard :: "auth_runtime \<Rightarrow> api_env \<Rightarrow> string option \<Rightarrow> verified_access_token result" where
  "jwt_guard rt env authorization = (case parseBearerToken authorization of
     None \<Rightarrow> Inl (Unauthorized ''Missing bearer token.'')
   | Some token \<Rightarrow> verifyBearerToken rt env token)"

section \<open>Invariants of the handlers\<close>

text \<open>The lifetimes the handlers read from the retention policy are positive.\<close>

definition lifetimes_ok :: "retention_policy \<Rightarrow> bool" where
  "lifetimes_ok p = (0 < po_numbers p AccessTokenLifetimeMinutes \<and> 0 < po_numbers p RefreshTokenLifetimeDays
     \<and> 0 < po_numbers p PasswordResetLifetimeHours)"

definition settings_ok :: "retention_policy settings_state \<Rightarrow> bool" where
  "settings_ok st = (\<forall>p e. ss_cache st = Some (p, e) \<longrightarrow> lifetimes_ok p)"

lemma policy_lifetimes: "policy_ok p \<Longrightarrow> lifetimes_ok p"
  by (auto simp: policy_ok_def lifetimes_ok_def in_range_def retentionPolicyRanges_def
      dest: spec [of _ AccessTokenLifetimeMinutes] spec [of _ RefreshTokenLifetimeDays] spec [of _ PasswordResetLifetimeHours])

lemma fallback_lifetimes: "lifetimes_ok (readEnvFallbackPolicy env)"
  by (simp add: lifetimes_ok_def readEnvFallbackPolicy_def env_days_def defaultRetentionPolicy_def ACCESS_TOKEN_LIFETIME_MINUTES_def
      REFRESH_TOKEN_LIFETIME_DAYS_def PASSWORD_RESET_LIFETIME_HOURS_def)

lemma effective_lifetimes:
  assumes "settings_ok st" and "getEffectiveRetentionPolicy env up now st = (st', p)"
  shows "settings_ok st' \<and> lifetimes_ok p"
  using assms fallback_lifetimes parsed_policy_ok policy_lifetimes
  by (auto simp: getEffectiveRetentionPolicy_def getEffectivePolicy_def getCachedEffectivePolicy_def setCachedEffectivePolicy_def
      settings_ok_def Let_def split: option.splits if_splits sum.splits)

lemma effective_policy_run:
  "\<exists>st p. effective_policy rt s = (s\<lparr>as_settings := st\<rparr>, Inr p) \<and> (settings_ok (as_settings s) \<longrightarrow> settings_ok st \<and> lifetimes_ok p)"
  using effective_lifetimes by (auto simp: effective_policy_def split: prod.split)

lemma policy_number_run:
  "\<exists>st p. policy_number rt f s = (s\<lparr>as_settings := st\<rparr>, Inr (po_numbers p f))
     \<and> (settings_ok (as_settings s) \<longrightarrow> settings_ok st \<and> lifetimes_ok p)"
proof -
  obtain st p where "effective_policy rt s = (s\<lparr>as_settings := st\<rparr>, Inr p)"
      "settings_ok (as_settings s) \<longrightarrow> settings_ok st \<and> lifetimes_ok p"
    using effective_policy_run by blast
  then show ?thesis by (auto simp: policy_number_def bindS_def retS_def)
qed

text \<open>What the tables satisfy is untouched by the settings, the log and the queue.\<close>

definition about_tables :: "(auth_state \<Rightarrow> bool) \<Rightarrow> bool" where
  "about_tables P = (\<forall>s st l j. P (s\<lparr>as_settings := st\<rparr>) = P s \<and> P (s\<lparr>as_log := l\<rparr>) = P s \<and> P (s\<lparr>as_jobs := j\<rparr>) = P s)"

lemma about_tables_tables [simp]: "about_tables (tables_ok cuid)" and about_tables_one [simp]: "about_tables (one_reset now)"
  by (simp_all add: about_tables_def tables_ok_def one_reset_def)

lemma tables_effective [keeps_intros]: "about_tables P \<Longrightarrow> keepsS P (effective_policy rt)"
  by (simp add: keepsS_def about_tables_def effective_policy_def split: prod.split)

lemma tables_number [keeps_intros]: "about_tables P \<Longrightarrow> keepsS P (policy_number rt f)"
  unfolding policy_number_def by (intro keeps_intros)

lemma tables_log [keeps_intros]: "about_tables P \<Longrightarrow> keepsS P (logSecurityEvent now ev actor meta)"
  by (simp add: keepsS_def logSecurityEvent_def putS_def about_tables_def)

lemma tables_email [keeps_intros]: "about_tables P \<Longrightarrow> keepsS P (enqueueEmailDeliveryJob rt payload template)"
  unfolding enqueueEmailDeliveryJob_def Let_def
  by (intro keeps_intros keepsS_put) (simp_all add: about_tables_def)

text \<open>The properties of the tables that every handler keeps, for identifiers from one supply.\<close>

definition kept :: "(nat \<Rightarrow> string) \<Rightarrow> int \<Rightarrow> auth_state \<Rightarrow> bool" where
  "kept cuid now s = (tables_ok cuid s \<and> one_reset now s)"

lemma keepsS_conj: "keepsS P m \<Longrightarrow> keepsS Q m \<Longrightarrow> keepsS (\<lambda>s. P s \<and> Q s) m"
  by (simp add: keepsS_def)

lemmas session_defs = issueSession_def getRefreshTokenLifetimeDays_def getAccessTokenLifetimeMinutes_def getPasswordResetLifetimeHours_def

lemma issueSession_tables [keeps_intros]: "inj (rt_cuid rt) \<Longrightarrow> keepsS (tables_ok (rt_cuid rt)) (issueSession rt env user meta)"
  and issueSession_one [keeps_intros]: "keepsS (one_reset now) (issueSession rt env user meta)"
  unfolding session_defs by (intro keeps_intros; simp)+

lemma handlers_tables:
  assumes "inj (rt_cuid rt)"
  shows "keepsS (tables_ok (rt_cuid rt)) (register rt env request meta)"
    and "keepsS (tables_ok (rt_cuid rt)) (login rt env email password meta)"
    and "keepsS (tables_ok (rt_cuid rt)) (refresh rt env token meta)"
    and "keepsS (tables_ok (rt_cuid rt)) (logout rt env access rtoken)"
    and "keepsS (tables_ok (rt_cuid rt)) (logoutAll rt env u)"
    and "keepsS (tables_ok (rt_cuid rt)) (requestPasswordReset rt env email meta)"
    and "keepsS (tables_ok (rt_cuid rt)) (resetPassword rt env rtoken password meta)"
  unfolding register_def login_def login_failed_def refresh_def logout_def logoutAll_def requestPasswordReset_def resetPassword_def complete_reset_def
    getPasswordResetLifetimeHours_def Let_def
  using assms by (intro keeps_intros; simp)+

lemma handlers_one:
  shows "keepsS (one_reset (rt_now rt)) (register rt env request meta)"
    and "keepsS (one_reset (rt_now rt)) (login rt env email password meta)"
    and "keepsS (one_reset (rt_now rt)) (refresh rt env token meta)"
    and "keepsS (one_reset (rt_now rt)) (logout rt env access rtoken)"
    and "keepsS (one_reset (rt_now rt)) (logoutAll rt env u)"
    and "keepsS (one_reset (rt_now rt)) (requestPasswordReset rt env email meta)"
    and "keepsS (one_reset (rt_now rt)) (resetPassword rt env rtoken password meta)"
  unfolding register_def login_def login_failed_def refresh_def logout_def logoutAll_def requestPasswordReset_def resetPassword_def complete_reset_def
    getPasswordResetLifetimeHours_def Let_def
  by (intro keeps_intros; simp)+

end
