(* ===== verification/AuthFlows.thy ===== *)
theory AuthFlows
  imports AuthService "HOL-Library.Multiset"
begin

text \<open>
  What the handlers of \<open>auth.service.ts\<close> achieve: who may sign in, the rotation of refresh tokens,
  password resets and sign-out, and the invariant of the account tables along any sequence of requests.
\<close>

section \<open>The effect of the handlers\<close>

lemma issueSession_success:
  assumes "issueSession rt env user meta s = (s', Inr (row, payload))"
  shows "hashOpaqueToken rt env (rt_token rt) \<notin> se_tokenHash ` set (ad_sessions s) \<and> findUserById (us_id user) s \<noteq> None
    \<and> (\<exists>days minutes st. row = session_of (rt_cuid rt (ad_next s)) (rt_now rt) (new_session rt env days user meta)
         \<and> payload = session_payload rt env minutes user row
         \<and> (settings_ok (as_settings s) \<longrightarrow> settings_ok st \<and> 0 < days \<and> 0 < minutes)
         \<and> s' = s\<lparr>as_settings := st, ad_sessions := ad_sessions s @ [row], ad_next := Suc (ad_next s)\<rparr>)"
proof -
  obtain st1 p1 where 1: "policy_number rt RefreshTokenLifetimeDays s = (s\<lparr>as_settings := st1\<rparr>, Inr (po_numbers p1 RefreshTokenLifetimeDays))"
      "settings_ok (as_settings s) \<longrightarrow> settings_ok st1 \<and> lifetimes_ok p1"
    using policy_number_run by blast
  obtain st2 p2 where 2: "policy_number rt AccessTokenLifetimeMinutes (s\<lparr>as_settings := st1\<rparr>)
        = (s\<lparr>as_settings := st2\<rparr>, Inr (po_numbers p2 AccessTokenLifetimeMinutes))"
      "settings_ok st1 \<longrightarrow> settings_ok st2 \<and> lifetimes_ok p2"
    using policy_number_run [of rt AccessTokenLifetimeMinutes "s\<lparr>as_settings := st1\<rparr>"] by auto
  let ?days = "po_numbers p1 RefreshTokenLifetimeDays" and ?minutes = "po_numbers p2 AccessTokenLifetimeMinutes"
  have c: "createSession (rt_cuid rt) (rt_now rt) (new_session rt env ?days user meta) (s\<lparr>as_settings := st2\<rparr>) = (s', Inr row)"
    and p: "payload = session_payload rt env ?minutes user row"
    using assms 1(1) 2(1) by (auto simp: session_defs bindS_def retS_def split: prod.splits sum.splits)
  have "settings_ok (as_settings s) \<longrightarrow> settings_ok st2 \<and> 0 < ?days \<and> 0 < ?minutes"
    using 1(2) 2(2) by (auto simp: lifetimes_ok_def)
  moreover have "hashOpaqueToken rt env (rt_token rt) \<notin> se_tokenHash ` set (ad_sessions s)" "findUserById (us_id user) s \<noteq> None"
      "row = session_of (rt_cuid rt (ad_next s)) (rt_now rt) (new_session rt env ?days user meta)"
      "s' = s\<lparr>as_settings := st2, ad_sessions := ad_sessions s @ [row], ad_next := Suc (ad_next s)\<rparr>"
    using c by (auto simp: createSession_def Let_def new_session_def findUserById_def split: if_splits)
  ultimately show ?thesis using p by blast
qed

text \<open>A session that is in the tables with its user is found by its token.\<close>

lemma findActiveSession_unique:
  assumes "tables_ok cuid s" and "r \<in> set (ad_sessions s)" and "session_active now r"
  shows "\<exists>u. findActiveSession (se_tokenHash r) now s = Some (r, u) \<and> findUserById (se_userId r) s = Some u"
proof -
  have "distinct (map se_tokenHash (ad_sessions s))" using assms(1) by (simp add: tables_ok_def)
  then have "find (\<lambda>x. se_tokenHash x = se_tokenHash r \<and> session_active now x) (ad_sessions s) = Some r"
    using assms(2,3) by (intro find_unique_with)
  moreover obtain u where "findUserById (se_userId r) s = Some u"
    using assms(1,2) findUserById_iff [of "se_userId r" s] by (auto simp: tables_ok_def)
  ultimately show ?thesis by (simp add: findActiveSession_def with_user_def)
qed

lemma findActiveSession_SomeD:
  "findActiveSession h now s = Some (r, u) \<Longrightarrow>
     r \<in> set (ad_sessions s) \<and> se_tokenHash r = h \<and> session_active now r \<and> findUserById (se_userId r) s = Some u"
  by (auto simp: findActiveSession_def with_user_def bind_eq_Some_conv dest: find_SomeD)

lemma findActiveSession_None:
  "(\<And>r. r \<in> set (ad_sessions s) \<Longrightarrow> se_tokenHash r = h \<Longrightarrow> \<not> session_active now r) \<Longrightarrow> findActiveSession h now s = None"
  by (auto simp: findActiveSession_def with_user_def find_None_iff_all bind_eq_None_conv)

definition revoked_by :: "string \<Rightarrow> int \<Rightarrow> session_row \<Rightarrow> session_row" where
  "revoked_by i t r = (if se_id r = i then r\<lparr>se_revokedAt := Some t\<rparr> else r)"

lemma revoked_by_keys [simp]:
  "se_id (revoked_by i t r) = se_id r" "se_tokenHash (revoked_by i t r) = se_tokenHash r"
  "se_userId (revoked_by i t r) = se_userId r" "se_expiresAt (revoked_by i t r) = se_expiresAt r"
  by (simp_all add: revoked_by_def)

lemma revoke_success:
  "revoke i t s = (s', Inr x) \<longleftrightarrow> i \<in> set (map se_id (ad_sessions s)) \<and> s' = s\<lparr>ad_sessions := map (revoked_by i t) (ad_sessions s)\<rparr>"
  by (auto simp: revoke_def revoked_by_def [abs_def])

lemma log_success: "logSecurityEvent now ev actor meta s = (s\<lparr>as_log := as_log s @ [security_event now ev actor meta]\<rparr>, Inr ())"
  by (simp add: logSecurityEvent_def putS_def)

text \<open>A successful refresh: the session of the token is revoked and a new one is added for its user.\<close>

lemma refresh_success:
  assumes "refresh rt env token meta s = (s', Inr payload)"
  shows "\<exists>old user row days. findActiveSession (hashOpaqueToken rt env token) (rt_now rt) s = Some (old, user)
    \<and> row = session_of (rt_cuid rt (ad_next s)) (rt_now rt) (new_session rt env days user meta)
    \<and> (settings_ok (as_settings s) \<longrightarrow> 0 < days)
    \<and> hashOpaqueToken rt env (rt_token rt) \<notin> se_tokenHash ` set (ad_sessions s)
    \<and> ap_refreshToken payload = rt_token rt
    \<and> ad_sessions s' = map (revoked_by (se_id old) (rt_now rt)) (ad_sessions s) @ [row]
    \<and> ad_users s' = ad_users s \<and> ad_resets s' = ad_resets s
    \<and> as_log s' = as_log s @ [security_event (rt_now rt) ''auth.refresh_success'' (us_id user)
         ([(''sessionId'', JStr (se_id row)), (''previousSessionId'', JStr (se_id old))] @ client_entries meta)]"
proof -
  obtain old user s1 s2 row where f: "findActiveSession (hashOpaqueToken rt env token) (rt_now rt) s = Some (old, user)"
    and 1: "revoke (se_id old) (rt_now rt) s = (s1, Inr ())" and 2: "issueSession rt env user meta s1 = (s2, Inr (row, payload))"
    and 3: "s' = s2\<lparr>as_log := as_log s2 @ [security_event (rt_now rt) ''auth.refresh_success'' (us_id user)
         ([(''sessionId'', JStr (se_id row)), (''previousSessionId'', JStr (se_id old))] @ client_entries meta)]\<rparr>"
    using assms by (auto simp: refresh_def op_elims log_success split: option.splits)
  have s1: "s1 = s\<lparr>ad_sessions := map (revoked_by (se_id old) (rt_now rt)) (ad_sessions s)\<rparr>" using 1 by (simp add: revoke_success)
  have h: "se_tokenHash ` set (ad_sessions s1) = se_tokenHash ` set (ad_sessions s)" by (simp add: s1 image_image)
  from issueSession_success [OF 2] obtain days minutes st where
    "hashOpaqueToken rt env (rt_token rt) \<notin> se_tokenHash ` set (ad_sessions s)"
    "row = session_of (rt_cuid rt (ad_next s)) (rt_now rt) (new_session rt env days user meta)"
    "payload = session_payload rt env minutes user row" "settings_ok (as_settings s) \<longrightarrow> 0 < days"
    "s2 = s1\<lparr>as_settings := st, ad_sessions := ad_sessions s1 @ [row], ad_next := Suc (ad_next s)\<rparr>"
    unfolding h by (auto simp: s1)
  then show ?thesis using f 3 by (auto simp: s1 session_payload_def Let_def)
qed

section \<open>Rotating a session\<close>

text \<open>The sessions after \<open>old\<close> was revoked and \<open>row\<close>, with a fresh token, was added.\<close>

definition rotated :: "session_row list \<Rightarrow> session_row \<Rightarrow> session_row \<Rightarrow> int \<Rightarrow> session_row list" where
  "rotated ss old row now = map (revoked_by (se_id old) now) ss @ [row]"

lemma rotated_old_dead:
  assumes "distinct (map se_tokenHash ss)" and "old \<in> set ss" and "se_tokenHash row \<notin> se_tokenHash ` set ss"
    and "r \<in> set (rotated ss old row now)" and "se_tokenHash r = se_tokenHash old"
  shows "\<not> session_active t r"
proof -
  have "se_tokenHash old \<in> se_tokenHash ` set ss" using assms(2) by simp
  then have "r \<noteq> row" using assms(3,5) by metis
  then obtain x where x: "x \<in> set ss" "r = revoked_by (se_id old) now x" using assms(4) by (auto simp: rotated_def)
  have "x = old" by (rule distinct_key_eq [OF assms(1) x(1) assms(2)]) (use assms(5) x(2) in simp)
  then show ?thesis by (simp add: x(2) revoked_by_def session_active_def)
qed

lemma rotated_new_found:
  assumes "se_tokenHash row \<notin> se_tokenHash ` set ss" and "session_active now row"
  shows "find (\<lambda>x. se_tokenHash x = se_tokenHash row \<and> session_active now x) (rotated ss old row now) = Some row"
proof -
  have "se_tokenHash x \<noteq> se_tokenHash row" if "x \<in> set (map (revoked_by (se_id old) now) ss)" for x
  proof -
    from that have "x \<in> revoked_by (se_id old) now ` set ss" by (simp only: set_map)
    then obtain y where "y \<in> set ss" "x = revoked_by (se_id old) now y" by blast
    then have "se_tokenHash x \<in> se_tokenHash ` set ss" by simp
    with assms(1) show ?thesis by metis
  qed
  then show ?thesis unfolding rotated_def using assms(2) by (intro find_append_new) auto
qed

lemma rotated_others:
  assumes "distinct (map se_id ss)" and "old \<in> set ss" and "r \<in> set ss" and "r \<noteq> old"
  shows "r \<in> set (rotated ss old row now)"
proof -
  have "se_id r \<noteq> se_id old" using distinct_key_eq [OF assms(1,3,2)] assms(4) by blast
  then have "revoked_by (se_id old) now r = r" by (simp add: revoked_by_def)
  then show ?thesis using assms(3) unfolding rotated_def by (metis Un_iff image_eqI set_append set_map)
qed

lemma rotated_count:
  assumes "distinct (map se_id ss)" and "old \<in> set ss" and "session_active now old" and "session_active now row"
    and "se_userId old = u" and "se_userId row = u"
  shows "length (filter (\<lambda>r. se_userId r = u \<and> session_active now r) (rotated ss old row now))
    = length (filter (\<lambda>r. se_userId r = u \<and> session_active now r) ss)"
  using count_update [OF assms(1,2) refl, of "\<lambda>r. se_userId r = u \<and> session_active now r" "\<lambda>r. r\<lparr>se_revokedAt := Some now\<rparr>"] assms(3-6)
  by (simp add: rotated_def revoked_by_def [abs_def] session_active_def)

section \<open>Properties\<close>

lemma refresh_rejected:
  assumes "en_connected env" and "findActiveSession (hashOpaqueToken rt env token) (rt_now rt) s = None"
  shows "snd (refresh rt env token meta s) = Inl (Unauthorized ''Invalid refresh token.'')
    \<and> ad_sessions (fst (refresh rt env token meta s)) = ad_sessions s"
  using assms by (simp add: refresh_def assertConnectedMode_def thenS_def bindS_def liftS_def getS_def log_success throwS_def)

lemma connected: "refresh rt env token meta s = (s', Inr p) \<Longrightarrow> en_connected env"
  by (auto simp: refresh_def op_elims assertConnectedMode_def split: if_splits)


lemma policy_number_eq:
  "policy_number rt f s = (let g = getEffectiveRetentionPolicy (rt_processEnv rt) (rt_settingsUp rt) (rt_now rt) (as_settings s)
     in (s\<lparr>as_settings := fst g\<rparr>, Inr (po_numbers (snd g) f)))"
  by (simp add: policy_number_def effective_policy_def bindS_def retS_def Let_def split: prod.splits)

lemma issueSession_succeeds:
  assumes "findUserById (us_id user) s \<noteq> None" and "hashOpaqueToken rt env (rt_token rt) \<notin> se_tokenHash ` set (ad_sessions s)"
  shows "\<exists>s' x. issueSession rt env user meta s = (s', Inr x)"
  using assms by (simp add: session_defs bindS_def policy_number_eq Let_def retS_def createSession_def new_session_def findUserById_def)

lemma login_failed_run:
  "login_failed rt actor email reason meta e s =
     (s\<lparr>as_log := as_log s @ [security_event (rt_now rt) ''auth.login_failed'' actor
        ((''email'', JStr email) # (''reason'', JStr reason) # client_entries meta)]\<rparr>, Inl e)"
  by (simp add: login_failed_def thenS_def bindS_def log_success throwS_def)

lemma updateUser_sessions: "updateUser i f now s = (s', r) \<Longrightarrow> ad_sessions s' = ad_sessions s \<and> ad_resets s' = ad_resets s \<and> ad_next s' = ad_next s"
  by (auto simp: updateUser_def split: option.splits)

lemma updateUser_found:
  assumes "findUserById i s = Some u" and "\<And>x. us_id (f x) = us_id x"
  shows "\<exists>s'. updateUser i f now s = (s', Inr ((f u)\<lparr>us_updatedAt := now\<rparr>)) \<and> findUserById i s' = Some ((f u)\<lparr>us_updatedAt := now\<rparr>)"
proof -
  let ?g = "\<lambda>x. if us_id x = i then (f x)\<lparr>us_updatedAt := now\<rparr> else x"
  have "find (\<lambda>x. us_id x = i) (map ?g (ad_users s)) = map_option ?g (findUserById i s)"
    unfolding findUserById_def by (rule find_map_preserving) (simp add: assms(2))
  then show ?thesis using assms(1) findUserById_SomeD [OF assms(1)] by (simp add: updateUser_def findUserById_def)
qed

lemma login_run:
  assumes "en_connected env" and "normalizeEmail requestEmail = Inr email"
  shows "login rt env requestEmail password meta s = (
      if \<not> truthy (Option.bind (findUserByEmail email s) us_passwordHash)
      then login_failed rt ''anonymous'' email ''user_not_found'' meta (Unauthorized ''Invalid email or password.'') s
      else let user = the (findUserByEmail email s) in
        if us_suspendedAt user \<noteq> None
        then login_failed rt (us_id user) email ''user_suspended'' meta (Unauthorized ''This account is currently suspended.'') s
        else if \<not> rt_compare rt password (the (us_passwordHash user))
        then login_failed rt (us_id user) email ''invalid_password'' meta (Unauthorized ''Invalid email or password.'') s
        else bindS (touchLastLogin (us_id user) (rt_now rt)) (\<lambda>userWithLastLogin.
            bindS (issueSession rt env userWithLastLogin meta) (\<lambda>(row, payload).
            thenS (logSecurityEvent (rt_now rt) ''auth.login_success'' (us_id userWithLastLogin)
                ((''email'', JStr email) # client_entries meta @ [(''sessionId'', JStr (se_id row))]))
              (retS \<lparr>ex_session = payload, ex_emailVerifiedAt = map_option toISOString (us_emailVerifiedAt userWithLastLogin)\<rparr>))) s)"
  using assms by (simp add: login_def assertConnectedMode_def thenS_def bindS_def liftS_def getS_def Let_def)

definition may_sign_in :: "auth_runtime \<Rightarrow> string \<Rightarrow> string \<Rightarrow> auth_state \<Rightarrow> user_row \<Rightarrow> bool" where
  "may_sign_in rt email password s u =
     (findUserByEmail email s = Some u \<and> truthy (us_passwordHash u) \<and> us_suspendedAt u = None
      \<and> rt_compare rt password (the (us_passwordHash u)))"

lemma login_granted:
  assumes "en_connected env" and "normalizeEmail requestEmail = Inr email" and "may_sign_in rt email password s u"
    and "hashOpaqueToken rt env (rt_token rt) \<notin> se_tokenHash ` set (ad_sessions s)"
  shows "\<exists>s' x row. login rt env requestEmail password meta s = (s', Inr x)
    \<and> ad_sessions s' = ad_sessions s @ [row] \<and> se_userId row = us_id u"
proof -
  note u = assms(3) [unfolded may_sign_in_def]
  obtain w where w: "findUserById (us_id u) s = Some w"
    using findUserByEmail_SomeD u findUserById_iff [of "us_id u" s] by (cases "findUserById (us_id u) s") auto
  let ?v = "w\<lparr>us_lastLoginAt := Some (rt_now rt), us_updatedAt := rt_now rt\<rparr>"
  have v: "us_id ?v = us_id u" using findUserById_SomeD [OF w] by simp
  obtain s1 where 1: "touchLastLogin (us_id u) (rt_now rt) s = (s1, Inr ?v)" "findUserById (us_id u) s1 = Some ?v"
    using updateUser_found [OF w, of "\<lambda>u. u\<lparr>us_lastLoginAt := Some (rt_now rt)\<rparr>" "rt_now rt"] by (auto simp: touchLastLogin_def)
  have ss: "ad_sessions s1 = ad_sessions s" using updateUser_sessions 1(1) unfolding touchLastLogin_def by blast
  obtain s2 row payload where 2: "issueSession rt env ?v meta s1 = (s2, Inr (row, payload))"
    using issueSession_succeeds [of ?v s1 rt env meta] v 1(2) assms(4) ss by auto
  have "ad_sessions s2 = ad_sessions s @ [row] \<and> se_userId row = us_id u"
    using issueSession_success [OF 2] ss v by (auto simp: new_session_def)
  moreover have "\<exists>l x. login rt env requestEmail password meta s = (s2\<lparr>as_log := l\<rparr>, Inr x)"
    using u 1(1) 2 by (auto simp: login_run [OF assms(1,2)] bindS_def thenS_def log_success retS_def)
  ultimately show ?thesis by auto
qed

text \<open>
  C13. Signing in succeeds exactly for a known address with the right password and without a suspension;
  it then adds one session of that user. Every other attempt leaves the tables alone, writes exactly one
  warning to the security log, and is refused with one and the same message, unless the account is
  suspended, which is told without a look at the password.
\<close>

theorem login_exact:
  assumes "en_connected env" and "normalizeEmail requestEmail = Inr email"
    and "hashOpaqueToken rt env (rt_token rt) \<notin> se_tokenHash ` set (ad_sessions s)"
    and "login rt env requestEmail password meta s = (s', r)"
  shows "(isOk r \<longleftrightarrow> (\<exists>u. may_sign_in rt email password s u))
    \<and> (isOk r \<longrightarrow> (\<exists>u row. findUserByEmail email s = Some u \<and> ad_sessions s' = ad_sessions s @ [row] \<and> se_userId row = us_id u))
    \<and> (\<not> isOk r \<longrightarrow> (\<exists>ev. s' = s\<lparr>as_log := as_log s @ [ev]\<rparr> \<and> le_eventType ev = ''auth.login_failed'' \<and> le_severity ev = SevWarn)
         \<and> (r = Inl (Unauthorized ''Invalid email or password.'')
            \<or> r = Inl (Unauthorized ''This account is currently suspended.'')
                \<and> (\<exists>u. findUserByEmail email s = Some u \<and> us_suspendedAt u \<noteq> None)))"
proof (cases "\<exists>u. may_sign_in rt email password s u")
  case True
  then show ?thesis using login_granted [OF assms(1,2) _ assms(3), of password _ meta] assms(4) by (auto simp: may_sign_in_def)
next
  case False
  have warn: "le_severity (security_event t ''auth.login_failed'' a m) = SevWarn" "le_eventType (security_event t e a m) = e" for t a m e
    by (simp_all add: security_event_def createSecurityLogEvent_def createLogEvent_def)
  note run = login_run [OF assms(1,2), of rt password meta s]
  let ?refused = "\<lambda>e. \<exists>actor data. (s', r) = (s\<lparr>as_log := as_log s @ [security_event (rt_now rt) ''auth.login_failed'' actor data]\<rparr>, Inl e)"
  let ?bad = "Unauthorized ''Invalid email or password.''"
    and ?suspended = "Unauthorized ''This account is currently suspended.''"
  have "?refused ?bad \<or> ?refused ?suspended \<and> (\<exists>u. findUserByEmail email s = Some u \<and> us_suspendedAt u \<noteq> None)"
  proof (cases "truthy (Option.bind (findUserByEmail email s) us_passwordHash)")
    case t: True
    then obtain u where u: "findUserByEmail email s = Some u" "truthy (us_passwordHash u)" by (cases "findUserByEmail email s") auto
    with False have "us_suspendedAt u \<noteq> None \<or> \<not> rt_compare rt password (the (us_passwordHash u))" by (auto simp: may_sign_in_def)
    then show ?thesis using assms(4) u unfolding run by (cases "us_suspendedAt u") (simp_all add: login_failed_run, blast+)
  next
    case f: False
    then have "?refused ?bad" using assms(4) unfolding run by (simp add: login_failed_run) blast
    then show ?thesis ..
  qed
  then show ?thesis using False by (auto simp: warn)
qed

definition with_password :: "string \<Rightarrow> string \<Rightarrow> int \<Rightarrow> user_row \<Rightarrow> user_row" where
  "with_password i h now x = (if us_id x = i then x\<lparr>us_passwordHash := Some h, us_updatedAt := now\<rparr> else x)"

definition revoked_for :: "string \<Rightarrow> int \<Rightarrow> session_row \<Rightarrow> session_row" where
  "revoked_for i t r = (if se_userId r = i \<and> se_revokedAt r = None then r\<lparr>se_revokedAt := Some t\<rparr> else r)"

definition spent :: "string \<Rightarrow> int \<Rightarrow> reset_row \<Rightarrow> reset_row" where
  "spent i t r = (if rs_id r = i then r\<lparr>rs_usedAt := Some t\<rparr> else r)"

lemma update_effects:
  "markUsed i t s = (s1, Inr ()) \<Longrightarrow> s1 = s\<lparr>ad_resets := map (spent i t) (ad_resets s)\<rparr>"
  "revokeAllForUser v t s = (s2, Inr n) \<Longrightarrow> s2 = s\<lparr>ad_sessions := map (revoked_for v t) (ad_sessions s)\<rparr>"
  "updateUser v (\<lambda>x. x\<lparr>us_passwordHash := Some h\<rparr>) t s = (s3, Inr u) \<Longrightarrow>
     us_id u = v \<and> s3 = s\<lparr>ad_users := map (with_password v h t) (ad_users s)\<rparr>"
  by (auto simp: markUsed_def spent_def [abs_def] revokeAllForUser_def revoke_where_def revoked_for_def [abs_def] updateUser_def
      with_password_def [abs_def] split: if_splits option.splits dest: findUserById_SomeD)

lemma complete_reset_success:
  assumes "complete_reset rt env reset user password meta s = (s', Inr res)"
  shows "\<exists>row days. row = session_of (rt_cuid rt (ad_next s)) (rt_now rt) (new_session rt env days user meta)
    \<and> (settings_ok (as_settings s) \<longrightarrow> 0 < days) \<and> ap_refreshToken (rr_session res) = rt_token rt
    \<and> ad_resets s' = map (spent (rs_id reset) (rt_now rt)) (ad_resets s)
    \<and> ad_users s' = map (with_password (us_id user) (rt_hash rt password) (rt_now rt)) (ad_users s)
    \<and> ad_sessions s' = map (revoked_for (us_id user) (rt_now rt)) (ad_sessions s) @ [row]"
proof -
  obtain s1 where 1: "markUsed (rs_id reset) (rt_now rt) s = (s1, Inr ())"
    and r1: "bindS (updateUser (us_id user) (\<lambda>u. u\<lparr>us_passwordHash := Some (rt_hash rt password)\<rparr>) (rt_now rt)) (\<lambda>updatedUser.
      thenS (revokeAllForUser (us_id user) (rt_now rt))
      (bindS (issueSession rt env updatedUser meta) (\<lambda>(row, payload).
       thenS (logSecurityEvent (rt_now rt) ''auth.password_reset_completed'' (us_id user)
           ([(''resetId'', JStr (rs_id reset)), (''sessionId'', JStr (se_id row))] @ client_entries meta))
         (retS \<lparr>rr_session = payload, rr_resetAt = toISOString (rt_now rt)\<rparr>)))) s1 = (s', Inr res)"
    using assms unfolding complete_reset_def thenS_success [of "markUsed _ _"] by auto
  from r1 obtain s2 u where 2: "updateUser (us_id user) (\<lambda>u. u\<lparr>us_passwordHash := Some (rt_hash rt password)\<rparr>) (rt_now rt) s1 = (s2, Inr u)"
    and r2: "thenS (revokeAllForUser (us_id user) (rt_now rt))
      (bindS (issueSession rt env u meta) (\<lambda>(row, payload).
       thenS (logSecurityEvent (rt_now rt) ''auth.password_reset_completed'' (us_id user)
           ([(''resetId'', JStr (rs_id reset)), (''sessionId'', JStr (se_id row))] @ client_entries meta))
         (retS \<lparr>rr_session = payload, rr_resetAt = toISOString (rt_now rt)\<rparr>))) s2 = (s', Inr res)"
    unfolding bindS_success [of "updateUser _ _ _"] by blast
  from r2 obtain s3 n s4 row payload where 3: "revokeAllForUser (us_id user) (rt_now rt) s2 = (s3, Inr n)"
    and 4: "issueSession rt env u meta s3 = (s4, Inr (row, payload))"
    and 5: "s' = s4\<lparr>as_log := as_log s'\<rparr>" "rr_session res = payload"
    by (auto simp: op_elims log_success)
  note e1 = update_effects(1) [OF 1] and e2 = update_effects(3) [OF 2] and e3 = update_effects(2) [OF 3]
  have new: "new_session rt env days u meta = new_session rt env days user meta" for days by (simp add: new_session_def e2)
  from issueSession_success [OF 4] obtain days minutes st where
    6: "row = session_of (rt_cuid rt (ad_next s)) (rt_now rt) (new_session rt env days user meta)"
      "payload = session_payload rt env minutes u row" "settings_ok (as_settings s) \<longrightarrow> 0 < days"
      "s4 = s3\<lparr>as_settings := st, ad_sessions := ad_sessions s3 @ [row], ad_next := Suc (ad_next s3)\<rparr>"
    unfolding new by (auto simp: e1 e2 e3)
  have "ad_resets s' = ad_resets s4" "ad_users s' = ad_users s4" "ad_sessions s' = ad_sessions s4" by (subst 5(1), simp)+
  then show ?thesis using 6 5(2) by (intro exI [of _ row] exI [of _ days]) (simp add: e1 e2 e3 session_payload_def Let_def)
qed

lemma resetPassword_success:
  assumes "resetPassword rt env (Some token) password meta s = (s', Inr res)"
  shows "\<exists>reset user. findActiveReset (hashOpaqueToken rt env (trim token)) (rt_now rt) s = Some reset
    \<and> findUserById (rs_userId reset) s = Some user \<and> us_suspendedAt user = None
    \<and> complete_reset rt env reset user password meta s = (s', Inr res)"
proof -
  have t: "truthy (Option.bind v f) \<Longrightarrow> \<exists>x. v = Some x" for v and f :: "user_row \<Rightarrow> string option" by (cases v) simp_all
  show ?thesis using assms
    by (auto simp: resetPassword_def thenS_success bindS_success basic_success liftS_success Let_def split: option.splits if_splits
        dest!: t)
qed

lemma revoked_for_active [simp]: "se_userId r = v \<Longrightarrow> \<not> session_active now (revoked_for v t r)"
  and revoked_for_user [simp]: "se_userId (revoked_for v t x) = se_userId x"
  and revoked_for_other: "se_userId y \<noteq> v \<Longrightarrow> revoked_for v t y = y"
  by (auto simp: revoked_for_def session_active_def)

lemma revoked_for_others: "filter (\<lambda>r. se_userId r \<noteq> v) (map (revoked_for v t) xs) = filter (\<lambda>r. se_userId r \<noteq> v) xs"
  and revoked_for_none: "filter (\<lambda>r. se_userId r = v \<and> session_active now r) (map (revoked_for v t) xs) = []"
  by (induction xs) (auto simp: revoked_for_other)


section \<open>Sequences of requests\<close>

text \<open>The requests that write to the account tables; each is served by its handler.\<close>

datatype auth_request =
    Registers register_request session_metadata
  | SignsIn "json option" string session_metadata
  | Refreshes string session_metadata
  | SignsOut "string option" "string option"
  | SignsOutEverywhere string
  | AsksReset "json option" session_metadata
  | Resets "string option" string session_metadata
  | AdminCreates current_session "json option"
  | AdminDeletes current_session "string option"
  | AdminUpdates current_session "json option"
  | CleansExpired

fun serve :: "auth_runtime \<Rightarrow> api_env \<Rightarrow> auth_request \<Rightarrow> auth_state \<Rightarrow> auth_state" where
  "serve rt env (Registers request meta) s = fst (register rt env request meta s)"
| "serve rt env (SignsIn email password meta) s = fst (login rt env email password meta s)"
| "serve rt env (Refreshes token meta) s = fst (refresh rt env token meta s)"
| "serve rt env (SignsOut access token) s = fst (logout rt env access token s)"
| "serve rt env (SignsOutEverywhere u) s = fst (logoutAll rt env u s)"
| "serve rt env (AsksReset email meta) s = fst (requestPasswordReset rt env email meta s)"
| "serve rt env (Resets token password meta) s = fst (resetPassword rt env token password meta s)"
| "serve rt env (AdminCreates session body) s = fst (createUserForCurrentSession (rt_cuid rt) (rt_hash rt) (rt_now rt) session body s)"
| "serve rt env (AdminDeletes session i) s = fst (deleteUserForCurrentSession session i s)"
| "serve rt env (AdminUpdates session body) s = fst (updateUserAccessForCurrentSession (rt_now rt) session body s)"
| "serve rt env CleansExpired s = fst (cleanExpired (rt_now rt) s)"

text \<open>
  \<open>auth_run cuid env now s later t\<close>: requests served one after the other, at times that do not decrease and
  with identifiers of the supply \<open>cuid\<close>, lead from \<open>s\<close> at \<open>now\<close> to \<open>t\<close> at \<open>later\<close>.
\<close>

inductive auth_run :: "(nat \<Rightarrow> string) \<Rightarrow> api_env \<Rightarrow> int \<Rightarrow> auth_state \<Rightarrow> int \<Rightarrow> auth_state \<Rightarrow> bool" for cuid env now s where
  waits: "auth_run cuid env now s now s"
| serves: "auth_run cuid env now s t1 s1 \<Longrightarrow> t1 \<le> rt_now rt \<Longrightarrow> rt_cuid rt = cuid
    \<Longrightarrow> auth_run cuid env now s (rt_now rt) (serve rt env q s1)"

text \<open>
  What a sequence of requests keeps: an invariant that one request keeps at its time, and that the
  passing of time keeps.
\<close>

locale request_invariant =
  fixes cuid :: "nat \<Rightarrow> string" and env :: api_env and P :: "int \<Rightarrow> auth_state \<Rightarrow> bool"
  assumes later: "P t s \<Longrightarrow> t \<le> u \<Longrightarrow> P u s"
    and served: "rt_cuid rt = cuid \<Longrightarrow> P (rt_now rt) s \<Longrightarrow> P (rt_now rt) (serve rt env q s)"
begin

lemma run_keeps: "auth_run cuid env now s t s' \<Longrightarrow> P now s \<Longrightarrow> P t s'"
proof (induction rule: auth_run.induct)
  case (serves t1 s1 rt q)
  then show ?case using later [of t1 s1 "rt_now rt"] served [of rt s1 q] by simp
qed

end

lemma admin_handlers_one:
  shows "keepsS (one_reset t) (createUserForCurrentSession cuid hash now session request)"
    and "keepsS (one_reset t) (deleteUserForCurrentSession session i)"
    and "keepsS (one_reset t) (updateUserAccessForCurrentSession now session request)"
  unfolding createUserForCurrentSession_def deleteUserForCurrentSession_def updateUserAccessForCurrentSession_def Let_def
  by (intro keeps_intros; simp)+

lemma serve_tables: "inj (rt_cuid rt) \<Longrightarrow> tables_ok (rt_cuid rt) s \<Longrightarrow> tables_ok (rt_cuid rt) (serve rt env q s)"
  by (cases q) (simp_all add: keepsS_final handlers_tables createUserForCurrentSession_keeps deleteUserForCurrentSession_keeps
    updateUserAccessForCurrentSession_keeps cleanExpired_keeps)

lemma serve_one: "one_reset (rt_now rt) s \<Longrightarrow> one_reset (rt_now rt) (serve rt env q s)"
  by (cases q) (simp_all add: keepsS_final handlers_one admin_handlers_one cleanExpired_one)

definition account_ok :: "(nat \<Rightarrow> string) \<Rightarrow> int \<Rightarrow> auth_state \<Rightarrow> bool" where
  "account_ok cuid now s = (inj cuid \<and> tables_ok cuid s \<and> one_reset now s)"

interpretation accounts: request_invariant cuid env "account_ok cuid" for cuid env
  by unfold_locales (auto simp: account_ok_def serve_tables serve_one one_reset_later)

text \<open>
  C11. The account tables stay well formed: along any sequence of requests, successful or not, identifiers,
  addresses and token hashes stay unique, every session and reset belongs to a user that exists, and no
  user has more than one password reset open.
\<close>

theorem account_tables_invariant:
  assumes "inj cuid" and "tables_ok cuid s" and "one_reset now s" and "auth_run cuid env now s later t"
  shows "tables_ok cuid t \<and> one_reset later t"
  using accounts.run_keeps [OF assms(4)] assms(1-3) by (simp add: account_ok_def)

section \<open>A revoked session stays revoked\<close>

definition dead :: "(nat \<Rightarrow> string) \<Rightarrow> string \<Rightarrow> 'm account_db_scheme \<Rightarrow> bool" where
  "dead cuid i s = ((\<forall>r\<in>set (ad_sessions s). se_id r = i \<longrightarrow> se_revokedAt r \<noteq> None) \<and> i \<in> cuid ` {..<ad_next s})"

lemma about_tables_dead [simp]: "about_tables (dead cuid i)"
  by (simp add: about_tables_def dead_def)

lemma createSession_dead [keeps_intros]: "inj cuid \<Longrightarrow> keepsS (dead cuid i) (createSession cuid now inp)"
  by (auto simp: keepsS_def dead_def createSession_def Let_def inj_eq)

lemma operations_dead [keeps_intros]:
  "keepsS (dead cuid i) (createUser cuid now user_input)" "keepsS (dead cuid i) (createReset cuid now u h e)"
  "keepsS (dead cuid i) (updateUser j f now)" "keepsS (dead cuid i) (touchLastLogin j now)" "keepsS (dead cuid i) (deleteUser j)"
  "keepsS (dead cuid i) (markUsed j now)" "keepsS (dead cuid i) (invalidateActiveForUser u now)"
  "keepsS (dead cuid i) (revoke j now)" "keepsS (dead cuid i) (revokeAllForUser u now)" "keepsS (dead cuid i) (cleanExpired now)"
  by (auto simp: keepsS_def dead_def createUser_def createReset_def updateUser_def touchLastLogin_def deleteUser_def markUsed_def
      invalidateActiveForUser_def revoke_def revokeAllForUser_def cleanExpired_def revoke_where_def Let_def split: option.splits)

lemma issueSession_dead [keeps_intros]: "inj (rt_cuid rt) \<Longrightarrow> keepsS (dead (rt_cuid rt) i) (issueSession rt env user meta)"
  unfolding session_defs by (intro keeps_intros; simp)+

lemma handlers_dead:
  assumes "inj (rt_cuid rt)"
  shows "keepsS (dead (rt_cuid rt) i) (register rt env request meta)" and "keepsS (dead (rt_cuid rt) i) (login rt env email password meta)"
    and "keepsS (dead (rt_cuid rt) i) (refresh rt env token meta)" and "keepsS (dead (rt_cuid rt) i) (logout rt env access rtoken)"
    and "keepsS (dead (rt_cuid rt) i) (logoutAll rt env u)" and "keepsS (dead (rt_cuid rt) i) (requestPasswordReset rt env email meta)"
    and "keepsS (dead (rt_cuid rt) i) (resetPassword rt env rtoken password meta)"
  unfolding register_def login_def login_failed_def refresh_def logout_def logoutAll_def requestPasswordReset_def resetPassword_def
    complete_reset_def getPasswordResetLifetimeHours_def Let_def
  using assms by (intro keeps_intros; simp)+

lemma admin_handlers_dead:
  shows "keepsS (dead cuid i) (createUserForCurrentSession cuid hash now session request)"
    and "keepsS (dead cuid i) (deleteUserForCurrentSession session j)"
    and "keepsS (dead cuid i) (updateUserAccessForCurrentSession now session request)"
  unfolding createUserForCurrentSession_def deleteUserForCurrentSession_def updateUserAccessForCurrentSession_def Let_def
  by (intro keeps_intros; simp)+

lemma serve_dead: "inj (rt_cuid rt) \<Longrightarrow> dead (rt_cuid rt) i s \<Longrightarrow> dead (rt_cuid rt) i (serve rt env q s)"
  by (cases q) (simp_all add: keepsS_final handlers_dead admin_handlers_dead operations_dead)

interpretation dead_session: request_invariant cuid env "\<lambda>_ s. inj cuid \<and> dead cuid i s" for cuid env i
  by unfold_locales (auto simp: serve_dead)

lemma revoke_dead:
  assumes "tables_ok cuid s" and "i \<in> set (map se_id (ad_sessions s))"
  shows "dead cuid i (s\<lparr>ad_sessions := map (revoked_by i t) (ad_sessions s)\<rparr>)"
  using assms by (auto simp: dead_def revoked_by_def tables_ok_def ids_ok_def)

lemma logout_success:
  assumes "logout rt env access token s = (s', Inr i)"
  shows "i \<in> set (map se_id (ad_sessions s)) \<and> (\<exists>l. s' = s\<lparr>ad_sessions := map (revoked_by i (rt_now rt)) (ad_sessions s), as_log := l\<rparr>)"
proof -
  have t: "truthy v \<Longrightarrow> \<exists>x. v = Some x" for v :: "string option" by (cases v) simp_all
  obtain s1 where "revoke i (rt_now rt) s = (s1, Inr ())" "s' = s1\<lparr>as_log := as_log s'\<rparr>"
    using assms by (auto simp: logout_def op_elims log_success split: if_splits option.splits)
  then obtain l where "revoke i (rt_now rt) s = (s1, Inr ())" "s' = s1\<lparr>as_log := l\<rparr>" by blast
  then show ?thesis by (auto simp: revoke_success)
qed

lemma logout_dead:
  assumes "tables_ok cuid s" and "logout rt env access token s = (s', Inr i)"
  shows "dead cuid i s'"
proof -
  obtain l where "s' = s\<lparr>ad_sessions := map (revoked_by i (rt_now rt)) (ad_sessions s), as_log := l\<rparr>"
      "i \<in> set (map se_id (ad_sessions s))"
    using logout_success [OF assms(2)] by blast
  then show ?thesis using revoke_dead [OF assms(1), of i "rt_now rt"] by (simp add: dead_def)
qed

lemma dead_inactive: "dead cuid i s \<Longrightarrow> r \<in> set (ad_sessions s) \<Longrightarrow> se_id r = i \<Longrightarrow> \<not> session_active now r"
  by (auto simp: dead_def session_active_def)

text \<open>
  C10. Signing out is final: once a session has been signed out, no sequence of requests makes it active
  again. An access token issued for it, though still valid as a token, opens no session; its refresh
  token is refused; and it is not in any list of active sessions.
\<close>

theorem signed_out_for_good:
  assumes "inj cuid" and "tables_ok cuid s" and "logout rt env access token s = (s', Inr i)"
    and "auth_run cuid env now s' later t"
    and "verifyBearerToken rt' env accessToken = Inr claims" and "cl_sessionId claims = i"
    and "\<And>xs. mset (rt_tie rt' xs) = mset xs"
  shows "\<not> isOk (getCurrentSession rt' env accessToken t)
    \<and> (\<forall>h instant r u. findActiveSession h instant t = Some (r, u) \<longrightarrow> se_id r \<noteq> i)
    \<and> (\<forall>u xs. listSessions rt' env u (Some i) t = Inr xs \<longrightarrow> i \<notin> set (map ss_id xs))"
proof -
  have dead: "dead cuid i t" using dead_session.run_keeps [OF assms(4)] assms(1) logout_dead [OF assms(2,3)] by blast
  have "se_revokedAt r \<noteq> None" if "findSessionById i t = Some (r, u)" for r u
    using that dead by (auto simp: findSessionById_def with_user_def bind_eq_Some_conv dead_def dest!: find_SomeD)
  then have "\<not> isOk (getCurrentSession rt' env accessToken t)"
    using assms(5,6) by (auto simp: getCurrentSession_def bindR_def split: sum.splits option.splits)
  moreover have "se_id r \<noteq> i" if "findActiveSession h instant t = Some (r, u)" for h instant r u
    using findActiveSession_SomeD [OF that] dead_inactive [OF dead] by blast
  moreover have "i \<notin> set (map ss_id xs)" if "listSessions rt' env u (Some i) t = Inr xs" for u xs
  proof -
    have tie: "set (rt_tie rt' rows) = set rows" for rows using assms(7) by (metis set_mset_mset)
    have "map ss_id xs = map se_id (listActiveByUserId (rt_tie rt') u (rt_now rt') t)"
      using that by (auto simp: listSessions_def bindR_def split: sum.splits)
    moreover have "i \<notin> se_id ` set (listActiveByUserId (rt_tie rt') u (rt_now rt') t)"
      using dead_inactive [OF dead] by (auto simp: listActiveByUserId_def tie)
    ultimately show ?thesis by simp
  qed
  ultimately show ?thesis by blast
qed

section \<open>Suspended accounts\<close>

lemma refresh_granted:
  assumes "en_connected env" and "findActiveSession (hashOpaqueToken rt env token) (rt_now rt) s = Some (r, u)"
    and "hashOpaqueToken rt env (rt_token rt) \<notin> se_tokenHash ` set (ad_sessions s)"
  shows "\<exists>s' payload. refresh rt env token meta s = (s', Inr payload)"
proof -
  note r = findActiveSession_SomeD [OF assms(2)]
  let ?s1 = "s\<lparr>ad_sessions := map (revoked_by (se_id r) (rt_now rt)) (ad_sessions s)\<rparr>"
  have 1: "revoke (se_id r) (rt_now rt) s = (?s1, Inr ())" using r by (simp add: revoke_success)
  have "findUserById (us_id u) s \<noteq> None" using r findUserById_SomeD [of "se_userId r" s u] by auto
  then obtain s2 row payload where 2: "issueSession rt env u meta ?s1 = (s2, Inr (row, payload))"
    using issueSession_succeeds [of u ?s1 rt env meta] assms(3) by (auto simp: findUserById_def image_image)
  show ?thesis using assms(1,2) 1 2
    by (simp add: refresh_def assertConnectedMode_def thenS_def bindS_def liftS_def getS_def log_success retS_def)
qed

text \<open>
  A suspension stops signing in and nothing else: the sessions a user has when it is suspended stay
  active, the session is read with all permissions and the refresh token is exchanged for a new session,
  for as long as it is used before it expires, while signing in is refused.
\<close>

theorem suspended_user_stays_signed_in:
  assumes "tables_ok cuid s" and "r \<in> set (ad_sessions s)" and "session_active (rt_now rt) r"
    and "findUserById (se_userId r) s = Some u" and "us_suspendedAt u = Some t" and "en_connected env"
    and "hashOpaqueToken rt env token = se_tokenHash r" and "hashOpaqueToken rt env (rt_token rt) \<notin> se_tokenHash ` set (ad_sessions s)"
    and "verifyBearerToken rt env accessToken = Inr claims" and "cl_sessionId claims = se_id r"
    and "normalizeEmail email = Inr (us_email u)"
  shows "getCurrentSession rt env accessToken s = Inr (buildCurrentSessionSnapshot u)
    \<and> isOk (snd (refresh rt env token meta s)) \<and> \<not> isOk (snd (login rt env email password meta s))"
proof -
  have d: "distinct (map se_id (ad_sessions s))" "distinct (map us_email (ad_users s))"
    using assms(1) by (simp_all add: tables_ok_def ids_ok_def)
  have "findSessionById (se_id r) s = Some (r, u)"
    using find_unique [OF d(1) assms(2)] assms(4) by (simp add: findSessionById_def with_user_def)
  then have "getCurrentSession rt env accessToken s = Inr (buildCurrentSessionSnapshot u)"
    using assms(3,6,9,10) by (simp add: getCurrentSession_def bindR_def assertConnectedMode_def session_active_def)
  moreover have "isOk (snd (refresh rt env token meta s))"
  proof -
    obtain v where "findActiveSession (se_tokenHash r) (rt_now rt) s = Some (r, v)"
      using findActiveSession_unique [OF assms(1-3)] by blast
    then show ?thesis using refresh_granted [OF assms(6) _ assms(8), of token r v meta] assms(7) by auto
  qed
  moreover have "\<not> isOk (snd (login rt env email password meta s))"
  proof -
    have "findUserByEmail (us_email u) s = Some u"
      using find_unique [OF d(2)] findUserById_SomeD [OF assms(4)] by (simp add: findUserByEmail_def)
    then show ?thesis using assms(5) by (simp add: login_run [OF assms(6,11)] login_failed_run)
  qed
  ultimately show ?thesis by blast
qed

section \<open>A small deployment\<close>

definition demo_env :: api_env where
  "demo_env = \<lparr>en_connected = True, en_jwtSecret = ''k'', en_jwtRefreshSecret = ''r'', en_jwtIssuer = None, en_jwtAudience = None,
     en_appUrl = ''http://app''\<rparr>"

definition demo_input :: issue_access_token_input where
  "demo_input = \<lparr>it_secret = ''k'', it_sessionId = ''u1'', it_userId = ''u0'', it_email = ''root@q.io'', it_roles = [''admin''],
     it_expiresInMinutes = None, it_issuer = None, it_audience = None\<rparr>"

definition demo_rt :: auth_runtime where
  "demo_rt = \<lparr>rt_now = 50, rt_cuid = root_ids, rt_token = ''fresh'', rt_hash = (\<lambda>p. p), rt_compare = (\<lambda>p h. p = h),
     rt_hmac = (\<lambda>_ t. t), rt_sign = (\<lambda>_ _. ''jwt''), rt_jwtVerify = (\<lambda>_ _ _ _. Inr (access_payload demo_input 0 900)),
     rt_processEnv = (\<lambda>_. None), rt_settingsUp = True, rt_queueUp = True, rt_emailAdapter = createNoopEmailAdapter 50 ''noop'',
     rt_tie = (\<lambda>xs. xs)\<rparr>"

definition demo_session :: session_row where
  "demo_session = \<lparr>se_id = ''u1'', se_userId = ''u0'', se_tokenHash = ''token'', se_ipAddress = None, se_userAgent = None, se_browser = None,
     se_deviceName = None, se_expiresAt = 100, se_createdAt = 0, se_revokedAt = None\<rparr>"

definition demo_reset :: reset_row where
  "demo_reset = \<lparr>rs_id = ''u2'', rs_userId = ''u0'', rs_tokenHash = ''secret'', rs_expiresAt = 100, rs_usedAt = None, rs_createdAt = 0\<rparr>"

definition demo_state :: "int option \<Rightarrow> auth_state" where
  "demo_state suspended =
     \<lparr>ad_users = [root_user\<lparr>us_suspendedAt := suspended\<rparr>], ad_sessions = [demo_session], ad_resets = [demo_reset], ad_next = 3,
      as_settings = \<lparr>ss_rows = [], ss_cache = None, ss_audit = []\<rparr>, as_log = [], as_jobs = []\<rparr>"

abbreviation nobody :: session_metadata where
  "nobody \<equiv> \<lparr>md_ipAddress = None, md_userAgent = None\<rparr>"

lemma demo_ok: "tables_ok root_ids (demo_state x)" and demo_settings: "settings_ok (as_settings (demo_state y))"
  and demo_one: "one_reset 50 (demo_state z)"
proof -
  have "root_ids 0 = ''u0''" "root_ids 1 = ''u1''" "root_ids 2 = ''u2''" by code_simp+
  then have "{''u0'', ''u1'', ''u2''} \<subseteq> root_ids ` {..<3}"
    using imageI [of 0 "{..<3}" root_ids] imageI [of 1 "{..<3}" root_ids] imageI [of 2 "{..<3}" root_ids] by simp
  then show "tables_ok root_ids (demo_state x)"
    by (simp add: tables_ok_def ids_ok_def demo_state_def root_user_def demo_session_def demo_reset_def)
  show "settings_ok (as_settings (demo_state y))" by (simp add: settings_ok_def demo_state_def)
  show "one_reset 50 (demo_state z)" by (simp add: one_reset_def demo_state_def)
qed

lemma demo_simps [simp]:
  "en_connected demo_env" "rt_now demo_rt = 50" "hashOpaqueToken demo_rt demo_env t = t" "rt_token demo_rt = ''fresh''"
  "rt_cuid demo_rt = root_ids" "rt_compare demo_rt p h = (p = h)" "mset (rt_tie demo_rt xs) = mset xs"
  by (simp_all add: demo_env_def demo_rt_def hashOpaqueToken_def)

lemma demo_claims: "\<exists>v. verifyBearerToken demo_rt demo_env ''jwt'' = Inr v \<and> cl_sessionId v = ''u1''"
  by (simp add: verifyBearerToken_def verifyAccessToken_def demo_rt_def demo_env_def read_payload_def map_of_access_payload jstring_def
      jnullish_def jstring_array_def demo_input_def)

lemma demo_email: "normalizeEmail (Some (JStr ''Root@q.io '')) = Inr ''root@q.io''"
  by code_simp

lemma demo_find [simp]:
  "findActiveSession ''token'' 50 (demo_state x) = Some (demo_session, root_user\<lparr>us_suspendedAt := x\<rparr>)"
  "findUserByEmail ''root@q.io'' (demo_state x) = Some (root_user\<lparr>us_suspendedAt := x\<rparr>)"
  "findUserById ''u0'' (demo_state x) = Some (root_user\<lparr>us_suspendedAt := x\<rparr>)"
  "ad_sessions (demo_state x) = [demo_session]" "session_active 50 demo_session" "se_tokenHash demo_session = ''token''"
  "se_id demo_session = ''u1''" "se_userId demo_session = ''u0''"
  by (simp_all add: findActiveSession_def with_user_def findUserByEmail_def findUserById_def demo_state_def demo_session_def root_user_def
      session_active_def)


theorem login_exact_witness:
  "isOk (snd (login demo_rt demo_env (Some (JStr ''Root@q.io '')) ''h'' nobody (demo_state None)))
    \<and> \<not> isOk (snd (login demo_rt demo_env (Some (JStr ''Root@q.io '')) ''x'' nobody (demo_state None)))"
proof -
  have "(isOk (snd (login demo_rt demo_env (Some (JStr ''Root@q.io '')) p nobody (demo_state None))))
      = (\<exists>u. may_sign_in demo_rt ''root@q.io'' p (demo_state None) u)" for p
    by (rule login_exact [OF _ demo_email _ surjective_pairing, THEN conjunct1]) simp_all
  then show ?thesis by (simp add: may_sign_in_def root_user_def)
qed

theorem account_tables_invariant_witness:
  "tables_ok root_ids (serve demo_rt demo_env (Refreshes ''token'' nobody) (demo_state None))
    \<and> one_reset 50 (serve demo_rt demo_env (Refreshes ''token'' nobody) (demo_state None))"
proof -
  have "auth_run root_ids demo_env 50 (demo_state None) 50 (serve demo_rt demo_env (Refreshes ''token'' nobody) (demo_state None))"
    using auth_run.serves [OF auth_run.waits, of 50 demo_rt root_ids demo_env "demo_state None" "Refreshes ''token'' nobody"]
    by (simp del: serve.simps)
  then show ?thesis by (rule account_tables_invariant [OF inj_root_ids demo_ok demo_one])
qed

theorem signed_out_for_good_witness:
  "\<exists>s'. logout demo_rt demo_env None (Some ''token'') (demo_state None) = (s', Inr ''u1'')
    \<and> \<not> isOk (getCurrentSession demo_rt demo_env ''jwt'' (serve demo_rt demo_env (Refreshes ''token'' nobody) s'))"
proof -
  obtain s' where r: "logout demo_rt demo_env None (Some ''token'') (demo_state None) = (s', Inr ''u1'')"
    by (simp add: logout_def assertConnectedMode_def thenS_def bindS_def liftS_def getS_def retS_def revoke_def log_success)
  obtain v where v: "verifyBearerToken demo_rt demo_env ''jwt'' = Inr v" "cl_sessionId v = ''u1''" using demo_claims by blast
  have "auth_run root_ids demo_env 50 s' 50 (serve demo_rt demo_env (Refreshes ''token'' nobody) s')"
    using auth_run.serves [OF auth_run.waits, of 50 demo_rt root_ids demo_env s' "Refreshes ''token'' nobody"] by (simp del: serve.simps)
  from signed_out_for_good [OF inj_root_ids demo_ok r this v] show ?thesis using r by simp
qed

theorem suspended_user_stays_signed_in_witness:
  "isOk (snd (refresh demo_rt demo_env ''token'' nobody (demo_state (Some 10))))
    \<and> \<not> isOk (snd (login demo_rt demo_env (Some (JStr ''Root@q.io '')) ''h'' nobody (demo_state (Some 10))))"
proof -
  obtain v where v: "verifyBearerToken demo_rt demo_env ''jwt'' = Inr v" "cl_sessionId v = ''u1''" using demo_claims by blast
  show ?thesis
    using suspended_user_stays_signed_in [of root_ids "demo_state (Some 10)" demo_session demo_rt "root_user\<lparr>us_suspendedAt := Some 10\<rparr>" 10
        demo_env "''token''" "''jwt''" v "Some (JStr ''Root@q.io '')" nobody "''h''"] v demo_ok demo_email by (simp add: root_user_def)
qed


end
