(* ===== verification/Pricing.thy ===== *)
theory Pricing
  imports Settings
begin

text \<open>
  The price of an AI request: the pricing policy (\<open>apps/api/src/settings/ai-pricing-policy.ts\<close>), its
  service (\<open>ai-pricing-settings.service.ts\<close>), the overrides of a user
  (\<open>apps/api/src/ai/user-billing-override.repository.ts\<close>) and the calculation
  (\<open>ai-pricing.service.ts\<close>) on doubles, with the roundings of every operation.
\<close>

section \<open>The policy\<close>

datatype failed_mode = FailedNever | FailedProviderCostOnly | FailedMinimumFee

datatype user_key_mode = UserKeyNever | UserKeyPlatformFeeOnly | UserKeyFullPrice

record pricing_policy =
  pp_enabled :: bool
  pp_markupPercent :: jsnum
  pp_minimumFeeUsd :: jsnum
  pp_roundingUsd :: jsnum
  pp_maxChargeUsd :: "jsnum option"
  pp_chargeFailedRequests :: failed_mode
  pp_chargeUserKeyRequests :: user_key_mode
  pp_displayEstimatedPriceToUser :: bool

text \<open>A decimal literal is the double next to it.\<close>

definition literal :: "rat \<Rightarrow> jsnum" where
  "literal x = Fin (fl x)"

definition defaultAiPricingPolicy :: pricing_policy where
  "defaultAiPricingPolicy =
     \<lparr>pp_enabled = False, pp_markupPercent = Fin 25, pp_minimumFeeUsd = literal (5 / 10000),
      pp_roundingUsd = literal (1 / 1000000), pp_maxChargeUsd = None, pp_chargeFailedRequests = FailedNever,
      pp_chargeUserKeyRequests = UserKeyPlatformFeeOnly, pp_displayEstimatedPriceToUser = False\<rparr>"

definition allowedKeys :: "string list" where
  "allowedKeys = [''enabled'', ''markupPercent'', ''minimumFeeUsd'', ''roundingUsd'', ''maxChargeUsd'', ''chargeFailedRequests'',
     ''chargeUserKeyRequests'', ''displayEstimatedPriceToUser'']"

definition ensureNumber :: "string \<Rightarrow> json \<Rightarrow> jsnum result" where
  "ensureNumber name v = (case v of
     JNum n \<Rightarrow> if num_is_finite n then Inr n else Inl (JsError (name @ '' must be a finite number.''))
   | _ \<Rightarrow> Inl (JsError (name @ '' must be a finite number.'')))"

definition ensureNumberRange :: "string \<Rightarrow> jsnum \<Rightarrow> jsnum \<Rightarrow> json \<Rightarrow> jsnum result" where
  "ensureNumberRange name lo hi v =
     bindR (ensureNumber name v) (\<lambda>parsed.
       if num_less parsed lo \<or> num_less hi parsed
       then Inl (JsError (name @ '' must be between '' @ num_to_string lo @ '' and '' @ num_to_string hi @ ''.''))
       else Inr parsed)"

definition ensureBoolean :: "string \<Rightarrow> json \<Rightarrow> bool result" where
  "ensureBoolean name v = (case v of JBool b \<Rightarrow> Inr b | _ \<Rightarrow> Inl (JsError (name @ '' must be a boolean.'')))"

definition failed_name :: "failed_mode \<Rightarrow> string" where
  "failed_name m = (case m of
     FailedNever \<Rightarrow> ''never'' | FailedProviderCostOnly \<Rightarrow> ''provider_cost_only'' | FailedMinimumFee \<Rightarrow> ''minimum_fee'')"

definition user_key_name :: "user_key_mode \<Rightarrow> string" where
  "user_key_name m = (case m of
     UserKeyNever \<Rightarrow> ''never'' | UserKeyPlatformFeeOnly \<Rightarrow> ''platform_fee_only'' | UserKeyFullPrice \<Rightarrow> ''full_price'')"

definition ensureFailedMode :: "json \<Rightarrow> failed_mode result" where
  "ensureFailedMode v = (case find (\<lambda>m. v = JStr (failed_name m)) [FailedNever, FailedProviderCostOnly, FailedMinimumFee] of
     Some m \<Rightarrow> Inr m
   | None \<Rightarrow> Inl (JsError ''chargeFailedRequests must be one of: never, provider_cost_only, minimum_fee.''))"

definition ensureUserKeyMode :: "json \<Rightarrow> user_key_mode result" where
  "ensureUserKeyMode v = (case find (\<lambda>m. v = JStr (user_key_name m)) [UserKeyNever, UserKeyPlatformFeeOnly, UserKeyFullPrice] of
     Some m \<Rightarrow> Inr m
   | None \<Rightarrow> Inl (JsError ''chargeUserKeyRequests must be one of: never, platform_fee_only, full_price.''))"

text \<open>The checks on the fields, shared by the policy and the patch.\<close>

definition ensureMarkup :: "json \<Rightarrow> jsnum result" where
  "ensureMarkup = ensureNumberRange ''markupPercent'' (Fin 0) (Fin 500)"

definition ensureMinimumFee :: "json \<Rightarrow> jsnum result" where
  "ensureMinimumFee = ensureNumberRange ''minimumFeeUsd'' (Fin 0) (Fin 1)"

definition ensureRounding :: "json \<Rightarrow> jsnum result" where
  "ensureRounding = ensureNumberRange ''roundingUsd'' (literal (1 / 1000000)) (literal (1 / 100))"

definition ensureMaxCharge :: "json \<Rightarrow> jsnum option result" where
  "ensureMaxCharge v =
     (if v = JNull then Inr None
      else bindR (ensureNumberRange ''maxChargeUsd'' (literal (1 / 1000000)) (Fin 100) v) (\<lambda>n. Inr (Some n)))"

definition unknown_keys :: "json_object \<Rightarrow> unit result" where
  "unknown_keys raw = (case find (\<lambda>(k, v). k \<notin> set allowedKeys) raw of
     None \<Rightarrow> Inr () | Some (k, v) \<Rightarrow> Inl (JsError (''Unknown ai pricing field: '' @ k @ ''.'')))"

text \<open>\<open>if (key in raw) policy.field = check(raw[key])\<close>.\<close>

definition read_field :: "json_object \<Rightarrow> string \<Rightarrow> (json \<Rightarrow> 'a result) \<Rightarrow> ('a \<Rightarrow> 'p \<Rightarrow> 'p) \<Rightarrow> 'p \<Rightarrow> 'p result" where
  "read_field raw key check put_field p = (case map_of raw key of
     None \<Rightarrow> Inr p | Some v \<Rightarrow> bindR (check v) (\<lambda>x. Inr (put_field x p)))"

definition parseAndNormalizeAiPricingPolicy :: "json \<Rightarrow> pricing_policy result" where
  "parseAndNormalizeAiPricingPolicy input = (case input of
     JObj raw \<Rightarrow>
       bindR (unknown_keys raw) (\<lambda>_.
       bindR (read_field raw ''enabled'' (ensureBoolean ''enabled'') (\<lambda>x p. p\<lparr>pp_enabled := x\<rparr>) defaultAiPricingPolicy) (\<lambda>p1.
       bindR (read_field raw ''markupPercent'' ensureMarkup (\<lambda>x p. p\<lparr>pp_markupPercent := x\<rparr>) p1) (\<lambda>p2.
       bindR (read_field raw ''minimumFeeUsd'' ensureMinimumFee (\<lambda>x p. p\<lparr>pp_minimumFeeUsd := x\<rparr>) p2) (\<lambda>p3.
       bindR (read_field raw ''roundingUsd'' ensureRounding (\<lambda>x p. p\<lparr>pp_roundingUsd := x\<rparr>) p3) (\<lambda>p4.
       bindR (read_field raw ''maxChargeUsd'' ensureMaxCharge (\<lambda>x p. p\<lparr>pp_maxChargeUsd := x\<rparr>) p4) (\<lambda>p5.
       bindR (read_field raw ''chargeFailedRequests'' ensureFailedMode (\<lambda>x p. p\<lparr>pp_chargeFailedRequests := x\<rparr>) p5) (\<lambda>p6.
       bindR (read_field raw ''chargeUserKeyRequests'' ensureUserKeyMode (\<lambda>x p. p\<lparr>pp_chargeUserKeyRequests := x\<rparr>) p6) (\<lambda>p7.
         read_field raw ''displayEstimatedPriceToUser'' (ensureBoolean ''displayEstimatedPriceToUser'')
           (\<lambda>x p. p\<lparr>pp_displayEstimatedPriceToUser := x\<rparr>) p7))))))))
   | _ \<Rightarrow> Inl (JsError ''AI pricing policy payload must be an object.''))"

record pricing_patch =
  pq_enabled :: "bool option"
  pq_markupPercent :: "jsnum option"
  pq_minimumFeeUsd :: "jsnum option"
  pq_roundingUsd :: "jsnum option"
  pq_maxChargeUsd :: "jsnum option option"
  pq_chargeFailedRequests :: "failed_mode option"
  pq_chargeUserKeyRequests :: "user_key_mode option"
  pq_displayEstimatedPriceToUser :: "bool option"

definition empty_pricing_patch :: pricing_patch where
  "empty_pricing_patch =
     \<lparr>pq_enabled = None, pq_markupPercent = None, pq_minimumFeeUsd = None, pq_roundingUsd = None, pq_maxChargeUsd = None,
      pq_chargeFailedRequests = None, pq_chargeUserKeyRequests = None, pq_displayEstimatedPriceToUser = None\<rparr>"

definition parseAiPricingPolicyPatch :: "json \<Rightarrow> pricing_patch result" where
  "parseAiPricingPolicyPatch input = (case input of
     JObj raw \<Rightarrow>
       bindR (unknown_keys raw) (\<lambda>_.
       bindR (read_field raw ''enabled'' (ensureBoolean ''enabled'') (\<lambda>x p. p\<lparr>pq_enabled := Some x\<rparr>) empty_pricing_patch) (\<lambda>p1.
       bindR (read_field raw ''markupPercent'' ensureMarkup (\<lambda>x p. p\<lparr>pq_markupPercent := Some x\<rparr>) p1) (\<lambda>p2.
       bindR (read_field raw ''minimumFeeUsd'' ensureMinimumFee (\<lambda>x p. p\<lparr>pq_minimumFeeUsd := Some x\<rparr>) p2) (\<lambda>p3.
       bindR (read_field raw ''roundingUsd'' ensureRounding (\<lambda>x p. p\<lparr>pq_roundingUsd := Some x\<rparr>) p3) (\<lambda>p4.
       bindR (read_field raw ''maxChargeUsd'' ensureMaxCharge (\<lambda>x p. p\<lparr>pq_maxChargeUsd := Some x\<rparr>) p4) (\<lambda>p5.
       bindR (read_field raw ''chargeFailedRequests'' ensureFailedMode (\<lambda>x p. p\<lparr>pq_chargeFailedRequests := Some x\<rparr>) p5) (\<lambda>p6.
       bindR (read_field raw ''chargeUserKeyRequests'' ensureUserKeyMode (\<lambda>x p. p\<lparr>pq_chargeUserKeyRequests := Some x\<rparr>) p6) (\<lambda>p7.
         read_field raw ''displayEstimatedPriceToUser'' (ensureBoolean ''displayEstimatedPriceToUser'')
           (\<lambda>x p. p\<lparr>pq_displayEstimatedPriceToUser := Some x\<rparr>) p7))))))))
   | _ \<Rightarrow> Inl (JsError ''AI pricing policy patch payload must be an object.''))"

definition pricing_json :: "pricing_policy \<Rightarrow> json" where
  "pricing_json p = JObj
     [(''enabled'', JBool (pp_enabled p)), (''markupPercent'', JNum (pp_markupPercent p)),
      (''minimumFeeUsd'', JNum (pp_minimumFeeUsd p)), (''roundingUsd'', JNum (pp_roundingUsd p)),
      (''maxChargeUsd'', (case pp_maxChargeUsd p of None \<Rightarrow> JNull | Some n \<Rightarrow> JNum n)),
      (''chargeFailedRequests'', JStr (failed_name (pp_chargeFailedRequests p))),
      (''chargeUserKeyRequests'', JStr (user_key_name (pp_chargeUserKeyRequests p))),
      (''displayEstimatedPriceToUser'', JBool (pp_displayEstimatedPriceToUser p))]"

definition overlay_pricing :: "pricing_policy \<Rightarrow> pricing_patch \<Rightarrow> pricing_policy" where
  "overlay_pricing p q =
     \<lparr>pp_enabled = nullish (pq_enabled q) (pp_enabled p), pp_markupPercent = nullish (pq_markupPercent q) (pp_markupPercent p),
      pp_minimumFeeUsd = nullish (pq_minimumFeeUsd q) (pp_minimumFeeUsd p),
      pp_roundingUsd = nullish (pq_roundingUsd q) (pp_roundingUsd p), pp_maxChargeUsd = nullish (pq_maxChargeUsd q) (pp_maxChargeUsd p),
      pp_chargeFailedRequests = nullish (pq_chargeFailedRequests q) (pp_chargeFailedRequests p),
      pp_chargeUserKeyRequests = nullish (pq_chargeUserKeyRequests q) (pp_chargeUserKeyRequests p),
      pp_displayEstimatedPriceToUser = nullish (pq_displayEstimatedPriceToUser q) (pp_displayEstimatedPriceToUser p)\<rparr>"

definition mergeAiPricingPolicy :: "pricing_policy \<Rightarrow> pricing_patch \<Rightarrow> pricing_policy result" where
  "mergeAiPricingPolicy base patch = parseAndNormalizeAiPricingPolicy (pricing_json (overlay_pricing base patch))"

section \<open>The price\<close>

datatype key_source = PlatformKey | UserKey

datatype request_status = RequestSuccess | RequestError | RequestQuotaExceeded

datatype pricing_source = FromProvider | Estimated

record pricing_breakdown =
  pb_providerCostUsd :: jsnum
  pb_platformFeeUsd :: jsnum
  pb_chargedCostUsd :: jsnum
  pb_pricingSource :: pricing_source
  pb_policySnapshot :: pricing_policy
  pb_chargeable :: bool
  pb_reason :: "string option"

definition roundToIncrement :: "jsnum \<Rightarrow> jsnum \<Rightarrow> jsnum" where
  "roundToIncrement v increment =
     (if num_le increment (Fin 0) then v else num_mul (math_round (num_div v increment)) increment)"

definition platform_fee :: "pricing_policy \<Rightarrow> jsnum \<Rightarrow> jsnum" where
  "platform_fee policy providerCostUsd =
     math_max (num_div (num_mul providerCostUsd (pp_markupPercent policy)) (Fin 100)) (math_max (Fin 0) (pp_minimumFeeUsd policy))"

text \<open>The charge before the cap and the rounding.\<close>

definition raw_charge :: "pricing_policy \<Rightarrow> key_source \<Rightarrow> request_status \<Rightarrow> jsnum \<Rightarrow> jsnum" where
  "raw_charge policy keySource status providerCostUsd =
     (let fee = platform_fee policy providerCostUsd;
          full = num_add providerCostUsd fee;
          byKey = (if keySource = UserKey then
              (case pp_chargeUserKeyRequests policy of
                 UserKeyNever \<Rightarrow> Fin 0 | UserKeyPlatformFeeOnly \<Rightarrow> fee | UserKeyFullPrice \<Rightarrow> full)
            else full)
      in if status \<noteq> RequestSuccess then
           (case pp_chargeFailedRequests policy of
              FailedNever \<Rightarrow> Fin 0
            | FailedProviderCostOnly \<Rightarrow> if num_less (Fin 0) providerCostUsd then providerCostUsd else Fin 0
            | FailedMinimumFee \<Rightarrow> math_max (Fin 0) (pp_minimumFeeUsd policy))
         else byKey)"

definition capped_charge :: "pricing_policy \<Rightarrow> jsnum \<Rightarrow> jsnum" where
  "capped_charge policy charge = (case pp_maxChargeUsd policy of None \<Rightarrow> charge | Some m \<Rightarrow> math_min charge m)"

definition calculateWithPolicy ::
  "pricing_policy \<Rightarrow> jsnum \<Rightarrow> pricing_source \<Rightarrow> key_source \<Rightarrow> request_status \<Rightarrow> pricing_breakdown" where
  "calculateWithPolicy policy cost source keySource status =
     (let providerCostUsd = math_max (Fin 0) cost;
          charge = capped_charge policy (raw_charge policy keySource status providerCostUsd);
          roundedCharged = roundToIncrement charge (pp_roundingUsd policy);
          roundedProvider = roundToIncrement providerCostUsd (pp_roundingUsd policy);
          roundedFee = roundToIncrement (platform_fee policy providerCostUsd) (pp_roundingUsd policy)
      in if \<not> pp_enabled policy then
           \<lparr>pb_providerCostUsd = roundedProvider, pb_platformFeeUsd = roundedFee, pb_chargedCostUsd = Fin 0, pb_pricingSource = source,
            pb_policySnapshot = policy, pb_chargeable = False, pb_reason = Some ''pricing_disabled''\<rparr>
         else if num_le roundedCharged (Fin 0) then
           \<lparr>pb_providerCostUsd = roundedProvider, pb_platformFeeUsd = roundedFee, pb_chargedCostUsd = Fin 0, pb_pricingSource = source,
            pb_policySnapshot = policy, pb_chargeable = False, pb_reason = Some ''zero_charge''\<rparr>
         else
           \<lparr>pb_providerCostUsd = roundedProvider, pb_platformFeeUsd = roundedFee, pb_chargedCostUsd = roundedCharged, pb_pricingSource = source,
            pb_policySnapshot = policy, pb_chargeable = True, pb_reason = None\<rparr>)"

section \<open>Overrides of a user\<close>

record billing_override =
  ov_userId :: string
  ov_aiPlatformFeeExempt :: bool
  ov_aiMarkupPercentOverride :: "jsnum option"
  ov_reason :: "string option"
  ov_createdById :: "string option"
  ov_updatedById :: "string option"

definition resolveEffectiveAiPricingPolicy :: "pricing_policy \<Rightarrow> billing_override option \<Rightarrow> pricing_policy" where
  "resolveEffectiveAiPricingPolicy policy userOverride = (case userOverride of
     None \<Rightarrow> policy
   | Some ov \<Rightarrow>
       if ov_aiPlatformFeeExempt ov then policy\<lparr>pp_markupPercent := Fin 0, pp_minimumFeeUsd := Fin 0\<rparr>
       else (case ov_aiMarkupPercentOverride ov of None \<Rightarrow> policy | Some m \<Rightarrow> policy\<lparr>pp_markupPercent := m\<rparr>))"

definition getOverrideForUser :: "billing_override list \<Rightarrow> string \<Rightarrow> billing_override option" where
  "getOverrideForUser rows u = find (\<lambda>r. ov_userId r = u) rows"

record override_patch =
  oq_aiPlatformFeeExempt :: "bool option"
  oq_aiMarkupPercentOverride :: "jsnum option option"
  oq_reason :: "string option"

definition updateOverride :: "string \<Rightarrow> override_patch \<Rightarrow> string option \<Rightarrow> (billing_override list, billing_override) op" where
  "updateOverride u patch actorId rows =
     (let reason = nullish (map_option trim (oq_reason patch)) [];
          normalizedReason = (if reason = [] then ''Admin billing override'' else reason);
          markup = nullish (oq_aiMarkupPercentOverride patch) None
      in if 500 < length reason then (rows, Inl (JsError ''reason length must be at most 500.''))
         else if markup \<noteq> None \<and> (\<not> num_is_finite (the markup) \<or> num_less (the markup) (Fin 0) \<or> num_less (Fin 500) (the markup))
         then (rows, Inl (JsError ''aiMarkupPercentOverride must be between 0 and 500.''))
         else (case getOverrideForUser rows u of
             None \<Rightarrow>
               let r = \<lparr>ov_userId = u, ov_aiPlatformFeeExempt = nullish (oq_aiPlatformFeeExempt patch) False,
                        ov_aiMarkupPercentOverride = markup, ov_reason = Some normalizedReason,
                        ov_createdById = actorId, ov_updatedById = actorId\<rparr>
               in (rows @ [r], Inr r)
           | Some old \<Rightarrow>
               let r = old\<lparr>ov_aiPlatformFeeExempt := nullish (oq_aiPlatformFeeExempt patch) (ov_aiPlatformFeeExempt old),
                           ov_aiMarkupPercentOverride := nullish (oq_aiMarkupPercentOverride patch) (ov_aiMarkupPercentOverride old),
                           ov_reason := Some normalizedReason,
                           ov_updatedById := (if actorId = None then ov_updatedById old else actorId)\<rparr>
               in (map (\<lambda>x. if ov_userId x = u then r else x) rows, Inr r)))"

definition deleteOverride :: "string \<Rightarrow> billing_override list \<Rightarrow> billing_override list" where
  "deleteOverride u rows = filter (\<lambda>r. ov_userId r \<noteq> u) rows"

section \<open>The service\<close>

definition PLATFORM_AI_PRICING_POLICY_KEY :: string where
  "PLATFORM_AI_PRICING_POLICY_KEY = ''platform.ai_pricing_policy''"

text \<open>The fields of a patch that change, in the order the patch is built.\<close>

definition pricing_changed :: "pricing_policy \<Rightarrow> pricing_patch \<Rightarrow> pricing_policy \<Rightarrow> string list" where
  "pricing_changed current patch nextPolicy =
     map fst (filter snd
       [(''enabled'', pq_enabled patch \<noteq> None \<and> pp_enabled current \<noteq> pp_enabled nextPolicy),
        (''markupPercent'', pq_markupPercent patch \<noteq> None \<and> pp_markupPercent current \<noteq> pp_markupPercent nextPolicy),
        (''minimumFeeUsd'', pq_minimumFeeUsd patch \<noteq> None \<and> pp_minimumFeeUsd current \<noteq> pp_minimumFeeUsd nextPolicy),
        (''roundingUsd'', pq_roundingUsd patch \<noteq> None \<and> pp_roundingUsd current \<noteq> pp_roundingUsd nextPolicy),
        (''maxChargeUsd'', pq_maxChargeUsd patch \<noteq> None \<and> pp_maxChargeUsd current \<noteq> pp_maxChargeUsd nextPolicy),
        (''chargeFailedRequests'',
           pq_chargeFailedRequests patch \<noteq> None \<and> pp_chargeFailedRequests current \<noteq> pp_chargeFailedRequests nextPolicy),
        (''chargeUserKeyRequests'',
           pq_chargeUserKeyRequests patch \<noteq> None \<and> pp_chargeUserKeyRequests current \<noteq> pp_chargeUserKeyRequests nextPolicy),
        (''displayEstimatedPriceToUser'', pq_displayEstimatedPriceToUser patch \<noteq> None
           \<and> pp_displayEstimatedPriceToUser current \<noteq> pp_displayEstimatedPriceToUser nextPolicy)])"

definition pricing_audit :: "string \<Rightarrow> int \<Rightarrow> string list \<Rightarrow> pricing_policy \<Rightarrow> pricing_policy \<Rightarrow> audit_entry" where
  "pricing_audit userId now changed before after =
     \<lparr>an_sourceRecordId = userId @ '':'' @ toISOString now @ '':ai-pricing-policy'', an_eventType = ''admin.ai_pricing_policy_updated'',
      an_occurredAt = now, an_actorId = userId, an_targetId = PLATFORM_AI_PRICING_POLICY_KEY,
      an_metadata = [(''changedFields'', JArr (map JStr changed)), (''before'', pricing_json before), (''after'', pricing_json after)]\<rparr>"

definition getEffectivePricingPolicy ::
  "bool \<Rightarrow> int \<Rightarrow> pricing_policy settings_state \<Rightarrow> pricing_policy settings_state \<times> pricing_policy" where
  "getEffectivePricingPolicy = getEffectivePolicy parseAndNormalizeAiPricingPolicy defaultAiPricingPolicy PLATFORM_AI_PRICING_POLICY_KEY"

definition getPricingPolicy :: "int \<Rightarrow> (pricing_policy settings_state, pricing_policy policy_snapshot) op" where
  "getPricingPolicy = getPolicy parseAndNormalizeAiPricingPolicy defaultAiPricingPolicy PLATFORM_AI_PRICING_POLICY_KEY"

definition updatePricingPolicy ::
  "string \<Rightarrow> bool \<Rightarrow> int \<Rightarrow> json \<Rightarrow> (pricing_policy settings_state, pricing_policy policy_snapshot) op" where
  "updatePricingPolicy userId auditUp now request =
     updatePolicy parseAndNormalizeAiPricingPolicy parseAiPricingPolicyPatch mergeAiPricingPolicy pricing_json pricing_changed
       (pricing_audit userId now) defaultAiPricingPolicy PLATFORM_AI_PRICING_POLICY_KEY userId auditUp now request"

text \<open>\<open>calculate\<close>: the policy of the request, else the effective one.\<close>

definition calculate ::
  "pricing_policy option \<Rightarrow> jsnum \<Rightarrow> pricing_source \<Rightarrow> key_source \<Rightarrow> request_status \<Rightarrow> bool \<Rightarrow> int \<Rightarrow> pricing_policy settings_state \<Rightarrow>
   pricing_policy settings_state \<times> pricing_breakdown" where
  "calculate policy cost source keySource status up now s = (case policy of
     Some p \<Rightarrow> (s, calculateWithPolicy p cost source keySource status)
   | None \<Rightarrow> let (s', p) = getEffectivePricingPolicy up now s in (s', calculateWithPolicy p cost source keySource status))"

section \<open>Policies within their limits\<close>

definition in_limits :: "jsnum \<Rightarrow> jsnum \<Rightarrow> jsnum \<Rightarrow> bool" where
  "in_limits lo hi n = (num_is_finite n \<and> \<not> num_less n lo \<and> \<not> num_less hi n)"

definition pricing_ok :: "pricing_policy \<Rightarrow> bool" where
  "pricing_ok p = (in_limits (Fin 0) (Fin 500) (pp_markupPercent p) \<and> in_limits (Fin 0) (Fin 1) (pp_minimumFeeUsd p)
     \<and> in_limits (literal (1 / 1000000)) (literal (1 / 100)) (pp_roundingUsd p)
     \<and> (\<forall>m \<in> set_option (pp_maxChargeUsd p). in_limits (literal (1 / 1000000)) (Fin 100) m))"

definition pricing_patch_ok :: "pricing_patch \<Rightarrow> bool" where
  "pricing_patch_ok q = ((\<forall>m \<in> set_option (pq_markupPercent q). in_limits (Fin 0) (Fin 500) m)
     \<and> (\<forall>m \<in> set_option (pq_minimumFeeUsd q). in_limits (Fin 0) (Fin 1) m)
     \<and> (\<forall>m \<in> set_option (pq_roundingUsd q). in_limits (literal (1 / 1000000)) (literal (1 / 100)) m)
     \<and> (\<forall>m \<in> set_option (pq_maxChargeUsd q). \<forall>c \<in> set_option m. in_limits (literal (1 / 1000000)) (Fin 100) c))"

lemma ensureNumberRange_iff: "ensureNumberRange name lo hi v = Inr n \<longleftrightarrow> v = JNum n \<and> in_limits lo hi n"
  by (cases v) (auto simp: ensureNumberRange_def ensureNumber_def in_limits_def)

lemma ensureMaxCharge_iff:
  "ensureMaxCharge v = Inr m \<longleftrightarrow>
     (case m of None \<Rightarrow> v = JNull | Some n \<Rightarrow> v = JNum n \<and> in_limits (literal (1 / 1000000)) (Fin 100) n)"
  by (cases m) (auto simp: ensureMaxCharge_def ensureNumberRange_iff)

lemmas ensure_iff = ensureNumberRange_iff ensureMaxCharge_iff ensureMarkup_def ensureMinimumFee_def ensureRounding_def

lemma ensure_modes [simp]:
  "ensureFailedMode (JStr (failed_name f)) = Inr f" "ensureUserKeyMode (JStr (user_key_name u)) = Inr u"
  "ensureBoolean name (JBool b) = Inr b"
proof -
  show "ensureFailedMode (JStr (failed_name f)) = Inr f" by (cases f) (simp_all add: ensureFailedMode_def failed_name_def)
  show "ensureUserKeyMode (JStr (user_key_name u)) = Inr u" by (cases u) (simp_all add: ensureUserKeyMode_def user_key_name_def)
qed (simp add: ensureBoolean_def)

lemma read_field_invariant:
  assumes "read_field raw key check put_field p = Inr p'" and "P p" and "\<And>v x. P p \<Longrightarrow> check v = Inr x \<Longrightarrow> P (put_field x p)"
  shows "P p'"
  using assms by (auto simp: read_field_def split: option.splits)

lemma fl_literals [simp]:
  "0 \<le> fl (1 / 2000)" "fl (1 / 2000) \<le> 1" "0 < fl (1 / 1000000)" "fl (1 / 1000000) \<le> fl (1 / 100)" "fl (1 / 100) \<le> 1 / 64"
proof -
  have d: "fl (1 / 2 ^ k) = 1 / 2 ^ k" if "k \<le> 60" for k :: nat
  proof (rule fl_exact [of _ 1 "- int k"])
    show "1 / 2 ^ k = of_int 1 * pw (- int k)" by (simp add: pw_minus pw_nat)
    have e: "expo (pw (- int k)) = - int k" by (rule expo_unique) (simp_all add: pw_strict_mono)
    show "ulp_exp \<bar>1 / 2 ^ k\<bar> \<le> - int k" using e that by (simp add: ulp_exp_def pw_minus pw_nat)
  qed simp
  show "0 < fl (1 / 1000000)" using fl_mono [of "1 / 2 ^ 20" "1 / 1000000"] d [of 20] by simp
  show "fl (1 / 100) \<le> 1 / 64" using fl_mono [of "1 / 100" "1 / 2 ^ 6"] d [of 6] by simp
  show "fl (1 / 2000) \<le> 1" using fl_mono [of "1 / 2000" 1] fl_of_int [of 1] by simp
qed (simp_all add: fl_nonneg fl_mono)

lemma pricing_default_ok: "pricing_ok defaultAiPricingPolicy"
  by (simp add: pricing_ok_def defaultAiPricingPolicy_def in_limits_def literal_def not_less num_is_finite_def)

lemma parsed_pricing_ok:
  assumes "parseAndNormalizeAiPricingPolicy input = Inr p"
  shows "pricing_ok p"
proof -
  obtain raw p1 p2 p3 p4 p5 p6 p7 where
    1: "read_field raw ''enabled'' (ensureBoolean ''enabled'') (\<lambda>x p. p\<lparr>pp_enabled := x\<rparr>) defaultAiPricingPolicy = Inr p1"
    and 2: "read_field raw ''markupPercent'' ensureMarkup (\<lambda>x p. p\<lparr>pp_markupPercent := x\<rparr>) p1 = Inr p2"
    and 3: "read_field raw ''minimumFeeUsd'' ensureMinimumFee (\<lambda>x p. p\<lparr>pp_minimumFeeUsd := x\<rparr>) p2 = Inr p3"
    and 4: "read_field raw ''roundingUsd'' ensureRounding (\<lambda>x p. p\<lparr>pp_roundingUsd := x\<rparr>) p3 = Inr p4"
    and 5: "read_field raw ''maxChargeUsd'' ensureMaxCharge (\<lambda>x p. p\<lparr>pp_maxChargeUsd := x\<rparr>) p4 = Inr p5"
    and 6: "read_field raw ''chargeFailedRequests'' ensureFailedMode (\<lambda>x p. p\<lparr>pp_chargeFailedRequests := x\<rparr>) p5 = Inr p6"
    and 7: "read_field raw ''chargeUserKeyRequests'' ensureUserKeyMode (\<lambda>x p. p\<lparr>pp_chargeUserKeyRequests := x\<rparr>) p6 = Inr p7"
    and 8: "read_field raw ''displayEstimatedPriceToUser'' (ensureBoolean ''displayEstimatedPriceToUser'')
           (\<lambda>x p. p\<lparr>pp_displayEstimatedPriceToUser := x\<rparr>) p7 = Inr p"
    using assms by (cases input) (auto simp: parseAndNormalizeAiPricingPolicy_def)
  have "pricing_ok p1" using 1 pricing_default_ok
    by (rule read_field_invariant) (simp add: pricing_ok_def)
  with 2 have "pricing_ok p2" by (rule read_field_invariant) (auto simp: pricing_ok_def ensure_iff)
  with 3 have "pricing_ok p3" by (rule read_field_invariant) (auto simp: pricing_ok_def ensure_iff)
  with 4 have "pricing_ok p4" by (rule read_field_invariant) (auto simp: pricing_ok_def ensure_iff)
  with 5 have "pricing_ok p5" by (rule read_field_invariant) (auto simp: pricing_ok_def ensure_iff split: option.splits)
  with 6 have "pricing_ok p6" by (rule read_field_invariant) (simp add: pricing_ok_def)
  with 7 have "pricing_ok p7" by (rule read_field_invariant) (simp add: pricing_ok_def)
  with 8 show ?thesis by (rule read_field_invariant) (simp add: pricing_ok_def)
qed

lemma parsed_pricing_patch_ok:
  assumes "parseAiPricingPolicyPatch input = Inr q"
  shows "pricing_patch_ok q"
proof -
  obtain raw q1 q2 q3 q4 q5 q6 q7 where
    1: "read_field raw ''enabled'' (ensureBoolean ''enabled'') (\<lambda>x p. p\<lparr>pq_enabled := Some x\<rparr>) empty_pricing_patch = Inr q1"
    and 2: "read_field raw ''markupPercent'' ensureMarkup (\<lambda>x p. p\<lparr>pq_markupPercent := Some x\<rparr>) q1 = Inr q2"
    and 3: "read_field raw ''minimumFeeUsd'' ensureMinimumFee (\<lambda>x p. p\<lparr>pq_minimumFeeUsd := Some x\<rparr>) q2 = Inr q3"
    and 4: "read_field raw ''roundingUsd'' ensureRounding (\<lambda>x p. p\<lparr>pq_roundingUsd := Some x\<rparr>) q3 = Inr q4"
    and 5: "read_field raw ''maxChargeUsd'' ensureMaxCharge (\<lambda>x p. p\<lparr>pq_maxChargeUsd := Some x\<rparr>) q4 = Inr q5"
    and 6: "read_field raw ''chargeFailedRequests'' ensureFailedMode (\<lambda>x p. p\<lparr>pq_chargeFailedRequests := Some x\<rparr>) q5 = Inr q6"
    and 7: "read_field raw ''chargeUserKeyRequests'' ensureUserKeyMode (\<lambda>x p. p\<lparr>pq_chargeUserKeyRequests := Some x\<rparr>) q6 = Inr q7"
    and 8: "read_field raw ''displayEstimatedPriceToUser'' (ensureBoolean ''displayEstimatedPriceToUser'')
           (\<lambda>x p. p\<lparr>pq_displayEstimatedPriceToUser := Some x\<rparr>) q7 = Inr q"
    using assms by (cases input) (auto simp: parseAiPricingPolicyPatch_def)
  have 0: "pricing_patch_ok empty_pricing_patch" by (simp add: pricing_patch_ok_def empty_pricing_patch_def)
  have "pricing_patch_ok q1" using 1 0 by (rule read_field_invariant) (simp add: pricing_patch_ok_def empty_pricing_patch_def)
  with 2 have "pricing_patch_ok q2" by (rule read_field_invariant) (auto simp: pricing_patch_ok_def ensure_iff)
  with 3 have "pricing_patch_ok q3" by (rule read_field_invariant) (auto simp: pricing_patch_ok_def ensure_iff)
  with 4 have "pricing_patch_ok q4" by (rule read_field_invariant) (auto simp: pricing_patch_ok_def ensure_iff)
  with 5 have "pricing_patch_ok q5" by (rule read_field_invariant) (auto simp: pricing_patch_ok_def ensure_iff split: option.splits)
  with 6 have "pricing_patch_ok q6" by (rule read_field_invariant) (simp add: pricing_patch_ok_def)
  with 7 have "pricing_patch_ok q7" by (rule read_field_invariant) (simp add: pricing_patch_ok_def)
  with 8 show ?thesis by (rule read_field_invariant) (simp add: pricing_patch_ok_def)
qed

lemma overlay_pricing_ok: "pricing_ok p \<Longrightarrow> pricing_patch_ok q \<Longrightarrow> pricing_ok (overlay_pricing p q)"
  by (auto simp: pricing_ok_def pricing_patch_ok_def overlay_pricing_def nullish_def split: option.splits)

lemma ensure_limits [simp]:
  "in_limits lo hi n \<Longrightarrow> ensureNumberRange name lo hi (JNum n) = Inr n"
  by (simp add: ensureNumberRange_iff)

lemma parse_pricing_json: "pricing_ok p \<Longrightarrow> parseAndNormalizeAiPricingPolicy (pricing_json p) = Inr p"
  by (simp add: parseAndNormalizeAiPricingPolicy_def pricing_json_def unknown_keys_def allowedKeys_def read_field_def
      pricing_ok_def ensureMarkup_def ensureMinimumFee_def ensureRounding_def ensureMaxCharge_def split: option.splits)

interpretation pricing_service: policy_service parseAndNormalizeAiPricingPolicy parseAiPricingPolicyPatch mergeAiPricingPolicy
  pricing_json pricing_ok
proof (unfold_locales, goal_cases)
  case (3 p v q)
  then have "pricing_ok (overlay_pricing p q)" by (intro overlay_pricing_ok parsed_pricing_patch_ok)
  then show ?case by (simp add: mergeAiPricingPolicy_def parse_pricing_json)
qed (simp_all add: parse_pricing_json parsed_pricing_ok)

section \<open>Rounding is monotone\<close>

lemma num_of_rat_mono:
  assumes "x \<le> y"
  shows "num_le (num_of_rat x) (num_of_rat y)"
proof -
  have le: "fl x \<le> fl y" using assms by (rule fl_mono)
  have "expo \<bar>v\<bar> \<le> expo \<bar>w\<bar>" if "v \<noteq> 0" "\<bar>v\<bar> \<le> \<bar>w\<bar>" for v w :: rat
    using that by (intro expo_mono) simp_all
  from this [of "fl x" "fl y"] this [of "fl y" "fl x"] le show ?thesis
    by (cases "fl x = 0"; cases "fl y = 0"; cases "0 < fl x"; cases "0 < fl y") (auto simp: num_of_rat_def Let_def)
qed

lemma num_le_not_NaN: "num_le a b \<Longrightarrow> a \<noteq> NaN \<and> b \<noteq> NaN"
  by (cases a; cases b) simp_all

lemma num_le_refl: "a \<noteq> NaN \<Longrightarrow> num_le a a"
  by (cases a) simp_all

lemma num_le_trans: "num_le a b \<Longrightarrow> num_le b c \<Longrightarrow> num_le a c"
  by (cases a; cases b; cases c) simp_all

lemma num_not_le: "a \<noteq> NaN \<Longrightarrow> b \<noteq> NaN \<Longrightarrow> \<not> num_le a b \<longleftrightarrow> num_less b a"
  by (cases a; cases b) (simp_all add: not_le)

lemma num_less_le: "num_less a b \<Longrightarrow> num_le a b"
  by (cases a; cases b) simp_all

lemma num_less_not_le: "num_less a b \<Longrightarrow> \<not> num_le b a"
  by (cases a; cases b) (simp_all add: not_le)

lemma num_div_by_mono: "num_le a b \<Longrightarrow> 0 < m \<Longrightarrow> num_le (num_div a (Fin m)) (num_div b (Fin m))"
  by (cases a; cases b) (simp_all add: num_of_rat_mono divide_right_mono, simp_all add: num_of_rat_def Let_def)

lemma num_mul_mono: "num_le a b \<Longrightarrow> 0 < m \<Longrightarrow> num_le (num_mul a (Fin m)) (num_mul b (Fin m))"
  by (cases a; cases b) (simp_all add: num_of_rat_mono mult_right_mono num_sgn_def num_inf_def, simp_all add: num_of_rat_def Let_def)

lemma num_add_mono: "x \<le> y \<Longrightarrow> num_le a b \<Longrightarrow> num_le (num_add (Fin x) a) (num_add (Fin y) b)"
  by (cases a; cases b) (simp_all add: num_of_rat_mono add_mono, simp_all add: num_of_rat_def Let_def)

lemma math_max_mono: "num_le a b \<Longrightarrow> c \<noteq> NaN \<Longrightarrow> num_le (math_max a c) (math_max b c)"
  by (cases a; cases b; cases c) (simp_all add: math_max_def)

lemma math_min_mono: "num_le a b \<Longrightarrow> c \<noteq> NaN \<Longrightarrow> num_le (math_min a c) (math_min b c)"
  by (cases a; cases b; cases c) (simp_all add: math_min_def)

lemma math_round_mono: "num_le a b \<Longrightarrow> num_le (math_round a) (math_round b)"
  by (cases a; cases b) (simp_all add: math_round_def floor_mono)

lemma floor_half [simp]: "\<lfloor>1 / 2 :: rat\<rfloor> = 0"
  by (simp add: floor_eq_iff)

lemma roundToIncrement_mono: "num_le a b \<Longrightarrow> 0 < r \<Longrightarrow> num_le (roundToIncrement a (Fin r)) (roundToIncrement b (Fin r))"
  by (simp add: roundToIncrement_def num_mul_mono num_div_by_mono math_round_mono)

section \<open>Properties\<close>

lemma pricing_ok_numbers:
  assumes "pricing_ok policy"
  obtains m f r where "pp_markupPercent policy = Fin m" "0 \<le> m" "pp_minimumFeeUsd policy = Fin f" "0 \<le> f"
    "pp_roundingUsd policy = Fin r" "0 < r"
    "pp_maxChargeUsd policy \<noteq> None \<Longrightarrow> \<exists>c. pp_maxChargeUsd policy = Some (Fin c) \<and> 0 < c"
proof -
  have pos: "\<exists>x. n = Fin x \<and> 0 < x" if "in_limits (literal (1 / 1000000)) hi n" for hi n
    using that by (cases n) (auto simp: in_limits_def literal_def num_is_finite_def not_less dest: less_le_trans [OF fl_literals(3)])
  have nonneg: "\<exists>x. n = Fin x \<and> 0 \<le> x" if "in_limits (Fin 0) hi n" for hi n
    using that by (cases n) (auto simp: in_limits_def num_is_finite_def not_less)
  show thesis using assms that pos nonneg unfolding pricing_ok_def by (metis option.set_intros option.exhaust)
qed

lemma platform_fee_mono:
  assumes "pricing_ok policy" and "c \<le> d"
  shows "num_le (platform_fee policy (Fin c)) (platform_fee policy (Fin d))"
proof -
  obtain m f where p: "pp_markupPercent policy = Fin m" "0 \<le> m" "pp_minimumFeeUsd policy = Fin f" "0 \<le> f"
    using pricing_ok_numbers [OF assms(1)] by metis
  have "num_le (num_mul (Fin c) (Fin m)) (num_mul (Fin d) (Fin m))"
    using p(2) assms(2) by (simp add: num_of_rat_mono mult_right_mono)
  then show ?thesis unfolding platform_fee_def p
    by (intro math_max_mono num_div_by_mono) (auto simp: math_max_def)
qed

lemma raw_charge_mono:
  assumes "pricing_ok policy" and "c \<le> d"
  shows "num_le (raw_charge policy keySource status (Fin c)) (raw_charge policy keySource status (Fin d))"
proof -
  have f: "pp_minimumFeeUsd policy \<noteq> NaN" using pricing_ok_numbers [OF assms(1)] by (metis jsnum.distinct(1))
  note fee = platform_fee_mono [OF assms]
  have "num_le (num_add (Fin c) (platform_fee policy (Fin c))) (num_add (Fin d) (platform_fee policy (Fin d)))"
    by (rule num_add_mono [OF assms(2) fee])
  then show ?thesis using fee f assms(2)
    by (auto simp: raw_charge_def Let_def math_max_def intro: num_le_refl split: failed_mode.splits user_key_mode.splits)
qed

text \<open>The rounded charge a policy sets for a request, before it is decided whether it counts.\<close>

definition rounded_charge :: "pricing_policy \<Rightarrow> key_source \<Rightarrow> request_status \<Rightarrow> jsnum \<Rightarrow> jsnum" where
  "rounded_charge policy keySource status cost =
     roundToIncrement (capped_charge policy (raw_charge policy keySource status (math_max (Fin 0) cost))) (pp_roundingUsd policy)"

lemma charged_eq:
  "pb_chargedCostUsd (calculateWithPolicy policy cost source keySource status) =
     (if pp_enabled policy \<and> \<not> num_le (rounded_charge policy keySource status cost) (Fin 0)
      then rounded_charge policy keySource status cost else Fin 0)"
  by (simp add: calculateWithPolicy_def rounded_charge_def Let_def)

lemma capped_charge_mono:
  assumes "pricing_ok policy" and "num_le a b"
  shows "num_le (capped_charge policy a) (capped_charge policy b)"
proof -
  have "c \<noteq> NaN" if "pp_maxChargeUsd policy = Some c" for c
    using that pricing_ok_numbers [OF assms(1)] by (metis jsnum.distinct(1) option.distinct(1) option.inject)
  then show ?thesis using assms(2) by (auto simp: capped_charge_def math_min_mono split: option.splits)
qed

lemma rounded_charge_mono:
  assumes "pricing_ok policy" and "c \<le> d"
  shows "num_le (rounded_charge policy keySource status (Fin c)) (rounded_charge policy keySource status (Fin d))"
proof -
  obtain r where r: "pp_roundingUsd policy = Fin r" "0 < r" using pricing_ok_numbers [OF assms(1)] by metis
  have m: "math_max (Fin 0) (Fin x) = Fin (max 0 x)" for x by (simp add: math_max_def max_def)
  show ?thesis unfolding rounded_charge_def r(1) m
    by (intro roundToIncrement_mono [OF _ r(2)] capped_charge_mono [OF assms(1)] raw_charge_mono [OF assms(1)])
      (use assms(2) in simp)
qed

text \<open>
  The verdict on a request, for every policy within its limits and every finite cost: it is charged
  exactly when pricing is enabled and the amount is positive, the amount is a number that is never
  negative and is zero exactly when the request is not chargeable, a reason is given exactly then, and a
  failed request is free under the policy \<open>never\<close>, whoever owns the key.
\<close>

theorem charge_verdict:
  assumes "pricing_ok policy" and "b = calculateWithPolicy policy (Fin c) source keySource status"
  shows "(pb_chargeable b \<longleftrightarrow> pp_enabled policy \<and> num_less (Fin 0) (pb_chargedCostUsd b))
    \<and> num_le (Fin 0) (pb_chargedCostUsd b)
    \<and> (pb_chargedCostUsd b = Fin 0 \<longleftrightarrow> \<not> pb_chargeable b)
    \<and> (pb_reason b = None \<longleftrightarrow> pb_chargeable b)
    \<and> (pb_reason b = Some ''pricing_disabled'' \<longleftrightarrow> \<not> pp_enabled policy)
    \<and> (status \<noteq> RequestSuccess \<and> pp_chargeFailedRequests policy = FailedNever \<longrightarrow> \<not> pb_chargeable b)
    \<and> pb_policySnapshot b = policy"
proof -
  let ?r = "rounded_charge policy keySource status (Fin c)"
  have nan: "?r \<noteq> NaN" using rounded_charge_mono [OF assms(1) order.refl] num_le_not_NaN by blast
  have "?r = Fin 0" if "status \<noteq> RequestSuccess" "pp_chargeFailedRequests policy = FailedNever"
  proof -
    obtain r where r: "pp_roundingUsd policy = Fin r" "0 < r"
      and m: "pp_maxChargeUsd policy \<noteq> None \<Longrightarrow> \<exists>c. pp_maxChargeUsd policy = Some (Fin c) \<and> 0 < c"
      using pricing_ok_numbers [OF assms(1)] by metis
    have "capped_charge policy (Fin 0) = Fin 0"
      using m by (cases "pp_maxChargeUsd policy") (auto simp: capped_charge_def math_min_def)
    then show ?thesis
      using that r by (simp add: rounded_charge_def raw_charge_def Let_def roundToIncrement_def math_round_def num_of_rat_def)
  qed
  with nan show ?thesis unfolding assms(2) charged_eq
    by (auto simp: calculateWithPolicy_def Let_def rounded_charge_def [symmetric] num_not_le num_less_le
        dest: num_less_le num_less_not_le num_le_not_NaN)
qed

theorem charge_verdict_witness:
  "pb_reason (calculateWithPolicy defaultAiPricingPolicy (Fin 1) FromProvider PlatformKey RequestSuccess) = Some ''pricing_disabled''"
  using charge_verdict [OF pricing_default_ok refl, of 1 FromProvider PlatformKey RequestSuccess]
  by (simp add: defaultAiPricingPolicy_def)

text \<open>
  The charge is monotone in spite of the rounding of every operation on doubles: under one policy,
  key and outcome a request that costs the provider more is never charged less.
\<close>

theorem charge_monotone:
  assumes "pricing_ok policy" and "c \<le> d"
  shows "num_le (pb_chargedCostUsd (calculateWithPolicy policy (Fin c) source keySource status))
    (pb_chargedCostUsd (calculateWithPolicy policy (Fin d) source keySource status))"
proof -
  note le = rounded_charge_mono [OF assms, of keySource status]
  have "num_le (Fin 0) n" if "n \<noteq> NaN" "\<not> num_le n (Fin 0)" for n
    using that by (simp add: num_not_le num_less_le)
  with le num_le_not_NaN [OF le] num_le_trans [OF le] show ?thesis unfolding charged_eq by auto
qed

theorem charge_monotone_witness:
  "num_le (pb_chargedCostUsd (calculateWithPolicy defaultAiPricingPolicy (Fin 1) FromProvider PlatformKey RequestSuccess))
    (pb_chargedCostUsd (calculateWithPolicy defaultAiPricingPolicy (Fin (5 / 4)) FromProvider PlatformKey RequestSuccess))"
  by (rule charge_monotone [OF pricing_default_ok]) simp

text \<open>
  The cap is applied before the rounding: a charge is at most the cap rounded to the increment,
  which is up to half an increment above the cap.
\<close>

theorem charge_cap:
  assumes "pricing_ok policy" and "pp_maxChargeUsd policy = Some m"
  shows "num_le (pb_chargedCostUsd (calculateWithPolicy policy (Fin c) source keySource status))
    (roundToIncrement m (pp_roundingUsd policy))"
proof -
  obtain r x where r: "pp_roundingUsd policy = Fin r" "0 < r" and m: "m = Fin x" "0 < x"
    using pricing_ok_numbers [OF assms(1)] assms(2) by (metis option.distinct(1) option.inject)
  let ?raw = "raw_charge policy keySource status (math_max (Fin 0) (Fin c))"
  have "raw_charge policy keySource status (Fin y) \<noteq> NaN" for y
    using raw_charge_mono [OF assms(1) order.refl] num_le_not_NaN by blast
  then have "?raw \<noteq> NaN" by (simp add: math_max_def)
  then have "num_le (capped_charge policy ?raw) m"
    by (cases ?raw) (auto simp: capped_charge_def assms(2) m(1) math_min_def)
  then have "num_le (rounded_charge policy keySource status (Fin c)) (roundToIncrement m (Fin r))"
    unfolding rounded_charge_def r(1) by (rule roundToIncrement_mono [OF _ r(2)])
  moreover have "num_le (Fin 0) (roundToIncrement m (Fin r))"
    using roundToIncrement_mono [of "Fin 0" m r] r(2) m by (simp add: roundToIncrement_def math_round_def num_of_rat_def)
  ultimately show ?thesis unfolding charged_eq r(1) by simp
qed

text \<open>A cap of 3/512 USD with an increment of 1/128 USD lets 1/128 USD through.\<close>

definition cap_policy :: pricing_policy where
  "cap_policy = defaultAiPricingPolicy\<lparr>pp_enabled := True, pp_roundingUsd := Fin (1 / 128), pp_maxChargeUsd := Some (Fin (3 / 512)),
     pp_chargeFailedRequests := FailedMinimumFee, pp_chargeUserKeyRequests := UserKeyNever, pp_minimumFeeUsd := Fin 1\<rparr>"

lemma fl_dyadic:
  fixes n :: int and k :: nat
  assumes "0 < n" and "n < 2 ^ 53" and "k \<le> 60"
  shows "fl (of_int n / 2 ^ k) = of_int n / 2 ^ k"
proof (rule fl_exact [of _ n "- int k"])
  let ?x = "of_int n / 2 ^ k :: rat"
  have p: "pw (int k) = 2 ^ k" "pw 53 = of_int (2 ^ 53)" by (simp_all add: pw_nat)
  show x: "?x = of_int n * pw (- int k)" by (simp add: pw_minus p)
  have pos: "0 < ?x" using assms(1) by simp
  have "rat_of_int n < pw 53" unfolding p(2) of_int_less_iff by (rule assms(2))
  then have "?x < pw 53 * pw (- int k)" unfolding x by simp
  then have "?x < pw (53 - int k)" by (simp flip: pw_add)
  with expo_bounds(1) [OF pos] have "pw (expo ?x) < pw (53 - int k)" by (rule le_less_trans)
  then have "expo ?x < 53 - int k" by (simp add: not_le [symmetric])
  then show "ulp_exp \<bar>?x\<bar> \<le> - int k" using pos assms(3) by (simp add: ulp_exp_def abs_of_pos [OF pos] del: abs_divide)
  show "?x \<noteq> 0" using assms(1) by simp
qed

lemma num_of_dyadic:
  fixes n :: int and k :: nat
  assumes "0 < n" and "n < 2 ^ 53" and "k \<le> 60"
  shows "num_of_rat (of_int n / 2 ^ k) = Fin (of_int n / 2 ^ k)"
proof -
  have "rat_of_int n \<le> of_int (2 ^ 53)" using assms(2) by (simp only: of_int_le_iff)
  moreover have "rat_of_int n / 2 ^ k \<le> of_int n" using assms(1) by (simp add: divide_le_eq mult_le_cancel_left1)
  ultimately have "\<bar>rat_of_int n / 2 ^ k\<bar> < 2 ^ 1023" using assms(1) by simp
  then show ?thesis by (simp add: num_of_rat_Fin fl_dyadic [OF assms])
qed

lemma cap_policy_ok: "pricing_ok cap_policy"
proof -
  have "fl (1 / 1000000) \<le> fl (3 / 512)" "fl (1 / 128) \<le> fl (1 / 100)" "fl (1 / 1000000) \<le> fl (1 / 128)" by (simp_all add: fl_mono)
  then have "fl (1 / 1000000) \<le> 3 / 512" "1 / 128 \<le> fl (1 / 100)" "fl (1 / 1000000) \<le> 1 / 128"
    using fl_dyadic [of 3 9] fl_dyadic [of 1 7] by simp_all
  then show ?thesis
    by (simp add: pricing_ok_def cap_policy_def defaultAiPricingPolicy_def in_limits_def num_is_finite_def literal_def not_less)
qed

lemma floors [simp]: "\<lfloor>5 / 4 :: rat\<rfloor> = 1" "\<lfloor>257 / 2 :: rat\<rfloor> = 128"
  by (simp_all add: floor_eq_iff)

lemma cap_policy_charge:
  "pb_chargedCostUsd (calculateWithPolicy cap_policy (Fin 1) FromProvider PlatformKey RequestSuccess) = Fin (1 / 128)"
  using num_of_dyadic [of 25 0] num_of_dyadic [of 1 2] num_of_dyadic [of 2 0] num_of_dyadic [of 3 2] num_of_dyadic [of 1 7]
  by (simp add: charged_eq rounded_charge_def roundToIncrement_def capped_charge_def raw_charge_def platform_fee_def Let_def
      cap_policy_def defaultAiPricingPolicy_def math_max_def math_min_def math_round_def)

theorem charge_cap_witness:
  "pp_maxChargeUsd cap_policy = Some (Fin (3 / 512))
    \<and> pb_chargedCostUsd (calculateWithPolicy cap_policy (Fin 1) FromProvider PlatformKey RequestSuccess) = Fin (1 / 128)
    \<and> num_le (pb_chargedCostUsd (calculateWithPolicy cap_policy (Fin 1) FromProvider PlatformKey RequestSuccess))
        (roundToIncrement (Fin (3 / 512)) (Fin (1 / 128)))
    \<and> (3 / 512 :: rat) < 1 / 128"
  using charge_cap [OF cap_policy_ok, of "Fin (3 / 512)" 1 FromProvider PlatformKey RequestSuccess] cap_policy_charge
  by (simp add: cap_policy_def)

text \<open>
  The policy of failed requests overrides the one of user keys: a failed request on a user's own key is
  charged the minimum fee although requests on user keys are never to be charged.
\<close>

lemma failed_user_key_charged:
  "pp_chargeUserKeyRequests (cap_policy\<lparr>pp_maxChargeUsd := None\<rparr>) = UserKeyNever
    \<and> pb_chargedCostUsd (calculateWithPolicy (cap_policy\<lparr>pp_maxChargeUsd := None\<rparr>) (Fin 1) FromProvider UserKey RequestError) = Fin 1"
  using num_of_dyadic [of 128 0] num_of_dyadic [of 1 0] num_of_dyadic [of 25 0] num_of_dyadic [of 1 2]
  by (simp add: charged_eq rounded_charge_def roundToIncrement_def capped_charge_def raw_charge_def Let_def
      cap_policy_def defaultAiPricingPolicy_def math_max_def math_min_def math_round_def)

text \<open>
  C39. A change of the pricing policy is what the next request is priced with: after a successful update
  \<open>calculate\<close> without a policy of its own uses the policy the update returned, which is the stored one
  with the patch merged into it, at any time until another write.
\<close>

theorem pricing_update_then_calculate:
  assumes "updatePricingPolicy userId auditUp now request s = (s', Inr snap)"
  shows "snd (calculate None cost source keySource status True later s') = calculateWithPolicy (ps_policy snap) cost source keySource status
    \<and> pricing_ok (ps_policy snap)
    \<and> (\<exists>current patch. parseAiPricingPolicyPatch request = Inr patch
        \<and> ps_policy snap = overlay_pricing current patch
        \<and> (findByKey PLATFORM_AI_PRICING_POLICY_KEY s = None \<longrightarrow> current = defaultAiPricingPolicy))"
proof -
  obtain current patch where u: "parseAiPricingPolicyPatch request = Inr patch" "mergeAiPricingPolicy current patch = Inr (ps_policy snap)"
      "case findByKey PLATFORM_AI_PRICING_POLICY_KEY s of None \<Rightarrow> current = defaultAiPricingPolicy
        | Some row \<Rightarrow> parseAndNormalizeAiPricingPolicy (sr_valueJson row) = Inr current"
      "pricing_ok (ps_policy snap)"
      "snd (getEffectivePolicy parseAndNormalizeAiPricingPolicy defaultAiPricingPolicy PLATFORM_AI_PRICING_POLICY_KEY True later s') = ps_policy snap"
    using pricing_service.update_then_read [OF assms [unfolded updatePricingPolicy_def] pricing_default_ok, of later] by blast
  have "pricing_ok current" using u(3) pricing_default_ok parsed_pricing_ok by (auto split: option.splits)
  then have "pricing_ok (overlay_pricing current patch)" using parsed_pricing_patch_ok [OF u(1)] by (rule overlay_pricing_ok)
  then have "ps_policy snap = overlay_pricing current patch"
    using u(2) by (simp add: mergeAiPricingPolicy_def parse_pricing_json)
  moreover have "snd (calculate None cost source keySource status True later s') = calculateWithPolicy (ps_policy snap) cost source keySource status"
    using u(5) by (auto simp: calculate_def getEffectivePricingPolicy_def split: prod.splits)
  ultimately show ?thesis using u by (auto split: option.splits)
qed

definition empty_settings :: "pricing_policy settings_state" where
  "empty_settings = \<lparr>ss_rows = [], ss_cache = None, ss_audit = []\<rparr>"

lemma update_sample:
  "\<exists>s' snap. updatePricingPolicy ''a'' True 5 (JObj [(''enabled'', JBool True)]) empty_settings = (s', Inr snap) \<and> pp_enabled (ps_policy snap)"
proof -
  let ?q = "empty_pricing_patch\<lparr>pq_enabled := Some True\<rparr>"
  have q: "parseAiPricingPolicyPatch (JObj [(''enabled'', JBool True)]) = Inr ?q"
    by (simp add: parseAiPricingPolicyPatch_def unknown_keys_def allowedKeys_def read_field_def)
  let ?p = "overlay_pricing defaultAiPricingPolicy ?q"
  have ok: "pricing_ok ?p" by (intro overlay_pricing_ok pricing_default_ok parsed_pricing_patch_ok [OF q])
  have "pp_enabled ?p" by (simp add: overlay_pricing_def nullish_def)
  then show ?thesis
    using q parse_pricing_json [OF ok]
    by (simp add: updatePricingPolicy_def updatePolicy_def as_bad_request_def getPolicy_def findByKey_def empty_settings_def
        mergeAiPricingPolicy_def bindS_def thenS_def liftS_def retS_def whenS_def putS_def upsertJson_def Let_def)
qed

theorem pricing_update_then_calculate_witness:
  "\<exists>s' snap. updatePricingPolicy ''a'' True 5 (JObj [(''enabled'', JBool True)]) empty_settings = (s', Inr snap)
    \<and> pp_enabled (ps_policy snap)
    \<and> snd (calculate None (Fin 1) FromProvider PlatformKey RequestSuccess True 99999999 s')
      = calculateWithPolicy (ps_policy snap) (Fin 1) FromProvider PlatformKey RequestSuccess"
  using update_sample pricing_update_then_calculate [of "''a''" True 5 "JObj [(''enabled'', JBool True)]" empty_settings _ _
      "Fin 1" FromProvider PlatformKey RequestSuccess 99999999] by blast

end
