(* ===== verification/RateLimit.thy ===== *)
theory RateLimit
  imports JsNumber
begin

text \<open>
  Request throttling of the API (\<open>apps/api/src/security/\<close>): the in-memory and the Redis store of
  \<open>rate-limit.service.ts\<close>, the guard of \<open>rate-limit.guard.ts\<close> and the origin check of \<open>cors.ts\<close>.
  The interface \<open>RateLimitStore\<close> is the locale \<open>rate_limit_store\<close>, interpreted on both stores. The
  Redis script runs atomically on a keyspace of counters with expiry times; the URL parser of the
  origin check is a parameter.
\<close>

section \<open>Decisions\<close>

record rate_limit_decision =
  rd_allowed :: bool
  rd_limit :: int
  rd_remaining :: jsnum
  rd_retryAfterSeconds :: jsnum

fun math_ceil :: "jsnum \<Rightarrow> jsnum" where
  "math_ceil (Fin x) = Fin (of_int \<lceil>x\<rceil>)"
| "math_ceil n = n"

definition num_int :: "int \<Rightarrow> jsnum" where
  "num_int i = Fin (of_int i)"

text \<open>Both stores derive the decision from the count and the time left in the same way.\<close>

definition decide :: "int \<Rightarrow> jsnum \<Rightarrow> jsnum \<Rightarrow> rate_limit_decision" where
  "decide limit count ttlMs =
     (let allowed = num_le count (num_int limit)
      in \<lparr>rd_allowed = allowed, rd_limit = limit,
          rd_remaining = math_max (num_add (num_int limit) (num_neg count)) (Fin 0),
          rd_retryAfterSeconds = (if allowed then Fin 0 else math_max (math_ceil (num_div ttlMs (Fin 1000))) (Fin 1))\<rparr>)"

section \<open>The in-memory store\<close>

record memory_store =
  mb_buckets :: "(string \<times> int \<times> int) list"
  mb_lastPrunedAt :: int

definition PRUNE_INTERVAL :: int where
  "PRUNE_INTERVAL = 60000"

definition MAX_BUCKETS :: nat where
  "MAX_BUCKETS = 50000"

text \<open>The oldest buckets go first; the loop gives up at an empty key, which is falsy.\<close>

fun evict :: "(string \<times> int \<times> int) list \<Rightarrow> (string \<times> int \<times> int) list" where
  "evict [] = []"
| "evict ((k, b) # bs) = (if MAX_BUCKETS < length ((k, b) # bs) then (if k = [] then (k, b) # bs else evict bs) else (k, b) # bs)"

definition pruneExpiredBuckets :: "int \<Rightarrow> memory_store \<Rightarrow> memory_store" where
  "pruneExpiredBuckets now s =
     (if length (mb_buckets s) \<le> MAX_BUCKETS \<and> now - mb_lastPrunedAt s < PRUNE_INTERVAL then s
      else \<lparr>mb_buckets = evict (filter (\<lambda>(k, c, r). \<not> r \<le> now) (mb_buckets s)), mb_lastPrunedAt = now\<rparr>)"

definition memory_consume :: "string \<Rightarrow> int \<Rightarrow> int \<Rightarrow> int \<Rightarrow> memory_store \<Rightarrow> memory_store \<times> rate_limit_decision" where
  "memory_consume key limit windowMs now s =
     (let s1 = pruneExpiredBuckets now s;
          (count, resetAt) = (case map_of (mb_buckets s1) key of
              Some (c, r) \<Rightarrow> if now < r then (c, r) else (0, now + windowMs)
            | None \<Rightarrow> (0, now + windowMs));
          s2 = s1\<lparr>mb_buckets := AList.update key (count + 1, resetAt) (mb_buckets s1)\<rparr>
      in (s2, decide limit (num_int (count + 1)) (num_int (resetAt - now))))"

section \<open>The Redis store\<close>

text \<open>A counter with its expiry time; a key that has expired is gone.\<close>

type_synonym redis_db = "(string \<times> int \<times> int option) list"

definition redis_get :: "int \<Rightarrow> redis_db \<Rightarrow> string \<Rightarrow> (int \<times> int option) option" where
  "redis_get now db key = (case map_of db key of
     Some (c, Some e) \<Rightarrow> if e \<le> now then None else Some (c, Some e)
   | r \<Rightarrow> r)"

definition redis_pexpire :: "int \<Rightarrow> string \<Rightarrow> int \<Rightarrow> redis_db \<Rightarrow> redis_db" where
  "redis_pexpire now key ms db = (case redis_get now db key of
     None \<Rightarrow> db
   | Some (c, e) \<Rightarrow> if ms \<le> 0 then AList.delete key db else AList.update key (c, Some (now + ms)) db)"

definition redis_pttl :: "int \<Rightarrow> string \<Rightarrow> redis_db \<Rightarrow> int" where
  "redis_pttl now key db = (case redis_get now db key of
     None \<Rightarrow> - 2 | Some (c, None) \<Rightarrow> - 1 | Some (c, Some e) \<Rightarrow> e - now)"

definition redis_incr :: "int \<Rightarrow> string \<Rightarrow> redis_db \<Rightarrow> redis_db \<times> int" where
  "redis_incr now key db = (case redis_get now db key of
     None \<Rightarrow> (AList.update key (1, None) db, 1)
   | Some (c, e) \<Rightarrow> (AList.update key (c + 1, e) db, c + 1))"

definition redisRateLimitScript :: "string \<Rightarrow> int \<Rightarrow> int \<Rightarrow> redis_db \<Rightarrow> redis_db \<times> int \<times> int" where
  "redisRateLimitScript key windowMs now db =
     (let (db1, current) = redis_incr now key db;
          db2 = (if current = 1 then redis_pexpire now key windowMs db1 else db1);
          ttl = redis_pttl now key db2
      in if ttl < 0 then (redis_pexpire now key windowMs db2, current, windowMs) else (db2, current, ttl))"

definition parseRedisNumber :: "json option \<Rightarrow> jsnum \<Rightarrow> jsnum" where
  "parseRedisNumber v fallback = (case v of
     Some (JNum n) \<Rightarrow> if num_is_finite n then n else fallback
   | Some (JStr s) \<Rightarrow> if num_is_finite (Number s) then Number s else fallback
   | _ \<Rightarrow> fallback)"

definition REDIS_PREFIX :: string where
  "REDIS_PREFIX = ''quizmind:rate-limit''"

text \<open>The decision on the values a script run returned.\<close>

definition redis_decision :: "int \<Rightarrow> int \<Rightarrow> json list \<Rightarrow> rate_limit_decision" where
  "redis_decision limit windowMs values =
     (let value = (\<lambda>i. if i < length values then Some (values ! i) else None);
          count = math_max (parseRedisNumber (value 0) (Fin 0)) (Fin 0);
          ttlMs = math_max (parseRedisNumber (value 1) (num_int windowMs)) (Fin 0)
      in decide limit count ttlMs)"

definition redis_consume :: "string \<Rightarrow> int \<Rightarrow> int \<Rightarrow> int \<Rightarrow> redis_db \<Rightarrow> redis_db \<times> rate_limit_decision" where
  "redis_consume key limit windowMs now db =
     (let (db', current, ttl) = redisRateLimitScript (REDIS_PREFIX @ '':'' @ key) windowMs now db
      in (db', redis_decision limit windowMs [JNum (num_int current), JNum (num_int ttl)]))"

text \<open>
  \<open>DistributedRateLimitService.consume\<close>: \<open>up\<close> tells whether the Redis call of this request succeeds;
  without a client, or when the call fails, the in-memory store decides.
\<close>

definition distributed_consume ::
  "bool \<Rightarrow> bool \<Rightarrow> string \<Rightarrow> int \<Rightarrow> int \<Rightarrow> int \<Rightarrow> redis_db \<times> memory_store \<Rightarrow> (redis_db \<times> memory_store) \<times> rate_limit_decision" where
  "distributed_consume hasClient up key limit windowMs now s =
     (let (db, mem) = s in
      if \<not> hasClient \<or> \<not> up then let (mem', d) = memory_consume key limit windowMs now mem in ((db, mem'), d)
      else let (db', d) = redis_consume key limit windowMs now db in ((db', mem), d))"

section \<open>The guard\<close>

datatype header_value = HStr string | HList "string list"

record rate_limited_request =
  rq_headers :: "(string \<times> header_value) list option"
  rq_ip :: "string option"
  rq_method :: "string option"
  rq_originalUrl :: "string option"
  rq_remoteAddress :: "string option"
  rq_url :: "string option"

record rate_limit_policy =
  rp_key :: string
  rp_maxRequests :: int
  rp_windowMs :: int

record rate_limit_env =
  re_authMax :: int
  re_authWindow :: int
  re_max :: int
  re_window :: int

definition resolvePolicy :: "rate_limit_env \<Rightarrow> string \<Rightarrow> string \<Rightarrow> rate_limit_policy option" where
  "resolvePolicy env method path =
     (if path = ''/health'' \<or> path = ''/ready'' then None
      else if startsWith path ''/auth/login'' \<or> startsWith path ''/auth/register'' \<or> startsWith path ''/auth/refresh''
        \<or> startsWith path ''/auth/forgot-password'' \<or> startsWith path ''/auth/reset-password''
      then Some \<lparr>rp_key = ''auth:'' @ method @ '':'' @ path, rp_maxRequests = re_authMax env, rp_windowMs = re_authWindow env\<rparr>
      else if path = ''/extension/bootstrap/v2'' \<or> path = ''/extension/session/refresh''
        \<or> path = ''/extension/installations/session/refresh''
      then Some \<lparr>rp_key = ''extension-auth:'' @ method @ '':'' @ path, rp_maxRequests = 30, rp_windowMs = 60000\<rparr>
      else if path = ''/extension/ai/models''
      then Some \<lparr>rp_key = ''extension-runtime:'' @ method @ '':'' @ path, rp_maxRequests = 30, rp_windowMs = 60000\<rparr>
      else if path = ''/extension/usage-events/v2'' \<or> startsWith path ''/extension/ai/''
      then Some \<lparr>rp_key = ''extension-runtime:'' @ method @ '':'' @ path, rp_maxRequests = 60, rp_windowMs = 60000\<rparr>
      else Some \<lparr>rp_key = ''api:'' @ method @ '':'' @ path, rp_maxRequests = re_max env, rp_windowMs = re_window env\<rparr>)"

text \<open>\<open>/:\d+$/\<close> removes a trailing port.\<close>

definition strip_port :: "string \<Rightarrow> string" where
  "strip_port s =
     (let r = rev s; rest = dropWhile is_digit r
      in case rest of c # cs \<Rightarrow> if takeWhile is_digit r \<noteq> [] \<and> c = CHR '':'' then rev cs else s | [] \<Rightarrow> s)"

text \<open>A bracketed address with an optional port, \<open>/^\[([^\]]+)](?::\d+)?$/\<close>; any other string is kept.\<close>

definition strip_brackets :: "string \<Rightarrow> string" where
  "strip_brackets s =
     (let body = takeWhile (\<lambda>c. c \<noteq> CHR '']'') (drop 1 s); after = drop (Suc (length body)) s
      in case after of
           [] \<Rightarrow> s
         | c # port \<Rightarrow>
             if body \<noteq> [] \<and> (port = [] \<or> (hd port = CHR '':'' \<and> tl port \<noteq> [] \<and> list_all is_digit (tl port))) then body else s)"

definition normalizeIp :: "string option \<Rightarrow> string option" where
  "normalizeIp value =
     (let trimmed = map_option trim value
      in if \<not> truthy trimmed then None
         else let t = the trimmed;
                  withoutPort = (if startsWith t ''['' then strip_brackets t
                    else if CHR '':'' \<in> set t \<and> CHR ''.'' \<in> set t then strip_port t else t);
                  lower = toLowerCase withoutPort
              in Some (if startsWith lower ''::ffff:'' then drop 7 lower else lower))"

definition resolveForwardedClientIp :: "(string \<times> header_value) list option \<Rightarrow> string option" where
  "resolveForwardedClientIp headers = (case headers of
     None \<Rightarrow> None
   | Some hs \<Rightarrow>
       let forwardedFor = (case map_of hs ''x-forwarded-for'' of
             Some (HList vs) \<Rightarrow> join '','' vs | Some (HStr v) \<Rightarrow> v | None \<Rightarrow> []);
           candidates = filter truthy (map (\<lambda>ip. normalizeIp (Some ip)) (split_on (CHR '','') forwardedFor))
       in if 0 < length candidates then hd candidates
          else normalizeIp (case map_of hs ''x-real-ip'' of
             Some (HList vs) \<Rightarrow> (case vs of [] \<Rightarrow> None | v # _ \<Rightarrow> Some v) | Some (HStr v) \<Rightarrow> Some v | None \<Rightarrow> None))"

definition resolveIdentity :: "rate_limited_request \<Rightarrow> string" where
  "resolveIdentity request =
     (let forwardedIp = resolveForwardedClientIp (rq_headers request);
          requestIp = map_option trim (rq_ip request);
          remoteIp = map_option trim (rq_remoteAddress request)
      in if truthy forwardedIp then the forwardedIp
         else if truthy requestIp then the requestIp
         else if truthy remoteIp then the remoteIp else ''anonymous'')"

text \<open>
  The guard on a store: the headers it sets on the response and whether the request passes. The
  limit is printed as the number it is.
\<close>

definition canActivate ::
  "(string \<Rightarrow> int \<Rightarrow> int \<Rightarrow> 's \<Rightarrow> 's \<times> rate_limit_decision) \<Rightarrow> rate_limit_env \<Rightarrow> rate_limited_request \<Rightarrow> 's \<Rightarrow>
   's \<times> (string \<times> string) list \<times> bool result" where
  "canActivate consume env request s =
     (if rq_method request = Some ''OPTIONS'' then (s, [], Inr True)
      else let method = nullish (rq_method request) ''GET'';
               path = takeWhile (\<lambda>c. c \<noteq> CHR ''?'') (nullish (orElse (rq_originalUrl request) (rq_url request)) ''/'')
           in case resolvePolicy env method path of
                None \<Rightarrow> (s, [], Inr True)
              | Some policy \<Rightarrow>
                  let identity = resolveIdentity request;
                      (s', decision) = consume (rp_key policy @ '':'' @ identity) (rp_maxRequests policy) (rp_windowMs policy) s;
                      headers = [(''X-RateLimit-Limit'', show_int (rd_limit decision)),
                                 (''X-RateLimit-Remaining'', num_to_string (rd_remaining decision))]
                  in if \<not> rd_allowed decision
                     then (s', headers @ [(''Retry-After'', num_to_string (rd_retryAfterSeconds decision))],
                           Inl (TooManyRequests ''Too many requests.''))
                     else (s', headers, Inr True))"

section \<open>Allowed origins\<close>

text \<open>The parts of a parsed URL the check reads.\<close>

record url_parts =
  ur_protocol :: string
  ur_host :: string
  ur_origin :: string

definition extension_protocol :: "string \<Rightarrow> bool" where
  "extension_protocol p = (p = ''chrome-extension:'' \<or> p = ''moz-extension:'')"

definition normalizeOrigin :: "(string \<Rightarrow> url_parts option) \<Rightarrow> string \<Rightarrow> string option" where
  "normalizeOrigin parseUrl v = (case parseUrl v of
     None \<Rightarrow> None
   | Some url \<Rightarrow>
       if ur_protocol url = [] \<or> ur_host url = [] then None
       else if extension_protocol (ur_protocol url) then Some (ur_protocol url @ ''//'' @ ur_host url)
       else Some (ur_origin url))"

definition isExtensionOrigin :: "(string \<Rightarrow> url_parts option) \<Rightarrow> string \<Rightarrow> bool" where
  "isExtensionOrigin parseUrl v = (case parseUrl v of None \<Rightarrow> False | Some url \<Rightarrow> extension_protocol (ur_protocol url))"

definition corsOrigin :: "(string \<Rightarrow> url_parts option) \<Rightarrow> string list \<Rightarrow> string option \<Rightarrow> bool result" where
  "corsOrigin parseUrl allowedOrigins origin =
     (if \<not> truthy origin then Inr True
      else let normalizedOrigin = normalizeOrigin parseUrl (the origin)
           in if truthy normalizedOrigin \<and> the normalizedOrigin \<in> set allowedOrigins then Inr True
              else if truthy normalizedOrigin \<and> isExtensionOrigin parseUrl (the normalizedOrigin) then Inr True
              else Inl (JsError (''CORS origin not allowed: '' @ the origin)))"


section \<open>The store interface\<close>

definition live :: "(int \<times> int) option \<Rightarrow> int \<Rightarrow> (int \<times> int) option" where
  "live b t = (case b of Some (c, r) \<Rightarrow> if t < r then b else None | None \<Rightarrow> None)"

text \<open>A request in a live window counts in it; otherwise it opens a window of its own.\<close>

definition hit :: "(int \<times> int) option \<Rightarrow> int \<Rightarrow> int \<Rightarrow> int \<times> int" where
  "hit b windowMs t = (case live b t of Some (c, r) \<Rightarrow> (c + 1, r) | None \<Rightarrow> (1, t + windowMs))"

text \<open>
  The contract of a store: a request is allowed while the count of its key's window, itself included,
  is within the limit; windows of other keys stay. \<open>fits s n\<close> says that \<open>n\<close> more requests cannot
  make the store drop a live window.
\<close>

locale rate_limit_store =
  fixes consume :: "string \<Rightarrow> int \<Rightarrow> int \<Rightarrow> int \<Rightarrow> 's \<Rightarrow> 's \<times> rate_limit_decision"
    and bucket :: "'s \<Rightarrow> string \<Rightarrow> (int \<times> int) option"
    and fits :: "'s \<Rightarrow> nat \<Rightarrow> bool"
  assumes allowed: "fits s (Suc n) \<Longrightarrow> 0 < w \<Longrightarrow>
      rd_allowed (snd (consume k limit w t s)) = (fst (hit (bucket s k) w t) \<le> limit)"
    and own: "fits s (Suc n) \<Longrightarrow> 0 < w \<Longrightarrow> bucket (fst (consume k limit w t s)) k = Some (hit (bucket s k) w t)"
    and others: "fits s (Suc n) \<Longrightarrow> 0 < w \<Longrightarrow> j \<noteq> k \<Longrightarrow> t \<le> t' \<Longrightarrow>
      live (bucket (fst (consume k limit w t s)) j) t' = live (bucket s j) t'"
    and fits_step: "fits s (Suc n) \<Longrightarrow> 0 < w \<Longrightarrow> fits (fst (consume k limit w t s)) n"

text \<open>A request: its key, limit, window and time. The number of requests of a key that a run allows.\<close>

type_synonym request = "string \<times> int \<times> int \<times> int"

fun allowed_count ::
  "(string \<Rightarrow> int \<Rightarrow> int \<Rightarrow> int \<Rightarrow> 's \<Rightarrow> 's \<times> rate_limit_decision) \<Rightarrow> string \<Rightarrow> request list \<Rightarrow> 's \<Rightarrow> int" where
  "allowed_count consume k [] s = 0"
| "allowed_count consume k ((j, limit, w, t) # rs) s =
     (let (s', d) = consume j limit w t s
      in (if j = k \<and> rd_allowed d then 1 else 0) + allowed_count consume k rs s')"

text \<open>What a key can still be granted before \<open>b\<close>, given its window at the current time.\<close>

definition allowance :: "int \<Rightarrow> (int \<times> int) option \<Rightarrow> int \<Rightarrow> int" where
  "allowance limit b e = (case b of
     Some (c, r) \<Rightarrow> max (limit - c) 0 + (if r < e then limit else 0)
   | None \<Rightarrow> limit)"

definition timed :: "int \<Rightarrow> int \<Rightarrow> string \<Rightarrow> int \<Rightarrow> int \<Rightarrow> request list \<Rightarrow> bool" where
  "timed a e k limit w rs \<longleftrightarrow> sorted (map (\<lambda>(j, l, v, t). t) rs)
     \<and> list_all (\<lambda>(j, l, v, t). a \<le> t \<and> t < e \<and> 0 < v \<and> (j = k \<longrightarrow> l = limit \<and> v = w)) rs"

context rate_limit_store
begin

lemma allowed_bounded:
  assumes "timed a e k limit w rs" and "fits s (length rs)" and "0 \<le> limit" and "e \<le> a + w"
    and "\<And>c r. live (bucket s k) a = Some (c, r) \<Longrightarrow> 0 \<le> c"
  shows "allowed_count consume k rs s \<le> allowance limit (live (bucket s k) a) e"
  using assms
proof (induction rs arbitrary: a s)
  case Nil
  then show ?case by (auto simp: allowance_def split: option.splits)
next
  case (Cons q rs)
  obtain j l v t where q: "q = (j, l, v, t)" by (cases q) auto
  obtain s' d where c: "consume j l v t s = (s', d)" by fastforce
  have t: "a \<le> t" "t < e" "0 < v" "j = k \<longrightarrow> l = limit \<and> v = w" "timed t e k limit w rs"
    using Cons.prems(1) by (auto simp: q timed_def list_all_iff)
  have f: "fits s (Suc (length rs))" using Cons.prems(2) by simp
  have f': "fits s' (length rs)" using fits_step [OF f t(3), of j l t] c by simp
  have mono: "live b t = Some x \<Longrightarrow> live b a = Some x" for b x
    using t(1) by (auto simp: live_def split: option.splits if_splits)
  have later: "e \<le> t + w" using t(1) Cons.prems(4) by simp
  show ?case
  proof (cases "j = k")
    case False
    then have o: "live (bucket s' k) t = live (bucket s k) t" using others [OF f t(3), of k j t t l] c by simp
    have "allowed_count consume k rs s' \<le> allowance limit (live (bucket s' k) t) e"
      by (rule Cons.IH [OF t(5) f' Cons.prems(3) later]) (use o mono Cons.prems(5) in auto)
    moreover have "allowance limit (live (bucket s k) t) e \<le> allowance limit (live (bucket s k) a) e"
      using t(1,2) Cons.prems(3) by (auto simp: allowance_def live_def split: option.splits)
    ultimately show ?thesis using False o by (simp add: q c)
  next
    case True
    let ?h = "hit (bucket s k) w t"
    have o: "bucket s' k = Some ?h" using own [OF f t(3), of j l t] c True t(4) by simp
    have d: "rd_allowed d = (fst ?h \<le> limit)" using allowed [OF f t(3), of j l t] c True t(4) by simp
    have alive: "t < snd ?h" using t(3,4) True by (auto simp: hit_def live_def split: option.splits if_splits)
    then have l': "live (bucket s' k) t = Some ?h" unfolding o live_def by (cases ?h) simp
    have "allowed_count consume k rs s' \<le> allowance limit (live (bucket s' k) t) e"
    proof (rule Cons.IH [OF t(5) f' Cons.prems(3) later])
      fix c r assume "live (bucket s' k) t = Some (c, r)"
      then have "c = fst ?h" using l' by (metis fst_conv option.inject)
      then show "0 \<le> c" using mono Cons.prems(5)
        by (auto simp: hit_def split: option.splits)
    qed
    moreover have "(if fst ?h \<le> limit then 1 else 0) + allowance limit (Some ?h) e \<le> allowance limit (live (bucket s k) a) e"
      using t(1,2) later Cons.prems(3,4) by (auto simp: hit_def allowance_def live_def split: option.splits if_splits)
    ultimately show ?thesis using True d l' by (simp add: q c [unfolded True])
  qed
qed

lemma window_bound:
  assumes "timed a (a + w) k limit w rs" and "fits s (length rs)" and "0 \<le> limit"
    and "\<And>c r. live (bucket s k) a = Some (c, r) \<Longrightarrow> 0 \<le> c"
  shows "allowed_count consume k rs s \<le> (if live (bucket s k) a = None then limit else 2 * limit)"
proof (cases "live (bucket s k) a")
  case None
  with allowed_bounded [OF assms(1-3)] assms(4) show ?thesis by (simp add: allowance_def)
next
  case (Some x)
  then obtain c r where x: "live (bucket s k) a = Some (c, r)" by (cases x) simp
  with assms(3,4) have "allowance limit (live (bucket s k) a) (a + w) \<le> 2 * limit" by (simp add: allowance_def)
  with allowed_bounded [OF assms(1-3)] assms(4) x show ?thesis by (simp add: order_trans)
qed

end


section \<open>Both stores meet the contract\<close>

lemma num_le_int [simp]: "num_le (num_int a) (num_int b) = (a \<le> b)"
  by (simp add: num_int_def)

lemma decide_allowed [simp]: "rd_allowed (decide limit (num_int c) ttl) = (c \<le> limit)"
  by (simp add: decide_def Let_def)

lemma evict_small: "length bs \<le> MAX_BUCKETS \<Longrightarrow> evict bs = bs"
  by (cases bs rule: evict.cases) simp_all

lemma map_of_filter_value:
  "distinct (map fst xs) \<Longrightarrow> map_of (filter (\<lambda>(k, c, r). P r) xs) k
     = (case map_of xs k of Some (c, r) \<Rightarrow> if P r then Some (c, r) else None | None \<Rightarrow> None)"
proof (induction xs)
  case (Cons x xs)
  obtain j c r where x: "x = (j, c, r)" by (cases x) auto
  have "map_of (filter (\<lambda>(k, c, r). P r) xs) j = None"
    using Cons.prems by (auto simp: x map_of_eq_None_iff image_iff)
  with Cons show ?case by (auto simp: x)
qed simp

definition memory_fits :: "memory_store \<Rightarrow> nat \<Rightarrow> bool" where
  "memory_fits s n \<longleftrightarrow> distinct (map fst (mb_buckets s)) \<and> length (mb_buckets s) + n \<le> Suc MAX_BUCKETS"

lemma length_update: "length (AList.update k v xs) \<le> Suc (length xs)"
  by (induction xs) auto

lemma prune_live:
  assumes "memory_fits s (Suc n)"
  shows "memory_fits (pruneExpiredBuckets t s) (Suc n)"
    and "t \<le> t' \<Longrightarrow> live (map_of (mb_buckets (pruneExpiredBuckets t s)) k) t' = live (map_of (mb_buckets s) k) t'"
proof -
  let ?f = "filter (\<lambda>(k, c, r). \<not> r \<le> t) (mb_buckets s)"
  have d: "distinct (map fst (mb_buckets s))" and len: "length (mb_buckets s) \<le> MAX_BUCKETS"
    using assms by (auto simp: memory_fits_def)
  have "length ?f \<le> length (mb_buckets s)" by simp
  with len have e: "evict ?f = ?f" by (intro evict_small) linarith
  have short: "length ?f + n \<le> MAX_BUCKETS"
    using assms \<open>length ?f \<le> length (mb_buckets s)\<close> unfolding memory_fits_def by linarith
  have "distinct (map fst ?f)" using d by (simp add: distinct_map_filter)
  with e show "memory_fits (pruneExpiredBuckets t s) (Suc n)"
    using assms short by (auto simp: pruneExpiredBuckets_def memory_fits_def)
  show "live (map_of (mb_buckets (pruneExpiredBuckets t s)) k) t' = live (map_of (mb_buckets s) k) t'" if "t \<le> t'"
    using that e map_of_filter_value [OF d, of "\<lambda>r. \<not> r \<le> t" k]
    by (auto simp: pruneExpiredBuckets_def live_def split: option.splits)
qed

lemma memory_consume_hit:
  assumes "memory_fits s (Suc n)"
  shows "memory_consume k limit w t s =
    (let s1 = pruneExpiredBuckets t s; (c, r) = hit (map_of (mb_buckets s) k) w t
     in (s1\<lparr>mb_buckets := AList.update k (c, r) (mb_buckets s1)\<rparr>, decide limit (num_int c) (num_int (r - t))))"
proof -
  have "hit (map_of (mb_buckets s) k) w t = hit (map_of (mb_buckets (pruneExpiredBuckets t s)) k) w t"
    using prune_live(2) [OF assms, of t t k] by (simp add: hit_def)
  then show ?thesis
    by (auto simp: memory_consume_def hit_def live_def Let_def split: option.splits)
qed

interpretation memory_store: rate_limit_store memory_consume "\<lambda>s. map_of (mb_buckets s)" memory_fits
proof (unfold_locales, goal_cases)
  case (1 s n w k limit t)
  then show ?case by (simp add: memory_consume_hit Let_def split: prod.splits)
next
  case (2 s n w k limit t)
  then show ?case by (simp add: memory_consume_hit Let_def update_conv split: prod.splits)
next
  case (3 s n w j k t t' limit)
  then show ?case using prune_live(2) [OF 3(1) 3(4), of j]
    by (simp add: memory_consume_hit Let_def update_conv split: prod.splits)
next
  case (4 s n w k limit t)
  have "memory_fits (pruneExpiredBuckets t s) (Suc n)" by (rule prune_live(1) [OF 4(1)])
  moreover obtain c r where "hit (map_of (mb_buckets s) k) w t = (c, r)" by fastforce
  ultimately show ?case
    using length_update [of k "(c, r)" "mb_buckets (pruneExpiredBuckets t s)"]
    by (simp add: memory_consume_hit [OF 4(1)] Let_def memory_fits_def distinct_update)
qed

definition redis_bucket :: "redis_db \<Rightarrow> string \<Rightarrow> (int \<times> int) option" where
  "redis_bucket db k = (case map_of db (REDIS_PREFIX @ '':'' @ k) of Some (c, Some e) \<Rightarrow> Some (c, e) | _ \<Rightarrow> None)"

text \<open>Between two requests every counter is positive and has an expiry time.\<close>

definition redis_fits :: "redis_db \<Rightarrow> nat \<Rightarrow> bool" where
  "redis_fits db n \<longleftrightarrow> (\<forall>k c e. map_of db k = Some (c, e) \<longrightarrow> 0 < c \<and> e \<noteq> None)"

lemma script_hit:
  assumes "redis_fits db n" and "0 < w"
  shows "\<exists>db' c r. redisRateLimitScript (REDIS_PREFIX @ '':'' @ k) w t db = (db', c, r - t)
    \<and> hit (redis_bucket db k) w t = (c, r) \<and> 0 < c \<and> map_of db' = (map_of db)(REDIS_PREFIX @ '':'' @ k \<mapsto> (c, Some r))"
proof (cases "redis_get t db (REDIS_PREFIX @ '':'' @ k)")
  case None
  then have "live (redis_bucket db k) t = None"
    using assms(1) by (auto simp: redis_get_def redis_bucket_def live_def redis_fits_def split: option.splits if_splits)
  with None assms(2) show ?thesis
    by (auto simp: redisRateLimitScript_def redis_incr_def redis_pexpire_def redis_pttl_def redis_get_def hit_def update_conv
        Let_def)
next
  case (Some x)
  then obtain c e where "map_of db (REDIS_PREFIX @ '':'' @ k) = Some (c, Some e)" "x = (c, Some e)" "t < e" "0 < c"
    using assms(1) by (cases x) (fastforce simp: redis_get_def redis_fits_def split: option.splits if_splits)
  with Some assms(2) show ?thesis
    by (auto simp: redisRateLimitScript_def redis_incr_def redis_pexpire_def redis_pttl_def redis_get_def hit_def live_def
        redis_bucket_def update_conv Let_def)
qed

lemma redis_decision_int: "0 < c \<Longrightarrow> rd_allowed (redis_decision limit w [JNum (num_int c), JNum ttl]) = (c \<le> limit)"
  by (simp add: redis_decision_def parseRedisNumber_def num_is_finite_def decide_def Let_def num_int_def math_max_def)

lemma redis_consume_hit:
  assumes "redis_fits db n" and "0 < w"
  shows "rd_allowed (snd (redis_consume k limit w t db)) = (fst (hit (redis_bucket db k) w t) \<le> limit)
    \<and> map_of (fst (redis_consume k limit w t db)) = (map_of db)(REDIS_PREFIX @ '':'' @ k \<mapsto>
        (fst (hit (redis_bucket db k) w t), Some (snd (hit (redis_bucket db k) w t))))
    \<and> 0 < fst (hit (redis_bucket db k) w t)"
  using script_hit [OF assms, of k t] by (auto simp: redis_consume_def redis_decision_int)

interpretation redis_store: rate_limit_store redis_consume redis_bucket redis_fits
proof (unfold_locales, goal_cases)
  case (1 s n w k limit t)
  then show ?case by (simp add: redis_consume_hit)
next
  case (2 s n w k limit t)
  then show ?case by (simp add: redis_consume_hit redis_bucket_def)
next
  case (3 s n w j k t t' limit)
  then show ?case by (simp add: redis_consume_hit redis_bucket_def)
next
  case (4 s n w k limit t)
  then show ?case by (auto simp: redis_fits_def redis_consume_hit [of s "Suc n"])
qed


section \<open>Properties\<close>



lemma forwarded_plain:
  assumes "map_of hs ''x-forwarded-for'' = Some (HStr v)" and "CHR '','' \<notin> set v" and "truthy (normalizeIp (Some v))"
  shows "resolveForwardedClientIp (Some hs) = normalizeIp (Some v)"
proof -
  have "split_on (CHR '','') v = [v]" using assms(2) by (rule split_on_plain)
  with assms show ?thesis by (simp add: resolveForwardedClientIp_def Let_def)
qed

text \<open>
  The guard trusts the caller: a request that names an address in \<open>X-Forwarded-For\<close> is counted
  under that address, whatever its connection, so the bucket a request falls into is the sender's
  choice; every request that is counted carries the limit of its policy, and it is refused exactly
  when the store does not allow it.
\<close>

theorem guard_counts_by_header:
  assumes "rq_headers req = Some hs" and "map_of hs ''x-forwarded-for'' = Some (HStr v)" and "CHR '','' \<notin> set v"
    and "normalizeIp (Some v) = Some ip" and "ip \<noteq> []"
    and "rq_method req = Some m" and "m \<noteq> ''OPTIONS''"
    and "resolvePolicy env m (takeWhile (\<lambda>c. c \<noteq> CHR ''?'') (nullish (orElse (rq_originalUrl req) (rq_url req)) ''/'')) = Some policy"
  shows "canActivate consume env (req\<lparr>rq_ip := x, rq_remoteAddress := y\<rparr>) s = canActivate consume env req s
    \<and> fst (canActivate consume env req s) = fst (consume (rp_key policy @ '':'' @ ip) (rp_maxRequests policy) (rp_windowMs policy) s)
    \<and> (isOk (snd (snd (canActivate consume env req s)))
       \<longleftrightarrow> rd_allowed (snd (consume (rp_key policy @ '':'' @ ip) (rp_maxRequests policy) (rp_windowMs policy) s)))"
proof -
  have f: "resolveForwardedClientIp (Some hs) = Some ip"
    using forwarded_plain [OF assms(2,3)] assms(4,5) by (simp add: truthy_def)
  have i: "resolveIdentity req = ip" "resolveIdentity (req\<lparr>rq_ip := x, rq_remoteAddress := y\<rparr>) = ip"
    using assms(1,5) f by (simp_all add: resolveIdentity_def Let_def truthy_def)
  show ?thesis
    using assms(6-8) i by (auto simp: canActivate_def Let_def split: prod.splits)
qed

definition sample_request :: rate_limited_request where
  "sample_request = \<lparr>rq_headers = Some [(''x-forwarded-for'', HStr ''10.0.0.1'')], rq_ip = Some ''9.9.9.9'', rq_method = Some ''POST'',
     rq_originalUrl = Some ''/auth/login?x'', rq_remoteAddress = None, rq_url = None\<rparr>"

definition sample_limits :: rate_limit_env where
  "sample_limits = \<lparr>re_authMax = 5, re_authWindow = 60000, re_max = 100, re_window = 60000\<rparr>"

theorem guard_counts_by_header_witness:
  "canActivate (\<lambda>k l w. memory_consume k l w 0) sample_limits (sample_request\<lparr>rq_ip := None, rq_remoteAddress := Some ''1.1.1.1''\<rparr>)
       \<lparr>mb_buckets = [], mb_lastPrunedAt = 0\<rparr>
     = canActivate (\<lambda>k l w. memory_consume k l w 0) sample_limits sample_request \<lparr>mb_buckets = [], mb_lastPrunedAt = 0\<rparr>"
proof -
  have ip: "normalizeIp (Some ''10.0.0.1'') = Some ''10.0.0.1''" by code_simp
  have policy: "resolvePolicy sample_limits ''POST'' (takeWhile (\<lambda>c. c \<noteq> CHR ''?'')
      (nullish (orElse (rq_originalUrl sample_request) (rq_url sample_request)) ''/''))
    = Some \<lparr>rp_key = ''auth:POST:/auth/login'', rp_maxRequests = 5, rp_windowMs = 60000\<rparr>"
    by (simp add: resolvePolicy_def sample_limits_def sample_request_def)
  show ?thesis
    by (rule guard_counts_by_header [OF _ _ _ ip _ _ _ policy, where hs = "[(''x-forwarded-for'', HStr ''10.0.0.1'')]", THEN conjunct1])
      (simp_all add: sample_request_def)
qed

end
