(* ===== verification/Wallet.thy ===== *)
theory Wallet
  imports Queue
begin

text \<open>
  The prepaid wallet: tables and transactions of \<open>apps/api/src/wallet/wallet.repository.ts\<close> and the
  service \<open>wallet.service.ts\<close>. A table is a list of rows in the state record; \<open>prisma.$transaction\<close>
  is \<open>transaction\<close>, which undoes a body that throws; generated identifiers come from \<open>cuid\<close>, a
  parameter applied to a counter of the state; a balance is a 32-bit column.
\<close>

section \<open>Tables\<close>

datatype topup_status = TopUpPending | TopUpSucceeded | TopUpCanceled | TopUpRefunded

datatype ledger_type = LtTopup | LtRefund | LtManualAdjustment | LtUsageDebit

record wallet_row =
  wt_id :: string
  wt_userId :: string
  wt_currency :: string
  wt_balanceKopecks :: int
  wt_createdAt :: int

record topup_row =
  tu_id :: string
  tu_walletId :: string
  tu_createdByUserId :: string
  tu_amountKopecks :: int
  tu_currency :: string
  tu_status :: topup_status
  tu_provider :: string
  tu_providerPaymentId :: "string option"
  tu_idempotenceKey :: string
  tu_metadataJson :: "json option"
  tu_confirmationToken :: "string option"
  tu_paidAt :: "int option"
  tu_createdAt :: int

record ledger_row =
  ld_id :: string
  ld_walletId :: string
  ld_topUpId :: "string option"
  ld_idempotencyKey :: "string option"
  ld_type :: ledger_type
  ld_deltaKopecks :: int
  ld_balanceAfterKopecks :: int
  ld_description :: string
  ld_metadataJson :: "json option"

datatype adjust_direction = Credit | Debit

datatype adjust_target = SelectedUsers | AllUsers

record batch_row =
  bt_id :: string
  bt_actorId :: "string option"
  bt_targetType :: adjust_target
  bt_targetCount :: int
  bt_amountKopecks :: int
  bt_direction :: adjust_direction
  bt_currency :: string
  bt_reason :: string
  bt_idempotencyKey :: string

record wallet_db =
  wd_wallets :: "wallet_row list"
  wd_topUps :: "topup_row list"
  wd_ledger :: "ledger_row list"
  wd_batches :: "batch_row list"
  wd_next :: nat

section \<open>Single statements\<close>

definition walletOfUser :: "wallet_db \<Rightarrow> string \<Rightarrow> wallet_row option" where
  "walletOfUser db u = find (\<lambda>w. wt_userId w = u) (wd_wallets db)"

definition walletById :: "wallet_db \<Rightarrow> string \<Rightarrow> wallet_row option" where
  "walletById db i = find (\<lambda>w. wt_id w = i) (wd_wallets db)"

definition insertWallet :: "(nat \<Rightarrow> string) \<Rightarrow> int \<Rightarrow> string \<Rightarrow> string \<Rightarrow> (wallet_db, wallet_row) op" where
  "insertWallet cuid now u currency db =
     (if walletOfUser db u \<noteq> None then (db, Inl UniqueViolation)
      else let w = \<lparr>wt_id = cuid (wd_next db), wt_userId = u, wt_currency = currency, wt_balanceKopecks = 0, wt_createdAt = now\<rparr>
           in (db\<lparr>wd_wallets := wd_wallets db @ [w], wd_next := Suc (wd_next db)\<rparr>, Inr w))"

text \<open>\<open>wallet.upsert\<close> with an empty update.\<close>

definition upsertWallet :: "(nat \<Rightarrow> string) \<Rightarrow> int \<Rightarrow> string \<Rightarrow> string \<Rightarrow> (wallet_db, wallet_row) op" where
  "upsertWallet cuid now u currency db =
     (case walletOfUser db u of Some w \<Rightarrow> (db, Inr w) | None \<Rightarrow> insertWallet cuid now u currency db)"

text \<open>\<open>wallet.update\<close> of the balance by an increment or a decrement; the new balance.\<close>

definition addBalance :: "string \<Rightarrow> int \<Rightarrow> (wallet_db, int) op" where
  "addBalance i delta db = (case walletById db i of
     None \<Rightarrow> (db, Inl RecordNotFound)
   | Some w \<Rightarrow>
       if \<not> fits_int4 (wt_balanceKopecks w + delta) then (db, Inl IntegerOutOfRange)
       else (db\<lparr>wd_wallets := map (\<lambda>v. if wt_id v = i then v\<lparr>wt_balanceKopecks := wt_balanceKopecks v + delta\<rparr> else v) (wd_wallets db)\<rparr>,
             Inr (wt_balanceKopecks w + delta)))"

text \<open>\<open>walletLedgerEntry.create\<close>: the idempotency key is unique where it is present.\<close>

definition insertLedger :: "(nat \<Rightarrow> string) \<Rightarrow> (string \<Rightarrow> ledger_row) \<Rightarrow> (wallet_db, string) op" where
  "insertLedger cuid row db =
     (let i = cuid (wd_next db); r = row i
      in if ld_idempotencyKey r \<noteq> None \<and> ld_idempotencyKey r \<in> set (map ld_idempotencyKey (wd_ledger db)) then (db, Inl UniqueViolation)
         else (db\<lparr>wd_ledger := wd_ledger db @ [r], wd_next := Suc (wd_next db)\<rparr>, Inr i))"

definition findLedgerByKey :: "wallet_db \<Rightarrow> string \<Rightarrow> ledger_row option" where
  "findLedgerByKey db key = find (\<lambda>r. ld_idempotencyKey r = Some key) (wd_ledger db)"

definition findTopUpById :: "wallet_db \<Rightarrow> string \<Rightarrow> topup_row option" where
  "findTopUpById db i = find (\<lambda>t. tu_id t = i) (wd_topUps db)"

definition updateTopUp :: "string \<Rightarrow> (topup_row \<Rightarrow> topup_row) \<Rightarrow> (wallet_db, unit) op" where
  "updateTopUp i f db =
     (if findTopUpById db i = None then (db, Inl RecordNotFound)
      else (db\<lparr>wd_topUps := map (\<lambda>t. if tu_id t = i then f t else t) (wd_topUps db)\<rparr>, Inr ()))"

section \<open>The repository\<close>

definition findOrCreateWalletForUser :: "(nat \<Rightarrow> string) \<Rightarrow> int \<Rightarrow> string \<Rightarrow> (wallet_db, wallet_row) op" where
  "findOrCreateWalletForUser cuid now u =
     bindS (getS (\<lambda>db. walletOfUser db u)) (\<lambda>existing. case existing of
       Some w \<Rightarrow> retS w
     | None \<Rightarrow> insertWallet cuid now u ''RUB'')"

record create_topup_input =
  ci_walletId :: string
  ci_createdByUserId :: string
  ci_amountKopecks :: int
  ci_currency :: string
  ci_idempotenceKey :: string
  ci_providerPaymentId :: string
  ci_confirmationToken :: string
  ci_metadataJson :: "json option"

definition createTopUpRow :: "(nat \<Rightarrow> string) \<Rightarrow> int \<Rightarrow> create_topup_input \<Rightarrow> (wallet_db, topup_row) op" where
  "createTopUpRow cuid now inp db =
     (if walletById db (ci_walletId inp) = None then (db, Inl ForeignKeyViolation)
      else if Some (ci_providerPaymentId inp) \<in> set (map tu_providerPaymentId (wd_topUps db))
            \<or> ci_idempotenceKey inp \<in> set (map tu_idempotenceKey (wd_topUps db)) then (db, Inl UniqueViolation)
      else if \<not> fits_int4 (ci_amountKopecks inp) then (db, Inl IntegerOutOfRange)
      else let t = \<lparr>tu_id = cuid (wd_next db), tu_walletId = ci_walletId inp, tu_createdByUserId = ci_createdByUserId inp,
                    tu_amountKopecks = ci_amountKopecks inp, tu_currency = ci_currency inp, tu_status = TopUpPending,
                    tu_provider = ''yookassa'', tu_providerPaymentId = Some (ci_providerPaymentId inp),
                    tu_idempotenceKey = ci_idempotenceKey inp, tu_metadataJson = ci_metadataJson inp,
                    tu_confirmationToken = Some (ci_confirmationToken inp), tu_paidAt = None, tu_createdAt = now\<rparr>
           in (db\<lparr>wd_topUps := wd_topUps db @ [t], wd_next := Suc (wd_next db)\<rparr>, Inr t))"

definition findTopUpByProviderPaymentId :: "wallet_db \<Rightarrow> string \<Rightarrow> topup_row option" where
  "findTopUpByProviderPaymentId db p = find (\<lambda>t. tu_providerPaymentId t = Some p) (wd_topUps db)"

definition findBalanceForUser :: "wallet_db \<Rightarrow> string \<Rightarrow> int option" where
  "findBalanceForUser db u = map_option wt_balanceKopecks (walletOfUser db u)"

definition findTopUpsByUserId :: "wallet_db \<Rightarrow> string \<Rightarrow> nat \<Rightarrow> topup_row list" where
  "findTopUpsByUserId db u limit = (case walletOfUser db u of
     None \<Rightarrow> []
   | Some w \<Rightarrow> take limit (sort_by (\<lambda>a b. tu_createdAt b - tu_createdAt a) (filter (\<lambda>t. tu_walletId t = wt_id w) (wd_topUps db))))"

record settle_input =
  si_topUpId :: string
  si_walletId :: string
  si_amountKopecks :: int
  si_paidAt :: "int option"

text \<open>The writes of a settlement, after the decision to settle; an invalid date (\<open>None\<close>) is refused.\<close>

definition settle_writes :: "(nat \<Rightarrow> string) \<Rightarrow> settle_input \<Rightarrow> (wallet_db, bool \<times> int) op" where
  "settle_writes cuid inp =
     thenS (thenS (liftS (if si_paidAt inp = None then Inl InvalidValue else Inr ()))
        (updateTopUp (si_topUpId inp) (\<lambda>t. t\<lparr>tu_status := TopUpSucceeded, tu_paidAt := si_paidAt inp\<rparr>)))
      (bindS (addBalance (si_walletId inp) (si_amountKopecks inp)) (\<lambda>b.
        thenS (insertLedger cuid (\<lambda>i. \<lparr>ld_id = i, ld_walletId = si_walletId inp, ld_topUpId = Some (si_topUpId inp),
              ld_idempotencyKey = None, ld_type = LtTopup, ld_deltaKopecks = si_amountKopecks inp,
              ld_balanceAfterKopecks = b, ld_description = ''Top-up via YooKassa'', ld_metadataJson = None\<rparr>))
          (retS (False, b))))"

definition settleTopUp :: "(nat \<Rightarrow> string) \<Rightarrow> settle_input \<Rightarrow> (wallet_db, bool \<times> int) op" where
  "settleTopUp cuid inp = transaction
     (bindS (getS (\<lambda>db. findTopUpById db (si_topUpId inp))) (\<lambda>topUp. case topUp of
        None \<Rightarrow> throwS (JsError (''WalletTopUp '' @ si_topUpId inp @ '' not found.''))
      | Some t \<Rightarrow>
          if tu_status t = TopUpSucceeded
          then bindS (getS (\<lambda>db. walletById db (si_walletId inp))) (\<lambda>w. retS (True, nullish (map_option wt_balanceKopecks w) 0))
          else settle_writes cuid inp))"

definition cancelTopUp :: "string \<Rightarrow> (wallet_db, unit) op" where
  "cancelTopUp i = putS (\<lambda>db. db\<lparr>wd_topUps :=
     map (\<lambda>t. if tu_id t = i \<and> tu_status t = TopUpPending then t\<lparr>tu_status := TopUpCanceled\<rparr> else t) (wd_topUps db)\<rparr>)"

record debit_input =
  di_userId :: string
  di_amountKopecks :: int
  di_currency :: string
  di_description :: string
  di_idempotencyKey :: string
  di_metadataJson :: "json option"

record debit_result =
  dt_ledgerEntryId :: string
  dt_newBalanceKopecks :: int
  dt_alreadyProcessed :: bool

definition debit_row :: "debit_input \<Rightarrow> string \<Rightarrow> int \<Rightarrow> string \<Rightarrow> ledger_row" where
  "debit_row inp walletId b i = \<lparr>ld_id = i, ld_walletId = walletId, ld_topUpId = None,
     ld_idempotencyKey = Some (di_idempotencyKey inp), ld_type = LtUsageDebit,
     ld_deltaKopecks = - di_amountKopecks inp, ld_balanceAfterKopecks = b,
     ld_description = di_description inp, ld_metadataJson = di_metadataJson inp\<rparr>"

definition debitUsage :: "(nat \<Rightarrow> string) \<Rightarrow> int \<Rightarrow> debit_input \<Rightarrow> (wallet_db, debit_result) op" where
  "debitUsage cuid now inp =
     (if di_amountKopecks inp \<le> 0 then throwS (JsError ''Usage debit amount must be greater than zero.'')
      else transaction
        (bindS (getS (\<lambda>db. findLedgerByKey db (di_idempotencyKey inp))) (\<lambda>existing. case existing of
           Some e \<Rightarrow> retS \<lparr>dt_ledgerEntryId = ld_id e, dt_newBalanceKopecks = ld_balanceAfterKopecks e, dt_alreadyProcessed = True\<rparr>
         | None \<Rightarrow>
             bindS (upsertWallet cuid now (di_userId inp) (di_currency inp)) (\<lambda>w.
               if wt_balanceKopecks w < di_amountKopecks inp
               then throwS (JsError ''Insufficient wallet balance for usage debit.'')
               else bindS (addBalance (wt_id w) (- di_amountKopecks inp)) (\<lambda>b.
                 bindS (insertLedger cuid (debit_row inp (wt_id w) b)) (\<lambda>e.
                   retS \<lparr>dt_ledgerEntryId = e, dt_newBalanceKopecks = b, dt_alreadyProcessed = False\<rparr>))))))"

record adjust_input =
  aj_actorId :: "string option"
  aj_targetType :: adjust_target
  aj_userIds :: "string list"
  aj_direction :: adjust_direction
  aj_amountKopecks :: jsnum
  aj_currency :: string
  aj_reason :: "string option"
  aj_idempotencyKey :: string
  aj_allowNegative :: bool

record adjust_result =
  ar_batchId :: string
  ar_affectedCount :: int
  ar_skippedCount :: int
  ar_direction :: adjust_direction
  ar_amountKopecks :: int
  ar_currency :: string

definition adjustment_key :: "string \<Rightarrow> string \<Rightarrow> string" where
  "adjustment_key batchId userId = ''admin-adjustment:'' @ batchId @ '':'' @ userId"

text \<open>One user of an adjustment: \<open>True\<close> when the wallet was adjusted, \<open>False\<close> when it was skipped.\<close>

definition adjust_one :: "(nat \<Rightarrow> string) \<Rightarrow> int \<Rightarrow> adjust_input \<Rightarrow> int \<Rightarrow> string \<Rightarrow> string \<Rightarrow> string \<Rightarrow> (wallet_db, bool) op" where
  "adjust_one cuid now inp amount reason batchId userId =
     bindS (upsertWallet cuid now userId (aj_currency inp)) (\<lambda>w.
       if aj_direction inp = Debit \<and> \<not> aj_allowNegative inp \<and> wt_balanceKopecks w < amount then retS False
       else let delta = (if aj_direction inp = Credit then amount else - amount)
            in bindS (addBalance (wt_id w) delta) (\<lambda>b.
              thenS (insertLedger cuid (\<lambda>i. \<lparr>ld_id = i, ld_walletId = wt_id w, ld_topUpId = None,
                  ld_idempotencyKey = Some (adjustment_key batchId userId), ld_type = LtManualAdjustment,
                  ld_deltaKopecks = delta, ld_balanceAfterKopecks = b, ld_description = reason,
                  ld_metadataJson = Some (JObj
                    [(''source'', JStr ''admin_manual_adjustment''), (''adminActorId'', jnull_or (aj_actorId inp)),
                     (''reason'', JStr reason),
                     (''targetType'', JStr (case aj_targetType inp of SelectedUsers \<Rightarrow> ''selected_users'' | AllUsers \<Rightarrow> ''all_users'')),
                     (''batchId'', JStr batchId),
                     (''direction'', JStr (case aj_direction inp of Credit \<Rightarrow> ''credit'' | Debit \<Rightarrow> ''debit''))])\<rparr>))
                (retS True)))"

fun adjust_all ::
  "(nat \<Rightarrow> string) \<Rightarrow> int \<Rightarrow> adjust_input \<Rightarrow> int \<Rightarrow> string \<Rightarrow> string \<Rightarrow> string list \<Rightarrow> int \<Rightarrow> int \<Rightarrow> (wallet_db, int \<times> int) op" where
  "adjust_all cuid now inp amount reason batchId [] affected skipped = retS (affected, skipped)"
| "adjust_all cuid now inp amount reason batchId (u # us) affected skipped =
     bindS (adjust_one cuid now inp amount reason batchId u) (\<lambda>done.
       if done then adjust_all cuid now inp amount reason batchId us (affected + 1) skipped
       else adjust_all cuid now inp amount reason batchId us affected (skipped + 1))"

definition insertBatch :: "(nat \<Rightarrow> string) \<Rightarrow> adjust_input \<Rightarrow> int \<Rightarrow> string \<Rightarrow> (wallet_db, string) op" where
  "insertBatch cuid inp amount reason db =
     (let i = cuid (wd_next db)
      in if aj_idempotencyKey inp \<in> set (map bt_idempotencyKey (wd_batches db)) then (db, Inl UniqueViolation)
         else if \<not> fits_int4 amount then (db, Inl IntegerOutOfRange)
         else (db\<lparr>wd_batches := wd_batches db @ [\<lparr>bt_id = i, bt_actorId = aj_actorId inp, bt_targetType = aj_targetType inp,
                   bt_targetCount = int (length (aj_userIds inp)), bt_amountKopecks = amount, bt_direction = aj_direction inp,
                   bt_currency = aj_currency inp, bt_reason = reason, bt_idempotencyKey = aj_idempotencyKey inp\<rparr>],
                 wd_next := Suc (wd_next db)\<rparr>, Inr i))"

definition manualAdjustWallets :: "(nat \<Rightarrow> string) \<Rightarrow> int \<Rightarrow> adjust_input \<Rightarrow> (wallet_db, adjust_result) op" where
  "manualAdjustWallets cuid now inp =
     (if \<not> num_is_integer (aj_amountKopecks inp) \<or> num_le (aj_amountKopecks inp) (Fin 0)
      then throwS (JsError ''amountKopecks must be a positive integer.'')
      else let amount = num_to_int (aj_amountKopecks inp);
               reason = nullish (map_option trim (aj_reason inp)) [];
               normalizedReason = (if reason = [] then ''Admin manual wallet adjustment'' else reason)
           in if 500 < length reason then throwS (JsError ''reason length must be at most 500.'')
              else transaction
                (bindS (getS (\<lambda>db. find (\<lambda>b. bt_idempotencyKey b = aj_idempotencyKey inp) (wd_batches db))) (\<lambda>existingBatch.
                   case existingBatch of
                     Some b \<Rightarrow>
                       bindS (getS (\<lambda>db. int (length (filter
                           (\<lambda>r. ld_idempotencyKey r \<in> Some ` set (map (adjustment_key (bt_id b)) (aj_userIds inp))) (wd_ledger db)))))
                         (\<lambda>affected. retS \<lparr>ar_batchId = bt_id b, ar_affectedCount = affected,
                            ar_skippedCount = max 0 (int (length (aj_userIds inp)) - affected),
                            ar_direction = bt_direction b, ar_amountKopecks = bt_amountKopecks b, ar_currency = bt_currency b\<rparr>)
                   | None \<Rightarrow>
                       bindS (insertBatch cuid inp amount normalizedReason) (\<lambda>batchId.
                         bindS (adjust_all cuid now inp amount normalizedReason batchId (aj_userIds inp) 0 0)
                           (\<lambda>(affected, skipped). retS \<lparr>ar_batchId = batchId, ar_affectedCount = affected,
                              ar_skippedCount = skipped, ar_direction = aj_direction inp, ar_amountKopecks = amount,
                              ar_currency = aj_currency inp\<rparr>)))))"

section \<open>The service\<close>

definition MIN_TOPUP_KOPECKS :: int where
  "MIN_TOPUP_KOPECKS = 1000"

definition MAX_TOPUP_KOPECKS :: int where
  "MAX_TOPUP_KOPECKS = 100000000"

record wallet_env =
  we_connected :: bool
  we_yookassaShopId :: "string option"
  we_yookassaSecretKey :: "string option"
  we_yookassaReturnUrl :: "string option"
  we_appUrl :: string

definition requireConnectedMode :: "wallet_env \<Rightarrow> unit result" where
  "requireConnectedMode env =
     (if \<not> we_connected env then Inl (ServiceUnavailable ''Wallet endpoints require QUIZMIND_RUNTIME_MODE=connected.'')
      else Inr ())"

text \<open>The credentials of the payment client.\<close>

definition buildYookassaClient :: "wallet_env \<Rightarrow> (string \<times> string) result" where
  "buildYookassaClient env =
     (let shopId = map_option trim (we_yookassaShopId env); secretKey = map_option trim (we_yookassaSecretKey env)
      in if \<not> truthy shopId \<or> \<not> truthy secretKey
         then Inl (ServiceUnavailable ''YooKassa is not configured. Set YOOKASSA_SHOP_ID and YOOKASSA_SECRET_KEY.'')
         else Inr (the shopId, the secretKey))"

definition resolveReturnUrl :: "wallet_env \<Rightarrow> string" where
  "resolveReturnUrl env =
     (let u = map_option trim (we_yookassaReturnUrl env)
      in if truthy u then the u else we_appUrl env @ ''/app/billing'')"

record balance_snapshot =
  bs_currency :: string
  bs_balanceKopecks :: int
  bs_balanceRub :: jsnum

definition getBalance :: "(nat \<Rightarrow> string) \<Rightarrow> int \<Rightarrow> wallet_env \<Rightarrow> string \<Rightarrow> (wallet_db, balance_snapshot) op" where
  "getBalance cuid now env userId =
     thenS (liftS (requireConnectedMode env))
       (bindS (findOrCreateWalletForUser cuid now userId) (\<lambda>w.
          retS \<lparr>bs_currency = wt_currency w, bs_balanceKopecks = wt_balanceKopecks w,
                bs_balanceRub = num_div (Fin (of_int (wt_balanceKopecks w))) (Fin 100)\<rparr>))"

record topup_item =
  ti_id :: string
  ti_amountKopecks :: int
  ti_amountRub :: jsnum
  ti_currency :: string
  ti_status :: topup_status
  ti_provider :: string
  ti_providerPaymentId :: "string option"
  ti_idempotenceKey :: string
  ti_paidAt :: "string option"
  ti_createdAt :: string

definition listTopUps :: "wallet_env \<Rightarrow> string \<Rightarrow> (wallet_db, topup_item list) op" where
  "listTopUps env userId =
     thenS (liftS (requireConnectedMode env))
       (getS (\<lambda>db. map (\<lambda>t. \<lparr>ti_id = tu_id t, ti_amountKopecks = tu_amountKopecks t,
           ti_amountRub = num_div (Fin (of_int (tu_amountKopecks t))) (Fin 100), ti_currency = tu_currency t,
           ti_status = tu_status t, ti_provider = tu_provider t, ti_providerPaymentId = tu_providerPaymentId t,
           ti_idempotenceKey = tu_idempotenceKey t, ti_paidAt = map_option toISOString (tu_paidAt t),
           ti_createdAt = toISOString (tu_createdAt t)\<rparr>) (findTopUpsByUserId db userId 50)))"

record yk_payment_input =
  yi_amountKopecks :: int
  yi_currency :: string
  yi_description :: string
  yi_returnUrl :: string
  yi_metadata :: "(string \<times> string) list"
  yi_idempotenceKey :: string

record yk_payment =
  yp_id :: string
  yp_status :: string
  yp_confirmationToken :: string

definition amount_rub :: "int \<Rightarrow> string" where
  "amount_rub kopecks = toFixed 2 (num_div (Fin (of_int kopecks)) (Fin 100))"

text \<open>The body of the request to the payment service.\<close>

definition payment_body :: "yk_payment_input \<Rightarrow> json" where
  "payment_body inp = JObj
     [(''amount'', JObj [(''value'', JStr (amount_rub (yi_amountKopecks inp))), (''currency'', JStr (yi_currency inp))]),
      (''confirmation'', JObj [(''type'', JStr ''embedded''), (''return_url'', JStr (yi_returnUrl inp))]),
      (''capture'', JBool True),
      (''description'', JStr (yi_description inp)),
      (''metadata'', JObj (map (\<lambda>(k, v). (k, JStr v)) (yi_metadata inp)))]"

text \<open>
  \<open>createPayment\<close>: \<open>post\<close> sends the body with the credentials and the idempotence key and returns
  the payment or the status and text of a refusal.
\<close>

definition createPayment ::
  "(string \<times> string \<Rightarrow> string \<Rightarrow> json \<Rightarrow> (int \<times> string) + yk_payment) \<Rightarrow> string \<times> string \<Rightarrow> yk_payment_input \<Rightarrow> yk_payment result" where
  "createPayment post credentials inp =
     (case post credentials (yi_idempotenceKey inp) (payment_body inp) of
        Inl (status, errorText) \<Rightarrow> Inl (JsError (''YooKassa API error '' @ show_int status @ '': '' @ errorText))
      | Inr payment \<Rightarrow> Inr payment)"

record topup_result =
  tr_topUpId :: string
  tr_confirmationToken :: string
  tr_amountKopecks :: int
  tr_currency :: string
  tr_providerPaymentId :: string
  tr_status :: topup_status

text \<open>The checks on the amount of a request; \<open>None\<close> is a missing amount.\<close>

definition checkTopUpAmount :: "json option \<Rightarrow> int result" where
  "checkTopUpAmount amount = (case amount of
     Some (JNum n) \<Rightarrow>
       if \<not> num_is_integer n then Inl (BadRequest ''amountKopecks must be an integer.'')
       else let k = num_to_int n
            in if k < MIN_TOPUP_KOPECKS then Inl (BadRequest ''Minimum top-up amount is 10 RUB.'')
               else if MAX_TOPUP_KOPECKS < k then Inl (BadRequest ''Maximum top-up amount is 1000000 RUB.'')
               else Inr k
   | _ \<Rightarrow> Inl (BadRequest ''amountKopecks must be an integer.''))"

text \<open>\<open>describe\<close> builds the (Cyrillic) description; \<open>uuid\<close> is the random idempotence key.\<close>

definition createTopUp ::
  "(nat \<Rightarrow> string) \<Rightarrow> int \<Rightarrow> string \<Rightarrow> (string \<Rightarrow> string) \<Rightarrow>
   (string \<times> string \<Rightarrow> string \<Rightarrow> json \<Rightarrow> (int \<times> string) + yk_payment) \<Rightarrow> wallet_env \<Rightarrow> string \<Rightarrow> json option \<Rightarrow>
   (wallet_db, topup_result) op" where
  "createTopUp cuid now uuid describe post env userId amount =
     thenS (liftS (requireConnectedMode env))
      (bindS (liftS (checkTopUpAmount amount)) (\<lambda>k.
        bindS (findOrCreateWalletForUser cuid now userId) (\<lambda>w.
          bindS (liftS (buildYookassaClient env)) (\<lambda>credentials.
            bindS (liftS (createPayment post credentials
                \<lparr>yi_amountKopecks = k, yi_currency = wt_currency w, yi_description = describe (amount_rub k),
                 yi_returnUrl = resolveReturnUrl env,
                 yi_metadata = [(''walletId'', wt_id w), (''userId'', userId), (''amountKopecks'', show_int k)],
                 yi_idempotenceKey = uuid\<rparr>)) (\<lambda>payment.
              bindS (createTopUpRow cuid now
                \<lparr>ci_walletId = wt_id w, ci_createdByUserId = userId, ci_amountKopecks = k, ci_currency = wt_currency w,
                 ci_idempotenceKey = uuid, ci_providerPaymentId = yp_id payment,
                 ci_confirmationToken = yp_confirmationToken payment,
                 ci_metadataJson = Some (JObj [(''yookassaPaymentId'', JStr (yp_id payment)),
                   (''yookassaStatus'', JStr (yp_status payment))])\<rparr>) (\<lambda>t.
                retS \<lparr>tr_topUpId = tu_id t, tr_confirmationToken = yp_confirmationToken payment, tr_amountKopecks = k,
                      tr_currency = wt_currency w, tr_providerPaymentId = yp_id payment, tr_status = TopUpPending\<rparr>))))))"

definition processYookassaPaymentEvent ::
  "(nat \<Rightarrow> string) \<Rightarrow> int \<Rightarrow> string \<Rightarrow> string \<Rightarrow> int option option \<Rightarrow> (wallet_db, bool \<times> string) op" where
  "processYookassaPaymentEvent cuid now eventType paymentId paidAt =
     bindS (getS (\<lambda>db. findTopUpByProviderPaymentId db paymentId)) (\<lambda>topUp. case topUp of
       None \<Rightarrow> retS (False, ''no_matching_topup'')
     | Some t \<Rightarrow>
         if eventType = ''payment.succeeded'' then
           bindS (settleTopUp cuid \<lparr>si_topUpId = tu_id t, si_walletId = tu_walletId t,
               si_amountKopecks = tu_amountKopecks t, si_paidAt = nullish paidAt (Some now)\<rparr>) (\<lambda>(alreadySettled, _).
             if alreadySettled then retS (False, ''already_settled'') else retS (True, ''balance_credited''))
         else if eventType = ''payment.canceled'' then
           thenS (cancelTopUp (tu_id t)) (retS (True, ''topup_canceled''))
         else retS (False, ''unhandled_event_type''))"

section \<open>The ledger invariant\<close>

definition ledger_sum :: "ledger_row list \<Rightarrow> string \<Rightarrow> int" where
  "ledger_sum rows i = sum_list (map ld_deltaKopecks (filter (\<lambda>r. ld_walletId r = i) rows))"

definition credits_of :: "ledger_row list \<Rightarrow> string \<Rightarrow> (string \<times> int) list" where
  "credits_of rows t = map (\<lambda>r. (ld_walletId r, ld_deltaKopecks r)) (filter (\<lambda>r. ld_topUpId r = Some t) rows)"

text \<open>
  Wallets and top-ups are identified by fresh identifiers, a user has one wallet, every balance is
  the sum of the wallet's ledger entries and fits its column, an idempotency key occurs once, and a
  top-up has one credit of its amount on its wallet exactly when it is marked as succeeded.
\<close>

definition wallets_ok :: "wallet_db \<Rightarrow> bool" where
  "wallets_ok db \<longleftrightarrow> distinct (map wt_id (wd_wallets db)) \<and> distinct (map wt_userId (wd_wallets db))
     \<and> list_all (\<lambda>w. wt_balanceKopecks w = ledger_sum (wd_ledger db) (wt_id w) \<and> fits_int4 (wt_balanceKopecks w)) (wd_wallets db)"

definition keys_ok :: "wallet_db \<Rightarrow> bool" where
  "keys_ok db \<longleftrightarrow> distinct (filter (\<lambda>k. k \<noteq> None) (map ld_idempotencyKey (wd_ledger db)))"

definition topups_ok :: "wallet_db \<Rightarrow> bool" where
  "topups_ok db \<longleftrightarrow> distinct (map tu_id (wd_topUps db))
     \<and> list_all (\<lambda>t. credits_of (wd_ledger db) (tu_id t)
         = (if tu_status t = TopUpSucceeded then [(tu_walletId t, tu_amountKopecks t)] else [])) (wd_topUps db)"

definition refs_ok :: "(nat \<Rightarrow> string) \<Rightarrow> wallet_db \<Rightarrow> bool" where
  "refs_ok cuid db \<longleftrightarrow> set (map wt_id (wd_wallets db)) \<union> set (map tu_id (wd_topUps db)) \<subseteq> cuid ` {..< wd_next db}
     \<and> set (map ld_walletId (wd_ledger db)) \<subseteq> set (map wt_id (wd_wallets db))
     \<and> set (map ld_topUpId (wd_ledger db)) \<subseteq> insert None (Some ` set (map tu_id (wd_topUps db)))"

definition wallet_ok :: "(nat \<Rightarrow> string) \<Rightarrow> wallet_db \<Rightarrow> bool" where
  "wallet_ok cuid db \<longleftrightarrow> wallets_ok db \<and> keys_ok db \<and> topups_ok db \<and> refs_ok cuid db"

lemma ledger_sum_simps [simp]:
  "ledger_sum [] i = 0"
  "ledger_sum (rows @ [r]) i = ledger_sum rows i + (if ld_walletId r = i then ld_deltaKopecks r else 0)"
  by (simp_all add: ledger_sum_def)

lemma credits_of_simps [simp]:
  "credits_of [] t = []"
  "credits_of (rows @ [r]) t = credits_of rows t @ (if ld_topUpId r = Some t then [(ld_walletId r, ld_deltaKopecks r)] else [])"
  by (simp_all add: credits_of_def)

lemma ledger_sum_none: "i \<notin> set (map ld_walletId rows) \<Longrightarrow> ledger_sum rows i = 0"
  by (induction rows) (auto simp: ledger_sum_def)

lemma credits_none: "Some t \<notin> set (map ld_topUpId rows) \<Longrightarrow> credits_of rows t = []"
  by (induction rows) (auto simp: credits_of_def)

lemma fresh_cuid: "inj cuid \<Longrightarrow> cuid (n :: nat) \<notin> cuid ` {..< n}"
  by (auto dest: injD)

lemma image_less_Suc: "cuid ` {..< Suc n} = insert (cuid n) (cuid ` {..< n})"
  by (simp add: lessThan_Suc)

lemma walletOfUser_None: "walletOfUser db u = None \<longleftrightarrow> u \<notin> set (map wt_userId (wd_wallets db))"
  by (auto simp: walletOfUser_def find_None_iff_all)

lemma walletById_SomeD: "walletById db i = Some w \<Longrightarrow> w \<in> set (wd_wallets db) \<and> wt_id w = i"
  by (auto simp: walletById_def dest: find_SomeD)

lemma insertWallet_ok:
  assumes "inj cuid" and "wallet_ok cuid db" and "insertWallet cuid now u c db = (db', Inr w)"
  shows "wallet_ok cuid db'" and "walletById db' (wt_id w) = Some w" and "wt_balanceKopecks w = 0"
proof -
  let ?w = "\<lparr>wt_id = cuid (wd_next db), wt_userId = u, wt_currency = c, wt_balanceKopecks = 0, wt_createdAt = now\<rparr>"
  have w: "w = ?w" "db' = db\<lparr>wd_wallets := wd_wallets db @ [?w], wd_next := Suc (wd_next db)\<rparr>"
    and u': "walletOfUser db u = None"
    using assms(3) by (auto simp: insertWallet_def Let_def split: if_splits)
  from u' have u: "u \<notin> set (map wt_userId (wd_wallets db))" by (simp only: walletOfUser_None) simp
  have f: "cuid (wd_next db) \<notin> set (map wt_id (wd_wallets db))"
    using assms(2) fresh_cuid [OF assms(1), of "wd_next db"] by (auto simp: wallet_ok_def refs_ok_def)
  then have z: "ledger_sum (wd_ledger db) (cuid (wd_next db)) = 0"
    using assms(2) by (intro ledger_sum_none) (auto simp: wallet_ok_def refs_ok_def)
  show "wallet_ok cuid db'"
    using assms(2) f u z
    by (auto simp: w wallet_ok_def wallets_ok_def keys_ok_def topups_ok_def refs_ok_def fits_int4_def image_less_Suc)
  show "walletById db' (wt_id w) = Some w"
  proof -
    have "find (\<lambda>v. wt_id v = cuid (wd_next db)) (wd_wallets db @ [?w]) = Some ?w"
      using f by (intro find_append_new) (auto simp: image_iff)
    then show ?thesis by (simp add: w walletById_def)
  qed
  show "wt_balanceKopecks w = 0" by (simp add: w)
qed

lemma walletOfUser_byId:
  assumes "wallet_ok cuid db" and "walletOfUser db u = Some w"
  shows "walletById db (wt_id w) = Some w"
  using assms find_unique [of wt_id "wd_wallets db" w]
  by (auto simp: walletOfUser_def walletById_def wallet_ok_def wallets_ok_def dest: find_SomeD)

lemma upsertWallet_ok:
  assumes "inj cuid" and "wallet_ok cuid db" and "upsertWallet cuid now u c db = (db', Inr w)"
  shows "wallet_ok cuid db' \<and> walletById db' (wt_id w) = Some w"
proof (cases "walletOfUser db u")
  case None
  with assms(3) have "insertWallet cuid now u c db = (db', Inr w)" by (simp add: upsertWallet_def)
  with insertWallet_ok [OF assms(1,2)] show ?thesis by blast
next
  case (Some v)
  with assms(3) have "db' = db" "w = v" by (simp_all add: upsertWallet_def)
  with assms(2) Some walletOfUser_byId show ?thesis by blast
qed

lemma find_append_None: "find P xs = None \<Longrightarrow> P y \<Longrightarrow> find P (xs @ [y]) = Some y"
  by (simp add: find_append)

lemma upsertWallet_user:
  assumes "upsertWallet cuid now u c db = (db1, Inr w)"
  shows "walletOfUser db1 u = Some w \<and> wd_ledger db1 = wd_ledger db
    \<and> nullish (findBalanceForUser db u) 0 = wt_balanceKopecks w"
proof (cases "walletOfUser db u")
  case None
  with assms have "walletOfUser db1 u = Some w \<and> wd_ledger db1 = wd_ledger db \<and> wt_balanceKopecks w = 0"
    by (auto simp: upsertWallet_def insertWallet_def Let_def walletOfUser_def find_append_None)
  with None show ?thesis by (simp add: findBalanceForUser_def nullish_def)
next
  case (Some v)
  with assms show ?thesis by (auto simp: upsertWallet_def findBalanceForUser_def nullish_def)
qed

text \<open>A balance update followed by its ledger entry keeps every sum.\<close>

lemma post_ok:
  assumes ok: "wallets_ok db" "keys_ok db" "refs_ok cuid db"
    and add: "addBalance i d db = (db1, Inr b)"
    and ins: "insertLedger cuid row db1 = (db2, Inr e)"
    and row: "\<And>j. ld_walletId (row j) = i \<and> ld_deltaKopecks (row j) = d"
    and ref: "\<And>j. ld_topUpId (row j) \<in> insert None (Some ` set (map tu_id (wd_topUps db)))"
  shows "wallets_ok db2 \<and> keys_ok db2 \<and> refs_ok cuid db2"
proof -
  obtain w where w: "walletById db i = Some w" "fits_int4 (wt_balanceKopecks w + d)"
      "b = wt_balanceKopecks w + d"
      "db1 = db\<lparr>wd_wallets := map (\<lambda>v. if wt_id v = i then v\<lparr>wt_balanceKopecks := wt_balanceKopecks v + d\<rparr> else v) (wd_wallets db)\<rparr>"
    using add by (auto simp: addBalance_def split: option.splits if_splits)
  let ?r = "row (cuid (wd_next db))"
  have e: "e = cuid (wd_next db)"
      "db2 = db1\<lparr>wd_ledger := wd_ledger db @ [?r], wd_next := Suc (wd_next db)\<rparr>"
      "ld_idempotencyKey ?r \<noteq> None \<Longrightarrow> ld_idempotencyKey ?r \<notin> set (map ld_idempotencyKey (wd_ledger db))"
    using ins w(4) by (auto simp: insertLedger_def Let_def split: if_splits)
  have wi: "w \<in> set (wd_wallets db)" "wt_id w = i" using walletById_SomeD [OF w(1)] by simp_all
  have ids: "map wt_id (wd_wallets db2) = map wt_id (wd_wallets db)"
    and users: "map wt_userId (wd_wallets db2) = map wt_userId (wd_wallets db)"
    unfolding e(2) w(4) by (auto simp: comp_def)
  have uniq: "v = w" if "v \<in> set (wd_wallets db)" "wt_id v = i" for v
    using ok(1) that wi by (auto simp: wallets_ok_def distinct_map dest: inj_onD)
  have "list_all (\<lambda>v. wt_balanceKopecks v = ledger_sum (wd_ledger db2) (wt_id v) \<and> fits_int4 (wt_balanceKopecks v)) (wd_wallets db2)"
    unfolding e(2) w(4) list_all_iff using ok(1) row w(2) uniq
    by (auto simp: wallets_ok_def list_all_iff)
  then have "wallets_ok db2" using ok(1) ids users by (simp add: wallets_ok_def)
  moreover have "keys_ok db2" using ok(2) e(3) by (auto simp: keys_ok_def e(2))
  moreover have "refs_ok cuid db2"
    using ok(3) row ref wi unfolding refs_ok_def ids by (auto simp: e(2) w(4) image_less_Suc)
  ultimately show ?thesis by blast
qed

lemma post_topups:
  assumes "addBalance i d db = (db1, Inr b)" and "insertLedger cuid row db1 = (db2, Inr e)"
  shows "wd_topUps db2 = wd_topUps db" and "\<exists>j. wd_ledger db2 = wd_ledger db @ [row j]"
  using assms by (auto simp: addBalance_def insertLedger_def Let_def split: option.splits if_splits)

lemma post_ok_plain:
  assumes "wallet_ok cuid db" and "addBalance i d db = (db1, Inr b)" and "insertLedger cuid row db1 = (db2, Inr e)"
    and "\<And>j. ld_walletId (row j) = i \<and> ld_deltaKopecks (row j) = d \<and> ld_topUpId (row j) = None"
  shows "wallet_ok cuid db2"
proof -
  from assms(1) have ok: "wallets_ok db" "keys_ok db" "refs_ok cuid db" by (simp_all add: wallet_ok_def)
  have "wallets_ok db2 \<and> keys_ok db2 \<and> refs_ok cuid db2"
    by (rule post_ok [OF ok assms(2,3)]) (simp_all add: assms(4))
  moreover have "topups_ok db2"
    using assms(1,4) post_topups [OF assms(2,3)] by (auto simp: wallet_ok_def topups_ok_def list_all_iff)
  ultimately show ?thesis by (simp add: wallet_ok_def)
qed

lemma findOrCreate_keeps: "inj cuid \<Longrightarrow> keepsS (wallet_ok cuid) (findOrCreateWalletForUser cuid now u)"
proof -
  assume inj: "inj cuid"
  have "keepsS (wallet_ok cuid) (insertWallet cuid now u c)" for c
  proof (unfold keepsS_def, intro allI impI)
    fix db
    assume ok: "wallet_ok cuid db"
    show "wallet_ok cuid (fst (insertWallet cuid now u c db))"
    proof (cases "snd (insertWallet cuid now u c db)")
      case (Inl e)
      with ok show ?thesis by (auto simp: insertWallet_def Let_def split: if_splits)
    next
      case (Inr w)
      then have "insertWallet cuid now u c db = (fst (insertWallet cuid now u c db), Inr w)" by (metis prod.collapse)
      with insertWallet_ok [OF inj ok] show ?thesis by blast
    qed
  qed
  then show ?thesis
    unfolding findOrCreateWalletForUser_def by (auto intro!: keeps_intros split: option.splits)
qed

lemma createTopUpRow_keeps:
  assumes "inj cuid"
  shows "keepsS (wallet_ok cuid) (createTopUpRow cuid now inp)"
proof (unfold keepsS_def, intro allI impI)
  fix db
  assume ok: "wallet_ok cuid db"
  have f: "cuid (wd_next db) \<notin> set (map tu_id (wd_topUps db))"
    using ok fresh_cuid [OF assms, of "wd_next db"] by (auto simp: wallet_ok_def refs_ok_def)
  then have "Some (cuid (wd_next db)) \<notin> set (map ld_topUpId (wd_ledger db))"
    using ok by (auto simp: wallet_ok_def refs_ok_def)
  then have "credits_of (wd_ledger db) (cuid (wd_next db)) = []" by (rule credits_none)
  with ok f show "wallet_ok cuid (fst (createTopUpRow cuid now inp db))"
    by (auto simp: createTopUpRow_def Let_def wallet_ok_def wallets_ok_def keys_ok_def topups_ok_def refs_ok_def image_less_Suc)
qed

lemma updateTopUp_frame:
  assumes "updateTopUp i f db = (db1, Inr ())" and "\<And>t. tu_id (f t) = tu_id t"
  shows "wd_wallets db1 = wd_wallets db \<and> wd_ledger db1 = wd_ledger db \<and> wd_next db1 = wd_next db
    \<and> map tu_id (wd_topUps db1) = map tu_id (wd_topUps db)
    \<and> wd_topUps db1 = map (\<lambda>t. if tu_id t = i then f t else t) (wd_topUps db)"
  using assms by (auto simp: updateTopUp_def split: if_splits)

text \<open>A settlement of a top-up that is not yet marked, for its own wallet and amount.\<close>

lemma settle_writes_ok:
  assumes ok: "wallet_ok cuid db" and t: "findTopUpById db (si_topUpId inp) = Some t" "tu_status t \<noteq> TopUpSucceeded"
    and inp: "si_walletId inp = tu_walletId t" "si_amountKopecks inp = tu_amountKopecks t"
    and run: "settle_writes cuid inp db = (db', Inr (flag, b))"
  shows "wallet_ok cuid db' \<and> \<not> flag
    \<and> (\<exists>w w'. walletById db (tu_walletId t) = Some w \<and> walletById db' (tu_walletId t) = Some w'
        \<and> wt_balanceKopecks w' = wt_balanceKopecks w + tu_amountKopecks t \<and> b = wt_balanceKopecks w')
    \<and> (\<exists>t'. findTopUpById db' (si_topUpId inp) = Some t' \<and> tu_status t' = TopUpSucceeded)"
proof -
  let ?mark = "\<lambda>t. t\<lparr>tu_status := TopUpSucceeded, tu_paidAt := si_paidAt inp\<rparr>"
  let ?row = "\<lambda>i. \<lparr>ld_id = i, ld_walletId = si_walletId inp, ld_topUpId = Some (si_topUpId inp),
              ld_idempotencyKey = None, ld_type = LtTopup, ld_deltaKopecks = si_amountKopecks inp,
              ld_balanceAfterKopecks = b, ld_description = ''Top-up via YooKassa'', ld_metadataJson = None\<rparr>"
  obtain db1 db2 e where s1: "updateTopUp (si_topUpId inp) ?mark db = (db1, Inr ())"
    and s2: "addBalance (si_walletId inp) (si_amountKopecks inp) db1 = (db2, Inr b)"
    and s3: "insertLedger cuid ?row db2 = (db', Inr e)" and fl: "\<not> flag"
    using run unfolding settle_writes_def by (auto simp: op_elims)
  have f1: "wd_wallets db1 = wd_wallets db" "wd_ledger db1 = wd_ledger db" "wd_next db1 = wd_next db"
      "map tu_id (wd_topUps db1) = map tu_id (wd_topUps db)"
      "wd_topUps db1 = map (\<lambda>t. if tu_id t = si_topUpId inp then ?mark t else t) (wd_topUps db)"
    using updateTopUp_frame [OF s1] by simp_all
  have ok1: "wallets_ok db1" "keys_ok db1" "refs_ok cuid db1"
    using ok unfolding wallet_ok_def wallets_ok_def keys_ok_def refs_ok_def f1(1-4) by blast+
  have tin: "t \<in> set (wd_topUps db)" "tu_id t = si_topUpId inp" 
    using find_SomeD [OF t(1) [unfolded findTopUpById_def]] by simp_all
  then have "si_topUpId inp \<in> set (map tu_id (wd_topUps db1))" unfolding f1(4) by force
  then have 1: "wallets_ok db' \<and> keys_ok db' \<and> refs_ok cuid db'"
    by (intro post_ok [OF ok1 s2 s3]) auto
  have tops: "wd_topUps db' = map (\<lambda>t. if tu_id t = si_topUpId inp then ?mark t else t) (wd_topUps db)"
    using post_topups(1) [OF s2 s3] f1(5) by simp
  obtain j where led: "wd_ledger db' = wd_ledger db @ [?row j]" using post_topups(2) [OF s2 s3] unfolding f1(2) by blast
  have uniq: "v = t" if "v \<in> set (wd_topUps db)" "tu_id v = si_topUpId inp" for v
    using distinct_key_eq [of tu_id "wd_topUps db" v t] ok that tin by (simp add: wallet_ok_def topups_ok_def)
  have each: "\<forall>t\<in>set (wd_topUps db). credits_of (wd_ledger db) (tu_id t)
         = (if tu_status t = TopUpSucceeded then [(tu_walletId t, tu_amountKopecks t)] else [])"
    using ok unfolding wallet_ok_def topups_ok_def list_all_iff by blast
  have none: "credits_of (wd_ledger db) (tu_id t) = []"
    using bspec [OF each tin(1)] t(2) by (rule trans [OF _ if_not_P])
  have dist: "distinct (map tu_id (wd_topUps db'))"
    unfolding tops f1(5) [symmetric] f1(4) using ok unfolding wallet_ok_def topups_ok_def by blast
  have "credits_of (wd_ledger db') (tu_id v) = (if tu_status v = TopUpSucceeded then [(tu_walletId v, tu_amountKopecks v)] else [])"
    if v: "v \<in> set (wd_topUps db')" for v
  proof -
    obtain v0 where v0: "v0 \<in> set (wd_topUps db)" "v = (if tu_id v0 = si_topUpId inp then ?mark v0 else v0)"
      using v unfolding tops by auto
    show ?thesis
    proof (cases "tu_id v0 = si_topUpId inp")
      case True
      then have "v0 = t" using uniq v0(1) by blast
      with v0(2) none inp tin(2) show ?thesis by (simp add: led)
    next
      case False
      with v0(2) bspec [OF each v0(1)] show ?thesis by (auto simp: led)
    qed
  qed
  with dist have 2: "topups_ok db'" by (simp add: topups_ok_def list_all_iff)
  obtain w where w: "walletById db1 (si_walletId inp) = Some w" "b = wt_balanceKopecks w + si_amountKopecks inp"
      "db2 = db1\<lparr>wd_wallets := map (\<lambda>v. if wt_id v = si_walletId inp
         then v\<lparr>wt_balanceKopecks := wt_balanceKopecks v + si_amountKopecks inp\<rparr> else v) (wd_wallets db1)\<rparr>"
    using s2 by (auto simp: addBalance_def split: option.splits if_splits)
  have "wd_wallets db' = wd_wallets db2" using s3 by (auto simp: insertLedger_def Let_def split: if_splits)
  then have "walletById db' (si_walletId inp) = map_option (\<lambda>v. if wt_id v = si_walletId inp
         then v\<lparr>wt_balanceKopecks := wt_balanceKopecks v + si_amountKopecks inp\<rparr> else v) (walletById db1 (si_walletId inp))"
    unfolding walletById_def w(3) by (simp add: find_map_preserving)
  moreover have "walletById db1 (si_walletId inp) = walletById db (si_walletId inp)" by (simp add: walletById_def f1(1))
  moreover have "wt_id w = si_walletId inp" using walletById_SomeD [OF w(1)] by simp
  ultimately have 3: "\<exists>w w'. walletById db (tu_walletId t) = Some w \<and> walletById db' (tu_walletId t) = Some w'
        \<and> wt_balanceKopecks w' = wt_balanceKopecks w + tu_amountKopecks t \<and> b = wt_balanceKopecks w'"
    using w(1,2) inp by simp
  have "findTopUpById db' (si_topUpId inp) = map_option (\<lambda>t. if tu_id t = si_topUpId inp then ?mark t else t) (findTopUpById db (si_topUpId inp))"
    unfolding findTopUpById_def tops by (rule find_map_preserving) simp
  then have "\<exists>t'. findTopUpById db' (si_topUpId inp) = Some t' \<and> tu_status t' = TopUpSucceeded"
    using t(1) tin by simp
  with 1 2 3 fl show ?thesis by (simp add: wallet_ok_def)
qed


section \<open>Every operation keeps the invariant\<close>

lemma findTopUp_byId:
  assumes "wallet_ok cuid db" and "findTopUpByProviderPaymentId db p = Some t"
  shows "findTopUpById db (tu_id t) = Some t"
  using assms find_unique [of tu_id "wd_topUps db" t]
  by (auto simp: findTopUpByProviderPaymentId_def findTopUpById_def wallet_ok_def topups_ok_def dest: find_SomeD)

lemma wallet_ok_topUps:
  assumes "wallet_ok cuid db" and "map tu_id ts = map tu_id (wd_topUps db)"
    and "list_all (\<lambda>t. credits_of (wd_ledger db) (tu_id t)
         = (if tu_status t = TopUpSucceeded then [(tu_walletId t, tu_amountKopecks t)] else [])) ts"
  shows "wallet_ok cuid (db\<lparr>wd_topUps := ts\<rparr>)"
  using assms by (simp add: wallet_ok_def wallets_ok_def keys_ok_def topups_ok_def refs_ok_def del: set_map)

lemma wallet_ok_batches: "wallet_ok cuid db \<Longrightarrow> wallet_ok cuid (db\<lparr>wd_batches := bs, wd_next := Suc (wd_next db)\<rparr>)"
  by (simp add: wallet_ok_def wallets_ok_def keys_ok_def topups_ok_def refs_ok_def image_less_Suc subset_insertI2)

lemma cancelTopUp_keeps: "keepsS (wallet_ok cuid) (cancelTopUp i)"
proof -
  let ?f = "\<lambda>t. if tu_id t = i \<and> tu_status t = TopUpPending then t\<lparr>tu_status := TopUpCanceled\<rparr> else t"
  have "wallet_ok cuid (db\<lparr>wd_topUps := map ?f (wd_topUps db)\<rparr>)" if ok: "wallet_ok cuid db" for db
  proof (rule wallet_ok_topUps [OF ok])
    have each: "\<forall>t\<in>set (wd_topUps db). credits_of (wd_ledger db) (tu_id t)
         = (if tu_status t = TopUpSucceeded then [(tu_walletId t, tu_amountKopecks t)] else [])"
      using ok unfolding wallet_ok_def topups_ok_def list_all_iff by blast
    have "credits_of (wd_ledger db) (tu_id (?f t))
         = (if tu_status (?f t) = TopUpSucceeded then [(tu_walletId (?f t), tu_amountKopecks (?f t))] else [])"
      if "t \<in> set (wd_topUps db)" for t
      using bspec [OF each that] by auto
    then show "list_all (\<lambda>t. credits_of (wd_ledger db) (tu_id t)
         = (if tu_status t = TopUpSucceeded then [(tu_walletId t, tu_amountKopecks t)] else [])) (map ?f (wd_topUps db))"
      by (simp only: list_all_iff set_map ball_simps) blast
  qed auto
  then show ?thesis unfolding cancelTopUp_def by (rule keepsS_put)
qed

lemma settle_event_keeps:
  assumes ok: "wallet_ok cuid db" and t: "findTopUpById db (tu_id t) = Some t"
    and run: "settleTopUp cuid \<lparr>si_topUpId = tu_id t, si_walletId = tu_walletId t,
      si_amountKopecks = tu_amountKopecks t, si_paidAt = p\<rparr> db = (db', r)"
  shows "wallet_ok cuid db'"
proof -
  from transaction_cases [OF run [unfolded settleTopUp_def]]
  show ?thesis
  proof (elim disjE exE conjE)
    fix x assume r: "bindS (getS (\<lambda>db. findTopUpById db (si_topUpId \<lparr>si_topUpId = tu_id t, si_walletId = tu_walletId t,
      si_amountKopecks = tu_amountKopecks t, si_paidAt = p\<rparr>)))
       (case_option (throwS (JsError (''WalletTopUp '' @ si_topUpId \<lparr>si_topUpId = tu_id t, si_walletId = tu_walletId t,
      si_amountKopecks = tu_amountKopecks t, si_paidAt = p\<rparr> @ '' not found.'')))
         (\<lambda>ta. if tu_status ta = TopUpSucceeded
               then bindS (getS (\<lambda>db. walletById db (si_walletId \<lparr>si_topUpId = tu_id t, si_walletId = tu_walletId t,
      si_amountKopecks = tu_amountKopecks t, si_paidAt = p\<rparr>))) (\<lambda>w. retS (True, nullish (map_option wt_balanceKopecks w) 0))
               else settle_writes cuid \<lparr>si_topUpId = tu_id t, si_walletId = tu_walletId t,
      si_amountKopecks = tu_amountKopecks t, si_paidAt = p\<rparr>)) db = (db', Inr x)"
    show ?thesis
    proof (cases "tu_status t = TopUpSucceeded")
      case True
      with r t ok show ?thesis by (simp add: op_simps)
    next
      case False
      have "settle_writes cuid \<lparr>si_topUpId = tu_id t, si_walletId = tu_walletId t,
          si_amountKopecks = tu_amountKopecks t, si_paidAt = p\<rparr> db = (db', Inr (fst x, snd x))"
        using r t False by (simp add: op_simps)
      from settle_writes_ok [OF ok _ False _ _ this] t show ?thesis by simp
    qed
  next
    assume "db' = db" with ok show ?thesis by simp
  qed
qed

lemma paymentEvent_keeps: "keepsS (wallet_ok cuid) (processYookassaPaymentEvent cuid now ev pid paidAt)"
proof (unfold keepsS_def, intro allI impI)
  fix db assume ok: "wallet_ok cuid db"
  show "wallet_ok cuid (fst (processYookassaPaymentEvent cuid now ev pid paidAt db))"
  proof (cases "findTopUpByProviderPaymentId db pid")
    case None
    with ok show ?thesis by (simp add: processYookassaPaymentEvent_def op_simps)
  next
    case (Some t)
    let ?s = "settleTopUp cuid \<lparr>si_topUpId = tu_id t, si_walletId = tu_walletId t,
      si_amountKopecks = tu_amountKopecks t, si_paidAt = nullish paidAt (Some now)\<rparr>"
    have s: "wallet_ok cuid (fst (?s db))"
      using settle_event_keeps [OF ok findTopUp_byId [OF ok Some]] by (metis prod.collapse)
    have c: "wallet_ok cuid (fst (cancelTopUp (tu_id t) db))" using cancelTopUp_keeps ok by (simp add: keepsS_def)
    show ?thesis
      using s c ok by (auto simp: processYookassaPaymentEvent_def op_simps Some bindS_def thenS_def
          split: prod.splits sum.splits)
  qed
qed

lemma debitUsage_runs:
  assumes "debitUsage cuid now inp db = (db', Inr r)"
  shows "0 < di_amountKopecks inp
    \<and> ((\<exists>e. findLedgerByKey db (di_idempotencyKey inp) = Some e \<and> db' = db
          \<and> r = \<lparr>dt_ledgerEntryId = ld_id e, dt_newBalanceKopecks = ld_balanceAfterKopecks e, dt_alreadyProcessed = True\<rparr>)
     \<or> (findLedgerByKey db (di_idempotencyKey inp) = None
        \<and> (\<exists>w db1 db2 b e. upsertWallet cuid now (di_userId inp) (di_currency inp) db = (db1, Inr w)
            \<and> di_amountKopecks inp \<le> wt_balanceKopecks w
            \<and> addBalance (wt_id w) (- di_amountKopecks inp) db1 = (db2, Inr b)
            \<and> insertLedger cuid (debit_row inp (wt_id w) b) db2 = (db', Inr e)
            \<and> r = \<lparr>dt_ledgerEntryId = e, dt_newBalanceKopecks = b, dt_alreadyProcessed = False\<rparr>)))"
  using assms unfolding debitUsage_def
  by (auto simp: op_elims not_less split: option.splits if_splits)

lemma debitUsage_ok:
  assumes inj: "inj cuid" and ok: "wallet_ok cuid db" and run: "debitUsage cuid now inp db = (db', Inr r)"
  shows "wallet_ok cuid db'"
  using debitUsage_runs [OF run]
proof (elim conjE disjE exE)
  fix w db1 db2 b e
  assume "upsertWallet cuid now (di_userId inp) (di_currency inp) db = (db1, Inr w)"
    and 2: "addBalance (wt_id w) (- di_amountKopecks inp) db1 = (db2, Inr b)"
      "insertLedger cuid (debit_row inp (wt_id w) b) db2 = (db', Inr e)"
  then have "wallet_ok cuid db1" using upsertWallet_ok [OF inj ok] by blast
  then show ?thesis using 2 by (rule post_ok_plain) (simp add: debit_row_def)
qed (use ok in simp)

lemma debitUsage_keeps:
  assumes inj: "inj cuid"
  shows "keepsS (wallet_ok cuid) (debitUsage cuid now inp)"
proof (unfold keepsS_def, intro allI impI)
  fix db assume ok: "wallet_ok cuid db"
  obtain db' r where run: "debitUsage cuid now inp db = (db', r)" by fastforce
  show "wallet_ok cuid (fst (debitUsage cuid now inp db))"
  proof (cases r)
    case (Inl e)
    with run have "db' = db" by (auto simp: debitUsage_def op_simps transaction_def split: if_splits prod.splits sum.splits)
    with ok run show ?thesis by simp
  next
    case (Inr x)
    with debitUsage_ok [OF inj ok] run show ?thesis by simp
  qed
qed

lemma adjust_one_ok:
  assumes inj: "inj cuid" and ok: "wallet_ok cuid db" and run: "adjust_one cuid now inp amount reason bid u db = (db', Inr d)"
  shows "wallet_ok cuid db'"
  using run unfolding adjust_one_def Let_def
  by (auto simp: op_elims split: if_splits dest!: upsertWallet_ok [OF inj ok] intro: post_ok_plain)

lemma adjust_all_ok:
  assumes inj: "inj cuid"
  shows "wallet_ok cuid db \<Longrightarrow> adjust_all cuid now inp amount reason bid us a k db = (db', Inr r) \<Longrightarrow> wallet_ok cuid db'"
proof (induction us arbitrary: a k db)
  case (Cons u us)
  then show ?case by (auto simp: op_elims split: if_splits dest: adjust_one_ok [OF inj])
qed (simp add: op_elims)

lemma insertBatch_ok: "wallet_ok cuid db \<Longrightarrow> insertBatch cuid inp amount reason db = (db', r) \<Longrightarrow> wallet_ok cuid db'"
  unfolding insertBatch_def Let_def using wallet_ok_batches by (auto split: if_splits)

lemma manualAdjust_keeps:
  assumes inj: "inj cuid"
  shows "keepsS (wallet_ok cuid) (manualAdjustWallets cuid now inp)"
  unfolding manualAdjustWallets_def Let_def
proof (intro keepsS_if keepsS_throw keepsS_atomic, goal_cases)
  case (1 db db' x)
  then show ?case
    by (auto simp: op_elims split: option.splits prod.splits if_splits
        dest: insertBatch_ok adjust_all_ok [OF inj])
qed


section \<open>Reachable wallets\<close>

text \<open>One operation of the service on the database, whatever its arguments and the time.\<close>

inductive wallet_step :: "(nat \<Rightarrow> string) \<Rightarrow> wallet_db \<Rightarrow> wallet_db \<Rightarrow> bool" for cuid where
  balance: "wallet_step cuid db (fst (getBalance cuid now env u db))"
| create: "wallet_step cuid db (fst (createTopUp cuid now uuid describe post env u amount db))"
| payment: "wallet_step cuid db (fst (processYookassaPaymentEvent cuid now ev pid paidAt db))"
| debit: "wallet_step cuid db (fst (debitUsage cuid now di db))"
| adjust: "wallet_step cuid db (fst (manualAdjustWallets cuid now aj db))"

inductive_cases wallet_stepE: "wallet_step cuid db db'"

inductive wallet_reach :: "(nat \<Rightarrow> string) \<Rightarrow> wallet_db \<Rightarrow> bool" for cuid where
  init: "wallet_reach cuid \<lparr>wd_wallets = [], wd_topUps = [], wd_ledger = [], wd_batches = [], wd_next = 0\<rparr>"
| step: "wallet_reach cuid db \<Longrightarrow> wallet_step cuid db db' \<Longrightarrow> wallet_reach cuid db'"

lemma createTopUp_keeps: "inj cuid \<Longrightarrow> keepsS (wallet_ok cuid) (createTopUp cuid now uuid describe post env u amount)"
  unfolding createTopUp_def by (intro keeps_intros findOrCreate_keeps createTopUpRow_keeps)

lemma getBalance_keeps: "inj cuid \<Longrightarrow> keepsS (wallet_ok cuid) (getBalance cuid now env u)"
  unfolding getBalance_def by (intro keeps_intros findOrCreate_keeps)

lemma keepsS_run: "keepsS P m \<Longrightarrow> P db \<Longrightarrow> P (fst (m db))"
  by (simp add: keepsS_def)

lemma wallet_step_keeps: "inj cuid \<Longrightarrow> wallet_ok cuid db \<Longrightarrow> wallet_step cuid db db' \<Longrightarrow> wallet_ok cuid db'"
  by (elim wallet_stepE)
    (auto intro: keepsS_run [OF getBalance_keeps] keepsS_run [OF createTopUp_keeps] keepsS_run [OF debitUsage_keeps]
      keepsS_run [OF manualAdjust_keeps] keepsS_run [OF paymentEvent_keeps])

lemma wallet_reach_ok: "wallet_reach cuid db \<Longrightarrow> inj cuid \<Longrightarrow> wallet_ok cuid db"
proof (induction rule: wallet_reach.induct)
  case init
  then show ?case by (simp add: wallet_ok_def wallets_ok_def keys_ok_def topups_ok_def refs_ok_def)
next
  case (step db db')
  then show ?case using wallet_step_keeps by blast
qed

text \<open>
  C1. In every state the service can reach, with distinct generated identifiers, the balance of a
  wallet is the sum of its ledger entries and fits its column, a user has at most one wallet, an
  idempotency key is used by at most one entry, and a top-up has exactly one credit, of its amount
  and on its wallet, when it is marked as succeeded, and none otherwise.
\<close>

theorem wallet_ledger_invariant:
  assumes "inj cuid" and "wallet_reach cuid db"
  shows "(\<forall>w\<in>set (wd_wallets db). wt_balanceKopecks w = ledger_sum (wd_ledger db) (wt_id w) \<and> fits_int4 (wt_balanceKopecks w))
    \<and> distinct (map wt_userId (wd_wallets db))
    \<and> distinct (filter (\<lambda>k. k \<noteq> None) (map ld_idempotencyKey (wd_ledger db)))
    \<and> (\<forall>t\<in>set (wd_topUps db). credits_of (wd_ledger db) (tu_id t)
         = (if tu_status t = TopUpSucceeded then [(tu_walletId t, tu_amountKopecks t)] else []))"
  using wallet_reach_ok [OF assms(2,1)]
  unfolding wallet_ok_def wallets_ok_def keys_ok_def topups_ok_def list_all_iff by blast

definition sample_ids :: "nat \<Rightarrow> string" where
  "sample_ids n = replicate n CHR ''i''"

lemmas wallet_eval = manualAdjustWallets_def adjust_one_def insertBatch_def upsertWallet_def insertWallet_def addBalance_def
  insertLedger_def walletOfUser_def walletById_def fits_int4_def num_is_integer_def num_to_int_def nullish_def sample_ids_def
  createTopUp_def requireConnectedMode_def checkTopUpAmount_def MIN_TOPUP_KOPECKS_def MAX_TOPUP_KOPECKS_def createPayment_def
  findOrCreateWalletForUser_def createTopUpRow_def buildYookassaClient_def processYookassaPaymentEvent_def settleTopUp_def
  settle_writes_def updateTopUp_def findTopUpById_def findTopUpByProviderPaymentId_def debitUsage_def findLedgerByKey_def
  debit_row_def Let_def bindS_def thenS_def getS_def retS_def throwS_def liftS_def transaction_def

lemma inj_sample_ids: "inj sample_ids"
  by (rule injI) (metis sample_ids_def length_replicate)

definition sample_adjust :: adjust_input where
  "sample_adjust = \<lparr>aj_actorId = None, aj_targetType = SelectedUsers, aj_userIds = [''u''], aj_direction = Credit,
     aj_amountKopecks = Fin 500, aj_currency = ''RUB'', aj_reason = None, aj_idempotencyKey = ''a'', aj_allowNegative = False\<rparr>"

definition sample_debit :: debit_input where
  "sample_debit = \<lparr>di_userId = ''u'', di_amountKopecks = 200, di_currency = ''RUB'', di_description = [],
     di_idempotencyKey = ''k'', di_metadataJson = None\<rparr>"

definition sample_db :: wallet_db where
  "sample_db = fst (manualAdjustWallets sample_ids 0 sample_adjust
     \<lparr>wd_wallets = [], wd_topUps = [], wd_ledger = [], wd_batches = [], wd_next = 0\<rparr>)"

lemma sample_db_reach: "wallet_reach sample_ids sample_db"
  unfolding sample_db_def by (rule wallet_reach.step [OF wallet_reach.init wallet_step.adjust])

lemma sample_db_balance: "map wt_balanceKopecks (wd_wallets sample_db) = [500]"
  by (simp add: sample_db_def sample_adjust_def wallet_eval)

theorem wallet_ledger_invariant_witness:
  "list_all (\<lambda>w. wt_balanceKopecks w = ledger_sum (wd_ledger sample_db) (wt_id w)) (wd_wallets sample_db)
   \<and> map wt_balanceKopecks (wd_wallets sample_db) = [500]"
proof
  show "list_all (\<lambda>w. wt_balanceKopecks w = ledger_sum (wd_ledger sample_db) (wt_id w)) (wd_wallets sample_db)"
    using wallet_ledger_invariant [OF inj_sample_ids sample_db_reach] unfolding list_all_iff by blast
  show "map wt_balanceKopecks (wd_wallets sample_db) = [500]" by (rule sample_db_balance)
qed


section \<open>Settlement and debit, once and again\<close>

lemma settle_writes_tops:
  assumes "settle_writes cuid inp db = (db', Inr r)"
  shows "wd_topUps db' = map (\<lambda>t. if tu_id t = si_topUpId inp
      then t\<lparr>tu_status := TopUpSucceeded, tu_paidAt := si_paidAt inp\<rparr> else t) (wd_topUps db)"
  using assms unfolding settle_writes_def
  by (auto simp: op_elims dest!: post_topups(1) updateTopUp_frame)

lemma event_settles:
  assumes t: "findTopUpByProviderPaymentId db p = Some t" "findTopUpById db (tu_id t) = Some t" "tu_status t \<noteq> TopUpSucceeded"
    and run: "processYookassaPaymentEvent cuid now ''payment.succeeded'' p paidAt db = (db1, Inr r)"
  shows "\<exists>flag b. settle_writes cuid \<lparr>si_topUpId = tu_id t, si_walletId = tu_walletId t,
      si_amountKopecks = tu_amountKopecks t, si_paidAt = nullish paidAt (Some now)\<rparr> db = (db1, Inr (flag, b))
    \<and> r = (if flag then (False, ''already_settled'') else (True, ''balance_credited''))"
proof -
  let ?inp = "\<lparr>si_topUpId = tu_id t, si_walletId = tu_walletId t, si_amountKopecks = tu_amountKopecks t,
      si_paidAt = nullish paidAt (Some now)\<rparr>"
  have s: "settleTopUp cuid ?inp db = transaction (settle_writes cuid ?inp) db"
    using t(2,3) by (simp add: settleTopUp_def transaction_def bindS_def getS_def)
  show ?thesis
    using run t(1) unfolding processYookassaPaymentEvent_def
    by (cases "settle_writes cuid ?inp db" rule: prod.exhaust)
      (auto simp: bindS_def getS_def retS_def s transaction_def split: sum.splits prod.splits if_splits)
qed

text \<open>
  C2. A successful run of the event that a payment has succeeded, on a top-up that is not settled yet,
  credits exactly its amount to its wallet; every later delivery of the event changes nothing and
  answers that the top-up is already settled.
\<close>

theorem payment_event_credits_once:
  assumes "inj cuid" and "wallet_reach cuid db"
    and t: "findTopUpByProviderPaymentId db p = Some t" "tu_status t \<noteq> TopUpSucceeded"
    and run: "processYookassaPaymentEvent cuid now ''payment.succeeded'' p paidAt db = (db1, Inr r)"
  shows "r = (True, ''balance_credited'')
    \<and> (\<exists>w w'. walletById db (tu_walletId t) = Some w \<and> walletById db1 (tu_walletId t) = Some w'
        \<and> wt_balanceKopecks w' = wt_balanceKopecks w + tu_amountKopecks t)
    \<and> processYookassaPaymentEvent cuid later ''payment.succeeded'' p paidAt' db1 = (db1, Inr (False, ''already_settled''))"
proof -
  note ok = wallet_reach_ok [OF assms(2,1)]
  note tid = findTopUp_byId [OF ok t(1)]
  obtain flag b where w: "settle_writes cuid \<lparr>si_topUpId = tu_id t, si_walletId = tu_walletId t,
      si_amountKopecks = tu_amountKopecks t, si_paidAt = nullish paidAt (Some now)\<rparr> db = (db1, Inr (flag, b))"
    and r: "r = (if flag then (False, ''already_settled'') else (True, ''balance_credited''))"
    using event_settles [OF t(1) tid t(2) run] by blast
  note writes = settle_writes_ok [OF ok _ t(2) _ _ w, simplified, OF tid]
  let ?mark = "\<lambda>v. if tu_id v = tu_id t then v\<lparr>tu_status := TopUpSucceeded, tu_paidAt := nullish paidAt (Some now)\<rparr> else v"
  have tops: "wd_topUps db1 = map ?mark (wd_topUps db)" using settle_writes_tops [OF w] by simp
  have "findTopUpByProviderPaymentId db1 p = map_option ?mark (findTopUpByProviderPaymentId db p)"
    unfolding findTopUpByProviderPaymentId_def tops by (rule find_map_preserving) simp
  then have p1: "findTopUpByProviderPaymentId db1 p = Some (?mark t)" using t(1) by simp
  have "findTopUpById db1 (tu_id t) = map_option ?mark (findTopUpById db (tu_id t))"
    unfolding findTopUpById_def tops by (rule find_map_preserving) simp
  then have i1: "findTopUpById db1 (tu_id t) = Some (?mark t)" using tid by simp
  have "processYookassaPaymentEvent cuid later ''payment.succeeded'' p paidAt' db1 = (db1, Inr (False, ''already_settled''))"
    using p1 i1 by (simp add: processYookassaPaymentEvent_def settleTopUp_def bindS_def getS_def retS_def transaction_def)
  with writes r show ?thesis by auto
qed

text \<open>
  C3. A debit that succeeds takes exactly its amount from the user's wallet, which covered it, and
  repeating the call with the same idempotency key, at any later time and whatever the amount, returns
  the same ledger entry and balance, marked as processed, and changes nothing.
\<close>

theorem debitUsage_exact_once:
  assumes "inj cuid" and "wallet_reach cuid db"
    and run: "debitUsage cuid now inp db = (db1, Inr r)" "\<not> dt_alreadyProcessed r"
    and again: "di_idempotencyKey inp' = di_idempotencyKey inp" "0 < di_amountKopecks inp'"
  shows "(\<exists>w. walletOfUser db1 (di_userId inp) = Some w \<and> wt_balanceKopecks w = dt_newBalanceKopecks r
        \<and> 0 \<le> dt_newBalanceKopecks r
        \<and> nullish (findBalanceForUser db (di_userId inp)) 0 = dt_newBalanceKopecks r + di_amountKopecks inp)
    \<and> debitUsage cuid later inp' db1 = (db1, Inr (r\<lparr>dt_alreadyProcessed := True\<rparr>))"
proof -
  note ok = wallet_reach_ok [OF assms(2,1)]
  let ?amt = "di_amountKopecks inp"
  obtain w dba dbb b e where 0: "findLedgerByKey db (di_idempotencyKey inp) = None"
    and 1: "upsertWallet cuid now (di_userId inp) (di_currency inp) db = (dba, Inr w)"
    and 2: "?amt \<le> wt_balanceKopecks w" "addBalance (wt_id w) (- ?amt) dba = (dbb, Inr b)"
      "insertLedger cuid (debit_row inp (wt_id w) b) dbb = (db1, Inr e)"
    and r: "r = \<lparr>dt_ledgerEntryId = e, dt_newBalanceKopecks = b, dt_alreadyProcessed = False\<rparr>"
    using debitUsage_runs [OF run(1)] run(2) by auto
  from upsertWallet_ok [OF assms(1) ok 1] have wa: "wallet_ok cuid dba" "walletById dba (wt_id w) = Some w" by simp_all
  have user: "walletOfUser dba (di_userId inp) = Some w" "wd_ledger dba = wd_ledger db"
      "nullish (findBalanceForUser db (di_userId inp)) 0 = wt_balanceKopecks w"
    using upsertWallet_user [OF 1] by simp_all
  let ?pay = "\<lambda>v. if wt_id v = wt_id w then v\<lparr>wt_balanceKopecks := wt_balanceKopecks v + - ?amt\<rparr> else v"
  have b: "b = wt_balanceKopecks w - ?amt" "wd_wallets dbb = map ?pay (wd_wallets dba)" "wd_ledger dbb = wd_ledger dba"
    using 2(2) wa(2) by (auto simp: addBalance_def split: if_splits)
  have c: "wd_wallets db1 = wd_wallets dbb" "wd_ledger db1 = wd_ledger dbb @ [debit_row inp (wt_id w) b e]"
    using 2(3) by (auto simp: insertLedger_def Let_def split: if_splits)
  have "walletOfUser db1 (di_userId inp) = map_option ?pay (walletOfUser dba (di_userId inp))"
    unfolding walletOfUser_def c(1) b(2) by (rule find_map_preserving) simp
  then have bal: "walletOfUser db1 (di_userId inp) = Some (?pay w)" using user(1) by simp
  have "findLedgerByKey db1 (di_idempotencyKey inp) = Some (debit_row inp (wt_id w) b e)"
    unfolding findLedgerByKey_def c(2) b(3) user(2)
    by (rule find_append_None) (use 0 in \<open>simp_all add: findLedgerByKey_def debit_row_def\<close>)
  then have "debitUsage cuid later inp' db1 = (db1, Inr (r\<lparr>dt_alreadyProcessed := True\<rparr>))"
    using again by (simp add: debitUsage_def r debit_row_def bindS_def getS_def retS_def transaction_def)
  moreover have "wt_balanceKopecks (?pay w) = b" "0 \<le> b" using b(1) 2(1) by simp_all
  ultimately show ?thesis using bal user(3) r b(1) by simp
qed


definition sample_env :: wallet_env where
  "sample_env = \<lparr>we_connected = True, we_yookassaShopId = Some ''s'', we_yookassaSecretKey = Some ''k'',
     we_yookassaReturnUrl = None, we_appUrl = []\<rparr>"

definition sample_topup_db :: wallet_db where
  "sample_topup_db = fst (createTopUp sample_ids 0 ''q'' (\<lambda>_. []) (\<lambda>_ _ _. Inr \<lparr>yp_id = ''p'', yp_status = [], yp_confirmationToken = ''c''\<rparr>)
     sample_env ''u'' (Some (JNum (Fin 1000))) \<lparr>wd_wallets = [], wd_topUps = [], wd_ledger = [], wd_batches = [], wd_next = 0\<rparr>)"

lemma sample_topup_reach: "wallet_reach sample_ids sample_topup_db"
  unfolding sample_topup_db_def by (rule wallet_reach.step [OF wallet_reach.init wallet_step.create])

lemma sample_topup_db_eq: "sample_topup_db =
  \<lparr>wd_wallets = [\<lparr>wt_id = [], wt_userId = ''u'', wt_currency = ''RUB'', wt_balanceKopecks = 0, wt_createdAt = 0\<rparr>],
   wd_topUps = [\<lparr>tu_id = ''i'', tu_walletId = [], tu_createdByUserId = ''u'', tu_amountKopecks = 1000, tu_currency = ''RUB'',
     tu_status = TopUpPending, tu_provider = ''yookassa'', tu_providerPaymentId = Some ''p'', tu_idempotenceKey = ''q'',
     tu_metadataJson = Some (JObj [(''yookassaPaymentId'', JStr ''p''), (''yookassaStatus'', JStr [])]),
     tu_confirmationToken = Some ''c'', tu_paidAt = None, tu_createdAt = 0\<rparr>],
   wd_ledger = [], wd_batches = [], wd_next = 2\<rparr>"
  by (simp add: sample_topup_db_def sample_env_def wallet_eval trim_def js_space_def)

theorem payment_event_credits_once_witness:
  "snd (processYookassaPaymentEvent sample_ids 9 ''payment.succeeded'' ''p'' None
     (fst (processYookassaPaymentEvent sample_ids 5 ''payment.succeeded'' ''p'' None sample_topup_db))) = Inr (False, ''already_settled'')"
proof -
  have "\<exists>t. findTopUpByProviderPaymentId sample_topup_db ''p'' = Some t \<and> tu_status t \<noteq> TopUpSucceeded"
    by (simp add: sample_topup_db_eq findTopUpByProviderPaymentId_def)
  then obtain t where t: "findTopUpByProviderPaymentId sample_topup_db ''p'' = Some t" "tu_status t \<noteq> TopUpSucceeded" by blast
  have "\<exists>db1 r. processYookassaPaymentEvent sample_ids 5 ''payment.succeeded'' ''p'' None sample_topup_db = (db1, Inr r)"
    by (simp add: sample_topup_db_eq wallet_eval ex_bool_eq)
  then obtain db1 r where
    run: "processYookassaPaymentEvent sample_ids 5 ''payment.succeeded'' ''p'' None sample_topup_db = (db1, Inr r)" by blast
  show ?thesis
    using payment_event_credits_once [OF inj_sample_ids sample_topup_reach t run] by (simp add: run)
qed

theorem debitUsage_exact_once_witness:
  "debitUsage sample_ids 7 sample_debit (fst (debitUsage sample_ids 5 sample_debit sample_db))
   = (fst (debitUsage sample_ids 5 sample_debit sample_db),
      Inr \<lparr>dt_ledgerEntryId = ''iii'', dt_newBalanceKopecks = 300, dt_alreadyProcessed = True\<rparr>)"
proof -
  have "\<exists>db1. debitUsage sample_ids 5 sample_debit sample_db
      = (db1, Inr \<lparr>dt_ledgerEntryId = ''iii'', dt_newBalanceKopecks = 300, dt_alreadyProcessed = False\<rparr>)"
    by (simp add: sample_db_def sample_adjust_def sample_debit_def wallet_eval adjustment_key_def)
  then obtain db1 where run: "debitUsage sample_ids 5 sample_debit sample_db
      = (db1, Inr \<lparr>dt_ledgerEntryId = ''iii'', dt_newBalanceKopecks = 300, dt_alreadyProcessed = False\<rparr>)" by blast
  show ?thesis
    using debitUsage_exact_once [OF inj_sample_ids sample_db_reach run _ refl, of 7] unfolding run fst_conv by (simp add: sample_debit_def)
qed

section \<open>Two settlements at once\<close>

text \<open>
  A settlement transaction first reads the top-up and decides, then writes. The database runs
  transactions at its default isolation level, READ COMMITTED, which lets the writes of one
  transaction commit between the read and the writes of another.
\<close>

datatype settle_phase = NotStarted | Decided bool | Settled

inductive settle_tran :: "(nat \<Rightarrow> string) \<Rightarrow> settle_input \<Rightarrow> wallet_db \<times> settle_phase \<Rightarrow> wallet_db \<times> settle_phase \<Rightarrow> bool"
  for cuid inp where
  read: "findTopUpById db (si_topUpId inp) = Some t \<Longrightarrow>
    settle_tran cuid inp (db, NotStarted) (db, Decided (tu_status t = TopUpSucceeded))"
| skip: "settle_tran cuid inp (db, Decided True) (db, Settled)"
| commit: "settle_writes cuid inp db = (db', Inr r) \<Longrightarrow> settle_tran cuid inp (db, Decided False) (db', Settled)"

inductive_cases settle_tranE: "settle_tran cuid inp (db, ph) s"

inductive settle_pair :: "(nat \<Rightarrow> string) \<Rightarrow> settle_input \<Rightarrow> wallet_db \<times> settle_phase \<times> settle_phase \<Rightarrow> wallet_db \<times> settle_phase \<times> settle_phase \<Rightarrow> bool"
  for cuid inp where
  refl: "settle_pair cuid inp s s"
| first: "settle_tran cuid inp (db, p) (db', p') \<Longrightarrow> settle_pair cuid inp (db', p', q) s \<Longrightarrow> settle_pair cuid inp (db, p, q) s"
| second: "settle_tran cuid inp (db, q) (db', q') \<Longrightarrow> settle_pair cuid inp (db', p, q') s \<Longrightarrow> settle_pair cuid inp (db, p, q) s"

text \<open>Run alone, the two phases are the transaction.\<close>

lemma settle_tran_alone:
  assumes "settle_tran cuid inp (db, NotStarted) (db1, ph)" and "settle_tran cuid inp (db1, ph) (db2, Settled)"
  shows "fst (settleTopUp cuid inp db) = db2"
  using assms by (auto elim!: settle_tranE simp: settleTopUp_def bindS_def getS_def retS_def transaction_def)

definition sample_settle :: settle_input where
  "sample_settle = \<lparr>si_topUpId = ''i'', si_walletId = [], si_amountKopecks = 1000, si_paidAt = Some 5\<rparr>"

text \<open>
  Two deliveries of the same payment that read the top-up before either has committed both credit
  it: a wallet that was empty ends with twice the paid amount.
\<close>

theorem concurrent_settlements_credit_twice:
  "\<exists>db. settle_pair sample_ids sample_settle (sample_topup_db, NotStarted, NotStarted) (db, Settled, Settled)
     \<and> map wt_balanceKopecks (wd_wallets sample_topup_db) = [0]
     \<and> map wt_balanceKopecks (wd_wallets db) = [2000]
     \<and> credits_of (wd_ledger db) ''i'' = [([], 1000), ([], 1000)]"
proof -
  have "\<exists>t. findTopUpById sample_topup_db (si_topUpId sample_settle) = Some t \<and> tu_status t \<noteq> TopUpSucceeded"
    by (simp add: sample_topup_db_eq sample_settle_def findTopUpById_def)
  then obtain t where t: "findTopUpById sample_topup_db (si_topUpId sample_settle) = Some t" "tu_status t \<noteq> TopUpSucceeded"
    by blast
  have "\<exists>db1 r db2 r'. settle_writes sample_ids sample_settle sample_topup_db = (db1, Inr r)
      \<and> settle_writes sample_ids sample_settle db1 = (db2, Inr r')
      \<and> map wt_balanceKopecks (wd_wallets db2) = [2000] \<and> credits_of (wd_ledger db2) ''i'' = [([], 1000), ([], 1000)]"
    by (simp add: sample_topup_db_eq sample_settle_def wallet_eval credits_of_def ex_bool_eq)
  then obtain db1 r db2 r' where w: "settle_writes sample_ids sample_settle sample_topup_db = (db1, Inr r)"
      "settle_writes sample_ids sample_settle db1 = (db2, Inr r')"
      "map wt_balanceKopecks (wd_wallets db2) = [2000]" "credits_of (wd_ledger db2) ''i'' = [([], 1000), ([], 1000)]" by (elim exE conjE)
  have d: "settle_tran sample_ids sample_settle (sample_topup_db, NotStarted) (sample_topup_db, Decided False)"
    using settle_tran.read [OF t(1)] t(2) by simp
  have "settle_pair sample_ids sample_settle (sample_topup_db, NotStarted, NotStarted) (db2, Settled, Settled)"
    by (rule settle_pair.first [OF d settle_pair.second [OF d settle_pair.first [OF settle_tran.commit [OF w(1)]
        settle_pair.second [OF settle_tran.commit [OF w(2)] settle_pair.refl]]]])
  with w(3,4) show ?thesis by (auto simp: sample_topup_db_eq)
qed

end
