(* ===== verification/Billing.thy ===== *)
theory Billing
  imports Wallet
begin

text \<open>
  Billing webhooks: the table of received events (\<open>apps/api/src/billing/billing-webhook.repository.ts\<close>),
  the ingestion of a payment event (\<open>billing.service.ts\<close>), which runs the wallet and the queue, the
  worker's job on an event (\<open>process-billing-webhook.ts\<close>, \<open>billing-processing.repository.ts\<close>) and the
  signature check of \<open>packages/billing/src/index.ts\<close>. The JSON parser, whose objects have distinct
  keys, and the keyed hash are parameters; the interface of the worker's store is the locale
  \<open>webhook_store\<close>.
\<close>

section \<open>Received events\<close>

record webhook_row =
  wh_id :: string
  wh_provider :: string
  wh_externalEventId :: string
  wh_eventType :: string
  wh_status :: string
  wh_payloadJson :: json_object
  wh_providerCreatedAt :: "int option"
  wh_processedAt :: "int option"
  wh_lastError :: "string option"
  wh_createdAt :: int
  wh_receivedAt :: int

text \<open>An absent date is \<open>None\<close>, an invalid one \<open>Some None\<close>.\<close>

record received_event_input =
  rv_provider :: string
  rv_externalEventId :: string
  rv_eventType :: string
  rv_payloadJson :: json_object
  rv_providerCreatedAt :: "int option option"

record billing_state =
  bs_events :: "webhook_row list"
  bs_nextEvent :: nat
  bs_wallet :: wallet_db
  bs_queue :: "bull_add list"

definition same_event :: "string \<Rightarrow> string \<Rightarrow> webhook_row \<Rightarrow> bool" where
  "same_event provider externalEventId r = (wh_provider r = provider \<and> wh_externalEventId r = externalEventId)"

definition insertEvent :: "(nat \<Rightarrow> string) \<Rightarrow> int \<Rightarrow> received_event_input \<Rightarrow> (billing_state, webhook_row) op" where
  "insertEvent cuid now inp s =
     (if rv_providerCreatedAt inp = Some None then (s, Inl InvalidValue)
      else if find (same_event (rv_provider inp) (rv_externalEventId inp)) (bs_events s) \<noteq> None then (s, Inl UniqueViolation)
      else let r = \<lparr>wh_id = cuid (bs_nextEvent s), wh_provider = rv_provider inp, wh_externalEventId = rv_externalEventId inp,
                    wh_eventType = rv_eventType inp, wh_status = ''received'', wh_payloadJson = rv_payloadJson inp,
                    wh_providerCreatedAt = Option.bind (rv_providerCreatedAt inp) id, wh_processedAt = None, wh_lastError = None,
                    wh_createdAt = now, wh_receivedAt = now\<rparr>
           in (s\<lparr>bs_events := bs_events s @ [r], bs_nextEvent := Suc (bs_nextEvent s)\<rparr>, Inr r))"

definition recordReceivedEvent ::
  "(nat \<Rightarrow> string) \<Rightarrow> int \<Rightarrow> received_event_input \<Rightarrow> (billing_state, webhook_row \<times> bool) op" where
  "recordReceivedEvent cuid now inp s =
     (case insertEvent cuid now inp s of
        (s', Inr r) \<Rightarrow> (s', Inr (r, False))
      | (s', Inl e) \<Rightarrow>
          if e = UniqueViolation then
            (case find (same_event (rv_provider inp) (rv_externalEventId inp)) (bs_events s') of
               None \<Rightarrow> (s', Inl e)
             | Some r \<Rightarrow> (s', Inr (r, True)))
          else (s', Inl e))"

definition findEventById :: "billing_state \<Rightarrow> string \<Rightarrow> webhook_row option" where
  "findEventById s i = find (\<lambda>r. wh_id r = i) (bs_events s)"

text \<open>Newest first by reception, then by creation; rows that agree in both come as \<open>tie\<close> says.\<close>

definition event_order :: "(webhook_row \<Rightarrow> int) \<Rightarrow> webhook_row \<Rightarrow> webhook_row \<Rightarrow> int" where
  "event_order tie a b =
     (if wh_receivedAt a \<noteq> wh_receivedAt b then wh_receivedAt b - wh_receivedAt a
      else if wh_createdAt a \<noteq> wh_createdAt b then wh_createdAt b - wh_createdAt a else tie a - tie b)"

definition listRecentEvents :: "(webhook_row \<Rightarrow> int) \<Rightarrow> nat \<Rightarrow> billing_state \<Rightarrow> webhook_row list" where
  "listRecentEvents tie limit s = take limit (sort_by (event_order tie) (bs_events s))"

definition updateEvent :: "string \<Rightarrow> (webhook_row \<Rightarrow> webhook_row) \<Rightarrow> (billing_state, unit) op" where
  "updateEvent i f s =
     (if findEventById s i = None then (s, Inl RecordNotFound)
      else (s\<lparr>bs_events := map (\<lambda>r. if wh_id r = i then f r else r) (bs_events s)\<rparr>, Inr ()))"

definition resetEventForRetry :: "string \<Rightarrow> (billing_state, unit) op" where
  "resetEventForRetry i = updateEvent i (\<lambda>r. r\<lparr>wh_status := ''received'', wh_processedAt := None, wh_lastError := None\<rparr>)"

section \<open>Ingestion\<close>

record yookassa_event =
  ye_id :: string
  ye_type :: string
  ye_createdAt :: "int option option"
  ye_payload :: json_object

text \<open>\<open>new Date(n)\<close> of a number: truncated, and invalid beyond the range of time values.\<close>

definition date_of_num :: "jsnum \<Rightarrow> int option" where
  "date_of_num n = (case n of
     Fin x \<Rightarrow> if \<bar>x\<bar> \<le> 8640000000000000 then Some (if x < 0 then \<lceil>x\<rceil> else \<lfloor>x\<rfloor>) else None
   | _ \<Rightarrow> None)"

definition trimmed_text :: "json option \<Rightarrow> string option" where
  "trimmed_text v = (case v of Some (JStr s) \<Rightarrow> if trim s \<noteq> [] then Some (trim s) else None | _ \<Rightarrow> None)"

text \<open>\<open>a ?? b\<close> on property values: null and absence count as missing.\<close>

definition nullish_value :: "json option \<Rightarrow> json option \<Rightarrow> json option" where
  "nullish_value a b = (case a of None \<Rightarrow> b | Some v \<Rightarrow> if v = JNull then b else a)"

definition json_object_of :: "json option \<Rightarrow> json_object option" where
  "json_object_of v = (case v of Some (JObj es) \<Rightarrow> Some es | _ \<Rightarrow> None)"

definition event_date :: "(string \<Rightarrow> int option) \<Rightarrow> json_object \<Rightarrow> int option option" where
  "event_date host obj =
     (case nullish_value (map_of obj ''created_at'') (map_of obj ''createdAt'') of
        Some (JStr s) \<Rightarrow> if trim s \<noteq> [] then Some (date_parse host s) else None
      | Some (JNum n) \<Rightarrow> Some (date_of_num n)
      | _ \<Rightarrow> None)"

definition parseYookassaWebhookEvent ::
  "(string \<Rightarrow> json option) \<Rightarrow> (string \<Rightarrow> int option) \<Rightarrow> string \<Rightarrow> yookassa_event result" where
  "parseYookassaWebhookEvent parseJson host rawBody =
     (case parseJson rawBody of
        None \<Rightarrow> Inl (BadRequest ''YooKassa webhook payload is not valid JSON.'')
      | Some parsed \<Rightarrow> (case json_object_of (Some parsed) of
          None \<Rightarrow> Inl (BadRequest ''YooKassa webhook payload must be a JSON object.'')
        | Some obj \<Rightarrow>
            (case (trimmed_text (map_of obj ''id''), trimmed_text (map_of obj ''type'')) of
               (Some i, Some t) \<Rightarrow>
                 Inr \<lparr>ye_id = i, ye_type = t, ye_createdAt = event_date host obj,
                      ye_payload = (if json_object_of (map_of obj ''object'') \<noteq> None
                        then fold (\<lambda>(k, v) es. AList.update k v es) obj [(''object'', the (map_of obj ''object''))] else obj)\<rparr>
             | _ \<Rightarrow> Inl (BadRequest ''YooKassa webhook payload is missing required id or type fields.''))))"

record ingest_result =
  ig_accepted :: bool
  ig_duplicate :: bool
  ig_provider :: billing_provider
  ig_eventId :: string
  ig_eventType :: string
  ig_receivedAt :: string
  ig_queue :: "platform_queue option"
  ig_jobId :: "string option"

text \<open>A wallet operation inside the billing state, and the dispatch of a job.\<close>

definition on_wallet :: "(wallet_db, 'a) op \<Rightarrow> (billing_state, 'a) op" where
  "on_wallet m s = (case m (bs_wallet s) of (w, r) \<Rightarrow> (s\<lparr>bs_wallet := w\<rparr>, r))"

definition dispatch_job ::
  "bool \<Rightarrow> queue_policy option \<Rightarrow> int \<Rightarrow> queue_dispatch_request \<Rightarrow> (billing_state, queue_job) op" where
  "dispatch_job isConnected policy now request s =
     (case dispatch isConnected policy now request of
        (job, added) \<Rightarrow> (s\<lparr>bs_queue := bs_queue s @ (case added of None \<Rightarrow> [] | Some b \<Rightarrow> [b])\<rparr>, Inr job))"

definition assertYookassaWebhookReady :: "bool \<Rightarrow> unit result" where
  "assertYookassaWebhookReady isConnected =
     (if \<not> isConnected then Inl (ServiceUnavailable ''YooKassa webhook endpoint requires QUIZMIND_RUNTIME_MODE=connected.'')
      else Inr ())"

definition payment_id :: "yookassa_event \<Rightarrow> string" where
  "payment_id event =
     (case Option.bind (json_object_of (map_of (ye_payload event) ''object'')) (\<lambda>obj. map_of obj ''id'') of
        Some (JStr s) \<Rightarrow> trim s
      | _ \<Rightarrow> ye_id event)"

definition paid_at :: "(string \<Rightarrow> int option) \<Rightarrow> int \<Rightarrow> yookassa_event \<Rightarrow> int option" where
  "paid_at host now event =
     (case Option.bind (json_object_of (map_of (ye_payload event) ''object'')) (\<lambda>obj. map_of obj ''captured_at'') of
        Some (JStr s) \<Rightarrow> if s \<noteq> [] then date_parse host s else Some now
      | _ \<Rightarrow> Some now)"

definition webhook_job :: "yookassa_event \<Rightarrow> webhook_row \<Rightarrow> queue_dispatch_request" where
  "webhook_job event row =
     \<lparr>dr_payload = BillingWebhookJob \<lparr>bw_provider = PvYookassa, bw_webhookEventId = wh_id row,
        bw_externalEventId = ye_id event, bw_eventType = ye_type event, bw_receivedAt = toISOString (wh_receivedAt row)\<rparr>,
      dr_dedupeKey = None, dr_attempts = None, dr_jobId = None, dr_createdAt = None\<rparr>"

text \<open>A new event: the wallet first, then the job.\<close>

definition ingest_new ::
  "(string \<Rightarrow> int option) \<Rightarrow> (nat \<Rightarrow> string) \<Rightarrow> bool \<Rightarrow> queue_policy option \<Rightarrow> int \<Rightarrow> yookassa_event \<Rightarrow> webhook_row \<Rightarrow>
   (billing_state, ingest_result) op" where
  "ingest_new host wcuid isConnected policy now event row =
     thenS (on_wallet (processYookassaPaymentEvent wcuid now (ye_type event) (payment_id event) (Some (paid_at host now event))))
       (bindS (dispatch_job isConnected policy now (createQueueDispatchRequest (webhook_job event row) None)) (\<lambda>job.
          retS \<lparr>ig_accepted = True, ig_duplicate = False, ig_provider = PvYookassa, ig_eventId = ye_id event,
            ig_eventType = ye_type event, ig_receivedAt = toISOString (wh_receivedAt row),
            ig_queue = Some (qj_queue job), ig_jobId = Some (qj_id job)\<rparr>))"

definition duplicate_result :: "yookassa_event \<Rightarrow> webhook_row \<Rightarrow> ingest_result" where
  "duplicate_result event row =
     \<lparr>ig_accepted = True, ig_duplicate = True, ig_provider = PvYookassa, ig_eventId = ye_id event,
      ig_eventType = ye_type event, ig_receivedAt = toISOString (wh_receivedAt row), ig_queue = None, ig_jobId = None\<rparr>"

definition received_input :: "yookassa_event \<Rightarrow> received_event_input" where
  "received_input event = \<lparr>rv_provider = ''yookassa'', rv_externalEventId = ye_id event, rv_eventType = ye_type event,
     rv_payloadJson = ye_payload event, rv_providerCreatedAt = ye_createdAt event\<rparr>"

text \<open>\<open>cuid\<close> and \<open>wcuid\<close> generate the identifiers of events and of wallet rows.\<close>

definition ingestYookassaWebhook ::
  "(string \<Rightarrow> json option) \<Rightarrow> (string \<Rightarrow> int option) \<Rightarrow> (nat \<Rightarrow> string) \<Rightarrow> (nat \<Rightarrow> string) \<Rightarrow> bool \<Rightarrow> queue_policy option \<Rightarrow> int \<Rightarrow>
   string option \<Rightarrow> (billing_state, ingest_result) op" where
  "ingestYookassaWebhook parseJson host cuid wcuid isConnected policy now rawBody =
     thenS (liftS (assertYookassaWebhookReady isConnected))
       (if \<not> truthy rawBody then throwS (BadRequest ''Missing raw YooKassa webhook payload.'')
        else bindS (liftS (parseYookassaWebhookEvent parseJson host (the rawBody))) (\<lambda>event.
          bindS (recordReceivedEvent cuid now (received_input event)) (\<lambda>(row, duplicate).
            if duplicate then retS (duplicate_result event row)
            else ingest_new host wcuid isConnected policy now event row)))"

section \<open>The worker's job\<close>

record billing_job_result =
  bj_processed :: bool
  bj_webhookEventId :: string
  bj_externalEventId :: string
  bj_eventType :: string
  bj_logEvent :: log_event

definition webhook_log :: "webhook_row \<Rightarrow> string \<Rightarrow> string \<Rightarrow> int \<Rightarrow> json_object \<Rightarrow> log_event" where
  "webhook_log w suffix eventType now metadata = createLogEvent
     \<lparr>le_eventId = ''billing-webhook:'' @ wh_id w @ '':'' @ suffix, le_eventType = eventType, le_actorId = wh_provider w,
      le_actorType = SubjectSystem, le_targetType = ''billing_webhook'', le_targetId = wh_externalEventId w,
      le_occurredAt = toISOString now, le_metadata = Some metadata, le_category = CatDomain, le_severity = SevInfo,
      le_status = Some StatusSuccess\<rparr>"

definition processBillingWebhookJob ::
  "(string \<Rightarrow> ('s, webhook_row option) op) \<Rightarrow> (string \<Rightarrow> int \<Rightarrow> ('s, unit) op) \<Rightarrow> int \<Rightarrow> billing_webhook_payload \<Rightarrow>
   ('s, billing_job_result) op" where
  "processBillingWebhookJob find_event mark_processed now job =
     bindS (find_event (bw_webhookEventId job)) (\<lambda>webhook. case webhook of
       None \<Rightarrow> throwS (JsError (''Billing webhook event '' @ bw_webhookEventId job @ '' was not found.''))
     | Some w \<Rightarrow>
         if wh_processedAt w \<noteq> None \<or> wh_status w = ''processed'' then
           retS \<lparr>bj_processed = False, bj_webhookEventId = wh_id w, bj_externalEventId = wh_externalEventId w,
             bj_eventType = wh_eventType w,
             bj_logEvent = webhook_log w ''skipped'' ''billing.webhook_skipped'' now
               [(''reason'', JStr ''already_processed''), (''webhookEventId'', JStr (wh_id w))]\<rparr>
         else thenS (mark_processed (wh_id w) now)
           (retS \<lparr>bj_processed = True, bj_webhookEventId = wh_id w, bj_externalEventId = wh_externalEventId w,
             bj_eventType = wh_eventType w,
             bj_logEvent = webhook_log w ''processed'' ''billing.webhook_processed'' now
               [(''webhookEventId'', JStr (wh_id w)), (''provider'', JStr (wh_provider w))]\<rparr>))"

definition findWebhookEventById :: "string \<Rightarrow> (billing_state, webhook_row option) op" where
  "findWebhookEventById i = getS (\<lambda>s. findEventById s i)"

definition processed_mark :: "int \<Rightarrow> webhook_row \<Rightarrow> webhook_row" where
  "processed_mark t r = r\<lparr>wh_status := ''processed'', wh_processedAt := Some t, wh_lastError := None\<rparr>"

definition markWebhookEventProcessed :: "string \<Rightarrow> int \<Rightarrow> (billing_state, unit) op" where
  "markWebhookEventProcessed i t = updateEvent i (processed_mark t)"

definition markWebhookEventFailed :: "string \<Rightarrow> string \<Rightarrow> (billing_state, unit) op" where
  "markWebhookEventFailed i lastError =
     updateEvent i (\<lambda>r. r\<lparr>wh_status := ''failed'', wh_lastError := Some (take 1000 lastError)\<rparr>)"

text \<open>What the job needs of its store: finding reads, and marking updates the one event.\<close>

locale webhook_store =
  fixes find_event :: "string \<Rightarrow> ('s, webhook_row option) op"
    and mark_processed :: "string \<Rightarrow> int \<Rightarrow> ('s, unit) op"
    and event_of :: "'s \<Rightarrow> string \<Rightarrow> webhook_row option"
  assumes finds: "find_event i s = (s, Inr (event_of s i))"
    and event_id: "event_of s i = Some r \<Longrightarrow> wh_id r = i"
    and marks: "event_of s i = Some r \<Longrightarrow>
      \<exists>s'. mark_processed i t s = (s', Inr ()) \<and> event_of s' = (event_of s)(i \<mapsto> processed_mark t r)"

context webhook_store
begin

lemma job_processes:
  assumes "event_of s (bw_webhookEventId job) = Some w" and "wh_processedAt w = None" and "wh_status w \<noteq> ''processed''"
  shows "\<exists>s' r. processBillingWebhookJob find_event mark_processed now job s = (s', Inr r) \<and> bj_processed r
    \<and> event_of s' = (event_of s)(bw_webhookEventId job \<mapsto> processed_mark now w)"
proof -
  obtain s' where "mark_processed (bw_webhookEventId job) now s = (s', Inr ())"
      "event_of s' = (event_of s)(bw_webhookEventId job \<mapsto> processed_mark now w)"
    using marks [OF assms(1)] by blast
  then show ?thesis
    using assms event_id [OF assms(1)]
    by (simp add: processBillingWebhookJob_def bindS_def thenS_def retS_def finds)
qed

lemma job_skips:
  assumes "event_of s (bw_webhookEventId job) = Some w" and "wh_processedAt w \<noteq> None \<or> wh_status w = ''processed''"
  shows "\<exists>r. processBillingWebhookJob find_event mark_processed now job s = (s, Inr r) \<and> \<not> bj_processed r"
  using assms by (auto simp: processBillingWebhookJob_def bindS_def retS_def finds)

lemma job_unknown:
  "event_of s (bw_webhookEventId job) = None \<Longrightarrow> processBillingWebhookJob find_event mark_processed now job s
     = (s, Inl (JsError (''Billing webhook event '' @ bw_webhookEventId job @ '' was not found.'')))"
  by (simp add: processBillingWebhookJob_def bindS_def throwS_def finds)

end

lemma updateEvent_find:
  assumes "findEventById s i = Some r" and "\<And>r. wh_id (f r) = wh_id r"
  shows "\<exists>s'. updateEvent i f s = (s', Inr ()) \<and> findEventById s' = (findEventById s)(i \<mapsto> f r)"
proof -
  let ?s = "s\<lparr>bs_events := map (\<lambda>r. if wh_id r = i then f r else r) (bs_events s)\<rparr>"
  have "findEventById ?s j = map_option (\<lambda>r. if wh_id r = i then f r else r) (findEventById s j)" for j
    unfolding findEventById_def by (simp add: find_map_preserving assms(2))
  then have "findEventById ?s = (findEventById s)(i \<mapsto> f r)"
    using assms(1) by (auto simp: fun_eq_iff findEventById_def map_option_case split: option.splits dest!: find_SomeD)
  then show ?thesis using assms(1) by (simp add: updateEvent_def)
qed

interpretation worker_webhooks: webhook_store findWebhookEventById markWebhookEventProcessed findEventById
proof (unfold_locales, goal_cases)
  case (3 s i r t)
  then show ?case unfolding markWebhookEventProcessed_def by (rule updateEvent_find) (simp add: processed_mark_def)
qed (auto simp: findWebhookEventById_def getS_def findEventById_def dest: find_SomeD)

section \<open>Signatures\<close>

fun num_abs :: "jsnum \<Rightarrow> jsnum" where
  "num_abs (Fin x) = Fin \<bar>x\<bar>"
| "num_abs NaN = NaN"
| "num_abs _ = PosInf"

definition hex_value :: "char \<Rightarrow> nat option" where
  "hex_value c = (let n = of_char c in
     if 48 \<le> n \<and> n \<le> 57 then Some (n - 48) else if 65 \<le> n \<and> n \<le> 70 then Some (n - 55)
     else if 97 \<le> n \<and> n \<le> 102 then Some (n - 87) else None)"

text \<open>\<open>Buffer.from(s, 'hex')\<close>: pairs of digits up to the first that is not one.\<close>

fun normalizeDigest :: "string \<Rightarrow> nat list" where
  "normalizeDigest (a # b # s) = (case (hex_value a, hex_value b) of
     (Some x, Some y) \<Rightarrow> (16 * x + y) # normalizeDigest s | _ \<Rightarrow> [])"
| "normalizeDigest _ = []"

definition signStripeWebhookPayload :: "(string \<Rightarrow> string \<Rightarrow> string) \<Rightarrow> string \<Rightarrow> string \<Rightarrow> string \<Rightarrow> string" where
  "signStripeWebhookPayload hmac payload secret timestamp = hmac secret (timestamp @ ''.'' @ payload)"

text \<open>One component of the signature header: the timestamp, or one more signature.\<close>

definition read_component :: "string \<Rightarrow> jsnum option \<times> string list \<Rightarrow> jsnum option \<times> string list" where
  "read_component part = (\<lambda>(timestamp, signatures).
     (case split_limit (CHR ''='') 2 part of
        [key, v] \<Rightarrow>
          if key = [] \<or> v = [] then (timestamp, signatures)
          else if key = ''t'' then (if num_is_finite (Number v) then Some (Number v) else timestamp, signatures)
          else if key = ''v1'' then (timestamp, signatures @ [v])
          else (timestamp, signatures)
      | _ \<Rightarrow> (timestamp, signatures)))"

definition signature_header :: "string \<Rightarrow> jsnum option \<times> string list" where
  "signature_header header = fold read_component (filter (\<lambda>p. p \<noteq> []) (map trim (split_on (CHR '','') header))) (None, [])"

fun math_floor :: "jsnum \<Rightarrow> jsnum" where
  "math_floor (Fin x) = Fin (of_int \<lfloor>x\<rfloor>)"
| "math_floor n = n"

definition signature_age :: "int \<Rightarrow> jsnum \<Rightarrow> jsnum" where
  "signature_age now t = num_abs (num_add (math_floor (num_div (Fin (of_int now)) (Fin 1000))) (num_neg t))"

definition verifyStripeWebhookSignature ::
  "(string \<Rightarrow> string \<Rightarrow> string) \<Rightarrow> int \<Rightarrow> string \<Rightarrow> string \<Rightarrow> string \<Rightarrow> jsnum option \<Rightarrow> jsnum result" where
  "verifyStripeWebhookSignature hmac now payload header secret tolerance =
     (let (timestamp, signatures) = signature_header header
      in if timestamp = None \<or> timestamp = Some (Fin 0) \<or> length signatures = 0
         then Inl (JsError ''Invalid Stripe signature header.'')
         else let t = the timestamp;
                  expected = normalizeDigest (signStripeWebhookPayload hmac payload secret (num_to_string t));
                  toleranceSeconds = nullish tolerance (Fin 300)
              in if num_less toleranceSeconds (signature_age now t)
                 then Inl (JsError ''Stripe signature timestamp is outside the allowed tolerance.'')
                 else if \<not> list_ex (\<lambda>s. normalizeDigest s = expected) signatures
                 then Inl (JsError ''Invalid Stripe signature.'')
                 else Inr t)"


section \<open>Properties\<close>

lemma recordReceivedEvent_again:
  assumes "rv_providerCreatedAt inp \<noteq> Some None"
    and "find (same_event (rv_provider inp) (rv_externalEventId inp)) (bs_events s) = Some r"
  shows "recordReceivedEvent cuid now inp s = (s, Inr (r, True))"
  using assms by (simp add: recordReceivedEvent_def insertEvent_def)

lemma recordReceivedEvent_records:
  assumes "rv_providerCreatedAt inp \<noteq> Some None"
  shows "\<exists>s' r d. recordReceivedEvent cuid now inp s = (s', Inr (r, d))
    \<and> find (same_event (rv_provider inp) (rv_externalEventId inp)) (bs_events s') = Some r
    \<and> bs_wallet s' = bs_wallet s \<and> bs_queue s' = bs_queue s
    \<and> (d \<longleftrightarrow> find (same_event (rv_provider inp) (rv_externalEventId inp)) (bs_events s) \<noteq> None) \<and> (d \<longrightarrow> s' = s)"
proof (cases "find (same_event (rv_provider inp) (rv_externalEventId inp)) (bs_events s)")
  case None
  with assms show ?thesis
    by (simp add: recordReceivedEvent_def insertEvent_def Let_def find_append same_event_def ex_bool_eq)
next
  case (Some r)
  with recordReceivedEvent_again [OF assms] show ?thesis by (simp add: ex_bool_eq)
qed

lemma ingest_new_events: "bs_events (fst (ingest_new host wcuid c policy now event row s)) = bs_events s"
  by (auto simp: ingest_new_def thenS_def bindS_def retS_def on_wallet_def dispatch_job_def split: prod.splits sum.splits)

lemma ingest_unfold:
  assumes "parseYookassaWebhookEvent parseJson host raw = Inr event" and "raw \<noteq> []"
  shows "ingestYookassaWebhook parseJson host cuid wcuid True policy now (Some raw) s =
    (case recordReceivedEvent cuid now (received_input event) s of
       (s', Inl e) \<Rightarrow> (s', Inl e)
     | (s', Inr (row, duplicate)) \<Rightarrow>
         if duplicate then (s', Inr (duplicate_result event row)) else ingest_new host wcuid True policy now event row s')"
  using assms by (simp add: ingestYookassaWebhook_def assertYookassaWebhookReady_def truthy_def
      thenS_def bindS_def liftS_def retS_def split: prod.splits sum.splits)

definition recorded :: "yookassa_event \<Rightarrow> billing_state \<Rightarrow> bool" where
  "recorded event s = (find (same_event ''yookassa'' (ye_id event)) (bs_events s) \<noteq> None)"

lemma ingest_records:
  assumes "parseYookassaWebhookEvent parseJson host raw = Inr event" and "raw \<noteq> []" and "ye_createdAt event \<noteq> Some None"
  shows "recorded event (fst (ingestYookassaWebhook parseJson host cuid wcuid True policy now (Some raw) s))"
proof -
  obtain s' r d where r: "recordReceivedEvent cuid now (received_input event) s = (s', Inr (r, d))"
      "find (same_event ''yookassa'' (ye_id event)) (bs_events s') = Some r"
    using recordReceivedEvent_records [of "received_input event" cuid now s] assms(3) by (auto simp: received_input_def)
  then show ?thesis
    by (simp add: ingest_unfold [OF assms(1,2)] recorded_def ingest_new_events)
qed

lemma ingest_duplicate:
  assumes "parseYookassaWebhookEvent parseJson host raw = Inr event" and "raw \<noteq> []" and "ye_createdAt event \<noteq> Some None"
    and "recorded event s"
  shows "\<exists>r. ingestYookassaWebhook parseJson host cuid wcuid True policy now (Some raw) s = (s, Inr r) \<and> ig_duplicate r"
proof -
  obtain row where "find (same_event ''yookassa'' (ye_id event)) (bs_events s) = Some row"
    using assms(4) by (auto simp: recorded_def)
  then have "recordReceivedEvent cuid now (received_input event) s = (s, Inr (row, True))"
    using assms(3) by (intro recordReceivedEvent_again) (simp_all add: received_input_def)
  then show ?thesis by (simp add: ingest_unfold [OF assms(1,2)] duplicate_result_def)
qed

text \<open>
  C37. A payment notification acts at most once: whatever became of its first delivery, every later
  delivery with the same event identifier is acknowledged as a duplicate and changes neither the
  wallet nor the queue nor the table of events.
\<close>

theorem webhook_at_most_once:
  assumes "parseYookassaWebhookEvent parseJson host raw = Inr event" and "raw \<noteq> []" and "ye_createdAt event \<noteq> Some None"
    and "parseYookassaWebhookEvent parseJson host raw' = Inr event'" and "raw' \<noteq> []" and "ye_createdAt event' \<noteq> Some None"
    and "ye_id event' = ye_id event"
    and "fst (ingestYookassaWebhook parseJson host cuid wcuid True policy now (Some raw) s) = s1"
  shows "\<exists>r. ingestYookassaWebhook parseJson host cuid wcuid True policy later (Some raw') s1 = (s1, Inr r) \<and> ig_duplicate r"
proof -
  have "recorded event s1" using ingest_records [OF assms(1-3)] assms(8) by blast
  then have "recorded event' s1" by (simp add: recorded_def assms(7))
  then show ?thesis by (rule ingest_duplicate [OF assms(4-6)])
qed

text \<open>
  C40. A payment can be lost: when the wallet step of the first delivery of a new event throws, the
  delivery fails without a credit, yet the event stays recorded, so the redelivery of the provider
  is acknowledged as a duplicate and the top-up is never settled by it.
\<close>

theorem failed_delivery_is_lost:
  assumes "parseYookassaWebhookEvent parseJson host raw = Inr event" and "raw \<noteq> []" and "ye_createdAt event \<noteq> Some None"
    and "\<not> recorded event s"
    and "processYookassaPaymentEvent wcuid now (ye_type event) (payment_id event) (Some (paid_at host now event)) (bs_wallet s)
      = (bs_wallet s, Inl e)"
  shows "\<exists>s1 r. ingestYookassaWebhook parseJson host cuid wcuid True policy now (Some raw) s = (s1, Inl e)
    \<and> ingestYookassaWebhook parseJson host cuid wcuid True policy later (Some raw) s1 = (s1, Inr r)
    \<and> ig_accepted r \<and> ig_duplicate r \<and> bs_wallet s1 = bs_wallet s \<and> bs_queue s1 = bs_queue s"
proof -
  obtain s' row where r: "recordReceivedEvent cuid now (received_input event) s = (s', Inr (row, False))"
      "find (same_event ''yookassa'' (ye_id event)) (bs_events s') = Some row"
      "bs_wallet s' = bs_wallet s" "bs_queue s' = bs_queue s"
    using recordReceivedEvent_records [of "received_input event" cuid now s] assms(3,4)
    by (auto simp: received_input_def recorded_def)
  have "ingest_new host wcuid True policy now event row s' = (s', Inl e)"
    using assms(5) r(3) by (simp add: ingest_new_def thenS_def bindS_def on_wallet_def)
  then have 1: "ingestYookassaWebhook parseJson host cuid wcuid True policy now (Some raw) s = (s', Inl e)"
    using r(1) by (simp add: ingest_unfold [OF assms(1,2)])
  have "recordReceivedEvent cuid later (received_input event) s' = (s', Inr (row, True))"
    using assms(3) r(2) by (intro recordReceivedEvent_again) (simp_all add: received_input_def)
  then have "ingestYookassaWebhook parseJson host cuid wcuid True policy later (Some raw) s' = (s', Inr (duplicate_result event row))"
    by (simp add: ingest_unfold [OF assms(1,2)])
  with 1 r(3,4) show ?thesis by (auto simp: duplicate_result_def)
qed

text \<open>
  The worker processes a known event exactly once: the first run on an event that is not marked
  marks this event and nothing else, a run on a marked event changes nothing, and an unknown event
  is an error.
\<close>

theorem billing_job_once:
  assumes "findEventById s (bw_webhookEventId job) = Some w" and "wh_processedAt w = None" and "wh_status w \<noteq> ''processed''"
  shows "(\<exists>s' r r'. processBillingWebhookJob findWebhookEventById markWebhookEventProcessed now job s = (s', Inr r) \<and> bj_processed r
      \<and> findEventById s' = (findEventById s)(bw_webhookEventId job \<mapsto> processed_mark now w)
      \<and> processBillingWebhookJob findWebhookEventById markWebhookEventProcessed later job s' = (s', Inr r') \<and> \<not> bj_processed r')
    \<and> (findEventById s (bw_webhookEventId other) = None \<longrightarrow>
        \<not> isOk (snd (processBillingWebhookJob findWebhookEventById markWebhookEventProcessed now other s)))"
proof -
  obtain s' r where 1: "processBillingWebhookJob findWebhookEventById markWebhookEventProcessed now job s = (s', Inr r)" "bj_processed r"
      "findEventById s' = (findEventById s)(bw_webhookEventId job \<mapsto> processed_mark now w)"
    using worker_webhooks.job_processes [OF assms] by blast
  then obtain r' where "processBillingWebhookJob findWebhookEventById markWebhookEventProcessed later job s' = (s', Inr r')"
      "\<not> bj_processed r'"
    using worker_webhooks.job_skips [of s' job "processed_mark now w" later] by (auto simp: processed_mark_def)
  with 1 show ?thesis by (auto simp: worker_webhooks.job_unknown)
qed


definition clean :: "string \<Rightarrow> bool" where
  "clean s = (s \<noteq> [] \<and> list_all (\<lambda>c. \<not> js_space c \<and> c \<noteq> CHR '','' \<and> c \<noteq> CHR ''='') s)"

lemma trim_clean: "list_all (\<lambda>c. \<not> js_space c) s \<Longrightarrow> trim s = s"
proof -
  assume s: "list_all (\<lambda>c. \<not> js_space c) s"
  have d: "dropWhile js_space s = s" if "list_all (\<lambda>c. \<not> js_space c) s" for s using that by (cases s) auto
  have "list_all (\<lambda>c. \<not> js_space c) (rev s)" using s by (simp add: list_all_iff)
  with s show ?thesis by (simp add: trim_def d)
qed

lemma header_of_parts:
  assumes "clean ts" and "clean sig" and "num_is_finite (Number ts)"
  shows "signature_header (''t='' @ ts @ '',v1='' @ sig) = (Some (Number ts), [sig])"
proof -
  have "CHR '','' \<notin> set (''t='' @ ts)" and "CHR '','' \<notin> set (''v1='' @ sig)"
    using assms(1,2) by (auto simp: clean_def list_all_iff)
  then have "split_on (CHR '','') ((''t='' @ ts) @ CHR '','' # (''v1='' @ sig)) = [''t='' @ ts, ''v1='' @ sig]"
    by (subst split_on_append_sep) (simp_all only: split_on_plain not_False_eq_True)
  then have sp: "split_on (CHR '','') (''t='' @ ts @ '',v1='' @ sig) = [''t='' @ ts, ''v1='' @ sig]" by simp
  have tr: "trim (''t='' @ ts) = ''t='' @ ts" "trim (''v1='' @ sig) = ''v1='' @ sig"
    using assms(1,2) by (intro trim_clean; simp add: clean_def list_all_iff js_space_def)+
  have eq: "split_on (CHR ''='') (''t='' @ ts) = [''t'', ts]" "split_on (CHR ''='') (''v1='' @ sig) = [''v1'', sig]"
    using assms(1,2) split_on_append_sep [of "CHR ''=''" "''t''" ts] split_on_append_sep [of "CHR ''=''" "''v1''" sig]
      split_on_plain [of "CHR ''=''" ts] split_on_plain [of "CHR ''=''" sig]
    by (auto simp: clean_def list_all_iff)
  show ?thesis
    unfolding signature_header_def sp
    by (simp add: tr [simplified] read_component_def split_limit_def eq [simplified])
      (use assms in \<open>simp add: clean_def\<close>)
qed

text \<open>
  Webhook signatures: a header made of a timestamp and one signature is accepted exactly when the
  signature is the digest of the timestamped payload under the secret and the timestamp is within the
  tolerance; and whatever header is accepted, one of its signatures is that digest, for its timestamp.
\<close>

theorem stripe_signature_exact:
  assumes "clean ts" and "clean sig" and "Number ts = Fin x" and "x \<noteq> 0"
  shows "(verifyStripeWebhookSignature hmac now payload (''t='' @ ts @ '',v1='' @ sig) secret tolerance = Inr (Fin x)
      \<longleftrightarrow> \<not> num_less (nullish tolerance (Fin 300)) (signature_age now (Fin x))
        \<and> normalizeDigest sig = normalizeDigest (hmac secret (num_to_string (Fin x) @ ''.'' @ payload)))
    \<and> (verifyStripeWebhookSignature hmac now payload header secret tolerance = Inr t \<longrightarrow>
        \<not> num_less (nullish tolerance (Fin 300)) (signature_age now t)
        \<and> list_ex (\<lambda>s. normalizeDigest s = normalizeDigest (hmac secret (num_to_string t @ ''.'' @ payload))) (snd (signature_header header)))"
proof
  have "num_is_finite (Number ts)" using assms(3) by (simp add: num_is_finite_def)
  from header_of_parts [OF assms(1,2) this] assms(3,4)
  show "verifyStripeWebhookSignature hmac now payload (''t='' @ ts @ '',v1='' @ sig) secret tolerance = Inr (Fin x)
      \<longleftrightarrow> \<not> num_less (nullish tolerance (Fin 300)) (signature_age now (Fin x))
        \<and> normalizeDigest sig = normalizeDigest (hmac secret (num_to_string (Fin x) @ ''.'' @ payload))"
    by (simp add: verifyStripeWebhookSignature_def signStripeWebhookPayload_def Let_def)
  show "verifyStripeWebhookSignature hmac now payload header secret tolerance = Inr t \<longrightarrow>
        \<not> num_less (nullish tolerance (Fin 300)) (signature_age now t)
        \<and> list_ex (\<lambda>s. normalizeDigest s = normalizeDigest (hmac secret (num_to_string t @ ''.'' @ payload))) (snd (signature_header header))"
    by (auto simp: verifyStripeWebhookSignature_def signStripeWebhookPayload_def Let_def split: prod.splits if_splits)
qed

theorem stripe_signature_exact_witness:
  "verifyStripeWebhookSignature (\<lambda>k m. k @ ''0'' @ m) 9000 ''2'' ''t=5,v1=a05'' ''a'' None = Inr (Fin 5)"
proof -
  have n: "Number ''5'' = Fin 5" by code_simp
  have "\<not> num_less (nullish None (Fin 300)) (signature_age 9000 (Fin 5))" by code_simp
  moreover have "normalizeDigest ''a05'' = normalizeDigest (''a'' @ ''0'' @ num_to_string (Fin 5) @ ''.'' @ ''2'')" by code_simp
  ultimately show ?thesis
    using stripe_signature_exact [of "''5''" "''a05''" 5 "\<lambda>k m. k @ ''0'' @ m" 9000 "''2''" "''a''" None] n
    by (simp add: clean_def js_space_def)
qed

section \<open>Witnesses\<close>

text \<open>A notification without dates whose payment was captured at an unreadable time.\<close>

definition sample_notice :: json where
  "sample_notice = JObj [(''id'', JStr ''n1''), (''type'', JStr ''payment.succeeded''),
     (''object'', JObj [(''id'', JStr ''p''), (''captured_at'', JStr ''soon'')])]"

definition sample_billing :: billing_state where
  "sample_billing = \<lparr>bs_events = [], bs_nextEvent = 0, bs_wallet = sample_topup_db, bs_queue = []\<rparr>"

definition sample_event :: yookassa_event where
  "sample_event = \<lparr>ye_id = ''n1'', ye_type = ''payment.succeeded'', ye_createdAt = None,
     ye_payload = [(''object'', JObj [(''id'', JStr ''p''), (''captured_at'', JStr ''soon'')]), (''id'', JStr ''n1''),
       (''type'', JStr ''payment.succeeded'')]\<rparr>"

lemma sample_parse: "parseYookassaWebhookEvent (\<lambda>_. Some sample_notice) host ''x'' = Inr sample_event"
  by (simp add: parseYookassaWebhookEvent_def sample_notice_def json_object_of_def trimmed_text_def event_date_def
      nullish_value_def trim_def js_space_def sample_event_def)

theorem webhook_at_most_once_witness:
  "\<exists>r. ingestYookassaWebhook (\<lambda>_. Some sample_notice) (\<lambda>_. None) sample_ids sample_ids True None 9 (Some ''x'')
      (fst (ingestYookassaWebhook (\<lambda>_. Some sample_notice) (\<lambda>_. None) sample_ids sample_ids True None 5 (Some ''x'') sample_billing))
    = (fst (ingestYookassaWebhook (\<lambda>_. Some sample_notice) (\<lambda>_. None) sample_ids sample_ids True None 5 (Some ''x'') sample_billing), Inr r)
    \<and> ig_duplicate r"
  by (rule webhook_at_most_once [where raw = "''x''" and event = sample_event and event' = sample_event and s = sample_billing and now = 5])
    (simp_all only: sample_parse, simp_all add: sample_event_def)

theorem failed_delivery_is_lost_witness:
  "\<exists>s1 r. ingestYookassaWebhook (\<lambda>_. Some sample_notice) (\<lambda>_. None) sample_ids sample_ids True None 5 (Some ''x'') sample_billing
      = (s1, Inl InvalidValue)
    \<and> ingestYookassaWebhook (\<lambda>_. Some sample_notice) (\<lambda>_. None) sample_ids sample_ids True None 9 (Some ''x'') s1 = (s1, Inr r)
    \<and> ig_accepted r \<and> ig_duplicate r \<and> bs_wallet s1 = bs_wallet sample_billing \<and> bs_queue s1 = bs_queue sample_billing"
proof (rule failed_delivery_is_lost [OF sample_parse])
  have "date_parse (\<lambda>_. None) ''soon'' = None" by code_simp
  then show "processYookassaPaymentEvent sample_ids 5 (ye_type sample_event) (payment_id sample_event)
      (Some (paid_at (\<lambda>_. None) 5 sample_event)) (bs_wallet sample_billing) = (bs_wallet sample_billing, Inl InvalidValue)"
    by (simp add: sample_event_def payment_id_def paid_at_def json_object_of_def trim_def js_space_def sample_billing_def
        sample_topup_db_eq wallet_eval)
qed (simp_all add: sample_event_def recorded_def sample_billing_def)

definition sample_row :: webhook_row where
  "sample_row = \<lparr>wh_id = ''e'', wh_provider = ''yookassa'', wh_externalEventId = ''n1'', wh_eventType = ''payment.succeeded'',
     wh_status = ''received'', wh_payloadJson = [], wh_providerCreatedAt = None, wh_processedAt = None, wh_lastError = None,
     wh_createdAt = 0, wh_receivedAt = 0\<rparr>"

definition sample_job :: billing_webhook_payload where
  "sample_job = \<lparr>bw_provider = PvYookassa, bw_webhookEventId = ''e'', bw_externalEventId = ''n1'',
     bw_eventType = ''payment.succeeded'', bw_receivedAt = []\<rparr>"

theorem billing_job_once_witness:
  "\<exists>s' r. processBillingWebhookJob findWebhookEventById markWebhookEventProcessed 7 sample_job
      (sample_billing\<lparr>bs_events := [sample_row]\<rparr>) = (s', Inr r) \<and> bj_processed r"
  using billing_job_once [of "sample_billing\<lparr>bs_events := [sample_row]\<rparr>" sample_job sample_row 7 9 sample_job]
  by (auto simp: findEventById_def sample_row_def sample_job_def)

end
