(* ===== verification/BindCodes.thy ===== *)
theory BindCodes
  imports RateLimit Billing Compatibility
begin

text \<open>
  Binding an extension through the web application: the store of fallback codes
  (\<open>apps/web/src/lib/extension-bind-code-store.ts\<close>) and the two routes that use it
  (\<open>app/bff/extension/bind/route.ts\<close>, \<open>.../bind/redeem/route.ts\<close>). Every instance of the web server has
  codes in memory; all share one Redis. What becomes of a call to Redis is an argument: it is answered,
  it does not reach the server, or its effect happens and the answer is lost. The random code, the
  clock, the URL parser and the answer of the API are arguments too.
\<close>

section \<open>Records and stores\<close>

record bind_code_record =
  bc_code :: string
  bc_createdAtMs :: int
  bc_expiresAtMs :: int
  bc_installationId :: string
  bc_requestId :: "string option"
  bc_bridgeNonce :: "string option"
  bc_targetOrigin :: "string option"
  bc_result :: json

text \<open>The module state of one web server.\<close>

record bind_instance =
  bi_records :: "(string \<times> bind_code_record) list"
  bi_disabledUntilMs :: int

text \<open>Redis: the records by key, with the time at which the key expires.\<close>

type_synonym bind_redis = "(string \<times> bind_code_record \<times> int) list"

datatype redis_call = Answered | NotReached | AnswerLost

record bind_env =
  be_redisUrl :: "string option"
  be_storeMode :: "string option"
  be_nodeEnv :: "string option"

definition DEFAULT_TTL_SECONDS :: int where "DEFAULT_TTL_SECONDS = 180"
definition MIN_TTL_SECONDS :: int where "MIN_TTL_SECONDS = 30"
definition MAX_TTL_SECONDS :: int where "MAX_TTL_SECONDS = 900"
definition MAX_ACTIVE_CODES :: nat where "MAX_ACTIVE_CODES = 2000"
definition REDIS_FAILURE_COOLDOWN_MS :: int where "REDIS_FAILURE_COOLDOWN_MS = 30000"

definition clampTtlSeconds :: "jsnum option \<Rightarrow> int" where
  "clampTtlSeconds v = (case v of
     Some (Fin q) \<Rightarrow>
       let rounded = \<lfloor>q\<rfloor>
       in if rounded < MIN_TTL_SECONDS then MIN_TTL_SECONDS
          else if MAX_TTL_SECONDS < rounded then MAX_TTL_SECONDS else rounded
   | _ \<Rightarrow> DEFAULT_TTL_SECONDS)"

definition normalizeHeaderValue :: "string option \<Rightarrow> string option" where
  "normalizeHeaderValue v = Option.bind (map_option trim v) or_undefined"

definition normalizeBridgeOrigin :: "(string \<Rightarrow> url_parts option) \<Rightarrow> string option \<Rightarrow> string option" where
  "normalizeBridgeOrigin parseUrl v = (case normalizeHeaderValue v of
     None \<Rightarrow> None
   | Some normalized \<Rightarrow>
       (case parseUrl normalized of
          None \<Rightarrow> None
        | Some parsed \<Rightarrow>
            if ur_protocol parsed = ''https:'' \<or> ur_protocol parsed = ''http:'' then Some (ur_origin parsed)
            else if extension_protocol (ur_protocol parsed) then Some (ur_protocol parsed @ ''//'' @ ur_host parsed)
            else None))"

definition resolveRedisUrl :: "bind_env \<Rightarrow> string option" where
  "resolveRedisUrl env = normalizeHeaderValue (be_redisUrl env)"

definition isSharedStoreRequired :: "bind_env \<Rightarrow> bool" where
  "isSharedStoreRequired env =
     (let mode = map_option (toLowerCase \<circ> trim) (be_storeMode env)
      in if mode = Some ''required'' then True
         else if mode = Some ''optional'' then False
         else be_nodeEnv env = Some ''production'')"

definition disableRedisStore :: "int \<Rightarrow> bind_instance \<Rightarrow> bind_instance" where
  "disableRedisStore nowMs s = s\<lparr>bi_disabledUntilMs := nowMs + REDIS_FAILURE_COOLDOWN_MS\<rparr>"

definition withRedisStore ::
  "bind_env \<Rightarrow> int \<Rightarrow> redis_call \<Rightarrow> (bind_redis \<Rightarrow> bind_redis \<times> 'a) \<Rightarrow> bind_instance \<times> bind_redis \<Rightarrow> (bind_instance \<times> bind_redis) \<times> 'a option" where
  "withRedisStore env nowMs call f s =
     (let (inst, db) = s in
      if nowMs < bi_disabledUntilMs inst then (s, None)
      else if resolveRedisUrl env = None then (s, None)
      else (case call of
          Answered \<Rightarrow> let (db', x) = f db in ((inst, db'), Some x)
        | NotReached \<Rightarrow> ((disableRedisStore nowMs inst, db), None)
        | AnswerLost \<Rightarrow> ((disableRedisStore nowMs inst, fst (f db)), None)))"

definition pruneExpiredBindCodes :: "int \<Rightarrow> bind_instance \<Rightarrow> bind_instance" where
  "pruneExpiredBindCodes nowMs s = s\<lparr>bi_records := filter (\<lambda>(c, r). \<not> bc_expiresAtMs r \<le> nowMs) (bi_records s)\<rparr>"

definition delete_record :: "string \<Rightarrow> bind_instance \<Rightarrow> bind_instance" where
  "delete_record code s = s\<lparr>bi_records := AList.delete code (bi_records s)\<rparr>"

definition trimStoreToLimit :: "bind_instance \<Rightarrow> bind_instance" where
  "trimStoreToLimit s =
     (if length (bi_records s) \<le> MAX_ACTIVE_CODES then s
      else let oldest = take (length (bi_records s) - MAX_ACTIVE_CODES) (sort_key bc_createdAtMs (map snd (bi_records s)))
           in fold (\<lambda>r. delete_record (bc_code r)) oldest s)"

section \<open>Issuing a code\<close>

record issue_input =
  ii_result :: json
  ii_installationId :: string
  ii_requestId :: "string option"
  ii_bridgeNonce :: "string option"
  ii_targetOrigin :: "string option"
  ii_ttlSeconds :: "jsnum option"

record bind_fallback_code =
  fc_code :: string
  fc_expiresAt :: string
  fc_ttlSeconds :: int
  fc_redeemPath :: string

definition extensionBindFallbackRedeemPath :: string where
  "extensionBindFallbackRedeemPath = ''/bff/extension/bind/redeem''"

definition new_record :: "(string \<Rightarrow> url_parts option) \<Rightarrow> string \<Rightarrow> int \<Rightarrow> issue_input \<Rightarrow> bind_code_record" where
  "new_record parseUrl code nowMs i =
     \<lparr>bc_code = code, bc_createdAtMs = nowMs, bc_expiresAtMs = nowMs + clampTtlSeconds (ii_ttlSeconds i) * 1000,
      bc_installationId = ii_installationId i, bc_requestId = normalizeHeaderValue (ii_requestId i),
      bc_bridgeNonce = normalizeHeaderValue (ii_bridgeNonce i), bc_targetOrigin = normalizeBridgeOrigin parseUrl (ii_targetOrigin i),
      bc_result = ii_result i\<rparr>"

definition REDIS_KEY_PREFIX :: string where "REDIS_KEY_PREFIX = ''quizmind:extension:bind_fallback:''"

definition buildRedisKey :: "string \<Rightarrow> string" where
  "buildRedisKey code = REDIS_KEY_PREFIX @ code"

text \<open>\<open>SET key value EX ttl\<close>.\<close>

definition redis_set_record :: "bind_code_record \<Rightarrow> bind_redis \<Rightarrow> bind_redis \<times> bool" where
  "redis_set_record r db = (AList.update (buildRedisKey (bc_code r)) (r, bc_expiresAtMs r) db, True)"

definition issueBindFallbackCode ::
  "bind_env \<Rightarrow> (string \<Rightarrow> url_parts option) \<Rightarrow> redis_call \<Rightarrow> string \<Rightarrow> int \<Rightarrow> issue_input
   \<Rightarrow> (bind_instance \<times> bind_redis, bind_fallback_code) op" where
  "issueBindFallbackCode env parseUrl call code nowMs i s =
     (let (inst, db) = s;
          inst1 = pruneExpiredBindCodes nowMs inst;
          r = new_record parseUrl code nowMs i;
          inst2 = trimStoreToLimit (inst1\<lparr>bi_records := AList.update code r (bi_records inst1)\<rparr>);
          ((inst3, db'), stored) = withRedisStore env nowMs call (redis_set_record r) (inst2, db);
          answer = \<lparr>fc_code = code, fc_expiresAt = toISOString (bc_expiresAtMs r), fc_ttlSeconds = clampTtlSeconds (ii_ttlSeconds i),
                    fc_redeemPath = extensionBindFallbackRedeemPath\<rparr>
      in if stored = Some True then ((delete_record code inst3, db'), Inr answer)
         else if isSharedStoreRequired env then
           ((delete_record code inst3, db'), Inl (JsError
             ''Shared bind code store is required but unavailable. Retry the extension bind flow in a healthy environment.''))
         else ((inst3, db'), Inr answer))"

section \<open>Redeeming a code\<close>

record redeem_input =
  ri_code :: "string option"
  ri_installationId :: "string option"
  ri_requestId :: "string option"
  ri_bridgeNonce :: "string option"
  ri_requestOrigin :: "string option"

datatype redeem_failure = InvalidOrExpired | ContextMismatch | StoreUnavailable

datatype redeem_result = Redeemed json string | Refused redeem_failure string

datatype script_reply = ReplyInvalid | ReplyMismatch string | ReplyOk bind_code_record

text \<open>The script: an optional field of the decoded record that is missing or empty asks for nothing.\<close>

definition differs :: "string option \<Rightarrow> string \<Rightarrow> bool" where
  "differs stored expected = (truthy stored \<and> stored \<noteq> Some expected)"

definition redis_get_record :: "int \<Rightarrow> string \<Rightarrow> bind_redis \<Rightarrow> bind_code_record option" where
  "redis_get_record nowMs key db = (case map_of db key of
     Some (r, e) \<Rightarrow> if e \<le> nowMs then None else Some r | None \<Rightarrow> None)"

definition redeemBindCodeScript ::
  "int \<Rightarrow> string \<Rightarrow> string \<Rightarrow> string \<Rightarrow> string \<Rightarrow> string \<Rightarrow> bind_redis \<Rightarrow> bind_redis \<times> script_reply" where
  "redeemBindCodeScript nowMs key expectedInstallationId expectedRequestId expectedBridgeNonce expectedRequestOrigin db =
     (case redis_get_record nowMs key db of
        None \<Rightarrow> (db, ReplyInvalid)
      | Some r \<Rightarrow>
          if bc_expiresAtMs r \<le> nowMs then (AList.delete key db, ReplyInvalid)
          else if expectedInstallationId \<noteq> [] \<and> bc_installationId r \<noteq> expectedInstallationId then (db, ReplyMismatch ''installationId'')
          else if differs (bc_requestId r) expectedRequestId then (db, ReplyMismatch ''requestId'')
          else if differs (bc_bridgeNonce r) expectedBridgeNonce then (db, ReplyMismatch ''bridgeNonce'')
          else if differs (bc_targetOrigin r) expectedRequestOrigin then (db, ReplyMismatch ''targetOrigin'')
          else (AList.delete key db, ReplyOk r))"

text \<open>Of the checks of \<open>deserializeBindCodeRecord\<close>, the one on the result can fail for a record that was stored.\<close>

definition deserializeBindCodeRecord :: "bind_code_record \<Rightarrow> bind_code_record option" where
  "deserializeBindCodeRecord r = (case bc_result r of JObj _ \<Rightarrow> Some r | JArr _ \<Rightarrow> Some r | _ \<Rightarrow> None)"

definition buildContextMismatchMessage :: "string \<Rightarrow> string" where
  "buildContextMismatchMessage field =
     (if field = ''installationId'' then ''Bind code context does not match installation id.''
      else if field = ''requestId'' then ''Bind code context does not match request id.''
      else if field = ''bridgeNonce'' then ''Bind code context does not match bridge nonce.''
      else if field = ''targetOrigin'' then ''Bind code request origin does not match the expected target origin.''
      else ''Bind code context does not match the expected bridge request.'')"

definition invalid_code :: redeem_result where
  "invalid_code = Refused InvalidOrExpired ''Bind code is invalid or expired.''"

text \<open>The context of a request, compared with a record in memory.\<close>

record bind_context =
  cx_installationId :: "string option"
  cx_requestId :: "string option"
  cx_bridgeNonce :: "string option"
  cx_requestOrigin :: "string option"

definition context_of :: "(string \<Rightarrow> url_parts option) \<Rightarrow> redeem_input \<Rightarrow> bind_context" where
  "context_of parseUrl i =
     \<lparr>cx_installationId = normalizeHeaderValue (ri_installationId i), cx_requestId = normalizeHeaderValue (ri_requestId i),
      cx_bridgeNonce = normalizeHeaderValue (ri_bridgeNonce i), cx_requestOrigin = normalizeBridgeOrigin parseUrl (ri_requestOrigin i)\<rparr>"

definition mismatched_field :: "bind_context \<Rightarrow> bind_code_record \<Rightarrow> string option" where
  "mismatched_field cx r =
     (if truthy (cx_installationId cx) \<and> cx_installationId cx \<noteq> Some (bc_installationId r) then Some ''installationId''
      else if truthy (bc_requestId r) \<and> cx_requestId cx \<noteq> bc_requestId r then Some ''requestId''
      else if truthy (bc_bridgeNonce r) \<and> cx_bridgeNonce cx \<noteq> bc_bridgeNonce r then Some ''bridgeNonce''
      else if truthy (bc_targetOrigin r) \<and> cx_requestOrigin cx \<noteq> bc_targetOrigin r then Some ''targetOrigin''
      else None)"

text \<open>The part of \<open>redeemBindFallbackCode\<close> that asks the memory of the server.\<close>

definition memory_take :: "int \<Rightarrow> bind_context \<Rightarrow> string \<Rightarrow> bind_instance \<Rightarrow> bind_instance \<times> redeem_result" where
  "memory_take nowMs cx code inst = (case map_of (bi_records inst) code of
     None \<Rightarrow> (delete_record code inst, invalid_code)
   | Some r \<Rightarrow>
       if bc_expiresAtMs r \<le> nowMs then (delete_record code inst, invalid_code)
       else (case mismatched_field cx r of
           Some field \<Rightarrow> (inst, Refused ContextMismatch (buildContextMismatchMessage field))
         | None \<Rightarrow> (delete_record code inst, Redeemed (bc_result r) (toISOString nowMs))))"

definition redeem_in_memory :: "bind_env \<Rightarrow> int \<Rightarrow> bind_context \<Rightarrow> string \<Rightarrow> bind_instance \<Rightarrow> bind_instance \<times> redeem_result" where
  "redeem_in_memory env nowMs cx code inst =
     (if isSharedStoreRequired env then
        (delete_record code inst,
         Refused StoreUnavailable ''Shared bind code store is unavailable. Reconnect the extension and retry.'')
      else memory_take nowMs cx code inst)"

text \<open>The part that reads the reply of the script: what it answers, and what it forgets.\<close>

definition reply_result :: "int \<Rightarrow> script_reply \<Rightarrow> redeem_result" where
  "reply_result nowMs reply = (case reply of
     ReplyOk r \<Rightarrow> (case deserializeBindCodeRecord r of None \<Rightarrow> invalid_code | Some d \<Rightarrow> Redeemed (bc_result d) (toISOString nowMs))
   | ReplyInvalid \<Rightarrow> invalid_code
   | ReplyMismatch field \<Rightarrow> Refused ContextMismatch (buildContextMismatchMessage field))"

definition read_reply :: "int \<Rightarrow> string \<Rightarrow> script_reply \<Rightarrow> bind_instance \<Rightarrow> bind_instance \<times> redeem_result" where
  "read_reply nowMs code reply inst =
     ((case reply of ReplyMismatch _ \<Rightarrow> inst | _ \<Rightarrow> delete_record code inst), reply_result nowMs reply)"

definition run_script :: "int \<Rightarrow> bind_context \<Rightarrow> string \<Rightarrow> bind_redis \<Rightarrow> bind_redis \<times> script_reply" where
  "run_script nowMs cx code =
     redeemBindCodeScript nowMs (buildRedisKey code) (nullish (cx_installationId cx) []) (nullish (cx_requestId cx) [])
       (nullish (cx_bridgeNonce cx) []) (nullish (cx_requestOrigin cx) [])"

definition redeemBindFallbackCode ::
  "bind_env \<Rightarrow> (string \<Rightarrow> url_parts option) \<Rightarrow> redis_call \<Rightarrow> int \<Rightarrow> redeem_input
   \<Rightarrow> bind_instance \<times> bind_redis \<Rightarrow> (bind_instance \<times> bind_redis) \<times> redeem_result" where
  "redeemBindFallbackCode env parseUrl call nowMs i s =
     (let (inst, db) = s;
          inst1 = pruneExpiredBindCodes nowMs inst
      in case normalizeHeaderValue (ri_code i) of
           None \<Rightarrow> ((inst1, db), Refused InvalidOrExpired ''Bind code is required.'')
         | Some code \<Rightarrow>
             let cx = context_of parseUrl i;
                 ((inst2, db'), answered) = withRedisStore env nowMs call (run_script nowMs cx code) (inst1, db)
             in case answered of
                  Some reply \<Rightarrow> let (inst3, res) = read_reply nowMs code reply inst2 in ((inst3, db'), res)
                | None \<Rightarrow> let (inst3, res) = redeem_in_memory env nowMs cx code inst2 in ((inst3, db'), res))"

section \<open>The routes\<close>

text \<open>What a route answers: a refusal with its status, or the bound installation and the code issued with it.\<close>

datatype route_answer = RouteError int json | RouteBound int json_object "bind_fallback_code option" | RouteThrows

definition maxEnvironmentLength :: nat where "maxEnvironmentLength = 64"

definition validBrowsers :: "string list" where
  "validBrowsers = [''chrome'', ''edge'', ''brave'', ''firefox'', ''safari'', ''other'']"

definition normalizeStringArray :: "json option \<Rightarrow> string list" where
  "normalizeStringArray v = (case v of
     Some (JArr items) \<Rightarrow> filter (\<lambda>s. s \<noteq> []) (map (\<lambda>x. case x of JStr s \<Rightarrow> trim s | _ \<Rightarrow> []) items)
   | _ \<Rightarrow> [])"

definition alnum :: "char \<Rightarrow> bool" where
  "alnum c = ((CHR ''A'' \<le> c \<and> c \<le> CHR ''Z'') \<or> (CHR ''a'' \<le> c \<and> c \<le> CHR ''z'') \<or> is_digit c)"

definition bridge_token :: "nat \<Rightarrow> nat \<Rightarrow> string option \<Rightarrow> string option" where
  "bridge_token lo hi v = (case normalizeHeaderValue v of
     None \<Rightarrow> None
   | Some s \<Rightarrow> if length s < lo \<or> hi < length s then None
              else if list_all (\<lambda>c. alnum c \<or> c \<in> set '':_-.'') s then Some s else None)"

definition normalizeBridgeNonce :: "string option \<Rightarrow> string option" where
  "normalizeBridgeNonce = bridge_token 8 128"

definition normalizeBridgeRequestId :: "string option \<Rightarrow> string option" where
  "normalizeBridgeRequestId = bridge_token 8 160"

definition normalizeBridgeMode :: "string option \<Rightarrow> string option" where
  "normalizeBridgeMode v = (case map_option (toLowerCase \<circ> trim) v of
     Some m \<Rightarrow> if m = ''bind_result'' \<or> m = ''fallback_code'' then Some m else None
   | None \<Rightarrow> None)"

definition normalizeEnvironment :: "json option \<Rightarrow> string option" where
  "normalizeEnvironment v = (case v of
     Some (JStr s) \<Rightarrow>
       let normalized = trim s
       in if normalized = [] \<or> maxEnvironmentLength < length normalized then None
          else if list_all (\<lambda>c. alnum c \<or> c \<in> set ''._-'') normalized then Some normalized else None
   | _ \<Rightarrow> None)"

definition normalizeHandshake :: "json option \<Rightarrow> compatibility_handshake option result" where
  "normalizeHandshake v = (case v of
     Some (JObj raw) \<Rightarrow>
       bindR (trim_field raw ''extensionVersion'') (\<lambda>extensionVersion.
       bindR (trim_field raw ''schemaVersion'') (\<lambda>schemaVersion.
         let capabilities = normalizeStringArray (map_of raw ''capabilities'');
             browser = (case map_of raw ''browser'' of Some (JStr b) \<Rightarrow> if b \<in> set validBrowsers then Some b else None | _ \<Rightarrow> None)
         in if \<not> truthy extensionVersion \<or> \<not> truthy schemaVersion \<or> capabilities = [] \<or> browser = None then Inr None
            else bindR (trim_field raw ''buildId'') (\<lambda>buildId.
              Inr (Some \<lparr>hs_extensionVersion = the extensionVersion, hs_buildId = Option.bind buildId or_undefined,
                         hs_schemaVersion = the schemaVersion, hs_capabilities = capabilities, hs_browser = the browser\<rparr>))))
   | _ \<Rightarrow> Inr None)"

text \<open>A request that passed the checks of the route.\<close>

record bind_request =
  br_installationId :: string
  br_environment :: string
  br_handshake :: compatibility_handshake
  br_requestId :: "string option"
  br_bridgeNonce :: "string option"
  br_targetOrigin :: "string option"
  br_bridgeMode :: string

definition body_field :: "json option \<Rightarrow> string \<Rightarrow> json option" where
  "body_field body key = (case body of Some (JObj raw) \<Rightarrow> map_of raw key | _ \<Rightarrow> None)"

definition header_of :: "(string \<times> string) list \<Rightarrow> string \<Rightarrow> string option" where
  "header_of headers name = normalizeHeaderValue (map_of headers name)"

definition read_bind_request ::
  "(string \<Rightarrow> url_parts option) \<Rightarrow> json option \<Rightarrow> (string \<times> string) list \<Rightarrow> bind_request result" where
  \<open>read_bind_request parseUrl body headers =
     (let installationId = (case body_field body ''installationId'' of Some (JStr s) \<Rightarrow> trim s | _ \<Rightarrow> []);
          rawEnvironment = (case body_field body ''environment'' of Some (JStr s) \<Rightarrow> s | _ \<Rightarrow> []);
          environment = normalizeEnvironment (body_field body ''environment'');
          rawRequestId = header_of headers ''x-quizmind-bind-request-id''; requestId = normalizeBridgeRequestId rawRequestId;
          rawBridgeNonce = header_of headers ''x-quizmind-bridge-nonce''; bridgeNonce = normalizeBridgeNonce rawBridgeNonce;
          rawTargetOrigin = header_of headers ''x-quizmind-target-origin''; targetOrigin = normalizeBridgeOrigin parseUrl rawTargetOrigin;
          rawBridgeMode = header_of headers ''x-quizmind-bridge-mode''; bridgeMode = nullish (normalizeBridgeMode rawBridgeMode) ''bind_result''
      in bindR (normalizeHandshake (body_field body ''handshake'')) (\<lambda>handshake.
         if rawEnvironment \<noteq> [] \<and> environment = None then Inl (BadRequest
           ''environment must be 1-64 characters using A-Z, a-z, 0-9, ".", "_", or "-".'')
         else if installationId = [] \<or> environment = None \<or> handshake = None then Inl (BadRequest
           ''installationId, environment, and a valid handshake are required.'')
         else if rawBridgeNonce \<noteq> None \<and> bridgeNonce = None then Inl (BadRequest
           ''x-quizmind-bridge-nonce must be 8-128 characters using A-Z, a-z, 0-9, "_", "-", ".", or ":".'')
         else if rawRequestId \<noteq> None \<and> requestId = None then Inl (BadRequest
           ''x-quizmind-bind-request-id must be 8-160 characters using A-Z, a-z, 0-9, "_", "-", ".", or ":".'')
         else if rawTargetOrigin \<noteq> None \<and> \<not> truthy targetOrigin then Inl (BadRequest
           ''x-quizmind-target-origin must be a valid http(s) or extension origin.'')
         else if rawBridgeMode \<noteq> None \<and> normalizeBridgeMode rawBridgeMode = None then Inl (BadRequest
           ''x-quizmind-bridge-mode must be one of: bind_result, fallback_code.'')
         else if (bridgeNonce \<noteq> None) \<noteq> truthy targetOrigin then Inl (BadRequest
           ''x-quizmind-bridge-nonce and x-quizmind-target-origin must be provided together.'')
         else if (bridgeNonce \<noteq> None \<or> truthy targetOrigin) \<and> requestId = None then Inl (BadRequest
           ''x-quizmind-bind-request-id is required when secure bridge headers are provided.'')
         else if bridgeMode = ''fallback_code'' \<and> (requestId = None \<or> bridgeNonce = None \<or> \<not> truthy targetOrigin) then Inl (BadRequest
           ''x-quizmind-bridge-mode=fallback_code requires x-quizmind-bind-request-id, x-quizmind-bridge-nonce, and x-quizmind-target-origin.'')
         else Inr \<lparr>br_installationId = installationId, br_environment = the environment, br_handshake = the handshake,
                   br_requestId = requestId, br_bridgeNonce = bridgeNonce, br_targetOrigin = targetOrigin, br_bridgeMode = bridgeMode\<rparr>))\<close>

text \<open>The answer of the API to the bind request: none, or its status and its body when that is JSON.\<close>

datatype api_reply = Unreachable | ApiReply int "json option"

definition bind_failed :: json where
  "bind_failed = JStr ''Unable to bind the extension installation right now.''"

text \<open>\<open>key in value\<close>: defined on objects and arrays only.\<close>

datatype upstream = UpstreamData json_object | UpstreamFailure json | UpstreamThrows

definition failure_message :: "json_object \<Rightarrow> json" where
  "failure_message raw = (case map_of raw ''message'' of
     None \<Rightarrow> bind_failed
   | Some (JArr []) \<Rightarrow> bind_failed
   | Some (JArr (m # _)) \<Rightarrow> if m = JNull then bind_failed else m
   | Some m \<Rightarrow> if m = JNull then bind_failed else m)"

definition read_api_reply :: "int \<Rightarrow> json option \<Rightarrow> upstream" where
  "read_api_reply status payload =
     (let ok = (200 \<le> status \<and> status \<le> 299) in
      case payload of
        None \<Rightarrow> UpstreamFailure bind_failed
      | Some (JObj raw) \<Rightarrow>
          if \<not> ok \<or> \<not> (case map_of raw ''ok'' of Some v \<Rightarrow> json_truthy v | None \<Rightarrow> False) then UpstreamFailure (failure_message raw)
          else UpstreamData (case map_of raw ''data'' of Some (JObj d) \<Rightarrow> d | _ \<Rightarrow> [])
      | Some (JArr _) \<Rightarrow> UpstreamFailure bind_failed
      | Some v \<Rightarrow> if json_truthy v then UpstreamThrows else UpstreamFailure bind_failed)"

definition bindRoute ::
  "bind_env \<Rightarrow> (string \<Rightarrow> url_parts option) \<Rightarrow> redis_call \<Rightarrow> string \<Rightarrow> int \<Rightarrow> string \<Rightarrow> (string \<Rightarrow> bind_request \<Rightarrow> api_reply)
   \<Rightarrow> string option \<Rightarrow> json option \<Rightarrow> (string \<times> string) list \<Rightarrow> bind_instance \<times> bind_redis \<Rightarrow> (bind_instance \<times> bind_redis) \<times> route_answer" where
  "bindRoute env parseUrl call code nowMs apiUrl api accessToken body headers s =
     (if \<not> truthy accessToken then (s, RouteError 401 (JStr ''Sign in on the site before connecting the extension.''))
      else case read_bind_request parseUrl body headers of
        Inl (BadRequest message) \<Rightarrow> (s, RouteError 400 (JStr message))
      | Inl _ \<Rightarrow> (s, RouteThrows)
      | Inr request \<Rightarrow>
          (case api (the accessToken) request of
             Unreachable \<Rightarrow> (s, RouteError 503 (JStr ''Platform bind service is unavailable right now.''))
           | ApiReply status payload \<Rightarrow>
               (case read_api_reply status payload of
                  UpstreamThrows \<Rightarrow> (s, RouteThrows)
                | UpstreamFailure message \<Rightarrow> (s, RouteError (if status = 0 then 500 else status) message)
                | UpstreamData d \<Rightarrow>
                    let result = AList.update ''platformApiBaseUrl'' (JStr apiUrl) d
                    in if br_bridgeMode request = ''fallback_code'' \<and> br_requestId request \<noteq> None \<and> br_bridgeNonce request \<noteq> None
                         \<and> truthy (br_targetOrigin request)
                       then let (s', issued) = issueBindFallbackCode env parseUrl call code nowMs
                              \<lparr>ii_result = JObj result, ii_installationId = br_installationId request, ii_requestId = br_requestId request,
                               ii_bridgeNonce = br_bridgeNonce request, ii_targetOrigin = br_targetOrigin request, ii_ttlSeconds = None\<rparr> s
                            in (s', RouteBound status result (case issued of Inr c \<Rightarrow> Some c | Inl _ \<Rightarrow> None))
                       else (s, RouteBound status result None))))"

definition body_string :: "json option \<Rightarrow> string \<Rightarrow> string option" where
  "body_string body key = (case body_field body key of Some (JStr s) \<Rightarrow> Some s | _ \<Rightarrow> None)"

definition redeem_status :: "redeem_result \<Rightarrow> int" where
  "redeem_status res = (case res of
     Redeemed _ _ \<Rightarrow> 200 | Refused InvalidOrExpired _ \<Rightarrow> 404 | Refused ContextMismatch _ \<Rightarrow> 403 | Refused StoreUnavailable _ \<Rightarrow> 503)"

definition buildCorsHeaders :: "(string \<Rightarrow> url_parts option) \<Rightarrow> string option \<Rightarrow> (string \<times> string) list" where
  "buildCorsHeaders parseUrl originHeader =
     (let normalizedOrigin = normalizeBridgeOrigin parseUrl originHeader
      in if \<not> truthy normalizedOrigin then []
         else [(''access-control-allow-origin'', the normalizedOrigin), (''access-control-allow-methods'', ''POST, OPTIONS''),
               (''access-control-allow-headers'', ''content-type''), (''vary'', ''origin'')])"

definition redeemRoute ::
  "bind_env \<Rightarrow> (string \<Rightarrow> url_parts option) \<Rightarrow> redis_call \<Rightarrow> int \<Rightarrow> json option \<Rightarrow> (string \<times> string) list
   \<Rightarrow> bind_instance \<times> bind_redis \<Rightarrow> (bind_instance \<times> bind_redis) \<times> int \<times> redeem_result \<times> (string \<times> string) list" where
  "redeemRoute env parseUrl call nowMs body headers s =
     (let requestOrigin = map_of headers ''origin'';
          (s', res) = redeemBindFallbackCode env parseUrl call nowMs
            \<lparr>ri_code = body_string body ''code'', ri_installationId = body_string body ''installationId'',
             ri_requestId = body_string body ''requestId'', ri_bridgeNonce = body_string body ''bridgeNonce'', ri_requestOrigin = requestOrigin\<rparr> s
      in (s', redeem_status res, res, buildCorsHeaders parseUrl requestOrigin))"

section \<open>The contract of a store of codes\<close>

text \<open>What a store should answer for the record it holds.\<close>

definition verdict :: "int \<Rightarrow> bind_context \<Rightarrow> bind_code_record option \<Rightarrow> redeem_result" where
  "verdict nowMs cx held = (case held of
     None \<Rightarrow> invalid_code
   | Some r \<Rightarrow>
       if bc_expiresAtMs r \<le> nowMs then invalid_code
       else (case mismatched_field cx r of
           Some field \<Rightarrow> Refused ContextMismatch (buildContextMismatchMessage field)
         | None \<Rightarrow> Redeemed (bc_result r) (toISOString nowMs)))"

definition is_redeemed :: "redeem_result \<Rightarrow> bool" where
  "is_redeemed res = (case res of Redeemed _ _ \<Rightarrow> True | Refused _ _ \<Rightarrow> False)"

lemma is_redeemed_simps [simp]: "is_redeemed (Redeemed x t)" "\<not> is_redeemed (Refused f m)" "\<not> is_redeemed invalid_code"
  by (simp_all add: is_redeemed_def invalid_code_def)

locale one_use_store =
  fixes take :: "int \<Rightarrow> bind_context \<Rightarrow> string \<Rightarrow> 's \<Rightarrow> 's \<times> redeem_result"
    and holds :: "'s \<Rightarrow> string \<Rightarrow> bind_code_record option"
    and ok :: "'s \<Rightarrow> bool"
  assumes answers: "ok s \<Longrightarrow> snd (take t cx c s) = verdict t cx (holds s c)"
    and taken: "is_redeemed (snd (take t cx c s)) \<Longrightarrow> holds (fst (take t cx c s)) c = None"
    and others: "holds (fst (take t cx c s)) j = holds s j \<or> (j = c \<and> holds (fst (take t cx c s)) j = None)"
    and stays_ok: "ok s \<Longrightarrow> ok (fst (take t cx c s))"
begin

lemma used_up:
  assumes "ok s" and "is_redeemed (snd (take t cx c s))"
  shows "\<not> is_redeemed (snd (take u cx' c (fst (take t cx c s))))"
  using answers [OF stays_ok [OF assms(1)]] taken [OF assms(2)] by (simp add: verdict_def)

lemma refused_keeps:
  assumes "ok s" and "holds s c = Some r" and "mismatched_field cx r = None" and "t < bc_expiresAtMs r"
  shows "is_redeemed (snd (take t cx c s))"
  using answers [OF assms(1), of t cx c] assms(2-4) by (simp add: verdict_def)

end

definition objects_ok :: "bind_code_record \<Rightarrow> bool" where
  "objects_ok r = (deserializeBindCodeRecord r = Some r)"

definition memory_ok :: "bind_instance \<Rightarrow> bool" where
  "memory_ok s = list_all (\<lambda>(c, r). objects_ok r) (bi_records s)"

definition redis_ok :: "bind_redis \<Rightarrow> bool" where
  "redis_ok db = list_all (\<lambda>(k, r, e). objects_ok r \<and> e = bc_expiresAtMs r) db"

definition redis_take :: "int \<Rightarrow> bind_context \<Rightarrow> string \<Rightarrow> bind_redis \<Rightarrow> bind_redis \<times> redeem_result" where
  "redis_take nowMs cx code db = (let (db', reply) = run_script nowMs cx code db in (db', reply_result nowMs reply))"

definition redis_holds :: "bind_redis \<Rightarrow> string \<Rightarrow> bind_code_record option" where
  "redis_holds db c = map_option fst (map_of db (buildRedisKey c))"

lemma map_of_delete [simp]: "map_of (AList.delete k xs) j = (if j = k then None else map_of xs j)"
  by (simp add: delete_conv')

lemma list_all_delete: "list_all P xs \<Longrightarrow> list_all P (AList.delete k xs)"
  by (auto simp: list_all_iff AList.delete_eq)

lemma list_all_map_of: "list_all (\<lambda>(k, v). P v) xs \<Longrightarrow> map_of xs k = Some v \<Longrightarrow> P v"
  by (auto simp: list_all_iff dest: map_of_SomeD)

lemma buildRedisKey_inj [simp]: "buildRedisKey a = buildRedisKey b \<longleftrightarrow> a = b"
  by (simp add: buildRedisKey_def)

interpretation memory_codes: one_use_store memory_take "\<lambda>s. map_of (bi_records s)" memory_ok
proof
  fix s :: bind_instance and t cx c j
  show "snd (memory_take t cx c s) = verdict t cx (map_of (bi_records s) c)"
    by (simp add: memory_take_def verdict_def split: option.split)
  show "is_redeemed (snd (memory_take t cx c s)) \<Longrightarrow> map_of (bi_records (fst (memory_take t cx c s))) c = None"
    by (auto simp: memory_take_def delete_record_def split: option.splits if_splits)
  show "map_of (bi_records (fst (memory_take t cx c s))) j = map_of (bi_records s) j
      \<or> (j = c \<and> map_of (bi_records (fst (memory_take t cx c s))) j = None)"
    by (auto simp: memory_take_def delete_record_def split: option.splits)
  show "memory_ok s \<Longrightarrow> memory_ok (fst (memory_take t cx c s))"
    by (auto simp: memory_take_def delete_record_def memory_ok_def list_all_delete split: option.splits)
qed

text \<open>The comparisons of the script are those of the memory, on normalised context.\<close>

lemma expected_installation: "(nullish v [] \<noteq> [] \<and> i \<noteq> nullish v []) = (truthy v \<and> v \<noteq> Some i)"
  by (cases v) auto

lemma differs_nullish: "differs stored (nullish v []) = (truthy stored \<and> v \<noteq> stored)"
  by (cases stored; cases v) (auto simp: differs_def)

lemma case_checks:
  "(case (if a then Some x else if b then Some y else if c then Some z else if d then Some w else None) of None \<Rightarrow> n | Some f \<Rightarrow> g f)
     = (if a then g x else if b then g y else if c then g z else if d then g w else n)"
  by simp

lemma script_reply:
  "run_script t cx c db = (case map_of db (buildRedisKey c) of
     None \<Rightarrow> (db, ReplyInvalid)
   | Some (r, e) \<Rightarrow>
       if e \<le> t then (db, ReplyInvalid)
       else if bc_expiresAtMs r \<le> t then (AList.delete (buildRedisKey c) db, ReplyInvalid)
       else (case mismatched_field cx r of
           Some field \<Rightarrow> (db, ReplyMismatch field)
         | None \<Rightarrow> (AList.delete (buildRedisKey c) db, ReplyOk r)))"
proof (cases "map_of db (buildRedisKey c)")
  case None
  then show ?thesis by (simp add: run_script_def redeemBindCodeScript_def redis_get_record_def)
next
  case (Some p)
  obtain r e where "p = (r, e)" by (cases p)
  with Some show ?thesis
    unfolding run_script_def redeemBindCodeScript_def redis_get_record_def mismatched_field_def expected_installation differs_nullish
      case_checks by (cases "e \<le> t") simp_all
qed

interpretation redis_codes: one_use_store redis_take redis_holds redis_ok
proof
  fix s :: bind_redis and t cx c j
  show "snd (redis_take t cx c s) = verdict t cx (redis_holds s c)" if "redis_ok s"
  proof (cases "map_of s (buildRedisKey c)")
    case (Some p)
    then obtain r e where p: "map_of s (buildRedisKey c) = Some (r, e)" by (cases p) auto
    then have "objects_ok r" "e = bc_expiresAtMs r"
      using that list_all_map_of [of "\<lambda>(r, e). objects_ok r \<and> e = bc_expiresAtMs r" s] by (auto simp: redis_ok_def)
    then show ?thesis using p
      by (simp add: redis_take_def script_reply redis_holds_def verdict_def reply_result_def objects_ok_def split: option.split)
  qed (simp add: redis_take_def script_reply redis_holds_def verdict_def reply_result_def)
  show "is_redeemed (snd (redis_take t cx c s)) \<Longrightarrow> redis_holds (fst (redis_take t cx c s)) c = None"
    by (auto simp: redis_take_def script_reply redis_holds_def reply_result_def split: option.splits if_splits)
  show "redis_holds (fst (redis_take t cx c s)) j = redis_holds s j
      \<or> (j = c \<and> redis_holds (fst (redis_take t cx c s)) j = None)"
    by (auto simp: redis_take_def script_reply redis_holds_def split: option.splits if_splits)
  show "redis_ok s \<Longrightarrow> redis_ok (fst (redis_take t cx c s))"
    by (auto simp: redis_take_def script_reply redis_ok_def list_all_delete split: option.splits if_splits)
qed

section \<open>Several web servers\<close>

record bind_cluster =
  bl_instances :: "nat \<Rightarrow> bind_instance"
  bl_redis :: bind_redis

text \<open>A request to one of the servers, with what becomes of its call to Redis.\<close>

datatype bind_event =
    Issues nat redis_call string int issue_input
  | Redeems nat redis_call int redeem_input

definition lift_instance :: "nat \<Rightarrow> (bind_instance \<times> bind_redis \<Rightarrow> (bind_instance \<times> bind_redis) \<times> 'a) \<Rightarrow> bind_cluster \<Rightarrow> bind_cluster \<times> 'a" where
  "lift_instance k f cl = (case f (bl_instances cl k, bl_redis cl) of
     ((inst, db), x) \<Rightarrow> (\<lparr>bl_instances = (bl_instances cl)(k := inst), bl_redis = db\<rparr>, x))"

text \<open>The codes a run redeems, with the result they gave.\<close>

definition redeemed_code :: "redeem_input \<Rightarrow> redeem_result \<Rightarrow> (string \<times> json) list" where
  "redeemed_code i res = (case res of
     Redeemed result _ \<Rightarrow> (case normalizeHeaderValue (ri_code i) of Some c \<Rightarrow> [(c, result)] | None \<Rightarrow> [])
   | Refused _ _ \<Rightarrow> [])"

fun bind_run :: "bind_env \<Rightarrow> (string \<Rightarrow> url_parts option) \<Rightarrow> bind_event list \<Rightarrow> bind_cluster \<Rightarrow> (string \<times> json) list" where
  "bind_run env parseUrl [] cl = []"
| "bind_run env parseUrl (Issues k call c now i # es) cl =
     bind_run env parseUrl es (fst (lift_instance k (issueBindFallbackCode env parseUrl call c now i) cl))"
| "bind_run env parseUrl (Redeems k call now i # es) cl =
     (let (cl', res) = lift_instance k (redeemBindFallbackCode env parseUrl call now i) cl
      in redeemed_code i res @ bind_run env parseUrl es cl')"

definition empty_cluster :: bind_cluster where
  "empty_cluster = \<lparr>bl_instances = (\<lambda>_. \<lparr>bi_records = [], bi_disabledUntilMs = 0\<rparr>), bl_redis = []\<rparr>"

fun issued_codes :: "bind_event list \<Rightarrow> string list" where
  "issued_codes [] = []"
| "issued_codes (Issues k call c now i # es) = c # issued_codes es"
| "issued_codes (Redeems k call now i # es) = issued_codes es"

text \<open>No answer to the writing of a code was lost after the write took effect.\<close>

fun no_lost_write :: "bind_event list \<Rightarrow> bool" where
  "no_lost_write [] = True"
| "no_lost_write (Issues k call c now i # es) = (call \<noteq> AnswerLost \<and> no_lost_write es)"
| "no_lost_write (Redeems k call now i # es) = no_lost_write es"

section \<open>Where a code is kept\<close>

definition in_memory :: "bind_instance \<Rightarrow> string \<Rightarrow> bool" where
  "in_memory s c = (c \<in> fst ` set (bi_records s))"

definition in_redis :: "bind_redis \<Rightarrow> string \<Rightarrow> bool" where
  "in_redis db c = (buildRedisKey c \<in> fst ` set db)"

lemma in_memory_delete: "in_memory (delete_record c s) d \<longleftrightarrow> in_memory s d \<and> d \<noteq> c"
  by (force simp: in_memory_def delete_record_def AList.delete_eq)

lemma in_memory_prune: "in_memory (pruneExpiredBindCodes t s) c \<Longrightarrow> in_memory s c"
  by (auto simp: in_memory_def pruneExpiredBindCodes_def)

lemma in_memory_disable [simp]: "in_memory (disableRedisStore t s) c = in_memory s c"
  by (simp add: in_memory_def disableRedisStore_def)

lemma in_memory_trim: "in_memory (trimStoreToLimit s) c \<Longrightarrow> in_memory s c"
proof -
  have "in_memory (fold (\<lambda>r. delete_record (bc_code r)) rs s) c \<Longrightarrow> in_memory s c" for rs s
  proof (induction rs arbitrary: s)
    case (Cons r rs)
    then show ?case using in_memory_delete by (metis (no_types, lifting) fold_simps(2))
  qed simp
  then show "in_memory (trimStoreToLimit s) c \<Longrightarrow> in_memory s c" by (auto simp: trimStoreToLimit_def Let_def split: if_splits)
qed

lemma in_memory_update: "in_memory (s\<lparr>bi_records := AList.update c r (bi_records s)\<rparr>) d \<longleftrightarrow> d = c \<or> in_memory s d"
  by (auto simp: in_memory_def dom_update)

lemma in_redis_set: "in_redis (fst (redis_set_record r db)) c \<longleftrightarrow> c = bc_code r \<or> in_redis db c"
  by (auto simp: in_redis_def redis_set_record_def dom_update)

lemma in_redis_script: "in_redis (fst (run_script t cx c db)) d \<Longrightarrow> in_redis db d"
  by (auto simp: script_reply in_redis_def AList.delete_eq split: option.splits if_splits prod.splits)

lemma script_takes: "run_script t cx c db = (db', ReplyOk r) \<Longrightarrow> \<not> in_redis db' c \<and> in_redis db c"
  by (auto simp: script_reply in_redis_def AList.delete_eq dest!: map_of_SomeD split: option.splits if_splits prod.splits)
    (force+)?

lemma set_record: "redis_set_record r db = (db1, x) \<Longrightarrow> x \<and> in_redis db1 c = (c = bc_code r \<or> in_redis db c)"
  using in_redis_set [of r db c] by (auto simp: redis_set_record_def)

lemma in_memoryI: "map_of (bi_records s) c = Some r \<Longrightarrow> in_memory s c"
  by (auto simp: in_memory_def dest!: map_of_SomeD) (metis fst_conv image_eqI)

lemma issue_keeps:
  assumes "issueBindFallbackCode env parseUrl call c now i (inst, db) = ((inst', db'), r)"
  shows "in_memory inst' d \<Longrightarrow> d = c \<or> in_memory inst d" and "in_redis db' d \<Longrightarrow> d = c \<or> in_redis db d"
    and "call \<noteq> AnswerLost \<Longrightarrow> \<not> in_redis db c \<Longrightarrow> \<not> (in_memory inst' c \<and> in_redis db' c)"
proof -
  let ?r = "new_record parseUrl c now i"
  let ?i1 = "pruneExpiredBindCodes now inst"
  let ?i2 = "trimStoreToLimit (?i1\<lparr>bi_records := AList.update c ?r (bi_records ?i1)\<rparr>)"
  obtain inst3 db3 stored where w: "withRedisStore env now call (redis_set_record ?r) (?i2, db) = ((inst3, db3), stored)"
    by (metis prod.collapse)
  have code: "bc_code ?r = c" by (simp add: new_record_def)
  have m: "in_memory ?i2 d \<Longrightarrow> d = c \<or> in_memory inst d" for d
    using in_memory_trim in_memory_update in_memory_prune by blast
  have w1: "in_memory inst3 d = in_memory ?i2 d" and w2: "in_redis db3 d \<Longrightarrow> d = c \<or> in_redis db d"
    and w3: "in_redis db3 c \<Longrightarrow> stored = Some True \<or> call = AnswerLost \<or> in_redis db c" for d
    using w set_record [of ?r db] in_redis_set [of ?r db] unfolding code
    by (auto simp: withRedisStore_def split: if_splits redis_call.splits prod.splits)
  have out: "inst' = (if stored = Some True \<or> isSharedStoreRequired env then delete_record c inst3 else inst3)" "db' = db3"
    using assms w by (auto simp: issueBindFallbackCode_def Let_def split: if_splits)
  show "in_memory inst' d \<Longrightarrow> d = c \<or> in_memory inst d" using m w1 by (auto simp: out in_memory_delete split: if_splits)
  show "in_redis db' d \<Longrightarrow> d = c \<or> in_redis db d" using w2 by (simp add: out)
  show "call \<noteq> AnswerLost \<Longrightarrow> \<not> in_redis db c \<Longrightarrow> \<not> (in_memory inst' c \<and> in_redis db' c)"
    using w3 by (auto simp: out in_memory_delete)
qed

lemma redeem_keeps:
  assumes "redeemBindFallbackCode env parseUrl call now i (inst, db) = ((inst', db'), res)"
  shows "in_memory inst' d \<Longrightarrow> in_memory inst d" and "in_redis db' d \<Longrightarrow> in_redis db d"
    and "redeemed_code i res = [] \<or> (\<exists>c result. redeemed_code i res = [(c, result)] \<and> \<not> in_memory inst' c
      \<and> (\<not> in_redis db' c \<and> in_redis db c \<or> in_memory inst c))"
proof -
  let ?i1 = "pruneExpiredBindCodes now inst" and ?cx = "context_of parseUrl i"
  note prune = in_memory_prune [of now inst]
  have "(in_memory inst' d \<longrightarrow> in_memory inst d) \<and> (in_redis db' d \<longrightarrow> in_redis db d)
    \<and> (redeemed_code i res = [] \<or> (\<exists>c result. redeemed_code i res = [(c, result)] \<and> \<not> in_memory inst' c
      \<and> (\<not> in_redis db' c \<and> in_redis db c \<or> in_memory inst c)))" for d
  proof (cases "normalizeHeaderValue (ri_code i)")
    case None
    then show ?thesis using assms prune by (auto simp: redeemBindFallbackCode_def redeemed_code_def Let_def)
  next
    case (Some c)
    obtain inst2 db2 ans where w: "withRedisStore env now call (run_script now ?cx c) (?i1, db) = ((inst2, db2), ans)"
      by (metis prod.collapse)
    have w1: "in_memory inst2 d \<Longrightarrow> in_memory inst d" and w2: "in_redis db2 d \<Longrightarrow> in_redis db d" for d
      using w prune in_redis_script by (auto simp: withRedisStore_def split: if_splits redis_call.splits prod.splits) (metis fst_conv)+
    have w3: "ans = Some (ReplyOk r) \<Longrightarrow> \<not> in_redis db2 c \<and> in_redis db c" for r
      using w script_takes by (auto simp: withRedisStore_def split: if_splits redis_call.splits prod.splits)
    show ?thesis
    proof (cases ans)
      case None
      have "redeem_in_memory env now ?cx c inst2 = (inst', res)" "db' = db2"
        using assms Some w None by (auto simp: redeemBindFallbackCode_def Let_def split: prod.splits)
      then show ?thesis using w1 w2 Some
        by (auto simp: redeem_in_memory_def memory_take_def in_memory_delete redeemed_code_def invalid_code_def
            dest: in_memoryI split: if_splits option.splits)
    next
      case reply: (Some rep)
      have "read_reply now c rep inst2 = (inst', res)" "db' = db2"
        using assms Some w reply by (auto simp: redeemBindFallbackCode_def Let_def split: prod.splits)
      then show ?thesis using w1 w2 w3 Some reply
        by (cases rep) (auto simp: read_reply_def reply_result_def in_memory_delete redeemed_code_def invalid_code_def split: option.splits)
    qed
  qed
  then show "in_memory inst' d \<Longrightarrow> in_memory inst d" and "in_redis db' d \<Longrightarrow> in_redis db d"
    and "redeemed_code i res = [] \<or> (\<exists>c result. redeemed_code i res = [(c, result)] \<and> \<not> in_memory inst' c
      \<and> (\<not> in_redis db' c \<and> in_redis db c \<or> in_memory inst c))" by blast+
qed

section \<open>A code is kept in one place\<close>

definition available :: "bind_cluster \<Rightarrow> string \<Rightarrow> bool" where
  "available cl c = ((\<exists>k. in_memory (bl_instances cl k) c) \<or> in_redis (bl_redis cl) c)"

definition one_place :: "bind_cluster \<Rightarrow> bool" where
  "one_place cl = (\<forall>c j k. in_memory (bl_instances cl j) c \<longrightarrow>
     (in_memory (bl_instances cl k) c \<longrightarrow> j = k) \<and> \<not> in_redis (bl_redis cl) c)"

lemma issue_step:
  assumes "fst (lift_instance k (issueBindFallbackCode env parseUrl call c now i) cl) = cl'" and "one_place cl"
    and "\<not> available cl c" and "call \<noteq> AnswerLost"
  shows "one_place cl' \<and> (\<forall>d. available cl' d \<longrightarrow> d = c \<or> available cl d)"
proof -
  obtain inst' db' r where i: "issueBindFallbackCode env parseUrl call c now i (bl_instances cl k, bl_redis cl) = ((inst', db'), r)"
    by (metis prod.collapse)
  note keep = issue_keeps [OF i]
  have cl': "cl' = \<lparr>bl_instances = (bl_instances cl)(k := inst'), bl_redis = db'\<rparr>" using assms(1) i by (simp add: lift_instance_def)
  have new: "\<not> in_redis (bl_redis cl) c" "\<not> in_memory (bl_instances cl j) c" for j using assms(3) by (auto simp: available_def)
  show ?thesis
  proof
    show "one_place cl'" using assms(2,4) keep new unfolding one_place_def cl' by (simp, metis)
    show "\<forall>d. available cl' d \<longrightarrow> d = c \<or> available cl d" using keep by (auto simp: available_def cl' split: if_splits)
  qed
qed

lemma redeem_step:
  assumes "lift_instance k (redeemBindFallbackCode env parseUrl call now i) cl = (cl', res)" and "one_place cl"
  shows "one_place cl' \<and> (\<forall>d. available cl' d \<longrightarrow> available cl d)
    \<and> (redeemed_code i res = [] \<or> (\<exists>c result. redeemed_code i res = [(c, result)] \<and> available cl c \<and> \<not> available cl' c))"
proof -
  obtain inst' db' where i: "redeemBindFallbackCode env parseUrl call now i (bl_instances cl k, bl_redis cl) = ((inst', db'), res)"
    and cl': "cl' = \<lparr>bl_instances = (bl_instances cl)(k := inst'), bl_redis = db'\<rparr>"
    using assms(1) by (auto simp: lift_instance_def split: prod.splits)
  note keep = redeem_keeps [OF i]
  have "one_place cl'" using assms(2) keep(1,2) unfolding one_place_def cl' by (simp, metis)
  moreover have "\<forall>d. available cl' d \<longrightarrow> available cl d" using keep(1,2) by (auto simp: available_def cl' split: if_splits)
  moreover have "available cl c \<and> \<not> available cl' c"
    if "\<not> in_memory inst' c" "\<not> in_redis db' c \<and> in_redis (bl_redis cl) c \<or> in_memory (bl_instances cl k) c" for c
    using that assms(2) keep(2) unfolding available_def cl' one_place_def by (simp, metis)
  ultimately show ?thesis using keep(3) by blast
qed

section \<open>What is held for a code\<close>

definition held :: "bind_instance \<times> bind_redis \<Rightarrow> string \<Rightarrow> bind_code_record \<Rightarrow> bool" where
  "held s c r = ((c, r) \<in> set (bi_records (fst s)) \<or> (\<exists>e. (buildRedisKey c, r, e) \<in> set (snd s)))"

lemma set_AList_update: "p \<in> set (AList.update k v xs) \<Longrightarrow> p = (k, v) \<or> p \<in> set xs"
  by (induction xs) (auto split: if_splits)

lemma records_delete: "p \<in> set (bi_records (delete_record c s)) \<Longrightarrow> p \<in> set (bi_records s)"
  by (auto simp: delete_record_def AList.delete_eq)

lemma records_trim: "p \<in> set (bi_records (trimStoreToLimit s)) \<Longrightarrow> p \<in> set (bi_records s)"
proof -
  have "p \<in> set (bi_records (fold (\<lambda>r. delete_record (bc_code r)) rs s)) \<Longrightarrow> p \<in> set (bi_records s)" for rs s
  proof (induction rs arbitrary: s)
    case (Cons r rs)
    then show ?case using records_delete by (metis (no_types, lifting) fold_simps(2))
  qed simp
  then show "p \<in> set (bi_records (trimStoreToLimit s)) \<Longrightarrow> p \<in> set (bi_records s)"
    by (auto simp: trimStoreToLimit_def Let_def split: if_splits)
qed

lemma with_redis:
  "withRedisStore env now call f (inst, db) = ((inst', db'), x) \<Longrightarrow>
     bi_records inst' = bi_records inst \<and> (db' = db \<or> db' = fst (f db)) \<and> (x = None \<or> x = Some (snd (f db)))"
  by (auto simp: withRedisStore_def disableRedisStore_def split: if_splits redis_call.splits prod.splits)

lemma issue_holds:
  assumes "issueBindFallbackCode env parseUrl call c now i (inst, db) = ((inst', db'), res)" and "held (inst', db') d r"
  shows "held (inst, db) d r \<or> (d = c \<and> r = new_record parseUrl c now i)"
proof -
  let ?r = "new_record parseUrl c now i"
  let ?i1 = "pruneExpiredBindCodes now inst"
  let ?i2 = "trimStoreToLimit (?i1\<lparr>bi_records := AList.update c ?r (bi_records ?i1)\<rparr>)"
  obtain inst3 db3 stored where w: "withRedisStore env now call (redis_set_record ?r) (?i2, db) = ((inst3, db3), stored)"
    by (metis prod.collapse)
  have code: "bc_code ?r = c" by (simp add: new_record_def)
  have "p \<in> set (bi_records ?i2) \<Longrightarrow> p = (c, ?r) \<or> p \<in> set (bi_records inst)" for p
    using records_trim set_AList_update by (fastforce simp: pruneExpiredBindCodes_def)
  then have m: "p \<in> set (bi_records inst3) \<Longrightarrow> p = (c, ?r) \<or> p \<in> set (bi_records inst)" for p
    using with_redis [OF w] by simp
  have "fst (redis_set_record ?r db) = AList.update (buildRedisKey c) (?r, bc_expiresAtMs ?r) db" by (simp add: redis_set_record_def code)
  then have "q \<in> set db3 \<Longrightarrow> q = (buildRedisKey c, ?r, bc_expiresAtMs ?r) \<or> q \<in> set db" for q
    using with_redis [OF w] set_AList_update by metis
  moreover have "p \<in> set (bi_records inst') \<Longrightarrow> p \<in> set (bi_records inst3)" and "db' = db3" for p
    using assms(1) w by (auto simp: issueBindFallbackCode_def Let_def dest: records_delete split: if_splits)
  ultimately show ?thesis using assms(2) m by (fastforce simp: held_def)
qed

lemma redeem_from_held:
  assumes "redeemBindFallbackCode env parseUrl call t i (inst, db) = (s', res)" and "is_redeemed res"
  shows "\<exists>c r. normalizeHeaderValue (ri_code i) = Some c \<and> held (inst, db) c r \<and> mismatched_field (context_of parseUrl i) r = None
    \<and> t < bc_expiresAtMs r \<and> res = Redeemed (bc_result r) (toISOString t)"
proof (cases "normalizeHeaderValue (ri_code i)")
  case None
  then show ?thesis using assms by (auto simp: redeemBindFallbackCode_def Let_def)
next
  case (Some c)
  let ?i1 = "pruneExpiredBindCodes t inst" and ?cx = "context_of parseUrl i"
  obtain inst2 db2 ans where w: "withRedisStore env t call (run_script t ?cx c) (?i1, db) = ((inst2, db2), ans)"
    by (metis prod.collapse)
  have sub: "p \<in> set (bi_records inst2) \<Longrightarrow> p \<in> set (bi_records inst)" for p
    using with_redis [OF w] by (auto simp: pruneExpiredBindCodes_def)
  show ?thesis
  proof (cases ans)
    case None
    then have "res = snd (redeem_in_memory env t ?cx c inst2)"
      using assms Some w by (auto simp: redeemBindFallbackCode_def Let_def split: prod.splits)
    then show ?thesis using assms(2) Some
      by (auto simp: redeem_in_memory_def memory_take_def held_def dest!: map_of_SomeD dest: sub split: if_splits option.splits)
  next
    case reply: (Some rep)
    then have "res = reply_result t rep"
      using assms Some w by (auto simp: redeemBindFallbackCode_def read_reply_def Let_def split: prod.splits)
    moreover have "rep = snd (run_script t ?cx c db)"
      using with_redis [OF w] reply by simp
    ultimately show ?thesis using assms(2) Some
      by (auto simp: script_reply reply_result_def held_def deserializeBindCodeRecord_def dest!: map_of_SomeD
          split: if_splits option.splits json.splits)
  qed
qed

section \<open>Properties\<close>

text \<open>
  C23. A bind code is redeemed at most once: whatever requests reach whichever of the web servers and
  whether Redis answers, fails or answers too late, every code of a run is redeemed at most once,
  provided each issue draws a fresh code and no answer to the writing of a code is lost after the
  write took effect.
\<close>

theorem codes_redeemed_once:
  assumes "distinct (issued_codes es)" and "no_lost_write es"
  shows "distinct (map fst (bind_run env parseUrl es empty_cluster))"
proof -
  have "distinct (map fst (bind_run env parseUrl es cl))
      \<and> (\<forall>c \<in> fst ` set (bind_run env parseUrl es cl). available cl c \<or> c \<in> set (issued_codes es))"
    if "one_place cl" "\<forall>c \<in> set (issued_codes es). \<not> available cl c" for cl
    using assms that
  proof (induction es arbitrary: cl rule: issued_codes.induct)
    case (2 k call c now i es)
    let ?cl = "fst (lift_instance k (issueBindFallbackCode env parseUrl call c now i) cl)"
    have "one_place ?cl \<and> (\<forall>d. available ?cl d \<longrightarrow> d = c \<or> available cl d)"
      using 2 by (intro issue_step [OF HOL.refl]) auto
    with 2 show ?case using 2(1) [of ?cl] by auto
  next
    case (3 k call now i es)
    obtain cl' res where r: "lift_instance k (redeemBindFallbackCode env parseUrl call now i) cl = (cl', res)" by force
    note s = redeem_step [OF r 3(4)]
    from 3 s have "distinct (map fst (bind_run env parseUrl es cl'))"
        "\<forall>c \<in> fst ` set (bind_run env parseUrl es cl'). available cl' c \<or> c \<in> set (issued_codes es)"
      using 3(1) [of cl'] by auto
    with s 3(5) show ?case by (auto simp: r)
  qed simp
  moreover have "one_place empty_cluster" "\<not> available empty_cluster c" for c
    by (simp_all add: one_place_def available_def empty_cluster_def in_memory_def in_redis_def)
  ultimately show ?thesis by blast
qed

text \<open>
  C24. The memory of a server and the Redis script decide alike: for the same record held, under any
  context and at any time, both give the same answer, and after a success neither gives the code again.
\<close>

theorem stores_agree:
  assumes "memory_ok s" and "redis_ok db" and "map_of (bi_records s) c = redis_holds db c"
  shows "snd (memory_take t cx c s) = snd (redis_take t cx c db)
    \<and> (is_redeemed (snd (memory_take t cx c s)) \<longrightarrow>
         \<not> is_redeemed (snd (memory_take u cx' c (fst (memory_take t cx c s))))
         \<and> \<not> is_redeemed (snd (redis_take u cx' c (fst (redis_take t cx c db)))))"
proof
  show "snd (memory_take t cx c s) = snd (redis_take t cx c db)"
    using memory_codes.answers [OF assms(1)] redis_codes.answers [OF assms(2)] assms(3) by simp
  then show "is_redeemed (snd (memory_take t cx c s)) \<longrightarrow>
         \<not> is_redeemed (snd (memory_take u cx' c (fst (memory_take t cx c s))))
         \<and> \<not> is_redeemed (snd (redis_take u cx' c (fst (redis_take t cx c db))))"
    using memory_codes.used_up [OF assms(1)] redis_codes.used_up [OF assms(2)] by simp
qed

definition plain_env :: bind_env where
  "plain_env = \<lparr>be_redisUrl = Some ''redis://r'', be_storeMode = None, be_nodeEnv = None\<rparr>"

definition plain_issue :: issue_input where
  "plain_issue = \<lparr>ii_result = JObj [], ii_installationId = ''i1'', ii_requestId = None, ii_bridgeNonce = None, ii_targetOrigin = None,
     ii_ttlSeconds = None\<rparr>"

definition plain_redeem :: redeem_input where
  "plain_redeem = \<lparr>ri_code = Some ''bindc_1'', ri_installationId = None, ri_requestId = None, ri_bridgeNonce = None, ri_requestOrigin = None\<rparr>"

theorem codes_redeemed_once_witness:
  "distinct (map fst (bind_run plain_env (\<lambda>_. None)
     [Issues 0 Answered ''bindc_1'' 0 plain_issue, Redeems 1 Answered 5 plain_redeem, Redeems 0 NotReached 6 plain_redeem] empty_cluster))"
  by (rule codes_redeemed_once) simp_all

text \<open>
  The proviso is needed: when the write of a code takes effect and its answer is lost, the server
  keeps the code in memory too, and the code is redeemed twice, once from memory while the server
  avoids Redis and once from Redis.
\<close>

theorem lost_write_redeems_twice:
  "bind_run plain_env (\<lambda>_. None)
     [Issues 0 AnswerLost ''bindc_1'' 0 plain_issue, Redeems 0 Answered 5 plain_redeem, Redeems 1 Answered 6 plain_redeem] empty_cluster
   = [(''bindc_1'', JObj []), (''bindc_1'', JObj [])]"
  by code_simp

theorem stores_agree_witness:
  "snd (memory_take 5 (context_of (\<lambda>_. None) plain_redeem) ''bindc_1''
      \<lparr>bi_records = [(''bindc_1'', new_record (\<lambda>_. None) ''bindc_1'' 0 plain_issue)], bi_disabledUntilMs = 0\<rparr>)
   = snd (redis_take 5 (context_of (\<lambda>_. None) plain_redeem) ''bindc_1''
      (fst (redis_set_record (new_record (\<lambda>_. None) ''bindc_1'' 0 plain_issue) [])))"
  by (rule stores_agree [THEN conjunct1])
    (simp_all add: memory_ok_def redis_ok_def redis_set_record_def redis_holds_def objects_ok_def deserializeBindCodeRecord_def
      new_record_def plain_issue_def)

declare trim_trim [simp]

lemma normalize_idem: "normalizeHeaderValue v = Some s \<Longrightarrow> normalizeHeaderValue (Some s) = Some s \<and> s \<noteq> []"
  by (auto simp: normalizeHeaderValue_def bind_eq_Some_conv)

lemma bridge_token_normal: "bridge_token lo hi v = Some s \<Longrightarrow> normalizeHeaderValue (Some s) = Some s \<and> s \<noteq> []"
  using normalize_idem by (auto simp: bridge_token_def split: option.splits if_splits)

lemma check_Inr: "((if c then Inl e else r) = Inr q) = (\<not> c \<and> r = Inr q)"
  by simp

lemma read_bind_request_fields:
  assumes "read_bind_request parseUrl body headers = Inr q"
  shows "(\<exists>v. br_requestId q = normalizeBridgeRequestId v) \<and> (\<exists>v. br_bridgeNonce q = normalizeBridgeNonce v)
    \<and> (\<exists>v. br_targetOrigin q = normalizeBridgeOrigin parseUrl v)"
proof -
  have "br_requestId q = normalizeBridgeRequestId (header_of headers ''x-quizmind-bind-request-id'')
    \<and> br_bridgeNonce q = normalizeBridgeNonce (header_of headers ''x-quizmind-bridge-nonce'')
    \<and> br_targetOrigin q = normalizeBridgeOrigin parseUrl (header_of headers ''x-quizmind-target-origin'')"
    using assms unfolding read_bind_request_def Let_def bindR_eq_Inr check_Inr by (elim exE conjE) (simp only: sum.inject(2), hypsubst, simp)
  then show ?thesis by blast
qed

text \<open>An origin that the parser made parses to itself.\<close>

definition origins_stable :: "(string \<Rightarrow> url_parts option) \<Rightarrow> bool" where
  "origins_stable parseUrl = (\<forall>v w. normalizeBridgeOrigin parseUrl v = Some w \<longrightarrow> normalizeBridgeOrigin parseUrl (Some w) = Some w)"

text \<open>
  A code handed out by the route is bound to the page that asked for it: it is redeemed only with
  the request identifier, the nonce and the origin of the bind request, none of them empty, before it
  expires, and it gives the installation the API bound in that request.
\<close>

theorem route_codes_bound:
  assumes "origins_stable parseUrl"
    and "\<And>r. \<not> held (inst, db) code r"
    and "bindRoute env parseUrl call code now apiUrl api accessToken body headers (inst, db) = (s', RouteBound status result (Some issued))"
    and "redeemBindFallbackCode env' parseUrl call' t i s' = (s'', Redeemed x time)" and "normalizeHeaderValue (ri_code i) = Some code"
  shows "\<exists>q. read_bind_request parseUrl body headers = Inr q \<and> x = JObj result \<and> t < now + DEFAULT_TTL_SECONDS * 1000
    \<and> truthy (br_requestId q) \<and> cx_requestId (context_of parseUrl i) = br_requestId q
    \<and> truthy (br_bridgeNonce q) \<and> cx_bridgeNonce (context_of parseUrl i) = br_bridgeNonce q
    \<and> truthy (br_targetOrigin q) \<and> cx_requestOrigin (context_of parseUrl i) = br_targetOrigin q"
proof -
  obtain q where q: "read_bind_request parseUrl body headers = Inr q" "truthy (br_targetOrigin q)"
      "br_requestId q \<noteq> None" "br_bridgeNonce q \<noteq> None"
    and issue: "fst (issueBindFallbackCode env parseUrl call code now
        \<lparr>ii_result = JObj result, ii_installationId = br_installationId q, ii_requestId = br_requestId q,
         ii_bridgeNonce = br_bridgeNonce q, ii_targetOrigin = br_targetOrigin q, ii_ttlSeconds = None\<rparr> (inst, db)) = s'"
    using assms(3) by (auto simp: bindRoute_def Let_def split: if_splits sum.splits error.splits api_reply.splits upstream.splits prod.splits)
  obtain n m w where token: "br_requestId q = Some n" "br_bridgeNonce q = Some m" "br_targetOrigin q = Some w" "w \<noteq> []"
    using q by (cases "br_targetOrigin q") auto
  have norm: "normalizeHeaderValue (Some n) = Some n \<and> n \<noteq> []" "normalizeHeaderValue (Some m) = Some m \<and> m \<noteq> []"
      "normalizeBridgeOrigin parseUrl (Some w) = Some w"
    using read_bind_request_fields [OF q(1)] token bridge_token_normal assms(1)
    unfolding origins_stable_def normalizeBridgeRequestId_def normalizeBridgeNonce_def by metis+
  let ?i = "\<lparr>ii_result = JObj result, ii_installationId = br_installationId q, ii_requestId = br_requestId q,
         ii_bridgeNonce = br_bridgeNonce q, ii_targetOrigin = br_targetOrigin q, ii_ttlSeconds = None\<rparr>"
  let ?r = "new_record parseUrl code now ?i"
  obtain inst' db' where s': "s' = (inst', db')" by force
  obtain r where r: "held s' code r" "mismatched_field (context_of parseUrl i) r = None" "t < bc_expiresAtMs r" "x = bc_result r"
    using redeem_from_held [of env' parseUrl call' t i inst' db' s'' "Redeemed x time"] assms(4,5) s' by auto
  obtain ans where "issueBindFallbackCode env parseUrl call code now ?i (inst, db) = ((inst', db'), ans)"
    using issue s' by (metis prod.collapse)
  from issue_holds [OF this] r(1) assms(2) have "r = ?r" by (auto simp: s')
  then have "bc_requestId r = Some n" "bc_bridgeNonce r = Some m" "bc_targetOrigin r = Some w" "bc_result r = JObj result"
      "bc_expiresAtMs r = now + DEFAULT_TTL_SECONDS * 1000"
    using norm token by (simp_all add: new_record_def clampTtlSeconds_def)
  then show ?thesis using r norm token q(1)
    by (intro exI [of _ q]) (auto simp: mismatched_field_def split: if_splits)
qed

definition demo_parse :: "string \<Rightarrow> url_parts option" where
  "demo_parse u = (if u = ''https://a.b'' then Some \<lparr>ur_protocol = ''https:'', ur_host = ''a.b'', ur_origin = ''https://a.b''\<rparr> else None)"

definition demo_body :: json where
  "demo_body = JObj [(''installationId'', JStr ''inst''), (''environment'', JStr ''production''),
     (''handshake'', JObj [(''extensionVersion'', JStr ''1''), (''schemaVersion'', JStr ''1''), (''capabilities'', JArr [JStr ''x'']),
       (''browser'', JStr ''chrome'')])]"

definition demo_headers :: "(string \<times> string) list" where
  "demo_headers = [(''x-quizmind-bind-request-id'', ''request-1''), (''x-quizmind-bridge-nonce'', ''nonce-001''),
     (''x-quizmind-target-origin'', ''https://a.b''), (''x-quizmind-bridge-mode'', ''fallback_code'')]"

definition demo_bound :: "(bind_instance \<times> bind_redis) \<times> route_answer" where
  "demo_bound = bindRoute plain_env demo_parse Answered ''bindc_1'' 0 ''http://api''
     (\<lambda>_ _. ApiReply 200 (Some (JObj [(''ok'', JBool True), (''data'', JObj [])]))) (Some ''t'') (Some demo_body) demo_headers
     (\<lparr>bi_records = [], bi_disabledUntilMs = 0\<rparr>, [])"

definition demo_redeem :: redeem_input where
  "demo_redeem = \<lparr>ri_code = Some ''bindc_1'', ri_installationId = None, ri_requestId = Some ''request-1'', ri_bridgeNonce = Some ''nonce-001'',
     ri_requestOrigin = Some ''https://a.b''\<rparr>"

theorem route_codes_bound_witness:
  "\<exists>q. read_bind_request demo_parse (Some demo_body) demo_headers = Inr q
    \<and> cx_requestOrigin (context_of demo_parse demo_redeem) = br_targetOrigin q"
proof -
  have "normalizeBridgeOrigin demo_parse v = Some w \<Longrightarrow> normalizeBridgeOrigin demo_parse (Some w) = Some w" for v w
  proof -
    assume "normalizeBridgeOrigin demo_parse v = Some w"
    then have "w = ''https://a.b''" by (auto simp: normalizeBridgeOrigin_def demo_parse_def split: option.splits if_splits)
    then show ?thesis by simp code_simp
  qed
  then have idem: "origins_stable demo_parse" by (simp add: origins_stable_def)
  have route: "(case demo_bound of (_, RouteBound _ _ (Some _)) \<Rightarrow> True | _ \<Rightarrow> False)" by code_simp
  then obtain s' st res c where b: "demo_bound = (s', RouteBound st res (Some c))"
    by (auto split: prod.splits route_answer.splits option.splits)
  have "is_redeemed (snd (redeemBindFallbackCode plain_env demo_parse Answered 5 demo_redeem (fst demo_bound)))" by code_simp
  then obtain s'' x time where r: "redeemBindFallbackCode plain_env demo_parse Answered 5 demo_redeem s' = (s'', Redeemed x time)"
    by (auto simp: b is_redeemed_def split: redeem_result.splits) (metis prod.collapse)
  have c: "normalizeHeaderValue (ri_code demo_redeem) = Some ''bindc_1''" by code_simp
  show ?thesis
    using route_codes_bound [OF idem _ b [unfolded demo_bound_def] r c] by (auto simp: held_def)
qed

end
