(* ===== verification/AdminLog.thy ===== *)
theory AdminLog
  imports Accounts Logger
begin

text \<open>
  The administrators' log: a read model of the audit, activity, security and domain tables with one row
  per source record. \<open>packages/database/src/admin-log-event.ts\<close> derives a row from a source record;
  \<open>apps/api/src/logs\<close> holds the writes (\<open>admin-log-write-path.ts\<close>), the identity of actors
  (\<open>admin-log-actor-enrichment.ts\<close>), and the join with AI requests (\<open>admin-log-ai-request-candidates.ts\<close>,
  \<open>admin-log-ai-sync.ts\<close>).

  A source object is the list of its entries, an absent property and a database null are \<open>None\<close>. The
  numbers of a row are as the code computes them; \<open>columns_ok\<close> is what an integer column accepts. Event
  types are not names of properties every object has, such as \<open>constructor\<close>.
\<close>

section \<open>Rows\<close>

record admin_log_data =
  al_stream :: string
  al_sourceRecordId :: string
  al_eventType :: string
  al_summary :: string
  al_occurredAt :: int
  al_severity :: "log_severity option"
  al_status :: "log_status option"
  al_actorId :: "string option"
  al_actorEmail :: "string option"
  al_actorDisplayName :: "string option"
  al_targetType :: "string option"
  al_targetId :: "string option"
  al_category :: "string option"
  al_source :: "string option"
  al_installationId :: "string option"
  al_provider :: "string option"
  al_model :: "string option"
  al_durationMs :: "jsnum option"
  al_costUsd :: "jsnum option"
  al_promptTokens :: "jsnum option"
  al_completionTokens :: "jsnum option"
  al_totalTokens :: "jsnum option"
  al_errorSummary :: "string option"
  al_searchText :: "string option"
  al_metadataJson :: "json_object option"
  al_payloadJson :: "json_object option"

record admin_log_row = admin_log_data +
  al_id :: string

text \<open>The AI requests as the log reads them.\<close>

record ai_projection =
  aq_id :: string
  aq_provider :: "string option"
  aq_model :: "string option"
  aq_durationMs :: "jsnum option"
  aq_estimatedCostUsd :: "jsnum option"
  aq_promptTokens :: "jsnum option"
  aq_completionTokens :: "jsnum option"
  aq_totalTokens :: "jsnum option"
  aq_promptExcerpt :: "string option"
  aq_status :: "string option"

record log_db = account_db +
  lg_rows :: "admin_log_row list"
  lg_ai :: "ai_projection list"

section \<open>Deriving a row from a source record\<close>

record build_input =
  bd_stream :: string
  bd_sourceRecordId :: string
  bd_eventType :: string
  bd_occurredAt :: int
  bd_actorId :: "string option"
  bd_severity :: "log_severity option"
  bd_targetType :: "string option"
  bd_targetId :: "string option"
  bd_metadata :: "json_object option"
  bd_payload :: "json_object option"

definition field_of :: "json_object option \<Rightarrow> string \<Rightarrow> json option" where
  "field_of ob k = (case ob of None \<Rightarrow> None | Some es \<Rightarrow> map_of es k)"

definition toText :: "json option \<Rightarrow> string option" where
  "toText v = (case v of Some (JStr s) \<Rightarrow> if trim s \<noteq> [] then Some (trim s) else None | _ \<Rightarrow> None)"

definition toNumber :: "json option \<Rightarrow> jsnum option" where
  "toNumber v = (case v of Some (JNum n) \<Rightarrow> if num_is_finite n then Some n else None | _ \<Rightarrow> None)"

definition toUsageNumber :: "json option \<Rightarrow> string \<Rightarrow> jsnum option" where
  "toUsageNumber v key = (case v of Some (JObj es) \<Rightarrow> toNumber (map_of es key) | _ \<Rightarrow> None)"

definition deriveCategory :: "string \<Rightarrow> string \<Rightarrow> json_object option \<Rightarrow> string" where
  "deriveCategory eventType stream metadata =
     (let et = toLowerCase eventType in
      if startsWith et ''auth.'' \<or> str_includes et ''login'' \<or> str_includes et ''password'' \<or> str_includes et ''session''
         \<or> str_includes et ''.mfa'' \<or> str_includes et ''.otp'' then ''auth''
      else if startsWith et ''extension.'' \<or> str_includes et ''installation'' \<or> str_includes et ''bootstrap'' then ''extension''
      else if startsWith et ''ai.'' \<or> str_includes et ''quiz_answer'' \<or> str_includes et ''ai_request'' \<or> str_includes et ''proxy_request''
         \<or> toText (field_of metadata ''provider'') \<noteq> None \<or> toText (field_of metadata ''model'') \<noteq> None then ''ai''
      else if stream = ''audit'' \<or> startsWith et ''admin.'' \<or> str_includes et ''support.'' \<or> str_includes et ''impersonation'' then ''admin''
      else ''system'')"

definition source_of_metadata :: "json_object option \<Rightarrow> string option" where
  "source_of_metadata metadata =
     orElse (toText (field_of metadata ''source'')) (orElse (toText (field_of metadata ''origin'')) (orElse (toText (field_of metadata ''platform''))
       (orElse (toText (field_of metadata ''client'')) (toText (field_of metadata ''requestSource'')))))"

definition known_source :: "string \<Rightarrow> string option" where
  "known_source v =
     (if v \<in> set [''web'', ''web_app'', ''dashboard''] then Some ''web''
      else if v \<in> set [''extension'', ''content_script'', ''extension_popup''] then Some ''extension''
      else if v = ''api'' then Some ''api''
      else if v \<in> set [''worker'', ''queue''] then Some ''worker''
      else if v = ''webhook'' then Some ''webhook''
      else None)"

definition source_of_type :: "string \<Rightarrow> string option" where
  "source_of_type et =
     (if startsWith et ''ai.proxy.'' then Some ''api''
      else if startsWith et ''extension.'' then Some ''extension''
      else if startsWith et ''webhook.'' \<or> str_includes et ''webhook_'' then Some ''webhook''
      else if startsWith et ''admin.'' \<or> startsWith et ''support.'' \<or> str_includes et ''impersonation''
         \<or> str_includes et ''provider_policy'' \<or> str_includes et ''provider_credential'' then Some ''web''
      else if startsWith et ''worker.'' \<or> startsWith et ''queue.'' \<or> str_includes et ''.worker_'' \<or> str_includes et ''.job_''
        then Some ''worker''
      else None)"

definition deriveSource :: "string \<Rightarrow> json_object option \<Rightarrow> string option" where
  "deriveSource eventType metadata =
     orElse (case source_of_metadata metadata of None \<Rightarrow> None | Some v \<Rightarrow> known_source (toLowerCase v))
       (source_of_type (toLowerCase eventType))"

definition toTitleCase :: "string \<Rightarrow> string" where
  "toTitleCase v = join '' '' (map (\<lambda>w. upper_char (hd w) # tl w)
     (filter (\<lambda>w. w \<noteq> []) (split_on (CHR '' '') (map (\<lambda>c. if js_space c then CHR '' '' else c) v))))"

text \<open>\<open>replace(/[._-]+/g, ' ')\<close>.\<close>

fun replace_separators :: "string \<Rightarrow> string" where
  "replace_separators [] = []"
| "replace_separators (c # cs) =
     (if c \<in> set ''._-'' then
        (case cs of [] \<Rightarrow> '' '' | d # ds \<Rightarrow> if d \<in> set ''._-'' then replace_separators cs else CHR '' '' # replace_separators cs)
      else c # replace_separators cs)"

definition explicit_summaries :: "(string \<times> string) list" where
  "explicit_summaries =
     [(''ai.proxy.completed'', ''AI request completed''), (''ai.proxy.failed'', ''AI request failed''),
      (''ai.proxy.user_key_used'', ''User API key used''), (''ai.proxy.user_key_failed'', ''User API key failed''),
      (''extension.installation_self_disconnected'', ''Extension disconnected''),
      (''extension.installation_session_revoked'', ''Extension session revoked''),
      (''auth.login_success'', ''Login successful''), (''auth.login_failed'', ''Login failed''),
      (''auth.password_reset_requested'', ''Password reset requested''),
      (''auth.password_reset_completed'', ''Password reset completed''),
      (''auth.session_revoked'', ''Session revoked''), (''auth.session_created'', ''Session created'')]"

definition deriveSummary :: "string \<Rightarrow> string" where
  "deriveSummary eventType =
     (let et = toLowerCase eventType in
      case map_of explicit_summaries et of
        Some s \<Rightarrow> s
      | None \<Rightarrow>
          if str_includes et ''provider_credential'' then ''Provider credential updated''
          else if str_includes et ''provider_policy'' then ''Provider policy updated''
          else if str_includes et ''support.'' \<or> str_includes et ''impersonation'' then ''Support action recorded''
          else if startsWith et ''admin.'' then ''Admin action recorded''
          else if str_includes et ''login'' then (if str_includes et ''failed'' then ''Login failed'' else ''Login successful'')
          else if str_includes et ''password'' then ''Password event recorded''
          else if str_includes et ''session'' then ''Session event recorded''
          else toTitleCase (replace_separators eventType))"

definition read_status :: "string \<Rightarrow> log_status option" where
  "read_status s = (if s = ''success'' then Some StatusSuccess else if s = ''failure'' then Some StatusFailure else None)"

definition deriveStatus :: "string \<Rightarrow> string option \<Rightarrow> log_status option" where
  "deriveStatus eventType explicitStatus =
     (let et = toLowerCase eventType in
      orElse (case explicitStatus of None \<Rightarrow> None | Some s \<Rightarrow> read_status s)
        (if et = ''ai.proxy.completed'' then Some StatusSuccess
         else if et \<in> set [''ai.proxy.failed'', ''ai.proxy.timeout'', ''ai.proxy.quota_exceeded'', ''ai.proxy.user_key_failed'']
           then Some StatusFailure
         else None))"

definition read_severity :: "string \<Rightarrow> log_severity option" where
  "read_severity s =
     (if s = ''debug'' then Some SevDebug else if s = ''info'' then Some SevInfo
      else if s = ''warn'' then Some SevWarn else if s = ''error'' then Some SevError else None)"

text \<open>\<open>[...].filter(Boolean).join(' ').toLowerCase()\<close>.\<close>

definition search_text :: "string option list \<Rightarrow> string" where
  "search_text parts = toLowerCase (join '' '' (map the (filter truthy parts)))"

definition or_none :: "string option \<Rightarrow> string option" where
  "or_none v = (if truthy v then v else None)"

definition buildAdminLogEventCreateInput :: "build_input \<Rightarrow> admin_log_data" where
  "buildAdminLogEventCreateInput b =
     (let rich = orElse (bd_metadata b) (bd_payload b);
          txt = (\<lambda>k. toText (field_of rich k));
          num = (\<lambda>k. toNumber (field_of rich k));
          tokens = (\<lambda>k. orElse (num k) (toUsageNumber (field_of rich ''usage'') k));
          summary = nullish (txt ''summary'') (deriveSummary (bd_eventType b));
          severity = orElse (bd_severity b) (case txt ''severity'' of None \<Rightarrow> None | Some s \<Rightarrow> read_severity s);
          targetType = orElse (bd_targetType b) (if truthy (txt ''requestId'') then Some ''ai_request'' else None);
          targetId = orElse (bd_targetId b) (txt ''requestId'');
          searchable = search_text [Some (bd_stream b), Some (bd_eventType b), Some summary, bd_actorId b, txt ''actorEmail'',
            txt ''actorDisplayName'', targetType, targetId, txt ''provider'', txt ''model'', txt ''promptExcerpt'',
            txt ''errorSummary'', txt ''errorMessage'']
      in \<lparr>al_stream = bd_stream b, al_sourceRecordId = bd_sourceRecordId b, al_eventType = bd_eventType b, al_summary = summary,
          al_occurredAt = bd_occurredAt b, al_severity = severity, al_status = deriveStatus (bd_eventType b) (txt ''status''),
          al_actorId = or_none (bd_actorId b), al_actorEmail = txt ''actorEmail'', al_actorDisplayName = txt ''actorDisplayName'',
          al_targetType = or_none targetType, al_targetId = or_none targetId,
          al_category = Some (deriveCategory (bd_eventType b) (bd_stream b) rich), al_source = deriveSource (bd_eventType b) rich,
          al_installationId = txt ''installationId'', al_provider = txt ''provider'', al_model = txt ''model'',
          al_durationMs = num ''durationMs'', al_costUsd = orElse (num ''costUsd'') (num ''estimatedCostUsd''),
          al_promptTokens = tokens ''promptTokens'', al_completionTokens = tokens ''completionTokens'',
          al_totalTokens = tokens ''totalTokens'',
          al_errorSummary = map_option (take 200) (orElse (txt ''errorSummary'') (txt ''errorMessage'')),
          al_searchText = or_undefined searchable, al_metadataJson = bd_metadata b, al_payloadJson = bd_payload b\<rparr>)"

section \<open>Projecting the source records\<close>

definition toMetadata :: "json option \<Rightarrow> json_object option" where
  "toMetadata v = (case v of Some (JObj es) \<Rightarrow> Some es | _ \<Rightarrow> None)"

definition copy_string :: "json_object option \<Rightarrow> string \<Rightarrow> json_object \<Rightarrow> json_object" where
  "copy_string metadata k es = (case field_of metadata k of Some (JStr s) \<Rightarrow> AList.update k (JStr s) es | _ \<Rightarrow> es)"

definition withActorMetadata :: "json_object option \<Rightarrow> json_object" where
  "withActorMetadata metadata =
     copy_string metadata ''actorDisplayName'' (copy_string metadata ''actorEmail'' (nullish metadata []))"

record audit_row =
  au_id :: string
  au_action :: string
  au_actorId :: "string option"
  au_targetType :: string
  au_targetId :: string
  au_metadataJson :: "json option"
  au_createdAt :: int

record event_row =
  ev_id :: string
  ev_eventType :: string
  ev_actorId :: "string option"
  ev_severity :: "log_severity option"
  ev_json :: "json option"
  ev_createdAt :: int

definition buildReadModelFromAuditRow :: "audit_row \<Rightarrow> admin_log_data" where
  "buildReadModelFromAuditRow r = buildAdminLogEventCreateInput
     \<lparr>bd_stream = ''audit'', bd_sourceRecordId = au_id r, bd_eventType = au_action r, bd_occurredAt = au_createdAt r,
      bd_actorId = au_actorId r, bd_severity = None, bd_targetType = Some (au_targetType r), bd_targetId = Some (au_targetId r),
      bd_metadata = Some (withActorMetadata (toMetadata (au_metadataJson r))), bd_payload = None\<rparr>"

definition buildReadModelFromActivityRow :: "event_row \<Rightarrow> admin_log_data" where
  "buildReadModelFromActivityRow r = buildAdminLogEventCreateInput
     \<lparr>bd_stream = ''activity'', bd_sourceRecordId = ev_id r, bd_eventType = ev_eventType r, bd_occurredAt = ev_createdAt r,
      bd_actorId = ev_actorId r, bd_severity = None, bd_targetType = None, bd_targetId = None,
      bd_metadata = Some (withActorMetadata (toMetadata (ev_json r))), bd_payload = None\<rparr>"

definition buildReadModelFromSecurityRow :: "event_row \<Rightarrow> admin_log_data" where
  "buildReadModelFromSecurityRow r = buildAdminLogEventCreateInput
     \<lparr>bd_stream = ''security'', bd_sourceRecordId = ev_id r, bd_eventType = ev_eventType r, bd_occurredAt = ev_createdAt r,
      bd_actorId = ev_actorId r, bd_severity = ev_severity r, bd_targetType = None, bd_targetId = None,
      bd_metadata = Some (withActorMetadata (toMetadata (ev_json r))), bd_payload = None\<rparr>"

definition buildReadModelFromDomainRow :: "event_row \<Rightarrow> admin_log_data" where
  "buildReadModelFromDomainRow r = buildAdminLogEventCreateInput
     \<lparr>bd_stream = ''domain'', bd_sourceRecordId = ev_id r, bd_eventType = ev_eventType r, bd_occurredAt = ev_createdAt r,
      bd_actorId = None, bd_severity = None, bd_targetType = None, bd_targetId = None,
      bd_metadata = None, bd_payload = toMetadata (ev_json r)\<rparr>"

section \<open>Actors\<close>

type_synonym actor_identity = "string \<times> string option"

text \<open>\<open>up\<close> tells whether the table of users answers; without identifiers it is not asked.\<close>

definition resolveActorIdentities ::
  "bool \<Rightarrow> string list \<Rightarrow> 'm account_db_scheme \<Rightarrow> (string \<rightharpoonup> actor_identity) result" where
  "resolveActorIdentities up actorIds s =
     (let ids = uniq (filter (\<lambda>i. trim i \<noteq> []) actorIds) in
      if ids = [] then Inr (\<lambda>_. None)
      else if \<not> up then Inl (JsError ''user.findMany'')
      else Inr (map_of (map (\<lambda>u. (us_id u, (us_email u, us_displayName u))) (filter (\<lambda>u. us_id u \<in> set ids) (ad_users s)))))"

definition enrichSearchTextWithActorIdentity :: "string option \<Rightarrow> actor_identity option \<Rightarrow> string option" where
  "enrichSearchTextWithActorIdentity searchText identity =
     (if \<not> truthy searchText \<and> identity = None then searchText
      else or_undefined (trim (join '' '' ([nullish searchText []]
        @ (case identity of Some (email, name) \<Rightarrow>
             (if email \<noteq> [] then [toLowerCase email] else []) @ (if truthy name then [toLowerCase (the name)] else [])
           | None \<Rightarrow> [])))))"

definition enrichReadModelActorFields :: "admin_log_data \<Rightarrow> actor_identity option \<Rightarrow> admin_log_data" where
  "enrichReadModelActorFields d identity = (case identity of
     Some (email, name) \<Rightarrow>
       if truthy (al_actorId d) then
         d\<lparr>al_actorEmail := orElse (al_actorEmail d) (Some email), al_actorDisplayName := orElse (al_actorDisplayName d) name,
           al_searchText := enrichSearchTextWithActorIdentity (al_searchText d) identity\<rparr>
       else d
   | None \<Rightarrow> d)"

section \<open>AI requests\<close>

definition push_id :: "json option \<Rightarrow> string list" where
  "push_id v = (case v of Some (JStr s) \<Rightarrow> if trim s \<noteq> [] then [trim s] else [] | _ \<Rightarrow> [])"

definition id_keys :: "string list" where
  "id_keys = [''aiRequestEventId'', ''requestId'', ''aiRequestId'']"

definition ids_of :: "json_object \<Rightarrow> string list" where
  "ids_of es = concat (map (\<lambda>k. push_id (map_of es k)) id_keys)"

definition object_ids :: "json_object \<Rightarrow> string list" where
  "object_ids es = ids_of es @ (case map_of es ''requestMetadata'' of Some (JObj fs) \<Rightarrow> ids_of fs | _ \<Rightarrow> [])"

definition collectAdminAiRequestCandidateIds ::
  "string option \<Rightarrow> string option \<Rightarrow> string option \<Rightarrow> json_object option \<Rightarrow> json_object option \<Rightarrow> string list" where
  "collectAdminAiRequestCandidateIds targetType targetId sourceRecordId metadata payload = uniq
     ((if targetType = Some ''ai_request'' then push_id (map_option JStr targetId) else [])
      @ (case metadata of None \<Rightarrow> [] | Some es \<Rightarrow> object_ids es)
      @ (case payload of None \<Rightarrow> [] | Some es \<Rightarrow> object_ids es)
      @ push_id (map_option JStr sourceRecordId))"

definition normalizeAdminAiStatus :: "string option \<Rightarrow> log_status option" where
  "normalizeAdminAiStatus status = (case status of
     None \<Rightarrow> None
   | Some s \<Rightarrow> if s = ''success'' then Some StatusSuccess
       else if s \<in> set [''error'', ''failed'', ''failure'', ''quota_exceeded'', ''timeout''] then Some StatusFailure else None)"

record ai_patch =
  ap_targetType :: string
  ap_targetId :: string
  ap_provider :: "string option"
  ap_model :: "string option"
  ap_status :: "log_status option"
  ap_durationMs :: "jsnum option"
  ap_costUsd :: "jsnum option"
  ap_promptTokens :: "jsnum option"
  ap_completionTokens :: "jsnum option"
  ap_totalTokens :: "jsnum option"

definition buildAdminAiLogPatchFromAiRequestEvent :: "ai_projection \<Rightarrow> ai_patch" where
  "buildAdminAiLogPatchFromAiRequestEvent q =
     \<lparr>ap_targetType = ''ai_request'', ap_targetId = aq_id q, ap_provider = aq_provider q, ap_model = aq_model q,
      ap_status = normalizeAdminAiStatus (aq_status q), ap_durationMs = aq_durationMs q, ap_costUsd = aq_estimatedCostUsd q,
      ap_promptTokens = aq_promptTokens q, ap_completionTokens = aq_completionTokens q, ap_totalTokens = aq_totalTokens q\<rparr>"

text \<open>The first candidate that is a stored request.\<close>

definition first_request :: "string list \<Rightarrow> ai_projection list \<Rightarrow> ai_projection option" where
  "first_request candidates requests =
     (case filter (\<lambda>q. q \<noteq> None) (map (\<lambda>c. find (\<lambda>q. aq_id q = c) requests) candidates) of [] \<Rightarrow> None | q # _ \<Rightarrow> q)"

definition with_ai_patch :: "ai_patch \<Rightarrow> admin_log_data \<Rightarrow> admin_log_data" where
  "with_ai_patch p d =
     d\<lparr>al_targetType := orElse (al_targetType d) (Some (ap_targetType p)), al_targetId := orElse (al_targetId d) (Some (ap_targetId p)),
       al_provider := orElse (al_provider d) (ap_provider p), al_model := orElse (al_model d) (ap_model p),
       al_status := orElse (al_status d) (ap_status p), al_durationMs := orElse (al_durationMs d) (ap_durationMs p),
       al_costUsd := orElse (al_costUsd d) (ap_costUsd p), al_promptTokens := orElse (al_promptTokens d) (ap_promptTokens p),
       al_completionTokens := orElse (al_completionTokens d) (ap_completionTokens p),
       al_totalTokens := orElse (al_totalTokens d) (ap_totalTokens p)\<rparr>"

text \<open>Which rows a finished request is written to. A JSON path compares with the string exactly.\<close>

definition path_equals :: "json_object option \<Rightarrow> string list \<Rightarrow> string \<Rightarrow> bool" where
  "path_equals ob path i = (case path of
     [k] \<Rightarrow> field_of ob k = Some (JStr i)
   | [k, l] \<Rightarrow> (case field_of ob k of Some (JObj es) \<Rightarrow> map_of es l = Some (JStr i) | _ \<Rightarrow> False)
   | _ \<Rightarrow> False)"

definition alias_paths :: "string list list" where
  "alias_paths = map (\<lambda>k. [k]) id_keys @ map (\<lambda>k. [''requestMetadata'', k]) id_keys"

definition is_ai_row :: "'m admin_log_data_scheme \<Rightarrow> bool" where
  "is_ai_row r = (al_category r = Some ''ai''
     \<or> al_eventType r \<in> set [''ai.proxy.completed'', ''ai.proxy.failed'', ''ai.proxy.quota_exceeded'', ''ai.proxy.timeout''])"

definition buildAdminAiLogSyncWhere :: "string \<Rightarrow> 'm admin_log_data_scheme \<Rightarrow> bool" where
  "buildAdminAiLogSyncWhere aiRequestEventId r =
     (let i = trim aiRequestEventId in is_ai_row r
      \<and> ((al_targetType r = Some ''ai_request'' \<and> al_targetId r = Some i)
         \<or> list_ex (\<lambda>p. path_equals (al_metadataJson r) p i) alias_paths
         \<or> list_ex (\<lambda>p. path_equals (al_payloadJson r) p i) alias_paths
         \<or> al_sourceRecordId r = i))"

definition set_ai_columns :: "ai_patch \<Rightarrow> admin_log_row \<Rightarrow> admin_log_row" where
  "set_ai_columns p r =
     r\<lparr>al_targetType := Some (ap_targetType p), al_targetId := Some (ap_targetId p), al_provider := ap_provider p,
       al_model := ap_model p, al_status := ap_status p, al_durationMs := ap_durationMs p, al_costUsd := ap_costUsd p,
       al_promptTokens := ap_promptTokens p, al_completionTokens := ap_completionTokens p, al_totalTokens := ap_totalTokens p\<rparr>"

definition syncAdminAiLogEventsFromAiRequestEvent :: "ai_projection \<Rightarrow> ('m log_db_scheme, nat) op" where
  "syncAdminAiLogEventsFromAiRequestEvent q s =
     (let hit = buildAdminAiLogSyncWhere (aq_id q) in
      (s\<lparr>lg_rows := map (\<lambda>r. if hit r then set_ai_columns (buildAdminAiLogPatchFromAiRequestEvent q) r else r) (lg_rows s)\<rparr>,
       Inr (length (filter hit (lg_rows s)))))"

section \<open>Writing the read model\<close>

text \<open>What an integer column accepts, and the key of a row.\<close>

definition int_column :: "jsnum option \<Rightarrow> bool" where
  "int_column v = (case v of None \<Rightarrow> True
     | Some n \<Rightarrow> num_is_integer n \<and> - (2 ^ 31) \<le> num_to_int n \<and> num_to_int n < 2 ^ 31)"

definition columns_ok :: "'m admin_log_data_scheme \<Rightarrow> bool" where
  "columns_ok d = (int_column (al_durationMs d) \<and> int_column (al_promptTokens d) \<and> int_column (al_completionTokens d)
     \<and> int_column (al_totalTokens d))"

definition log_key :: "'m admin_log_data_scheme \<Rightarrow> string \<times> string" where
  "log_key d = (al_stream d, al_sourceRecordId d)"

definition create_row :: "string \<Rightarrow> admin_log_data \<Rightarrow> admin_log_row" where
  "create_row i d = admin_log_data.extend d (admin_log_row.fields i)"

text \<open>An update leaves a column alone whose value is absent; the key is not written.\<close>

definition toAdminLogEventUpdateInput :: "admin_log_data \<Rightarrow> admin_log_row \<Rightarrow> admin_log_row" where
  "toAdminLogEventUpdateInput d r =
     \<lparr>al_stream = al_stream r, al_sourceRecordId = al_sourceRecordId r, al_eventType = al_eventType d, al_summary = al_summary d,
      al_occurredAt = al_occurredAt d, al_severity = orElse (al_severity d) (al_severity r), al_status = orElse (al_status d) (al_status r),
      al_actorId = orElse (al_actorId d) (al_actorId r), al_actorEmail = orElse (al_actorEmail d) (al_actorEmail r),
      al_actorDisplayName = orElse (al_actorDisplayName d) (al_actorDisplayName r),
      al_targetType = orElse (al_targetType d) (al_targetType r), al_targetId = orElse (al_targetId d) (al_targetId r),
      al_category = orElse (al_category d) (al_category r), al_source = orElse (al_source d) (al_source r),
      al_installationId = orElse (al_installationId d) (al_installationId r), al_provider = orElse (al_provider d) (al_provider r),
      al_model = orElse (al_model d) (al_model r), al_durationMs = orElse (al_durationMs d) (al_durationMs r),
      al_costUsd = orElse (al_costUsd d) (al_costUsd r), al_promptTokens = orElse (al_promptTokens d) (al_promptTokens r),
      al_completionTokens = orElse (al_completionTokens d) (al_completionTokens r),
      al_totalTokens = orElse (al_totalTokens d) (al_totalTokens r), al_errorSummary = orElse (al_errorSummary d) (al_errorSummary r),
      al_searchText = orElse (al_searchText d) (al_searchText r), al_metadataJson = orElse (al_metadataJson d) (al_metadataJson r),
      al_payloadJson = orElse (al_payloadJson d) (al_payloadJson r), al_id = al_id r\<rparr>"

definition upsert_log_row :: "(nat \<Rightarrow> string) \<Rightarrow> admin_log_data \<Rightarrow> ('m log_db_scheme, unit) op" where
  "upsert_log_row cuid d s =
     (if \<not> columns_ok d then (s, Inl InvalidValue)
      else if log_key d \<in> log_key ` set (lg_rows s) then
        (s\<lparr>lg_rows := map (\<lambda>r. if log_key r = log_key d then toAdminLogEventUpdateInput d r else r) (lg_rows s)\<rparr>, Inr ())
      else (s\<lparr>lg_rows := lg_rows s @ [create_row (cuid (ad_next s)) d], ad_next := Suc (ad_next s)\<rparr>, Inr ()))"

text \<open>
  The body of the loop of \<open>upsertAdminLogEventsBestEffort\<close>: the row of one event. \<open>fails\<close> tells for which
  events the database throws at the read or the write of the loop; the error is caught and logged.
\<close>

definition enriched_event :: "(string \<rightharpoonup> actor_identity) \<Rightarrow> ai_projection list \<Rightarrow> admin_log_data \<Rightarrow> admin_log_data" where
  "enriched_event directory requests d =
     (let candidates = collectAdminAiRequestCandidateIds (al_targetType d) (al_targetId d) (Some (al_sourceRecordId d))
            (al_metadataJson d) (al_payloadJson d);
          aiRequest = first_request candidates requests;
          patched = (case aiRequest of None \<Rightarrow> d | Some q \<Rightarrow> with_ai_patch (buildAdminAiLogPatchFromAiRequestEvent q) d);
          base = patched\<lparr>al_searchText := Some (search_text [al_searchText d, Option.bind aiRequest aq_promptExcerpt])\<rparr>
      in enrichReadModelActorFields base (case or_none (al_actorId d) of None \<Rightarrow> None | Some i \<Rightarrow> directory i))"

definition write_event ::
  "(admin_log_data \<Rightarrow> bool) \<Rightarrow> (nat \<Rightarrow> string) \<Rightarrow> (string \<rightharpoonup> actor_identity) \<Rightarrow> admin_log_data \<Rightarrow> 'm log_db_scheme \<Rightarrow> 'm log_db_scheme" where
  "write_event fails cuid directory d s =
     (if fails d then s else fst (upsert_log_row cuid (enriched_event directory (lg_ai s) d) s))"

definition upsertAdminLogEventsBestEffort ::
  "bool \<Rightarrow> (admin_log_data \<Rightarrow> bool) \<Rightarrow> (nat \<Rightarrow> string) \<Rightarrow> admin_log_data list \<Rightarrow> ('m log_db_scheme, unit) op" where
  "upsertAdminLogEventsBestEffort up fails cuid events s =
     (case resolveActorIdentities up (map the (filter truthy (map al_actorId events))) s of
        Inl e \<Rightarrow> (s, Inl e)
      | Inr directory \<Rightarrow> (fold (write_event fails cuid directory) events s, Inr ()))"

declare trim_trim [simp]

section \<open>The two ways of finding the AI request of a row agree\<close>

definition row_candidates :: "'m admin_log_data_scheme \<Rightarrow> string list" where
  "row_candidates r = collectAdminAiRequestCandidateIds (al_targetType r) (al_targetId r) (Some (al_sourceRecordId r))
     (al_metadataJson r) (al_payloadJson r)"

lemma set_push_id: "i \<in> set (push_id v) \<longleftrightarrow> (\<exists>s. v = Some (JStr s) \<and> trim s = i \<and> i \<noteq> [])"
  by (auto simp: push_id_def split: option.splits json.splits)

lemma set_ids_of: "i \<in> set (ids_of es) \<longleftrightarrow> (\<exists>k \<in> set id_keys. i \<in> set (push_id (map_of es k)))"
  by (auto simp: ids_of_def)

definition string_at :: "json_object option \<Rightarrow> string list \<Rightarrow> string list" where
  "string_at ob path = (case path of
     [k] \<Rightarrow> (case field_of ob k of Some (JStr s) \<Rightarrow> [s] | _ \<Rightarrow> [])
   | [k, l] \<Rightarrow> (case field_of ob k of Some (JObj es) \<Rightarrow> (case map_of es l of Some (JStr s) \<Rightarrow> [s] | _ \<Rightarrow> []) | _ \<Rightarrow> [])
   | _ \<Rightarrow> [])"

lemma path_equals_iff: "path_equals ob path i \<longleftrightarrow> i \<in> set (string_at ob path)"
  by (auto simp: path_equals_def string_at_def split: list.splits option.splits json.splits)

definition alias_strings :: "json_object option \<Rightarrow> string set" where
  "alias_strings ob = set (concat (map (string_at ob) alias_paths))"

lemma alias_strings_eq: "alias_strings ob = {s. \<exists>p \<in> set alias_paths. path_equals ob p s}"
  by (auto simp: alias_strings_def path_equals_iff)

lemma alias_list_ex: "list_ex (\<lambda>p. path_equals ob p i) alias_paths \<longleftrightarrow> i \<in> alias_strings ob"
  by (simp add: alias_strings_eq list_ex_iff)

lemma path_equals_simps:
  "path_equals (Some es) [k] s \<longleftrightarrow> map_of es k = Some (JStr s)"
  "path_equals (Some es) [k, l] s \<longleftrightarrow> (\<exists>fs. map_of es k = Some (JObj fs) \<and> map_of fs l = Some (JStr s))"
  by (simp_all add: path_equals_def field_of_def split: option.split json.split)

lemma set_object_ids:
  "i \<in> set (object_ids es) \<longleftrightarrow> i \<in> set (ids_of es)
     \<or> (\<exists>fs. map_of es ''requestMetadata'' = Some (JObj fs) \<and> i \<in> set (ids_of fs))"
  by (auto simp: object_ids_def split: option.split json.split)

lemma object_ids_alias: "i \<in> set (object_ids es) \<longleftrightarrow> i \<noteq> [] \<and> i \<in> trim ` alias_strings (Some es)"
proof -
  have "alias_strings (Some es) = {s. \<exists>k \<in> set id_keys. map_of es k = Some (JStr s)}
      \<union> {s. \<exists>fs. map_of es ''requestMetadata'' = Some (JObj fs) \<and> (\<exists>k \<in> set id_keys. map_of fs k = Some (JStr s))}"
    unfolding alias_strings_eq alias_paths_def by (auto simp: path_equals_simps bex_Un)
  then show ?thesis unfolding set_object_ids set_ids_of set_push_id image_iff by blast
qed

lemma set_row_candidates:
  "i \<in> set (row_candidates r) \<longleftrightarrow> i \<noteq> [] \<and>
     ((al_targetType r = Some ''ai_request'' \<and> (\<exists>t. al_targetId r = Some t \<and> i = trim t))
      \<or> i \<in> trim ` alias_strings (al_metadataJson r) \<or> i \<in> trim ` alias_strings (al_payloadJson r)
      \<or> i = trim (al_sourceRecordId r))"
proof -
  have none: "alias_strings None = {}"
    by (auto simp: alias_strings_eq alias_paths_def path_equals_def field_of_def)
  show ?thesis
    by (cases "al_metadataJson r"; cases "al_payloadJson r")
       (auto simp: row_candidates_def collectAdminAiRequestCandidateIds_def object_ids_alias set_push_id none)
qed

text \<open>A row whose identifiers carry no white space around them.\<close>

definition ids_trimmed :: "'m admin_log_data_scheme \<Rightarrow> bool" where
  "ids_trimmed r = (\<forall>s \<in> alias_strings (al_metadataJson r) \<union> alias_strings (al_payloadJson r)
     \<union> set_option (al_targetId r) \<union> {al_sourceRecordId r}. trim s = s)"

lemma sync_where_iff:
  "buildAdminAiLogSyncWhere q r \<longleftrightarrow> is_ai_row r \<and>
     ((al_targetType r = Some ''ai_request'' \<and> al_targetId r = Some (trim q)) \<or> trim q \<in> alias_strings (al_metadataJson r)
      \<or> trim q \<in> alias_strings (al_payloadJson r) \<or> al_sourceRecordId r = trim q)"
  by (simp add: buildAdminAiLogSyncWhere_def Let_def alias_list_ex)

text \<open>
  The job that writes a finished AI request into the log finds exactly the rows that look the request
  up themselves when they are written: an AI row is updated only if the request is among its candidates,
  and also if, provided the identifiers in the row carry no white space around them.
\<close>

theorem sync_finds_candidates:
  assumes "trim q \<noteq> []"
  shows "(buildAdminAiLogSyncWhere q r \<longrightarrow> is_ai_row r \<and> trim q \<in> set (row_candidates r))
    \<and> (ids_trimmed r \<longrightarrow> buildAdminAiLogSyncWhere q r = (is_ai_row r \<and> trim q \<in> set (row_candidates r)))"
proof -
  have twice: "trim (trim q) = trim q" by simp
  have "buildAdminAiLogSyncWhere q r \<Longrightarrow> trim q \<in> set (row_candidates r)"
    using assms unfolding sync_where_iff set_row_candidates by (metis twice image_eqI)
  moreover have "buildAdminAiLogSyncWhere q r"
    if "ids_trimmed r" "is_ai_row r" "trim q \<in> set (row_candidates r)"
    using that unfolding sync_where_iff set_row_candidates ids_trimmed_def by auto
  ultimately show ?thesis by (auto simp: sync_where_iff)
qed

section \<open>Writing an event twice\<close>

definition log_keys_ok :: "'m log_db_scheme \<Rightarrow> bool" where
  "log_keys_ok s = distinct (map log_key (lg_rows s))"

text \<open>A row that a write of the same data would leave as it is.\<close>

definition absorbed :: "admin_log_data \<Rightarrow> admin_log_row \<Rightarrow> bool" where
  "absorbed d r = (log_key r = log_key d \<and> toAdminLogEventUpdateInput d r = r)"

definition writes :: "(admin_log_data \<Rightarrow> bool) \<Rightarrow> (string \<rightharpoonup> actor_identity) \<Rightarrow> 'm log_db_scheme \<Rightarrow> admin_log_data \<Rightarrow> bool" where
  "writes fails directory s d = (\<not> fails d \<and> columns_ok (enriched_event directory (lg_ai s) d))"

lemma orElse_idem [simp]: "orElse a a = a" "orElse a (orElse a b) = orElse a b"
  by (cases a; simp)+

lemma update_key [simp]: "log_key (toAdminLogEventUpdateInput d r) = log_key r"
  by (simp add: log_key_def toAdminLogEventUpdateInput_def)

lemma update_twice [simp]: "toAdminLogEventUpdateInput d (toAdminLogEventUpdateInput d r) = toAdminLogEventUpdateInput d r"
  by (simp add: toAdminLogEventUpdateInput_def)

lemma create_absorbed: "absorbed d (create_row i d)"
  by (cases d) (simp add: absorbed_def create_row_def log_key_def toAdminLogEventUpdateInput_def
    admin_log_data.defs admin_log_row.defs)

lemma create_fix [simp]: "toAdminLogEventUpdateInput d (create_row i d) = create_row i d"
  using create_absorbed [of d i] by (simp add: absorbed_def)

lemma enriched_key [simp]: "log_key (enriched_event directory requests d) = log_key d"
  by (simp add: enriched_event_def Let_def enrichReadModelActorFields_def with_ai_patch_def log_key_def split: option.split)

lemma write_event_other [simp]:
  "lg_ai (write_event fails cuid directory d s) = lg_ai s" "ad_users (write_event fails cuid directory d s) = ad_users s"
  by (simp_all add: write_event_def upsert_log_row_def)

lemma write_event_idle: "\<not> writes fails directory s d \<Longrightarrow> write_event fails cuid directory d s = s"
  by (auto simp: writes_def write_event_def upsert_log_row_def)

lemma write_event_rows:
  assumes "writes fails directory s d"
  defines "e \<equiv> enriched_event directory (lg_ai s) d"
  shows "lg_rows (write_event fails cuid directory d s) =
    (if log_key d \<in> log_key ` set (lg_rows s)
     then map (\<lambda>r. if log_key r = log_key d then toAdminLogEventUpdateInput e r else r) (lg_rows s)
     else lg_rows s @ [create_row (cuid (ad_next s)) e])"
  using assms by (auto simp: writes_def write_event_def upsert_log_row_def)

lemma create_key [simp]: "log_key (create_row i d) = log_key d"
  using create_absorbed [of d i] by (simp add: absorbed_def)

lemma write_event_keys:
  assumes "log_keys_ok s"
  shows "log_keys_ok (write_event fails cuid directory d s)"
proof (cases "writes fails directory s d")
  case True
  have same: "map log_key (map (\<lambda>r. if log_key r = k then toAdminLogEventUpdateInput e r else r) rs) = map log_key rs" for k e and rs :: "admin_log_row list"
    by (simp add: comp_def if_distrib cong: if_cong)
  show ?thesis
    using assms by (auto simp: log_keys_ok_def write_event_rows [OF True] same simp del: map_map)
qed (simp add: write_event_idle assms)

lemma write_event_effect:
  "writes fails directory s d \<Longrightarrow> log_key d \<in> log_key ` set (lg_rows (write_event fails cuid directory d s))"
  "writes fails directory s d \<Longrightarrow> r \<in> set (lg_rows (write_event fails cuid directory d s)) \<Longrightarrow> log_key r = log_key d
    \<Longrightarrow> absorbed (enriched_event directory (lg_ai s) d) r"
  "log_key r \<noteq> log_key d \<Longrightarrow> r \<in> set (lg_rows (write_event fails cuid directory d s)) \<longleftrightarrow> r \<in> set (lg_rows s)"
  subgoal by (auto simp: write_event_rows image_iff bex_Un)
  subgoal by (auto simp: write_event_rows absorbed_def image_iff create_fix split: if_splits)
  subgoal by (cases "writes fails directory s d") (auto simp: write_event_rows write_event_idle image_iff)
  done

text \<open>After a sequence of writes with distinct keys, every event that was written is absorbed by the rows.\<close>

lemma fold_write_other [simp]:
  "lg_ai (fold (write_event fails cuid directory) ds s) = lg_ai s" "ad_users (fold (write_event fails cuid directory) ds s) = ad_users s"
  by (induction ds arbitrary: s) simp_all

lemma fold_write_keys: "log_keys_ok s \<Longrightarrow> log_keys_ok (fold (write_event fails cuid directory) ds s)"
  by (induction ds arbitrary: s) (simp_all add: write_event_keys)

lemma writes_cong: "lg_ai s' = lg_ai s \<Longrightarrow> writes fails directory s' d = writes fails directory s d"
  by (simp add: writes_def)

definition written :: "(admin_log_data \<Rightarrow> bool) \<Rightarrow> (string \<rightharpoonup> actor_identity) \<Rightarrow> admin_log_data \<Rightarrow> 'm log_db_scheme \<Rightarrow> bool" where
  "written fails directory d s \<longleftrightarrow> (writes fails directory s d \<longrightarrow> log_key d \<in> log_key ` set (lg_rows s)
     \<and> (\<forall>r \<in> set (lg_rows s). log_key r = log_key d \<longrightarrow> absorbed (enriched_event directory (lg_ai s) d) r))"

lemma write_event_written: "written fails directory d (write_event fails cuid directory d s)"
  by (auto simp: written_def writes_cong [OF write_event_other(1)] write_event_effect(1,2))

lemma write_event_keeps_written:
  assumes "written fails directory d s" and "log_key d \<noteq> log_key d'"
  shows "written fails directory d (write_event fails cuid directory d' s)"
proof -
  have same: "\<And>r. log_key r = log_key d \<Longrightarrow> r \<in> set (lg_rows (write_event fails cuid directory d' s)) \<longleftrightarrow> r \<in> set (lg_rows s)"
    using assms(2) write_event_effect(3) by metis
  show ?thesis
    using assms(1) unfolding written_def writes_cong [OF write_event_other(1)] by (auto simp: same image_iff)
qed

lemma fold_written:
  assumes "distinct (map log_key ds)" and "d \<in> set ds"
  shows "written fails directory d (fold (write_event fails cuid directory) ds s)"
  using assms
proof (induction ds rule: rev_induct)
  case (snoc x xs)
  then show ?case
    by (cases "d = x") (auto simp: write_event_written image_iff intro!: write_event_keeps_written)
qed simp

lemma write_event_again: "written fails directory d s \<Longrightarrow> write_event fails cuid directory d s = s"
proof (cases "writes fails directory s d")
  case True
  assume "written fails directory d s"
  then have ok: "log_key d \<in> log_key ` set (lg_rows s)"
    and same: "map (\<lambda>r. if log_key r = log_key d then toAdminLogEventUpdateInput (enriched_event directory (lg_ai s) d) r else r) (lg_rows s)
      = lg_rows s"
    using True by (auto simp: written_def absorbed_def intro!: map_idI)
  show ?thesis
    using True ok unfolding writes_def write_event_def upsert_log_row_def by (simp add: same)
qed (simp add: write_event_idle)

text \<open>
  Writing the read model is idempotent and keyed: whatever writes fail, stream and source record stay
  unique, every event that could be written has its row, with every column the event determines, rows of
  other source records are untouched, and projecting the same events again changes nothing.
\<close>

theorem dual_write_idempotent:
  assumes "log_keys_ok s" and "distinct (map log_key events)"
    and "upsertAdminLogEventsBestEffort up fails cuid events s = (s', Inr ())"
  shows "log_keys_ok s'
    \<and> (\<exists>directory. \<forall>d \<in> set events. writes fails directory s d \<longrightarrow> (\<exists>r \<in> set (lg_rows s'). absorbed (enriched_event directory (lg_ai s) d) r))
    \<and> (\<forall>r. log_key r \<notin> log_key ` set events \<longrightarrow> r \<in> set (lg_rows s') \<longleftrightarrow> r \<in> set (lg_rows s))
    \<and> upsertAdminLogEventsBestEffort up fails cuid events s' = (s', Inr ())"
proof -
  obtain directory where dir: "resolveActorIdentities up (map the (filter truthy (map al_actorId events))) s = Inr directory"
    and s': "s' = fold (write_event fails cuid directory) events s"
    using assms(3) by (auto simp: upsertAdminLogEventsBestEffort_def split: sum.splits)
  have written: "written fails directory d s'" if "d \<in> set events" for d
    unfolding s' by (rule fold_written [OF assms(2) that])
  have "fold (write_event fails cuid directory) ds s' = s'" if "set ds \<subseteq> set events" for ds
    using that by (induction ds) (auto simp: write_event_again written)
  moreover have "resolveActorIdentities up ids s' = resolveActorIdentities up ids s" for ids
    unfolding resolveActorIdentities_def s' fold_write_other(2) ..
  ultimately have "upsertAdminLogEventsBestEffort up fails cuid events s' = (s', Inr ())"
    using dir by (simp add: upsertAdminLogEventsBestEffort_def)
  moreover have "r \<in> set (lg_rows (fold (write_event fails cuid directory) ds s)) \<longleftrightarrow> r \<in> set (lg_rows s)"
    if "log_key r \<notin> log_key ` set ds" for r ds
    using that
  proof (induction ds rule: rev_induct)
    case (snoc x xs)
    then show ?case using write_event_effect(3) [of r x] by auto
  qed simp
  moreover have "\<exists>r \<in> set (lg_rows s'). absorbed (enriched_event directory (lg_ai s) d) r"
    if "d \<in> set events" "writes fails directory s d" for d
  proof -
    have ai: "lg_ai s' = lg_ai s" by (simp add: s')
    show ?thesis using written [OF that(1)] that(2) unfolding written_def writes_cong [OF ai] ai by auto
  qed
  ultimately show ?thesis
    using fold_write_keys [OF assms(1)] s' by blast
qed

definition demo_ids :: "nat \<Rightarrow> string" where
  "demo_ids n = show_int (int n)"

definition demo_log :: log_db where
  "demo_log = \<lparr>ad_users = [], ad_sessions = [], ad_resets = [], ad_next = 0, lg_rows = [],
     lg_ai = [\<lparr>aq_id = ''q1'', aq_provider = Some ''openai'', aq_model = None, aq_durationMs = Some (Fin 12), aq_estimatedCostUsd = None,
       aq_promptTokens = None, aq_completionTokens = None, aq_totalTokens = None, aq_promptExcerpt = None, aq_status = Some ''error''\<rparr>]\<rparr>"

definition demo_event :: event_row where
  "demo_event = \<lparr>ev_id = ''d1'', ev_eventType = ''ai.proxy.failed'', ev_actorId = None, ev_severity = None,
     ev_json = Some (JObj [(''requestId'', JStr ''q1'')]), ev_createdAt = 5\<rparr>"

lemma demo_projected:
  "map (\<lambda>r. (al_targetId r, al_provider r, al_status r, al_durationMs r)) (lg_rows (fst
     (upsertAdminLogEventsBestEffort True (\<lambda>_. False) demo_ids [buildReadModelFromActivityRow demo_event] demo_log)))
   = [(Some ''q1'', Some ''openai'', Some StatusFailure, Some (Fin 12))]"
  by code_simp

theorem sync_finds_candidates_witness:
  "buildAdminAiLogSyncWhere ''q1'' (buildReadModelFromActivityRow demo_event)
   = (is_ai_row (buildReadModelFromActivityRow demo_event) \<and> trim ''q1'' \<in> set (row_candidates (buildReadModelFromActivityRow demo_event)))"
  using sync_finds_candidates [of "''q1''" "buildReadModelFromActivityRow demo_event"] by code_simp

theorem dual_write_idempotent_witness:
  "upsertAdminLogEventsBestEffort True (\<lambda>_. False) demo_ids [buildReadModelFromActivityRow demo_event]
     (fst (upsertAdminLogEventsBestEffort True (\<lambda>_. False) demo_ids [buildReadModelFromActivityRow demo_event] demo_log))
   = (fst (upsertAdminLogEventsBestEffort True (\<lambda>_. False) demo_ids [buildReadModelFromActivityRow demo_event] demo_log), Inr ())"
proof -
  have "upsertAdminLogEventsBestEffort True (\<lambda>_. False) demo_ids [buildReadModelFromActivityRow demo_event] demo_log
    = (fst (upsertAdminLogEventsBestEffort True (\<lambda>_. False) demo_ids [buildReadModelFromActivityRow demo_event] demo_log), Inr ())"
    by (rule prod_eqI) (simp_all add: upsertAdminLogEventsBestEffort_def resolveActorIdentities_def split: sum.split)
  then show ?thesis
    by (intro dual_write_idempotent [THEN conjunct2, THEN conjunct2, THEN conjunct2, OF _ _]) (simp_all add: log_keys_ok_def demo_log_def)
qed

end
