(* ===== verification/Keyset.thy ===== *)
theory Keyset
  imports Prelude "HOL-Library.Product_Lexorder"
begin

text \<open>
  Keyset pagination, as the repositories of the log and of the history use it: a page is the first rows
  of a query ordered by time and identifier, and the next page asks for the rows beyond the key of the
  last one. The locale \<open>keyset\<close> states what an order and its comparison have to give each other, and shows
  that following the pages visits every row of the query once and in order. It is interpreted for both
  directions.
\<close>

definition by_oldest :: "('a \<Rightarrow> 'k::linorder) \<Rightarrow> 'a list \<Rightarrow> 'a list" where
  "by_oldest key rows = sort_key key rows"

definition by_newest :: "('a \<Rightarrow> 'k::linorder) \<Rightarrow> 'a list \<Rightarrow> 'a list" where
  "by_newest key rows = rev (sort_key key rows)"

definition beyond :: "('k \<Rightarrow> 'k \<Rightarrow> bool) \<Rightarrow> 'k option \<Rightarrow> 'k \<Rightarrow> bool" where
  "beyond lt cursor k = (case cursor of None \<Rightarrow> True | Some c \<Rightarrow> lt c k)"

lemma beyond_simps [simp]: "beyond lt None k" "beyond lt (Some c) k = lt c k"
  by (simp_all add: beyond_def)

section \<open>A loop over the pages of a table, oldest first\<close>

text \<open>The pages a loop reads that starts without a cursor and ends at an empty page.\<close>

definition next_batch :: "nat \<Rightarrow> ('a \<Rightarrow> 'k::linorder) \<Rightarrow> 'a list \<Rightarrow> 'k option \<Rightarrow> 'a list" where
  "next_batch n key rows cursor = take n (by_oldest key (filter (\<lambda>r. beyond (<) cursor (key r)) rows))"

function batches :: "nat \<Rightarrow> ('a \<Rightarrow> 'k::linorder) \<Rightarrow> 'a list \<Rightarrow> 'k option \<Rightarrow> 'a list list" where
  "batches n key rows cursor =
     (let page = next_batch n key rows cursor
      in if page = [] then [] else page # batches n key rows (Some (key (last page))))"
  by pat_completeness auto

lemma next_batch_subset: "set (next_batch n key rows cursor) \<subseteq> {r \<in> set rows. beyond (<) cursor (key r)}"
  by (auto simp: next_batch_def by_oldest_def dest: in_set_takeD)

lemma length_filter_strict:
  assumes "\<And>x. x \<in> set xs \<Longrightarrow> P x \<Longrightarrow> Q x" and "y \<in> set xs" "Q y" "\<not> P y"
  shows "length (filter P xs) < length (filter Q xs)"
proof -
  have "filter P xs = filter P (filter Q xs)" using assms(1) by (auto intro!: filter_cong)
  moreover have "length (filter P (filter Q xs)) < length (filter Q xs)"
    by (rule length_filter_less [of y]) (use assms in auto)
  ultimately show ?thesis by simp
qed

lemma next_batch_decreases:
  assumes "next_batch n key rows cursor \<noteq> []"
  defines "l \<equiv> last (next_batch n key rows cursor)"
  shows "length (filter (\<lambda>r. beyond (<) (Some (key l)) (key r)) rows) < length (filter (\<lambda>r. beyond (<) cursor (key r)) rows)"
proof -
  have l: "l \<in> set rows" "beyond (<) cursor (key l)"
    using next_batch_subset [of n key rows cursor] last_in_set [OF assms(1)] unfolding l_def by blast+
  have "beyond (<) cursor (key r)" if "key l < key r" for r
    using l(2) that by (cases cursor) (auto intro: less_trans)
  then show ?thesis using l by (intro length_filter_strict [of _ _ _ l]) auto
qed

termination batches
  by (relation "measure (\<lambda>(n, key, rows, cursor). length (filter (\<lambda>r. beyond (<) cursor (key r)) rows))")
    (use next_batch_decreases in force)+

declare batches.simps [simp del]

section \<open>The interface\<close>

locale keyset =
  fixes arrange :: "('a \<Rightarrow> 'k) \<Rightarrow> 'a list \<Rightarrow> 'a list" and lt :: "'k \<Rightarrow> 'k \<Rightarrow> bool"
  assumes arrange_filter: "arrange key (filter P rows) = filter P (arrange key rows)"
    and arrange_set: "set (arrange key rows) = set rows"
    and arrange_length: "length (arrange key rows) = length rows"
    and arrange_rest: "distinct (map key rows) \<Longrightarrow> arrange key rows = xs @ x # ys \<Longrightarrow> filter (\<lambda>r. lt (key x) (key r)) (xs @ x # ys) = ys"
begin

definition page :: "nat \<Rightarrow> ('a \<Rightarrow> 'k) \<Rightarrow> 'a list \<Rightarrow> 'k option \<Rightarrow> 'a list" where
  "page n key rows cursor = take n (arrange key (filter (\<lambda>r. beyond lt cursor (key r)) rows))"

lemma page_first: "page n key rows None = take n (arrange key rows)"
  by (simp add: page_def)

lemma page_next:
  assumes "distinct (map key rows)" and "arrange key rows = xs @ x # ys"
  shows "page n key rows (Some (key x)) = take n ys"
  using arrange_rest [OF assms] by (simp add: page_def arrange_filter assms(2))

text \<open>Following the pages with enough steps gives the whole query, in order.\<close>

fun follow :: "nat \<Rightarrow> nat \<Rightarrow> ('a \<Rightarrow> 'k) \<Rightarrow> 'a list \<Rightarrow> 'k option \<Rightarrow> 'a list" where
  "follow 0 n key rows cursor = []"
| "follow (Suc m) n key rows cursor =
     (let p = page n key rows cursor in if p = [] then [] else p @ follow m n key rows (Some (key (last p))))"

lemma follow_rest:
  assumes "distinct (map key rows)" and "0 < n"
  shows "arrange key rows = xs @ x # ys \<Longrightarrow> length ys < m \<Longrightarrow> follow m n key rows (Some (key x)) = ys"
proof (induction m arbitrary: xs x ys)
  case (Suc m)
  show ?case
  proof (cases "ys = []")
    case False
    let ?p = "take n ys"
    have p: "page n key rows (Some (key x)) = ?p" by (rule page_next [OF assms(1) Suc.prems(1)])
    have ne: "?p \<noteq> []" using False assms(2) by simp
    have "arrange key rows = (xs @ x # butlast ?p) @ last ?p # drop n ys"
      using Suc.prems(1) by (simp add: append_butlast_last_id [OF ne] flip: append_Cons append_assoc)
        (metis append_assoc append_take_drop_id ne append_butlast_last_id append_Cons append_Nil)
    moreover have "length (drop n ys) < m" using Suc.prems(2) assms(2) False by (cases ys) auto
    ultimately have "follow m n key rows (Some (key (last ?p))) = drop n ys" by (rule Suc.IH)
    then show ?thesis using ne by (simp add: p Let_def)
  qed (simp add: page_next [OF assms(1) Suc.prems(1)])
qed simp

theorem follow_all:
  assumes "distinct (map key rows)" and "0 < n" and "length rows < m"
  shows "follow m n key rows None = arrange key rows"
proof (cases "arrange key rows = []")
  case True
  then show ?thesis using assms(3) by (cases m) (simp_all add: page_first)
next
  case False
  let ?L = "arrange key rows"
  let ?p = "take n ?L"
  have ne: "?p \<noteq> []" using False assms(2) by simp
  have "?L = butlast ?p @ last ?p # drop n ?L"
    by (metis append_assoc append_Cons append_Nil append_butlast_last_id append_take_drop_id ne)
  moreover obtain k where m: "m = Suc k" using assms(3) by (cases m) auto
  moreover have "length (drop n ?L) < k"
    using assms m False arrange_length [of key rows] by (cases rows) auto
  ultimately have "follow k n key rows (Some (key (last ?p))) = drop n ?L"
    using follow_rest [OF assms(1,2)] by blast
  then show ?thesis using ne m by (simp add: page_first Let_def)
qed

end

lemma sorted_rest:
  fixes key :: "'a \<Rightarrow> 'k::linorder"
  assumes "sorted (map key (xs @ x # ys))" and "distinct (map key (xs @ x # ys))"
  shows "filter (\<lambda>r. key x < key r) (xs @ x # ys) = ys" "filter (\<lambda>r. key r < key x) (xs @ x # ys) = xs"
proof -
  have above: "\<And>r. r \<in> set ys \<Longrightarrow> key x < key r" and below: "\<And>r. r \<in> set xs \<Longrightarrow> key r < key x"
    using assms by (auto simp: sorted_append order_less_le image_iff)
  show "filter (\<lambda>r. key x < key r) (xs @ x # ys) = ys"
    using above below by (auto simp: filter_empty_conv filter_id_conv dest: less_asym)
  show "filter (\<lambda>r. key r < key x) (xs @ x # ys) = xs"
    using above below by (auto simp: filter_empty_conv filter_id_conv dest: less_asym)
qed

lemma distinct_sort_key: "distinct (map key (sort_key f rows)) = distinct (map key rows)"
  by (metis distinct_map_filter distinct_sort distinct_map set_sort)

interpretation ascending: keyset by_oldest "(<) :: 'k::linorder \<Rightarrow> 'k \<Rightarrow> bool"
proof unfold_locales
  show "by_oldest key rows = xs @ x # ys \<Longrightarrow> filter (\<lambda>r. key x < key r) (xs @ x # ys) = ys"
    if "distinct (map key rows)" for key :: "'a \<Rightarrow> 'k" and rows xs x ys
    using that sorted_sort_key [of key rows] distinct_sort_key [of key key rows] unfolding by_oldest_def
    by (metis sorted_rest(1))
qed (simp_all add: by_oldest_def filter_sort)

interpretation descending: keyset by_newest "\<lambda>c k. (k :: 'k::linorder) < c"
proof unfold_locales
  show "by_newest key rows = xs @ x # ys \<Longrightarrow> filter (\<lambda>r. key r < key x) (xs @ x # ys) = ys"
    if "distinct (map key rows)" for key :: "'a \<Rightarrow> 'k" and rows xs x ys
  proof -
    assume "by_newest key rows = xs @ x # ys"
    then have "sort_key key rows = rev ys @ x # rev xs"
      by (metis append_assoc append_Cons append_Nil by_newest_def rev.simps(2) rev_append rev_rev_ident)
    then have "sorted (map key (rev ys @ x # rev xs))" "distinct (map key (rev ys @ x # rev xs))"
      using that by (metis sorted_sort_key, metis distinct_sort_key)
    from sorted_rest(2) [OF this] have "filter (\<lambda>r. key r < key x) (rev (rev ys @ x # rev xs)) = rev (rev ys)"
      by (metis rev_filter)
    then show ?thesis by simp
  qed
qed (simp_all add: by_newest_def flip: filter_sort rev_filter)

section \<open>The loop reads every row once\<close>

lemma next_batch_page: "next_batch n key rows cursor = ascending.page n key rows cursor"
  by (simp add: next_batch_def ascending.page_def)

lemma follow_batches:
  "length (filter (\<lambda>r. beyond (<) cursor (key r)) rows) < m \<Longrightarrow> ascending.follow m n key rows cursor = concat (batches n key rows cursor)"
proof (induction m arbitrary: cursor)
  case (Suc m)
  let ?p = "next_batch n key rows cursor"
  show ?case
  proof (cases "?p = []")
    case False
    have "ascending.follow m n key rows (Some (key (last ?p))) = concat (batches n key rows (Some (key (last ?p))))"
      using Suc.prems next_batch_decreases [OF False] by (intro Suc.IH) linarith
    then show ?thesis
      using False by (simp add: batches.simps [of n key rows cursor] next_batch_page [symmetric] Let_def)
  qed (simp add: batches.simps [of n key rows cursor] next_batch_page [symmetric])
qed simp

theorem batches_all:
  assumes "distinct (map key rows)" and "0 < n"
  shows "concat (batches n key rows None) = by_oldest key rows"
  using ascending.follow_all [OF assms lessI] follow_batches [of None key rows "Suc (length rows)" n] by (simp add: beyond_def)

end
