(* ===== verification/AdminLogStore.thy ===== *)
theory AdminLogStore
  imports AdminLog Keyset Retention "HOL-Library.Multiset"
begin

text \<open>
  The table of the administrators' log: its pages and its pruning
  (\<open>apps/api/src/logs/admin-log.repository.ts\<close>), and the backfill of the table from its sources
  (\<open>admin-log.backfill.ts\<close>). A condition on a null column is neither true nor false, so \<open>NOT category =
  'admin'\<close> does not select a row without a category. Text columns compare by code units. The match of a
  search pattern, base 64, the parsing and printing of JSON are parameters.
\<close>

section \<open>Pages\<close>

record log_host =
  lh_date :: "string \<Rightarrow> int option"
  lh_contains :: "string \<Rightarrow> string \<Rightarrow> bool"
  lh_encode :: "string \<Rightarrow> string"
  lh_decode :: "string \<Rightarrow> string"
  lh_stringify :: "json \<Rightarrow> string"
  lh_parse :: "string \<Rightarrow> json option"
  lh_text :: "json \<Rightarrow> string"

record list_input =
  ls_stream :: string
  ls_severity :: string
  ls_search :: "string option"
  ls_category :: "string option"
  ls_source :: "string option"
  ls_status :: "string option"
  ls_eventType :: "string option"
  ls_from :: "string option"
  ls_to :: "string option"
  ls_limit :: int
  ls_cursor :: "string option"

record list_result =
  lr_items :: "admin_log_row list"
  lr_hasNext :: bool
  lr_nextCursor :: "string option"

definition log_time_key :: "admin_log_row \<Rightarrow> int \<times> string" where
  "log_time_key r = (al_occurredAt r, al_id r)"

text \<open>\<open>new Date(v)\<close> of a value that JSON can hold.\<close>

definition date_of_json :: "log_host \<Rightarrow> json \<Rightarrow> int option" where
  "date_of_json h v = (case v of
     JStr s \<Rightarrow> date_parse (lh_date h) s
   | JNum (Fin q) \<Rightarrow> if \<bar>q\<bar> \<le> 8640000000000000 then Some (if 0 \<le> q then \<lfloor>q\<rfloor> else \<lceil>q\<rceil>) else None
   | JNum _ \<Rightarrow> None
   | JBool b \<Rightarrow> Some (if b then 1 else 0)
   | JNull \<Rightarrow> Some 0
   | _ \<Rightarrow> date_parse (lh_date h) (lh_text h v))"

definition parseCursor :: "log_host \<Rightarrow> string option \<Rightarrow> (int \<times> json) option" where
  "parseCursor h cursor =
     (if \<not> truthy cursor then None
      else case lh_parse h (lh_decode h (the cursor)) of
        Some (JObj es) \<Rightarrow>
          (case (map_of es ''id'', map_of es ''occurredAt'') of
             (Some i, Some t) \<Rightarrow>
               if json_truthy i \<and> json_truthy t then map_option (\<lambda>d. (d, i)) (date_of_json h t) else None
           | _ \<Rightarrow> None)
      | _ \<Rightarrow> None)"

definition encodeCursor :: "log_host \<Rightarrow> admin_log_row \<Rightarrow> string" where
  "encodeCursor h r = lh_encode h (lh_stringify h
     (JObj [(''occurredAt'', JStr (toISOString (al_occurredAt r))), (''id'', JStr (al_id r))]))"

definition read_date :: "log_host \<Rightarrow> string option \<Rightarrow> int option" where
  "read_date h v = (if truthy v then date_parse (lh_date h) (the v) else None)"

text \<open>The conditions of a list query, the cursor aside.\<close>

definition log_where :: "log_host \<Rightarrow> list_input \<Rightarrow> 'm admin_log_data_scheme \<Rightarrow> bool" where
  "log_where h q r =
     ((truthy (Some (ls_stream q)) \<and> ls_stream q \<noteq> ''all'' \<longrightarrow> al_stream r = ls_stream q)
      \<and> (truthy (Some (ls_severity q)) \<and> ls_severity q \<noteq> ''all'' \<longrightarrow> map_option show_severity (al_severity r) = Some (ls_severity q))
      \<and> (truthy (ls_category q) \<longrightarrow> al_category r = ls_category q)
      \<and> (truthy (ls_source q) \<longrightarrow> al_source r = ls_source q)
      \<and> (truthy (ls_status q) \<longrightarrow> map_option show_status (al_status r) = ls_status q)
      \<and> (truthy (ls_eventType q) \<longrightarrow> lh_contains h (al_eventType r) (the (ls_eventType q)))
      \<and> (truthy (map_option trim (ls_search q)) \<longrightarrow>
           (case al_searchText r of None \<Rightarrow> False | Some t \<Rightarrow> lh_contains h t (trim (the (ls_search q)))))
      \<and> (case read_date h (ls_from q) of None \<Rightarrow> True | Some t \<Rightarrow> t \<le> al_occurredAt r)
      \<and> (case read_date h (ls_to q) of None \<Rightarrow> True | Some t \<Rightarrow> al_occurredAt r \<le> t))"

definition log_query :: "log_host \<Rightarrow> list_input \<Rightarrow> (int \<times> string) option \<Rightarrow> admin_log_row list \<Rightarrow> admin_log_row list" where
  "log_query h q cursor rows = by_newest log_time_key
     (filter (\<lambda>r. beyond (\<lambda>c k. k < c) cursor (log_time_key r)) (filter (log_where h q) rows))"

text \<open>A cursor whose identifier is not a string is refused by the client of the database.\<close>

definition listPage :: "log_host \<Rightarrow> list_input \<Rightarrow> 'm log_db_scheme \<Rightarrow> list_result result" where
  "listPage h q s =
     (let page = (\<lambda>cursor.
            let n = nat (min 100 (max 1 (ls_limit q)));
                rows = take (n + 1) (log_query h q cursor (lg_rows s));
                hasNext = n < length rows;
                items = (if hasNext then take n rows else rows)
            in \<lparr>lr_items = items, lr_hasNext = hasNext,
                lr_nextCursor = (if hasNext \<and> items \<noteq> [] then Some (encodeCursor h (last items)) else None)\<rparr>)
      in case parseCursor h (ls_cursor q) of
           None \<Rightarrow> Inr (page None)
         | Some (t, JStr i) \<Rightarrow> Inr (page (Some (t, i)))
         | Some _ \<Rightarrow> Inl InvalidValue)"

text \<open>\<open>const [stream, sourceRecordId] = id.split(':')\<close>: what follows a second colon is dropped.\<close>

definition findOne :: "string \<Rightarrow> 'm log_db_scheme \<Rightarrow> (admin_log_row \<times> json_object option) option" where
  "findOne i s =
     (let row = (case find (\<lambda>r. al_id r = i) (lg_rows s) of
            Some r \<Rightarrow> Some r
          | None \<Rightarrow>
              (case split_on (CHR '':'') i of
                 stream # sourceRecordId # _ \<Rightarrow>
                   if stream = [] \<or> sourceRecordId = [] then None
                   else find (\<lambda>r. log_key r = (stream, sourceRecordId)) (lg_rows s)
               | _ \<Rightarrow> None))
      in map_option (\<lambda>r. (r, orElse (al_metadataJson r) (al_payloadJson r))) row)"

section \<open>Pruning\<close>

record retention_days =
  rd_activity :: int
  rd_domain :: int
  rd_system :: int
  rd_audit :: int
  rd_security :: int
  rd_admin :: int

record prune_options =
  px_dryRun :: "bool option"
  px_includeSensitive :: "bool option"
  px_limit :: "int option"
  px_enabled :: "bool option"
  px_sensitiveEnabled :: "bool option"
  px_activity :: "int option"
  px_domain :: "int option"
  px_system :: "int option"
  px_audit :: "int option"
  px_security :: "int option"
  px_admin :: "int option"

record prune_result =
  pr_enabled :: bool
  pr_dryRun :: bool
  pr_includeSensitive :: bool
  pr_sensitiveEnabled :: bool
  pr_limit :: int
  pr_selected :: nat
  pr_deleted :: nat
  pr_selectedByStream :: "(string \<times> nat) list"
  pr_deletedByStream :: "(string \<times> nat) list"
  pr_selectedByCategory :: "(string \<times> nat) list"
  pr_deletedByCategory :: "(string \<times> nat) list"

definition resolve_days :: "(string \<Rightarrow> string option) \<Rightarrow> prune_options \<Rightarrow> retention_days" where
  "resolve_days env o' =
     \<lparr>rd_activity = nullish (px_activity o') (readPositiveIntEnv env ''ADMIN_LOG_RETENTION_ACTIVITY_DAYS'' 30),
      rd_domain = nullish (px_domain o') (readPositiveIntEnv env ''ADMIN_LOG_RETENTION_DOMAIN_DAYS'' 30),
      rd_system = nullish (px_system o') (readPositiveIntEnv env ''ADMIN_LOG_RETENTION_SYSTEM_DAYS'' 30),
      rd_audit = nullish (px_audit o') (readPositiveIntEnv env ''ADMIN_LOG_RETENTION_AUDIT_DAYS'' 365),
      rd_security = nullish (px_security o') (readPositiveIntEnv env ''ADMIN_LOG_RETENTION_SECURITY_DAYS'' 365),
      rd_admin = nullish (px_admin o') (readPositiveIntEnv env ''ADMIN_LOG_RETENTION_ADMIN_DAYS'' 365)\<rparr>"

definition cutoff :: "int \<Rightarrow> int \<Rightarrow> int" where
  "cutoff now days = now - days * 24 * 60 * 60 * 1000"

definition not_category :: "string \<Rightarrow> 'm admin_log_data_scheme \<Rightarrow> bool" where
  "not_category c r = (case al_category r of None \<Rightarrow> False | Some d \<Rightarrow> d \<noteq> c)"

definition prune_where :: "int \<Rightarrow> retention_days \<Rightarrow> bool \<Rightarrow> 'm admin_log_data_scheme \<Rightarrow> bool" where
  "prune_where now days sensitive r =
     ((al_stream r = ''activity'' \<and> al_occurredAt r < cutoff now (rd_activity days) \<and> not_category ''admin'' r)
      \<or> (al_stream r = ''domain'' \<and> al_occurredAt r < cutoff now (rd_domain days) \<and> not_category ''admin'' r)
      \<or> (al_category r = Some ''system'' \<and> al_occurredAt r < cutoff now (rd_system days)
         \<and> not_category ''admin'' r \<and> al_stream r \<noteq> ''audit'' \<and> al_stream r \<noteq> ''security'')
      \<or> (sensitive \<and>
         ((al_stream r = ''audit'' \<and> al_occurredAt r < cutoff now (rd_audit days))
          \<or> (al_stream r = ''security'' \<and> al_occurredAt r < cutoff now (rd_security days))
          \<or> (al_category r = Some ''admin'' \<and> al_occurredAt r < cutoff now (rd_admin days)))))"

definition bump :: "string \<Rightarrow> (string \<times> nat) list \<Rightarrow> (string \<times> nat) list" where
  "bump k counts = AList.update k (nullish (map_of counts k) 0 + 1) counts"

definition count_rows :: "('a \<Rightarrow> string) \<Rightarrow> 'a list \<Rightarrow> (string \<times> nat) list \<Rightarrow> (string \<times> nat) list" where
  "count_rows f rows counts = fold (\<lambda>r. bump (f r)) rows counts"

definition category_name :: "'m admin_log_data_scheme \<Rightarrow> string" where
  "category_name r = nullish (al_category r) ''uncategorized''"

definition note_selected :: "admin_log_row list \<Rightarrow> prune_result \<Rightarrow> prune_result" where
  "note_selected rows p = p\<lparr>pr_selected := pr_selected p + length rows,
     pr_selectedByStream := count_rows al_stream rows (pr_selectedByStream p),
     pr_selectedByCategory := count_rows category_name rows (pr_selectedByCategory p)\<rparr>"

definition note_deleted :: "admin_log_row list \<Rightarrow> prune_result \<Rightarrow> prune_result" where
  "note_deleted rows p = p\<lparr>pr_deleted := pr_deleted p + length rows,
     pr_deletedByStream := count_rows al_stream rows (pr_deletedByStream p),
     pr_deletedByCategory := count_rows category_name rows (pr_deletedByCategory p)\<rparr>"

definition prune_page :: "(admin_log_row \<Rightarrow> bool) \<Rightarrow> nat \<Rightarrow> admin_log_row list \<Rightarrow> admin_log_row list" where
  "prune_page W limit rows = take limit (by_oldest log_time_key (filter W rows))"

definition delete_rows :: "string list \<Rightarrow> admin_log_row list \<Rightarrow> admin_log_row list" where
  "delete_rows ids rows = filter (\<lambda>r. al_id r \<notin> set ids) rows"

function prune_loop ::
  "(admin_log_row \<Rightarrow> bool) \<Rightarrow> bool \<Rightarrow> nat \<Rightarrow> admin_log_row list \<Rightarrow> prune_result \<Rightarrow> admin_log_row list \<times> prune_result" where
  "prune_loop W dryRun limit rows result =
     (let found = prune_page W limit rows in
      if found = [] then (rows, result)
      else
        let noted = note_selected found result in
        if dryRun then (rows, noted)
        else
          let rows' = delete_rows (map al_id found) rows; noted' = note_deleted found noted in
          if length found < limit then (rows', noted') else prune_loop W dryRun limit rows' noted')"
  by pat_completeness auto

lemma prune_page_set: "set (prune_page W limit rows) \<subseteq> {r \<in> set rows. W r}"
  by (auto simp: prune_page_def by_oldest_def dest: in_set_takeD)

lemma delete_rows_decreases: "found \<noteq> [] \<Longrightarrow> set found \<subseteq> set rows \<Longrightarrow> length (delete_rows (map al_id found) rows) < length rows"
  unfolding delete_rows_def by (rule length_filter_less [of "hd found"]) auto

termination prune_loop
proof (relation "measure (\<lambda>(W, dryRun, limit, rows, result). length rows)")
  fix W :: "admin_log_row \<Rightarrow> bool" and dryRun limit rows result found noted rows' noted'
  assume "found = prune_page W limit rows" "found \<noteq> []" "rows' = delete_rows (map al_id found) rows"
  then show "((W, dryRun, limit, rows', noted'), (W, dryRun, limit, rows, result)) \<in> measure (\<lambda>(W, dryRun, limit, rows, result). length rows)"
    using delete_rows_decreases [of found rows] prune_page_set [of W limit rows] by auto
qed simp

declare prune_loop.simps [simp del]

definition pruneExpiredReadModel ::
  "(string \<Rightarrow> string option) \<Rightarrow> int \<Rightarrow> prune_options \<Rightarrow> ('m log_db_scheme, prune_result) op" where
  "pruneExpiredReadModel env now o' s =
     (let enabled = nullish (px_enabled o') (readBooleanEnv env ''ADMIN_LOG_RETENTION_ENABLED'' False);
          dryRun = nullish (px_dryRun o') True;
          includeSensitive = nullish (px_includeSensitive o') False;
          sensitiveEnabled = nullish (px_sensitiveEnabled o') (readBooleanEnv env ''ADMIN_LOG_RETENTION_SENSITIVE_ENABLED'' False);
          limit = max 1 (min 10000 (nullish (px_limit o') 1000));
          start = \<lparr>pr_enabled = enabled, pr_dryRun = dryRun, pr_includeSensitive = includeSensitive,
                   pr_sensitiveEnabled = sensitiveEnabled, pr_limit = limit, pr_selected = 0, pr_deleted = 0,
                   pr_selectedByStream = [], pr_deletedByStream = [], pr_selectedByCategory = [], pr_deletedByCategory = []\<rparr>
      in if \<not> enabled then (s, Inr start)
         else let (rows, counts) = prune_loop (prune_where now (resolve_days env o') (includeSensitive \<and> sensitiveEnabled)) dryRun
                    (nat limit) (lg_rows s) start
              in (s\<lparr>lg_rows := rows\<rparr>, Inr counts))"

section \<open>What pruning deletes\<close>

definition tally :: "(string \<times> nat) list \<Rightarrow> string \<Rightarrow> nat" where
  "tally counts k = nullish (map_of counts k) 0"

definition how_many :: "('a \<Rightarrow> bool) \<Rightarrow> 'a list \<Rightarrow> nat" where
  "how_many Q xs = length (filter Q xs)"

lemma how_many_mset: "mset xs = mset ys \<Longrightarrow> how_many Q xs = how_many Q ys"
  unfolding how_many_def by (metis mset_filter size_mset)

lemma how_many_append: "how_many Q (xs @ ys) = how_many Q xs + how_many Q ys"
  by (simp add: how_many_def)

lemma tally_count_rows: "tally (count_rows f rows counts) k = tally counts k + how_many (\<lambda>r. f r = k) rows"
  by (induction rows arbitrary: counts) (auto simp: count_rows_def tally_def bump_def how_many_def update_conv')

text \<open>A page and what is left of the selected rows after it is deleted.\<close>

lemma prune_page_split:
  fixes W :: "admin_log_row \<Rightarrow> bool" and n :: nat
  assumes "distinct (map al_id rows)"
  defines "found \<equiv> prune_page W n rows"
  shows "mset (filter W rows) = mset (found @ filter W (delete_rows (map al_id found) rows))"
    and "filter (\<lambda>r. \<not> W r) (delete_rows (map al_id found) rows) = filter (\<lambda>r. \<not> W r) rows"
    and "length found < n \<Longrightarrow> filter W (delete_rows (map al_id found) rows) = []"
proof -
  let ?L = "by_oldest log_time_key (filter W rows)"
  have d: "distinct rows" using assms(1) by (simp add: distinct_map)
  have sub: "set found \<subseteq> {r \<in> set rows. W r}" unfolding found_def by (rule prune_page_set)
  have same: "al_id r \<in> al_id ` set found \<longleftrightarrow> r \<in> set found" if "r \<in> set rows" for r
    using that sub distinct_key_eq [OF assms(1)] by (auto simp: image_iff)
  have rest: "delete_rows (map al_id found) rows = filter (\<lambda>r. r \<notin> set found) rows"
    unfolding delete_rows_def using same by (auto intro!: filter_cong)
  have dL: "distinct ?L" "set ?L = {r \<in> set rows. W r}" using d by (auto simp: by_oldest_def)
  then have dis: "set found \<inter> set (drop n ?L) = {}"
    unfolding found_def prune_page_def by (metis append_take_drop_id distinct_append)
  have "set (filter W (filter (\<lambda>r. r \<notin> set found) rows)) = set (drop n ?L)"
  proof -
    have "set ?L = set found \<union> set (drop n ?L)" unfolding found_def prune_page_def by (metis append_take_drop_id set_append)
    then show ?thesis using dis dL(2) by auto
  qed
  then have m: "mset (filter W (filter (\<lambda>r. r \<notin> set found) rows)) = mset (drop n ?L)"
    using d dL(1) by (subst set_eq_iff_mset_eq_distinct [symmetric]) auto
  show "mset (filter W rows) = mset (found @ filter W (delete_rows (map al_id found) rows))"
    unfolding rest mset_append m by (simp add: found_def prune_page_def by_oldest_def flip: mset_append)
  show "filter (\<lambda>r. \<not> W r) (delete_rows (map al_id found) rows) = filter (\<lambda>r. \<not> W r) rows"
    unfolding rest filter_filter using sub by (auto intro!: filter_cong)
  show "filter W (delete_rows (map al_id found) rows) = []" if "length found < n"
  proof -
    have "drop n ?L = []" using that by (simp add: found_def prune_page_def)
    then show ?thesis using m unfolding rest by simp
  qed
qed

lemma delete_rows_distinct: "distinct (map f rows) \<Longrightarrow> distinct (map f (delete_rows ids rows))"
  by (simp add: delete_rows_def distinct_map_filter)

lemma prune_loop_deletes:
  assumes "distinct (map al_id rows)" and "0 < n"
  shows "case prune_loop W False n rows p of (rows', p') \<Rightarrow>
    rows' = filter (\<lambda>r. \<not> W r) rows
    \<and> pr_selected p' = pr_selected p + how_many W rows \<and> pr_deleted p' = pr_deleted p + how_many W rows
    \<and> (\<forall>k. tally (pr_deletedByStream p') k = tally (pr_deletedByStream p) k + how_many (\<lambda>r. al_stream r = k) (filter W rows))
    \<and> (\<forall>k. tally (pr_deletedByCategory p') k = tally (pr_deletedByCategory p) k + how_many (\<lambda>r. category_name r = k) (filter W rows))"
  using assms(1)
proof (induction "length rows" arbitrary: rows p rule: less_induct)
  case less
  let ?found = "prune_page W n rows"
  let ?rest = "delete_rows (map al_id ?found) rows"
  let ?p = "note_deleted ?found (note_selected ?found p)"
  note split = prune_page_split [OF less.prems, of W n]
  have all: "how_many Q (filter W rows) = how_many Q ?found + how_many Q (filter W ?rest)" for Q
    using how_many_mset [OF split(1), of Q] by (simp add: how_many_append)
  have len: "how_many W rows = length ?found + how_many W ?rest"
    using all [of "\<lambda>_. True"] by (simp add: how_many_def)
  show ?case
  proof (cases "?found = []")
    case True
    have none: "filter W rows = []" using split(3) True assms(2) by (simp add: delete_rows_def)
    then have "filter (\<lambda>r. \<not> W r) rows = rows" by (simp add: filter_empty_conv filter_id_conv)
    then show ?thesis using True none by (simp add: prune_loop.simps [of W False n rows p] how_many_def)
  next
    case False
    have noted: "pr_selected ?p = pr_selected p + length ?found" "pr_deleted ?p = pr_deleted p + length ?found"
      "tally (pr_deletedByStream ?p) k = tally (pr_deletedByStream p) k + how_many (\<lambda>r. al_stream r = k) ?found"
      "tally (pr_deletedByCategory ?p) k = tally (pr_deletedByCategory p) k + how_many (\<lambda>r. category_name r = k) ?found" for k
      by (simp_all add: note_deleted_def note_selected_def tally_count_rows)
    show ?thesis
    proof (cases "length ?found < n")
      case True
      have "?rest = filter (\<lambda>r. \<not> W r) ?rest" using split(3) [OF True] by (simp add: filter_empty_conv filter_id_conv)
      then show ?thesis
        using False True split(2,3) noted len all
        by (simp add: prune_loop.simps [of W False n rows p] Let_def how_many_def)
    next
      case big: False
      have "length ?rest < length rows" using delete_rows_decreases [OF False] prune_page_set [of W n rows] by auto
      from less.hyps [OF this delete_rows_distinct [OF less.prems], of ?p] show ?thesis
        using False big split(2) noted len all
        by (simp add: prune_loop.simps [of W False n rows p] Let_def split_beta)
    qed
  qed
qed

definition prunes :: "(string \<Rightarrow> string option) \<Rightarrow> int \<Rightarrow> prune_options \<Rightarrow> 'm admin_log_data_scheme \<Rightarrow> bool" where
  "prunes env now o' = prune_where now (resolve_days env o') (nullish (px_includeSensitive o') False
     \<and> nullish (px_sensitiveEnabled o') (readBooleanEnv env ''ADMIN_LOG_RETENTION_SENSITIVE_ENABLED'' False))"


section \<open>Following the cursors\<close>

text \<open>A client that asks for the next page while there is one.\<close>

fun follow_pages :: "nat \<Rightarrow> log_host \<Rightarrow> list_input \<Rightarrow> 'm log_db_scheme \<Rightarrow> string option \<Rightarrow> admin_log_row list" where
  "follow_pages 0 h q s cursor = []"
| "follow_pages (Suc n) h q s cursor =
     (case listPage h (q\<lparr>ls_cursor := cursor\<rparr>) s of
        Inl e \<Rightarrow> []
      | Inr p \<Rightarrow> lr_items p @ (case lr_nextCursor p of None \<Rightarrow> [] | Some c \<Rightarrow> follow_pages n h q s (Some c)))"

text \<open>A cursor that was encoded decodes to what was put in and is not empty.\<close>

definition codec_ok :: "log_host \<Rightarrow> bool" where
  "codec_ok h = (\<forall>t i. let text = lh_encode h (lh_stringify h (JObj [(''occurredAt'', JStr t), (''id'', JStr i)]))
     in text \<noteq> [] \<and> lh_parse h (lh_decode h text) = Some (JObj [(''occurredAt'', JStr t), (''id'', JStr i)]))"

definition row_encodable :: "admin_log_row \<Rightarrow> bool" where
  "row_encodable r = (al_id r \<noteq> [] \<and> - 62167219200000 \<le> al_occurredAt r \<and> al_occurredAt r < 253402300800000)"

lemma toISOString_not_Nil [simp]: "toISOString t \<noteq> []"
  by (simp add: toISOString_def Let_def split: prod.split)

lemma parse_encoded_cursor:
  "codec_ok h \<Longrightarrow> row_encodable r \<Longrightarrow> parseCursor h (Some (encodeCursor h r)) = Some (al_occurredAt r, JStr (al_id r))"
  by (simp add: parseCursor_def encodeCursor_def codec_ok_def Let_def row_encodable_def json_truthy_def date_of_json_def
    date_parse_toISOString)

lemma log_where_cursor [simp]: "log_where h (q\<lparr>ls_cursor := c\<rparr>) = log_where h q"
  by (cases q, rule ext) (simp only: log_where_def list_input.simps)

lemma log_query_cursor [simp]: "log_query h (q\<lparr>ls_cursor := c\<rparr>) k rows = log_query h q k rows"
  by (simp add: log_query_def)

definition page_size :: "list_input \<Rightarrow> nat" where
  "page_size q = nat (min 100 (max 1 (ls_limit q)))"

lemma page_size_pos [simp]: "0 < page_size q"
  by (simp add: page_size_def)

definition page_of :: "log_host \<Rightarrow> list_input \<Rightarrow> admin_log_row list \<Rightarrow> list_result" where
  "page_of h q ys = \<lparr>lr_items = take (page_size q) ys, lr_hasNext = page_size q < length ys,
     lr_nextCursor = (if page_size q < length ys then Some (encodeCursor h (last (take (page_size q) ys))) else None)\<rparr>"

lemma listPage_page:
  assumes "map_option (\<lambda>(t, v). (t, v)) (parseCursor h c) = map_option (\<lambda>(t, i). (t, JStr i)) k"
    and "log_query h q k (lg_rows s) = ys"
  shows "listPage h (q\<lparr>ls_cursor := c\<rparr>) s = Inr (page_of h q ys)"
proof -
  have parsed: "parseCursor h c = map_option (\<lambda>(t, i). (t, JStr i)) k"
    using assms(1) by (cases "parseCursor h c") auto
  show ?thesis
    using assms(2) by (cases k) (auto simp: listPage_def parsed page_of_def page_size_def Let_def min_def split_beta)
qed

lemma query_after:
  assumes "distinct (map log_time_key rows)" and "log_query h q None rows = xs @ x # ys"
  shows "log_query h q (Some (log_time_key x)) rows = ys"
proof -
  let ?Q = "filter (log_where h q) rows"
  have "distinct (map log_time_key ?Q)" using assms(1) by (simp add: distinct_map_filter)
  moreover have e: "by_newest log_time_key ?Q = xs @ x # ys" using assms(2) by (simp add: log_query_def)
  ultimately have "filter (\<lambda>r. log_time_key r < log_time_key x) (by_newest log_time_key ?Q) = ys"
    using descending.arrange_rest by metis
  then show ?thesis
    unfolding log_query_def beyond_simps by (simp only: descending.arrange_filter [of _ "\<lambda>r. log_time_key r < log_time_key x" ?Q])
qed

lemma follow_pages_rest:
  assumes "codec_ok h" and "\<forall>r \<in> set (lg_rows s). row_encodable r" and "distinct (map log_time_key (lg_rows s))"
  shows "log_query h q None (lg_rows s) = xs @ x # ys \<Longrightarrow> length ys < m \<Longrightarrow>
    follow_pages m h q s (Some (encodeCursor h x)) = ys"
proof (induction m arbitrary: xs x ys)
  case (Suc m)
  let ?n = "page_size q"
  have "x \<in> set (log_query h q None (lg_rows s))" using Suc.prems(1) by simp
  then have "row_encodable x" using assms(2) by (simp add: log_query_def descending.arrange_set)
  then have page: "listPage h (q\<lparr>ls_cursor := Some (encodeCursor h x)\<rparr>) s = Inr (page_of h q ys)"
    using query_after [OF assms(3) Suc.prems(1)]
    by (intro listPage_page [of _ _ "Some (log_time_key x)"]) (simp_all add: parse_encoded_cursor [OF assms(1)] log_time_key_def)
  show ?case
  proof (cases "?n < length ys")
    case True
    let ?p = "take ?n ys"
    have ne: "?p \<noteq> []" using True by auto
    have "log_query h q None (lg_rows s) = (xs @ x # butlast ?p) @ last ?p # drop ?n ys"
      using Suc.prems(1) by simp (metis append_Cons append_Nil append_assoc append_butlast_last_id append_take_drop_id ne)
    moreover have "length (drop ?n ys) < m" using Suc.prems(2) True page_size_pos [of q] unfolding length_drop by linarith
    ultimately have "follow_pages m h q s (Some (encodeCursor h (last ?p))) = drop ?n ys" by (rule Suc.IH)
    then show ?thesis using True by (simp add: page page_of_def)
  qed (simp add: page page_of_def)
qed simp

text \<open>
  C27. A client that follows the cursors of the log reads every row that meets the filters exactly once, newest
  first, whatever the page size.
\<close>

theorem pages_cover_log:
  assumes "codec_ok h" and "\<forall>r \<in> set (lg_rows s). row_encodable r" and "distinct (map al_id (lg_rows s))"
    and "length (lg_rows s) < m"
  shows "follow_pages m h q s None = by_newest log_time_key (filter (log_where h q) (lg_rows s))"
proof -
  let ?n = "page_size q"
  let ?L = "log_query h q None (lg_rows s)"
  have L: "by_newest log_time_key (filter (log_where h q) (lg_rows s)) = ?L" by (simp add: log_query_def)
  have keys: "distinct (map log_time_key (lg_rows s))"
    using assms(3) by (auto simp: distinct_map inj_on_def log_time_key_def)
  have page: "listPage h (q\<lparr>ls_cursor := None\<rparr>) s = Inr (page_of h q ?L)"
    by (rule listPage_page [of _ _ None]) (simp_all add: parseCursor_def)
  obtain k where m: "m = Suc k" using assms(4) by (cases m) auto
  have len: "length ?L \<le> length (lg_rows s)" by (simp add: log_query_def descending.arrange_length)
  show ?thesis
  proof (cases "?n < length ?L")
    case True
    let ?p = "take ?n ?L"
    have ne: "?p \<noteq> []" using True by auto
    have "?L = butlast ?p @ last ?p # drop ?n ?L"
      by (metis append_Cons append_Nil append_assoc append_butlast_last_id append_take_drop_id ne)
    moreover have "length (drop ?n ?L) < k" using assms(4) m len True page_size_pos [of q] unfolding length_drop by linarith
    ultimately have "follow_pages k h q s (Some (encodeCursor h (last ?p))) = drop ?n ?L"
      by (rule follow_pages_rest [OF assms(1,2) keys])
    then show ?thesis using True by (simp add: m page page_of_def L)
  qed (simp add: m page page_of_def L)
qed

section \<open>Backfilling the table\<close>

record source_db = log_db +
  sc_audit :: "audit_row list"
  sc_activity :: "event_row list"
  sc_security :: "event_row list"
  sc_domain :: "event_row list"

record backfill_scope =
  bs_stream :: "string option"
  bs_from :: "int option"
  bs_to :: "int option"

definition shouldRun :: "backfill_scope \<Rightarrow> string \<Rightarrow> bool" where
  "shouldRun scope stream = (\<not> truthy (bs_stream scope) \<or> bs_stream scope = Some ''all'' \<or> bs_stream scope = Some stream)"

text \<open>The part of \<open>timeWhere\<close> that restricts to the scope; the part with the cursor is in \<open>batches\<close>.\<close>

definition timeWhere :: "backfill_scope \<Rightarrow> int \<Rightarrow> bool" where
  "timeWhere scope t =
     ((case bs_from scope of None \<Rightarrow> True | Some f \<Rightarrow> f \<le> t) \<and> (case bs_to scope of None \<Rightarrow> True | Some u \<Rightarrow> t \<le> u))"

definition skippedAiProxyDomainEventTypes :: "string list" where
  "skippedAiProxyDomainEventTypes = [''ai.proxy.completed'', ''ai.proxy.failed'', ''ai.proxy.quota_exceeded'', ''ai.proxy.timeout'']"

definition shouldSkipDomainProjection :: "string \<Rightarrow> bool" where
  "shouldSkipDomainProjection eventType = (eventType \<in> set skippedAiProxyDomainEventTypes)"

text \<open>
  What \<open>upsertBatch\<close> writes for one row. It looks for candidates among the properties of the data it is
  about to write, which has none of the names that carry an identifier, so only the target counts.
\<close>

definition backfilled_event :: "(string \<rightharpoonup> actor_identity) \<Rightarrow> ai_projection list \<Rightarrow> admin_log_data \<Rightarrow> admin_log_data" where
  "backfilled_event directory requests d =
     (let aiRequest = first_request (collectAdminAiRequestCandidateIds (al_targetType d) (al_targetId d) None None None) requests;
          enriched = (case aiRequest of
              None \<Rightarrow> d
            | Some q \<Rightarrow> (with_ai_patch (buildAdminAiLogPatchFromAiRequestEvent q) d)
                \<lparr>al_searchText := Some (search_text [al_searchText d, aq_promptExcerpt q])\<rparr>);
          identity = (case or_none (al_actorId d) of None \<Rightarrow> None | Some i \<Rightarrow> directory i)
      in enriched\<lparr>al_actorEmail := orElse (al_actorEmail enriched) (map_option fst identity),
           al_actorDisplayName := orElse (al_actorDisplayName enriched) (Option.bind identity snd),
           al_searchText := enrichSearchTextWithActorIdentity (al_searchText enriched) identity\<rparr>)"

definition upsertBatch :: "bool \<Rightarrow> (nat \<Rightarrow> string) \<Rightarrow> admin_log_data list \<Rightarrow> ('m log_db_scheme, unit) op" where
  "upsertBatch up cuid ds s =
     (case resolveActorIdentities up (map the (filter truthy (map al_actorId ds))) s of
        Inl e \<Rightarrow> (s, Inl e)
      | Inr directory \<Rightarrow> forS ds (\<lambda>d s. upsert_log_row cuid (backfilled_event directory (lg_ai s) d) s) s)"

definition audit_data :: "audit_row \<Rightarrow> admin_log_data" where
  "audit_data r = buildAdminLogEventCreateInput
     \<lparr>bd_stream = ''audit'', bd_sourceRecordId = au_id r, bd_eventType = au_action r, bd_occurredAt = au_createdAt r,
      bd_actorId = au_actorId r, bd_severity = None, bd_targetType = Some (au_targetType r), bd_targetId = Some (au_targetId r),
      bd_metadata = toMetadata (au_metadataJson r), bd_payload = None\<rparr>"

definition activity_data :: "event_row \<Rightarrow> admin_log_data" where
  "activity_data r = buildAdminLogEventCreateInput
     \<lparr>bd_stream = ''activity'', bd_sourceRecordId = ev_id r, bd_eventType = ev_eventType r, bd_occurredAt = ev_createdAt r,
      bd_actorId = ev_actorId r, bd_severity = None, bd_targetType = None, bd_targetId = None,
      bd_metadata = toMetadata (ev_json r), bd_payload = None\<rparr>"

definition security_data :: "event_row \<Rightarrow> admin_log_data" where
  "security_data r = buildAdminLogEventCreateInput
     \<lparr>bd_stream = ''security'', bd_sourceRecordId = ev_id r, bd_eventType = ev_eventType r, bd_occurredAt = ev_createdAt r,
      bd_actorId = ev_actorId r, bd_severity = ev_severity r, bd_targetType = None, bd_targetId = None,
      bd_metadata = toMetadata (ev_json r), bd_payload = None\<rparr>"

definition domain_data :: "event_row \<Rightarrow> admin_log_data" where
  "domain_data r = buildAdminLogEventCreateInput
     \<lparr>bd_stream = ''domain'', bd_sourceRecordId = ev_id r, bd_eventType = ev_eventType r, bd_occurredAt = ev_createdAt r,
      bd_actorId = None, bd_severity = None, bd_targetType = None, bd_targetId = None,
      bd_metadata = None, bd_payload = toMetadata (ev_json r)\<rparr>"

definition audit_key :: "audit_row \<Rightarrow> int \<times> string" where
  "audit_key r = (au_createdAt r, au_id r)"

definition event_key :: "event_row \<Rightarrow> int \<times> string" where
  "event_key r = (ev_createdAt r, ev_id r)"

text \<open>Nothing in a loop writes the table it reads, so its pages are those of the table at the start.\<close>

definition backfillAudit :: "nat \<Rightarrow> bool \<Rightarrow> (nat \<Rightarrow> string) \<Rightarrow> backfill_scope \<Rightarrow> ('m source_db_scheme, unit) op" where
  "backfillAudit batchSize up cuid scope s =
     forS (batches batchSize audit_key (filter (\<lambda>r. timeWhere scope (au_createdAt r)) (sc_audit s)) None)
       (\<lambda>rows. upsertBatch up cuid (map audit_data rows)) s"

definition backfillActivity :: "nat \<Rightarrow> bool \<Rightarrow> (nat \<Rightarrow> string) \<Rightarrow> backfill_scope \<Rightarrow> ('m source_db_scheme, unit) op" where
  "backfillActivity batchSize up cuid scope s =
     forS (batches batchSize event_key (filter (\<lambda>r. timeWhere scope (ev_createdAt r)) (sc_activity s)) None)
       (\<lambda>rows. upsertBatch up cuid (map activity_data rows)) s"

definition backfillSecurity :: "nat \<Rightarrow> bool \<Rightarrow> (nat \<Rightarrow> string) \<Rightarrow> backfill_scope \<Rightarrow> ('m source_db_scheme, unit) op" where
  "backfillSecurity batchSize up cuid scope s =
     forS (batches batchSize event_key (filter (\<lambda>r. timeWhere scope (ev_createdAt r)) (sc_security s)) None)
       (\<lambda>rows. upsertBatch up cuid (map security_data rows)) s"

definition backfillDomain :: "nat \<Rightarrow> bool \<Rightarrow> (nat \<Rightarrow> string) \<Rightarrow> backfill_scope \<Rightarrow> ('m source_db_scheme, unit) op" where
  "backfillDomain batchSize up cuid scope s =
     forS (batches batchSize event_key (filter (\<lambda>r. timeWhere scope (ev_createdAt r)) (sc_domain s)) None)
       (\<lambda>rows. upsertBatch up cuid (map domain_data (filter (\<lambda>r. \<not> shouldSkipDomainProjection (ev_eventType r)) rows))) s"

definition backfill_run :: "nat \<Rightarrow> bool \<Rightarrow> (nat \<Rightarrow> string) \<Rightarrow> backfill_scope \<Rightarrow> ('m source_db_scheme, unit) op" where
  "backfill_run batchSize up cuid scope =
     thenS (whenS (shouldRun scope ''audit'') (backfillAudit batchSize up cuid scope))
     (thenS (whenS (shouldRun scope ''activity'') (backfillActivity batchSize up cuid scope))
     (thenS (whenS (shouldRun scope ''security'') (backfillSecurity batchSize up cuid scope))
       (whenS (shouldRun scope ''domain'') (backfillDomain batchSize up cuid scope))))"

record stream_counts =
  vc_sourceCount :: nat
  vc_readModelCount :: nat
  vc_missing :: nat

definition stream_verification :: "nat \<Rightarrow> string \<Rightarrow> 'm log_db_scheme \<Rightarrow> stream_counts" where
  "stream_verification source stream s =
     (let readModel = length (filter (\<lambda>r. al_stream r = stream) (lg_rows s))
      in \<lparr>vc_sourceCount = source, vc_readModelCount = readModel, vc_missing = nat (max (int source - int readModel) 0)\<rparr>)"

definition verifyCounts :: "'m source_db_scheme \<Rightarrow> (string \<times> stream_counts) list" where
  "verifyCounts s =
     [(''audit'', stream_verification (length (sc_audit s)) ''audit'' s),
      (''activity'', stream_verification (length (sc_activity s)) ''activity'' s),
      (''security'', stream_verification (length (sc_security s)) ''security'' s),
      (''domain'', stream_verification
         (length (filter (\<lambda>r. ev_eventType r \<notin> set skippedAiProxyDomainEventTypes) (sc_domain s))) ''domain'' s)]"

section \<open>The backfill is complete\<close>

text \<open>An operation that only adds rows with the keys \<open>K\<close>, or updates rows that have them.\<close>

definition adds_keys :: "(string \<times> string) set \<Rightarrow> 'm log_db_scheme \<Rightarrow> 'm log_db_scheme \<Rightarrow> bool" where
  "adds_keys K s s' \<longleftrightarrow> (\<exists>n rows. s' = s\<lparr>ad_next := n, lg_rows := rows\<rparr>
     \<and> log_key ` set rows = log_key ` set (lg_rows s) \<union> K
     \<and> (distinct (map log_key (lg_rows s)) \<longrightarrow> distinct (map log_key rows)))"

lemma adds_intro:
  "s' = s\<lparr>ad_next := n, lg_rows := rows\<rparr> \<Longrightarrow> log_key ` set rows = log_key ` set (lg_rows s) \<union> K
   \<Longrightarrow> (distinct (map log_key (lg_rows s)) \<Longrightarrow> distinct (map log_key rows)) \<Longrightarrow> adds_keys K s s'"
  unfolding adds_keys_def by blast

lemma keep_next: "s\<lparr>lg_rows := rows\<rparr> = s\<lparr>ad_next := ad_next s, lg_rows := rows\<rparr>"
  by simp

lemma adds_none: "adds_keys {} s s"
  by (rule adds_intro [where n = "ad_next s" and rows = "lg_rows s"]) simp_all

lemma adds_trans:
  assumes "adds_keys K s s1" and "adds_keys L s1 s2"
  shows "adds_keys (K \<union> L) s s2"
proof -
  obtain n rows where 1: "s1 = s\<lparr>ad_next := n, lg_rows := rows\<rparr>" "log_key ` set rows = log_key ` set (lg_rows s) \<union> K"
    "distinct (map log_key (lg_rows s)) \<longrightarrow> distinct (map log_key rows)"
    using assms(1) unfolding adds_keys_def by blast
  obtain n' rows' where 2: "s2 = s1\<lparr>ad_next := n', lg_rows := rows'\<rparr>" "log_key ` set rows' = log_key ` set (lg_rows s1) \<union> L"
    "distinct (map log_key (lg_rows s1)) \<longrightarrow> distinct (map log_key rows')"
    using assms(2) unfolding adds_keys_def by blast
  show ?thesis
    by (rule adds_intro [where n = n' and rows = rows']) (use 1 2 in auto)
qed

lemma upsert_cases:
  assumes "upsert_log_row cuid d s = (s', Inr ())"
  shows "s' = s\<lparr>lg_rows := map (\<lambda>r. if log_key r = log_key d then toAdminLogEventUpdateInput d r else r) (lg_rows s)\<rparr>
      \<and> log_key d \<in> log_key ` set (lg_rows s)
    \<or> s' = s\<lparr>lg_rows := lg_rows s @ [create_row (cuid (ad_next s)) d], ad_next := Suc (ad_next s)\<rparr>
      \<and> log_key d \<notin> log_key ` set (lg_rows s)"
proof (cases "columns_ok d")
  case True
  then have c: "\<not> \<not> columns_ok d" by simp
  show ?thesis
  proof (cases "log_key d \<in> log_key ` set (lg_rows s)")
    case True
    have "s' = s\<lparr>lg_rows := map (\<lambda>r. if log_key r = log_key d then toAdminLogEventUpdateInput d r else r) (lg_rows s)\<rparr>"
      using assms unfolding upsert_log_row_def if_not_P [OF c] if_P [OF True] by (elim Pair_inject) (rule sym)
    then show ?thesis using True by blast
  next
    case False
    have "s' = s\<lparr>lg_rows := lg_rows s @ [create_row (cuid (ad_next s)) d], ad_next := Suc (ad_next s)\<rparr>"
      using assms unfolding upsert_log_row_def if_not_P [OF c] if_not_P [OF False] by (elim Pair_inject) (rule sym)
    then show ?thesis using False by blast
  qed
next
  case False
  show ?thesis using assms unfolding upsert_log_row_def if_P [OF False] by (elim Pair_inject) (rule notE [OF Inl_not_Inr])
qed

lemma adds_row:
  assumes "upsert_log_row cuid d s = (s', Inr ())"
  shows "adds_keys {log_key d} s s'"
proof -
  let ?f = "\<lambda>r. if log_key r = log_key d then toAdminLogEventUpdateInput d r else r"
  have same: "map log_key (map ?f rows) = map log_key rows" for rows by simp
  have keys: "log_key ` set (map ?f rows) = log_key ` set rows" for rows
    using arg_cong [OF same, of set rows] by (simp only: set_map)
  consider "s' = s\<lparr>lg_rows := map ?f (lg_rows s)\<rparr>" "log_key d \<in> log_key ` set (lg_rows s)"
    | "s' = s\<lparr>lg_rows := lg_rows s @ [create_row (cuid (ad_next s)) d], ad_next := Suc (ad_next s)\<rparr>"
      "log_key d \<notin> log_key ` set (lg_rows s)"
    using upsert_cases [OF assms] by blast
  then show ?thesis
  proof cases
    case 1
    show ?thesis
    proof (rule adds_intro)
      show "s' = s\<lparr>ad_next := ad_next s, lg_rows := map ?f (lg_rows s)\<rparr>" by (rule trans [OF 1(1) keep_next])
      show "log_key ` set (map ?f (lg_rows s)) = log_key ` set (lg_rows s) \<union> {log_key d}" unfolding keys using 1(2) by blast
    qed (simp only: same)
  next
    case 2
    then show ?thesis
      by (intro adds_intro [where n = "Suc (ad_next s)" and rows = "lg_rows s @ [create_row (cuid (ad_next s)) d]"]) auto
  qed
qed

lemma adds_for:
  assumes "\<And>x s s'. x \<in> set xs \<Longrightarrow> f x s = (s', Inr ()) \<Longrightarrow> adds_keys (K x) s s'"
  shows "forS xs f s = (s', Inr ()) \<Longrightarrow> adds_keys (\<Union>x \<in> set xs. K x) s s'"
  using assms
proof (induction xs arbitrary: s)
  case (Cons x xs)
  from Cons.prems(1) obtain s1 where s1: "f x s = (s1, Inr ())" "forS xs f s1 = (s', Inr ())"
    by (auto simp: op_elims)
  have "adds_keys (K x) s s1" using Cons.prems(2) s1(1) by simp
  moreover have "adds_keys (\<Union>x \<in> set xs. K x) s1 s'" using Cons.IH [OF s1(2)] Cons.prems(2) by simp
  ultimately show ?case using adds_trans by fastforce
qed (simp add: retS_def adds_none)

lemma backfilled_key [simp]: "log_key (backfilled_event directory requests d) = log_key d"
  by (simp add: backfilled_event_def Let_def with_ai_patch_def log_key_def split: option.split)

lemma adds_batch:
  assumes "upsertBatch up cuid ds s = (s', Inr ())"
  shows "adds_keys (log_key ` set ds) s s'"
proof -
  obtain directory where "forS ds (\<lambda>d s. upsert_log_row cuid (backfilled_event directory (lg_ai s) d) s) s = (s', Inr ())"
    using assms by (auto simp: upsertBatch_def split: sum.splits)
  then have "adds_keys (\<Union>d \<in> set ds. {log_key d}) s s'"
    by (rule adds_for [rotated]) (use adds_row in force)
  then show ?thesis by (simp add: UNION_singleton_eq_range)
qed

lemma adds_batches:
  assumes "forS (batches n key rows None) (\<lambda>rs. upsertBatch up cuid (map project (filter P rs))) s = (s', Inr ())"
    and "0 < n" and "distinct (map key rows)"
  shows "adds_keys (log_key ` project ` {r \<in> set rows. P r}) s s'"
proof -
  have "adds_keys (\<Union>rs \<in> set (batches n key rows None). log_key ` set (map project (filter P rs))) s s'"
    by (rule adds_for [OF _ assms(1)]) (rule adds_batch)
  moreover have all: "\<Union>(set ` set (batches n key rows None)) = set rows"
    using arg_cong [OF batches_all [OF assms(3,2)], of set] by (simp add: by_oldest_def)
  have "(\<Union>rs \<in> set (batches n key rows None). log_key ` set (map project (filter P rs))) = log_key ` project ` {r \<in> set rows. P r}"
    unfolding all [symmetric] by (auto simp: image_iff)
  ultimately show ?thesis by simp
qed

text \<open>The keys of the source records in a scope.\<close>

definition audit_keys :: "backfill_scope \<Rightarrow> 'm source_db_scheme \<Rightarrow> (string \<times> string) set" where
  "audit_keys scope s = (\<lambda>r. (''audit'', au_id r)) ` {r \<in> set (sc_audit s). timeWhere scope (au_createdAt r)}"

definition activity_keys :: "backfill_scope \<Rightarrow> 'm source_db_scheme \<Rightarrow> (string \<times> string) set" where
  "activity_keys scope s = (\<lambda>r. (''activity'', ev_id r)) ` {r \<in> set (sc_activity s). timeWhere scope (ev_createdAt r)}"

definition security_keys :: "backfill_scope \<Rightarrow> 'm source_db_scheme \<Rightarrow> (string \<times> string) set" where
  "security_keys scope s = (\<lambda>r. (''security'', ev_id r)) ` {r \<in> set (sc_security s). timeWhere scope (ev_createdAt r)}"

definition domain_keys :: "backfill_scope \<Rightarrow> 'm source_db_scheme \<Rightarrow> (string \<times> string) set" where
  "domain_keys scope s = (\<lambda>r. (''domain'', ev_id r)) `
     {r \<in> set (sc_domain s). timeWhere scope (ev_createdAt r) \<and> \<not> shouldSkipDomainProjection (ev_eventType r)}"

definition source_keys :: "backfill_scope \<Rightarrow> 'm source_db_scheme \<Rightarrow> (string \<times> string) set" where
  "source_keys scope s =
     (if shouldRun scope ''audit'' then audit_keys scope s else {}) \<union> (if shouldRun scope ''activity'' then activity_keys scope s else {})
     \<union> (if shouldRun scope ''security'' then security_keys scope s else {}) \<union> (if shouldRun scope ''domain'' then domain_keys scope s else {})"

definition source_ids_ok :: "'m source_db_scheme \<Rightarrow> bool" where
  "source_ids_ok s = (distinct (map au_id (sc_audit s)) \<and> distinct (map ev_id (sc_activity s)) \<and> distinct (map ev_id (sc_security s))
     \<and> distinct (map ev_id (sc_domain s)))"

lemma data_keys [simp]:
  "log_key (audit_data r) = (''audit'', au_id r)" "log_key (activity_data e) = (''activity'', ev_id e)"
  "log_key (security_data e) = (''security'', ev_id e)" "log_key (domain_data e) = (''domain'', ev_id e)"
  by (simp_all add: audit_data_def activity_data_def security_data_def domain_data_def buildAdminLogEventCreateInput_def Let_def log_key_def)

lemma keys_distinct:
  "distinct (map au_id rows) \<Longrightarrow> distinct (map audit_key (filter P rows))"
  "distinct (map ev_id es) \<Longrightarrow> distinct (map event_key (filter Q es))"
  by (auto simp: distinct_map inj_on_def audit_key_def event_key_def)

lemma backfill_adds:
  assumes "source_ids_ok s" and "0 < n"
  shows "backfillAudit n up cuid scope s = (s', Inr ()) \<Longrightarrow> adds_keys (audit_keys scope s) s s'"
    and "backfillActivity n up cuid scope s = (s', Inr ()) \<Longrightarrow> adds_keys (activity_keys scope s) s s'"
    and "backfillSecurity n up cuid scope s = (s', Inr ()) \<Longrightarrow> adds_keys (security_keys scope s) s s'"
    and "backfillDomain n up cuid scope s = (s', Inr ()) \<Longrightarrow> adds_keys (domain_keys scope s) s s'"
  subgoal
    using adds_batches [of n audit_key "filter (\<lambda>r. timeWhere scope (au_createdAt r)) (sc_audit s)" up cuid audit_data "\<lambda>_. True" s s'] assms
    by (simp add: audit_keys_def backfillAudit_def keys_distinct source_ids_ok_def image_image)
  subgoal
    using adds_batches [of n event_key "filter (\<lambda>r. timeWhere scope (ev_createdAt r)) (sc_activity s)" up cuid activity_data "\<lambda>_. True" s s'] assms
    by (simp add: activity_keys_def backfillActivity_def keys_distinct source_ids_ok_def image_image)
  subgoal
    using adds_batches [of n event_key "filter (\<lambda>r. timeWhere scope (ev_createdAt r)) (sc_security s)" up cuid security_data "\<lambda>_. True" s s'] assms
    by (simp add: security_keys_def backfillSecurity_def keys_distinct source_ids_ok_def image_image)
  subgoal
    using adds_batches [of n event_key "filter (\<lambda>r. timeWhere scope (ev_createdAt r)) (sc_domain s)" up cuid domain_data
      "\<lambda>r. \<not> shouldSkipDomainProjection (ev_eventType r)" s s'] assms
    by (simp add: domain_keys_def backfillDomain_def keys_distinct source_ids_ok_def image_image conj_assoc)
  done

lemma adds_sources:
  assumes "adds_keys K s s'"
  shows "sc_audit s' = sc_audit s" "sc_activity s' = sc_activity s" "sc_security s' = sc_security s" "sc_domain s' = sc_domain s"
  using assms unfolding adds_keys_def by auto

lemma when_adds:
  "whenS b m s = (s', Inr ()) \<Longrightarrow> (m s = (s', Inr ()) \<Longrightarrow> adds_keys K s s') \<Longrightarrow> adds_keys (if b then K else {}) s s'"
  by (cases b) (auto simp: whenS_def retS_def adds_none)

lemma backfill_run_adds:
  assumes "source_ids_ok s" and "0 < n" and "backfill_run n up cuid scope s = (s', Inr ())"
  shows "adds_keys (source_keys scope s) s s'"
proof -
  obtain s1 s2 s3 where
    1: "whenS (shouldRun scope ''audit'') (backfillAudit n up cuid scope) s = (s1, Inr ())"
    and 2: "whenS (shouldRun scope ''activity'') (backfillActivity n up cuid scope) s1 = (s2, Inr ())"
    and 3: "whenS (shouldRun scope ''security'') (backfillSecurity n up cuid scope) s2 = (s3, Inr ())"
    and 4: "whenS (shouldRun scope ''domain'') (backfillDomain n up cuid scope) s3 = (s', Inr ())"
    using assms(3) unfolding backfill_run_def by (auto simp: thenS_success)
  have ok: "source_ids_ok t'" if "source_ids_ok t" "adds_keys K t t'" for K and t t' :: "'m source_db_scheme"
    using that adds_sources [OF that(2)] by (simp add: source_ids_ok_def)
  have A: "adds_keys (if shouldRun scope ''audit'' then audit_keys scope s else {}) s s1"
    by (rule when_adds [OF 1 backfill_adds(1) [OF assms(1,2)]])
  note ok1 = ok [OF assms(1) A]
  have B: "adds_keys (if shouldRun scope ''activity'' then activity_keys scope s1 else {}) s1 s2"
    by (rule when_adds [OF 2 backfill_adds(2) [OF ok1 assms(2)]])
  note ok2 = ok [OF ok1 B]
  have C: "adds_keys (if shouldRun scope ''security'' then security_keys scope s2 else {}) s2 s3"
    by (rule when_adds [OF 3 backfill_adds(3) [OF ok2 assms(2)]])
  note ok3 = ok [OF ok2 C]
  have D: "adds_keys (if shouldRun scope ''domain'' then domain_keys scope s3 else {}) s3 s'"
    by (rule when_adds [OF 4 backfill_adds(4) [OF ok3 assms(2)]])
  show ?thesis
    using adds_trans [OF adds_trans [OF adds_trans [OF A B] C] D]
    by (simp only: source_keys_def audit_keys_def activity_keys_def security_keys_def domain_keys_def
      adds_sources [OF A] adds_sources [OF B] adds_sources [OF C])
qed

lemma stream_rows_bound:
  assumes "distinct (map f xs)" and "\<And>x. x \<in> set xs \<Longrightarrow> (stream, f x) \<in> log_key ` set rows"
  shows "length xs \<le> length (filter (\<lambda>r. al_stream r = stream) (rows :: admin_log_row list))"
proof -
  have "(\<lambda>x. (stream, f x)) ` set xs \<subseteq> log_key ` set (filter (\<lambda>r. al_stream r = stream) rows)"
    using assms(2) by (fastforce simp: log_key_def image_iff)
  then have "card ((\<lambda>x. (stream, f x)) ` set xs) \<le> card (log_key ` set (filter (\<lambda>r. al_stream r = stream) rows))"
    by (rule card_mono [rotated]) simp
  also have "\<dots> \<le> length (filter (\<lambda>r. al_stream r = stream) rows)"
    by (metis card_length length_map set_map)
  also have "card ((\<lambda>x. (stream, f x)) ` set xs) = length xs"
    using assms(1) by (simp add: distinct_map card_image inj_on_def distinct_card)
  finally show ?thesis .
qed

definition whole_scope :: backfill_scope where
  "whole_scope = \<lparr>bs_stream = None, bs_from = None, bs_to = None\<rparr>"

lemma stream_verification_missing:
  "n \<le> length (filter (\<lambda>r. al_stream r = stream) (lg_rows s)) \<Longrightarrow> vc_missing (stream_verification n stream s) = 0"
  by (simp add: stream_verification_def Let_def)


section \<open>Examples\<close>

text \<open>A codec that writes the length of the time in front of both strings.\<close>

definition demo_stringify :: "json \<Rightarrow> string" where
  "demo_stringify j = (case j of
     JObj [(a, JStr t), (b, JStr i)] \<Rightarrow> replicate (length t) (CHR ''1'') @ ''0'' @ t @ i | _ \<Rightarrow> [])"

definition demo_parse_json :: "string \<Rightarrow> json option" where
  "demo_parse_json s =
     (let n = length (takeWhile (\<lambda>c. c = CHR ''1'') s); rest = drop (Suc n) s
      in Some (JObj [(''occurredAt'', JStr (take n rest)), (''id'', JStr (drop n rest))]))"

definition demo_host :: log_host where
  "demo_host = \<lparr>lh_date = (\<lambda>_. None), lh_contains = (\<lambda>v p. str_includes (toLowerCase v) (toLowerCase p)), lh_encode = (\<lambda>s. s),
     lh_decode = (\<lambda>s. s), lh_stringify = demo_stringify, lh_parse = demo_parse_json, lh_text = (\<lambda>_. [])\<rparr>"

lemma demo_codec_ok: "codec_ok demo_host"
proof -
  have "takeWhile (\<lambda>c. c = CHR ''1'') (replicate n (CHR ''1'') @ CHR ''0'' # xs) = replicate n (CHR ''1'')" for n and xs :: string
    by (induction n) auto
  then show ?thesis by (simp add: codec_ok_def Let_def demo_host_def demo_stringify_def demo_parse_json_def)
qed

definition demo_source :: source_db where
  "demo_source = \<lparr>ad_users = [], ad_sessions = [], ad_resets = [], ad_next = 7, lg_rows = [], lg_ai = [],
     sc_audit = [\<lparr>au_id = ''a1'', au_action = ''admin.user_created'', au_actorId = None, au_targetType = ''user'', au_targetId = ''u1'',
       au_metadataJson = None, au_createdAt = 3\<rparr>],
     sc_activity = [demo_event, demo_event\<lparr>ev_id := ''d2'', ev_eventType := ''quiz.started''\<rparr>], sc_security = [],
     sc_domain = [demo_event, demo_event\<lparr>ev_id := ''d3'', ev_eventType := ''queue.job_done''\<rparr>]\<rparr>"

definition demo_filled :: source_db where
  "demo_filled = fst (backfill_run 1 True demo_ids whole_scope demo_source)"


definition demo_row :: "string \<Rightarrow> int \<Rightarrow> string \<Rightarrow> string \<Rightarrow> admin_log_row" where
  "demo_row i t stream category =
     \<lparr>al_stream = stream, al_sourceRecordId = ''s'' @ i, al_eventType = ''e'', al_summary = ''e'', al_occurredAt = t, al_severity = None,
      al_status = None, al_actorId = None, al_actorEmail = None, al_actorDisplayName = None, al_targetType = None, al_targetId = None,
      al_category = Some category, al_source = None, al_installationId = None, al_provider = None, al_model = None, al_durationMs = None,
      al_costUsd = None, al_promptTokens = None, al_completionTokens = None, al_totalTokens = None, al_errorSummary = None,
      al_searchText = None, al_metadataJson = None, al_payloadJson = None, al_id = i\<rparr>"

definition demo_rows :: "admin_log_row list" where
  "demo_rows = [demo_row ''r1'' 5 ''activity'' ''ai'', demo_row ''r2'' 7 ''activity'' ''system'', demo_row ''r3'' 6 ''audit'' ''admin'',
     demo_row ''r4'' 7 ''domain'' ''system'']"

definition demo_table :: log_db where
  "demo_table = demo_log\<lparr>lg_rows := demo_rows\<rparr>"

lemma demo_table_rows [simp]: "lg_rows demo_table = demo_rows"
  by (simp add: demo_table_def)

definition demo_query :: list_input where
  "demo_query = \<lparr>ls_stream = ''all'', ls_severity = ''all'', ls_search = None, ls_category = Some ''system'', ls_source = None, ls_status = None,
     ls_eventType = None, ls_from = None, ls_to = None, ls_limit = 1, ls_cursor = None\<rparr>"

theorem pages_cover_log_witness:
  "follow_pages 5 demo_host demo_query demo_table None = [demo_row ''r4'' 7 ''domain'' ''system'', demo_row ''r2'' 7 ''activity'' ''system'']"
proof -
  have "list_all row_encodable demo_rows" "distinct (map al_id demo_rows)" "length demo_rows < 5" by code_simp+
  then have "follow_pages 5 demo_host demo_query demo_table None = by_newest log_time_key (filter (log_where demo_host demo_query) demo_rows)"
    using pages_cover_log [OF demo_codec_ok, of demo_table 5 demo_query] by (simp add: list_all_iff)
  also have "\<dots> = [demo_row ''r4'' 7 ''domain'' ''system'', demo_row ''r2'' 7 ''activity'' ''system'']" by code_simp
  finally show ?thesis .
qed

definition demo_prune :: prune_options where
  "demo_prune = \<lparr>px_dryRun = Some False, px_includeSensitive = None, px_limit = Some 1, px_enabled = Some True, px_sensitiveEnabled = None,
     px_activity = Some 1, px_domain = None, px_system = None, px_audit = None, px_security = None, px_admin = None\<rparr>"

lemma prune_succeeds: "\<exists>counts. pruneExpiredReadModel env now o' s = (fst (pruneExpiredReadModel env now o' s), Inr counts)"
  by (simp add: pruneExpiredReadModel_def Let_def split_beta)


text \<open>
  A source identifier that holds a colon, as those of the settings' audit entries do, is cut at it: the row
  is not found under stream and source.
\<close>

lemma findOne_cuts_source:
  assumes "CHR '':'' \<notin> set stream" and "CHR '':'' \<notin> set a" and "stream \<noteq> []" and "a \<noteq> []"
    and "\<And>r. r \<in> set (lg_rows s) \<Longrightarrow> al_id r \<noteq> stream @ '':'' @ a @ '':'' @ b \<and> log_key r \<noteq> (stream, a)"
  shows "findOne (stream @ '':'' @ a @ '':'' @ b) s = None"
proof -
  have "split_on (CHR '':'') (stream @ '':'' @ a @ '':'' @ b) = stream # a # split_on (CHR '':'') b"
    using split_on_append_sep [OF assms(1)] split_on_append_sep [OF assms(2)] by simp
  moreover have "find (\<lambda>r. al_id r = stream @ '':'' @ a @ '':'' @ b) (lg_rows s) = None" "find (\<lambda>r. log_key r = (stream, a)) (lg_rows s) = None"
    using assms(5) by (auto simp: find_None_iff_all)
  ultimately show ?thesis using assms(3,4) by (simp add: findOne_def)
qed

end
