(* ===== verification/AdminLogView.thy ===== *)
theory AdminLogView
  imports AdminLogStore UserAdmin Queue
begin

text \<open>
  What the administrators see of the log (\<open>apps/api/src/platform.service.ts\<close>): the filters of a request,
  a page of entries, the security overview with its findings and its trend, the export. Text fields of a
  request are strings or absent; the printing of JSON with indentation is left to the runtime, so the
  content of a JSON export is what it prints.
\<close>

section \<open>Filters\<close>

record raw_log_filters =
  rf_stream :: "string option"
  rf_severity :: "string option"
  rf_search :: "string option"
  rf_limit :: "jsnum option"
  rf_category :: "string option"
  rf_source :: "string option"
  rf_status :: "string option"
  rf_eventType :: "string option"
  rf_from :: "string option"
  rf_to :: "string option"
  rf_page :: "jsnum option"
  rf_cursor :: "string option"

record admin_log_filters =
  lf_stream :: string
  lf_severity :: string
  lf_search :: "string option"
  lf_limit :: int
  lf_category :: "string option"
  lf_source :: "string option"
  lf_status :: "string option"
  lf_eventType :: "string option"
  lf_from :: "string option"
  lf_to :: "string option"
  lf_page :: int
  lf_cursor :: "string option"

definition adminLogStreamFilters :: "string list" where
  "adminLogStreamFilters = [''all'', ''audit'', ''activity'', ''security'', ''domain'']"
definition adminLogSeverityFilters :: "string list" where
  "adminLogSeverityFilters = [''all'', ''debug'', ''info'', ''warn'', ''error'']"
definition adminLogCategoryFilters :: "string list" where
  "adminLogCategoryFilters = [''all'', ''auth'', ''extension'', ''ai'', ''admin'', ''system'']"
definition adminLogSourceFilters :: "string list" where
  "adminLogSourceFilters = [''all'', ''web'', ''extension'', ''api'', ''worker'', ''webhook'']"
definition adminLogStatusFilters :: "string list" where
  "adminLogStatusFilters = [''all'', ''success'', ''failure'']"

text \<open>\<open>Math.trunc\<close> of a finite number.\<close>

definition trunc_num :: "rat \<Rightarrow> int" where
  "trunc_num q = (if 0 \<le> q then \<lfloor>q\<rfloor> else \<lceil>q\<rceil>)"

definition one_of :: "string list \<Rightarrow> string option \<Rightarrow> string option" where
  "one_of values v = (case v of Some s \<Rightarrow> if s \<in> set values \<and> s \<noteq> ''all'' then Some s else None | None \<Rightarrow> None)"

definition trimmed :: "string option \<Rightarrow> string option" where
  "trimmed v = Option.bind v (\<lambda>s. or_undefined (trim s))"

definition normalizeAdminLogFilters :: "raw_log_filters \<Rightarrow> admin_log_filters" where
  "normalizeAdminLogFilters f =
     \<lparr>lf_stream = (case rf_stream f of Some v \<Rightarrow> if v \<in> set adminLogStreamFilters then v else ''all'' | None \<Rightarrow> ''all''),
      lf_severity = (case rf_severity f of Some v \<Rightarrow> if v \<in> set adminLogSeverityFilters then v else ''all'' | None \<Rightarrow> ''all''),
      lf_search = trimmed (rf_search f),
      lf_limit = (case rf_limit f of Some (Fin q) \<Rightarrow> min (max (trunc_num q) 1) 100 | _ \<Rightarrow> 25),
      lf_category = one_of adminLogCategoryFilters (rf_category f), lf_source = one_of adminLogSourceFilters (rf_source f),
      lf_status = one_of adminLogStatusFilters (rf_status f), lf_eventType = trimmed (rf_eventType f), lf_from = trimmed (rf_from f),
      lf_to = trimmed (rf_to f), lf_page = (case rf_page f of Some (Fin q) \<Rightarrow> max (trunc_num q) 1 | _ \<Rightarrow> 1),
      lf_cursor = trimmed (rf_cursor f)\<rparr>"

section \<open>Entries and the snapshot\<close>

record log_actor =
  la_id :: string
  la_email :: "string option"
  la_displayName :: "string option"

record admin_log_entry =
  en_id :: string
  en_stream :: string
  en_eventType :: string
  en_summary :: string
  en_occurredAt :: string
  en_severity :: "log_severity option"
  en_status :: "log_status option"
  en_actor :: "log_actor option"
  en_targetType :: "string option"
  en_targetId :: "string option"
  en_category :: "string option"
  en_source :: "string option"
  en_installationId :: "string option"
  en_provider :: "string option"
  en_model :: "string option"
  en_durationMs :: "jsnum option"
  en_costUsd :: "jsnum option"
  en_promptTokens :: "jsnum option"
  en_completionTokens :: "jsnum option"
  en_totalTokens :: "jsnum option"
  en_errorSummary :: "string option"
  en_metadata :: "json_object option"

definition mapConnectedAdminLogListItem :: "admin_log_row \<Rightarrow> json_object option \<Rightarrow> admin_log_entry" where
  "mapConnectedAdminLogListItem r metadata =
     \<lparr>en_id = al_id r, en_stream = al_stream r, en_eventType = al_eventType r, en_summary = al_summary r,
      en_occurredAt = toISOString (al_occurredAt r), en_severity = al_severity r, en_status = al_status r,
      en_actor = (case or_none (al_actorId r) of None \<Rightarrow> None
        | Some i \<Rightarrow> Some \<lparr>la_id = i, la_email = or_none (al_actorEmail r), la_displayName = or_none (al_actorDisplayName r)\<rparr>),
      en_targetType = or_none (al_targetType r), en_targetId = or_none (al_targetId r), en_category = or_none (al_category r),
      en_source = or_none (al_source r), en_installationId = or_none (al_installationId r), en_provider = or_none (al_provider r),
      en_model = or_none (al_model r), en_durationMs = al_durationMs r, en_costUsd = al_costUsd r, en_promptTokens = al_promptTokens r,
      en_completionTokens = al_completionTokens r, en_totalTokens = al_totalTokens r, en_errorSummary = or_none (al_errorSummary r),
      en_metadata = metadata\<rparr>"

record admin_logs_snapshot =
  sn_personaKey :: string
  sn_accessDecision :: access_decision
  sn_exportDecision :: access_decision
  sn_filters :: admin_log_filters
  sn_items :: "admin_log_entry list"
  sn_streamCounts :: "(string \<times> nat) list"
  sn_categoryCounts :: "(string \<times> nat) list"
  sn_hasNext :: bool
  sn_nextCursor :: "string option"
  sn_permissions :: "string list"

definition streamCounts :: "admin_log_entry list \<Rightarrow> (string \<times> nat) list" where
  "streamCounts items =
     map (\<lambda>k. (k, length (filter (\<lambda>i. en_stream i = k) items))) [''audit'', ''activity'', ''security'', ''domain'']"

definition categoryCounts :: "admin_log_entry list \<Rightarrow> (string \<times> nat) list" where
  "categoryCounts items =
     map (\<lambda>k. (k, length (filter (\<lambda>i. en_category i = Some k) items))) [''auth'', ''extension'', ''ai'', ''admin'', ''system'']"

definition list_input_of :: "admin_log_filters \<Rightarrow> list_input" where
  "list_input_of f =
     \<lparr>ls_stream = lf_stream f, ls_severity = lf_severity f, ls_search = lf_search f, ls_category = lf_category f, ls_source = lf_source f,
      ls_status = lf_status f, ls_eventType = lf_eventType f, ls_from = lf_from f, ls_to = lf_to f, ls_limit = lf_limit f,
      ls_cursor = lf_cursor f\<rparr>"

definition listAdminLogsForCurrentSession ::
  "log_host \<Rightarrow> current_session \<Rightarrow> raw_log_filters \<Rightarrow> 'm log_db_scheme \<Rightarrow> admin_logs_snapshot result" where
  "listAdminLogsForCurrentSession h session raw s =
     (let filters = normalizeAdminLogFilters raw;
          accessDecision = canReadAuditLogs (cs_principal session)
      in bindR (requireDecision accessDecision) (\<lambda>_.
         bindR (listPage h (list_input_of filters) s) (\<lambda>records.
           let items = map (\<lambda>r. mapConnectedAdminLogListItem r None) (lr_items records)
           in Inr \<lparr>sn_personaKey = ''connected-user'', sn_accessDecision = accessDecision,
                sn_exportDecision = canExportAuditLogs (cs_principal session), sn_filters = filters, sn_items = items,
                sn_streamCounts = streamCounts items, sn_categoryCounts = categoryCounts items, sn_hasNext = lr_hasNext records,
                sn_nextCursor = lr_nextCursor records, sn_permissions = cs_permissions session\<rparr>)))"

text \<open>One entry, with its technical metadata; the AI request behind it comes from the history service.\<close>

definition resolveAdminAiRequestCandidateIds :: "admin_log_row \<Rightarrow> json_object option \<Rightarrow> string list" where
  "resolveAdminAiRequestCandidateIds r metadata =
     collectAdminAiRequestCandidateIds (al_targetType r) (al_targetId r) (Some (al_sourceRecordId r)) metadata None"

definition technical_metadata :: "admin_log_row \<Rightarrow> json_object option \<Rightarrow> json_object" where
  "technical_metadata r metadata =
     AList.update ''targetId'' (jnull_or (al_targetId r)) (AList.update ''targetType'' (jnull_or (al_targetType r))
       (AList.update ''sourceRecordId'' (JStr (al_sourceRecordId r)) (nullish metadata [])))"

definition normalizeAdminAiEstimatedCostUsd :: "jsnum option \<Rightarrow> jsnum option" where
  "normalizeAdminAiEstimatedCostUsd v = (case v of Some (Fin q) \<Rightarrow> if q \<le> 0 then None else Some (Fin q) | _ \<Rightarrow> None)"

definition json_texts :: "json list \<Rightarrow> string list" where
  "json_texts vs = concat (map (\<lambda>v. case v of JStr s \<Rightarrow> [s] | _ \<Rightarrow> []) vs)"

definition resolveAiContentAvailability :: "json \<Rightarrow> json \<Rightarrow> string" where
  "resolveAiContentAvailability promptContentJson responseContentJson =
     (let text = toLowerCase (join '' '' (json_texts [promptContentJson, responseContentJson]))
      in if str_includes text ''expired after the retention window'' then ''expired''
         else if str_includes text ''not available'' then ''missing'' else ''available'')"

definition content_with :: "string \<Rightarrow> json \<Rightarrow> string option" where
  "content_with phrase v = (case v of JStr s \<Rightarrow> if str_includes s phrase then Some s else None | _ \<Rightarrow> None)"

definition resolveAiContentMessage :: "json \<Rightarrow> json \<Rightarrow> string option" where
  "resolveAiContentMessage promptContentJson responseContentJson =
     orElse (content_with ''retention window'' promptContentJson) (orElse (content_with ''retention window'' responseContentJson)
       (orElse (content_with ''not available'' promptContentJson) (content_with ''not available'' responseContentJson)))"

text \<open>The detail of a request as the history service gives it, and as an entry shows it.\<close>

record ai_detail =
  dt_id :: string
  dt_provider :: string
  dt_model :: string
  dt_status :: string
  dt_requestType :: string
  dt_estimatedCostUsd :: "jsnum option"
  dt_durationMs :: "jsnum option"
  dt_promptTokens :: "jsnum option"
  dt_completionTokens :: "jsnum option"
  dt_totalTokens :: "jsnum option"
  dt_promptExcerpt :: "string option"
  dt_responseExcerpt :: "string option"
  dt_promptContentJson :: json
  dt_responseContentJson :: json
  dt_attachments :: "string list"

record ai_request_view = ai_detail +
  rv_contentAvailability :: string
  rv_contentMessage :: "string option"

definition ai_request_view_of :: "ai_detail \<Rightarrow> ai_request_view" where
  "ai_request_view_of d = ai_detail.extend (d\<lparr>dt_estimatedCostUsd := normalizeAdminAiEstimatedCostUsd (dt_estimatedCostUsd d)\<rparr>)
     (ai_request_view.fields (resolveAiContentAvailability (dt_promptContentJson d) (dt_responseContentJson d))
       (resolveAiContentMessage (dt_promptContentJson d) (dt_responseContentJson d)))"

definition getAdminLogEntryForCurrentSession ::
  "(string list \<Rightarrow> ai_detail option) \<Rightarrow> current_session \<Rightarrow> string \<Rightarrow> 'm log_db_scheme \<Rightarrow> (admin_log_entry \<times> ai_request_view option) result" where
  "getAdminLogEntryForCurrentSession getDetailForAdminByAnyId session i s =
     bindR (requireDecision (canReadAuditLogs (cs_principal session))) (\<lambda>_.
       case findOne i s of
         None \<Rightarrow> Inl (NotFound ''Log entry not found.'')
       | Some (r, metadata) \<Rightarrow>
           let technicalMetadata = technical_metadata r metadata;
               mapped = mapConnectedAdminLogListItem r (Some technicalMetadata);
               candidates = resolveAdminAiRequestCandidateIds r (Some technicalMetadata)
           in if candidates = [] then Inr (mapped, None)
              else Inr (mapped, map_option ai_request_view_of (getDetailForAdminByAnyId candidates)))"

definition getAdminLogAttachmentForCurrentSession ::
  "(string list \<Rightarrow> ai_detail option) \<Rightarrow> (string \<Rightarrow> string \<Rightarrow> 'a option) \<Rightarrow> current_session \<Rightarrow> string \<Rightarrow> string \<Rightarrow> 'm log_db_scheme
   \<Rightarrow> 'a option result" where
  "getAdminLogAttachmentForCurrentSession getDetailForAdminByAnyId getAttachmentForAdmin session i attachmentId s =
     bindR (requireDecision (canReadAuditLogs (cs_principal session))) (\<lambda>_.
       case findOne i s of
         None \<Rightarrow> Inl (NotFound ''Log entry not found.'')
       | Some (r, metadata) \<Rightarrow>
           let candidates = resolveAdminAiRequestCandidateIds r metadata
           in if candidates = [] then Inr None
              else (case getDetailForAdminByAnyId candidates of
                  None \<Rightarrow> Inr None
                | Some d \<Rightarrow> if dt_id d = [] then Inr None else Inr (getAttachmentForAdmin (dt_id d) attachmentId)))"

section \<open>The security overview\<close>

record security_findings =
  sf_suspiciousAuthFailures :: nat
  sf_impersonationEvents :: nat
  sf_providerCredentialEvents :: nat
  sf_privilegedActionEvents :: nat
  sf_extensionBootstrapRefreshFailures :: nat
  sf_extensionReconnectRequests :: nat
  sf_extensionReconnectRecoveries :: nat
  sf_extensionReconnectOutstanding :: nat
  sf_extensionSessionRevocations :: nat
  sf_extensionSessionRotations :: nat
  sf_extensionRuntimeErrors :: nat
  sf_totalFailures :: nat

definition eventSearchText :: "(json \<Rightarrow> string) \<Rightarrow> admin_log_entry \<Rightarrow> string" where
  "eventSearchText stringify i = search_text [Some (en_eventType i), Some (en_summary i), en_targetType i, en_targetId i,
     (case en_metadata i of None \<Rightarrow> None | Some m \<Rightarrow> Some (stringify (JObj m)))]"

definition buildAdminSecurityFindings :: "(json \<Rightarrow> string) \<Rightarrow> admin_log_entry list \<Rightarrow> security_findings" where
  "buildAdminSecurityFindings stringify items =
     (let number = (\<lambda>P. length (filter P items));
          mentions = (\<lambda>words i. list_ex (str_includes (eventSearchText stringify i)) words);
          of_type = (\<lambda>t. number (\<lambda>i. en_eventType i = t));
          requests = of_type ''extension.installation_reconnect_requested'';
          recoveries = of_type ''extension.installation_reconnected''
      in \<lparr>sf_suspiciousAuthFailures = number (\<lambda>i. startsWith (en_eventType i) ''auth.''
              \<and> (en_status i = Some StatusFailure \<or> mentions [''failed'', ''invalid''] i)),
          sf_impersonationEvents = number (mentions [''impersonation'']),
          sf_providerCredentialEvents = number (mentions [''credential'', ''provider'', ''api key'', ''api_key'']),
          sf_privilegedActionEvents = number (mentions [''policy'', ''role'', ''suspend'', ''publish'', ''impersonation'', ''credential'']),
          sf_extensionBootstrapRefreshFailures = of_type ''extension.bootstrap_refresh_failed'',
          sf_extensionReconnectRequests = requests, sf_extensionReconnectRecoveries = recoveries,
          sf_extensionReconnectOutstanding = requests - recoveries,
          sf_extensionSessionRevocations = of_type ''extension.installation_session_revoked'',
          sf_extensionSessionRotations = of_type ''extension.installation_session_rotated'',
          sf_extensionRuntimeErrors = of_type ''extension.runtime_error'',
          sf_totalFailures = number (\<lambda>i. en_status i = Some StatusFailure \<or> en_severity i = Some SevError)\<rparr>)"

record trend_bucket =
  tb_bucketStart :: string
  tb_bootstrapRefreshFailures :: nat
  tb_reconnectRequests :: nat
  tb_reconnectRecoveries :: nat
  tb_sessionRevocations :: nat
  tb_sessionRotations :: nat
  tb_runtimeErrors :: nat

definition empty_bucket :: "int \<Rightarrow> trend_bucket" where
  "empty_bucket t = \<lparr>tb_bucketStart = toISOString t, tb_bootstrapRefreshFailures = 0, tb_reconnectRequests = 0, tb_reconnectRecoveries = 0,
     tb_sessionRevocations = 0, tb_sessionRotations = 0, tb_runtimeErrors = 0\<rparr>"

definition count_event :: "string \<Rightarrow> trend_bucket \<Rightarrow> trend_bucket" where
  "count_event eventType b =
     (if eventType = ''extension.bootstrap_refresh_failed'' then b\<lparr>tb_bootstrapRefreshFailures := tb_bootstrapRefreshFailures b + 1\<rparr>
      else if eventType = ''extension.installation_reconnect_requested'' then b\<lparr>tb_reconnectRequests := tb_reconnectRequests b + 1\<rparr>
      else if eventType = ''extension.installation_reconnected'' then b\<lparr>tb_reconnectRecoveries := tb_reconnectRecoveries b + 1\<rparr>
      else if eventType = ''extension.installation_session_revoked'' then b\<lparr>tb_sessionRevocations := tb_sessionRevocations b + 1\<rparr>
      else if eventType = ''extension.installation_session_rotated'' then b\<lparr>tb_sessionRotations := tb_sessionRotations b + 1\<rparr>
      else if eventType = ''extension.runtime_error'' then b\<lparr>tb_runtimeErrors := tb_runtimeErrors b + 1\<rparr>
      else b)"

definition bucketMs :: int where "bucketMs = 6 * 60 * 60 * 1000"
definition windowMs :: int where "windowMs = 24 * 60 * 60 * 1000"

text \<open>The hour after the latest entry, or after now when there is none, ends the window.\<close>

definition trend_end :: "(string \<Rightarrow> int option) \<Rightarrow> int \<Rightarrow> admin_log_entry list \<Rightarrow> int" where
  "trend_end host now items =
     (let observed = map the (filter (\<lambda>t. t \<noteq> None) (map (\<lambda>i. date_parse host (en_occurredAt i)) items));
          reference = (if observed = [] then now else Max (set observed))
      in reference - reference mod 3600000 + 3600000)"

definition place_event :: "(string \<Rightarrow> int option) \<Rightarrow> int \<Rightarrow> int \<Rightarrow> admin_log_entry \<Rightarrow> trend_bucket list \<Rightarrow> trend_bucket list" where
  "place_event host windowStart endExclusive i buckets = (case date_parse host (en_occurredAt i) of
     None \<Rightarrow> buckets
   | Some t \<Rightarrow>
       if t < windowStart \<or> endExclusive \<le> t then buckets
       else let n = nat ((t - windowStart) div bucketMs)
            in if n < length buckets then buckets[n := count_event (en_eventType i) (buckets ! n)] else buckets)"

definition buildAdminSecurityLifecycleTrend :: "(string \<Rightarrow> int option) \<Rightarrow> int \<Rightarrow> admin_log_entry list \<Rightarrow> trend_bucket list" where
  "buildAdminSecurityLifecycleTrend host now items =
     (let endExclusive = trend_end host now items;
          windowStart = endExclusive - windowMs;
          buckets = map (\<lambda>k. empty_bucket (windowStart + int k * bucketMs)) [0..<nat (windowMs div bucketMs)]
      in fold (place_event host windowStart endExclusive) items buckets)"

record security_snapshot =
  sy_logs :: admin_logs_snapshot
  sy_total :: nat
  sy_findings :: security_findings
  sy_lifecycleTrend :: "trend_bucket list"

definition buildAdminSecuritySnapshot :: "log_host \<Rightarrow> int \<Rightarrow> admin_logs_snapshot \<Rightarrow> security_snapshot" where
  "buildAdminSecuritySnapshot h now snapshot =
     \<lparr>sy_logs = snapshot, sy_total = length (sn_items snapshot), sy_findings = buildAdminSecurityFindings (lh_stringify h) (sn_items snapshot),
      sy_lifecycleTrend = buildAdminSecurityLifecycleTrend (lh_date h) now (sn_items snapshot)\<rparr>"

definition listAdminSecurityForCurrentSession ::
  "log_host \<Rightarrow> int \<Rightarrow> current_session \<Rightarrow> raw_log_filters \<Rightarrow> 'm log_db_scheme \<Rightarrow> security_snapshot result" where
  "listAdminSecurityForCurrentSession h now session raw s =
     bindR (listAdminLogsForCurrentSession h session (raw\<lparr>rf_stream := Some ''security''\<rparr>) s) (\<lambda>snapshot.
       Inr (buildAdminSecuritySnapshot h now snapshot))"

section \<open>The export\<close>

text \<open>\<open>replaceAll('"', '""')\<close>.\<close>

definition double_quotes :: "string \<Rightarrow> string" where
  "double_quotes v = concat (map (\<lambda>c. if c = CHR 0x22 then [CHR 0x22, CHR 0x22] else [c]) v)"

definition escapeCsv :: "string \<Rightarrow> string" where
  "escapeCsv v =
     (let normalized = double_quotes v
      in if list_ex (\<lambda>c. c \<in> {CHR 0x22, CHR '','', CHR 0x0A}) normalized then [CHR 0x22] @ normalized @ [CHR 0x22] else normalized)"

definition csv_header :: string where
  "csv_header = ''stream,category,source,eventType,summary,occurredAt,severity,status,'' @
     ''actorId,actorEmail,actorDisplayName,targetType,targetId,'' @
     ''installationId,provider,model,durationMs,costUsd,'' @
     ''promptTokens,completionTokens,totalTokens,errorSummary,metadata''"

definition num_cell :: "jsnum option \<Rightarrow> string" where
  "num_cell v = (case v of None \<Rightarrow> [] | Some n \<Rightarrow> num_to_string n)"

definition csv_cells :: "(json \<Rightarrow> string) \<Rightarrow> admin_log_entry \<Rightarrow> string list" where
  "csv_cells stringify i =
     [en_stream i, nullish (en_category i) [], nullish (en_source i) [], en_eventType i, en_summary i, en_occurredAt i,
      (case en_severity i of None \<Rightarrow> [] | Some v \<Rightarrow> show_severity v), (case en_status i of None \<Rightarrow> [] | Some v \<Rightarrow> show_status v),
      (case en_actor i of None \<Rightarrow> [] | Some a \<Rightarrow> la_id a), (case en_actor i of None \<Rightarrow> [] | Some a \<Rightarrow> nullish (la_email a) []),
      (case en_actor i of None \<Rightarrow> [] | Some a \<Rightarrow> nullish (la_displayName a) []),
      nullish (en_targetType i) [], nullish (en_targetId i) [], nullish (en_installationId i) [], nullish (en_provider i) [],
      nullish (en_model i) [], num_cell (en_durationMs i), num_cell (en_costUsd i), num_cell (en_promptTokens i),
      num_cell (en_completionTokens i), num_cell (en_totalTokens i), nullish (en_errorSummary i) [],
      (case en_metadata i of None \<Rightarrow> [] | Some m \<Rightarrow> stringify (JObj m))]"

definition csv_line :: "string list \<Rightarrow> string" where
  "csv_line cells = join '','' (map escapeCsv cells)"

definition serializeAdminLogsCsv :: "(json \<Rightarrow> string) \<Rightarrow> admin_log_entry list \<Rightarrow> string" where
  "serializeAdminLogsCsv stringify items = join [CHR 0x0A] (csv_header # map (\<lambda>i. csv_line (csv_cells stringify i)) items)"

text \<open>The content of a JSON export is the printed snapshot.\<close>

datatype export_content = PrintedJson string admin_log_filters "(string \<times> nat) list" "admin_log_entry list" | CsvText string

record log_export =
  lx_format :: string
  lx_fileName :: string
  lx_contentType :: string
  lx_exportedAt :: string
  lx_itemCount :: nat
  lx_content :: export_content

definition normalizeAdminLogExportFormat :: "string option \<Rightarrow> string" where
  "normalizeAdminLogExportFormat format = (if format = Some ''csv'' then ''csv'' else ''json'')"

definition buildAdminLogExportResult :: "log_host \<Rightarrow> int \<Rightarrow> admin_logs_snapshot \<Rightarrow> string option \<Rightarrow> log_export" where
  "buildAdminLogExportResult h now snapshot request =
     (let format = normalizeAdminLogExportFormat request;
          exportedAt = toISOString now;
          fileStem = ''audit-logs-platform-'' @ take 10 exportedAt
      in if format = ''json'' then
           \<lparr>lx_format = format, lx_fileName = fileStem @ ''.json'', lx_contentType = ''application/json'', lx_exportedAt = exportedAt,
            lx_itemCount = length (sn_items snapshot),
            lx_content = PrintedJson exportedAt (sn_filters snapshot) (sn_streamCounts snapshot) (sn_items snapshot)\<rparr>
         else
           \<lparr>lx_format = format, lx_fileName = fileStem @ ''.csv'', lx_contentType = ''text/csv; charset=utf-8'', lx_exportedAt = exportedAt,
            lx_itemCount = length (sn_items snapshot), lx_content = CsvText (serializeAdminLogsCsv (lh_stringify h) (sn_items snapshot))\<rparr>)"

text \<open>The export of a session: the result and the job it dispatches.\<close>

definition exportAdminLogsForCurrentSession ::
  "log_host \<Rightarrow> int \<Rightarrow> current_session \<Rightarrow> raw_log_filters \<Rightarrow> string option \<Rightarrow> 'm log_db_scheme \<Rightarrow> (log_export \<times> queue_dispatch_request) result" where
  "exportAdminLogsForCurrentSession h now session raw format s =
     bindR (requireDecision (canExportAuditLogs (cs_principal session))) (\<lambda>_.
     bindR (listAdminLogsForCurrentSession h session raw s) (\<lambda>snapshot.
       let x = buildAdminLogExportResult h now snapshot format
       in Inr (x, createQueueDispatchRequest
            \<lparr>dr_payload = AuditExportJob \<lparr>ae_export = ExportAdminLogs (int (lx_itemCount x)), ae_format = lx_format x,
               ae_fileName = lx_fileName x, ae_contentType = lx_contentType x, ae_exportedAt = lx_exportedAt x,
               ae_requestedByUserId = cs_user_id session\<rparr>,
             dr_dedupeKey = None, dr_attempts = None, dr_jobId = None, dr_createdAt = None\<rparr> None)))"

section \<open>The CSV text is read back\<close>

text \<open>A reader of the format: \<open>q\<close> tells whether it is inside quotes, \<open>cell\<close> and \<open>row\<close> are what it has of the current cell and row.\<close>

fun csv_read :: "bool \<Rightarrow> string \<Rightarrow> string list \<Rightarrow> string \<Rightarrow> string list list" where
  "csv_read q cell row [] = [row @ [cell]]"
| "csv_read True cell row (c # cs) =
     (if c = CHR 0x22 then
        (case cs of [] \<Rightarrow> csv_read False cell row []
         | d # ds \<Rightarrow> if d = CHR 0x22 then csv_read True (cell @ [d]) row ds else csv_read False cell row (d # ds))
      else csv_read True (cell @ [c]) row cs)"
| "csv_read False cell row (c # cs) =
     (if c = CHR 0x22 then csv_read True cell row cs
      else if c = CHR '','' then csv_read False [] (row @ [cell]) cs
      else if c = CHR 0x0A then (row @ [cell]) # csv_read False [] [] cs
      else csv_read False (cell @ [c]) row cs)"

definition ends_cell :: "string \<Rightarrow> bool" where
  "ends_cell rest = (case rest of [] \<Rightarrow> True | c # _ \<Rightarrow> c = CHR '','' \<or> c = CHR 0x0A)"

lemma read_quoted:
  "ends_cell rest \<Longrightarrow> csv_read True cell row (double_quotes v @ CHR 0x22 # rest) = csv_read False (cell @ v) row rest"
proof (induction v arbitrary: cell)
  case Nil
  then show ?case by (cases rest) (auto simp: double_quotes_def ends_cell_def)
next
  case (Cons c v)
  then show ?case by (auto simp: double_quotes_def)
qed

lemma read_plain:
  "\<forall>c \<in> set v. c \<notin> {CHR 0x22, CHR '','', CHR 0x0A} \<Longrightarrow> csv_read False cell row (v @ rest) = csv_read False (cell @ v) row rest"
  by (induction v arbitrary: cell) auto

lemma double_quotes_plain: "CHR 0x22 \<notin> set v \<Longrightarrow> double_quotes v = v"
  by (induction v) (auto simp: double_quotes_def)

lemma quote_in_doubled: "c \<in> set (double_quotes v) \<longleftrightarrow> c \<in> set v"
  by (induction v) (auto simp: double_quotes_def)

lemma read_cell: "ends_cell rest \<Longrightarrow> csv_read False [] row (escapeCsv v @ rest) = csv_read False v row rest"
proof (cases "list_ex (\<lambda>c. c \<in> {CHR 0x22, CHR '','', CHR 0x0A}) (double_quotes v)")
  case True
  assume "ends_cell rest"
  then show ?thesis using True read_quoted [of rest "[]" row v] by (simp add: escapeCsv_def Let_def)
next
  case False
  then have "\<forall>c \<in> set v. c \<notin> {CHR 0x22, CHR '','', CHR 0x0A}" by (auto simp: list_ex_iff quote_in_doubled)
  moreover from this have "double_quotes v = v" by (intro double_quotes_plain) blast
  ultimately show ?thesis using False read_plain [of v "[]" row rest] by (simp add: escapeCsv_def Let_def)
qed

lemma read_line:
  assumes "rest = [] \<or> hd rest = CHR 0x0A"
  shows "csv_read False [] row (csv_line (v # vs) @ rest) = csv_read False (last (v # vs)) (row @ butlast (v # vs)) rest"
proof (induction vs arbitrary: v row)
  case Nil
  have "ends_cell rest" using assms by (auto simp: ends_cell_def split: list.split)
  then show ?case by (simp add: csv_line_def read_cell)
next
  case (Cons w vs)
  have "csv_read False [] row (csv_line (v # w # vs) @ rest)
      = csv_read False [] row (escapeCsv v @ CHR '','' # csv_line (w # vs) @ rest)" by (simp add: csv_line_def)
  also have "\<dots> = csv_read False v row (CHR '','' # csv_line (w # vs) @ rest)"
    by (rule read_cell) (simp add: ends_cell_def)
  finally show ?case using Cons.IH [where v = w and row = "row @ [v]"] by simp
qed

lemma read_lines:
  "csv_read False [] [] (join [CHR 0x0A] (csv_line (v # vs) # map (\<lambda>i. csv_line (hd (f i) # tl (f i))) is))
     = (v # vs) # map (\<lambda>i. hd (f i) # tl (f i)) is"
proof (induction "is" arbitrary: v vs)
  case Nil
  show ?case using read_line [of "[]" "[]" v vs] by simp
next
  case (Cons i "is")
  let ?l = "join [CHR 0x0A] (csv_line (hd (f i) # tl (f i)) # map (\<lambda>i. csv_line (hd (f i) # tl (f i))) is)"
  have "csv_read False [] [] (csv_line (v # vs) @ CHR 0x0A # ?l) = csv_read False (last (v # vs)) (butlast (v # vs)) (CHR 0x0A # ?l)"
    using read_line [of "CHR 0x0A # ?l" "[]" v vs] by simp
  also have "\<dots> = (v # vs) # csv_read False [] [] ?l" by (simp del: join.simps last.simps butlast.simps add: append_butlast_last_id)
  finally show ?case using Cons.IH [of "hd (f i)" "tl (f i)"] by simp
qed

text \<open>
  C33. The CSV export can be read back: whatever the entries hold, commas, quotes and line feeds included, a
  reader of the format gets the header and then the cells of every entry, in order.
\<close>

theorem csv_export_roundtrip:
  "csv_read False [] [] (serializeAdminLogsCsv stringify items) = split_on (CHR '','') csv_header # map (csv_cells stringify) items"
proof -
  have header: "csv_header = csv_line (hd (split_on (CHR '','') csv_header) # tl (split_on (CHR '','') csv_header))"
    by code_simp
  have cells: "csv_cells stringify i = hd (csv_cells stringify i) # tl (csv_cells stringify i)" for i
    by (simp add: csv_cells_def)
  have "serializeAdminLogsCsv stringify items = join [CHR 0x0A] (csv_line (hd (split_on (CHR '','') csv_header) # tl (split_on (CHR '','') csv_header))
      # map (\<lambda>i. csv_line (hd (csv_cells stringify i) # tl (csv_cells stringify i))) items)"
    unfolding serializeAdminLogsCsv_def header [symmetric] cells [symmetric] ..
  then show ?thesis
    using read_lines [of "hd (split_on (CHR '','') csv_header)" "tl (split_on (CHR '','') csv_header)" "csv_cells stringify" items]
    unfolding cells [symmetric] by simp
qed

section \<open>The trend\<close>

definition in_bucket :: "(string \<Rightarrow> int option) \<Rightarrow> int \<Rightarrow> nat \<Rightarrow> admin_log_entry \<Rightarrow> bool" where
  "in_bucket host windowStart k i = (case date_parse host (en_occurredAt i) of
     None \<Rightarrow> False | Some t \<Rightarrow> windowStart + int k * bucketMs \<le> t \<and> t < windowStart + (int k + 1) * bucketMs)"

lemma bucket_index:
  assumes "windowStart \<le> t"
  shows "nat ((t - windowStart) div bucketMs) = k \<longleftrightarrow> windowStart + int k * bucketMs \<le> t \<and> t < windowStart + (int k + 1) * bucketMs"
  using assms unfolding bucketMs_def by (auto simp: field_simps nat_eq_iff)

lemma place_event_buckets:
  "place_event host windowStart (windowStart + windowMs) i (map g [0..<4])
   = map (\<lambda>k. if in_bucket host windowStart k i then count_event (en_eventType i) (g k) else g k) [0..<4]"
proof (cases "date_parse host (en_occurredAt i)")
  case (Some t)
  show ?thesis
  proof (cases "t < windowStart \<or> windowStart + windowMs \<le> t")
    case True
    have "\<not> in_bucket host windowStart k i" if "k < 4" for k
      using True that Some by (auto simp: in_bucket_def bucketMs_def windowMs_def)
    then show ?thesis using True Some by (simp add: place_event_def)
  next
    case False
    let ?n = "nat ((t - windowStart) div bucketMs)"
    have "(t - windowStart) div 21600000 < 4" using False unfolding windowMs_def by simp linarith
    then have n: "?n < 4" by (simp add: bucketMs_def)
    have "in_bucket host windowStart k i \<longleftrightarrow> k = ?n" for k
      using False bucket_index [of windowStart t k] by (auto simp: in_bucket_def Some)
    then show ?thesis using False n Some
      by (intro nth_equalityI) (auto simp: place_event_def Let_def nth_list_update)
  qed
qed (simp add: place_event_def in_bucket_def)

lemma place_events:
  "fold (place_event host windowStart (windowStart + windowMs)) items (map g [0..<4])
   = map (\<lambda>k. fold count_event (map en_eventType (filter (in_bucket host windowStart k) items)) (g k)) [0..<4]"
proof (induction items arbitrary: g)
  case (Cons i items)
  show ?case unfolding fold_Cons comp_apply place_event_buckets Cons.IH by auto
qed simp

definition trend_start :: "(string \<Rightarrow> int option) \<Rightarrow> int \<Rightarrow> admin_log_entry list \<Rightarrow> int" where
  "trend_start host now items = trend_end host now items - windowMs"

lemma trend_end_after:
  assumes "i \<in> set items" and "date_parse host (en_occurredAt i) = Some t"
  shows "t < trend_end host now items"
proof -
  let ?ts = "map the (filter (\<lambda>t. t \<noteq> None) (map (\<lambda>i. date_parse host (en_occurredAt i)) items))"
  have "Some t \<in> set (filter (\<lambda>t. t \<noteq> None) (map (\<lambda>i. date_parse host (en_occurredAt i)) items))"
    using assms by (auto simp: image_iff intro: bexI [of _ i])
  then have t: "t \<in> set ?ts" by (metis image_eqI list.set_map option.sel)
  then have ne: "?ts \<noteq> []" by (rule_tac notI) (simp only: list.set empty_iff)
  have "t \<le> Max (set ?ts)" by (rule Max_ge [OF finite_set t])
  moreover have "Max (set ?ts) mod 3600000 < 3600000" by simp
  ultimately have "t < Max (set ?ts) - Max (set ?ts) mod 3600000 + 3600000" by linarith
  then show ?thesis unfolding trend_end_def Let_def if_not_P [OF ne] .
qed

text \<open>
  The trend of the security overview groups the entries exactly: its four buckets are the last four spans of six
  hours up to the full hour after the latest entry, each counts the entries of its span by their type, and
  no entry lies beyond the last of them.
\<close>

theorem trend_groups_entries:
  "buildAdminSecurityLifecycleTrend host now items =
      map (\<lambda>k. fold count_event (map en_eventType (filter (in_bucket host (trend_start host now items) k) items))
        (empty_bucket (trend_start host now items + int k * bucketMs))) [0..<4]
    \<and> list_all (\<lambda>i. case date_parse host (en_occurredAt i) of None \<Rightarrow> True | Some t \<Rightarrow> t < trend_start host now items + 4 * bucketMs) items"
proof
  have four: "nat (windowMs div bucketMs) = 4" by (simp add: windowMs_def bucketMs_def)
  have last: "trend_end host now items = trend_start host now items + windowMs" by (simp add: trend_start_def)
  show "buildAdminSecurityLifecycleTrend host now items =
      map (\<lambda>k. fold count_event (map en_eventType (filter (in_bucket host (trend_start host now items) k) items))
        (empty_bucket (trend_start host now items + int k * bucketMs))) [0..<4]"
    unfolding buildAdminSecurityLifecycleTrend_def Let_def four last add_diff_cancel_right'
    by (rule place_events)
  show "list_all (\<lambda>i. case date_parse host (en_occurredAt i) of None \<Rightarrow> True | Some t \<Rightarrow> t < trend_start host now items + 4 * bucketMs) items"
    unfolding list_all_iff
  proof
    fix i
    assume "i \<in> set items"
    then show "case date_parse host (en_occurredAt i) of None \<Rightarrow> True | Some t \<Rightarrow> t < trend_start host now items + 4 * bucketMs"
      using trend_end_after [of i items host _ now] by (simp add: trend_start_def windowMs_def bucketMs_def split: option.split)
  qed
qed

end
