(* ===== verification/SupportTickets.thy ===== *)
theory SupportTickets
  imports AdminLogView
begin

text \<open>
  Support tickets: the queue with its filters and presets, the timeline of a ticket, favourite presets and
  the workflow of a ticket, from \<open>apps/api/src/services/support-service.ts\<close>, the repositories
  \<open>apps/api/src/support/support-ticket.repository.ts\<close> and \<open>support-ticket-preset-favorite.repository.ts\<close>,
  and the handlers of \<open>platform.service.ts\<close>. The rows of a timeline are written by this service, so their
  metadata has the types it gives them.
\<close>

section \<open>Tables\<close>

datatype ticket_status = TicketOpen | TicketInProgress | TicketResolved | TicketClosed

definition show_ticket_status :: "ticket_status \<Rightarrow> string" where
  "show_ticket_status t = (case t of TicketOpen \<Rightarrow> ''open'' | TicketInProgress \<Rightarrow> ''in_progress''
     | TicketResolved \<Rightarrow> ''resolved'' | TicketClosed \<Rightarrow> ''closed'')"

definition ticketStatuses :: "ticket_status list" where
  "ticketStatuses = [TicketOpen, TicketInProgress, TicketResolved, TicketClosed]"

definition read_ticket_status :: "string \<Rightarrow> ticket_status option" where
  "read_ticket_status v = find (\<lambda>t. show_ticket_status t = v) ticketStatuses"

record workspace_row =
  ws_id :: string
  ws_slug :: string
  ws_name :: string

record ticket_row =
  tk_id :: string
  tk_workspaceId :: "string option"
  tk_requesterId :: string
  tk_assignedToId :: "string option"
  tk_subject :: string
  tk_body :: string
  tk_status :: ticket_status
  tk_handoffNote :: "string option"
  tk_createdAt :: int
  tk_updatedAt :: int

record favorite_row =
  fv_id :: string
  fv_userId :: string
  fv_presetKey :: string
  fv_createdAt :: int

record impersonation_row =
  im_id :: string
  im_supportActorId :: string
  im_targetUserId :: string
  im_supportTicketId :: "string option"
  im_reason :: string
  im_operatorNote :: "string option"
  im_closeReason :: "string option"
  im_createdAt :: int
  im_endedAt :: "int option"

record support_db = source_db +
  sp_workspaces :: "workspace_row list"
  sp_tickets :: "ticket_row list"
  sp_favorites :: "favorite_row list"
  sp_impersonations :: "impersonation_row list"

text \<open>A ticket with the rows it refers to (\<open>recentSupportTicketInclude\<close>); the requester exists by its foreign key.\<close>

record ticket_record =
  tr_ticket :: ticket_row
  tr_requester :: user_row
  tr_workspace :: "workspace_row option"
  tr_assignedTo :: "user_row option"

definition include_ticket :: "'m support_db_scheme \<Rightarrow> ticket_row \<Rightarrow> ticket_record option" where
  "include_ticket s t = map_option
     (\<lambda>u. \<lparr>tr_ticket = t, tr_requester = u,
           tr_workspace = Option.bind (tk_workspaceId t) (\<lambda>i. find (\<lambda>w. ws_id w = i) (sp_workspaces s)),
           tr_assignedTo = Option.bind (tk_assignedToId t) (\<lambda>i. findUserById i s)\<rparr>)
     (findUserById (tk_requesterId t) s)"

section \<open>Filters and presets\<close>

record ticket_filters =
  tf_status :: string
  tf_ownership :: string
  tf_preset :: "string option"
  tf_search :: "string option"
  tf_limit :: int
  tf_timelineLimit :: int

record raw_ticket_filters =
  tq_preset :: "string option"
  tq_status :: "string option"
  tq_ownership :: "string option"
  tq_search :: "string option"
  tq_limit :: "jsnum option"
  tq_timelineLimit :: "jsnum option"

definition supportTicketStatusFilters :: "string list" where
  "supportTicketStatusFilters = [''active'', ''open'', ''in_progress'', ''resolved'', ''closed'', ''all'']"

definition supportTicketOwnershipFilters :: "string list" where
  "supportTicketOwnershipFilters = [''all'', ''mine'', ''unassigned'']"

definition preset_filters :: "string \<Rightarrow> string \<Rightarrow> int \<Rightarrow> int \<Rightarrow> ticket_filters" where
  "preset_filters status ownership limit timelineLimit =
     \<lparr>tf_status = status, tf_ownership = ownership, tf_preset = None, tf_search = None, tf_limit = limit,
      tf_timelineLimit = timelineLimit\<rparr>"

definition supportTicketQueuePresetDefinitions :: "(string \<times> ticket_filters) list" where
  "supportTicketQueuePresetDefinitions =
     [(''active_queue'', preset_filters ''active'' ''all'' 8 4),
      (''my_active'', preset_filters ''active'' ''mine'' 8 4),
      (''shared_queue'', preset_filters ''open'' ''unassigned'' 8 4),
      (''resolved_review'', preset_filters ''resolved'' ''all'' 12 8),
      (''all_recent'', preset_filters ''all'' ''all'' 12 4)]"

definition supportTicketQueuePresets :: "string list" where
  "supportTicketQueuePresets = [''active_queue'', ''my_active'', ''shared_queue'', ''resolved_review'', ''all_recent'']"

definition defaultSupportTicketQueueFilters :: ticket_filters where
  "defaultSupportTicketQueueFilters = preset_filters ''active'' ''all'' 8 4"

definition clampInteger :: "jsnum option \<Rightarrow> int \<Rightarrow> int \<Rightarrow> int \<Rightarrow> int" where
  "clampInteger v fallback low high = (case v of Some (Fin q) \<Rightarrow> min (max (trunc_num q) low) high | _ \<Rightarrow> fallback)"

definition one_of_or :: "string list \<Rightarrow> string option \<Rightarrow> string \<Rightarrow> string" where
  "one_of_or values v fallback = (case v of Some x \<Rightarrow> if x \<noteq> [] \<and> x \<in> set values then x else fallback | None \<Rightarrow> fallback)"

definition normalizeSupportTicketQueueFilters :: "raw_ticket_filters \<Rightarrow> ticket_filters" where
  "normalizeSupportTicketQueueFilters raw =
     (let presetDefinition = Option.bind (tq_preset raw) (\<lambda>p. map_option (Pair p) (map_of supportTicketQueuePresetDefinitions p));
          base = (case presetDefinition of Some (_, f) \<Rightarrow> f | None \<Rightarrow> defaultSupportTicketQueueFilters);
          filters = \<lparr>tf_status = one_of_or supportTicketStatusFilters (tq_status raw) (tf_status base),
            tf_ownership = one_of_or supportTicketOwnershipFilters (tq_ownership raw) (tf_ownership base),
            tf_preset = None, tf_search = trimmed (tq_search raw),
            tf_limit = clampInteger (tq_limit raw) (tf_limit base) 1 24,
            tf_timelineLimit = clampInteger (tq_timelineLimit raw) (tf_timelineLimit base) 1 12\<rparr>
      in filters\<lparr>tf_preset := (case presetDefinition of Some (key, f) \<Rightarrow> if filters = f then Some key else None | None \<Rightarrow> None)\<rparr>)"

definition activeSupportTicketStatuses :: "ticket_status list" where
  "activeSupportTicketStatuses = [TicketOpen, TicketInProgress]"

definition resolveSupportTicketStatuses :: "string \<Rightarrow> ticket_status list option" where
  "resolveSupportTicketStatuses v =
     (if v = ''all'' then None
      else if v = ''active'' then Some activeSupportTicketStatuses
      else Some (case read_ticket_status v of None \<Rightarrow> [] | Some t \<Rightarrow> [t]))"

section \<open>The tables of the support repositories\<close>

record ticket_query =
  tl_statuses :: "ticket_status list option"
  tl_assignedToUserId :: "string option"
  tl_unassignedOnly :: bool
  tl_search :: "string option"
  tl_limit :: "int option"

text \<open>A condition on a column that is null, or on a row that is missing, does not hold.\<close>

definition contains_in :: "log_host \<Rightarrow> string option \<Rightarrow> string \<Rightarrow> bool" where
  "contains_in h v text = (case v of None \<Rightarrow> False | Some t \<Rightarrow> lh_contains h t text)"

definition ticket_where :: "log_host \<Rightarrow> ticket_query \<Rightarrow> 'm support_db_scheme \<Rightarrow> ticket_row \<Rightarrow> bool" where
  "ticket_where h q s t =
     ((case tl_statuses q of Some (st # sts) \<Rightarrow> tk_status t \<in> set (st # sts) | _ \<Rightarrow> True)
      \<and> (if tl_unassignedOnly q then tk_assignedToId t = None
         else truthy (tl_assignedToUserId q) \<longrightarrow> tk_assignedToId t = tl_assignedToUserId q)
      \<and> (case trimmed (tl_search q) of None \<Rightarrow> True
         | Some text \<Rightarrow> lh_contains h (tk_subject t) text \<or> lh_contains h (tk_body t) text
             \<or> (case findUserById (tk_requesterId t) s of None \<Rightarrow> False
                | Some u \<Rightarrow> lh_contains h (us_email u) text \<or> contains_in h (us_displayName u) text)))"

text \<open>The most recently updated first; \<open>tie\<close> is the order in which the database returns rows of the same instants.\<close>

definition listRecentTickets ::
  "log_host \<Rightarrow> (ticket_row list \<Rightarrow> ticket_row list) \<Rightarrow> ticket_query \<Rightarrow> 'm support_db_scheme \<Rightarrow> ticket_record list" where
  "listRecentTickets h tie q s =
     List.map_filter (include_ticket s)
       (take (nat (nullish (tl_limit q) 8))
         (sort_key (\<lambda>t. (- tk_updatedAt t, - tk_createdAt t)) (tie (filter (ticket_where h q s) (sp_tickets s)))))"

definition findTicketById :: "string \<Rightarrow> 'm support_db_scheme \<Rightarrow> ticket_record option" where
  "findTicketById i s = Option.bind (find (\<lambda>t. tk_id t = i) (sp_tickets s)) (include_ticket s)"

text \<open>The newest rows of each ticket: \<open>counts\<close> holds how many were kept of it so far.\<close>

fun keep_newest :: "int \<Rightarrow> (string \<times> int) list \<Rightarrow> audit_row list \<Rightarrow> audit_row list" where
  "keep_newest limitPerTicket counts [] = []"
| "keep_newest limitPerTicket counts (r # rs) =
     (let currentCount = nullish (map_of counts (au_targetId r)) 0
      in if limitPerTicket \<le> currentCount then keep_newest limitPerTicket counts rs
         else r # keep_newest limitPerTicket (AList.update (au_targetId r) (currentCount + 1) counts) rs)"

definition listTimelineEntries ::
  "(audit_row list \<Rightarrow> audit_row list) \<Rightarrow> string list \<Rightarrow> int \<Rightarrow> 'm support_db_scheme \<Rightarrow> audit_row list" where
  "listTimelineEntries tie supportTicketIds limitPerTicket s =
     (if supportTicketIds = [] then []
      else keep_newest limitPerTicket [] (sort_key (\<lambda>r. - au_createdAt r)
        (tie (filter (\<lambda>r. au_targetType r = ''support_ticket'' \<and> au_targetId r \<in> set supportTicketIds) (sc_audit s)))))"

definition listByUserId :: "(favorite_row list \<Rightarrow> favorite_row list) \<Rightarrow> string \<Rightarrow> 'm support_db_scheme \<Rightarrow> string list" where
  "listByUserId tie userId s =
     filter (\<lambda>k. k \<in> set supportTicketQueuePresets)
       (map fv_presetKey (sort_key fv_createdAt (tie (filter (\<lambda>f. fv_userId f = userId) (sp_favorites s)))))"

definition add_favorite :: "(nat \<Rightarrow> string) \<Rightarrow> int \<Rightarrow> string \<Rightarrow> string \<Rightarrow> ('m support_db_scheme, unit) op" where
  "add_favorite cuid now userId preset s =
     (if list_ex (\<lambda>f. fv_userId f = userId \<and> fv_presetKey f = preset) (sp_favorites s) then (s, Inr ())
      else if findUserById userId s = None then (s, Inl ForeignKeyViolation)
      else (s\<lparr>sp_favorites := sp_favorites s @ [\<lparr>fv_id = cuid (ad_next s), fv_userId = userId, fv_presetKey = preset, fv_createdAt = now\<rparr>],
              ad_next := Suc (ad_next s)\<rparr>, Inr ()))"

definition remove_favorite :: "string \<Rightarrow> string \<Rightarrow> ('m support_db_scheme, unit) op" where
  "remove_favorite userId preset =
     putS (\<lambda>s. s\<lparr>sp_favorites := filter (\<lambda>f. \<not> (fv_userId f = userId \<and> fv_presetKey f = preset)) (sp_favorites s)\<rparr>)"

definition setFavorite ::
  "(favorite_row list \<Rightarrow> favorite_row list) \<Rightarrow> (nat \<Rightarrow> string) \<Rightarrow> int \<Rightarrow> string \<Rightarrow> string \<Rightarrow> bool \<Rightarrow> ('m support_db_scheme, string list) op" where
  "setFavorite tie cuid now userId preset favorite =
     thenS (if favorite then add_favorite cuid now userId preset else remove_favorite userId preset)
       (getS (listByUserId tie userId))"

text \<open>The inserts into the audit and security tables (\<open>admin-log-write-path.ts\<close>).\<close>

record log_insert =
  li_actorId :: "string option"
  li_type :: string
  li_targetType :: string
  li_targetId :: string
  li_severity :: log_severity
  li_metadataJson :: json
  li_createdAt :: int

definition createAuditLogWithReadModel :: "(nat \<Rightarrow> string) \<Rightarrow> log_insert \<Rightarrow> ('m support_db_scheme, audit_row) op" where
  "createAuditLogWithReadModel cuid d s =
     (let r = \<lparr>au_id = cuid (ad_next s), au_action = li_type d, au_actorId = li_actorId d, au_targetType = li_targetType d,
               au_targetId = li_targetId d, au_metadataJson = Some (li_metadataJson d), au_createdAt = li_createdAt d\<rparr>
      in (s\<lparr>sc_audit := sc_audit s @ [r], ad_next := Suc (ad_next s)\<rparr>, Inr r))"

definition createSecurityEventWithReadModel :: "(nat \<Rightarrow> string) \<Rightarrow> log_insert \<Rightarrow> ('m support_db_scheme, event_row) op" where
  "createSecurityEventWithReadModel cuid d s =
     (let r = \<lparr>ev_id = cuid (ad_next s), ev_eventType = li_type d, ev_actorId = li_actorId d, ev_severity = Some (li_severity d),
               ev_json = Some (li_metadataJson d), ev_createdAt = li_createdAt d\<rparr>
      in (s\<lparr>sc_security := sc_security s @ [r], ad_next := Suc (ad_next s)\<rparr>, Inr r))"

text \<open>\<open>{ ...metadata, source, eventId, severity, status }\<close>: a later property replaces an earlier one in its place.\<close>

definition spread :: "json_object \<Rightarrow> json_object \<Rightarrow> json_object" where
  "spread base entries = fold (\<lambda>(k, v). AList.update k v) entries base"

definition buildMetadataJson :: "log_event \<Rightarrow> json" where
  "buildMetadataJson e = JObj (spread (nullish (le_metadata e) [])
     ([(''source'', JStr ''web''), (''eventId'', JStr (le_eventId e)), (''severity'', JStr (show_severity (le_severity e)))]
      @ (case le_status e of None \<Rightarrow> [] | Some v \<Rightarrow> [(''status'', JStr (show_status v))])))"

definition insert_of :: "string option \<Rightarrow> log_event \<Rightarrow> int \<Rightarrow> log_insert" where
  "insert_of actorId e at' =
     \<lparr>li_actorId = actorId, li_type = le_eventType e, li_targetType = le_targetType e, li_targetId = le_targetId e,
      li_severity = le_severity e, li_metadataJson = buildMetadataJson e, li_createdAt = at'\<rparr>"

section \<open>Entries of the queue\<close>

record support_actor =
  sa_id :: string
  sa_email :: string
  sa_displayName :: "string option"

record timeline_entry =
  te_id :: string
  te_eventType :: string
  te_summary :: string
  te_occurredAt :: string
  te_actor :: support_actor
  te_previousStatus :: "ticket_status option"
  te_nextStatus :: "ticket_status option"
  te_previousAssignee :: "support_actor option"
  te_nextAssignee :: "support_actor option"
  te_handoffNote :: "string option"

record ticket_entry =
  qe_id :: string
  qe_subject :: string
  qe_body :: string
  qe_status :: ticket_status
  qe_createdAt :: string
  qe_updatedAt :: string
  qe_requester :: support_actor
  qe_assignedTo :: "support_actor option"
  qe_workspace :: "workspace_row option"
  qe_handoffNote :: "string option"
  qe_timeline :: "timeline_entry list option"

definition string_of_field :: "json option \<Rightarrow> string option" where
  "string_of_field v = (case v of Some (JStr t) \<Rightarrow> Some t | _ \<Rightarrow> None)"

definition normalizeTimelineActor :: "string option \<Rightarrow> string option \<Rightarrow> string option \<Rightarrow> support_actor option" where
  "normalizeTimelineActor i email name =
     (if \<not> truthy i \<or> \<not> truthy email then None
      else Some \<lparr>sa_id = the i, sa_email = the email, sa_displayName = or_none name\<rparr>)"

definition actor_of_json :: "json option \<Rightarrow> support_actor option" where
  "actor_of_json v =
     (let es = toMetadata v
      in normalizeTimelineActor (string_of_field (field_of es ''id'')) (string_of_field (field_of es ''email''))
           (string_of_field (field_of es ''displayName'')))"

definition readTimelineMetadata :: "audit_row \<Rightarrow> json_object" where
  "readTimelineMetadata r = nullish (toMetadata (au_metadataJson r)) []"

definition normalizeTimelineStatus :: "string option \<Rightarrow> ticket_status option" where
  "normalizeTimelineStatus v = Option.bind v read_ticket_status"

definition mapSupportTicketTimelineRecordToEntry :: "audit_row \<Rightarrow> timeline_entry" where
  "mapSupportTicketTimelineRecordToEntry r =
     (let metadata = Some (readTimelineMetadata r);
          text = (\<lambda>k. string_of_field (field_of metadata k));
          i = nullish (au_actorId r) ''unknown-actor'';
          email = nullish (text ''actorEmail'') ''unknown@quizmind.dev'';
          actor = (case normalizeTimelineActor (Some i) (Some email) (text ''actorDisplayName'') of
            Some a \<Rightarrow> a | None \<Rightarrow> \<lparr>sa_id = i, sa_email = email, sa_displayName = None\<rparr>)
      in \<lparr>te_id = au_id r, te_eventType = au_action r, te_summary = nullish (text ''summary'') (au_action r),
          te_occurredAt = toISOString (au_createdAt r), te_actor = actor,
          te_previousStatus = normalizeTimelineStatus (text ''previousStatus''),
          te_nextStatus = normalizeTimelineStatus (text ''nextStatus''),
          te_previousAssignee = actor_of_json (field_of metadata ''previousAssignee''),
          te_nextAssignee = actor_of_json (field_of metadata ''nextAssignee''),
          te_handoffNote = or_none (text ''handoffNote'')\<rparr>)"

definition group_entry ::
  "audit_row \<Rightarrow> (string \<times> timeline_entry list) list \<Rightarrow> (string \<times> timeline_entry list) list" where
  "group_entry r grouped =
     AList.update (au_targetId r) (nullish (map_of grouped (au_targetId r)) [] @ [mapSupportTicketTimelineRecordToEntry r]) grouped"

definition groupSupportTicketTimelineEntries :: "audit_row list \<Rightarrow> (string \<times> timeline_entry list) list" where
  "groupSupportTicketTimelineEntries records = fold group_entry records []"

definition actor_of_user :: "user_row \<Rightarrow> support_actor" where
  "actor_of_user u = \<lparr>sa_id = us_id u, sa_email = us_email u, sa_displayName = or_none (us_displayName u)\<rparr>"

definition mapSupportTicketRecordToSnapshot :: "ticket_record \<Rightarrow> timeline_entry list option \<Rightarrow> ticket_entry" where
  "mapSupportTicketRecordToSnapshot r timeline =
     (let t = tr_ticket r
      in \<lparr>qe_id = tk_id t, qe_subject = tk_subject t, qe_body = tk_body t, qe_status = tk_status t,
          qe_createdAt = toISOString (tk_createdAt t), qe_updatedAt = toISOString (tk_updatedAt t),
          qe_requester = actor_of_user (tr_requester r), qe_assignedTo = map_option actor_of_user (tr_assignedTo r),
          qe_workspace = tr_workspace r, qe_handoffNote = or_none (tk_handoffNote t),
          qe_timeline = (if nullish timeline [] = [] then None else timeline)\<rparr>)"

text \<open>The same filters on entries in memory.\<close>

definition matchesSupportTicketSearch :: "ticket_entry \<Rightarrow> string \<Rightarrow> bool" where
  "matchesSupportTicketSearch t search =
     str_includes (search_text [Some (qe_subject t), Some (qe_body t), Some (sa_email (qe_requester t)), sa_displayName (qe_requester t),
       map_option ws_name (qe_workspace t), map_option ws_slug (qe_workspace t), map_option sa_email (qe_assignedTo t),
       Option.bind (qe_assignedTo t) sa_displayName, qe_handoffNote t]) (toLowerCase search)"

definition owned_as :: "string \<Rightarrow> string option \<Rightarrow> ticket_entry \<Rightarrow> bool" where
  "owned_as ownership currentUserId t =
     (if ownership = ''mine'' then truthy currentUserId \<and> map_option sa_id (qe_assignedTo t) = currentUserId
      else if ownership = ''unassigned'' then qe_assignedTo t = None
      else True)"

definition filterSupportTicketQueueEntries :: "ticket_entry list \<Rightarrow> ticket_filters \<Rightarrow> string option \<Rightarrow> ticket_entry list" where
  "filterSupportTicketQueueEntries items filters currentUserId =
     map (\<lambda>t. t\<lparr>qe_timeline := map_option (take (nat (tf_timelineLimit filters))) (qe_timeline t)\<rparr>)
       (take (nat (tf_limit filters))
         (filter (\<lambda>t. truthy (tf_search filters) \<longrightarrow> matchesSupportTicketSearch t (the (tf_search filters)))
           (filter (owned_as (tf_ownership filters) currentUserId)
             (filter (\<lambda>t. case resolveSupportTicketStatuses (tf_status filters) of None \<Rightarrow> True | Some sts \<Rightarrow> qe_status t \<in> set sts)
               items))))"

section \<open>Listing the queue and the favourite presets\<close>

record ticket_queue =
  tqs_personaKey :: string
  tqs_accessDecision :: access_decision
  tqs_items :: "ticket_entry list"
  tqs_permissions :: "string list"
  tqs_filters :: ticket_filters
  tqs_favoritePresets :: "string list"

definition ticket_query_of :: "current_session \<Rightarrow> ticket_filters \<Rightarrow> ticket_query" where
  "ticket_query_of session filters =
     \<lparr>tl_statuses = resolveSupportTicketStatuses (tf_status filters),
      tl_assignedToUserId = (if tf_ownership filters = ''mine'' then Some (cs_user_id session) else None),
      tl_unassignedOnly = (tf_ownership filters = ''unassigned''), tl_search = tf_search filters, tl_limit = Some (tf_limit filters)\<rparr>"

text \<open>The three orders the database leaves open: of tickets, audit rows and favourites of the same instant.\<close>

record tie_orders =
  ti_tickets :: "ticket_row list \<Rightarrow> ticket_row list"
  ti_audit :: "audit_row list \<Rightarrow> audit_row list"
  ti_favorites :: "favorite_row list \<Rightarrow> favorite_row list"
  ti_impersonations :: "impersonation_row list \<Rightarrow> impersonation_row list"

definition listSupportTicketsForCurrentSession ::
  "log_host \<Rightarrow> tie_orders \<Rightarrow> current_session \<Rightarrow> raw_ticket_filters \<Rightarrow> 'm support_db_scheme \<Rightarrow> ticket_queue result" where
  "listSupportTicketsForCurrentSession h tie session raw s =
     bindR (requireDecision (canReadSupportTickets (cs_principal session))) (\<lambda>_.
       let filters = normalizeSupportTicketQueueFilters raw;
           items = listRecentTickets h (ti_tickets tie) (ticket_query_of session filters) s;
           favorites = listByUserId (ti_favorites tie) (cs_user_id session) s;
           timelineByTicketId = groupSupportTicketTimelineEntries
             (listTimelineEntries (ti_audit tie) (map (\<lambda>r. tk_id (tr_ticket r)) items) (tf_timelineLimit filters) s)
       in Inr \<lparr>tqs_personaKey = ''connected-user'', tqs_accessDecision = canReadSupportTickets (cs_principal session),
               tqs_items = map (\<lambda>r. mapSupportTicketRecordToSnapshot r (map_of timelineByTicketId (tk_id (tr_ticket r)))) items,
               tqs_permissions = cs_permissions session, tqs_filters = filters, tqs_favoritePresets = favorites\<rparr>)"

record favorite_result =
  fr_preset :: string
  fr_favorite :: json
  fr_favorites :: "string list"

definition updateSupportTicketPresetFavoriteForCurrentSession ::
  "tie_orders \<Rightarrow> (nat \<Rightarrow> string) \<Rightarrow> int \<Rightarrow> current_session \<Rightarrow> json_object option \<Rightarrow> ('m support_db_scheme, favorite_result) op" where
  "updateSupportTicketPresetFavoriteForCurrentSession tie cuid now session request =
     thenS (liftS (requireDecision (canReadSupportTickets (cs_principal session))))
     (bindS (liftS (trim_field (nullish request []) ''preset'')) (\<lambda>v.
        case Option.bind v or_undefined of
          None \<Rightarrow> throwS (BadRequest ''A valid support ticket queue preset is required.'')
        | Some preset \<Rightarrow>
            if preset \<notin> set supportTicketQueuePresets then throwS (BadRequest ''A valid support ticket queue preset is required.'')
            else let favorite = (case field_of request ''favorite'' of None \<Rightarrow> JBool True | Some JNull \<Rightarrow> JBool True | Some w \<Rightarrow> w)
              in bindS (setFavorite (ti_favorites tie) cuid now (cs_user_id session) preset (json_truthy favorite)) (\<lambda>favorites.
                   retS \<lparr>fr_preset = preset, fr_favorite = favorite, fr_favorites = favorites\<rparr>)))"

section \<open>The workflow of a ticket\<close>

text \<open>A display name is absent, null or a text.\<close>

record timeline_actor =
  ta_id :: string
  ta_email :: string
  ta_displayName :: "string option option"

definition actor_label :: "timeline_actor \<Rightarrow> string" where
  "actor_label a = (let name = Option.bind (ta_displayName a) (\<lambda>d. d) in if truthy name then the name else ta_email a)"

text \<open>\<open>replace('_', ' ')\<close>: the first occurrence.\<close>

fun replace_underscore :: "string \<Rightarrow> string" where
  "replace_underscore [] = []"
| "replace_underscore (c # cs) = (if c = CHR ''_'' then CHR '' '' # cs else c # replace_underscore cs)"

record workflow_change =
  wc_previousStatus :: string
  wc_nextStatus :: string
  wc_previousAssignee :: "timeline_actor option"
  wc_nextAssignee :: "timeline_actor option"
  wc_previousHandoffNote :: "string option"
  wc_nextHandoffNote :: "string option"

definition buildSupportTicketTimelineSummary :: "workflow_change \<Rightarrow> string" where
  "buildSupportTicketTimelineSummary c =
     (let changes =
        (if map_option ta_id (wc_previousAssignee c) = map_option ta_id (wc_nextAssignee c) then []
         else [case wc_nextAssignee c of None \<Rightarrow> ''returned the ticket to the shared queue''
               | Some a \<Rightarrow> (if wc_previousAssignee c = None then ''assigned'' else ''reassigned'') @ '' the ticket to '' @ actor_label a])
        @ (if wc_previousStatus c = wc_nextStatus c then []
           else [''changed status from '' @ replace_underscore (wc_previousStatus c) @ '' to '' @ replace_underscore (wc_nextStatus c)])
        @ (if wc_previousHandoffNote c = wc_nextHandoffNote c then []
           else [if truthy (wc_nextHandoffNote c) then ''updated the handoff note'' else ''cleared the handoff note''])
      in if changes = [] then ''reviewed the ticket workflow'' else join ''; '' changes)"

definition actor_json :: "timeline_actor option \<Rightarrow> json" where
  "actor_json v = (case v of None \<Rightarrow> JNull
     | Some a \<Rightarrow> JObj ([(''id'', JStr (ta_id a)), (''email'', JStr (ta_email a))]
         @ (case ta_displayName a of None \<Rightarrow> [] | Some d \<Rightarrow> [(''displayName'', jnull_or d)])))"

definition optional_text :: "string \<Rightarrow> string option \<Rightarrow> json_object" where
  "optional_text key v = (if truthy v then [(key, JStr (the v))] else [])"

definition createSupportTicketWorkflowAuditLog :: "int \<Rightarrow> string \<Rightarrow> string \<Rightarrow> timeline_actor \<Rightarrow> workflow_change \<Rightarrow> log_event" where
  "createSupportTicketWorkflowAuditLog now supportTicketId ticketSubject actor c = createAuditLogEvent
     \<lparr>le_eventId = ''support-ticket:'' @ supportTicketId @ '':'' @ toISOString now, le_eventType = ''support.ticket_workflow_updated'',
      le_actorId = ta_id actor, le_actorType = SubjectUser, le_targetType = ''support_ticket'', le_targetId = supportTicketId,
      le_occurredAt = toISOString now,
      le_metadata = Some ([(''summary'', JStr (buildSupportTicketTimelineSummary c)), (''ticketSubject'', JStr ticketSubject),
          (''actorEmail'', JStr (ta_email actor))]
        @ optional_text ''actorDisplayName'' (Option.bind (ta_displayName actor) (\<lambda>d. d))
        @ [(''previousStatus'', JStr (wc_previousStatus c)), (''nextStatus'', JStr (wc_nextStatus c)),
           (''previousAssignee'', actor_json (wc_previousAssignee c)), (''nextAssignee'', actor_json (wc_nextAssignee c))]
        @ optional_text ''handoffNote'' (wc_nextHandoffNote c)),
      le_category = CatAudit, le_severity = SevInfo, le_status = Some StatusSuccess\<rparr>"

text \<open>The columns an update writes; one without columns leaves the row and its time of update alone.\<close>

record ticket_columns =
  tc_status :: "string option"
  tc_assignedToId :: "string option option"
  tc_handoffNote :: "string option option"

definition write_columns :: "int \<Rightarrow> ticket_columns \<Rightarrow> ticket_row \<Rightarrow> ticket_row" where
  "write_columns now d t =
     (if tc_status d = None \<and> tc_assignedToId d = None \<and> tc_handoffNote d = None then t
      else t\<lparr>tk_status := (case Option.bind (tc_status d) read_ticket_status of Some v \<Rightarrow> v | None \<Rightarrow> tk_status t),
             tk_assignedToId := nullish (tc_assignedToId d) (tk_assignedToId t),
             tk_handoffNote := nullish (tc_handoffNote d) (tk_handoffNote t), tk_updatedAt := now\<rparr>)"

definition update_ticket :: "int \<Rightarrow> string \<Rightarrow> ticket_columns \<Rightarrow> ('m support_db_scheme, ticket_record) op" where
  "update_ticket now i d s =
     (if (case tc_status d of None \<Rightarrow> False | Some v \<Rightarrow> read_ticket_status v = None) then (s, Inl InvalidValue)
      else if (case tc_assignedToId d of Some (Some u) \<Rightarrow> findUserById u s = None | _ \<Rightarrow> False) then (s, Inl ForeignKeyViolation)
      else let s' = s\<lparr>sp_tickets := map (\<lambda>t. if tk_id t = i then write_columns now d t else t) (sp_tickets s)\<rparr>
        in case findTicketById i s' of None \<Rightarrow> (s, Inl RecordNotFound) | Some r \<Rightarrow> (s', Inr r))"

definition date_column :: "log_host \<Rightarrow> string \<Rightarrow> int result" where
  "date_column h v = (case date_parse (lh_date h) v of None \<Rightarrow> Inl InvalidValue | Some t \<Rightarrow> Inr t)"

definition write_workflow ::
  "log_host \<Rightarrow> (nat \<Rightarrow> string) \<Rightarrow> int \<Rightarrow> string \<Rightarrow> ticket_columns \<Rightarrow> log_event \<Rightarrow> ('m support_db_scheme, ticket_record \<times> audit_row) op" where
  "write_workflow h cuid now i d e = transaction
     (bindS (update_ticket now i d) (\<lambda>updatedTicket.
      bindS (liftS (date_column h (le_occurredAt e))) (\<lambda>at'.
      bindS (createAuditLogWithReadModel cuid (insert_of (Some (le_actorId e)) e at')) (\<lambda>auditRow.
      retS (updatedTicket, auditRow)))))"

definition updateWorkflow ::
  "log_host \<Rightarrow> bool \<Rightarrow> (admin_log_data \<Rightarrow> bool) \<Rightarrow> (nat \<Rightarrow> string) \<Rightarrow> int \<Rightarrow> string \<Rightarrow> ticket_columns \<Rightarrow> log_event
     \<Rightarrow> ('m support_db_scheme, ticket_record) op" where
  "updateWorkflow h up fails cuid now i d e =
     bindS (write_workflow h cuid now i d e) (\<lambda>(updatedTicket, auditRow).
     thenS (upsertAdminLogEventsBestEffort up fails cuid [buildReadModelFromAuditRow auditRow])
     (retS updatedTicket))"

text \<open>A field that the request may set to nothing: absent, or the trimmed text if there is one.\<close>

definition nullable_text :: "json_object \<Rightarrow> string \<Rightarrow> string option option result" where
  "nullable_text raw key =
     (if map_of raw key = None then Inr None
      else bindR (trim_field raw key) (\<lambda>v. Inr (Some (Option.bind v or_undefined))))"

definition timeline_actor_of_user :: "user_row \<Rightarrow> timeline_actor" where
  "timeline_actor_of_user u = \<lparr>ta_id = us_id u, ta_email = us_email u, ta_displayName = Some (us_displayName u)\<rparr>"

definition timeline_actor_of_session :: "current_session \<Rightarrow> timeline_actor" where
  "timeline_actor_of_session session =
     \<lparr>ta_id = cs_user_id session, ta_email = cs_user_email session, ta_displayName = map_option Some (cs_user_displayName session)\<rparr>"

definition next_assignee :: "current_session \<Rightarrow> user_row option \<Rightarrow> string option option \<Rightarrow> timeline_actor option" where
  "next_assignee session assignedTo effective = (case effective of
     None \<Rightarrow> map_option timeline_actor_of_user assignedTo
   | Some None \<Rightarrow> None
   | Some (Some i) \<Rightarrow>
       if map_option us_id assignedTo = Some i then map_option timeline_actor_of_user assignedTo
       else if i = cs_user_id session then Some (timeline_actor_of_session session)
       else Some \<lparr>ta_id = i, ta_email = ''unknown@quizmind.dev'', ta_displayName = None\<rparr>)"

text \<open>The next status as the summary sees it: the current one when the request names none, and only a string has \<open>replace\<close>.\<close>

definition next_status :: "json option \<Rightarrow> string \<Rightarrow> string result" where
  "next_status v current = (case v of
     None \<Rightarrow> Inr current
   | Some JNull \<Rightarrow> Inr current
   | Some (JStr t) \<Rightarrow> Inr t
   | Some _ \<Rightarrow> Inl (JsError ''replace is not a function''))"

text \<open>A ticket that is taken into progress without an owner goes to the caller.\<close>

definition effective_assignee :: "current_session \<Rightarrow> user_row option \<Rightarrow> json option \<Rightarrow> string option option \<Rightarrow> string option option" where
  "effective_assignee session assignedTo status assigned =
     (if assigned = None \<and> status = Some (JStr ''in_progress'') \<and> assignedTo = None then Some (Some (cs_user_id session)) else assigned)"

definition change_of ::
  "current_session \<Rightarrow> ticket_record \<Rightarrow> string \<Rightarrow> string option option \<Rightarrow> string option option \<Rightarrow> workflow_change" where
  "change_of session existing status effective note =
     \<lparr>wc_previousStatus = show_ticket_status (tk_status (tr_ticket existing)), wc_nextStatus = status,
      wc_previousAssignee = map_option timeline_actor_of_user (tr_assignedTo existing),
      wc_nextAssignee = next_assignee session (tr_assignedTo existing) effective,
      wc_previousHandoffNote = tk_handoffNote (tr_ticket existing),
      wc_nextHandoffNote = nullish note (tk_handoffNote (tr_ticket existing))\<rparr>"

definition columns_of :: "json option \<Rightarrow> string option option \<Rightarrow> string option option \<Rightarrow> ticket_columns" where
  "columns_of status effective note =
     \<lparr>tc_status = or_none (string_of_field status), tc_assignedToId = effective, tc_handoffNote = note\<rparr>"

definition apply_workflow ::
  "log_host \<Rightarrow> tie_orders \<Rightarrow> bool \<Rightarrow> (admin_log_data \<Rightarrow> bool) \<Rightarrow> (nat \<Rightarrow> string) \<Rightarrow> int \<Rightarrow> current_session \<Rightarrow> string \<Rightarrow> ticket_record
     \<Rightarrow> json option \<Rightarrow> string option option \<Rightarrow> string option option \<Rightarrow> ('m support_db_scheme, ticket_entry) op" where
  "apply_workflow h tie up fails cuid now session supportTicketId existing status effective note =
     bindS (liftS (next_status status (show_ticket_status (tk_status (tr_ticket existing))))) (\<lambda>nextStatus.
     bindS (updateWorkflow h up fails cuid now supportTicketId (columns_of status effective note)
       (createSupportTicketWorkflowAuditLog now supportTicketId (tk_subject (tr_ticket existing)) (timeline_actor_of_session session)
         (change_of session existing nextStatus effective note))) (\<lambda>updatedTicket.
     let i = tk_id (tr_ticket updatedTicket) in
     bindS (getS (listTimelineEntries (ti_audit tie) [i] 4)) (\<lambda>records.
     retS (mapSupportTicketRecordToSnapshot updatedTicket (map_of (groupSupportTicketTimelineEntries records) i)))))"

definition updateSupportTicketForCurrentSession ::
  "log_host \<Rightarrow> tie_orders \<Rightarrow> bool \<Rightarrow> (admin_log_data \<Rightarrow> bool) \<Rightarrow> (nat \<Rightarrow> string) \<Rightarrow> int \<Rightarrow> current_session \<Rightarrow> json_object option
     \<Rightarrow> ('m support_db_scheme, ticket_entry) op" where
  "updateSupportTicketForCurrentSession h tie up fails cuid now session request =
     thenS (liftS (requireDecision (canReadSupportTickets (cs_principal session))))
     (let raw = nullish request []; status = map_of raw ''status'' in
      bindS (liftS (trim_field raw ''supportTicketId'')) (\<lambda>v.
      case Option.bind v or_undefined of
        None \<Rightarrow> throwS (BadRequest ''Support ticket is required.'')
      | Some supportTicketId \<Rightarrow>
          bindS (getS (findTicketById supportTicketId)) (\<lambda>found.
          case found of
            None \<Rightarrow> throwS (NotFound ''Support ticket not found.'')
          | Some existingTicket \<Rightarrow>
              bindS (liftS (nullable_text raw ''assignedToUserId'')) (\<lambda>assigned.
              bindS (liftS (nullable_text raw ''handoffNote'')) (\<lambda>note.
              let effective = effective_assignee session (tr_assignedTo existingTicket) status assigned in
              if status = None \<and> effective = None \<and> note = None then retS (mapSupportTicketRecordToSnapshot existingTicket None)
              else rethrow ForeignKeyViolation (NotFound ''Assigned support operator not found for support ticket ownership.'')
                (rethrow RecordNotFound (NotFound ''Support ticket not found.'')
                  (apply_workflow h tie up fails cuid now session supportTicketId existingTicket status effective note)))))))"

section \<open>Timelines\<close>

text \<open>The first \<open>n\<close> of the rows in an order that rises along \<open>key\<close>.\<close>

definition is_top :: "('a \<Rightarrow> 'k::linorder) \<Rightarrow> nat \<Rightarrow> 'a list \<Rightarrow> 'a list \<Rightarrow> bool" where
  "is_top key n rows page \<longleftrightarrow>
     (\<exists>rest. mset (page @ rest) = mset rows \<and> sorted (map key (page @ rest)) \<and> length page = min n (length rows))"

lemma is_top_take: "mset rows' = mset rows \<Longrightarrow> is_top key n rows (take n (sort_key key rows'))"
proof -
  assume same: "mset rows' = mset rows"
  then have "length rows' = length rows" by (rule mset_eq_length)
  then show ?thesis
    unfolding is_top_def by (intro exI [of _ "drop n (sort_key key rows')"]) (simp add: same min.commute)
qed

lemma keep_newest_of:
  "filter (\<lambda>r. au_targetId r = i) (keep_newest n counts rs)
     = take (nat (n - nullish (map_of counts i) 0)) (filter (\<lambda>r. au_targetId r = i) rs)"
proof (induction rs arbitrary: counts)
  case (Cons r rs)
  let ?c = "nullish (map_of counts (au_targetId r)) 0"
  have step: "nat (n - ?c) = Suc (nat (n - (?c + 1)))" if "\<not> n \<le> ?c" using that by arith
  show ?case
    by (cases "n \<le> ?c"; cases "au_targetId r = i")
      (auto simp: Let_def Cons.IH step update_conv')
qed simp

lemma group_of:
  "map_of (fold group_entry rs g) i =
     (if filter (\<lambda>r. au_targetId r = i) rs = [] then map_of g i
      else Some (nullish (map_of g i) [] @ map mapSupportTicketTimelineRecordToEntry (filter (\<lambda>r. au_targetId r = i) rs)))"
  by (induction rs arbitrary: g) (auto simp: group_entry_def update_conv' nullish_def)

definition same_rows :: "('a list \<Rightarrow> 'a list) \<Rightarrow> bool" where
  "same_rows tie \<longleftrightarrow> (\<forall>xs. mset (tie xs) = mset xs)"

definition ticket_audit :: "string \<Rightarrow> 'm support_db_scheme \<Rightarrow> audit_row list" where
  "ticket_audit i s = filter (\<lambda>r. au_targetType r = ''support_ticket'' \<and> au_targetId r = i) (sc_audit s)"

lemma timeline_of:
  assumes "same_rows tie" and "i \<in> set ids"
  shows "\<exists>rows. is_top (\<lambda>r. - au_createdAt r) (nat n) (ticket_audit i s) rows
    \<and> map_of (groupSupportTicketTimelineEntries (listTimelineEntries tie ids n s)) i
      = (if rows = [] then None else Some (map mapSupportTicketTimelineRecordToEntry rows))"
proof -
  let ?all = "filter (\<lambda>r. au_targetType r = ''support_ticket'' \<and> au_targetId r \<in> set ids) (sc_audit s)"
  let ?rows = "filter (\<lambda>r. au_targetId r = i) (tie ?all)"
  have "mset ?rows = mset (filter (\<lambda>r. au_targetId r = i) ?all)"
    using assms(1) by (simp add: same_rows_def del: filter_filter)
  also have "filter (\<lambda>r. au_targetId r = i) ?all = ticket_audit i s"
    unfolding ticket_audit_def filter_filter by (rule filter_cong) (use assms(2) in auto)
  finally have "is_top (\<lambda>r. - au_createdAt r) (nat n) (ticket_audit i s) (take (nat n) (sort_key (\<lambda>r. - au_createdAt r) ?rows))"
    by (rule is_top_take)
  moreover have "ids \<noteq> []" using assms(2) by auto
  ultimately show ?thesis
    by (intro exI [of _ "take (nat n) (sort_key (\<lambda>r. - au_createdAt r) ?rows)"])
      (simp add: groupSupportTicketTimelineEntries_def group_of listTimelineEntries_def keep_newest_of filter_sort nullish_def)
qed

section \<open>Filters\<close>

text \<open>The filters as a client sends them back.\<close>

definition raw_of_filters :: "ticket_filters \<Rightarrow> raw_ticket_filters" where
  "raw_of_filters f =
     \<lparr>tq_preset = tf_preset f, tq_status = Some (tf_status f), tq_ownership = Some (tf_ownership f), tq_search = tf_search f,
      tq_limit = Some (Fin (of_int (tf_limit f))), tq_timelineLimit = Some (Fin (of_int (tf_timelineLimit f)))\<rparr>"

definition sound_filters :: "ticket_filters \<Rightarrow> bool" where
  "sound_filters f \<longleftrightarrow> tf_status f \<in> set supportTicketStatusFilters \<and> tf_ownership f \<in> set supportTicketOwnershipFilters
     \<and> trimmed (tf_search f) = tf_search f \<and> 1 \<le> tf_limit f \<and> tf_limit f \<le> 24 \<and> 1 \<le> tf_timelineLimit f \<and> tf_timelineLimit f \<le> 12"

lemma clamp_bounds: "low \<le> fallback \<Longrightarrow> fallback \<le> high \<Longrightarrow> low \<le> clampInteger v fallback low high \<and> clampInteger v fallback low high \<le> high"
  by (auto simp: clampInteger_def split: option.split jsnum.split)

lemma clamp_same: "low \<le> n \<Longrightarrow> n \<le> high \<Longrightarrow> clampInteger (Some (Fin (of_int n))) fallback low high = n"
  by (simp add: clampInteger_def trunc_num_def)

lemma one_of_or_in: "fallback \<in> set values \<Longrightarrow> one_of_or values v fallback \<in> set values"
  by (auto simp: one_of_or_def split: option.split)

lemma one_of_or_same: "x \<in> set values \<Longrightarrow> [] \<notin> set values \<Longrightarrow> one_of_or values (Some x) fallback = x"
  by (auto simp: one_of_or_def)

lemma trimmed_twice [simp]: "trimmed (trimmed v) = trimmed v"
  by (cases v) (simp_all add: trimmed_def or_undefined_def)

lemma preset_sound: "map_of supportTicketQueuePresetDefinitions p = Some f \<Longrightarrow> sound_filters f \<and> tf_preset f = None"
  by (auto simp: supportTicketQueuePresetDefinitions_def sound_filters_def preset_filters_def supportTicketStatusFilters_def
    supportTicketOwnershipFilters_def trimmed_def split: if_splits)

lemma base_sound:
  "sound_filters (case Option.bind v (\<lambda>p. map_option (Pair p) (map_of supportTicketQueuePresetDefinitions p)) of
     Some (_, f) \<Rightarrow> f | None \<Rightarrow> defaultSupportTicketQueueFilters)"
  by (auto simp: preset_sound bind_eq_Some_conv split: option.split)
    (simp add: defaultSupportTicketQueueFilters_def sound_filters_def preset_filters_def supportTicketStatusFilters_def
      supportTicketOwnershipFilters_def trimmed_def)

lemma normalize_sound: "sound_filters (normalizeSupportTicketQueueFilters raw)"
  using base_sound [of "tq_preset raw"]
  by (simp add: normalizeSupportTicketQueueFilters_def Let_def sound_filters_def one_of_or_in clamp_bounds)

lemma normalize_sound_again:
  assumes "sound_filters f" and "tf_preset f = None \<or> (\<exists>key. tf_preset f = Some key
    \<and> map_of supportTicketQueuePresetDefinitions key = Some (f\<lparr>tf_preset := None\<rparr>))"
  shows "normalizeSupportTicketQueueFilters (raw_of_filters f) = f"
proof -
  have known: "[] \<notin> set supportTicketStatusFilters" "[] \<notin> set supportTicketOwnershipFilters"
    by (simp_all add: supportTicketStatusFilters_def supportTicketOwnershipFilters_def)
  show ?thesis
    using assms by (cases f) (auto simp: normalizeSupportTicketQueueFilters_def Let_def raw_of_filters_def sound_filters_def
      one_of_or_same known clamp_same)
qed

lemma normalize_preset:
  fixes raw :: raw_ticket_filters
  defines "f \<equiv> normalizeSupportTicketQueueFilters raw"
  shows "tf_preset f = None \<or> (\<exists>key. tf_preset f = Some key
    \<and> map_of supportTicketQueuePresetDefinitions key = Some (f\<lparr>tf_preset := None\<rparr>))"
  unfolding f_def by (auto simp: normalizeSupportTicketQueueFilters_def Let_def bind_eq_Some_conv split: option.split)

text \<open>
  The filters the queue answers with stay as they are when a client sends them back, name a preset only if
  they are the ones of the preset, and keep the page between 1 and 24 tickets and the timelines between 1
  and 12 entries.
\<close>

theorem ticket_filters_stable:
  "normalizeSupportTicketQueueFilters (raw_of_filters (normalizeSupportTicketQueueFilters raw)) = normalizeSupportTicketQueueFilters raw
    \<and> tf_limit (normalizeSupportTicketQueueFilters raw) \<in> {1..24}
    \<and> tf_timelineLimit (normalizeSupportTicketQueueFilters raw) \<in> {1..12}
    \<and> (case tf_preset (normalizeSupportTicketQueueFilters raw) of None \<Rightarrow> True
       | Some key \<Rightarrow> map_of supportTicketQueuePresetDefinitions key
           = Some ((normalizeSupportTicketQueueFilters raw)\<lparr>tf_preset := None\<rparr>))"
  using normalize_sound_again [OF normalize_sound normalize_preset, of raw] normalize_sound [of raw] normalize_preset [of raw]
  by (auto simp: sound_filters_def split: option.split)

section \<open>The queue\<close>

lemma map_filter_total: "(\<And>x. x \<in> set xs \<Longrightarrow> f x = Some (the (f x))) \<Longrightarrow> List.map_filter f xs = map (\<lambda>x. the (f x)) xs"
  by (induction xs) (auto simp: List.map_filter_def)

text \<open>An entry shows a ticket with its newest timeline rows.\<close>

definition shows_ticket :: "'m support_db_scheme \<Rightarrow> int \<Rightarrow> ticket_row \<Rightarrow> ticket_entry \<Rightarrow> bool" where
  "shows_ticket s limit t e \<longleftrightarrow> qe_id e = tk_id t \<and> qe_status e = tk_status t \<and> qe_subject e = tk_subject t
     \<and> map_option sa_id (qe_assignedTo e) = Option.bind (tk_assignedToId t) (\<lambda>i. map_option us_id (findUserById i s))
     \<and> (\<exists>rows. is_top (\<lambda>r. - au_createdAt r) (nat limit) (ticket_audit (tk_id t) s) rows
          \<and> qe_timeline e = (if rows = [] then None else Some (map mapSupportTicketTimelineRecordToEntry rows)))"

lemma entry_shows:
  assumes "same_rows tie" and "tk_id t \<in> set ids" and "include_ticket s t = Some r"
  shows "shows_ticket s n t (mapSupportTicketRecordToSnapshot r (map_of (groupSupportTicketTimelineEntries (listTimelineEntries tie ids n s)) (tk_id t)))"
proof -
  obtain rows where rows: "is_top (\<lambda>r. - au_createdAt r) (nat n) (ticket_audit (tk_id t) s) rows"
    "map_of (groupSupportTicketTimelineEntries (listTimelineEntries tie ids n s)) (tk_id t)
      = (if rows = [] then None else Some (map mapSupportTicketTimelineRecordToEntry rows))"
    using timeline_of [OF assms(1,2)] by blast
  have "tr_ticket r = t" "map_option us_id (tr_assignedTo r) = Option.bind (tk_assignedToId t) (\<lambda>i. map_option us_id (findUserById i s))"
    using assms(3) by (cases "tk_assignedToId t"; auto simp: include_ticket_def)+
  then show ?thesis
    unfolding shows_ticket_def rows(2)
    by (intro conjI exI [of _ rows] rows(1))
      (simp_all add: mapSupportTicketRecordToSnapshot_def Let_def option.map_comp comp_def actor_of_user_def)
qed

text \<open>
  C32. The queue lists the most recently updated tickets among those that meet the filters, as many as the
  limit allows, each with its newest timeline rows, again up to the limit.
\<close>

theorem queue_lists_newest:
  assumes "same_rows (ti_tickets tie)" and "same_rows (ti_audit tie)"
    and "\<forall>t \<in> set (sp_tickets s). findUserById (tk_requesterId t) s \<noteq> None"
    and "listSupportTicketsForCurrentSession h tie session raw s = Inr queue"
  defines "f \<equiv> normalizeSupportTicketQueueFilters raw"
  shows "\<exists>page. is_top (\<lambda>t. (- tk_updatedAt t, - tk_createdAt t)) (nat (tf_limit f))
        (filter (ticket_where h (ticket_query_of session f) s) (sp_tickets s)) page
    \<and> list_all2 (shows_ticket s (tf_timelineLimit f)) page (tqs_items queue)"
proof -
  let ?rows = "filter (ticket_where h (ticket_query_of session f) s) (sp_tickets s)"
  let ?page = "take (nat (tf_limit f)) (sort_key (\<lambda>t. (- tk_updatedAt t, - tk_createdAt t)) (ti_tickets tie ?rows))"
  have same: "mset (ti_tickets tie ?rows) = mset ?rows" using assms(1) by (simp add: same_rows_def)
  have found: "include_ticket s t = Some (the (include_ticket s t))" if "t \<in> set ?page" for t
    using in_set_takeD [OF that] mset_eq_setD [OF same] assms(3) by (auto simp: include_ticket_def)
  let ?records = "map (\<lambda>t. the (include_ticket s t)) ?page"
  let ?times = "groupSupportTicketTimelineEntries (listTimelineEntries (ti_audit tie) (map (\<lambda>r. tk_id (tr_ticket r)) ?records) (tf_timelineLimit f) s)"
  have items: "tqs_items queue = map (\<lambda>r. mapSupportTicketRecordToSnapshot r (map_of ?times (tk_id (tr_ticket r)))) ?records"
    using assms(4) by (auto simp: listSupportTicketsForCurrentSession_def Let_def f_def listRecentTickets_def ticket_query_of_def
      map_filter_total [OF found, unfolded f_def ticket_query_of_def])
  have own: "tr_ticket (the (include_ticket s t)) = t" if "t \<in> set ?page" for t
    using found [OF that] by (auto simp: include_ticket_def)
  have ids: "map (\<lambda>r. tk_id (tr_ticket r)) ?records = map tk_id ?page" unfolding map_map comp_def by (rule map_cong) (simp_all add: own)
  have "shows_ticket s (tf_timelineLimit f) t
      (mapSupportTicketRecordToSnapshot (the (include_ticket s t)) (map_of ?times (tk_id (tr_ticket (the (include_ticket s t))))))"
    if "t \<in> set ?page" for t
    unfolding own [OF that] ids by (rule entry_shows [OF assms(2) _ found [OF that]]) (use that in simp)
  then have "list_all2 (shows_ticket s (tf_timelineLimit f)) ?page (tqs_items queue)"
    unfolding items map_map list.rel_map by (intro list.rel_refl_strong) (simp add: comp_def)
  then show ?thesis using is_top_take [OF same] by blast
qed

section \<open>Updating a ticket\<close>

text \<open>The tables of the support service; what is left out is the log, which is derived from them.\<close>

definition support_view ::
  "'m support_db_scheme \<Rightarrow> user_row list \<times> audit_row list \<times> event_row list \<times> workspace_row list \<times> ticket_row list
     \<times> favorite_row list \<times> impersonation_row list" where
  "support_view s = (ad_users s, sc_audit s, sc_security s, sp_workspaces s, sp_tickets s, sp_favorites s, sp_impersonations s)"

lemma write_event_view [simp]: "support_view (write_event fails cuid directory d s) = support_view s"
  by (simp add: support_view_def write_event_def upsert_log_row_def)

lemma fold_write_view [simp]: "support_view (fold (write_event fails cuid directory) ds s) = support_view s"
  by (induction ds arbitrary: s) simp_all

lemma upsert_log_view:
  "upsertAdminLogEventsBestEffort up fails cuid ds s = (s', r) \<Longrightarrow> support_view s' = support_view s \<and> (up \<longrightarrow> r = Inr ())"
  by (auto simp: upsertAdminLogEventsBestEffort_def resolveActorIdentities_def Let_def split: sum.splits if_splits)

lemma find_ticket_id: "findTicketById i s = Some r \<Longrightarrow> tk_id (tr_ticket r) = i \<and> tr_ticket r \<in> set (sp_tickets s)"
  by (auto simp: findTicketById_def bind_eq_Some_conv include_ticket_def find_Some_iff)

definition audit_of :: "string \<Rightarrow> string option \<Rightarrow> log_event \<Rightarrow> int \<Rightarrow> audit_row" where
  "audit_of i actor e at' = \<lparr>au_id = i, au_action = le_eventType e, au_actorId = actor, au_targetType = le_targetType e,
     au_targetId = le_targetId e, au_metadataJson = Some (buildMetadataJson e), au_createdAt = at'\<rparr>"

lemma create_audit: "createAuditLogWithReadModel cuid (insert_of actor e at') s
   = (s\<lparr>sc_audit := sc_audit s @ [audit_of (cuid (ad_next s)) actor e at'], ad_next := Suc (ad_next s)\<rparr>,
      Inr (audit_of (cuid (ad_next s)) actor e at'))"
  by (simp add: createAuditLogWithReadModel_def insert_of_def audit_of_def Let_def)

lemma update_ticket_cases:
  "update_ticket now i d s = (s', r) \<Longrightarrow> (\<exists>e. r = Inl e \<and> s' = s)
     \<or> (\<exists>x. r = Inr x \<and> s' = s\<lparr>sp_tickets := map (\<lambda>t. if tk_id t = i then write_columns now d t else t) (sp_tickets s)\<rparr>
          \<and> tk_id (tr_ticket x) = i)"
  by (auto simp: update_ticket_def Let_def dest: find_ticket_id split: if_splits option.splits)

lemma write_workflow_cases:
  assumes "write_workflow h cuid now i d e s = (s', r)"
  obtains (failed) er where "r = Inl er" "s' = s"
  | (written) x at' where "r = Inr (x, audit_of (cuid (ad_next s)) (Some (le_actorId e)) e at')"
      "date_parse (lh_date h) (le_occurredAt e) = Some at'" "tk_id (tr_ticket x) = i"
      "support_view s' = (ad_users s, sc_audit s @ [audit_of (cuid (ad_next s)) (Some (le_actorId e)) e at'], sc_security s, sp_workspaces s,
         map (\<lambda>t. if tk_id t = i then write_columns now d t else t) (sp_tickets s), sp_favorites s, sp_impersonations s)"
proof (cases r)
  case (Inl er)
  then show thesis using assms failed unfolding write_workflow_def by (auto dest: transaction_cases)
next
  case (Inr y)
  obtain s1 x where 1: "update_ticket now i d s = (s1, Inr x)"
    and 2: "bindS (liftS (date_column h (le_occurredAt e))) (\<lambda>at'.
      bindS (createAuditLogWithReadModel cuid (insert_of (Some (le_actorId e)) e at')) (\<lambda>auditRow. retS (x, auditRow))) s1 = (s', Inr y)"
    using assms Inr by (auto simp: write_workflow_def op_elims)
  obtain at' where at': "date_parse (lh_date h) (le_occurredAt e) = Some at'"
    and run: "bindS (createAuditLogWithReadModel cuid (insert_of (Some (le_actorId e)) e at')) (\<lambda>auditRow. retS (x, auditRow)) s1 = (s', Inr y)"
    using 2 by (auto simp: date_column_def op_elims split: option.splits)
  have s1: "s1 = s\<lparr>sp_tickets := map (\<lambda>t. if tk_id t = i then write_columns now d t else t) (sp_tickets s)\<rparr>" "tk_id (tr_ticket x) = i"
    using update_ticket_cases [OF 1] by auto
  have "s' = s1\<lparr>sc_audit := sc_audit s1 @ [audit_of (cuid (ad_next s1)) (Some (le_actorId e)) e at'], ad_next := Suc (ad_next s1)\<rparr>"
    "y = (x, audit_of (cuid (ad_next s1)) (Some (le_actorId e)) e at')"
    using run by (simp_all add: bindS_def create_audit retS_def)
  then show thesis using written [of x at'] at' s1 Inr by (simp add: support_view_def)
qed

text \<open>The change of a ticket: its columns, and one audit row of the caller about it.\<close>

definition ticket_written ::
  "int \<Rightarrow> current_session \<Rightarrow> string \<Rightarrow> ticket_columns \<Rightarrow> 'm support_db_scheme \<Rightarrow> 'm support_db_scheme \<Rightarrow> bool" where
  "ticket_written now session i d s s' \<longleftrightarrow> (\<exists>row.
     au_action row = ''support.ticket_workflow_updated'' \<and> au_actorId row = Some (cs_user_id session)
     \<and> au_targetType row = ''support_ticket'' \<and> au_targetId row = i \<and> au_createdAt row = now
     \<and> support_view s' = (ad_users s, sc_audit s @ [row], sc_security s, sp_workspaces s,
          map (\<lambda>t. if tk_id t = i then write_columns now d t else t) (sp_tickets s), sp_favorites s, sp_impersonations s))"

lemma apply_workflow_cases:
  assumes "apply_workflow h tie True fails cuid now session i existing status effective note s = (s', r)"
    and "- 62167219200000 \<le> now" and "now < 253402300800000"
  shows "(\<exists>e. r = Inl e \<and> s' = s) \<or> (\<exists>entry. r = Inr entry \<and> qe_id entry = i \<and> ticket_written now session i (columns_of status effective note) s s')"
proof (cases "next_status status (show_ticket_status (tk_status (tr_ticket existing)))")
  case (Inl e)
  then show ?thesis using assms(1) by (auto simp: apply_workflow_def op_simps)
next
  case (Inr nextStatus)
  let ?e = "createSupportTicketWorkflowAuditLog now i (tk_subject (tr_ticket existing)) (timeline_actor_of_session session)
    (change_of session existing nextStatus effective note)"
  obtain s1 r1 where w: "write_workflow h cuid now i (columns_of status effective note) ?e s = (s1, r1)" by fastforce
  show ?thesis
  proof (rule write_workflow_cases [OF w])
    fix er assume "r1 = Inl er" "s1 = s"
    then have "s' = s \<and> r = Inl er"
      using assms(1) w by (simp add: apply_workflow_def updateWorkflow_def Inr op_rules bindS_def)
    then show ?thesis by blast
  next
    fix x at'
    let ?row = "audit_of (cuid (ad_next s)) (Some (le_actorId ?e)) ?e at'"
    assume r1: "r1 = Inr (x, ?row)" and at': "date_parse (lh_date h) (le_occurredAt ?e) = Some at'"
      and x: "tk_id (tr_ticket x) = i"
      and s1: "support_view s1 = (ad_users s, sc_audit s @ [?row], sc_security s, sp_workspaces s,
         map (\<lambda>t. if tk_id t = i then write_columns now (columns_of status effective note) t else t) (sp_tickets s), sp_favorites s, sp_impersonations s)"
    obtain s2 r2 where u: "upsertAdminLogEventsBestEffort True fails cuid [buildReadModelFromAuditRow ?row] s1 = (s2, r2)" by fastforce
    have s2: "support_view s2 = support_view s1" "r2 = Inr ()" using upsert_log_view [OF u] by auto
    have "s' = s2 \<and> (\<exists>m. r = Inr (mapSupportTicketRecordToSnapshot x m))"
      using assms(1) w r1 u s2(2)
      by (simp add: apply_workflow_def updateWorkflow_def Inr op_rules bindS_def Let_def) auto
    moreover have "at' = now"
      using at' date_parse_toISOString [OF assms(2,3), of "lh_date h"]
      by (simp add: createSupportTicketWorkflowAuditLog_def createAuditLogEvent_def createLogEvent_def)
    ultimately show ?thesis
      using s1 s2(1) x unfolding ticket_written_def
      by (auto simp: mapSupportTicketRecordToSnapshot_def Let_def audit_of_def createSupportTicketWorkflowAuditLog_def
        createAuditLogEvent_def createLogEvent_def timeline_actor_of_session_def)
  qed
qed

lemma request_errors:
  "requireDecision d = Inl e \<Longrightarrow> e \<notin> {ForeignKeyViolation, RecordNotFound}"
  "trim_field raw key = Inl e \<Longrightarrow> e \<notin> {ForeignKeyViolation, RecordNotFound}"
  "nullable_text raw key = Inl e \<Longrightarrow> e \<notin> {ForeignKeyViolation, RecordNotFound}"
  by (auto simp: requireDecision_def trim_field_def nullable_text_def split: if_splits option.splits json.splits sum.splits)


section \<open>Examples\<close>

definition demo_user :: "string \<Rightarrow> user_row" where
  "demo_user i = \<lparr>us_id = i, us_email = i @ ''@q.io'', us_passwordHash = None, us_emailVerifiedAt = None, us_displayName = None,
     us_avatarUrl = None, us_timezone = None, us_locale = None, us_uiPreferences = None, us_suspendedAt = None, us_suspendReason = None,
     us_lastLoginAt = None, us_createdAt = 0, us_updatedAt = 0, us_systemRoles = [''admin'']\<rparr>"

definition demo_agent :: current_session where
  "demo_agent = \<lparr>cs_personaKey = ''connected-user'', cs_user_id = ''u0'', cs_user_email = ''u0@q.io'', cs_user_displayName = None,
     cs_user_emailVerifiedAt = None,
     cs_principal = \<lparr>sp_userId = ''u0'', sp_email = ''u0@q.io'', sp_systemRoles = [''admin''], sp_entitlements = [], sp_featureFlags = []\<rparr>,
     cs_permissions = []\<rparr>"

definition demo_ticket :: "string \<Rightarrow> int \<Rightarrow> ticket_row" where
  "demo_ticket i t = \<lparr>tk_id = i, tk_workspaceId = None, tk_requesterId = ''u1'', tk_assignedToId = None, tk_subject = ''Help'', tk_body = [],
     tk_status = TicketOpen, tk_handoffNote = None, tk_createdAt = t, tk_updatedAt = t\<rparr>"

definition demo_support :: support_db where
  "demo_support = \<lparr>ad_users = [demo_user ''u0'', demo_user ''u1''], ad_sessions = [], ad_resets = [], ad_next = 7, lg_rows = [], lg_ai = [],
     sc_audit = [], sc_activity = [], sc_security = [], sc_domain = [], sp_workspaces = [],
     sp_tickets = [demo_ticket ''t1'' 5, demo_ticket ''t2'' 9], sp_favorites = [], sp_impersonations = []\<rparr>"

definition demo_ties :: tie_orders where
  "demo_ties = \<lparr>ti_tickets = rev, ti_audit = rev, ti_favorites = rev, ti_impersonations = rev\<rparr>"

definition demo_take :: json_object where
  "demo_take = [(''supportTicketId'', JStr ''t1''), (''status'', JStr ''in_progress'')]"

definition demo_filters :: raw_ticket_filters where
  "demo_filters = \<lparr>tq_preset = Some ''shared_queue'', tq_status = None, tq_ownership = None, tq_search = None, tq_limit = Some (Fin 1),
     tq_timelineLimit = None\<rparr>"

lemma demo_same: "same_rows (ti_tickets demo_ties)" "same_rows (ti_audit demo_ties)"
  by (simp_all add: same_rows_def demo_ties_def)

theorem queue_lists_newest_witness:
  "case listSupportTicketsForCurrentSession demo_host demo_ties demo_agent demo_filters demo_support of Inl _ \<Rightarrow> False
   | Inr queue \<Rightarrow> (\<exists>page. list_all2 (shows_ticket demo_support 4) page (tqs_items queue))"
proof -
  have ok: "isOk (listSupportTicketsForCurrentSession demo_host demo_ties demo_agent demo_filters demo_support)" by code_simp
  then obtain queue where run: "listSupportTicketsForCurrentSession demo_host demo_ties demo_agent demo_filters demo_support = Inr queue"
    by (auto simp: isOk_iff)
  have "list_all (\<lambda>t. findUserById (tk_requesterId t) demo_support \<noteq> None) (sp_tickets demo_support)" by code_simp
  then have "\<forall>t \<in> set (sp_tickets demo_support). findUserById (tk_requesterId t) demo_support \<noteq> None" by (simp add: list_all_iff)
  note shown = queue_lists_newest [OF demo_same this run]
  have "tf_timelineLimit (normalizeSupportTicketQueueFilters demo_filters) = 4" by code_simp
  with shown run show ?thesis by auto
qed


end
