(* ===== verification/Impersonation.thy ===== *)
theory Impersonation
  imports SupportTickets
begin

text \<open>
  Support access to the account of a user: starting and ending an impersonation, with the audit and
  security rows each of them writes in its transaction, and the history. From
  \<open>apps/api/src/services/support-service.ts\<close>, \<open>apps/api/src/support/support-impersonation.repository.ts\<close> and the
  handlers of \<open>platform.service.ts\<close>. The requests of the support service, tickets included, are the steps of
  a state machine; its invariant ties the table of impersonations to the rows of both logs.
\<close>

section \<open>The table\<close>

record impersonation_record =
  ir_session :: impersonation_row
  ir_supportActor :: user_row
  ir_targetUser :: user_row
  ir_supportTicket :: "ticket_row option"

definition find_ticket :: "'m support_db_scheme \<Rightarrow> string \<Rightarrow> ticket_row option" where
  "find_ticket s i = find (\<lambda>t. tk_id t = i) (sp_tickets s)"

text \<open>Both users exist by their foreign keys.\<close>

definition include_impersonation :: "'m support_db_scheme \<Rightarrow> impersonation_row \<Rightarrow> impersonation_record option" where
  "include_impersonation s r =
     Option.bind (findUserById (im_supportActorId r) s) (\<lambda>actor.
     map_option (\<lambda>target. \<lparr>ir_session = r, ir_supportActor = actor, ir_targetUser = target,
         ir_supportTicket = Option.bind (im_supportTicketId r) (find_ticket s)\<rparr>)
       (findUserById (im_targetUserId r) s))"

definition listRecentImpersonations ::
  "(impersonation_row list \<Rightarrow> impersonation_row list) \<Rightarrow> nat \<Rightarrow> 'm support_db_scheme \<Rightarrow> impersonation_record list" where
  "listRecentImpersonations tie limit s =
     List.map_filter (include_impersonation s) (take limit (sort_key (\<lambda>r. - im_createdAt r) (tie (sp_impersonations s))))"

definition find_impersonation :: "string \<Rightarrow> 'm support_db_scheme \<Rightarrow> impersonation_row option" where
  "find_impersonation i s = find (\<lambda>r. im_id r = i) (sp_impersonations s)"

definition findImpersonationById :: "string \<Rightarrow> 'm support_db_scheme \<Rightarrow> impersonation_record option" where
  "findImpersonationById i s = Option.bind (find_impersonation i s) (include_impersonation s)"

definition create_impersonation :: "impersonation_row \<Rightarrow> ('m support_db_scheme, unit) op" where
  "create_impersonation r s =
     (if find_impersonation (im_id r) s \<noteq> None then (s, Inl UniqueViolation)
      else if findUserById (im_supportActorId r) s = None \<or> findUserById (im_targetUserId r) s = None
        \<or> (case im_supportTicketId r of None \<Rightarrow> False | Some t \<Rightarrow> find_ticket s t = None) then (s, Inl ForeignKeyViolation)
      else (s\<lparr>sp_impersonations := sp_impersonations s @ [r]\<rparr>, Inr ()))"

definition close_impersonation :: "string \<Rightarrow> int \<Rightarrow> string option \<Rightarrow> ('m support_db_scheme, impersonation_record) op" where
  "close_impersonation i endedAt closeReason s =
     (let s' = s\<lparr>sp_impersonations := map (\<lambda>r. if im_id r = i then r\<lparr>im_endedAt := Some endedAt, im_closeReason := closeReason\<rparr> else r)
                 (sp_impersonations s)\<rparr>
      in case findImpersonationById i s' of None \<Rightarrow> (s, Inl RecordNotFound) | Some x \<Rightarrow> (s', Inr x))"

text \<open>The two rows of a transition, in the audit table and in the security table.\<close>

definition write_both_logs ::
  "(nat \<Rightarrow> string) \<Rightarrow> string option \<Rightarrow> string option \<Rightarrow> log_event \<Rightarrow> log_event \<Rightarrow> int \<Rightarrow> ('m support_db_scheme, admin_log_data list) op" where
  "write_both_logs cuid auditActor securityActor auditLog securityLog at' =
     bindS (createAuditLogWithReadModel cuid (insert_of auditActor auditLog at')) (\<lambda>auditRow.
     bindS (createSecurityEventWithReadModel cuid (insert_of securityActor securityLog at')) (\<lambda>securityRow.
     retS [buildReadModelFromAuditRow auditRow, buildReadModelFromSecurityRow securityRow]))"

definition createSessionWithLogs ::
  "bool \<Rightarrow> (admin_log_data \<Rightarrow> bool) \<Rightarrow> (nat \<Rightarrow> string) \<Rightarrow> impersonation_row \<Rightarrow> log_event \<Rightarrow> log_event \<Rightarrow> ('m support_db_scheme, unit) op" where
  "createSessionWithLogs up fails cuid r auditLog securityLog =
     bindS (transaction (thenS (create_impersonation r)
       (write_both_logs cuid (Some (im_supportActorId r)) (Some (im_supportActorId r)) auditLog securityLog (im_createdAt r))))
     (upsertAdminLogEventsBestEffort up fails cuid)"

text \<open>The writes that end a session, and the transaction that first looks whether it has ended.\<close>

definition end_writes ::
  "(nat \<Rightarrow> string) \<Rightarrow> string \<Rightarrow> int \<Rightarrow> string option \<Rightarrow> log_event \<Rightarrow> log_event
     \<Rightarrow> ('m support_db_scheme, impersonation_record \<times> admin_log_data list) op" where
  "end_writes cuid i endedAt closeReason auditLog securityLog =
     bindS (close_impersonation i endedAt closeReason) (\<lambda>endedSession.
     bindS (write_both_logs cuid (Some (le_actorId auditLog)) (Some (le_actorId securityLog)) auditLog securityLog endedAt) (\<lambda>events.
     retS (endedSession, events)))"

definition end_transaction ::
  "(nat \<Rightarrow> string) \<Rightarrow> string \<Rightarrow> int \<Rightarrow> string option \<Rightarrow> log_event \<Rightarrow> log_event
     \<Rightarrow> ('m support_db_scheme, impersonation_record option \<times> admin_log_data list) op" where
  "end_transaction cuid i endedAt closeReason auditLog securityLog = transaction
     (bindS (getS (findImpersonationById i)) (\<lambda>found.
      case found of
        None \<Rightarrow> retS (None, [])
      | Some existingSession \<Rightarrow>
          if im_endedAt (ir_session existingSession) \<noteq> None then retS (Some existingSession, [])
          else bindS (end_writes cuid i endedAt closeReason auditLog securityLog) (\<lambda>(endedSession, events). retS (Some endedSession, events))))"

definition endSessionWithLogs ::
  "bool \<Rightarrow> (admin_log_data \<Rightarrow> bool) \<Rightarrow> (nat \<Rightarrow> string) \<Rightarrow> string \<Rightarrow> int \<Rightarrow> string option \<Rightarrow> log_event \<Rightarrow> log_event
     \<Rightarrow> ('m support_db_scheme, impersonation_record option) op" where
  "endSessionWithLogs up fails cuid i endedAt closeReason auditLog securityLog =
     bindS (end_transaction cuid i endedAt closeReason auditLog securityLog) (\<lambda>(endedSession, events).
     thenS (upsertAdminLogEventsBestEffort up fails cuid events) (retS endedSession))"

section \<open>The events\<close>

record impersonation_request =
  iq_supportActorId :: string
  iq_targetUserId :: string
  iq_reason :: string
  iq_supportTicketId :: "string option"
  iq_operatorNote :: "string option"

record ticket_reference =
  rf_ticketId :: string
  rf_subject :: string
  rf_ticketStatus :: ticket_status

record impersonation_result =
  ix_impersonationSessionId :: string
  ix_supportActorId :: string
  ix_targetUserId :: string
  ix_reason :: string
  ix_createdAt :: string
  ix_supportTicket :: "ticket_reference option"
  ix_operatorNote :: "string option"

text \<open>An event about a user whose account is entered; \<open>severity\<close> is higher in the security log.\<close>

definition user_event :: "string \<Rightarrow> string \<Rightarrow> string \<Rightarrow> string \<Rightarrow> string \<Rightarrow> log_severity \<Rightarrow> json_object \<Rightarrow> log_event" where
  "user_event eventId eventType actorId targetId occurredAt severity metadata =
     \<lparr>le_eventId = eventId, le_eventType = eventType, le_actorId = actorId, le_actorType = SubjectUser, le_targetType = ''user'',
      le_targetId = targetId, le_occurredAt = occurredAt, le_metadata = Some metadata, le_category = CatAudit,
      le_severity = severity, le_status = Some StatusSuccess\<rparr>"

definition startSupportImpersonation :: "int \<Rightarrow> impersonation_request \<Rightarrow> impersonation_result \<times> log_event \<times> log_event" where
  "startSupportImpersonation now q =
     (let createdAt = toISOString now;
          i = iq_supportActorId q @ '':'' @ iq_targetUserId q @ '':'' @ createdAt;
          metadata = [(''reason'', JStr (iq_reason q))] @ optional_text ''supportTicketId'' (iq_supportTicketId q)
            @ optional_text ''operatorNote'' (iq_operatorNote q)
      in (\<lparr>ix_impersonationSessionId = i, ix_supportActorId = iq_supportActorId q, ix_targetUserId = iq_targetUserId q,
           ix_reason = iq_reason q, ix_createdAt = createdAt,
           ix_supportTicket = map_option (\<lambda>t. \<lparr>rf_ticketId = t, rf_subject = ''Linked support ticket'', rf_ticketStatus = TicketInProgress\<rparr>)
             (or_none (iq_supportTicketId q)),
           ix_operatorNote = or_none (iq_operatorNote q)\<rparr>,
          createAuditLogEvent (user_event (''support-impersonation:'' @ i) ''support.impersonation_started'' (iq_supportActorId q)
            (iq_targetUserId q) createdAt SevInfo metadata),
          createSecurityLogEvent (user_event (''support-impersonation-security:'' @ i) ''security.impersonation_started'' (iq_supportActorId q)
            (iq_targetUserId q) createdAt SevWarn metadata)))"

definition endSupportImpersonation ::
  "int \<Rightarrow> string \<Rightarrow> string \<Rightarrow> string \<Rightarrow> string \<Rightarrow> string option \<Rightarrow> string \<times> log_event \<times> log_event" where
  "endSupportImpersonation now i endedById targetUserId reason closeReason =
     (let endedAt = toISOString now;
          metadata = [(''impersonationSessionId'', JStr i), (''reason'', JStr reason)] @ optional_text ''closeReason'' closeReason
      in (endedAt,
          createAuditLogEvent (user_event (''support-impersonation-ended:'' @ i) ''support.impersonation_ended'' endedById targetUserId endedAt
            SevInfo metadata),
          createSecurityLogEvent (user_event (''support-impersonation-ended-security:'' @ i) ''security.impersonation_ended'' endedById
            targetUserId endedAt SevWarn metadata)))"

section \<open>Snapshots\<close>

definition reference_of :: "ticket_row \<Rightarrow> ticket_reference" where
  "reference_of t = \<lparr>rf_ticketId = tk_id t, rf_subject = tk_subject t, rf_ticketStatus = tk_status t\<rparr>"

record impersonation_snapshot =
  iv_impersonationSessionId :: string
  iv_supportActor :: support_actor
  iv_targetUser :: support_actor
  iv_reason :: string
  iv_createdAt :: string
  iv_endedAt :: "string option"
  iv_supportTicket :: "ticket_reference option"
  iv_operatorNote :: "string option"
  iv_closeReason :: "string option"

definition mapSupportImpersonationRecordToSnapshot :: "impersonation_record \<Rightarrow> impersonation_snapshot" where
  "mapSupportImpersonationRecordToSnapshot x =
     (let r = ir_session x
      in \<lparr>iv_impersonationSessionId = im_id r, iv_supportActor = actor_of_user (ir_supportActor x),
          iv_targetUser = actor_of_user (ir_targetUser x), iv_reason = im_reason r, iv_createdAt = toISOString (im_createdAt r),
          iv_endedAt = map_option toISOString (im_endedAt r), iv_supportTicket = map_option reference_of (ir_supportTicket x),
          iv_operatorNote = or_none (im_operatorNote r), iv_closeReason = or_none (im_closeReason r)\<rparr>)"

record end_result =
  ex_impersonationSessionId :: string
  ex_targetUserId :: string
  ex_reason :: string
  ex_createdAt :: string
  ex_endedAt :: string
  ex_supportTicket :: "ticket_reference option"
  ex_operatorNote :: "string option"
  ex_closeReason :: "string option"

definition mapSupportImpersonationRecordToEndResult :: "impersonation_record \<Rightarrow> end_result" where
  "mapSupportImpersonationRecordToEndResult x =
     (let r = ir_session x
      in \<lparr>ex_impersonationSessionId = im_id r, ex_targetUserId = us_id (ir_targetUser x), ex_reason = im_reason r,
          ex_createdAt = toISOString (im_createdAt r), ex_endedAt = toISOString (nullish (im_endedAt r) (im_createdAt r)),
          ex_supportTicket = map_option reference_of (ir_supportTicket x), ex_operatorNote = or_none (im_operatorNote r),
          ex_closeReason = or_none (im_closeReason r)\<rparr>)"

record impersonation_history =
  ih_personaKey :: string
  ih_accessDecision :: access_decision
  ih_items :: "impersonation_snapshot list"
  ih_permissions :: "string list"

section \<open>The handlers\<close>

definition listSupportImpersonationSessionsForCurrentSession ::
  "tie_orders \<Rightarrow> current_session \<Rightarrow> 'm support_db_scheme \<Rightarrow> impersonation_history result" where
  "listSupportImpersonationSessionsForCurrentSession tie session s =
     bindR (requireDecision (canReadSupportImpersonationSessions (cs_principal session))) (\<lambda>_.
       Inr \<lparr>ih_personaKey = ''connected-user'', ih_accessDecision = canReadSupportImpersonationSessions (cs_principal session),
            ih_items = map mapSupportImpersonationRecordToSnapshot (listRecentImpersonations (ti_impersonations tie) 8 s),
            ih_permissions = cs_permissions session\<rparr>)"

text \<open>A field of a request as \<open>x?.trim() || undefined\<close>.\<close>

definition optional_field :: "json_object option \<Rightarrow> string \<Rightarrow> string option result" where
  "optional_field request key = bindR (trim_field (nullish request []) key) (\<lambda>v. Inr (Option.bind v or_undefined))"

definition startSupportImpersonationForCurrentSession ::
  "log_host \<Rightarrow> bool \<Rightarrow> (admin_log_data \<Rightarrow> bool) \<Rightarrow> (nat \<Rightarrow> string) \<Rightarrow> int \<Rightarrow> current_session \<Rightarrow> json_object option
     \<Rightarrow> ('m support_db_scheme, impersonation_result \<times> log_event \<times> log_event) op" where
  "startSupportImpersonationForCurrentSession h up fails cuid now session request =
     thenS (liftS (requireDecision (canStartSupportImpersonation (cs_principal session))))
     (bindS (liftS (optional_field request ''targetUserId'')) (\<lambda>target.
      case target of
        None \<Rightarrow> throwS (BadRequest ''Target user is required for support impersonation.'')
      | Some targetUserId \<Rightarrow>
          bindS (liftS (optional_field request ''reason'')) (\<lambda>reason.
          bindS (liftS (optional_field request ''supportTicketId'')) (\<lambda>supportTicketId.
          bindS (liftS (optional_field request ''operatorNote'')) (\<lambda>operatorNote.
          case startSupportImpersonation now
            \<lparr>iq_supportActorId = cs_user_id session, iq_targetUserId = targetUserId,
             iq_reason = nullish reason ''Investigating a user access issue in connected runtime mode.'',
             iq_supportTicketId = supportTicketId, iq_operatorNote = operatorNote\<rparr> of
          (x, auditLog, securityLog) \<Rightarrow>
            thenS (rethrow ForeignKeyViolation (NotFound ''Support actor, target user, or support ticket not found for impersonation.'')
              (bindS (liftS (date_column h (ix_createdAt x))) (\<lambda>createdAt.
               createSessionWithLogs up fails cuid
                 \<lparr>im_id = ix_impersonationSessionId x, im_supportActorId = ix_supportActorId x, im_targetUserId = ix_targetUserId x,
                  im_supportTicketId = supportTicketId, im_reason = ix_reason x, im_operatorNote = operatorNote, im_closeReason = None,
                  im_createdAt = createdAt, im_endedAt = None\<rparr> auditLog securityLog)))
            (retS (x, auditLog, securityLog)))))))"

definition endSupportImpersonationForCurrentSession ::
  "log_host \<Rightarrow> bool \<Rightarrow> (admin_log_data \<Rightarrow> bool) \<Rightarrow> (nat \<Rightarrow> string) \<Rightarrow> int \<Rightarrow> current_session \<Rightarrow> json_object option
     \<Rightarrow> ('m support_db_scheme, end_result) op" where
  "endSupportImpersonationForCurrentSession h up fails cuid now session request =
     thenS (liftS (requireDecision (canEndSupportImpersonation (cs_principal session))))
     (bindS (liftS (optional_field request ''impersonationSessionId'')) (\<lambda>v.
      case v of
        None \<Rightarrow> throwS (BadRequest ''Impersonation session is required to end support access.'')
      | Some impersonationSessionId \<Rightarrow>
          bindS (getS (findImpersonationById impersonationSessionId)) (\<lambda>found.
          case found of
            None \<Rightarrow> throwS (NotFound ''Support impersonation session not found.'')
          | Some existingSession \<Rightarrow>
              if im_endedAt (ir_session existingSession) \<noteq> None then retS (mapSupportImpersonationRecordToEndResult existingSession)
              else bindS (liftS (optional_field request ''closeReason'')) (\<lambda>closeReason.
                case endSupportImpersonation now (im_id (ir_session existingSession)) (cs_user_id session)
                  (us_id (ir_targetUser existingSession)) (im_reason (ir_session existingSession)) closeReason of
                (endedAt, auditLog, securityLog) \<Rightarrow>
                  bindS (liftS (date_column h endedAt)) (\<lambda>at'.
                  bindS (endSessionWithLogs up fails cuid (im_id (ir_session existingSession)) at' closeReason auditLog securityLog) (\<lambda>ended.
                  case ended of
                    None \<Rightarrow> throwS (NotFound ''Support impersonation session not found.'')
                  | Some endedSession \<Rightarrow> retS (mapSupportImpersonationRecordToEndResult endedSession)))))))"

section \<open>What each request does to the tables\<close>

definition event_id :: "json option \<Rightarrow> string option" where
  "event_id v = string_of_field (field_of (toMetadata v) ''eventId'')"

definition audit_ids :: "'m support_db_scheme \<Rightarrow> string option list" where
  "audit_ids s = map (\<lambda>r. event_id (au_metadataJson r)) (sc_audit s)"

definition security_ids :: "'m support_db_scheme \<Rightarrow> string option list" where
  "security_ids s = map (\<lambda>r. event_id (ev_json r)) (sc_security s)"

text \<open>The impersonations and the identifiers of the events in both logs.\<close>

definition access_view :: "'m support_db_scheme \<Rightarrow> impersonation_row list \<times> string option list \<times> string option list" where
  "access_view s = (sp_impersonations s, audit_ids s, security_ids s)"

lemma event_id_of: "event_id (Some (buildMetadataJson e)) = Some (le_eventId e)"
  by (simp add: event_id_def buildMetadataJson_def toMetadata_def field_of_def spread_def update_conv' string_of_field_def split: option.split)

lemma support_access: "support_view s' = support_view s \<Longrightarrow> access_view s' = access_view s"
  by (simp add: support_view_def access_view_def audit_ids_def security_ids_def)

lemma upsert_access: "upsertAdminLogEventsBestEffort up fails cuid ds s = (s', r) \<Longrightarrow> access_view s' = access_view s"
  using upsert_log_view support_access by blast

lemma write_both_access:
  "write_both_logs cuid a b e1 e2 t s = (s', r) \<Longrightarrow> isOk r
     \<and> access_view s' = (sp_impersonations s, audit_ids s @ [Some (le_eventId e1)], security_ids s @ [Some (le_eventId e2)])"
  by (auto simp: write_both_logs_def bindS_def createAuditLogWithReadModel_def createSecurityEventWithReadModel_def retS_def Let_def
    access_view_def audit_ids_def security_ids_def insert_of_def event_id_of)

definition opens :: "impersonation_row \<Rightarrow> log_event \<Rightarrow> log_event \<Rightarrow> 'm support_db_scheme \<Rightarrow> 'm support_db_scheme \<Rightarrow> bool" where
  "opens r e1 e2 s s' \<longleftrightarrow> im_id r \<notin> im_id ` set (sp_impersonations s)
     \<and> access_view s' = (sp_impersonations s @ [r], audit_ids s @ [Some (le_eventId e1)], security_ids s @ [Some (le_eventId e2)])"

lemma find_impersonation_None: "find_impersonation i s = None \<longleftrightarrow> i \<notin> im_id ` set (sp_impersonations s)"
  by (auto simp: find_impersonation_def find_None_iff)

lemma createSessionWithLogs_access:
  assumes "createSessionWithLogs up fails cuid r e1 e2 s = (s', x)"
  shows "access_view s' = access_view s \<or> opens r e1 e2 s s'"
proof -
  let ?tx = "transaction (thenS (create_impersonation r)
       (write_both_logs cuid (Some (im_supportActorId r)) (Some (im_supportActorId r)) e1 e2 (im_createdAt r)))"
  obtain s1 y where tx: "?tx s = (s1, y)" by fastforce
  have "s1 = s \<and> \<not> isOk y \<or> opens r e1 e2 s s1"
  proof (cases y)
    case (Inr ds)
    then obtain s0 where 0: "create_impersonation r s = (s0, Inr ())"
      and 1: "write_both_logs cuid (Some (im_supportActorId r)) (Some (im_supportActorId r)) e1 e2 (im_createdAt r) s0 = (s1, Inr ds)"
      using tx by (auto simp: op_elims)
    have "s0 = s\<lparr>sp_impersonations := sp_impersonations s @ [r]\<rparr>" "find_impersonation (im_id r) s = None"
      using 0 by (auto simp: create_impersonation_def split: if_splits)
    then show ?thesis
      using write_both_access [OF 1] by (simp add: opens_def find_impersonation_None audit_ids_def security_ids_def)
  qed (use transaction_cases [OF tx] in auto)
  moreover have "access_view s' = access_view s1"
    using assms tx upsert_access by (cases y) (auto simp: createSessionWithLogs_def bindS_def)
  ultimately show ?thesis by (auto simp: opens_def)
qed

definition closes ::
  "string \<Rightarrow> int \<Rightarrow> string option \<Rightarrow> log_event \<Rightarrow> log_event \<Rightarrow> 'm support_db_scheme \<Rightarrow> 'm support_db_scheme \<Rightarrow> bool" where
  "closes i t reason e1 e2 s s' \<longleftrightarrow> (\<exists>r \<in> set (sp_impersonations s). im_id r = i \<and> im_endedAt r = None)
     \<and> access_view s' = (map (\<lambda>r. if im_id r = i then r\<lparr>im_endedAt := Some t, im_closeReason := reason\<rparr> else r) (sp_impersonations s),
         audit_ids s @ [Some (le_eventId e1)], security_ids s @ [Some (le_eventId e2)])"

lemma findImpersonationById_SomeD:
  "findImpersonationById i s = Some x \<Longrightarrow> ir_session x \<in> set (sp_impersonations s) \<and> im_id (ir_session x) = i"
  by (auto simp: findImpersonationById_def find_impersonation_def include_impersonation_def bind_eq_Some_conv find_Some_iff)

lemma end_writes_access:
  assumes "end_writes cuid i t reason e1 e2 s = (s', Inr y)"
  shows "access_view s' = (map (\<lambda>r. if im_id r = i then r\<lparr>im_endedAt := Some t, im_closeReason := reason\<rparr> else r) (sp_impersonations s),
         audit_ids s @ [Some (le_eventId e1)], security_ids s @ [Some (le_eventId e2)])"
proof -
  obtain s0 x ds where 0: "close_impersonation i t reason s = (s0, Inr x)"
    and 1: "write_both_logs cuid (Some (le_actorId e1)) (Some (le_actorId e2)) e1 e2 t s0 = (s', Inr ds)"
    using assms by (auto simp: end_writes_def op_elims)
  have "s0 = s\<lparr>sp_impersonations := map (\<lambda>r. if im_id r = i then r\<lparr>im_endedAt := Some t, im_closeReason := reason\<rparr> else r) (sp_impersonations s)\<rparr>"
    using 0 by (auto simp: close_impersonation_def Let_def split: option.splits)
  then show ?thesis using write_both_access [OF 1] by (simp add: audit_ids_def security_ids_def)
qed

lemma end_transaction_access:
  assumes "end_transaction cuid i t reason e1 e2 s = (s', y)"
  shows "s' = s \<or> closes i t reason e1 e2 s s'"
proof (cases y)
  case (Inr z)
  show ?thesis
  proof (cases "findImpersonationById i s")
    case (Some x)
    show ?thesis
    proof (cases "im_endedAt (ir_session x)")
      case None
      then obtain w where "end_writes cuid i t reason e1 e2 s = (s', Inr w)"
        using assms Some Inr by (auto simp: end_transaction_def op_elims)
      from end_writes_access [OF this] show ?thesis
        using findImpersonationById_SomeD [OF Some] None unfolding closes_def by blast
    qed (use assms Some Inr in \<open>auto simp: end_transaction_def op_elims\<close>)
  qed (use assms Inr in \<open>auto simp: end_transaction_def op_elims\<close>)
qed (use assms in \<open>auto simp: end_transaction_def dest!: transaction_cases\<close>)

lemma endSessionWithLogs_access:
  assumes "endSessionWithLogs up fails cuid i t reason e1 e2 s = (s', y)"
  shows "access_view s' = access_view s \<or> closes i t reason e1 e2 s s'"
proof -
  obtain s1 z where tx: "end_transaction cuid i t reason e1 e2 s = (s1, z)" by fastforce
  have "access_view s' = access_view s1"
    using assms tx by (cases z) (auto simp: endSessionWithLogs_def bindS_def thenS_def retS_def dest!: upsert_access split: prod.splits sum.splits)
  then show ?thesis using end_transaction_access [OF tx] by (auto simp: closes_def)
qed

section \<open>The abstract machine of support access\<close>

text \<open>What a step may do: nothing, start an impersonation, end one, or log the change of a ticket.\<close>

type_synonym access_state = "impersonation_row list \<times> string option list \<times> string option list"

inductive access_step :: "access_state \<Rightarrow> access_state \<Rightarrow> bool" where
  same: "access_step v v"
| opened: "im_id r \<notin> im_id ` set imps \<Longrightarrow> im_endedAt r = None \<Longrightarrow>
    access_step (imps, as, ss)
      (imps @ [r], as @ [Some (''support-impersonation:'' @ im_id r)], ss @ [Some (''support-impersonation-security:'' @ im_id r)])"
| closed: "r \<in> set imps \<Longrightarrow> im_endedAt r = None \<Longrightarrow>
    access_step (imps, as, ss)
      (map (\<lambda>x. if im_id x = im_id r then x\<lparr>im_endedAt := Some t, im_closeReason := reason\<rparr> else x) imps,
       as @ [Some (''support-impersonation-ended:'' @ im_id r)], ss @ [Some (''support-impersonation-ended-security:'' @ im_id r)])"
| ticket: "access_step (imps, as, ss) (imps, as @ [Some (''support-ticket:'' @ e)], ss)"

inductive_cases access_stepE: "access_step v v'"

lemma access_viewI: "access_view s' = access_view s \<Longrightarrow> access_step (access_view s) (access_view s')"
  by (simp add: access_step.same)

lemma liftS_run: "after (liftS r) Q s = Q s r"
  by (rule after_lift)

text \<open>An operation that takes an access step from every state; the handlers are put together from such operations.\<close>

definition steps :: "('m support_db_scheme, 'a) op \<Rightarrow> bool" where
  "steps m \<longleftrightarrow> (\<forall>s. access_step (access_view s) (access_view (fst (m s))))"

lemma stepsI: "(\<And>s s' r. m s = (s', r) \<Longrightarrow> access_step (access_view s) (access_view s')) \<Longrightarrow> steps m"
  by (simp add: steps_def) (metis prod.collapse)

lemma steps_run: "steps m \<Longrightarrow> m s = (s', r) \<Longrightarrow> access_step (access_view s) (access_view s')"
  by (metis fst_conv steps_def)

named_theorems steps_intros \<open>operations made of one step and parts that change nothing\<close>

lemma steps_basic [steps_intros]: "steps (retS x)" "steps (throwS e)" "steps (getS f)" "steps (liftS r)"
  by (simp_all add: steps_def op_simps access_step.same)

lemma steps_lift [steps_intros]: "(\<And>x. steps (f x)) \<Longrightarrow> steps (bindS (liftS r) f)"
  by (cases r) (simp_all add: steps_def bindS_def liftS_def access_step.same)

lemma steps_then_lift [steps_intros]: "steps m \<Longrightarrow> steps (thenS (liftS r) m)"
  unfolding thenS_def by (rule steps_lift)

lemma steps_rethrow [steps_intros]: "steps m \<Longrightarrow> steps (rethrow e e' m)"
  by (simp add: steps_def)

text \<open>What follows the step changes nothing.\<close>

lemma steps_tail:
  assumes "steps m" and "\<And>x t. access_view (fst (f x t)) = access_view t"
  shows "steps (bindS m f)"
proof (rule stepsI)
  fix s s' r
  assume run: "bindS m f s = (s', r)"
  obtain t y where m: "m s = (t, y)" by fastforce
  have "access_view s' = access_view t"
  proof (cases y)
    case (Inr x)
    then have "f x t = (s', r)" using run m by (simp add: bindS_def)
    then show ?thesis using assms(2) [of x t] by simp
  qed (use run m in \<open>simp add: bindS_def\<close>)
  then show "access_step (access_view s) (access_view s')" using steps_run [OF assms(1) m] by simp
qed

lemma upsert_fst [simp]: "access_view (fst (upsertAdminLogEventsBestEffort up fails cuid ds s)) = access_view s"
  using upsert_access by (metis prod.collapse)

lemma tail_simps [simp]:
  "access_view (fst (retS x s)) = access_view s" "access_view (fst (throwS e s)) = access_view s" "access_view (fst (getS f s)) = access_view s"
  by (simp_all add: op_simps)

lemma tail_bind: "access_view (fst (m s)) = access_view s \<Longrightarrow> (\<And>x t. access_view (fst (f x t)) = access_view t) \<Longrightarrow> access_view (fst (bindS m f s)) = access_view s"
  by (cases "m s") (auto simp: bindS_def split: sum.split)

lemma steps_create:
  assumes "im_endedAt r = None" and "le_eventId e1 = ''support-impersonation:'' @ im_id r"
    and "le_eventId e2 = ''support-impersonation-security:'' @ im_id r"
  shows "steps (createSessionWithLogs up fails cuid r e1 e2)"
proof (rule stepsI)
  fix s s' x
  assume "createSessionWithLogs up fails cuid r e1 e2 s = (s', x)"
  from createSessionWithLogs_access [OF this] show "access_step (access_view s) (access_view s')"
  proof
    assume "opens r e1 e2 s s'"
    then show ?thesis using access_step.opened [OF _ assms(1)] assms(2,3) by (simp add: opens_def access_view_def)
  qed (rule access_viewI)
qed

lemma steps_close:
  assumes "le_eventId e1 = ''support-impersonation-ended:'' @ i" and "le_eventId e2 = ''support-impersonation-ended-security:'' @ i"
  shows "steps (endSessionWithLogs up fails cuid i t reason e1 e2)"
proof (rule stepsI)
  fix s s' x
  assume "endSessionWithLogs up fails cuid i t reason e1 e2 s = (s', x)"
  from endSessionWithLogs_access [OF this] show "access_step (access_view s) (access_view s')"
  proof
    assume c: "closes i t reason e1 e2 s s'"
    then obtain r where r: "r \<in> set (sp_impersonations s)" "im_id r = i" "im_endedAt r = None" by (auto simp: closes_def)
    show ?thesis using access_step.closed [OF r(1,3), where t = t and reason = reason] c assms r(2) by (simp add: closes_def access_view_def)
  qed (rule access_viewI)
qed

lemma steps_workflow:
  assumes "le_eventId e = ''support-ticket:'' @ x"
  shows "steps (updateWorkflow h up fails cuid now i d e)"
  unfolding updateWorkflow_def
proof (rule steps_tail)
  show "steps (write_workflow h cuid now i d e)"
  proof (rule stepsI)
    fix s s' r
    assume run: "write_workflow h cuid now i d e s = (s', r)"
    show "access_step (access_view s) (access_view s')"
    proof (rule write_workflow_cases [OF run])
      fix y t
      assume "support_view s' = (ad_users s, sc_audit s @ [audit_of (cuid (ad_next s)) (Some (le_actorId e)) e t], sc_security s, sp_workspaces s,
         map (\<lambda>t. if tk_id t = i then write_columns now d t else t) (sp_tickets s), sp_favorites s, sp_impersonations s)"
      then have "access_view s' = (sp_impersonations s, audit_ids s @ [Some (''support-ticket:'' @ x)], security_ids s)"
        using assms by (simp add: support_view_def access_view_def audit_ids_def security_ids_def audit_of_def event_id_of)
      then show ?thesis using access_step.ticket by (simp add: access_view_def)
    qed (simp add: access_step.same)
  qed
qed (auto simp: thenS_def intro!: tail_bind split: prod.split)

lemma start_ids:
  "startSupportImpersonation now q = (x, e1, e2) \<Longrightarrow> le_eventId e1 = ''support-impersonation:'' @ ix_impersonationSessionId x
     \<and> le_eventId e2 = ''support-impersonation-security:'' @ ix_impersonationSessionId x"
  by (auto simp: startSupportImpersonation_def Let_def user_event_def createAuditLogEvent_def createSecurityLogEvent_def createLogEvent_def)

lemma end_ids:
  "endSupportImpersonation now i a u m c = (t, e1, e2) \<Longrightarrow> le_eventId e1 = ''support-impersonation-ended:'' @ i
     \<and> le_eventId e2 = ''support-impersonation-ended-security:'' @ i"
  by (auto simp: endSupportImpersonation_def Let_def user_event_def createAuditLogEvent_def createSecurityLogEvent_def createLogEvent_def)

lemma steps_option [steps_intros]: "steps m \<Longrightarrow> (\<And>x. steps (f x)) \<Longrightarrow> steps (case v of None \<Rightarrow> m | Some x \<Rightarrow> f x)"
  and steps_if [steps_intros]: "steps m \<Longrightarrow> steps k \<Longrightarrow> steps (if b then m else k)"
  by (simp_all split: option.split)

lemma steps_getS [steps_intros]: "(\<And>x. steps (f x)) \<Longrightarrow> steps (bindS (getS g) f)"
  by (simp add: steps_def bindS_def getS_def)

lemma steps_startSupportImpersonation: "steps (startSupportImpersonationForCurrentSession h up fails cuid now session request)"
  unfolding startSupportImpersonationForCurrentSession_def
  apply (intro steps_intros)
  subgoal for target targetUserId reason supportTicketId operatorNote
    by (cases "startSupportImpersonation now \<lparr>iq_supportActorId = cs_user_id session, iq_targetUserId = targetUserId,
             iq_reason = nullish reason ''Investigating a user access issue in connected runtime mode.'',
             iq_supportTicketId = supportTicketId, iq_operatorNote = operatorNote\<rparr>")
      (auto simp: thenS_def dest!: start_ids intro!: steps_tail steps_rethrow steps_lift steps_create)
  done

lemma steps_endSupportImpersonation: "steps (endSupportImpersonationForCurrentSession h up fails cuid now session request)"
  unfolding endSupportImpersonationForCurrentSession_def
  apply (intro steps_intros)
  subgoal for target i found r reason
    by (cases "endSupportImpersonation now (im_id (ir_session r)) (cs_user_id session) (us_id (ir_targetUser r)) (im_reason (ir_session r)) reason")
      (auto dest!: end_ids intro!: steps_tail steps_lift steps_close split: option.split)
  done

lemma steps_updateSupportTicket: "steps (updateSupportTicketForCurrentSession h tie up fails cuid now session request)"
proof -
  have "steps (apply_workflow h tie up fails cuid now session i existing status effective nt)" for i existing status effective nt
    unfolding apply_workflow_def Let_def
    by (intro steps_lift steps_tail steps_workflow [where x = "i @ '':'' @ toISOString now"] tail_bind tail_simps)
      (simp_all add: createSupportTicketWorkflowAuditLog_def createAuditLogEvent_def createLogEvent_def)
  then show ?thesis
    unfolding updateSupportTicketForCurrentSession_def Let_def by (intro steps_intros)
qed

lemma setFavorite_access [simp]: "access_view (fst (setFavorite tie cuid now u p b s)) = access_view s"
  unfolding setFavorite_def thenS_def
  by (rule tail_bind) (auto simp: add_favorite_def remove_favorite_def putS_def getS_def access_view_def audit_ids_def security_ids_def)

lemma steps_favorite: "steps (updateSupportTicketPresetFavoriteForCurrentSession tie cuid now session request)"
proof -
  have "steps (setFavorite tie' cuid now u p b)" for tie' u p b
    by (simp add: steps_def access_step.same)
  then show ?thesis
    unfolding updateSupportTicketPresetFavoriteForCurrentSession_def Let_def by (intro steps_intros steps_tail) simp_all
qed

section \<open>Sequences of requests\<close>

inductive support_run :: "log_host \<Rightarrow> tie_orders \<Rightarrow> (nat \<Rightarrow> string) \<Rightarrow> support_db \<Rightarrow> support_db \<Rightarrow> bool" for h tie cuid s where
  initial: "support_run h tie cuid s s"
| start: "support_run h tie cuid s t \<Longrightarrow>
    support_run h tie cuid s (fst (startSupportImpersonationForCurrentSession h up fails cuid now session request t))"
| stop: "support_run h tie cuid s t \<Longrightarrow>
    support_run h tie cuid s (fst (endSupportImpersonationForCurrentSession h up fails cuid now session request t))"
| update: "support_run h tie cuid s t \<Longrightarrow>
    support_run h tie cuid s (fst (updateSupportTicketForCurrentSession h tie up fails cuid now session request t))"
| favorite: "support_run h tie cuid s t \<Longrightarrow>
    support_run h tie cuid s (fst (updateSupportTicketPresetFavoriteForCurrentSession tie cuid now session request t))"

lemma support_run_access: "support_run h tie cuid s s' \<Longrightarrow> access_step\<^sup>*\<^sup>* (access_view s) (access_view s')"
proof (induction rule: support_run.induct)
  case initial
  show ?case by simp
next
  case (start t up fails now session request)
  then show ?case using steps_startSupportImpersonation unfolding steps_def by (meson rtranclp.rtrancl_into_rtrancl)
next
  case (stop t up fails now session request)
  then show ?case using steps_endSupportImpersonation unfolding steps_def by (meson rtranclp.rtrancl_into_rtrancl)
next
  case (update t up fails now session request)
  then show ?case using steps_updateSupportTicket unfolding steps_def by (meson rtranclp.rtrancl_into_rtrancl)
next
  case (favorite t now session request)
  then show ?case using steps_favorite unfolding steps_def by (meson rtranclp.rtrancl_into_rtrancl)
qed

text \<open>What every step of the abstract machine keeps holds along any sequence of requests.\<close>

locale access_invariant =
  fixes inv :: "access_state \<Rightarrow> bool"
  assumes step_keeps: "access_step v v' \<Longrightarrow> inv v \<Longrightarrow> inv v'"
begin

lemma steps_keep: "access_step\<^sup>*\<^sup>* v v' \<Longrightarrow> inv v \<Longrightarrow> inv v'"
  by (induction rule: rtranclp_induct) (auto intro: step_keeps)

lemma run_keeps: "support_run h tie cuid s s' \<Longrightarrow> inv (access_view s) \<Longrightarrow> inv (access_view s')"
  using support_run_access steps_keep by blast

end

text \<open>A log has one event for every impersonation that was started and one for every one that has ended.\<close>

definition logs_agree :: "string \<Rightarrow> string \<Rightarrow> impersonation_row list \<Rightarrow> string option list \<Rightarrow> bool" where
  "logs_agree opening ending imps ids \<longleftrightarrow> (\<forall>i.
     count_list ids (Some (opening @ i)) = (if \<exists>r \<in> set imps. im_id r = i then 1 else 0)
     \<and> count_list ids (Some (ending @ i)) = (if \<exists>r \<in> set imps. im_id r = i \<and> im_endedAt r \<noteq> None then 1 else 0))"

lemma agree_other:
  assumes "logs_agree opening ending imps ids" and "\<And>i. e \<noteq> opening @ i \<and> e \<noteq> ending @ i"
  shows "logs_agree opening ending imps (ids @ [Some e])"
  using assms by (simp add: logs_agree_def count_list_append)

lemma agree_open:
  assumes "logs_agree opening ending imps ids" and "\<And>i j. opening @ i \<noteq> ending @ j"
    and "im_id r \<notin> im_id ` set imps" and "im_endedAt r = None"
  shows "logs_agree opening ending (imps @ [r]) (ids @ [Some (opening @ im_id r)])"
proof -
  have "\<not> (\<exists>x \<in> set imps. im_id x = im_id r)" using assms(3) by (metis image_eqI)
  then show ?thesis using assms(1,2,4) by (auto simp: logs_agree_def count_list_append)
qed

lemma bex_map: "(\<exists>y \<in> set (map f xs). P y) \<longleftrightarrow> (\<exists>x \<in> set xs. P (f x))"
  by simp

lemma agree_close:
  assumes "logs_agree opening ending imps ids" and "\<And>i j. opening @ i \<noteq> ending @ j"
    and "distinct (map im_id imps)" and "r \<in> set imps" and "im_endedAt r = None"
  shows "logs_agree opening ending (map (\<lambda>x. if im_id x = im_id r then x\<lparr>im_endedAt := Some t, im_closeReason := reason\<rparr> else x) imps)
    (ids @ [Some (ending @ im_id r)])"
proof -
  let ?f = "\<lambda>x. if im_id x = im_id r then x\<lparr>im_endedAt := Some t, im_closeReason := reason\<rparr> else x"
  have open_r: "\<not> (\<exists>x \<in> set imps. im_id x = im_id r \<and> im_endedAt x \<noteq> None)"
    using assms(3-5) by (auto simp: distinct_map inj_on_def)
  have "im_id (?f x) = im_id x" for x by simp
  then have ids: "(\<exists>x \<in> set (map ?f imps). im_id x = i) \<longleftrightarrow> (\<exists>x \<in> set imps. im_id x = i)" for i
    unfolding bex_map by metis
  have ends: "(\<exists>x \<in> set (map ?f imps). im_id x = i \<and> im_endedAt x \<noteq> None)
      \<longleftrightarrow> i = im_id r \<or> (\<exists>x \<in> set imps. im_id x = i \<and> im_endedAt x \<noteq> None)" for i
    unfolding bex_map
  proof
    assume "i = im_id r \<or> (\<exists>x \<in> set imps. im_id x = i \<and> im_endedAt x \<noteq> None)"
    then obtain x where "x \<in> set imps" "im_id x = i" "x = r \<or> im_endedAt x \<noteq> None" using assms(4) by blast
    then show "\<exists>x \<in> set imps. im_id (?f x) = i \<and> im_endedAt (?f x) \<noteq> None" by (intro bexI [of _ x]) auto
  qed (auto split: if_splits)
  show ?thesis
    unfolding logs_agree_def ids ends
  proof (intro allI conjI)
    fix i
    have c: "count_list ids (Some (opening @ i)) = (if \<exists>x \<in> set imps. im_id x = i then 1 else 0)"
      "count_list ids (Some (ending @ i)) = (if \<exists>x \<in> set imps. im_id x = i \<and> im_endedAt x \<noteq> None then 1 else 0)"
      using assms(1) unfolding logs_agree_def by blast+
    show "count_list (ids @ [Some (ending @ im_id r)]) (Some (opening @ i)) = (if \<exists>x \<in> set imps. im_id x = i then 1 else 0)"
      using assms(2) [of i "im_id r"] by (simp add: count_list_append c(1))
    show "count_list (ids @ [Some (ending @ im_id r)]) (Some (ending @ i))
        = (if i = im_id r \<or> (\<exists>x \<in> set imps. im_id x = i \<and> im_endedAt x \<noteq> None) then 1 else 0)"
      using open_r unfolding count_list_append c(2) by (cases "i = im_id r") auto
  qed
qed

definition logged :: "access_state \<Rightarrow> bool" where
  "logged v = (case v of (imps, as, ss) \<Rightarrow> distinct (map im_id imps)
     \<and> logs_agree ''support-impersonation:'' ''support-impersonation-ended:'' imps as
     \<and> logs_agree ''support-impersonation-security:'' ''support-impersonation-ended-security:'' imps ss)"

lemma same_ids: "map im_id (map (\<lambda>x. if im_id x = i then x\<lparr>im_endedAt := t, im_closeReason := reason\<rparr> else x) imps) = map im_id imps"
  by simp

lemma logged_step: "access_step v v' \<Longrightarrow> logged v \<Longrightarrow> logged v'"
proof (induction rule: access_step.induct)
  case (opened r imps as ss)
  then show ?case unfolding logged_def prod.case by (intro conjI agree_open) auto
next
  case (closed r imps as ss reason t)
  then show ?case unfolding logged_def prod.case same_ids by (intro conjI agree_close) auto
next
  case (ticket imps as ss e)
  then show ?case unfolding logged_def prod.case by (intro conjI agree_other) auto
qed

interpretation logged_access: access_invariant logged
  by unfold_locales (rule logged_step)

text \<open>An impersonation that has ended stays as it is.\<close>

definition settled :: "impersonation_row \<Rightarrow> access_state \<Rightarrow> bool" where
  "settled r v \<longleftrightarrow> distinct (map im_id (fst v)) \<and> r \<in> set (fst v) \<and> im_endedAt r \<noteq> None"

lemma settled_step: "access_step v v' \<Longrightarrow> settled r v \<Longrightarrow> settled r v'"
proof (induction rule: access_step.induct)
  case (closed x imps as ss reason t)
  then have "im_id r \<noteq> im_id x" by (auto simp: settled_def distinct_map inj_on_def)
  then have "r = (\<lambda>y. if im_id y = im_id x then y\<lparr>im_endedAt := Some t, im_closeReason := reason\<rparr> else y) r" by simp
  with closed show ?case unfolding settled_def fst_conv same_ids list.set_map by blast
qed (auto simp: settled_def)

interpretation settled_access: access_invariant "settled r" for r
  by unfold_locales (rule settled_step)

section \<open>Properties\<close>

text \<open>
  C29. Along any sequence of requests of the support service every impersonation has exactly one started event
  in the audit log and one in the security log, and exactly one ended event in each once it has ended,
  none before.
\<close>

theorem impersonations_logged:
  assumes "support_run h tie cuid s s'" and "sp_impersonations s = []" and "sc_audit s = []" and "sc_security s = []"
  shows "distinct (map im_id (sp_impersonations s'))
    \<and> logs_agree ''support-impersonation:'' ''support-impersonation-ended:'' (sp_impersonations s') (audit_ids s')
    \<and> logs_agree ''support-impersonation-security:'' ''support-impersonation-ended-security:'' (sp_impersonations s') (security_ids s')"
proof -
  have "logged (access_view s)"
    using assms(2-4) by (simp add: logged_def access_view_def audit_ids_def security_ids_def logs_agree_def)
  then have "logged (access_view s')" by (rule logged_access.run_keeps [OF assms(1)])
  then show ?thesis by (simp add: logged_def access_view_def)
qed

text \<open>
  C30. An impersonation that has ended keeps its end and its reason along any sequence of requests, and ending
  it again changes nothing and answers with the end it has.
\<close>

theorem impersonation_ends_once:
  assumes "support_run h tie cuid s s'" and "distinct (map im_id (sp_impersonations s))"
    and "r \<in> set (sp_impersonations s)" and "im_endedAt r = Some t"
    and "ad_allowed (canEndSupportImpersonation (cs_principal session))"
    and "optional_field request ''impersonationSessionId'' = Inr (Some (im_id r))" and "include_impersonation s' r = Some x"
  shows "r \<in> set (sp_impersonations s')
    \<and> endSupportImpersonationForCurrentSession h up fails cuid now session request s' = (s', Inr (mapSupportImpersonationRecordToEndResult x))
    \<and> ex_endedAt (mapSupportImpersonationRecordToEndResult x) = toISOString t"
proof -
  have "settled r (access_view s)" using assms(2-4) by (simp add: settled_def access_view_def)
  then have s': "settled r (access_view s')" by (rule settled_access.run_keeps [OF assms(1)])
  then have r: "r \<in> set (sp_impersonations s')" "distinct (map im_id (sp_impersonations s'))"
    by (simp_all add: settled_def access_view_def)
  then have "find_impersonation (im_id r) s' = Some r"
    unfolding find_impersonation_def using find_unique_with [of im_id "sp_impersonations s'" r "\<lambda>_. True"] by simp
  then have "findImpersonationById (im_id r) s' = Some x" by (simp add: findImpersonationById_def assms(7))
  moreover have x: "ir_session x = r" using assms(7) by (auto simp: include_impersonation_def bind_eq_Some_conv)
  ultimately have "endSupportImpersonationForCurrentSession h up fails cuid now session request s' = (s', Inr (mapSupportImpersonationRecordToEndResult x))"
    using assms(4-6)
    by (simp add: endSupportImpersonationForCurrentSession_def requireDecision_def op_simps bindS_def liftS_def getS_def)
  then show ?thesis using r x assms(4) by (simp add: mapSupportImpersonationRecordToEndResult_def Let_def)
qed

section \<open>Examples\<close>

definition demo_enter :: json_object where
  "demo_enter = [(''targetUserId'', JStr ''u1''), (''reason'', JStr ''billing'')]"

definition demo_entered :: support_db where
  "demo_entered = fst (startSupportImpersonationForCurrentSession demo_host True (\<lambda>_. True) demo_ids 50 demo_agent (Some demo_enter) demo_support)"

definition demo_open :: impersonation_row where
  "demo_open = \<lparr>im_id = ''i1'', im_supportActorId = ''u0'', im_targetUserId = ''u1'', im_supportTicketId = None, im_reason = ''billing'',
     im_operatorNote = None, im_closeReason = None, im_createdAt = 50, im_endedAt = None\<rparr>"

theorem impersonations_logged_witness:
  "logs_agree ''support-impersonation:'' ''support-impersonation-ended:'' (sp_impersonations demo_entered) (audit_ids demo_entered)"
proof -
  have "support_run demo_host demo_ties demo_ids demo_support demo_entered"
    unfolding demo_entered_def by (intro support_run.start support_run.initial)
  moreover have "sp_impersonations demo_support = []" "sc_audit demo_support = []" "sc_security demo_support = []"
    by (simp_all add: demo_support_def)
  ultimately show ?thesis by (intro impersonations_logged [THEN conjunct2, THEN conjunct1])
qed

definition demo_left :: support_db where
  "demo_left = demo_support\<lparr>sp_impersonations := [demo_open\<lparr>im_endedAt := Some 60\<rparr>]\<rparr>"

theorem impersonation_ends_once_witness:
  "fst (endSupportImpersonationForCurrentSession demo_host True (\<lambda>_. True) demo_ids 90 demo_agent
     (Some [(''impersonationSessionId'', JStr ''i1'')]) demo_left) = demo_left"
proof -
  have run: "support_run demo_host demo_ties demo_ids demo_left demo_left" by (rule support_run.initial)
  have r: "demo_open\<lparr>im_endedAt := Some 60\<rparr> \<in> set (sp_impersonations demo_left)" "distinct (map im_id (sp_impersonations demo_left))"
    "im_endedAt (demo_open\<lparr>im_endedAt := Some 60\<rparr>) = Some 60" by (simp_all add: demo_left_def)
  have allowed: "ad_allowed (canEndSupportImpersonation (cs_principal demo_agent))" by code_simp
  have named: "optional_field (Some [(''impersonationSessionId'', JStr ''i1'')]) ''impersonationSessionId'' = Inr (Some (im_id (demo_open\<lparr>im_endedAt := Some 60\<rparr>)))"
    by code_simp
  obtain x where "include_impersonation demo_left (demo_open\<lparr>im_endedAt := Some 60\<rparr>) = Some x"
    by (simp add: include_impersonation_def demo_left_def demo_open_def demo_support_def demo_user_def findUserById_def)
  from impersonation_ends_once [where h = demo_host and up = True and fails = "\<lambda>_. True" and now = 90, OF run r(2,1,3) allowed named this]
  show ?thesis by simp
qed

text \<open>
  The transaction reads whether the session has ended and then writes; when two of them read before either
  writes, both log the end and the second replaces the time of the first.
\<close>

lemma concurrent_ends_log_twice:
  assumes "end_writes cuid i t reason e1 e2 s = (s1, Inr y)" and "end_writes cuid i t' reason' e1 e2 s1 = (s2, Inr y')"
  shows "audit_ids s2 = audit_ids s @ [Some (le_eventId e1), Some (le_eventId e1)]"
    and "r \<in> set (sp_impersonations s) \<Longrightarrow> im_id r = i \<Longrightarrow> r\<lparr>im_endedAt := Some t', im_closeReason := reason'\<rparr> \<in> set (sp_impersonations s2)"
proof -
  note one = end_writes_access [OF assms(1)] and two = end_writes_access [OF assms(2)]
  show "audit_ids s2 = audit_ids s @ [Some (le_eventId e1), Some (le_eventId e1)]"
    using one two by (simp add: access_view_def)
  assume r: "r \<in> set (sp_impersonations s)" "im_id r = i"
  then have "r\<lparr>im_endedAt := Some t, im_closeReason := reason\<rparr> \<in> set (sp_impersonations s1)"
    using one by (force simp: access_view_def)
  then show "r\<lparr>im_endedAt := Some t', im_closeReason := reason'\<rparr> \<in> set (sp_impersonations s2)"
    using two r(2) by (auto simp: access_view_def intro!: rev_image_eqI)
qed

end
