(* ===== verification/AiPolicy.thy ===== *)
theory AiPolicy
  imports SupportTickets
begin

text \<open>
  AI providers and the policy that says which of them users may reach and how: the registry, the catalogue of
  models, default policies and checks of secrets of \<open>packages/providers/src/index.ts\<close>; the stored policy of
  \<open>apps/api/src/providers/ai-provider-policy.repository.ts\<close> and the service over it
  (\<open>ai-provider-policy.service.ts\<close>). A stored policy is a row with JSON columns; an update writes it together
  with three log rows, and the history is read back from the audit log.
\<close>

section \<open>Providers and models\<close>

record provider_entry =
  pv_provider :: string
  pv_displayName :: string
  pv_availability :: string
  pv_supportsProxy :: bool
  pv_supportsBringYourOwnKey :: bool

definition provider_entry_of :: "string \<Rightarrow> string \<Rightarrow> string \<Rightarrow> bool \<Rightarrow> provider_entry" where
  "provider_entry_of provider name availability ownKey =
     \<lparr>pv_provider = provider, pv_displayName = name, pv_availability = availability, pv_supportsProxy = True,
      pv_supportsBringYourOwnKey = ownKey\<rparr>"

definition providerRegistry :: "provider_entry list" where
  "providerRegistry =
     [provider_entry_of ''openrouter'' ''OpenRouter'' ''active'' True,
      provider_entry_of ''openai'' ''OpenAI'' ''active'' True,
      provider_entry_of ''routerai'' ''RouterAI'' ''beta'' False,
      provider_entry_of ''anthropic'' ''Anthropic'' ''beta'' True,
      provider_entry_of ''polza'' ''Polza AI'' ''beta'' True,
      provider_entry_of ''internal'' ''QuizMind Gateway'' ''beta'' False]"

text \<open>The catalogue leaves out the properties that describe models fetched from a provider.\<close>

record model_entry =
  ml_provider :: string
  ml_modelId :: string
  ml_displayName :: string
  ml_capabilityTags :: "string list"
  ml_availability :: string
  ml_latencyClass :: string
  ml_planAvailability :: "string list option"

definition model_entry_of :: "string \<Rightarrow> string \<Rightarrow> string \<Rightarrow> string \<Rightarrow> string list \<Rightarrow> model_entry" where
  "model_entry_of provider model name availability plans =
     \<lparr>ml_provider = provider, ml_modelId = model, ml_displayName = name, ml_capabilityTags = [''text'', ''vision''],
      ml_availability = availability, ml_latencyClass = ''standard'', ml_planAvailability = Some plans\<rparr>"

definition providerModelCatalog :: "model_entry list" where
  "providerModelCatalog =
     [(model_entry_of ''openrouter'' ''openrouter/auto'' ''OpenRouter Auto'' ''active'' [''free'', ''pro'', ''business''])
        \<lparr>ml_capabilityTags := [''text'', ''routing''], ml_latencyClass := ''low''\<rparr>,
      model_entry_of ''openai'' ''gpt-4.1-mini'' ''GPT-4.1 Mini'' ''active'' [''pro'', ''business''],
      model_entry_of ''routerai'' ''openai/gpt-5.3-chat'' ''GPT-5.3 Chat'' ''beta'' [''free'', ''pro'', ''business''],
      model_entry_of ''routerai'' ''openai/gpt-4o-mini'' ''GPT-4o Mini'' ''beta'' [''free'', ''pro'', ''business''],
      model_entry_of ''routerai'' ''openai/gpt-4o'' ''GPT-4o'' ''beta'' [''pro'', ''business''],
      model_entry_of ''routerai'' ''google/gemini-2.5-flash'' ''Gemini 2.5 Flash'' ''beta'' [''free'', ''pro'', ''business''],
      model_entry_of ''routerai'' ''anthropic/claude-3.5-sonnet'' ''Claude 3.5 Sonnet'' ''beta'' [''pro'', ''business''],
      model_entry_of ''anthropic'' ''claude-sonnet-4'' ''Claude Sonnet 4'' ''beta'' [''business''],
      model_entry_of ''polza'' ''polza/gpt-4o-mini'' ''Polza GPT-4o Mini'' ''beta'' [''free'', ''pro'', ''business'']]"

definition getProviderCatalog :: "provider_entry list \<times> model_entry list" where
  "getProviderCatalog = (providerRegistry, providerModelCatalog)"

definition listModelsForProvider :: "string \<Rightarrow> model_entry list" where
  "listModelsForProvider provider = filter (\<lambda>e. ml_provider e = provider) providerModelCatalog"

definition listAvailableModelsForPlan :: "string option \<Rightarrow> model_entry list" where
  "listAvailableModelsForPlan planCode =
     (if \<not> truthy planCode then providerModelCatalog
      else filter (\<lambda>e. case ml_planAvailability e of None \<Rightarrow> True | Some plans \<Rightarrow> plans = [] \<or> the planCode \<in> set plans)
             providerModelCatalog)"

record secret_check =
  sk_valid :: bool
  sk_normalizedSecret :: "string option"
  sk_reason :: "string option"

definition refused_secret :: "string \<Rightarrow> secret_check" where
  "refused_secret reason = \<lparr>sk_valid = False, sk_normalizedSecret = None, sk_reason = Some reason\<rparr>"

definition validateProviderSecretShape :: "string \<Rightarrow> string \<Rightarrow> secret_check" where
  "validateProviderSecretShape provider secret =
     (let n = trim secret in
      if n = [] then refused_secret ''Provider secret is required.''
      else if length n < 12 then refused_secret ''Provider secret looks too short to be valid.''
      else if provider = ''internal'' then refused_secret ''Internal gateway credentials are platform-managed only.''
      else if provider = ''openai'' \<and> \<not> startsWith n ''sk-'' then refused_secret ''OpenAI keys usually start with \"sk-\".''
      else if provider = ''anthropic'' \<and> \<not> startsWith n ''sk-ant-'' then refused_secret ''Anthropic keys usually start with \"sk-ant-\".''
      else if provider = ''openrouter'' \<and> \<not> startsWith n ''sk-or-'' then refused_secret ''OpenRouter keys usually start with \"sk-or-\".''
      else if provider = ''routerai'' \<and> length n < 16 then refused_secret ''RouterAI keys usually have at least 16 characters.''
      else if provider = ''polza'' \<and> length n < 16 then refused_secret ''Polza keys usually have at least 16 characters.''
      else \<lparr>sk_valid = True, sk_normalizedSecret = Some n,
             sk_reason = Some ''Provider secret passed local shape validation (format check only; upstream acceptance is verified on live requests).''\<rparr>)"

record billing_question =
  bq_requestedProvider :: "string option"
  bq_workspaceRegion :: "string option"
  bq_currency :: "string option"
  bq_manualInvoicing :: bool

definition resolveBillingProvider :: "billing_question \<Rightarrow> string" where
  "resolveBillingProvider q =
     (let currency = map_option toLowerCase (bq_currency q) in
      if bq_requestedProvider q = Some ''manual'' \<or> bq_manualInvoicing q then ''manual''
      else if bq_requestedProvider q = Some ''mock'' then ''mock''
      else if bq_requestedProvider q = Some ''yookassa'' then ''yookassa''
      else if bq_requestedProvider q = Some ''paddle'' then ''paddle''
      else if bq_workspaceRegion q = Some ''RU'' \<or> bq_workspaceRegion q = Some ''KZ'' \<or> bq_workspaceRegion q = Some ''UZ'' then ''yookassa''
      else if currency = Some ''invoice'' then ''manual''
      else if currency = Some ''rub'' then ''yookassa''
      else if currency = Some ''eur'' then ''paddle''
      else ''stripe'')"

section \<open>Policies\<close>

datatype access_mode = PlatformOnly | UserKeyOptional | UserKeyRequired | AdminApprovedUserKey | EnterpriseManaged

definition show_access_mode :: "access_mode \<Rightarrow> string" where
  "show_access_mode m = (case m of PlatformOnly \<Rightarrow> ''platform_only'' | UserKeyOptional \<Rightarrow> ''user_key_optional''
     | UserKeyRequired \<Rightarrow> ''user_key_required'' | AdminApprovedUserKey \<Rightarrow> ''admin_approved_user_key''
     | EnterpriseManaged \<Rightarrow> ''enterprise_managed'')"

definition aiAccessPolicyModes :: "access_mode list" where
  "aiAccessPolicyModes = [PlatformOnly, UserKeyOptional, UserKeyRequired, AdminApprovedUserKey, EnterpriseManaged]"

record ai_access_policy =
  aa_mode :: access_mode
  aa_allowPlatformManaged :: bool
  aa_allowBringYourOwnKey :: bool
  aa_allowDirectProviderMode :: bool
  aa_allowWorkspaceSharedCredentials :: "bool option"
  aa_requireAdminApproval :: "bool option"
  aa_allowVisionOnUserKeys :: "bool option"
  aa_providers :: "string list"
  aa_allowedModelTags :: "string list option"
  aa_defaultProvider :: "string option"
  aa_defaultModel :: "string option"
  aa_reason :: "string option"

record default_policy_input =
  dp_mode :: "access_mode option"
  dp_providers :: "string list option"
  dp_defaultProvider :: "string option"
  dp_defaultModel :: "string option"
  dp_allowWorkspaceSharedCredentials :: "bool option"
  dp_requireAdminApproval :: "bool option"
  dp_allowVisionOnUserKeys :: "bool option"
  dp_allowedModelTags :: "string list option"
  dp_reason :: "string option"

definition first_of :: "'a list \<Rightarrow> 'a option" where
  "first_of xs = (case xs of [] \<Rightarrow> None | x # _ \<Rightarrow> Some x)"

definition buildDefaultAiAccessPolicy :: "default_policy_input \<Rightarrow> ai_access_policy" where
  "buildDefaultAiAccessPolicy i =
     (let mode = nullish (dp_mode i) PlatformOnly;
          providers = nullish (dp_providers i) [''openrouter'']
      in \<lparr>aa_mode = mode, aa_allowPlatformManaged = True, aa_allowBringYourOwnKey = (mode \<noteq> PlatformOnly),
          aa_allowDirectProviderMode = False,
          aa_allowWorkspaceSharedCredentials = Some (nullish (dp_allowWorkspaceSharedCredentials i) False),
          aa_requireAdminApproval = Some (nullish (dp_requireAdminApproval i) (mode = AdminApprovedUserKey)),
          aa_allowVisionOnUserKeys = Some (nullish (dp_allowVisionOnUserKeys i) False), aa_providers = providers,
          aa_allowedModelTags = Some (sort (nullish (dp_allowedModelTags i) [])),
          aa_defaultProvider = orElse (dp_defaultProvider i) (first_of providers), aa_defaultModel = dp_defaultModel i,
          aa_reason = dp_reason i\<rparr>)"

record ai_policy_snapshot = ai_access_policy +
  sn_scopeType :: string
  sn_scopeKey :: string
  sn_updatedById :: "string option"
  sn_createdAt :: string
  sn_updatedAt :: string

section \<open>The table\<close>

record ai_policy_row =
  py_id :: string
  py_scopeKey :: string
  py_scopeType :: string
  py_mode :: access_mode
  py_allowPlatformManaged :: bool
  py_allowBringYourOwnKey :: bool
  py_allowDirectProviderMode :: bool
  py_allowWorkspaceSharedCredentials :: bool
  py_requireAdminApproval :: bool
  py_allowVisionOnUserKeys :: bool
  py_providersJson :: json
  py_allowedModelTagsJson :: "json option"
  py_defaultProvider :: "string option"
  py_defaultModel :: "string option"
  py_reason :: "string option"
  py_updatedById :: "string option"
  py_createdAt :: int
  py_updatedAt :: int

record policy_db = support_db +
  pd_policies :: "ai_policy_row list"

definition findPolicy :: "string \<Rightarrow> 'm policy_db_scheme \<Rightarrow> ai_policy_row option" where
  "findPolicy scopeKey s = find (\<lambda>r. py_scopeKey r = scopeKey) (pd_policies s)"

definition findGlobal :: "'m policy_db_scheme \<Rightarrow> ai_policy_row option" where
  "findGlobal s = findPolicy ''global'' s"

text \<open>What an update writes; the switches come from the request as they are and meet a Boolean column.\<close>

record policy_write =
  pw_mode :: access_mode
  pw_allowPlatformManaged :: json
  pw_allowBringYourOwnKey :: json
  pw_allowDirectProviderMode :: json
  pw_allowWorkspaceSharedCredentials :: json
  pw_requireAdminApproval :: json
  pw_allowVisionOnUserKeys :: json
  pw_providers :: "string list"
  pw_allowedModelTags :: "string list"
  pw_defaultProvider :: "string option"
  pw_defaultModel :: "string option"
  pw_reason :: "string option"

definition bool_column :: "json \<Rightarrow> bool result" where
  "bool_column v = (case v of JBool b \<Rightarrow> Inr b | _ \<Rightarrow> Inl InvalidValue)"

text \<open>The columns of \<open>update\<close>, which are those of \<open>create\<close> but for the scope, on a row with the other columns.\<close>

definition write_policy :: "string \<Rightarrow> policy_write \<Rightarrow> ai_policy_row \<Rightarrow> ai_policy_row result" where
  "write_policy by w r =
     bindR (bool_column (pw_allowPlatformManaged w)) (\<lambda>platform.
     bindR (bool_column (pw_allowBringYourOwnKey w)) (\<lambda>own.
     bindR (bool_column (pw_allowDirectProviderMode w)) (\<lambda>direct.
     bindR (bool_column (pw_allowWorkspaceSharedCredentials w)) (\<lambda>shared.
     bindR (bool_column (pw_requireAdminApproval w)) (\<lambda>approval.
     bindR (bool_column (pw_allowVisionOnUserKeys w)) (\<lambda>vision.
     Inr (r\<lparr>py_mode := pw_mode w, py_allowPlatformManaged := platform, py_allowBringYourOwnKey := own,
          py_allowDirectProviderMode := direct, py_allowWorkspaceSharedCredentials := shared, py_requireAdminApproval := approval,
          py_allowVisionOnUserKeys := vision, py_providersJson := JArr (map JStr (pw_providers w)),
          py_allowedModelTagsJson := Some (JArr (map JStr (pw_allowedModelTags w))), py_defaultProvider := pw_defaultProvider w,
          py_defaultModel := pw_defaultModel w, py_reason := pw_reason w, py_updatedById := Some by\<rparr>)))))))"

definition blank_policy :: "string \<Rightarrow> string \<Rightarrow> string \<Rightarrow> int \<Rightarrow> ai_policy_row" where
  "blank_policy i scopeKey scopeType now =
     \<lparr>py_id = i, py_scopeKey = scopeKey, py_scopeType = scopeType, py_mode = PlatformOnly, py_allowPlatformManaged = True,
      py_allowBringYourOwnKey = False, py_allowDirectProviderMode = False, py_allowWorkspaceSharedCredentials = False,
      py_requireAdminApproval = False, py_allowVisionOnUserKeys = False, py_providersJson = JNull, py_allowedModelTagsJson = None,
      py_defaultProvider = None, py_defaultModel = None, py_reason = None, py_updatedById = None, py_createdAt = now, py_updatedAt = now\<rparr>"

definition upsert_policy ::
  "(nat \<Rightarrow> string) \<Rightarrow> string \<Rightarrow> string \<Rightarrow> string \<Rightarrow> int \<Rightarrow> policy_write \<Rightarrow> ('m policy_db_scheme, ai_policy_row) op" where
  "upsert_policy cuid scopeKey scopeType by now w s =
     (let old = findPolicy scopeKey s;
          r0 = nullish old (blank_policy (cuid (ad_next s)) scopeKey scopeType now)
      in case write_policy by w (r0\<lparr>py_updatedAt := now\<rparr>) of
           Inl e \<Rightarrow> (s, Inl e)
         | Inr r \<Rightarrow>
             if findUserById by s = None then (s, Inl ForeignKeyViolation)
             else if old = None then (s\<lparr>pd_policies := pd_policies s @ [r], ad_next := Suc (ad_next s)\<rparr>, Inr r)
             else (s\<lparr>pd_policies := map (\<lambda>x. if py_scopeKey x = scopeKey then r else x) (pd_policies s)\<rparr>, Inr r))"

text \<open>The insert into the domain event table (\<open>admin-log-write-path.ts\<close>).\<close>

definition createDomainEventWithReadModel :: "(nat \<Rightarrow> string) \<Rightarrow> string \<Rightarrow> json \<Rightarrow> int \<Rightarrow> ('m support_db_scheme, event_row) op" where
  "createDomainEventWithReadModel cuid eventType payload at' s =
     (let r = \<lparr>ev_id = cuid (ad_next s), ev_eventType = eventType, ev_actorId = None, ev_severity = None,
               ev_json = Some payload, ev_createdAt = at'\<rparr>
      in (s\<lparr>sc_domain := sc_domain s @ [r], ad_next := Suc (ad_next s)\<rparr>, Inr r))"

text \<open>The three log rows of a change, and the rows they have in the administration log.\<close>

definition write_three_logs ::
  "(nat \<Rightarrow> string) \<Rightarrow> log_insert \<Rightarrow> log_insert \<Rightarrow> string \<Rightarrow> json \<Rightarrow> int \<Rightarrow> ('m support_db_scheme, admin_log_data list) op" where
  "write_three_logs cuid auditInsert securityInsert domainEventType domainPayload at' =
     bindS (createAuditLogWithReadModel cuid auditInsert) (\<lambda>auditRow.
     bindS (createSecurityEventWithReadModel cuid securityInsert) (\<lambda>securityRow.
     bindS (createDomainEventWithReadModel cuid domainEventType domainPayload at') (\<lambda>domainRow.
     retS [buildReadModelFromAuditRow auditRow, buildReadModelFromSecurityRow securityRow, buildReadModelFromDomainRow domainRow])))"

definition upsertWithLogs ::
  "bool \<Rightarrow> (admin_log_data \<Rightarrow> bool) \<Rightarrow> (nat \<Rightarrow> string) \<Rightarrow> string \<Rightarrow> string \<Rightarrow> string \<Rightarrow> int \<Rightarrow> policy_write \<Rightarrow> log_event \<Rightarrow> log_event
     \<Rightarrow> string \<Rightarrow> json \<Rightarrow> ('m policy_db_scheme, ai_policy_row) op" where
  "upsertWithLogs up fails cuid scopeKey scopeType by now w auditLog securityLog domainEventType domainPayload =
     bindS (transaction (bindS (upsert_policy cuid scopeKey scopeType by now w) (\<lambda>r.
       bindS (write_three_logs cuid (insert_of (Some (le_actorId auditLog)) auditLog now)
          (insert_of (Some (le_actorId securityLog)) securityLog now) domainEventType domainPayload now) (\<lambda>events.
       retS (r, events))))) (\<lambda>(r, events).
     thenS (upsertAdminLogEventsBestEffort up fails cuid events) (retS r))"

text \<open>The audit rows about a scope, the newest first; the actors they name.\<close>

definition listHistory :: "string list \<Rightarrow> nat \<Rightarrow> 'm policy_db_scheme \<Rightarrow> audit_row list \<times> user_row list" where
  "listHistory scopeKeys limit s =
     (if scopeKeys = [] then ([], [])
      else let records = take limit (by_newest (\<lambda>r. (au_createdAt r, au_id r))
                 (filter (\<lambda>r. au_targetType r = ''ai_provider_policy'' \<and> au_targetId r \<in> set scopeKeys) (sc_audit s)));
               actorIds = uniq (map the (filter truthy (map au_actorId records)))
           in (records, if actorIds = [] then [] else filter (\<lambda>u. us_id u \<in> set actorIds) (ad_users s)))"

section \<open>The service\<close>

definition json_text_items :: "json list \<Rightarrow> string list" where
  "json_text_items items = concat (map (\<lambda>x. case x of JStr t \<Rightarrow> [t] | _ \<Rightarrow> []) items)"

definition readJsonStringArray :: "json option \<Rightarrow> string list" where
  "readJsonStringArray v = (case v of Some (JArr items) \<Rightarrow> filter (\<lambda>t. trim t \<noteq> []) (json_text_items items) | _ \<Rightarrow> [])"

definition known_providers :: "string list \<Rightarrow> string list" where
  "known_providers ps = sort (uniq (filter (\<lambda>p. p \<in> set (map pv_provider providerRegistry)) ps))"

definition clean_tags :: "string list \<Rightarrow> string list" where
  "clean_tags ts = sort (uniq (filter (\<lambda>t. t \<noteq> []) (map trim ts)))"

text \<open>A property of the request that is not \<open>null\<close> or missing.\<close>

definition given :: "json_object \<Rightarrow> string \<Rightarrow> json option" where
  "given raw key = (case map_of raw key of Some JNull \<Rightarrow> None | v \<Rightarrow> v)"

definition normalizeProviderList :: "json option \<Rightarrow> string list \<Rightarrow> string list result" where
  "normalizeProviderList v fallback = (case v of
     None \<Rightarrow> Inr (known_providers fallback)
   | Some (JArr items) \<Rightarrow> Inr (known_providers (json_text_items items))
   | Some _ \<Rightarrow> Inl (JsError ''filter is not a function''))"

definition normalizeStringList :: "json option \<Rightarrow> string list \<Rightarrow> string list result" where
  "normalizeStringList v fallback = (case v of
     None \<Rightarrow> Inr (clean_tags fallback)
   | Some (JArr items) \<Rightarrow> (case json_strings items of
       Some ts \<Rightarrow> Inr (clean_tags ts) | None \<Rightarrow> Inl (JsError ''trim is not a function''))
   | Some _ \<Rightarrow> Inl (JsError ''map is not a function''))"

definition normalizeMode :: "json option \<Rightarrow> access_mode \<Rightarrow> access_mode" where
  "normalizeMode v fallback = (case v of
     Some (JStr t) \<Rightarrow> nullish (find (\<lambda>m. show_access_mode m = t) aiAccessPolicyModes) fallback
   | _ \<Rightarrow> fallback)"

definition readJsonString :: "json option \<Rightarrow> string option" where
  "readJsonString v = (case v of Some (JStr t) \<Rightarrow> or_undefined (trim t) | _ \<Rightarrow> None)"

definition readJsonBoolean :: "json option \<Rightarrow> bool option" where
  "readJsonBoolean v = (case v of Some (JBool b) \<Rightarrow> Some b | _ \<Rightarrow> None)"

text \<open>\<open>platformAiProvider\<close> comes from the environment.\<close>

definition createVirtualPolicy :: "string \<Rightarrow> ai_policy_snapshot" where
  "createVirtualPolicy platformAiProvider = ai_access_policy.extend
     (buildDefaultAiAccessPolicy \<lparr>dp_mode = Some PlatformOnly, dp_providers = Some [platformAiProvider],
        dp_defaultProvider = Some platformAiProvider,
        dp_defaultModel = Some (if platformAiProvider = ''routerai'' then ''openai/gpt-4o-mini'' else ''openrouter/auto''),
        dp_allowWorkspaceSharedCredentials = None, dp_requireAdminApproval = None, dp_allowVisionOnUserKeys = None,
        dp_allowedModelTags = None,
        dp_reason = Some ''No persisted AI provider policy exists yet, so the global platform-only default applies.''\<rparr>)
     (ai_policy_snapshot.fields ''global'' ''global'' None (toISOString 0) (toISOString 0))"

definition known_default :: "string option \<Rightarrow> string option" where
  "known_default v = (if truthy v \<and> the v \<in> set (map pv_provider providerRegistry) then v else None)"

definition mapRecordToSnapshot :: "ai_policy_row \<Rightarrow> ai_policy_snapshot" where
  "mapRecordToSnapshot r =
     \<lparr>aa_mode = py_mode r, aa_allowPlatformManaged = py_allowPlatformManaged r, aa_allowBringYourOwnKey = py_allowBringYourOwnKey r,
      aa_allowDirectProviderMode = py_allowDirectProviderMode r,
      aa_allowWorkspaceSharedCredentials = Some (py_allowWorkspaceSharedCredentials r),
      aa_requireAdminApproval = Some (py_requireAdminApproval r), aa_allowVisionOnUserKeys = Some (py_allowVisionOnUserKeys r),
      aa_providers = known_providers (readJsonStringArray (Some (py_providersJson r))),
      aa_allowedModelTags = Some (clean_tags (readJsonStringArray (py_allowedModelTagsJson r))),
      aa_defaultProvider = known_default (py_defaultProvider r), aa_defaultModel = py_defaultModel r, aa_reason = py_reason r,
      sn_scopeType = py_scopeType r, sn_scopeKey = py_scopeKey r, sn_updatedById = py_updatedById r,
      sn_createdAt = toISOString (py_createdAt r), sn_updatedAt = toISOString (py_updatedAt r)\<rparr>"

definition resolvePolicyForWorkspace :: "string \<Rightarrow> 'm policy_db_scheme \<Rightarrow> ai_policy_snapshot" where
  "resolvePolicyForWorkspace platformAiProvider s = (case findGlobal s of
     Some r \<Rightarrow> mapRecordToSnapshot r | None \<Rightarrow> createVirtualPolicy platformAiProvider)"

definition switch :: "json_object \<Rightarrow> string \<Rightarrow> bool \<Rightarrow> json" where
  "switch raw key fallback = nullish (given raw key) (JBool fallback)"

text \<open>\<open>x === null ? undefined : x?.trim() || base || undefined\<close>.\<close>

definition next_text :: "json_object \<Rightarrow> string \<Rightarrow> string option \<Rightarrow> string option result" where
  "next_text raw key base = (if map_of raw key = Some JNull then Inr None
     else bindR (trim_field raw key) (\<lambda>v. Inr (if truthy v then v else or_none base)))"

definition choose_default :: "json option \<Rightarrow> string option \<Rightarrow> string list \<Rightarrow> string option" where
  "choose_default requested base providers =
     (case requested of
        Some (JStr p) \<Rightarrow> if p \<noteq> [] \<and> p \<in> set providers then Some p
          else if truthy base \<and> the base \<in> set providers then base else first_of providers
      | _ \<Rightarrow> if truthy base \<and> the base \<in> set providers then base else first_of providers)"

text \<open>The values an update sets, from the request and the policy in force.\<close>

definition merge_policy :: "json_object \<Rightarrow> ai_policy_snapshot \<Rightarrow> policy_write result" where
  "merge_policy raw base =
     (let mode = normalizeMode (map_of raw ''mode'') (aa_mode base) in
      bindR (normalizeProviderList (given raw ''providers'') (aa_providers base)) (\<lambda>providers.
      if providers = [] then Inl (BadRequest ''At least one provider must remain enabled in AI provider policy.'')
      else bindR (next_text raw ''defaultModel'' (aa_defaultModel base)) (\<lambda>defaultModel.
      bindR (normalizeStringList (given raw ''allowedModelTags'') (nullish (aa_allowedModelTags base) [])) (\<lambda>allowedModelTags.
      bindR (next_text raw ''reason'' (aa_reason base)) (\<lambda>reason.
      Inr \<lparr>pw_mode = mode, pw_allowPlatformManaged = switch raw ''allowPlatformManaged'' (aa_allowPlatformManaged base),
           pw_allowBringYourOwnKey = switch raw ''allowBringYourOwnKey'' (mode \<noteq> PlatformOnly),
           pw_allowDirectProviderMode = switch raw ''allowDirectProviderMode'' (aa_allowDirectProviderMode base),
           pw_allowWorkspaceSharedCredentials =
             switch raw ''allowWorkspaceSharedCredentials'' (nullish (aa_allowWorkspaceSharedCredentials base) False),
           pw_requireAdminApproval = switch raw ''requireAdminApproval'' (mode = AdminApprovedUserKey),
           pw_allowVisionOnUserKeys = switch raw ''allowVisionOnUserKeys'' (nullish (aa_allowVisionOnUserKeys base) False),
           pw_providers = providers, pw_allowedModelTags = allowedModelTags,
           pw_defaultProvider = choose_default (given raw ''defaultProvider'') (aa_defaultProvider base) providers,
           pw_defaultModel = defaultModel, pw_reason = reason\<rparr>)))))"

definition json_text :: "string option \<Rightarrow> json" where
  "json_text v = (case v of None \<Rightarrow> JNull | Some t \<Rightarrow> JStr t)"

definition policy_metadata :: "policy_write \<Rightarrow> json_object" where
  "policy_metadata w =
     [(''scopeKey'', JStr ''global''), (''scopeType'', JStr ''global''), (''mode'', JStr (show_access_mode (pw_mode w))),
      (''allowPlatformManaged'', pw_allowPlatformManaged w), (''allowBringYourOwnKey'', pw_allowBringYourOwnKey w),
      (''allowDirectProviderMode'', pw_allowDirectProviderMode w),
      (''allowWorkspaceSharedCredentials'', pw_allowWorkspaceSharedCredentials w),
      (''requireAdminApproval'', pw_requireAdminApproval w), (''allowVisionOnUserKeys'', pw_allowVisionOnUserKeys w),
      (''providers'', JArr (map JStr (pw_providers w))), (''allowedModelTags'', JArr (map JStr (pw_allowedModelTags w)))]
     @ (case pw_defaultProvider w of None \<Rightarrow> [] | Some p \<Rightarrow> [(''defaultProvider'', JStr p)])
     @ [(''defaultModel'', json_text (pw_defaultModel w)), (''reason'', json_text (pw_reason w))]"

definition policy_event :: "log_category \<Rightarrow> string \<Rightarrow> string \<Rightarrow> string \<Rightarrow> int \<Rightarrow> log_severity \<Rightarrow> json_object \<Rightarrow> log_event" where
  "policy_event category eventId eventType actorId now severity metadata = createLogEvent
     \<lparr>le_eventId = eventId, le_eventType = eventType, le_actorId = actorId, le_actorType = SubjectUser,
      le_targetType = ''ai_provider_policy'', le_targetId = ''global'', le_occurredAt = toISOString now, le_metadata = Some metadata,
      le_category = category, le_severity = severity, le_status = Some StatusSuccess\<rparr>"

text \<open>\<open>uuids\<close> are the two identifiers drawn for the events.\<close>

definition updatePolicyForCurrentSession ::
  "bool \<Rightarrow> (admin_log_data \<Rightarrow> bool) \<Rightarrow> (nat \<Rightarrow> string) \<Rightarrow> string \<times> string \<Rightarrow> string \<Rightarrow> int \<Rightarrow> current_session \<Rightarrow> json_object option
     \<Rightarrow> ('m policy_db_scheme, ai_policy_snapshot \<times> string) op" where
  "updatePolicyForCurrentSession up fails cuid uuids platformAiProvider now session request =
     thenS (liftS (requireDecision (canManageAiProviders (cs_principal session))))
     (bindS (getS (resolvePolicyForWorkspace platformAiProvider)) (\<lambda>basePolicy.
      bindS (liftS (merge_policy (nullish request []) basePolicy)) (\<lambda>w.
      bindS (upsertWithLogs up fails cuid ''global'' ''global'' (cs_user_id session) now w
        (policy_event CatAudit (fst uuids) ''ai_provider_policy.updated'' (cs_user_id session) now SevInfo (policy_metadata w))
        (policy_event CatSecurity (snd uuids) ''ai_provider_policy.changed'' (cs_user_id session) now SevWarn (policy_metadata w))
        ''ai_provider_policy.updated'' (JObj (policy_metadata w))) (\<lambda>r.
      retS (mapRecordToSnapshot r, toISOString (py_updatedAt r))))))"

record policy_reset =
  pz_scopeKey :: string
  pz_resetApplied :: bool
  pz_policy :: ai_policy_snapshot
  pz_resetAt :: string

definition resetPolicyForCurrentSession ::
  "string \<Rightarrow> int \<Rightarrow> current_session \<Rightarrow> 'm policy_db_scheme \<Rightarrow> policy_reset result" where
  "resetPolicyForCurrentSession platformAiProvider now session s =
     bindR (requireDecision (canManageAiProviders (cs_principal session))) (\<lambda>_.
     Inr \<lparr>pz_scopeKey = ''global'', pz_resetApplied = False, pz_policy = resolvePolicyForWorkspace platformAiProvider s,
          pz_resetAt = toISOString now\<rparr>)"

section \<open>The history\<close>

record history_actor =
  ha_id :: string
  ha_email :: "string option"
  ha_displayName :: "string option"

record history_entry =
  hy_id :: string
  hy_eventType :: string
  hy_summary :: string
  hy_scopeType :: string
  hy_scopeKey :: string
  hy_actor :: "history_actor option"
  hy_occurredAt :: string
  hy_mode :: "access_mode option"
  hy_providers :: "string list"
  hy_allowBringYourOwnKey :: "bool option"
  hy_allowWorkspaceSharedCredentials :: "bool option"
  hy_requireAdminApproval :: "bool option"
  hy_defaultProvider :: "string option"
  hy_defaultModel :: "string option"
  hy_allowedModelTags :: "string list"
  hy_reason :: "string option"

definition buildHistorySummary :: "string \<Rightarrow> string \<Rightarrow> string list \<Rightarrow> access_mode \<Rightarrow> string" where
  "buildHistorySummary action scopeType providers mode =
     (let scopeLabel = (if scopeType = ''workspace'' then ''Workspace override'' else ''Global policy'');
          providerSummary = (if providers \<noteq> [] then join '', '' providers else ''no providers'')
      in if action = ''ai_provider_policy.reset'' then scopeLabel @ '' was reset and now inherits the global policy.''
         else scopeLabel @ '' updated to '' @ show_access_mode mode @ '' across '' @ providerSummary @ ''.'')"

text \<open>\<open>metadata?.key ?? metadata?.previousKey\<close>.\<close>

definition either_key :: "json_object option \<Rightarrow> string \<Rightarrow> string \<Rightarrow> json option" where
  "either_key metadata key previousKey = (let raw = nullish metadata [] in
     case given raw key of Some v \<Rightarrow> Some v | None \<Rightarrow> map_of raw previousKey)"

definition history_actor_of :: "user_row list \<Rightarrow> string option \<Rightarrow> history_actor option" where
  "history_actor_of actors actorId = (if \<not> truthy actorId then None
     else case find (\<lambda>u. us_id u = the actorId) actors of
       Some u \<Rightarrow> Some \<lparr>ha_id = us_id u, ha_email = Some (us_email u), ha_displayName = us_displayName u\<rparr>
     | None \<Rightarrow> Some \<lparr>ha_id = the actorId, ha_email = None, ha_displayName = None\<rparr>)"

definition mapHistoryRecordToEntry :: "user_row list \<Rightarrow> audit_row \<Rightarrow> history_entry" where
  "mapHistoryRecordToEntry actors r =
     (let metadata = toMetadata (au_metadataJson r);
          raw = nullish metadata [];
          scopeKey = nullish (readJsonString (map_of raw ''scopeKey'')) (au_targetId r);
          scopeType = (if readJsonString (map_of raw ''scopeType'') = Some ''workspace'' \<or> startsWith scopeKey ''workspace:''
                       then ''workspace'' else ''global'');
          providers = known_providers (readJsonStringArray (either_key metadata ''providers'' ''previousProviders''));
          allowedModelTags = clean_tags (readJsonStringArray (Some (nullish (given raw ''allowedModelTags'') (JArr []))));
          modeValue = readJsonString (either_key metadata ''mode'' ''previousMode'');
          mode = normalizeMode (map_option JStr modeValue) PlatformOnly
      in \<lparr>hy_id = au_id r, hy_eventType = au_action r, hy_summary = buildHistorySummary (au_action r) scopeType providers mode,
          hy_scopeType = scopeType, hy_scopeKey = scopeKey, hy_actor = history_actor_of actors (au_actorId r),
          hy_occurredAt = toISOString (au_createdAt r), hy_mode = map_option (\<lambda>_. mode) modeValue, hy_providers = providers,
          hy_allowBringYourOwnKey = readJsonBoolean (map_of raw ''allowBringYourOwnKey''),
          hy_allowWorkspaceSharedCredentials = readJsonBoolean (map_of raw ''allowWorkspaceSharedCredentials''),
          hy_requireAdminApproval = readJsonBoolean (map_of raw ''requireAdminApproval''),
          hy_defaultProvider = known_default (readJsonString (either_key metadata ''defaultProvider'' ''previousDefaultProvider'')),
          hy_defaultModel = readJsonString (either_key metadata ''defaultModel'' ''previousDefaultModel''),
          hy_allowedModelTags = allowedModelTags,
          hy_reason = readJsonString (either_key metadata ''reason'' ''previousReason'')\<rparr>)"

definition listHistoryForCurrentSession :: "current_session \<Rightarrow> 'm policy_db_scheme \<Rightarrow> history_entry list result" where
  "listHistoryForCurrentSession session s =
     bindR (requireDecision (canManageAiProviders (cs_principal session))) (\<lambda>_.
     case listHistory [''global''] 12 s of (records, actors) \<Rightarrow> Inr (map (mapHistoryRecordToEntry actors) records))"

section \<open>Lemmas\<close>

lemma json_text_items_strings [simp]: "json_text_items (map JStr ts) = ts"
  by (induction ts) (simp_all add: json_text_items_def)

lemma registry_trimmed: "p \<in> set (map pv_provider providerRegistry) \<Longrightarrow> trim p \<noteq> []"
proof -
  have "list_all (\<lambda>p. trim p \<noteq> []) (map pv_provider providerRegistry)" by code_simp
  then show "p \<in> set (map pv_provider providerRegistry) \<Longrightarrow> trim p \<noteq> []" by (simp only: list_all_iff) blast
qed

text \<open>The normal forms of the stored lists: sorted, without repetitions, every item as it should be.\<close>

definition normal_list :: "(string \<Rightarrow> bool) \<Rightarrow> string list \<Rightarrow> bool" where
  "normal_list ok ts \<longleftrightarrow> sorted ts \<and> distinct ts \<and> (\<forall>t \<in> set ts. ok t)"

lemma normal_known: "normal_list (\<lambda>p. p \<in> set (map pv_provider providerRegistry)) (known_providers ps)"
  by (simp add: normal_list_def known_providers_def)

lemma normal_clean: "normal_list (\<lambda>t. t \<noteq> [] \<and> trim t = t) (clean_tags ts)"
  by (auto simp: normal_list_def clean_tags_def)

lemma known_stored:
  "normal_list (\<lambda>p. p \<in> set (map pv_provider providerRegistry)) ps \<Longrightarrow> known_providers (readJsonStringArray (Some (JArr (map JStr ps)))) = ps"
  unfolding known_providers_def readJsonStringArray_def normal_list_def
  by (simp add: registry_trimmed [simplified] uniq_distinct sorted_sort_id filter_id_conv)

lemma clean_stored:
  "normal_list (\<lambda>t. t \<noteq> [] \<and> trim t = t) ts \<Longrightarrow> clean_tags (readJsonStringArray (Some (JArr (map JStr ts)))) = ts"
proof -
  assume n: "normal_list (\<lambda>t. t \<noteq> [] \<and> trim t = t) ts"
  then have "map trim ts = ts" by (simp add: normal_list_def map_idI)
  with n show ?thesis unfolding clean_tags_def readJsonStringArray_def normal_list_def
    by (simp add: uniq_distinct sorted_sort_id filter_id_conv)
qed

definition ai_policy_ok :: "'m ai_access_policy_scheme \<Rightarrow> bool" where
  "ai_policy_ok p \<longleftrightarrow> aa_providers p \<noteq> [] \<and> normal_list (\<lambda>q. q \<in> set (map pv_provider providerRegistry)) (aa_providers p)
     \<and> (\<exists>d \<in> set (aa_providers p). aa_defaultProvider p = Some d)
     \<and> (\<exists>ts. aa_allowedModelTags p = Some ts \<and> normal_list (\<lambda>t. t \<noteq> [] \<and> trim t = t) ts)"

lemma choose_default_in: "ps \<noteq> [] \<Longrightarrow> \<exists>d \<in> set ps. choose_default v base ps = Some d"
  by (cases base) (auto simp: choose_default_def first_of_def truthy_def split: option.split json.split list.split)

lemma merge_policy_ok:
  assumes "merge_policy raw base = Inr w"
  shows "pw_providers w \<noteq> [] \<and> normal_list (\<lambda>q. q \<in> set (map pv_provider providerRegistry)) (pw_providers w)
     \<and> (\<exists>d \<in> set (pw_providers w). pw_defaultProvider w = Some d) \<and> normal_list (\<lambda>t. t \<noteq> [] \<and> trim t = t) (pw_allowedModelTags w)"
proof -
  obtain ps ts where p: "normalizeProviderList (given raw ''providers'') (aa_providers base) = Inr ps" "ps \<noteq> []" "pw_providers w = ps"
      and d: "pw_defaultProvider w = choose_default (given raw ''defaultProvider'') (aa_defaultProvider base) ps"
      and t: "normalizeStringList (given raw ''allowedModelTags'') (nullish (aa_allowedModelTags base) []) = Inr ts" "pw_allowedModelTags w = ts"
    using assms by (auto simp: merge_policy_def Let_def split: if_splits)
  have "normal_list (\<lambda>q. q \<in> set (map pv_provider providerRegistry)) ps"
    using p(1) normal_known by (auto simp: normalizeProviderList_def split: option.splits json.splits)
  moreover have "normal_list (\<lambda>t. t \<noteq> [] \<and> trim t = t) ts"
    using t(1) normal_clean by (auto simp: normalizeStringList_def split: option.splits json.splits)
  ultimately show ?thesis using p d t choose_default_in by simp
qed

text \<open>The dual write touches the administration log and the supply of identifiers only.\<close>

lemma same_shape: "\<exists>rows n. s = s\<lparr>ad_next := n, lg_rows := rows\<rparr>"
  by (rule exI [of _ "lg_rows s"], rule exI [of _ "ad_next s"]) simp

lemma rows_shape: "\<exists>rows' n. s\<lparr>lg_rows := rows\<rparr> = s\<lparr>ad_next := n, lg_rows := rows'\<rparr>"
  by (rule exI [of _ rows], rule exI [of _ "ad_next s"]) simp

lemma both_shape: "\<exists>rows' n'. s\<lparr>lg_rows := rows, ad_next := n\<rparr> = s\<lparr>ad_next := n', lg_rows := rows'\<rparr>"
  by (rule exI [of _ rows], rule exI [of _ n]) simp

lemma write_event_shape: "\<exists>rows n. write_event fails cuid directory d s = s\<lparr>ad_next := n, lg_rows := rows\<rparr>"
  unfolding write_event_def upsert_log_row_def
  by (simp add: same_shape rows_shape both_shape)

lemma fold_write_shape: "\<exists>rows n. fold (write_event fails cuid directory) ds s = s\<lparr>ad_next := n, lg_rows := rows\<rparr>"
proof (induction ds arbitrary: s)
  case Nil
  show ?case using same_shape by simp
next
  case (Cons d ds)
  obtain rows n where 1: "write_event fails cuid directory d s = s\<lparr>ad_next := n, lg_rows := rows\<rparr>" using write_event_shape by blast
  obtain rows' n' where "fold (write_event fails cuid directory) ds (s\<lparr>ad_next := n, lg_rows := rows\<rparr>)
      = s\<lparr>ad_next := n, lg_rows := rows\<rparr>\<lparr>ad_next := n', lg_rows := rows'\<rparr>" using Cons by blast
  then show ?case by (auto simp: 1)
qed

lemma upsert_shape: "\<exists>rows n. fst (upsertAdminLogEventsBestEffort up fails cuid ds s) = s\<lparr>ad_next := n, lg_rows := rows\<rparr>"
proof (cases "resolveActorIdentities up (map the (filter truthy (map al_actorId ds))) s")
  case (Inl e)
  then show ?thesis using same_shape by (simp add: upsertAdminLogEventsBestEffort_def)
next
  case (Inr directory)
  then show ?thesis using fold_write_shape by (simp add: upsertAdminLogEventsBestEffort_def)
qed

lemma upsert_shapeE:
  assumes "upsertAdminLogEventsBestEffort up fails cuid ds s = (s', r)"
  obtains rows n where "s' = s\<lparr>ad_next := n, lg_rows := rows\<rparr>"
  using upsert_shape [of up fails cuid ds s] assms by auto

lemma findPolicy_key: "findPolicy k s = Some r \<Longrightarrow> py_scopeKey r = k"
  by (auto simp: findPolicy_def find_Some_iff)

lemma find_replaced: "find P xs = Some y \<Longrightarrow> P z \<Longrightarrow> find P (map (\<lambda>x. if P x then z else x) xs) = Some z"
  by (induction xs) (auto split: if_splits)

lemma write_policy_key: "write_policy by w r0 = Inr r \<Longrightarrow> py_scopeKey r = py_scopeKey r0"
  by (auto simp: write_policy_def)

lemma upsert_policy_finds:
  assumes "upsert_policy cuid k t by now w s = (s', Inr r)"
  shows "findPolicy k s' = Some r" and "\<exists>r0. write_policy by w r0 = Inr r" and "sc_audit s' = sc_audit s" and "ad_users s' = ad_users s"
    and "ad_next s \<le> ad_next s'"
proof -
  let ?r0 = "nullish (findPolicy k s) (blank_policy (cuid (ad_next s)) k t now)"
  have w: "write_policy by w (?r0\<lparr>py_updatedAt := now\<rparr>) = Inr r"
    and s': "s' = (if findPolicy k s = None then s\<lparr>pd_policies := pd_policies s @ [r], ad_next := Suc (ad_next s)\<rparr>
        else s\<lparr>pd_policies := map (\<lambda>x. if py_scopeKey x = k then r else x) (pd_policies s)\<rparr>)"
    using assms by (auto simp: upsert_policy_def Let_def split: sum.splits if_splits)
  show "\<exists>r0. write_policy by w r0 = Inr r" using w by blast
  have k: "py_scopeKey r = k" using write_policy_key [OF w] findPolicy_key [of k s]
    by (cases "findPolicy k s") (auto simp: blank_policy_def)
  show "findPolicy k s' = Some r"
  proof (cases "findPolicy k s")
    case None
    then show ?thesis using k by (auto simp: s' findPolicy_def find_append)
  next
    case (Some old)
    then show ?thesis using find_replaced [of "\<lambda>x. py_scopeKey x = k" "pd_policies s" old r] k by (simp add: s' findPolicy_def)
  qed
qed (use assms in \<open>auto simp: upsert_policy_def Let_def split: sum.splits if_splits\<close>)


text \<open>Writing a policy with its three log rows.\<close>

lemma write_three_logs_run:
  "write_three_logs cuid a c t payload at' s = (s', r) \<Longrightarrow>
     (\<exists>events. r = Inr events) \<and> sc_audit s' = sc_audit s @ [\<lparr>au_id = cuid (ad_next s), au_action = li_type a, au_actorId = li_actorId a,
       au_targetType = li_targetType a, au_targetId = li_targetId a, au_metadataJson = Some (li_metadataJson a),
       au_createdAt = li_createdAt a\<rparr>]"
  by (auto simp: write_three_logs_def createAuditLogWithReadModel_def createSecurityEventWithReadModel_def
      createDomainEventWithReadModel_def bindS_def retS_def Let_def)

lemma write_three_logs_policies: "pd_policies (fst (write_three_logs cuid a c t payload at' s)) = pd_policies s"
  and write_three_logs_users: "ad_users (fst (write_three_logs cuid a' c' t payload at'' s'')) = ad_users s''"
  by (simp_all add: write_three_logs_def createAuditLogWithReadModel_def createSecurityEventWithReadModel_def
      createDomainEventWithReadModel_def bindS_def retS_def Let_def)

lemma upsertWithLogs_success:
  assumes run: "upsertWithLogs up fails cuid k t by now w e1 e2 dt dp s = (s', Inr r)" and "le_actorId e1 = by"
  shows "findPolicy k s' = Some r" and "\<exists>r0. write_policy by w r0 = Inr r"
    and "\<exists>i. sc_audit s' = sc_audit s @ [audit_of i (Some by) e1 now]" and "ad_users s' = ad_users s"
proof -
  obtain s1 s2 events u where p: "upsert_policy cuid k t by now w s = (s1, Inr r)"
    and l: "write_three_logs cuid (insert_of (Some (le_actorId e1)) e1 now) (insert_of (Some (le_actorId e2)) e2 now) dt dp now s1 = (s2, Inr events)"
    and up: "upsertAdminLogEventsBestEffort up fails cuid events s2 = (s', u)"
    using run by (auto simp: upsertWithLogs_def op_elims)
  note found = upsert_policy_finds [OF p]
  obtain rows n where s': "s' = s2\<lparr>ad_next := n, lg_rows := rows\<rparr>" using up by (rule upsert_shapeE)
  have "pd_policies s2 = pd_policies s1" "ad_users s2 = ad_users s1"
    using write_three_logs_policies [of cuid _ _ _ _ _ s1] write_three_logs_users [of cuid _ _ _ _ _ s1] l by (metis fst_conv)+
  then show "findPolicy k s' = Some r" "ad_users s' = ad_users s" using found by (simp_all add: s' findPolicy_def)
  show "\<exists>r0. write_policy by w r0 = Inr r" by (rule found(2))
  show "\<exists>i. sc_audit s' = sc_audit s @ [audit_of i (Some by) e1 now]"
    using write_three_logs_run [OF l] found(3) assms(2) by (auto simp: s' audit_of_def insert_of_def)
qed

lemma update_policy_run:
  assumes "updatePolicyForCurrentSession up fails cuid uuids env now session request s = (s', Inr (p, t))"
  obtains w r r0 i where "merge_policy (nullish request []) (resolvePolicyForWorkspace env s) = Inr w"
    and "write_policy (cs_user_id session) w r0 = Inr r" and "p = mapRecordToSnapshot r" and "findGlobal s' = Some r"
    and "sc_audit s' = sc_audit s @ [audit_of i (Some (cs_user_id session))
        (policy_event CatAudit (fst uuids) ''ai_provider_policy.updated'' (cs_user_id session) now SevInfo (policy_metadata w)) now]"
    and "ad_users s' = ad_users s"
proof -
  obtain w r where w: "merge_policy (nullish request []) (resolvePolicyForWorkspace env s) = Inr w" and p: "p = mapRecordToSnapshot r"
    and u: "upsertWithLogs up fails cuid ''global'' ''global'' (cs_user_id session) now w
        (policy_event CatAudit (fst uuids) ''ai_provider_policy.updated'' (cs_user_id session) now SevInfo (policy_metadata w))
        (policy_event CatSecurity (snd uuids) ''ai_provider_policy.changed'' (cs_user_id session) now SevWarn (policy_metadata w))
        ''ai_provider_policy.updated'' (JObj (policy_metadata w)) s = (s', Inr r)"
    using assms by (auto simp: updatePolicyForCurrentSession_def op_elims)
  have "le_actorId (policy_event CatAudit (fst uuids) ''ai_provider_policy.updated'' (cs_user_id session) now SevInfo (policy_metadata w))
      = cs_user_id session" by (simp add: policy_event_def createLogEvent_def)
  note found = upsertWithLogs_success [OF u this]
  obtain r0 i where r0: "write_policy (cs_user_id session) w r0 = Inr r" and i: "sc_audit s' = sc_audit s @ [audit_of i (Some (cs_user_id session))
        (policy_event CatAudit (fst uuids) ''ai_provider_policy.updated'' (cs_user_id session) now SevInfo (policy_metadata w)) now]"
    using found(2,3) by blast
  have "findGlobal s' = Some r" using found(1) by (simp add: findGlobal_def)
  from that [OF w r0 p this i found(4)] show thesis .
qed

lemma written_snapshot:
  assumes "merge_policy raw base = Inr w" and "write_policy by w r0 = Inr r"
  shows "aa_mode (mapRecordToSnapshot r) = pw_mode w" and "aa_providers (mapRecordToSnapshot r) = pw_providers w"
    and "aa_allowedModelTags (mapRecordToSnapshot r) = Some (pw_allowedModelTags w)"
    and "aa_defaultProvider (mapRecordToSnapshot r) = pw_defaultProvider w" and "aa_defaultModel (mapRecordToSnapshot r) = pw_defaultModel w"
    and "aa_reason (mapRecordToSnapshot r) = pw_reason w"
    and "pw_allowPlatformManaged w = JBool (aa_allowPlatformManaged (mapRecordToSnapshot r))"
    and "pw_allowBringYourOwnKey w = JBool (aa_allowBringYourOwnKey (mapRecordToSnapshot r))"
    and "pw_allowDirectProviderMode w = JBool (aa_allowDirectProviderMode (mapRecordToSnapshot r))"
    and "Some (pw_allowWorkspaceSharedCredentials w) = map_option JBool (aa_allowWorkspaceSharedCredentials (mapRecordToSnapshot r))"
    and "Some (pw_requireAdminApproval w) = map_option JBool (aa_requireAdminApproval (mapRecordToSnapshot r))"
    and "Some (pw_allowVisionOnUserKeys w) = map_option JBool (aa_allowVisionOnUserKeys (mapRecordToSnapshot r))"
proof -
  have bool: "bool_column v = Inr b \<longleftrightarrow> v = JBool b" for v b by (cases v) (auto simp: bool_column_def)
  note ok = merge_policy_ok [OF assms(1)]
  have "known_default (pw_defaultProvider w) = pw_defaultProvider w"
    using ok registry_trimmed [of "the (pw_defaultProvider w)"]
    by (auto simp: known_default_def normal_list_def trim_def dest!: bspec simp del: list.set_map)
  with assms(2) ok known_stored clean_stored show
    "aa_mode (mapRecordToSnapshot r) = pw_mode w" "aa_providers (mapRecordToSnapshot r) = pw_providers w"
    "aa_allowedModelTags (mapRecordToSnapshot r) = Some (pw_allowedModelTags w)"
    "aa_defaultProvider (mapRecordToSnapshot r) = pw_defaultProvider w" "aa_defaultModel (mapRecordToSnapshot r) = pw_defaultModel w"
    "aa_reason (mapRecordToSnapshot r) = pw_reason w"
    "pw_allowPlatformManaged w = JBool (aa_allowPlatformManaged (mapRecordToSnapshot r))"
    "pw_allowBringYourOwnKey w = JBool (aa_allowBringYourOwnKey (mapRecordToSnapshot r))"
    "pw_allowDirectProviderMode w = JBool (aa_allowDirectProviderMode (mapRecordToSnapshot r))"
    "Some (pw_allowWorkspaceSharedCredentials w) = map_option JBool (aa_allowWorkspaceSharedCredentials (mapRecordToSnapshot r))"
    "Some (pw_requireAdminApproval w) = map_option JBool (aa_requireAdminApproval (mapRecordToSnapshot r))"
    "Some (pw_allowVisionOnUserKeys w) = map_option JBool (aa_allowVisionOnUserKeys (mapRecordToSnapshot r))"
    by (auto simp: write_policy_def mapRecordToSnapshot_def bool)
qed

lemma map_of_spread: "k \<notin> fst ` set es \<Longrightarrow> map_of (spread base es) k = map_of base k"
  by (induction es arbitrary: base) (auto simp: spread_def update_conv')

lemma metadata_field:
  assumes "k \<notin> {''source'', ''eventId'', ''severity'', ''status''}"
  shows "map_of (nullish (toMetadata (Some (buildMetadataJson e))) []) k = map_of (nullish (le_metadata e) []) k"
  using assms by (auto simp: buildMetadataJson_def toMetadata_def map_of_spread split: option.split)

lemma sort_key_snoc:
  fixes f :: "'a \<Rightarrow> 'k::linorder"
  assumes "\<And>y. y \<in> set xs \<Longrightarrow> f y \<le> f x"
  shows "sort_key f (xs @ [x]) = sort_key f xs @ [x]"
  using assms
proof (induction xs)
  case (Cons a xs)
  have "insort_key f a (ys @ [x]) = insort_key f a ys @ [x]" for ys
    by (induction ys) (use Cons.prems [of a] in auto)
  with Cons show ?case by simp
qed simp

lemma newest_is_first:
  fixes f :: "'a \<Rightarrow> 'k::linorder"
  assumes "\<And>y. y \<in> set xs \<Longrightarrow> f y \<le> f x"
  shows "by_newest f (xs @ [x]) = x # by_newest f xs"
  using sort_key_snoc [of xs f x] assms by (simp add: by_newest_def)

lemma policy_fields:
  "map_of (policy_metadata w) ''mode'' = Some (JStr (show_access_mode (pw_mode w)))"
  "map_of (policy_metadata w) ''scopeKey'' = Some (JStr ''global'')"
  "map_of (policy_metadata w) ''providers'' = Some (JArr (map JStr (pw_providers w)))"
  "map_of (policy_metadata w) ''allowedModelTags'' = Some (JArr (map JStr (pw_allowedModelTags w)))"
  "map_of (policy_metadata w) ''defaultProvider'' = map_option JStr (pw_defaultProvider w)"
  "map_of (policy_metadata w) ''allowBringYourOwnKey'' = Some (pw_allowBringYourOwnKey w)"
  "map_of (policy_metadata w) ''allowWorkspaceSharedCredentials'' = Some (pw_allowWorkspaceSharedCredentials w)"
  "map_of (policy_metadata w) ''requireAdminApproval'' = Some (pw_requireAdminApproval w)"
  by (simp_all add: policy_metadata_def split: option.split)

lemma read_shown_mode: "readJsonString (Some (JStr (show_access_mode m))) = Some (show_access_mode m)"
  by (cases m; simp add: show_access_mode_def readJsonString_def or_undefined_def trim_def js_space_def)

lemma normalize_shown_mode: "normalizeMode (Some (JStr (show_access_mode m))) fallback = m"
  by (cases m; simp add: normalizeMode_def aiAccessPolicyModes_def show_access_mode_def)

lemma global_read: "readJsonString (Some (JStr ''global'')) = Some ''global''"
  by code_simp

lemma default_read:
  assumes "d \<in> set (map pv_provider providerRegistry)"
  shows "known_default (readJsonString (Some (JStr d))) = Some d"
proof -
  have "list_all (\<lambda>d. known_default (readJsonString (Some (JStr d))) = Some d) (map pv_provider providerRegistry)" by code_simp
  then show ?thesis using assms unfolding list_all_iff by blast
qed

section \<open>Properties\<close>

text \<open>
  C15. The policy an update returns is the one in force from then on, and it is well formed: its providers are
  known, sorted and without repetitions, there is at least one, the default provider is one of them, and
  the model tags are trimmed, sorted and without repetitions, whatever the request and the stored row hold.
\<close>

theorem policy_update_then_resolve:
  assumes "updatePolicyForCurrentSession up fails cuid uuids env now session request s = (s', Inr (p, t))"
  shows "resolvePolicyForWorkspace env' s' = p \<and> ai_policy_ok p"
proof -
  obtain w r r0 where w: "merge_policy (nullish request []) (resolvePolicyForWorkspace env s) = Inr w"
    and r: "write_policy (cs_user_id session) w r0 = Inr r" and p: "p = mapRecordToSnapshot r" and g: "findGlobal s' = Some r"
    by (rule update_policy_run [OF assms])
  note written = written_snapshot [OF w r]
  then show ?thesis using merge_policy_ok [OF w] p g
    by (simp add: ai_policy_ok_def resolvePolicyForWorkspace_def)
qed


text \<open>
  The two switches that do not start from the policy in force: an update that leaves them out gives them the
  value of the mode, so a request about something else takes back what an administrator had set.
\<close>

lemma update_resets_switches:
  assumes "updatePolicyForCurrentSession up fails cuid uuids env now session request s = (s', Inr (p, t))"
    and "given (nullish request []) ''allowBringYourOwnKey'' = None" and "given (nullish request []) ''requireAdminApproval'' = None"
  shows "aa_allowBringYourOwnKey p = (aa_mode p \<noteq> PlatformOnly)" and "aa_requireAdminApproval p = Some (aa_mode p = AdminApprovedUserKey)"
proof -
  obtain w r r0 where w: "merge_policy (nullish request []) (resolvePolicyForWorkspace env s) = Inr w"
    and r: "write_policy (cs_user_id session) w r0 = Inr r" and p: "p = mapRecordToSnapshot r"
    by (rule update_policy_run [OF assms(1)])
  have "pw_allowBringYourOwnKey w = JBool (pw_mode w \<noteq> PlatformOnly)" "pw_requireAdminApproval w = JBool (pw_mode w = AdminApprovedUserKey)"
    using w assms(2,3) by (auto simp: merge_policy_def Let_def switch_def split: if_splits)
  then have "JBool (aa_allowBringYourOwnKey p) = JBool (aa_mode p \<noteq> PlatformOnly)"
      "map_option JBool (aa_requireAdminApproval p) = Some (JBool (aa_mode p = AdminApprovedUserKey))"
    using written_snapshot(1,8,11) [OF w r] unfolding p by metis+
  then show "aa_allowBringYourOwnKey p = (aa_mode p \<noteq> PlatformOnly)" "aa_requireAdminApproval p = Some (aa_mode p = AdminApprovedUserKey)"
    by auto
qed

text \<open>When an update is answered: the caller may manage providers, the request makes sense and the switches are Booleans.\<close>

lemma update_policy_succeeds:
  assumes "ad_allowed (canManageAiProviders (cs_principal session))"
    and "merge_policy (nullish request []) (resolvePolicyForWorkspace env s) = Inr w"
    and "\<And>r0. isOk (write_policy (cs_user_id session) w r0)" and "findUserById (cs_user_id session) s \<noteq> None"
  shows "\<exists>s' p t. updatePolicyForCurrentSession True fails cuid uuids env now session request s = (s', Inr (p, t))"
proof -
  let ?r0 = "nullish (findPolicy ''global'' s) (blank_policy (cuid (ad_next s)) ''global'' ''global'' now)"
  obtain r where "write_policy (cs_user_id session) w (?r0\<lparr>py_updatedAt := now\<rparr>) = Inr r"
    using assms(3) [of "?r0\<lparr>py_updatedAt := now\<rparr>"] unfolding isOk_iff by blast
  then have "\<exists>s1. upsert_policy cuid ''global'' ''global'' (cs_user_id session) now w s = (s1, Inr r)"
    using assms(4) by (simp add: upsert_policy_def Let_def)
  then obtain s1 where p: "upsert_policy cuid ''global'' ''global'' (cs_user_id session) now w s = (s1, Inr r)" by blast
  have logs: "\<exists>s2 events. write_three_logs cuid a c d e now s1 = (s2, Inr events)" for a c d e
    using write_three_logs_run by (metis prod.exhaust)
  have best: "\<exists>s3. upsertAdminLogEventsBestEffort True fails cuid events s2 = (s3, Inr ())" for events and s2 :: "'a policy_db_scheme"
    using upsert_log_view by (metis prod.exhaust)
  have "\<exists>s'. upsertWithLogs True fails cuid ''global'' ''global'' (cs_user_id session) now w e1 e2 dt dp s = (s', Inr r)" for e1 e2 dt dp
    using logs best p by (fastforce simp: upsertWithLogs_def op_elims)
  then show ?thesis using assms(1,2)
    by (fastforce simp: updatePolicyForCurrentSession_def op_elims requireDecision_def)
qed

text \<open>Secrets: what is kept of an accepted one is the trimmed text, and the provider can be used with own keys.\<close>

lemma accepted_secret:
  assumes "sk_valid (validateProviderSecretShape provider secret)"
  shows "sk_normalizedSecret (validateProviderSecretShape provider secret) = Some (trim secret) \<and> 12 \<le> length (trim secret)
    \<and> provider \<noteq> ''internal''"
  using assms by (auto simp: validateProviderSecretShape_def Let_def refused_secret_def split: if_splits)

section \<open>Examples\<close>

definition demo_policies :: policy_db where
  "demo_policies = support_db.extend demo_support \<lparr>pd_policies = []\<rparr>"

definition demo_change :: json_object where
  "demo_change = [(''providers'', JArr [JStr ''polza'', JStr ''openai'', JStr ''polza'']), (''mode'', JStr ''user_key_optional'')]"

definition demo_changed :: "policy_db \<times> (ai_policy_snapshot \<times> string) result" where
  "demo_changed = updatePolicyForCurrentSession True (\<lambda>_. True) demo_ids (''v1'', ''v2'') ''openrouter'' 50 demo_agent (Some demo_change)
     demo_policies"

lemma demo_changed_run:
  obtains s' p t where "updatePolicyForCurrentSession True (\<lambda>_. True) demo_ids (''v1'', ''v2'') ''openrouter'' 50 demo_agent (Some demo_change)
     demo_policies = (s', Inr (p, t))"
proof -
  have allowed: "ad_allowed (canManageAiProviders (cs_principal demo_agent))" by code_simp
  have "isOk (merge_policy demo_change (createVirtualPolicy ''openrouter''))" by code_simp
  then obtain w where m: "merge_policy demo_change (createVirtualPolicy ''openrouter'') = Inr w" by (auto simp: isOk_iff)
  then have "isOk (write_policy i w r0)" for i r0
    by (auto simp: merge_policy_def Let_def write_policy_def switch_def given_def demo_change_def bool_column_def split: if_splits)
  moreover have "resolvePolicyForWorkspace ''openrouter'' demo_policies = createVirtualPolicy ''openrouter''"
    by (simp add: resolvePolicyForWorkspace_def findGlobal_def findPolicy_def demo_policies_def support_db.defs demo_support_def)
  moreover have "findUserById (cs_user_id demo_agent) demo_policies \<noteq> None"
    by (simp add: findUserById_def demo_policies_def support_db.defs demo_support_def demo_user_def demo_agent_def)
  ultimately show thesis using update_policy_succeeds [of demo_agent "Some demo_change" "''openrouter''" demo_policies w
        "\<lambda>_. True" demo_ids "(''v1'', ''v2'')" 50] allowed m that by auto
qed

theorem policy_update_then_resolve_witness:
  "case demo_changed of (s', Inr (p, t)) \<Rightarrow> resolvePolicyForWorkspace ''routerai'' s' = p \<and> ai_policy_ok p | _ \<Rightarrow> False"
proof (rule demo_changed_run)
  fix s' p t
  assume run: "updatePolicyForCurrentSession True (\<lambda>_. True) demo_ids (''v1'', ''v2'') ''openrouter'' 50 demo_agent (Some demo_change)
     demo_policies = (s', Inr (p, t))"
  then show ?thesis using policy_update_then_resolve [OF run, of "''routerai''"] by (simp add: demo_changed_def)
qed


end
