(* ===== verification/Installations.thy ===== *)
theory Installations
  imports AiPolicy Retention RemoteConfig
begin

text \<open>
  The tables behind the browser extension: installations and their sessions, from
  \<open>extension-installation.repository.ts\<close>, \<open>extension-installation-session.repository.ts\<close> and
  \<open>extension-event.repository.ts\<close> of \<open>apps/api/src/extension\<close>, with the rest of the state the extension service
  reads. The last sections say what a single write does to owners and sessions, as a step of an abstract
  machine, and what every sequence of such steps keeps: an installation has at most one session that is not
  revoked, it belongs to the owner, and a revoked session stays revoked.
\<close>

section \<open>Rows\<close>

record device_metadata =
  dv_deviceLabel :: "string option"
  dv_platform :: "string option"
  dv_osName :: "string option"
  dv_osVersion :: "string option"
  dv_browserName :: "string option"
  dv_browserVersion :: "string option"
  dv_userAgent :: "string option"

definition no_device :: device_metadata where
  "no_device = \<lparr>dv_deviceLabel = None, dv_platform = None, dv_osName = None, dv_osVersion = None, dv_browserName = None,
     dv_browserVersion = None, dv_userAgent = None\<rparr>"

record installation_row =
  xi_id :: string
  xi_userId :: string
  xi_installationId :: string
  xi_browser :: string
  xi_extensionVersion :: string
  xi_schemaVersion :: string
  xi_capabilitiesJson :: json
  xi_device :: device_metadata
  xi_createdAt :: int
  xi_updatedAt :: int
  xi_lastSeenAt :: "int option"

record token_row =
  xs_id :: string
  xs_extensionInstallationId :: string
  xs_userId :: string
  xs_tokenHash :: string
  xs_expiresAt :: int
  xs_createdAt :: int
  xs_revokedAt :: "int option"

text \<open>The tables, the cache of the retention policy and the log throttle in the memory of the service, and the jobs
  handed to the queue.\<close>

record invalid_token_state =
  it_nextLogAt :: int
  it_suppressed :: int

record extension_db = policy_db +
  xd_installations :: "installation_row list"
  xd_sessions :: "token_row list"
  xd_rules :: "compatibility_rule list"
  xd_flags :: flag_db
  xd_config :: config_db
  xd_settings :: "retention_policy settings_state"
  xd_invalid :: "(string \<times> invalid_token_state) list"
  xd_jobs :: "bull_add list"

section \<open>Installations\<close>

definition findByInstallationId :: "string \<Rightarrow> 'm extension_db_scheme \<Rightarrow> installation_row option" where
  "findByInstallationId i s = find (\<lambda>r. xi_installationId r = i) (xd_installations s)"

text \<open>\<open>orderBy lastSeenAt desc, createdAt desc\<close>: the database puts the missing values first.\<close>

definition by_last_seen :: "(installation_row list \<Rightarrow> installation_row list) \<Rightarrow> installation_row list \<Rightarrow> installation_row list" where
  "by_last_seen tie rows =
     (let rs = sort_key (\<lambda>r. - xi_createdAt r) (tie rows)
      in filter (\<lambda>r. xi_lastSeenAt r = None) rs @ sort_key (\<lambda>r. - the (xi_lastSeenAt r)) (filter (\<lambda>r. xi_lastSeenAt r \<noteq> None) rs))"

definition listAllInstallations :: "(installation_row list \<Rightarrow> installation_row list) \<Rightarrow> 'm extension_db_scheme \<Rightarrow> installation_row list" where
  "listAllInstallations tie s = by_last_seen tie (xd_installations s)"

definition listInstallationsByUserId ::
  "(installation_row list \<Rightarrow> installation_row list) \<Rightarrow> string \<Rightarrow> 'm extension_db_scheme \<Rightarrow> installation_row list" where
  "listInstallationsByUserId tie userId s = by_last_seen tie (filter (\<lambda>r. xi_userId r = userId) (xd_installations s))"

record bound_input =
  bn_userId :: string
  bn_installationId :: string
  bn_browser :: string
  bn_extensionVersion :: string
  bn_schemaVersion :: string
  bn_capabilities :: "string list"
  bn_lastSeenAt :: int
  bn_metadata :: "device_metadata option"

text \<open>Properties that are there replace those of the row.\<close>

definition merge_device :: "device_metadata \<Rightarrow> device_metadata \<Rightarrow> device_metadata" where
  "merge_device new old =
     \<lparr>dv_deviceLabel = orElse (dv_deviceLabel new) (dv_deviceLabel old), dv_platform = orElse (dv_platform new) (dv_platform old),
      dv_osName = orElse (dv_osName new) (dv_osName old), dv_osVersion = orElse (dv_osVersion new) (dv_osVersion old),
      dv_browserName = orElse (dv_browserName new) (dv_browserName old),
      dv_browserVersion = orElse (dv_browserVersion new) (dv_browserVersion old), dv_userAgent = orElse (dv_userAgent new) (dv_userAgent old)\<rparr>"

definition bound_columns :: "bound_input \<Rightarrow> int \<Rightarrow> installation_row \<Rightarrow> installation_row" where
  "bound_columns b now r =
     r\<lparr>xi_userId := bn_userId b, xi_browser := bn_browser b, xi_extensionVersion := bn_extensionVersion b,
       xi_schemaVersion := bn_schemaVersion b, xi_capabilitiesJson := JArr (map JStr (bn_capabilities b)),
       xi_device := merge_device (nullish (bn_metadata b) no_device) (xi_device r), xi_updatedAt := now, xi_lastSeenAt := Some (bn_lastSeenAt b)\<rparr>"

definition new_installation :: "string \<Rightarrow> bound_input \<Rightarrow> int \<Rightarrow> installation_row" where
  "new_installation i b now = bound_columns b now
     \<lparr>xi_id = i, xi_userId = bn_userId b, xi_installationId = bn_installationId b, xi_browser = [], xi_extensionVersion = [],
      xi_schemaVersion = [], xi_capabilitiesJson = JNull, xi_device = no_device, xi_createdAt = now, xi_updatedAt = now, xi_lastSeenAt = None\<rparr>"

definition upsertBoundInstallation ::
  "(nat \<Rightarrow> string) \<Rightarrow> int \<Rightarrow> bound_input \<Rightarrow> ('m extension_db_scheme, installation_row) op" where
  "upsertBoundInstallation cuid now b s =
     (if findUserById (bn_userId b) s = None then (s, Inl ForeignKeyViolation)
      else case findByInstallationId (bn_installationId b) s of
        None \<Rightarrow>
          let r = new_installation (cuid (ad_next s)) b now
          in if xi_id r \<in> xi_id ` set (xd_installations s) then (s, Inl UniqueViolation)
             else (s\<lparr>xd_installations := xd_installations s @ [r], ad_next := Suc (ad_next s)\<rparr>, Inr r)
      | Some old \<Rightarrow>
          let r = bound_columns b now old
          in (s\<lparr>xd_installations := map (\<lambda>x. if xi_installationId x = bn_installationId b then r else x) (xd_installations s)\<rparr>, Inr r))"

definition updateDeviceLabelForUser ::
  "int \<Rightarrow> string \<Rightarrow> string \<Rightarrow> string option \<Rightarrow> ('m extension_db_scheme, installation_row option) op" where
  "updateDeviceLabelForUser now userId i label s =
     (let hit = (\<lambda>r. xi_userId r = userId \<and> xi_installationId r = i) in
      if \<not> list_ex hit (xd_installations s) then (s, Inr None)
      else let s' = s\<lparr>xd_installations := map (\<lambda>r. if hit r then
                 r\<lparr>xi_device := (xi_device r)\<lparr>dv_deviceLabel := label\<rparr>, xi_updatedAt := now\<rparr> else r) (xd_installations s)\<rparr>
           in (s', Inr (findByInstallationId i s')))"

section \<open>Sessions\<close>

record installation_session =
  ns_session :: token_row
  ns_installation :: installation_row

definition include_installation :: "'m extension_db_scheme \<Rightarrow> token_row \<Rightarrow> installation_session option" where
  "include_installation s r = map_option (\<lambda>i. \<lparr>ns_session = r, ns_installation = i\<rparr>)
     (find (\<lambda>i. xi_id i = xs_extensionInstallationId r) (xd_installations s))"

definition create_session ::
  "(nat \<Rightarrow> string) \<Rightarrow> int \<Rightarrow> string \<Rightarrow> string \<Rightarrow> string \<Rightarrow> int \<Rightarrow> ('m extension_db_scheme, installation_session) op" where
  "create_session cuid now installation userId tokenHash expiresAt s =
     (let r = \<lparr>xs_id = cuid (ad_next s), xs_extensionInstallationId = installation, xs_userId = userId, xs_tokenHash = tokenHash,
               xs_expiresAt = expiresAt, xs_createdAt = now, xs_revokedAt = None\<rparr>
      in if xs_id r \<in> xs_id ` set (xd_sessions s) \<or> tokenHash \<in> xs_tokenHash ` set (xd_sessions s) then (s, Inl UniqueViolation)
         else if findUserById userId s = None then (s, Inl ForeignKeyViolation)
         else case include_installation s r of
             None \<Rightarrow> (s, Inl ForeignKeyViolation)
           | Some x \<Rightarrow> (s\<lparr>xd_sessions := xd_sessions s @ [r], ad_next := Suc (ad_next s)\<rparr>, Inr x))"

definition live_token :: "int \<Rightarrow> token_row \<Rightarrow> bool" where
  "live_token now r \<longleftrightarrow> xs_revokedAt r = None \<and> now < xs_expiresAt r"

definition listActiveByInstallationIds ::
  "(token_row list \<Rightarrow> token_row list) \<Rightarrow> string list \<Rightarrow> int \<Rightarrow> 'm extension_db_scheme \<Rightarrow> token_row list" where
  "listActiveByInstallationIds tie ids now s =
     (if ids = [] then []
      else sort_key (\<lambda>r. - xs_expiresAt r) (sort_key (\<lambda>r. - xs_createdAt r)
        (tie (filter (\<lambda>r. xs_extensionInstallationId r \<in> set ids \<and> live_token now r) (xd_sessions s)))))"

definition listRecentByInstallationRecordId :: "string \<Rightarrow> nat \<Rightarrow> 'm extension_db_scheme \<Rightarrow> token_row list" where
  "listRecentByInstallationRecordId installation limit s =
     take limit (by_newest (\<lambda>r. (xs_createdAt r, xs_id r)) (filter (\<lambda>r. xs_extensionInstallationId r = installation) (xd_sessions s)))"

definition findActiveByTokenHash :: "string \<Rightarrow> int \<Rightarrow> 'm extension_db_scheme \<Rightarrow> installation_session option" where
  "findActiveByTokenHash tokenHash now s =
     Option.bind (find (\<lambda>r. xs_tokenHash r = tokenHash \<and> live_token now r) (xd_sessions s)) (include_installation s)"

definition revoke_rows :: "(token_row \<Rightarrow> bool) \<Rightarrow> int \<Rightarrow> token_row list \<Rightarrow> token_row list" where
  "revoke_rows hit t rows = map (\<lambda>r. if hit r then r\<lparr>xs_revokedAt := Some t\<rparr> else r) rows"

definition open_for :: "string \<Rightarrow> token_row \<Rightarrow> bool" where
  "open_for installation r \<longleftrightarrow> xs_extensionInstallationId r = installation \<and> xs_revokedAt r = None"

definition revokeActiveByInstallationId :: "string \<Rightarrow> int \<Rightarrow> ('m extension_db_scheme, int) op" where
  "revokeActiveByInstallationId installation t s =
     (s\<lparr>xd_sessions := revoke_rows (open_for installation) t (xd_sessions s)\<rparr>,
      Inr (int (length (filter (open_for installation) (xd_sessions s)))))"

definition revokeSession :: "string \<Rightarrow> int \<Rightarrow> ('m extension_db_scheme, unit) op" where
  "revokeSession i t s =
     (if i \<notin> xs_id ` set (xd_sessions s) then (s, Inl RecordNotFound)
      else (s\<lparr>xd_sessions := revoke_rows (\<lambda>r. xs_id r = i) t (xd_sessions s)\<rparr>, Inr ()))"

section \<open>Lifecycle events\<close>

definition extension_metadata :: "log_event \<Rightarrow> json" where
  "extension_metadata e = JObj (spread (nullish (le_metadata e) [])
     ([(''source'', JStr ''extension''), (''eventId'', JStr (le_eventId e)), (''severity'', JStr (show_severity (le_severity e)))]
      @ (case le_status e of None \<Rightarrow> [] | Some v \<Rightarrow> [(''status'', JStr (show_status v))])))"

definition extension_insert :: "log_event \<Rightarrow> int \<Rightarrow> log_insert" where
  "extension_insert e at' = (insert_of (or_undefined (le_actorId e)) e at')\<lparr>li_metadataJson := extension_metadata e\<rparr>"

text \<open>\<open>db\<close> tells whether the database takes the transaction.\<close>

definition recordLifecycleEvent ::
  "bool \<Rightarrow> bool \<Rightarrow> (admin_log_data \<Rightarrow> bool) \<Rightarrow> (nat \<Rightarrow> string) \<Rightarrow> int \<Rightarrow> log_event \<Rightarrow> log_event \<Rightarrow> string \<Rightarrow> json
     \<Rightarrow> ('m support_db_scheme, unit) op" where
  "recordLifecycleEvent db up fails cuid occurredAt auditLog securityLog domainEventType domainPayload =
     (if \<not> db then throwS (JsError ''transaction failed'')
      else bindS (transaction (write_three_logs cuid (extension_insert auditLog occurredAt) (extension_insert securityLog occurredAt)
             domainEventType domainPayload occurredAt))
           (upsertAdminLogEventsBestEffort up fails cuid))"

section \<open>Owners and sessions as a state machine\<close>

text \<open>
  The view: record identifier, installation identifier and owner of every installation, and the session table.
\<close>

type_synonym owners = "(string \<times> string \<times> string) list"

definition owner_key :: "installation_row \<Rightarrow> string \<times> string \<times> string" where
  "owner_key r = (xi_id r, xi_installationId r, xi_userId r)"

definition device_view :: "'m extension_db_scheme \<Rightarrow> owners \<times> token_row list" where
  "device_view s = (map owner_key (xd_installations s), xd_sessions s)"

definition give :: "string \<Rightarrow> string \<Rightarrow> owners \<Rightarrow> owners" where
  "give n u os = map (\<lambda>(i, m, v). if m = n then (i, m, u) else (i, m, v)) os"

inductive device_step :: "owners \<times> token_row list \<Rightarrow> owners \<times> token_row list \<Rightarrow> bool" where
  created: "i \<notin> fst ` set os \<Longrightarrow> n \<notin> (fst \<circ> snd) ` set os \<Longrightarrow> device_step (os, ss) (os @ [(i, n, u)], ss)"
| claimed: "(i, n, v) \<in> set os \<Longrightarrow> device_step (os, ss) (give n u os, revoke_rows (open_for i) t ss)"
| cleared: "device_step (os, ss) (os, revoke_rows hit t ss)"
| opened: "xs_id r \<notin> xs_id ` set ss \<Longrightarrow> xs_tokenHash r \<notin> xs_tokenHash ` set ss \<Longrightarrow> xs_revokedAt r = None
    \<Longrightarrow> (xs_extensionInstallationId r, n, xs_userId r) \<in> set os
    \<Longrightarrow> \<forall>x \<in> set ss. \<not> open_for (xs_extensionInstallationId r) x \<Longrightarrow> device_step (os, ss) (os, ss @ [r])"

inductive_cases device_stepE: "device_step v v'"

lemma open_revoked:
  assumes "x \<in> set (revoke_rows hit t ss)" and "xs_revokedAt x = None"
  shows "x \<in> set ss \<and> \<not> hit x"
proof -
  obtain y where y: "y \<in> set ss" "x = (if hit y then y\<lparr>xs_revokedAt := Some t\<rparr> else y)"
    using assms(1) unfolding revoke_rows_def set_map by blast
  moreover have "\<not> hit y" using assms(2) y(2) by (cases "hit y") simp_all
  ultimately show ?thesis by simp
qed

lemma none_open_after: "x \<in> set (revoke_rows (open_for i) t ss) \<Longrightarrow> \<not> open_for i x"
  using open_revoked [of x "open_for i" t ss] by (auto simp: open_for_def)

lemma revoke_keys [simp]: "map xs_id (revoke_rows hit t ss) = map xs_id ss" "map xs_tokenHash (revoke_rows hit t ss) = map xs_tokenHash ss"
  by (simp_all add: revoke_rows_def)

lemma revoke_sets [simp]:
  "xs_id ` set (revoke_rows hit t ss) = xs_id ` set ss" "xs_tokenHash ` set (revoke_rows hit t ss) = xs_tokenHash ` set ss"
  by (simp_all only: set_map [symmetric] revoke_keys)

text \<open>Keys are unique, a session that is open belongs to the owner of its installation and is the only one of it.\<close>

definition device_ok :: "owners \<times> token_row list \<Rightarrow> bool" where
  "device_ok v \<longleftrightarrow> distinct (map fst (fst v)) \<and> distinct (map (fst \<circ> snd) (fst v))
     \<and> distinct (map xs_id (snd v)) \<and> distinct (map xs_tokenHash (snd v))
     \<and> (\<forall>r \<in> set (snd v). xs_revokedAt r = None \<longrightarrow> (\<exists>n. (xs_extensionInstallationId r, n, xs_userId r) \<in> set (fst v)))
     \<and> (\<forall>r \<in> set (snd v). \<forall>x \<in> set (snd v). xs_revokedAt r = None \<longrightarrow> open_for (xs_extensionInstallationId r) x \<longrightarrow> x = r)"

lemma give_keys [simp]: "map fst (give n u os) = map fst os" "map (fst \<circ> snd) (give n u os) = map (fst \<circ> snd) os"
  by (auto simp: give_def)

lemma give_other: "(i, m, v) \<in> set os \<Longrightarrow> m \<noteq> n \<Longrightarrow> (i, m, v) \<in> set (give n u os)"
  unfolding give_def by force

lemma one_owner:
  "distinct (map (fst \<circ> snd) os) \<Longrightarrow> (i, n, v) \<in> set os \<Longrightarrow> (j, n, w) \<in> set os \<Longrightarrow> i = j \<and> v = w"
  using inj_onD [of "fst \<circ> snd" "set os" "(i, n, v)" "(j, n, w)"] by (simp add: distinct_map)

lemma device_ok_step: "device_step v v' \<Longrightarrow> device_ok v \<Longrightarrow> device_ok v'"
proof (induction rule: device_step.induct)
  case (created i os n ss u)
  then show ?case unfolding device_ok_def by (auto simp: image_iff)
next
  case (claimed i n v os ss u t)
  have "\<exists>m. (xs_extensionInstallationId r, m, xs_userId r) \<in> set (give n u os)"
    if r: "r \<in> set ss" "\<not> open_for i r" "xs_revokedAt r = None" for r
  proof -
    obtain m where m: "(xs_extensionInstallationId r, m, xs_userId r) \<in> set os" using claimed.prems r by (auto simp: device_ok_def)
    have "m \<noteq> n"
    proof
      assume "m = n"
      then have "xs_extensionInstallationId r = i" using claimed m one_owner unfolding device_ok_def fst_conv by metis
      then show False using r by (simp add: open_for_def)
    qed
    then show ?thesis using give_other [OF m] by blast
  qed
  then have "\<forall>r \<in> set (revoke_rows (open_for i) t ss). xs_revokedAt r = None \<longrightarrow> (\<exists>m. (xs_extensionInstallationId r, m, xs_userId r) \<in> set (give n u os))"
    using open_revoked by blast
  moreover have "\<forall>r \<in> set (revoke_rows (open_for i) t ss). \<forall>x \<in> set (revoke_rows (open_for i) t ss).
      xs_revokedAt r = None \<longrightarrow> open_for (xs_extensionInstallationId r) x \<longrightarrow> x = r"
    using claimed.prems open_revoked unfolding device_ok_def open_for_def fst_conv snd_conv by metis
  ultimately show ?case using claimed.prems unfolding device_ok_def fst_conv snd_conv revoke_keys give_keys by blast
next
  case (cleared os ss hit t)
  have "\<forall>r \<in> set (revoke_rows hit t ss). xs_revokedAt r = None \<longrightarrow> r \<in> set ss" using open_revoked by blast
  moreover have "\<forall>r \<in> set (revoke_rows hit t ss). \<forall>x \<in> set (revoke_rows hit t ss).
      xs_revokedAt r = None \<longrightarrow> open_for (xs_extensionInstallationId r) x \<longrightarrow> x = r"
    using cleared.prems open_revoked unfolding device_ok_def open_for_def fst_conv snd_conv by metis
  ultimately show ?case using cleared.prems unfolding device_ok_def fst_conv snd_conv revoke_keys by blast
next
  case (opened r ss n os)
  then show ?case unfolding device_ok_def by (auto simp: open_for_def)
qed

text \<open>A token whose session is revoked stays so, and no other session gets its hash.\<close>

definition spent_hash :: "string \<Rightarrow> owners \<times> token_row list \<Rightarrow> bool" where
  "spent_hash h v \<longleftrightarrow> h \<in> xs_tokenHash ` set (snd v) \<and> (\<forall>r \<in> set (snd v). xs_tokenHash r = h \<longrightarrow> xs_revokedAt r \<noteq> None)"

lemma spent_revoke: "spent_hash h (os, ss) \<Longrightarrow> spent_hash h (os', revoke_rows hit t ss)"
  using open_revoked unfolding spent_hash_def fst_conv snd_conv revoke_sets by blast

lemma spent_step: "device_step v v' \<Longrightarrow> spent_hash h v \<Longrightarrow> spent_hash h v'"
proof (induction rule: device_step.induct)
  case (opened r ss n os)
  then show ?case by (auto simp: spent_hash_def)
qed (auto simp: spent_revoke, simp add: spent_hash_def)

locale device_invariant =
  fixes inv :: "owners \<times> token_row list \<Rightarrow> bool"
  assumes step_keeps: "device_step v v' \<Longrightarrow> inv v \<Longrightarrow> inv v'"
begin

lemma steps_keep: "device_step\<^sup>*\<^sup>* v v' \<Longrightarrow> inv v \<Longrightarrow> inv v'"
  by (induction rule: rtranclp_induct) (auto intro: step_keeps)

end

interpretation owned_devices: device_invariant device_ok
  by unfold_locales (rule device_ok_step)

interpretation spent_token: device_invariant "spent_hash h" for h
  by unfold_locales (rule spent_step)

end
