(* ===== verification/ExtensionControl.thy ===== *)
theory ExtensionControl
  imports Installations BindCodes Queue
begin

text \<open>
  The service the browser extension talks to: \<open>apps/api/src/extension/extension-control.service.ts\<close> with the
  parts of \<open>extension-control.controller.ts\<close> that read requests. A user binds an installation, lists, labels,
  disconnects and rotates it; the extension itself refreshes its token, fetches its configuration and
  reports usage with the token it was given. Every handler is an operation on the tables of \<open>Installations\<close>.
\<close>

section \<open>What the runtime provides\<close>

text \<open>
  A handler runs at one instant. \<open>xt_token\<close> is the random token it would issue and \<open>xt_hmac\<close> the keyed hash of
  tokens; the switches tell which of the calls whose failure the service catches succeed.
\<close>

record extension_runtime =
  xt_now :: int
  xt_cuid :: "nat \<Rightarrow> string"
  xt_token :: string
  xt_hmac :: "string \<Rightarrow> string"
  xt_compare :: "string \<Rightarrow> string \<Rightarrow> int"
  xt_parseDate :: "string \<Rightarrow> int option"
  xt_layerTie :: "layer_row \<Rightarrow> int"
  xt_installationTie :: "installation_row list \<Rightarrow> installation_row list"
  xt_sessionTie :: "token_row list \<Rightarrow> token_row list"
  xt_settingsUp :: bool
  xt_bootstrapUp :: bool
  xt_rowUp :: bool
  xt_eventsUp :: bool
  xt_readModelUp :: bool
  xt_readModelFails :: "admin_log_data \<Rightarrow> bool"
  xt_queueConnected :: bool
  xt_queuePolicy :: "queue_policy option"
  xt_queueError :: "string option"
  xt_processEnv :: "string \<Rightarrow> string option"
  xt_ttlMinutes :: int
  xt_platformAiProvider :: string

text \<open>\<open>try { m } catch { k }\<close>: what \<open>m\<close> has written stays.\<close>

definition catchS :: "('s, 'a) op \<Rightarrow> ('s, 'a) op \<Rightarrow> ('s, 'a) op" where
  "catchS m k s = (case m s of (s', Inl e) \<Rightarrow> k s' | r \<Rightarrow> r)"

section \<open>Reading requests\<close>

definition object_field :: "json_object \<Rightarrow> string \<Rightarrow> json_object" where
  "object_field raw key = (case map_of raw key of Some (JObj es) \<Rightarrow> es | _ \<Rightarrow> [])"

definition normalizeCapabilities :: "json option \<Rightarrow> string list" where
  "normalizeCapabilities v = (case v of Some (JArr items) \<Rightarrow> filter (\<lambda>t. trim t \<noteq> []) (json_text_items items) | _ \<Rightarrow> [])"

definition readRequiredString :: "json option \<Rightarrow> string \<Rightarrow> string result" where
  "readRequiredString v fieldName = (case v of
     None \<Rightarrow> Inl (BadRequest (fieldName @ '' is required.''))
   | Some JNull \<Rightarrow> Inl (BadRequest (fieldName @ '' is required.''))
   | Some (JStr t) \<Rightarrow> if trim t = [] then Inl (BadRequest (fieldName @ '' is required.'')) else Inr (trim t)
   | Some _ \<Rightarrow> Inl (JsError ''trim is not a function''))"

definition environment_char :: "char \<Rightarrow> bool" where
  "environment_char c = (alnum c \<or> c \<in> set [CHR ''.'', CHR ''_'', CHR ''-''])"

definition readRequiredEnvironment :: "json option \<Rightarrow> string \<Rightarrow> string result" where
  "readRequiredEnvironment v fieldName = bindR (readRequiredString v fieldName) (\<lambda>environment.
     if length environment > maxEnvironmentLength \<or> \<not> list_all environment_char environment
     then Inl (BadRequest (fieldName @ '' must be 1-64 characters using A-Z, a-z, 0-9, \".\", \"_\", or \"-\".''))
     else Inr environment)"

definition maxExtensionActionReasonLength :: nat where
  "maxExtensionActionReasonLength = 500"

definition readRequiredActionReason :: "json option \<Rightarrow> string result" where
  "readRequiredActionReason v = bindR (readRequiredString v ''reason'') (\<lambda>reason.
     if length reason > maxExtensionActionReasonLength then Inl (BadRequest ''reason must be at most 500 characters.'') else Inr reason)"

definition supportedHandshakeBrowsers :: "string list" where
  "supportedHandshakeBrowsers = [''chrome'', ''edge'', ''brave'', ''firefox'', ''safari'', ''other'']"

definition normalizeBrowser :: "string \<Rightarrow> string" where
  "normalizeBrowser v = (if v \<in> set supportedHandshakeBrowsers then v else ''other'')"

definition normalizeHandshake :: "json_object \<Rightarrow> compatibility_handshake result" where
  "normalizeHandshake raw =
     bindR (readRequiredString (map_of raw ''extensionVersion'') ''handshake.extensionVersion'') (\<lambda>extensionVersion.
     bindR (readRequiredString (map_of raw ''schemaVersion'') ''handshake.schemaVersion'') (\<lambda>schemaVersion.
     let capabilities = normalizeCapabilities (map_of raw ''capabilities'') in
     if capabilities = [] then Inl (BadRequest ''handshake.capabilities must contain at least one capability.'')
     else case map_of raw ''browser'' of
       Some (JStr browser) \<Rightarrow>
         if browser \<notin> set supportedHandshakeBrowsers
         then Inl (BadRequest (''handshake.browser must be one of '' @ join '', '' supportedHandshakeBrowsers @ ''.''))
         else bindR (trim_field raw ''buildId'') (\<lambda>buildId.
           Inr \<lparr>hs_extensionVersion = extensionVersion, hs_buildId = Option.bind buildId or_undefined, hs_schemaVersion = schemaVersion,
                hs_capabilities = capabilities, hs_browser = browser\<rparr>)
     | _ \<Rightarrow> Inl (BadRequest (''handshake.browser must be one of '' @ join '', '' supportedHandshakeBrowsers @ ''.''))))"

record bind_request =
  nb_installationId :: string
  nb_environment :: string
  nb_handshake :: compatibility_handshake

definition normalizeBindRequest :: "json_object \<Rightarrow> bind_request result" where
  "normalizeBindRequest raw =
     bindR (readRequiredString (map_of raw ''installationId'') ''installationId'') (\<lambda>installationId.
     bindR (readRequiredEnvironment (Some (nullish (given raw ''environment'') (JStr ''production''))) ''environment'') (\<lambda>environment.
     bindR (normalizeHandshake (object_field raw ''handshake'')) (\<lambda>handshake.
     Inr \<lparr>nb_installationId = installationId, nb_environment = environment, nb_handshake = handshake\<rparr>)))"

text \<open>What the extension leaves out is taken from the installation it belongs to.\<close>

definition normalizeBootstrapHandshake :: "json_object \<Rightarrow> installation_row \<Rightarrow> compatibility_handshake result" where
  "normalizeBootstrapHandshake raw r =
     (let capabilities = normalizeCapabilities (map_of raw ''capabilities'');
          fallbackCapabilities = normalizeCapabilities (Some (xi_capabilitiesJson r))
      in bindR (trim_field raw ''buildId'') (\<lambda>buildId.
         normalizeHandshake
           ([(''extensionVersion'', nullish (given raw ''extensionVersion'') (JStr (xi_extensionVersion r))),
             (''schemaVersion'', nullish (given raw ''schemaVersion'') (JStr (xi_schemaVersion r))),
             (''capabilities'', JArr (map JStr (if capabilities \<noteq> [] then capabilities else fallbackCapabilities))),
             (''browser'', nullish (given raw ''browser'') (JStr (normalizeBrowser (xi_browser r))))]
            @ (if truthy buildId then [(''buildId'', JStr (the buildId))] else []))))"

text \<open>A missing, falsy or empty object of metadata is \<open>undefined\<close>.\<close>

definition device_text :: "json_object \<Rightarrow> string \<Rightarrow> nat \<Rightarrow> string option result" where
  "device_text raw key limit = bindR (trim_field raw key) (\<lambda>v. Inr (Option.bind v (\<lambda>t. if t = [] then None else Some (take limit t))))"

definition normalizeDeviceMetadata :: "json option \<Rightarrow> device_metadata option result" where
  "normalizeDeviceMetadata v = (case v of
     Some (JObj raw) \<Rightarrow>
       bindR (device_text raw ''deviceLabel'' 120) (\<lambda>label.
       bindR (device_text raw ''platform'' 120) (\<lambda>platform.
       bindR (device_text raw ''osName'' 120) (\<lambda>osName.
       bindR (device_text raw ''osVersion'' 120) (\<lambda>osVersion.
       bindR (device_text raw ''browserName'' 120) (\<lambda>browserName.
       bindR (device_text raw ''browserVersion'' 120) (\<lambda>browserVersion.
       bindR (device_text raw ''userAgent'' 500) (\<lambda>userAgent.
       let d = \<lparr>dv_deviceLabel = label, dv_platform = platform, dv_osName = osName, dv_osVersion = osVersion,
                dv_browserName = browserName, dv_browserVersion = browserVersion, dv_userAgent = userAgent\<rparr>
       in Inr (if d = no_device then None else Some d))))))))
   | _ \<Rightarrow> Inr None)"

definition mergeInstallationMetadata :: "installation_row \<Rightarrow> device_metadata option \<Rightarrow> device_metadata" where
  "mergeInstallationMetadata r metadata =
     (let d = xi_device r in merge_device (nullish metadata no_device)
       \<lparr>dv_deviceLabel = or_none (dv_deviceLabel d), dv_platform = or_none (dv_platform d), dv_osName = or_none (dv_osName d),
        dv_osVersion = or_none (dv_osVersion d), dv_browserName = or_none (dv_browserName d),
        dv_browserVersion = or_none (dv_browserVersion d), dv_userAgent = or_none (dv_userAgent d)\<rparr>)"

section \<open>The lifetime of sessions\<close>

record session_policy =
  so_lifetimeHours :: jsnum
  so_refreshAfterSeconds :: int

definition buildFallbackExtensionSessionPolicy :: "extension_runtime \<Rightarrow> session_policy" where
  "buildFallbackExtensionSessionPolicy rt =
     \<lparr>so_lifetimeHours = num_div (Fin (of_int (xt_ttlMinutes rt))) (Fin 60), so_refreshAfterSeconds = max 60 (xt_ttlMinutes rt * 60 div 2)\<rparr>"

definition resolveExtensionSessionPolicy :: "extension_runtime \<Rightarrow> ('m extension_db_scheme, session_policy) op" where
  "resolveExtensionSessionPolicy rt s =
     (let fallback = buildFallbackExtensionSessionPolicy rt in
      if \<not> xt_settingsUp rt then (s, Inr fallback)
      else case getRetentionPolicy (xt_processEnv rt) (xt_now rt) (xd_settings s) of (settings, r) \<Rightarrow>
        (s\<lparr>xd_settings := settings\<rparr>, Inr (case r of
           Inl _ \<Rightarrow> fallback
         | Inr snapshot \<Rightarrow>
             if \<not> truthy (ps_updatedAt snapshot) then fallback
             else \<lparr>so_lifetimeHours = Fin (of_int (po_numbers (ps_policy snapshot) ExtensionSessionLifetimeHours)),
                   so_refreshAfterSeconds = po_numbers (ps_policy snapshot) ExtensionSessionRefreshAfterSeconds\<rparr>)))"

text \<open>\<open>new Date(n)\<close> truncates; a date outside its range or not a number is invalid, which the database refuses.\<close>

definition date_of_number :: "jsnum \<Rightarrow> int result" where
  "date_of_number n = (case n of
     Fin q \<Rightarrow> if \<bar>q\<bar> \<le> 8640000000000000 then Inr (trunc_num q) else Inl InvalidValue
   | _ \<Rightarrow> Inl InvalidValue)"

definition session_expiry :: "int \<Rightarrow> jsnum \<Rightarrow> jsnum" where
  "session_expiry now hours = num_add (Fin (of_int now)) (num_mul (num_mul (num_mul hours (Fin 60)) (Fin 60)) (Fin 1000))"

definition issueInstallationSession ::
  "extension_runtime \<Rightarrow> installation_row \<Rightarrow> string \<Rightarrow> jsnum \<Rightarrow> ('m extension_db_scheme, string \<times> installation_session) op" where
  "issueInstallationSession rt installation userId lifetimeHours =
     bindS (liftS (date_of_number (session_expiry (xt_now rt) lifetimeHours))) (\<lambda>expiresAt.
     bindS (create_session (xt_cuid rt) (xt_now rt) (xi_id installation) userId (xt_hmac rt (xt_token rt)) expiresAt) (\<lambda>record.
     retS (xt_token rt, record)))"

section \<open>Events\<close>

record lifecycle_input =
  lv_actorId :: "string option"
  lv_targetType :: string
  lv_targetId :: string
  lv_auditEventType :: string
  lv_securityEventType :: string
  lv_securitySeverity :: log_severity
  lv_status :: log_status
  lv_summary :: string
  lv_metadata :: json_object
  lv_domainEventType :: string
  lv_domainPayload :: json_object
  lv_occurredAt :: "int option"

definition lifecycle_log :: "lifecycle_input \<Rightarrow> int \<Rightarrow> string \<Rightarrow> string \<Rightarrow> log_severity \<Rightarrow> log_event" where
  "lifecycle_log i occurredAt stream eventType severity =
     \<lparr>le_eventId = stream @ '':'' @ eventType @ '':'' @ lv_targetId i @ '':'' @ show_int occurredAt, le_eventType = eventType,
      le_actorId = nullish (lv_actorId i) ''system'', le_actorType = (if truthy (lv_actorId i) then SubjectUser else SubjectSystem),
      le_targetType = lv_targetType i, le_targetId = lv_targetId i, le_occurredAt = toISOString occurredAt,
      le_metadata = Some (spread [(''summary'', JStr (lv_summary i))] (lv_metadata i)), le_category = CatAudit, le_severity = severity,
      le_status = Some (lv_status i)\<rparr>"

definition recordLifecycleEventSafely :: "extension_runtime \<Rightarrow> lifecycle_input \<Rightarrow> ('m extension_db_scheme, unit) op" where
  "recordLifecycleEventSafely rt i =
     (let occurredAt = nullish (lv_occurredAt i) (xt_now rt) in
      catchS (recordLifecycleEvent (xt_eventsUp rt) (xt_readModelUp rt) (xt_readModelFails rt) (xt_cuid rt) occurredAt
          (createAuditLogEvent (lifecycle_log i occurredAt ''audit'' (lv_auditEventType i)
             (if lv_securitySeverity i = SevError then SevError else SevInfo)))
          (createSecurityLogEvent (lifecycle_log i occurredAt ''security'' (lv_securityEventType i) (lv_securitySeverity i)))
          (lv_domainEventType i)
          (JObj (spread (spread [(''summary'', JStr (lv_summary i))] (lv_domainPayload i)) [(''occurredAt'', JStr (toISOString occurredAt))])))
        (retS ()))"

definition json_int :: "int \<Rightarrow> json" where
  "json_int n = JNum (Fin (of_int n))"

text \<open>An event about an installation, by its owner, that succeeded at the instant of the handler.\<close>

definition installation_event ::
  "extension_runtime \<Rightarrow> string \<Rightarrow> string \<Rightarrow> string \<Rightarrow> string \<Rightarrow> string \<Rightarrow> json_object \<Rightarrow> json_object \<Rightarrow> lifecycle_input" where
  "installation_event rt actorId installationId auditType securityType summary metadata payload =
     \<lparr>lv_actorId = Some actorId, lv_targetType = ''extension_installation'', lv_targetId = installationId, lv_auditEventType = auditType,
      lv_securityEventType = securityType, lv_securitySeverity = SevInfo, lv_status = StatusSuccess, lv_summary = summary,
      lv_metadata = metadata, lv_domainEventType = auditType, lv_domainPayload = payload, lv_occurredAt = Some (xt_now rt)\<rparr>"

section \<open>The configuration of an installation\<close>

type_synonym extension_payload = "(ai_access_policy + ai_policy_snapshot) bootstrap_payload_v2"

definition bootstrapCompatibilityPolicy :: compatibility_policy where
  "bootstrapCompatibilityPolicy =
     \<lparr>cp_minimumVersion = ''1.0.0'', cp_recommendedVersion = ''1.6.0'', cp_supportedSchemaVersions = [''1'', ''2''],
      cp_requiredCapabilities = Some [''quiz-capture''], cp_resultStatus = None, cp_reason = None\<rparr>"

definition payload_context :: "string \<Rightarrow> installation_row \<Rightarrow> compatibility_handshake \<Rightarrow> bootstrap_context" where
  "payload_context environment installation handshake =
     \<lparr>bc_environment = Some environment, bc_planCode = None, bc_userId = Some (xi_userId installation), bc_buildId = hs_buildId handshake,
      bc_roles = None\<rparr>"

definition buildBootstrapPayload ::
  "extension_runtime \<Rightarrow> installation_row \<Rightarrow> string \<Rightarrow> compatibility_handshake \<Rightarrow> string option \<Rightarrow> int
     \<Rightarrow> ('m extension_db_scheme, extension_payload) op" where
  "buildBootstrapPayload rt installation environment handshake issuedAt refreshAfterSeconds =
     (if \<not> xt_bootstrapUp rt then throwS (JsError ''bootstrap reads failed'')
      else getS (\<lambda>s. buildExtensionBootstrapV2 (xt_compare rt) (xt_now rt) (xi_installationId installation) handshake
        (case findLatestRule (xd_rules s) of
           Some rule \<Rightarrow> mapExtensionCompatibilityRuleToPolicy rule defaultCompatibilityPolicy
         | None \<Rightarrow> bootstrapCompatibilityPolicy)
        (map (\<lambda>(r, os). mapFeatureFlagRecordToDefinition r os) (findAllFlags (xd_flags s)))
        (map mapRemoteConfigLayerRecordToDefinition (findActiveLayers (xt_layerTie rt) (xd_config s))) [] []
        (Inr (resolvePolicyForWorkspace (xt_platformAiProvider rt) s)) (payload_context environment installation handshake)
        issuedAt (Some refreshAfterSeconds)))"

definition buildDegradedBootstrapPayload ::
  "extension_runtime \<Rightarrow> installation_row \<Rightarrow> string \<Rightarrow> compatibility_handshake \<Rightarrow> int \<Rightarrow> extension_payload" where
  "buildDegradedBootstrapPayload rt installation environment handshake refreshAfterSeconds =
     buildExtensionBootstrapV2 (xt_compare rt) (xt_now rt) (xi_installationId installation) handshake defaultCompatibilityPolicy [] [] [] []
       (Inl (buildDefaultAiAccessPolicy \<lparr>dp_mode = Some PlatformOnly, dp_providers = Some [''openrouter''],
          dp_defaultProvider = Some ''openrouter'', dp_defaultModel = Some ''openrouter/auto'', dp_allowWorkspaceSharedCredentials = None,
          dp_requireAdminApproval = None, dp_allowVisionOnUserKeys = None, dp_allowedModelTags = None,
          dp_reason = Some ''Fallback bootstrap policy is active because the connected bootstrap services are temporarily unavailable.''\<rparr>))
       (payload_context environment installation handshake) None (Some refreshAfterSeconds)"

section \<open>Binding\<close>

record binding_summary =
  bm_installationId :: string
  bm_userId :: string
  bm_browser :: string
  bm_extensionVersion :: string
  bm_buildId :: "string option"
  bm_schemaVersion :: string
  bm_capabilities :: "string list"
  bm_lastSeenAt :: string
  bm_boundAt :: string

record token_session =
  tz_token :: string
  tz_expiresAt :: string
  tz_refreshAfterSeconds :: int

record bind_result =
  bx_installation :: binding_summary
  bx_session :: token_session
  bx_bootstrap :: extension_payload

definition bound_of :: "extension_runtime \<Rightarrow> string \<Rightarrow> string \<Rightarrow> compatibility_handshake \<Rightarrow> device_metadata option \<Rightarrow> bound_input" where
  "bound_of rt userId installationId h metadata =
     \<lparr>bn_userId = userId, bn_installationId = installationId, bn_browser = hs_browser h, bn_extensionVersion = hs_extensionVersion h,
      bn_schemaVersion = hs_schemaVersion h, bn_capabilities = hs_capabilities h, bn_lastSeenAt = xt_now rt, bn_metadata = metadata\<rparr>"

definition summary_of :: "extension_runtime \<Rightarrow> installation_row \<Rightarrow> compatibility_handshake \<Rightarrow> binding_summary" where
  "summary_of rt r h =
     \<lparr>bm_installationId = xi_installationId r, bm_userId = xi_userId r, bm_browser = xi_browser r, bm_extensionVersion = xi_extensionVersion r,
      bm_buildId = or_none (hs_buildId h), bm_schemaVersion = xi_schemaVersion r,
      bm_capabilities = normalizeCapabilities (Some (xi_capabilitiesJson r)), bm_lastSeenAt = toISOString (nullish (xi_lastSeenAt r) (xt_now rt)),
      bm_boundAt = toISOString (xi_createdAt r)\<rparr>"

definition bind_event ::
  "extension_runtime \<Rightarrow> string \<Rightarrow> installation_row option \<Rightarrow> installation_row \<Rightarrow> string \<Rightarrow> int \<Rightarrow> int \<Rightarrow> lifecycle_input" where
  "bind_event rt actorId existing r expiresAt refreshAfterSeconds revokedSessionCount =
     (let again = existing \<noteq> None in
      installation_event rt actorId (xi_installationId r)
        (if again then ''extension.installation_reconnected'' else ''extension.installation_bound'')
        (if again then ''extension.installation_session_reissued'' else ''extension.installation_session_issued'')
        (if again then ''reconnected an extension installation session'' else ''bound a new extension installation session'')
        [(''installationId'', JStr (xi_installationId r)), (''browser'', JStr (xi_browser r)),
         (''extensionVersion'', JStr (xi_extensionVersion r)), (''schemaVersion'', JStr (xi_schemaVersion r)),
         (''capabilities'', JArr (map JStr (normalizeCapabilities (Some (xi_capabilitiesJson r))))), (''sessionExpiresAt'', JStr expiresAt),
         (''refreshAfterSeconds'', json_int refreshAfterSeconds), (''revokedSessionCount'', json_int revokedSessionCount),
         (''previousUserId'', json_text (map_option xi_userId existing))]
        [(''installationId'', JStr (xi_installationId r)), (''actorId'', JStr actorId), (''sessionExpiresAt'', JStr expiresAt),
         (''revokedSessionCount'', json_int revokedSessionCount)])"

definition bindInstallationForCurrentSession ::
  "extension_runtime \<Rightarrow> current_session \<Rightarrow> json_object option \<Rightarrow> ('m extension_db_scheme, bind_result) op" where
  "bindInstallationForCurrentSession rt session request =
     (let raw = nullish request [] in
      bindS (resolveExtensionSessionPolicy rt) (\<lambda>policy.
      bindS (liftS (normalizeBindRequest raw)) (\<lambda>normalized.
      bindS (getS (findByInstallationId (nb_installationId normalized))) (\<lambda>existing.
      bindS (liftS (normalizeDeviceMetadata (map_of raw ''metadata''))) (\<lambda>metadata.
      bindS (upsertBoundInstallation (xt_cuid rt) (xt_now rt)
        (bound_of rt (cs_user_id session) (nb_installationId normalized) (nb_handshake normalized) metadata)) (\<lambda>installation.
      bindS (revokeActiveByInstallationId (xi_id installation) (xt_now rt)) (\<lambda>revokedSessionCount.
      bindS (issueInstallationSession rt installation (cs_user_id session) (so_lifetimeHours policy)) (\<lambda>(sessionToken, tokenRecord).
      bindS (buildBootstrapPayload rt installation (nb_environment normalized) (nb_handshake normalized) (Some (toISOString (xt_now rt)))
        (so_refreshAfterSeconds policy)) (\<lambda>bootstrap.
      let expiresAt = toISOString (xs_expiresAt (ns_session tokenRecord)) in
      thenS (recordLifecycleEventSafely rt (bind_event rt (cs_user_id session) existing installation expiresAt
          (so_refreshAfterSeconds policy) revokedSessionCount))
      (retS \<lparr>bx_installation = summary_of rt installation (nb_handshake normalized),
             bx_session = \<lparr>tz_token = sessionToken, tz_expiresAt = expiresAt, tz_refreshAfterSeconds = so_refreshAfterSeconds policy\<rparr>,
             bx_bootstrap = bootstrap\<rparr>))))))))))"

section \<open>Tokens of installations\<close>

text \<open>
  A refused token is logged, at most once in ten minutes for each prefix of its hash and endpoint. The map of
  what was logged keeps its order of insertion and is cut to its limit, the oldest entries first.
\<close>

definition invalidInstallationTokenLogWindowMs :: int where
  "invalidInstallationTokenLogWindowMs = 600000"

definition maxInvalidInstallationTokenLogKeys :: nat where
  "maxInvalidInstallationTokenLogKeys = 10000"

definition prune_invalid :: "nat \<Rightarrow> int \<Rightarrow> (string \<times> invalid_token_state) list \<Rightarrow> (string \<times> invalid_token_state) list" where
  "prune_invalid limit now entries =
     (if length entries \<le> limit then entries
      else let kept = filter (\<lambda>(_, st). \<not> it_nextLogAt st \<le> now) entries in drop (length kept - limit) kept)"

definition token_log_key :: "string \<Rightarrow> string option \<Rightarrow> string" where
  "token_log_key tokenHash endpoint =
     take 16 tokenHash @ '':'' @ nullish (Option.bind endpoint (\<lambda>e. or_undefined (trim e))) ''unknown''"

text \<open>The new map, and the number of suppressed entries when a line is written.\<close>

definition logInvalidInstallationToken ::
  "nat \<Rightarrow> int \<Rightarrow> string \<Rightarrow> string option \<Rightarrow> (string \<times> invalid_token_state) list \<Rightarrow> (string \<times> invalid_token_state) list \<times> int option" where
  "logInvalidInstallationToken limit now tokenHash endpoint entries =
     (let key = token_log_key tokenHash endpoint;
          fresh = prune_invalid limit now (AList.update key \<lparr>it_nextLogAt = now + invalidInstallationTokenLogWindowMs, it_suppressed = 0\<rparr> entries)
      in case map_of entries key of
           None \<Rightarrow> (fresh, Some 0)
         | Some st \<Rightarrow>
             if now < it_nextLogAt st then (AList.update key (st\<lparr>it_suppressed := it_suppressed st + 1\<rparr>) entries, None)
             else (fresh, Some (it_suppressed st)))"

definition resolveInstallationSession ::
  "extension_runtime \<Rightarrow> string \<Rightarrow> string option \<Rightarrow> ('m extension_db_scheme, installation_session) op" where
  "resolveInstallationSession rt accessToken endpoint s =
     (case findActiveByTokenHash (xt_hmac rt accessToken) (xt_now rt) s of
        Some x \<Rightarrow> (s, Inr x)
      | None \<Rightarrow> (s\<lparr>xd_invalid := fst (logInvalidInstallationToken maxInvalidInstallationTokenLogKeys (xt_now rt) (xt_hmac rt accessToken)
                     endpoint (xd_invalid s))\<rparr>,
                 Inl (Unauthorized ''Installation session is invalid or expired.'')))"

definition requireInstallationSession ::
  "extension_runtime \<Rightarrow> string option \<Rightarrow> string \<Rightarrow> ('m extension_db_scheme, installation_session) op" where
  "requireInstallationSession rt authorization endpoint = (case parseBearerToken authorization of
     Some accessToken \<Rightarrow> if accessToken = [] then throwS (Unauthorized ''Missing installation bearer token.'')
       else resolveInstallationSession rt accessToken (Some endpoint)
   | None \<Rightarrow> throwS (Unauthorized ''Missing installation bearer token.''))"

record refresh_result =
  rf_installationId :: string
  rf_installationToken :: string
  rf_tokenExpiresAt :: string
  rf_refreshAfterSeconds :: int

definition refreshInstallationSessionForToken ::
  "extension_runtime \<Rightarrow> installation_session \<Rightarrow> ('m extension_db_scheme, refresh_result) op" where
  "refreshInstallationSessionForToken rt x =
     (let installation = ns_installation x in
      bindS (resolveExtensionSessionPolicy rt) (\<lambda>policy.
      thenS (revokeSession (xs_id (ns_session x)) (xt_now rt))
      (bindS (issueInstallationSession rt installation (xi_userId installation) (so_lifetimeHours policy)) (\<lambda>(sessionToken, tokenRecord).
       let expiresAt = toISOString (xs_expiresAt (ns_session tokenRecord)) in
       thenS (recordLifecycleEventSafely rt (installation_event rt (xi_userId installation) (xi_installationId installation)
           ''extension.installation_session_refreshed'' ''extension.installation_session_refreshed''
           ''extension installation session silently refreshed''
           [(''installationId'', JStr (xi_installationId installation)), (''previousSessionId'', JStr (xs_id (ns_session x))),
            (''sessionExpiresAt'', JStr expiresAt), (''refreshAfterSeconds'', json_int (so_refreshAfterSeconds policy))]
           [(''installationId'', JStr (xi_installationId installation)), (''actorId'', JStr (xi_userId installation)),
            (''sessionExpiresAt'', JStr expiresAt)]))
       (retS \<lparr>rf_installationId = xi_installationId installation, rf_installationToken = sessionToken, rf_tokenExpiresAt = expiresAt,
              rf_refreshAfterSeconds = so_refreshAfterSeconds policy\<rparr>)))))"

definition handleRefreshInstallationSession ::
  "extension_runtime \<Rightarrow> string option \<Rightarrow> string \<Rightarrow> ('m extension_db_scheme, refresh_result) op" where
  "handleRefreshInstallationSession rt authorization endpoint =
     bindS (requireInstallationSession rt authorization endpoint) (refreshInstallationSessionForToken rt)"

section \<open>Bootstrap\<close>

definition bootstrapInstallationSession ::
  "extension_runtime \<Rightarrow> installation_session \<Rightarrow> json_object option \<Rightarrow> ('m extension_db_scheme, extension_payload) op" where
  "bootstrapInstallationSession rt x request =
     (let raw = nullish request []; known = ns_installation x in
      bindS (resolveExtensionSessionPolicy rt) (\<lambda>policy.
      bindS (liftS (readRequiredString (Some (nullish (given raw ''installationId'') (JStr (xi_installationId known)))) ''installationId'')) (\<lambda>installationId.
      if installationId \<noteq> xi_installationId known
      then throwS (Unauthorized ''Installation session does not match the requested installation.'')
      else
      bindS (liftS (readRequiredEnvironment (Some (nullish (given raw ''environment'') (JStr ''production''))) ''environment'')) (\<lambda>environment.
      bindS (liftS (normalizeBootstrapHandshake (object_field raw ''handshake'') known)) (\<lambda>handshake.
      bindS (catchS
          (bindS (liftS (normalizeDeviceMetadata (map_of raw ''metadata''))) (\<lambda>metadata.
           if \<not> xt_rowUp rt then throwS (JsError ''upsert failed'')
           else upsertBoundInstallation (xt_cuid rt) (xt_now rt)
             (bound_of rt (xi_userId known) installationId handshake (Some (mergeInstallationMetadata known metadata)))))
          (retS (known\<lparr>xi_lastSeenAt := Some (xt_now rt)\<rparr>))) (\<lambda>installation.
      catchS (buildBootstrapPayload rt installation environment handshake None (so_refreshAfterSeconds policy))
        (retS (buildDegradedBootstrapPayload rt installation environment handshake (so_refreshAfterSeconds policy)))))))))"

definition bootstrapV2 ::
  "extension_runtime \<Rightarrow> string option \<Rightarrow> json_object option \<Rightarrow> ('m extension_db_scheme, extension_payload) op" where
  "bootstrapV2 rt authorization request =
     bindS (requireInstallationSession rt authorization ''/extension/bootstrap/v2'') (\<lambda>x. bootstrapInstallationSession rt x request)"

section \<open>The installations of a user\<close>

record session_stats =
  ns_count :: nat
  ns_lastIssuedAt :: "string option"
  ns_lastExpiresAt :: "string option"

definition later_text :: "string option \<Rightarrow> string \<Rightarrow> string option" where
  "later_text current v = (if \<not> truthy current \<or> the current < v then Some v else current)"

definition count_session :: "token_row \<Rightarrow> (string \<times> session_stats) list \<Rightarrow> (string \<times> session_stats) list" where
  "count_session r stats =
     (let current = nullish (map_of stats (xs_extensionInstallationId r)) \<lparr>ns_count = 0, ns_lastIssuedAt = None, ns_lastExpiresAt = None\<rparr>
      in AList.update (xs_extensionInstallationId r)
           \<lparr>ns_count = ns_count current + 1, ns_lastIssuedAt = later_text (ns_lastIssuedAt current) (toISOString (xs_createdAt r)),
            ns_lastExpiresAt = later_text (ns_lastExpiresAt current) (toISOString (xs_expiresAt r))\<rparr> stats)"

definition session_stats_of :: "token_row list \<Rightarrow> (string \<times> session_stats) list" where
  "session_stats_of rows = fold count_session rows []"

datatype connection_status = Connected | Offline | ExpiringSoon | ReconnectRequired

definition extensionOnlineGraceMs :: int where
  "extensionOnlineGraceMs = 1800000"

definition computeConnectionStatus ::
  "(string \<Rightarrow> int option) \<Rightarrow> nat \<Rightarrow> int option \<Rightarrow> string option \<Rightarrow> int \<Rightarrow> connection_status" where
  "computeConnectionStatus host activeSessionCount lastSeenAt lastSessionExpiresAt now =
     (let online = (case lastSeenAt of None \<Rightarrow> Offline | Some t \<Rightarrow> if now - t > extensionOnlineGraceMs then Offline else Connected) in
      if activeSessionCount = 0 then ReconnectRequired
      else if truthy lastSessionExpiresAt then (case date_parse host (the lastSessionExpiresAt) of
          None \<Rightarrow> ReconnectRequired
        | Some expiresAt \<Rightarrow> if expiresAt \<le> now then ReconnectRequired else if expiresAt - now \<le> 300000 then ExpiringSoon else online)
      else online)"

record inventory_item =
  vi_installationId :: string
  vi_browser :: string
  vi_extensionVersion :: string
  vi_schemaVersion :: string
  vi_capabilities :: "string list"
  vi_boundAt :: string
  vi_signedInAt :: string
  vi_lastSeenAt :: "string option"
  vi_activeSessionCount :: nat
  vi_lastSessionIssuedAt :: "string option"
  vi_lastSessionExpiresAt :: "string option"
  vi_compatibility :: compatibility_result
  vi_connectionStatus :: connection_status
  vi_requiresReconnect :: bool
  vi_isOnline :: bool
  vi_lastSeenStatus :: string
  vi_device :: device_metadata

definition mapInstallationInventoryItem ::
  "extension_runtime \<Rightarrow> installation_row \<Rightarrow> compatibility_policy \<Rightarrow> (string \<times> session_stats) list \<Rightarrow> inventory_item" where
  "mapInstallationInventoryItem rt r policy stats =
     (let st = map_of stats (xi_id r);
          activeSessionCount = (case st of None \<Rightarrow> 0 | Some x \<Rightarrow> ns_count x);
          lastSessionExpiresAt = Option.bind st ns_lastExpiresAt;
          status = computeConnectionStatus (xt_parseDate rt) activeSessionCount (xi_lastSeenAt r) lastSessionExpiresAt (xt_now rt);
          capabilities = normalizeCapabilities (Some (xi_capabilitiesJson r));
          d = xi_device r
      in \<lparr>vi_installationId = xi_installationId r, vi_browser = normalizeBrowser (xi_browser r), vi_extensionVersion = xi_extensionVersion r,
          vi_schemaVersion = xi_schemaVersion r, vi_capabilities = capabilities, vi_boundAt = toISOString (xi_createdAt r),
          vi_signedInAt = toISOString (xi_createdAt r), vi_lastSeenAt = map_option toISOString (xi_lastSeenAt r),
          vi_activeSessionCount = activeSessionCount, vi_lastSessionIssuedAt = or_none (Option.bind st ns_lastIssuedAt),
          vi_lastSessionExpiresAt = or_none lastSessionExpiresAt,
          vi_compatibility = evaluateCompatibility
            \<lparr>hs_extensionVersion = xi_extensionVersion r, hs_buildId = None, hs_schemaVersion = xi_schemaVersion r,
             hs_capabilities = capabilities, hs_browser = normalizeBrowser (xi_browser r)\<rparr> policy,
          vi_connectionStatus = status, vi_requiresReconnect = (status = ReconnectRequired), vi_isOnline = (status = Connected),
          vi_lastSeenStatus = (if xi_lastSeenAt r = None then ''unknown'' else if status = Connected then ''online'' else ''offline''),
          vi_device = \<lparr>dv_deviceLabel = or_none (dv_deviceLabel d), dv_platform = or_none (dv_platform d), dv_osName = or_none (dv_osName d),
            dv_osVersion = or_none (dv_osVersion d), dv_browserName = or_none (dv_browserName d),
            dv_browserVersion = or_none (dv_browserVersion d), dv_userAgent = or_none (dv_userAgent d)\<rparr>\<rparr>)"

record inventory_snapshot =
  vs_accessDecision :: access_decision
  vs_disconnectDecision :: access_decision
  vs_items :: "inventory_item list"
  vs_permissions :: "string list"

definition listInstallationsForCurrentSession ::
  "extension_runtime \<Rightarrow> current_session \<Rightarrow> 'm extension_db_scheme \<Rightarrow> inventory_snapshot result" where
  "listInstallationsForCurrentSession rt session s =
     bindR (requireDecision (canReadExtensionInstallations (cs_principal session))) (\<lambda>_.
     let installations = listInstallationsByUserId (xt_installationTie rt) (cs_user_id session) s;
         activeSessions = listActiveByInstallationIds (xt_sessionTie rt) (map xi_id installations) (xt_now rt) s;
         policy = (case findLatestRule (xd_rules s) of
           Some rule \<Rightarrow> mapExtensionCompatibilityRuleToPolicy rule defaultCompatibilityPolicy | None \<Rightarrow> defaultCompatibilityPolicy);
         stats = session_stats_of activeSessions
     in Inr \<lparr>vs_accessDecision = canReadExtensionInstallations (cs_principal session),
             vs_disconnectDecision = canWriteExtensionInstallations (cs_principal session),
             vs_items = filter (\<lambda>i. vi_connectionStatus i \<noteq> ReconnectRequired \<and> \<not> vi_requiresReconnect i)
               (map (\<lambda>r. mapInstallationInventoryItem rt r policy stats) installations),
             vs_permissions = cs_permissions session\<rparr>)"

definition updateInstallationLabelForCurrentSession ::
  "extension_runtime \<Rightarrow> current_session \<Rightarrow> string \<Rightarrow> json option \<Rightarrow> ('m extension_db_scheme, string \<times> string option) op" where
  "updateInstallationLabelForCurrentSession rt session installationId deviceLabel =
     thenS (liftS (requireDecision (canReadExtensionInstallations (cs_principal session))))
     (bindS (liftS (readRequiredString (Some (JStr installationId)) ''installationId'')) (\<lambda>i.
      let trimmed = (case deviceLabel of Some (JStr t) \<Rightarrow> Some (trim t) | _ \<Rightarrow> None) in
      if truthy trimmed \<and> length (the trimmed) > 120 then throwS (BadRequest ''deviceLabel must be at most 120 characters.'')
      else bindS (updateDeviceLabelForUser (xt_now rt) (cs_user_id session) i (or_none trimmed)) (\<lambda>updated.
        case updated of
          None \<Rightarrow> throwS (NotFound ''Extension installation not found.'')
        | Some r \<Rightarrow> retS (xi_installationId r, dv_deviceLabel (xi_device r)))))"

text \<open>An installation of the caller.\<close>

definition owned_installation :: "current_session \<Rightarrow> string \<Rightarrow> ('m extension_db_scheme, installation_row) op" where
  "owned_installation session installationId =
     bindS (getS (findByInstallationId installationId)) (\<lambda>found. case found of
       None \<Rightarrow> throwS (NotFound ''Extension installation not found.'')
     | Some r \<Rightarrow> if xi_userId r \<noteq> cs_user_id session then throwS (NotFound ''Extension installation not found.'') else retS r)"

record disconnect_result =
  dx_installationId :: string
  dx_revokedSessionCount :: int
  dx_disconnectedAt :: string
  dx_requiresReconnect :: bool

text \<open>What both ways of disconnecting do with the installation they found.\<close>

definition disconnect_installation ::
  "extension_runtime \<Rightarrow> current_session \<Rightarrow> installation_row \<Rightarrow> string \<Rightarrow> string \<Rightarrow> (int \<Rightarrow> json_object) \<Rightarrow> (int \<Rightarrow> json_object)
     \<Rightarrow> ('m extension_db_scheme, disconnect_result) op" where
  "disconnect_installation rt session r eventType summary metadata payload =
     bindS (revokeActiveByInstallationId (xi_id r) (xt_now rt)) (\<lambda>revokedSessionCount.
     thenS (recordLifecycleEventSafely rt (installation_event rt (cs_user_id session) (xi_installationId r) eventType
        ''extension.installation_session_revoked'' summary (metadata revokedSessionCount) (payload revokedSessionCount)))
     (retS \<lparr>dx_installationId = xi_installationId r, dx_revokedSessionCount = revokedSessionCount,
            dx_disconnectedAt = toISOString (xt_now rt), dx_requiresReconnect = True\<rparr>))"

definition disconnectInstallationForCurrentSession ::
  "extension_runtime \<Rightarrow> current_session \<Rightarrow> json_object option \<Rightarrow> ('m extension_db_scheme, disconnect_result) op" where
  "disconnectInstallationForCurrentSession rt session request =
     (let raw = nullish request [] in
      bindS (liftS (readRequiredString (map_of raw ''installationId'') ''installationId'')) (\<lambda>installationId.
      thenS (liftS (requireDecision (canWriteExtensionInstallations (cs_principal session))))
      (bindS (liftS (readRequiredActionReason (map_of raw ''reason''))) (\<lambda>reason.
       bindS (owned_installation session installationId) (\<lambda>r.
       disconnect_installation rt session r ''extension.installation_disconnected''
         ''disconnected an extension installation and revoked active sessions''
         (\<lambda>n. [(''installationId'', JStr (xi_installationId r)), (''reason'', JStr reason), (''revokedSessionCount'', json_int n),
                (''requiresReconnect'', JBool True)])
         (\<lambda>n. [(''installationId'', JStr (xi_installationId r)), (''actorId'', JStr (cs_user_id session)), (''reason'', JStr reason),
                (''revokedSessionCount'', json_int n)]))))))"

definition selfDisconnectInstallationForCurrentSession ::
  "extension_runtime \<Rightarrow> current_session \<Rightarrow> json_object option \<Rightarrow> ('m extension_db_scheme, disconnect_result) op" where
  "selfDisconnectInstallationForCurrentSession rt session request =
     (let raw = nullish request [] in
      bindS (liftS (readRequiredString (map_of raw ''installationId'') ''installationId'')) (\<lambda>installationId.
      thenS (liftS (requireDecision (canReadExtensionInstallations (cs_principal session))))
      (bindS (owned_installation session installationId) (\<lambda>r.
       disconnect_installation rt session r ''extension.installation_self_disconnected''
         ''self-disconnected an extension installation and revoked active sessions''
         (\<lambda>n. [(''installationId'', JStr (xi_installationId r)), (''revokedSessionCount'', json_int n), (''initiatedBy'', JStr ''user''),
                (''requiresReconnect'', JBool True)])
         (\<lambda>n. [(''installationId'', JStr (xi_installationId r)), (''actorId'', JStr (cs_user_id session)),
                (''revokedSessionCount'', json_int n)])))))"

record rotate_result =
  rx_installationId :: string
  rx_revokedSessionCount :: int
  rx_rotatedAt :: string
  rx_session :: token_session

definition rotateInstallationSessionForCurrentSession ::
  "extension_runtime \<Rightarrow> current_session \<Rightarrow> json_object option \<Rightarrow> ('m extension_db_scheme, rotate_result) op" where
  "rotateInstallationSessionForCurrentSession rt session request =
     (let raw = nullish request [] in
      bindS (resolveExtensionSessionPolicy rt) (\<lambda>policy.
      bindS (liftS (readRequiredString (map_of raw ''installationId'') ''installationId'')) (\<lambda>installationId.
      thenS (liftS (requireDecision (canWriteExtensionInstallations (cs_principal session))))
      (bindS (liftS (readRequiredActionReason (map_of raw ''reason''))) (\<lambda>reason.
       bindS (owned_installation session installationId) (\<lambda>r.
       bindS (revokeActiveByInstallationId (xi_id r) (xt_now rt)) (\<lambda>revokedSessionCount.
       bindS (issueInstallationSession rt r (xi_userId r) (so_lifetimeHours policy)) (\<lambda>(sessionToken, tokenRecord).
       let expiresAt = toISOString (xs_expiresAt (ns_session tokenRecord)) in
       thenS (recordLifecycleEventSafely rt (installation_event rt (cs_user_id session) (xi_installationId r)
           ''extension.installation_session_rotated'' ''extension.installation_session_rotated''
           ''rotated an extension installation session token''
           [(''installationId'', JStr (xi_installationId r)), (''reason'', JStr reason), (''revokedSessionCount'', json_int revokedSessionCount),
            (''sessionExpiresAt'', JStr expiresAt), (''refreshAfterSeconds'', json_int (so_refreshAfterSeconds policy))]
           [(''installationId'', JStr (xi_installationId r)), (''actorId'', JStr (cs_user_id session)), (''reason'', JStr reason),
            (''revokedSessionCount'', json_int revokedSessionCount), (''sessionExpiresAt'', JStr expiresAt)]))
       (retS \<lparr>rx_installationId = xi_installationId r, rx_revokedSessionCount = revokedSessionCount, rx_rotatedAt = toISOString (xt_now rt),
              rx_session = \<lparr>tz_token = sessionToken, tz_expiresAt = expiresAt,
                tz_refreshAfterSeconds = so_refreshAfterSeconds policy\<rparr>\<rparr>)))))))))"

end
