(* ===== verification/ExtensionUsage.thy ===== *)
theory ExtensionUsage
  imports ExtensionControl
begin

text \<open>
  What the extension reports and asks for with its token: usage events on their way to the queue, from the
  envelope the controller reads to the answer (\<open>extension-control.controller.ts\<close>,
  \<open>extension-control.service.ts\<close>), the reading of AI requests, the events of failed AI requests, and the
  session under which an installation acts (\<open>extension-auth-session.ts\<close>).
\<close>

section \<open>Reading an event\<close>

definition readText :: "json option \<Rightarrow> string option" where
  "readText v = (case v of Some (JStr t) \<Rightarrow> or_undefined (trim t) | _ \<Rightarrow> None)"

text \<open>\<open>new Date(value).toISOString()\<close> throws on a number that is no date.\<close>

definition normalizeOccurredAt :: "(string \<Rightarrow> int option) \<Rightarrow> int \<Rightarrow> json option \<Rightarrow> string result" where
  "normalizeOccurredAt host now v = (case v of
     Some (JNum (Fin q)) \<Rightarrow> (case date_of_number (Fin q) of Inl _ \<Rightarrow> Inl (JsError ''Invalid time value'') | Inr t \<Rightarrow> Inr (toISOString t))
   | Some (JStr t) \<Rightarrow> if trim t = [] then Inr (toISOString now) else Inr (toISOString (nullish (date_parse host t) now))
   | _ \<Rightarrow> Inr (toISOString now))"

record partial_event =
  pu_eventType :: "string option"
  pu_occurredAt :: "string option"
  pu_payload :: "json_object option"

definition envelope_keys :: "string list" where
  "envelope_keys = [''event'', ''eventType'', ''occurredAt'', ''ts'', ''timestamp'', ''payload'', ''installationId'']"

definition normalizeIncomingUsageEvent :: "(string \<Rightarrow> int option) \<Rightarrow> int \<Rightarrow> json option \<Rightarrow> partial_event result" where
  "normalizeIncomingUsageEvent host now rawEvent = (case rawEvent of
     Some (JObj raw) \<Rightarrow>
       bindR (normalizeOccurredAt host now (orElse (given raw ''occurredAt'') (orElse (given raw ''ts'') (map_of raw ''timestamp'')))) (\<lambda>occurredAt.
       let payload = spread (filter (\<lambda>(k, _). k \<notin> set envelope_keys) raw) (object_field raw ''payload'')
       in Inr \<lparr>pu_eventType = orElse (readText (map_of raw ''eventType'')) (readText (map_of raw ''event'')),
               pu_occurredAt = Some occurredAt, pu_payload = (if payload = [] then None else Some payload)\<rparr>)
   | _ \<Rightarrow> Inr \<lparr>pu_eventType = None, pu_occurredAt = None, pu_payload = None\<rparr>)"

section \<open>Lifecycle events among the usage events\<close>

text \<open>Type, severity, status and summary; the audit and the security event have the type of the usage event.\<close>

definition usageLifecycleEventMappings :: "(string \<times> log_severity \<times> log_status \<times> string) list" where
  "usageLifecycleEventMappings =
     [(''extension.runtime_error'', SevWarn, StatusFailure, ''extension runtime reported an error''),
      (''extension.bootstrap_refresh_failed'', SevWarn, StatusFailure, ''extension runtime reported bootstrap refresh failure''),
      (''extension.installation_reconnect_requested'', SevInfo, StatusSuccess,
         ''extension runtime requested reconnect for installation session''),
      (''extension.installation_reconnected'', SevInfo, StatusSuccess, ''extension runtime reported installation reconnected'')]"

text \<open>
  A type that is the name of a property every object has, such as \<open>constructor\<close>, finds a function instead of
  nothing; the rows built from it have no type, the database refuses them and the refusal is caught, so the
  tables are as when nothing is found.
\<close>

definition recordUsageLifecycleEventIfNeeded ::
  "extension_runtime \<Rightarrow> installation_row \<Rightarrow> usage_event \<Rightarrow> ('m extension_db_scheme, unit) op" where
  "recordUsageLifecycleEventIfNeeded rt r event = (case map_of usageLifecycleEventMappings (ue_eventType event) of
     None \<Rightarrow> retS ()
   | Some (severity, status, summary) \<Rightarrow>
       let fields = [(''sourceEventType'', JStr (ue_eventType event)), (''installationId'', JStr (xi_installationId r)),
              (''payload'', JObj (ue_payload event))]
       in recordLifecycleEventSafely rt
         ((installation_event rt (xi_userId r) (xi_installationId r) (ue_eventType event) (ue_eventType event) summary fields fields)
           \<lparr>lv_securitySeverity := severity, lv_status := status,
            lv_occurredAt := Some (nullish (date_parse (xt_parseDate rt) (ue_occurredAt event)) (xt_now rt))\<rparr>))"

section \<open>Ingestion\<close>

record ingest_job =
  gj_id :: string
  gj_queue :: string
  gj_dedupeKey :: "string option"
  gj_createdAt :: string
  gj_attempts :: "int option"

record ingest_log =
  gl_eventId :: string
  gl_eventType :: string
  gl_occurredAt :: string
  gl_status :: string

record ingest_result =
  gr_queued :: bool
  gr_queue :: string
  gr_job :: ingest_job
  gr_handler :: string
  gr_logEvent :: ingest_log

definition buildDegradedUsageIngestResult :: "int \<Rightarrow> usage_event \<Rightarrow> string \<Rightarrow> ingest_result" where
  "buildDegradedUsageIngestResult now event occurredAt =
     \<lparr>gr_queued = False, gr_queue = ''usage-events'',
      gr_job = \<lparr>gj_id = ''usage-events:degraded:'' @ ue_installationId event @ '':'' @ show_int now, gj_queue = ''usage-events'',
        gj_dedupeKey = None, gj_createdAt = occurredAt, gj_attempts = Some 0\<rparr>,
      gr_handler = ''worker.process-usage-event'',
      gr_logEvent = \<lparr>gl_eventId = ''usage:degraded:'' @ ue_installationId event @ '':'' @ occurredAt,
        gl_eventType = ''extension.usage_queue_degraded'', gl_occurredAt = occurredAt, gl_status = ''failure''\<rparr>\<rparr>"

definition usage_event_of :: "extension_runtime \<Rightarrow> installation_row \<Rightarrow> partial_event \<Rightarrow> usage_event" where
  "usage_event_of rt r event =
     \<lparr>ue_installationId = xi_installationId r, ue_eventType = nullish (pu_eventType event) ''extension.quiz_answer_requested'',
      ue_occurredAt = nullish (pu_occurredAt event) (toISOString (xt_now rt)),
      ue_payload = spread
        [(''browser'', JStr (xi_browser r)), (''extensionVersion'', JStr (xi_extensionVersion r)), (''schemaVersion'', JStr (xi_schemaVersion r)),
         (''capabilities'', JArr (map JStr (normalizeCapabilities (Some (xi_capabilitiesJson r)))))]
        (nullish (pu_payload event) [])\<rparr>"

text \<open>The dispatch of the job; \<open>xt_queueError\<close> is the message with which the queue refuses it.\<close>

definition dispatch_usage :: "extension_runtime \<Rightarrow> usage_event \<Rightarrow> ('m extension_db_scheme, queue_job) op" where
  "dispatch_usage rt event s =
     (case dispatch (xt_queueConnected rt) (xt_queuePolicy rt) (xt_now rt)
         (createQueueDispatchRequest \<lparr>dr_payload = UsageEventJob event, dr_dedupeKey = None, dr_attempts = None, dr_jobId = None,
            dr_createdAt = None\<rparr> None) of (job, added) \<Rightarrow>
        (case added of
           None \<Rightarrow> (s, Inr job)
         | Some add \<Rightarrow> (case xt_queueError rt of
             Some message \<Rightarrow> (s, Inl (JsError message))
           | None \<Rightarrow> (s\<lparr>xd_jobs := xd_jobs s @ [add]\<rparr>, Inr job))))"

definition queue_failure_event :: "extension_runtime \<Rightarrow> installation_row \<Rightarrow> usage_event \<Rightarrow> lifecycle_input" where
  "queue_failure_event rt r event =
     (let fields = [(''installationId'', JStr (ue_installationId event)), (''sourceEventType'', JStr (ue_eventType event)),
            (''errorMessage'', JStr (nullish (xt_queueError rt) []))]
      in (installation_event rt (xi_userId r) (xi_installationId r) ''extension.usage_event_queue_failed''
            ''extension.usage_event_queue_failed'' ''extension usage event queue dispatch failed'' fields fields)
         \<lparr>lv_securitySeverity := SevError, lv_status := StatusFailure, lv_occurredAt := None\<rparr>)"

definition ingestUsageEventForInstallationSession ::
  "extension_runtime \<Rightarrow> installation_session \<Rightarrow> partial_event \<Rightarrow> ('m extension_db_scheme, ingest_result) op" where
  "ingestUsageEventForInstallationSession rt x event =
     (let r = ns_installation x; usageEvent = usage_event_of rt r event in
      bindS (catchS (bindS (dispatch_usage rt usageEvent) (\<lambda>job. retS (Some job))) (retS None)) (\<lambda>queueJob.
      case queueJob of
        None \<Rightarrow>
          thenS (recordUsageLifecycleEventIfNeeded rt r usageEvent)
          (thenS (recordLifecycleEventSafely rt (queue_failure_event rt r usageEvent))
          (retS (buildDegradedUsageIngestResult (xt_now rt) usageEvent (toISOString (xt_now rt)))))
      | Some job \<Rightarrow>
          thenS (recordUsageLifecycleEventIfNeeded rt r usageEvent)
          (retS \<lparr>gr_queued = True, gr_queue = queue_name (qj_queue job),
                 gr_job = \<lparr>gj_id = qj_id job, gj_queue = queue_name (qj_queue job), gj_dedupeKey = qj_dedupeKey job,
                   gj_createdAt = qj_createdAt job, gj_attempts = qj_attempts job\<rparr>,
                 gr_handler = ''worker.process-usage-event'',
                 gr_logEvent = \<lparr>gl_eventId = ''usage:'' @ ue_installationId usageEvent @ '':'' @ ue_occurredAt usageEvent,
                   gl_eventType = ''extension.usage_queued'', gl_occurredAt = ue_occurredAt usageEvent, gl_status = ''success''\<rparr>\<rparr>)))"

text \<open>Several events of one envelope, one after the other.\<close>

fun mapS :: "('a \<Rightarrow> ('s, 'b) op) \<Rightarrow> 'a list \<Rightarrow> ('s, 'b list) op" where
  "mapS f [] = retS []"
| "mapS f (x # xs) = bindS (f x) (\<lambda>y. bindS (mapS f xs) (\<lambda>ys. retS (y # ys)))"

fun mapR :: "('a \<Rightarrow> 'b result) \<Rightarrow> 'a list \<Rightarrow> 'b list result" where
  "mapR f [] = Inr []"
| "mapR f (x # xs) = bindR (f x) (\<lambda>y. bindR (mapR f xs) (\<lambda>ys. Inr (y # ys)))"

datatype ingest_answer = IngestOne ingest_result | IngestMany bool nat "(string \<times> ingest_job \<times> string \<times> ingest_log) list"

definition raw_events :: "json option \<Rightarrow> json option list" where
  "raw_events envelope = (case envelope of
     Some (JObj raw) \<Rightarrow> (case map_of raw ''events'' of Some (JArr items) \<Rightarrow> map Some items | _ \<Rightarrow> [envelope])
   | _ \<Rightarrow> [envelope])"

definition ingestUsageEventV2 ::
  "extension_runtime \<Rightarrow> string option \<Rightarrow> json option \<Rightarrow> ('m extension_db_scheme, ingest_answer) op" where
  "ingestUsageEventV2 rt authorization envelope =
     bindS (requireInstallationSession rt authorization ''/extension/usage-events/v2'') (\<lambda>x.
     bindS (liftS (mapR (normalizeIncomingUsageEvent (xt_parseDate rt) (xt_now rt)) (raw_events envelope))) (\<lambda>events.
     bindS (mapS (ingestUsageEventForInstallationSession rt x) events) (\<lambda>results.
     retS (case results of
        [result] \<Rightarrow> IngestOne result
      | _ \<Rightarrow> IngestMany True (length results) (map (\<lambda>g. (gr_queue g, gr_job g, gr_handler g, gr_logEvent g)) results)))))"

section \<open>AI requests of the extension\<close>

record ai_message =
  am_role :: string
  am_content :: json

record ai_request =
  ai_provider :: "string option"
  ai_model :: string
  ai_messages :: "ai_message list"
  ai_useOwnKey :: "bool option"
  ai_temperature :: "jsnum option"
  ai_maxTokens :: "jsnum option"

definition readFiniteNumber :: "json option \<Rightarrow> jsnum option" where
  "readFiniteNumber v = (case v of Some (JNum n) \<Rightarrow> if num_is_finite n then Some n else None | _ \<Rightarrow> None)"

definition readPositiveInteger :: "json option \<Rightarrow> jsnum option" where
  "readPositiveInteger v = (case v of
     Some (JNum n) \<Rightarrow> if num_is_integer n \<and> num_less (Fin 0) n then Some n else None
   | _ \<Rightarrow> None)"

definition message_error :: "nat \<Rightarrow> string \<Rightarrow> 'a result" where
  "message_error index text = Inl (BadRequest (''messages['' @ show_int (int index) @ '']'' @ text))"

definition normalizeExtensionMessage :: "json \<Rightarrow> nat \<Rightarrow> ai_message result" where
  "normalizeExtensionMessage entry index = (case entry of
     JObj raw \<Rightarrow>
       let role = (case map_of raw ''role'' of Some (JStr t) \<Rightarrow> trim t | _ \<Rightarrow> ''user'') in
       if role \<notin> {''system'', ''user'', ''assistant'', ''tool''}
       then message_error index ''.role must be one of \"system\", \"user\", \"assistant\", or \"tool\".''
       else (case map_of raw ''content'' of
           Some (JStr t) \<Rightarrow> if trim t = [] then message_error index ''.content is required.'' else Inr \<lparr>am_role = role, am_content = JStr (trim t)\<rparr>
         | Some (JArr blocks) \<Rightarrow> if blocks = [] then message_error index ''.content array must not be empty.''
             else Inr \<lparr>am_role = role, am_content = JArr blocks\<rparr>
         | _ \<Rightarrow> message_error index ''.content must be a string or array of content blocks.'')
   | _ \<Rightarrow> message_error index '' must be an object.'')"

definition normalizeExtensionAiRequest :: "json_object option \<Rightarrow> ai_request result" where
  "normalizeExtensionAiRequest request =
     (let raw = nullish request []; options = object_field raw ''options'' in
      case map_of raw ''messages'' of
        Some (JArr items) \<Rightarrow>
          if items = [] then Inl (BadRequest ''messages must contain at least one item.'')
          else (case readText (map_of raw ''model'') of
            None \<Rightarrow> Inl (BadRequest
              ''Extension AI request is missing a required model ID. The extension must send an explicit model for every request.'')
          | Some model \<Rightarrow>
              bindR (mapR (\<lambda>(i, entry). normalizeExtensionMessage entry i) (enumerate 0 items)) (\<lambda>messages.
              Inr \<lparr>ai_provider = readText (map_of raw ''provider''), ai_model = model, ai_messages = messages,
                   ai_useOwnKey = orElse (readJsonBoolean (map_of raw ''useOwnKey'')) (readJsonBoolean (map_of options ''useOwnKey'')),
                   ai_temperature = readFiniteNumber (orElse (given options ''temperature'') (map_of raw ''temperature'')),
                   ai_maxTokens = readPositiveInteger (orElse (given options ''max_tokens'')
                     (orElse (given options ''maxTokens'') (map_of raw ''maxTokens'')))\<rparr>))
      | _ \<Rightarrow> Inl (BadRequest ''messages must contain at least one item.''))"

text \<open>The session under which an installation uses the AI proxy.\<close>

definition buildInstallationRuntimeSession :: "installation_session \<Rightarrow> current_session" where
  "buildInstallationRuntimeSession x =
     (let userId = xi_userId (ns_installation x); email = ''installation+'' @ userId @ ''@quizmind.local''
      in \<lparr>cs_personaKey = ''extension-installation'', cs_user_id = userId, cs_user_email = email, cs_user_displayName = None,
          cs_user_emailVerifiedAt = None,
          cs_principal = \<lparr>sp_userId = userId, sp_email = email, sp_systemRoles = [], sp_entitlements = [], sp_featureFlags = []\<rparr>,
          cs_permissions = []\<rparr>)"

text \<open>A failure of an AI request: its message when it is an error, its status when it is an HTTP exception.\<close>

record ai_failure =
  af_message :: "string option"
  af_status :: "int option"

definition failure_message :: "ai_failure \<Rightarrow> string" where
  "failure_message e = (case af_message e of Some m \<Rightarrow> take 512 (trim m) | None \<Rightarrow> ''Unknown extension AI error.'')"

definition failure_fields :: "ai_failure \<Rightarrow> json_object" where
  "failure_fields e =
     [(''errorCode'', JStr (case af_status e of Some n \<Rightarrow> show_int n | None \<Rightarrow> ''unknown'')), (''errorMessage'', JStr (failure_message e))]
     @ (case af_status e of Some n \<Rightarrow> [(''httpStatus'', json_int n)] | None \<Rightarrow> [])"

definition recordAiFailureSafely ::
  "extension_runtime \<Rightarrow> string \<Rightarrow> string \<Rightarrow> bool \<Rightarrow> json_object \<Rightarrow> ai_failure \<Rightarrow> ('m extension_db_scheme, unit) op" where
  "recordAiFailureSafely rt installationId userId models requestData e =
     (let eventType = (if models then ''extension.ai_models_failed'' else ''extension.ai_request_failed'');
          action = (if models then ''models'' else ''proxy'')
      in recordLifecycleEventSafely rt
        ((installation_event rt userId installationId eventType eventType
            (''Extension AI '' @ action @ '' request failed: '' @ failure_message e)
            (spread [(''installationId'', JStr installationId), (''userId'', JStr userId)]
              (requestData @ failure_fields e @ [(''occurredAt'', JStr (toISOString (xt_now rt)))]))
            (spread [(''installationId'', JStr installationId), (''actorId'', JStr userId)] (requestData @ failure_fields e)))
          \<lparr>lv_securitySeverity := SevError, lv_status := StatusFailure\<rparr>))"

end
