(* ===== verification/ExtensionFlows.thy ===== *)
theory ExtensionFlows
  imports ExtensionUsage
begin

text \<open>
  What the handlers of the extension service do to owners and sessions, one by one and along any sequence of
  requests: every handler is a sequence of steps of the machine of \<open>Installations\<close>, so its invariants hold in
  every state the service reaches.
\<close>

section \<open>Handlers as steps\<close>

definition moves :: "('m extension_db_scheme, 'a) op \<Rightarrow> bool" where
  "moves m \<longleftrightarrow> (\<forall>s. device_ok (device_view s) \<longrightarrow> device_step\<^sup>*\<^sup>* (device_view s) (device_view (fst (m s))))"

lemma moves_run: "moves m \<Longrightarrow> m s = (s', r) \<Longrightarrow> device_ok (device_view s) \<Longrightarrow> device_step\<^sup>*\<^sup>* (device_view s) (device_view s')"
  unfolding moves_def by (metis fst_conv)

lemma stays_ok: "device_step\<^sup>*\<^sup>* v v' \<Longrightarrow> device_ok v \<Longrightarrow> device_ok v'"
  by (rule owned_devices.steps_keep)

named_theorems moves_intros \<open>handlers that are sequences of steps\<close>

lemma moves_basic [moves_intros]: "moves (retS x)" "moves (throwS e)" "moves (getS f)" "moves (liftS r)"
  by (simp_all add: moves_def op_simps)

lemma moves_still: "(\<And>s. device_view (fst (m s)) = device_view s) \<Longrightarrow> moves m"
  by (simp add: moves_def)

text \<open>After a first part that leaves the view alone the second part starts from the view of the first state.\<close>

lemma moves_bind [moves_intros]:
  fixes m :: "('m extension_db_scheme, 'a) op"
  assumes "moves m" and "\<And>x. moves (f x)"
  shows "moves (bindS m f)"
  unfolding moves_def
proof (intro allI impI)
  fix s :: "'m extension_db_scheme" assume ok: "device_ok (device_view s)"
  obtain s1 r where m: "m s = (s1, r)" by (cases "m s")
  have 1: "device_step\<^sup>*\<^sup>* (device_view s) (device_view s1)" by (rule moves_run [OF assms(1) m ok])
  show "device_step\<^sup>*\<^sup>* (device_view s) (device_view (fst (bindS m f s)))"
  proof (cases r)
    case (Inl e)
    then show ?thesis using 1 m by (simp add: bindS_def)
  next
    case (Inr x)
    have "device_step\<^sup>*\<^sup>* (device_view s1) (device_view (fst (f x s1)))"
      using assms(2) stays_ok [OF 1 ok] by (simp add: moves_def)
    then show ?thesis using 1 m Inr by (simp add: bindS_def)
  qed
qed

lemma moves_then [moves_intros]: "moves m \<Longrightarrow> moves k \<Longrightarrow> moves (thenS m k)"
  by (simp add: thenS_def moves_bind)

lemma moves_catch [moves_intros]:
  fixes m :: "('m extension_db_scheme, 'a) op"
  assumes "moves m" and "moves k"
  shows "moves (catchS m k)"
  unfolding moves_def
proof (intro allI impI)
  fix s :: "'m extension_db_scheme" assume ok: "device_ok (device_view s)"
  obtain s1 r where m: "m s = (s1, r)" by (cases "m s")
  have 1: "device_step\<^sup>*\<^sup>* (device_view s) (device_view s1)" by (rule moves_run [OF assms(1) m ok])
  have "device_step\<^sup>*\<^sup>* (device_view s1) (device_view (fst (k s1)))" using assms(2) stays_ok [OF 1 ok] by (simp add: moves_def)
  then show "device_step\<^sup>*\<^sup>* (device_view s) (device_view (fst (catchS m k s)))" using 1 m by (cases r) (simp_all add: catchS_def)
qed

lemma moves_option [moves_intros]: "moves m \<Longrightarrow> (\<And>x. moves (f x)) \<Longrightarrow> moves (case v of None \<Rightarrow> m | Some x \<Rightarrow> f x)"
  and moves_pair [moves_intros]: "(\<And>a b. moves (g a b)) \<Longrightarrow> moves (case p of (a, b) \<Rightarrow> g a b)"
  and moves_if [moves_intros]: "moves m1 \<Longrightarrow> moves m2 \<Longrightarrow> moves (if c then m1 else m2)"
  and moves_let [moves_intros]: "(\<And>y. moves (h y)) \<Longrightarrow> moves (Let z h)"
  by (simp_all split: option.split prod.split)

section \<open>Parts that leave owners and sessions alone\<close>

lemma create_audit_view: "device_view (fst (createAuditLogWithReadModel cuid d s)) = device_view s"
  by (simp add: device_view_def createAuditLogWithReadModel_def Let_def)

lemma create_security_view: "device_view (fst (createSecurityEventWithReadModel cuid d s)) = device_view s"
  by (simp add: device_view_def createSecurityEventWithReadModel_def Let_def)

lemma create_domain_view: "device_view (fst (createDomainEventWithReadModel cuid t payload at' s)) = device_view s"
  by (simp add: device_view_def createDomainEventWithReadModel_def Let_def)

lemma still_bind:
  fixes m :: "('m extension_db_scheme, 'a) op"
  assumes "\<And>s. device_view (fst (m s)) = device_view s" and "\<And>x s. device_view (fst (f x s)) = device_view s"
  shows "device_view (fst (bindS m f s)) = device_view s"
  using assms(1) [of s] assms(2) by (cases "m s"; cases "snd (m s)") (simp_all add: bindS_def)

lemma write_three_logs_view [simp]: "device_view (fst (write_three_logs cuid a c t payload at' s)) = device_view s"
  unfolding write_three_logs_def
  by (intro still_bind create_audit_view create_security_view create_domain_view) (simp add: retS_def)

lemma upsert_view [simp]:
  fixes s :: "'m extension_db_scheme"
  shows "device_view (fst (upsertAdminLogEventsBestEffort up fails cuid ds s)) = device_view s"
proof -
  obtain rows n where "fst (upsertAdminLogEventsBestEffort up fails cuid ds s) = s\<lparr>ad_next := n, lg_rows := rows\<rparr>"
    using upsert_shape by blast
  then show ?thesis by (simp add: device_view_def)
qed

lemma recordLifecycleEvent_view [simp]:
  fixes s :: "'m extension_db_scheme"
  shows "device_view (fst (recordLifecycleEvent db up fails cuid at' e1 e2 t payload s)) = device_view s"
proof -
  obtain s1 r where w: "write_three_logs cuid (extension_insert e1 at') (extension_insert e2 at') t payload at' s = (s1, r)"
    by (cases "write_three_logs cuid (extension_insert e1 at') (extension_insert e2 at') t payload at' s")
  then have "device_view s1 = device_view s" by (metis write_three_logs_view fst_conv)
  then show ?thesis using w by (cases r) (simp_all add: recordLifecycleEvent_def throwS_def bindS_def transaction_def)
qed

lemma catch_still:
  fixes m :: "('m extension_db_scheme, 'a) op"
  shows "device_view (fst (m s)) = device_view s \<Longrightarrow> device_view (fst (catchS m (retS x) s)) = device_view s"
  by (cases "m s"; cases "snd (m s)") (simp_all add: catchS_def retS_def)

lemma catch_unit: "snd (catchS m (retS ()) s) = Inr ()"
  by (cases "m s"; cases "snd (m s)") (simp_all add: catchS_def retS_def)

lemma record_safely_view [simp]: "device_view (fst (recordLifecycleEventSafely rt i s)) = device_view s"
  unfolding recordLifecycleEventSafely_def Let_def by (rule catch_still, rule recordLifecycleEvent_view)

lemma record_safely_ok: "snd (recordLifecycleEventSafely rt i s) = Inr ()"
  unfolding recordLifecycleEventSafely_def Let_def by (rule catch_unit)

lemma moves_record [moves_intros]: "moves (recordLifecycleEventSafely rt i)"
  by (rule moves_still) simp

lemma policy_view [simp]: "device_view (fst (resolveExtensionSessionPolicy rt s)) = device_view s"
  by (simp add: resolveExtensionSessionPolicy_def Let_def device_view_def split: prod.split)

lemma moves_policy [moves_intros]: "moves (resolveExtensionSessionPolicy rt)"
  by (rule moves_still) simp

lemma moves_payload [moves_intros]: "moves (buildBootstrapPayload rt i e h t n)"
  unfolding buildBootstrapPayload_def by (intro moves_intros)

lemma moves_label: "moves (updateDeviceLabelForUser now u i label)"
  by (rule moves_still) (auto simp: updateDeviceLabelForUser_def Let_def device_view_def owner_key_def)

lemma moves_resolve [moves_intros]: "moves (resolveInstallationSession rt token endpoint)"
  by (rule moves_still) (simp add: resolveInstallationSession_def device_view_def split: option.split)

lemma moves_require [moves_intros]: "moves (requireInstallationSession rt authorization endpoint)"
  unfolding requireInstallationSession_def by (intro moves_intros)

lemma moves_owned [moves_intros]: "moves (owned_installation session i)"
  unfolding owned_installation_def by (intro moves_intros)

lemma moves_revoke [moves_intros]: "moves (revokeActiveByInstallationId i t)"
  unfolding moves_def revokeActiveByInstallationId_def by (auto simp: device_view_def intro: device_step.cleared)

section \<open>Owners change hands\<close>

text \<open>An installation of a user without an open session.\<close>

definition vacant :: "string \<Rightarrow> string \<Rightarrow> owners \<times> token_row list \<Rightarrow> bool" where
  "vacant i u v \<longleftrightarrow> (\<exists>n. (i, n, u) \<in> set (fst v)) \<and> (\<forall>x \<in> set (snd v). \<not> open_for i x)"

text \<open>The installation a session was resolved to, as the tables hold it.\<close>

definition in_force :: "installation_session \<Rightarrow> owners \<times> token_row list \<Rightarrow> bool" where
  "in_force x v \<longleftrightarrow> ns_session x \<in> set (snd v) \<and> xs_revokedAt (ns_session x) = None
     \<and> owner_key (ns_installation x) \<in> set (fst v) \<and> xi_id (ns_installation x) = xs_extensionInstallationId (ns_session x)"

lemma findByInstallationId_key: "findByInstallationId n s = Some r \<Longrightarrow> r \<in> set (xd_installations s) \<and> xi_installationId r = n"
  by (auto simp: findByInstallationId_def find_Some_iff)

lemma owner_listed: "r \<in> set (xd_installations s) \<Longrightarrow> (xi_id r, xi_installationId r, xi_userId r) \<in> set (fst (device_view s))"
  by (force simp: device_view_def owner_key_def)

lemma bound_columns_key: "owner_key (bound_columns b now r) = (xi_id r, xi_installationId r, bn_userId b)"
  by (simp add: bound_columns_def owner_key_def)

lemma upsert_view_known:
  assumes "upsertBoundInstallation cuid now b s = (s', Inr r)" and "findByInstallationId (bn_installationId b) s = Some old"
    and "device_ok (device_view s)"
  shows "owner_key r = (xi_id old, bn_installationId b, bn_userId b)"
    and "device_view s' = (give (bn_installationId b) (bn_userId b) (fst (device_view s)), snd (device_view s))"
    and "r \<in> set (xd_installations s')"
proof -
  have r: "r = bound_columns b now old"
    and s': "s' = s\<lparr>xd_installations := map (\<lambda>x. if xi_installationId x = bn_installationId b then r else x) (xd_installations s)\<rparr>"
    using assms(1,2) by (auto simp: upsertBoundInstallation_def Let_def split: if_splits)
  note old = findByInstallationId_key [OF assms(2)]
  show key: "owner_key r = (xi_id old, bn_installationId b, bn_userId b)" using old by (simp add: r bound_columns_key)
  have "owner_key (if xi_installationId x = bn_installationId b then r else x)
      = (case owner_key x of (i, m, v) \<Rightarrow> if m = bn_installationId b then (i, m, bn_userId b) else (i, m, v))"
    if x: "x \<in> set (xd_installations s)" for x
  proof (cases "xi_installationId x = bn_installationId b")
    case True
    then have "xi_id x = xi_id old"
      using assms(3) old owner_listed [OF x] owner_listed [of old s] one_owner [of "fst (device_view s)"] by (simp add: device_ok_def)
    then show ?thesis using True key by (simp add: owner_key_def)
  qed (simp add: owner_key_def)
  then have "map (\<lambda>x. owner_key (if xi_installationId x = bn_installationId b then r else x)) (xd_installations s)
      = map (\<lambda>x. case owner_key x of (i, m, v) \<Rightarrow> if m = bn_installationId b then (i, m, bn_userId b) else (i, m, v)) (xd_installations s)"
    by (rule map_cong [OF HOL.refl])
  then show "device_view s' = (give (bn_installationId b) (bn_userId b) (fst (device_view s)), snd (device_view s))"
    by (simp add: s' device_view_def give_def comp_def)
  show "r \<in> set (xd_installations s')" using old unfolding s' by force
qed

lemma upsert_view_new:
  assumes "upsertBoundInstallation cuid now b s = (s', Inr r)" and "findByInstallationId (bn_installationId b) s = None"
  shows "owner_key r = (xi_id r, bn_installationId b, bn_userId b)" and "xi_id r \<notin> fst ` set (fst (device_view s))"
    and "bn_installationId b \<notin> (fst \<circ> snd) ` set (fst (device_view s))"
    and "device_view s' = (fst (device_view s) @ [(xi_id r, bn_installationId b, bn_userId b)], snd (device_view s))"
    and "r \<in> set (xd_installations s')"
proof -
  have r: "r = new_installation (cuid (ad_next s)) b now" and new: "xi_id r \<notin> xi_id ` set (xd_installations s)"
    and s': "s' = s\<lparr>xd_installations := xd_installations s @ [r], ad_next := Suc (ad_next s)\<rparr>"
    using assms by (auto simp: upsertBoundInstallation_def Let_def split: if_splits)
  show key: "owner_key r = (xi_id r, bn_installationId b, bn_userId b)"
    by (simp add: r new_installation_def bound_columns_key, simp add: bound_columns_def)
  show "xi_id r \<notin> fst ` set (fst (device_view s))" using new by (auto simp: device_view_def owner_key_def)
  show "bn_installationId b \<notin> (fst \<circ> snd) ` set (fst (device_view s))"
    using assms(2) by (auto simp: device_view_def owner_key_def findByInstallationId_def find_None_iff)
  show "device_view s' = (fst (device_view s) @ [(xi_id r, bn_installationId b, bn_userId b)], snd (device_view s))"
    using key by (simp add: s' device_view_def)
  show "r \<in> set (xd_installations s')" by (simp add: s')
qed

lemma upsert_failed: "upsertBoundInstallation cuid now b s = (s', Inl e) \<Longrightarrow> s' = s"
  by (auto simp: upsertBoundInstallation_def Let_def split: if_splits option.splits)

lemma revoke_view: "device_view (fst (revokeActiveByInstallationId i t s)) = (fst (device_view s), revoke_rows (open_for i) t (snd (device_view s)))"
  by (simp add: revokeActiveByInstallationId_def device_view_def)

lemma give_named: "(i, n, v) \<in> set os \<Longrightarrow> (i, n, u) \<in> set (give n u os)"
  unfolding give_def by force

lemma claim_moves:
  assumes up: "upsertBoundInstallation cuid now b s = (s1, Inr r)" and rev: "revokeActiveByInstallationId (xi_id r) t s1 = (s2, k)"
    and ok: "device_ok (device_view s)"
  shows "device_step\<^sup>*\<^sup>* (device_view s) (device_view s2)" and "vacant (xi_id r) (bn_userId b) (device_view s2)"
    and "xi_userId r = bn_userId b"
proof -
  let ?os = "fst (device_view s)" and ?ss = "snd (device_view s)"
  have s2: "device_view s2 = (fst (device_view s1), revoke_rows (open_for (xi_id r)) t (snd (device_view s1)))"
    using revoke_view [of "xi_id r" t s1] rev by simp
  have quiet: "\<forall>x \<in> set (revoke_rows (open_for (xi_id r)) t ss). \<not> open_for (xi_id r) x" for ss using none_open_after by blast
  have both: "device_step\<^sup>*\<^sup>* (device_view s) (device_view s2) \<and> vacant (xi_id r) (bn_userId b) (device_view s2) \<and> xi_userId r = bn_userId b"
  proof (cases "findByInstallationId (bn_installationId b) s")
    case None
    note new = upsert_view_new [OF up None]
    have "device_step (?os, ?ss) (?os @ [(xi_id r, bn_installationId b, bn_userId b)], ?ss)"
      by (rule device_step.created [OF new(2,3)])
    moreover have "device_step (device_view s1) (device_view s2)" unfolding s2 using device_step.cleared [of "fst (device_view s1)" "snd (device_view s1)" "open_for (xi_id r)" t] by simp
    ultimately have "device_step\<^sup>*\<^sup>* (device_view s) (device_view s2)"
      using new(4) by (metis (no_types) prod.collapse rtranclp.rtrancl_into_rtrancl rtranclp.rtrancl_refl)
    then show ?thesis using new(1,4) quiet by (auto simp: vacant_def s2 owner_key_def)
  next
    case (Some old)
    note known = upsert_view_known [OF up Some ok]
    have old: "(xi_id r, bn_installationId b, xi_userId old) \<in> set ?os"
      using owner_listed [of old s] findByInstallationId_key [OF Some] known(1) by (simp add: owner_key_def)
    have "device_step (device_view s) (device_view s2)"
      unfolding s2 known(2) fst_conv snd_conv using device_step.claimed [OF old, of ?ss] by simp
    moreover have "(xi_id r, bn_installationId b, bn_userId b) \<in> set (give (bn_installationId b) (bn_userId b) ?os)"
      by (rule give_named [OF old])
    ultimately show ?thesis using known(1,2) quiet by (auto simp: vacant_def s2 owner_key_def)
  qed
  then show "device_step\<^sup>*\<^sup>* (device_view s) (device_view s2)" "vacant (xi_id r) (bn_userId b) (device_view s2)"
    "xi_userId r = bn_userId b" by blast+
qed

lemma create_session_moves:
  assumes "vacant i u (device_view s)"
  shows "device_step\<^sup>*\<^sup>* (device_view s) (device_view (fst (create_session cuid now i u h e s)))"
proof (cases "create_session cuid now i u h e s")
  case (Pair s' r)
  show ?thesis
  proof (cases r)
    case (Inl x)
    then show ?thesis using Pair by (auto simp: create_session_def Let_def split: if_splits option.splits)
  next
    case (Inr x)
    let ?row = "\<lparr>xs_id = cuid (ad_next s), xs_extensionInstallationId = i, xs_userId = u, xs_tokenHash = h, xs_expiresAt = e, xs_createdAt = now,
        xs_revokedAt = None\<rparr>"
    have fresh: "xs_id ?row \<notin> xs_id ` set (xd_sessions s)" "xs_tokenHash ?row \<notin> xs_tokenHash ` set (xd_sessions s)"
      and s': "s' = s\<lparr>xd_sessions := xd_sessions s @ [?row], ad_next := Suc (ad_next s)\<rparr>"
      using Pair Inr by (auto simp: create_session_def Let_def split: if_splits option.splits)
    obtain n where n: "(xs_extensionInstallationId ?row, n, xs_userId ?row) \<in> set (map owner_key (xd_installations s))"
      using assms by (auto simp: vacant_def device_view_def)
    have "device_step (map owner_key (xd_installations s), xd_sessions s) (map owner_key (xd_installations s), xd_sessions s @ [?row])"
      by (rule device_step.opened [OF fresh _ n]) (use assms in \<open>simp_all add: vacant_def device_view_def\<close>)
    then show ?thesis using Pair by (simp add: device_view_def s' r_into_rtranclp)
  qed
qed

lemma issue_moves:
  assumes "vacant (xi_id r) u (device_view s)"
  shows "device_step\<^sup>*\<^sup>* (device_view s) (device_view (fst (issueInstallationSession rt r u h s)))"
proof (cases "date_of_number (session_expiry (xt_now rt) h)")
  case (Inl e)
  then show ?thesis by (simp add: issueInstallationSession_def bindS_def liftS_def)
next
  case (Inr t)
  have "fst (issueInstallationSession rt r u h s) = fst (create_session (xt_cuid rt) (xt_now rt) (xi_id r) u (xt_hmac rt (xt_token rt)) t s)"
    using Inr by (simp add: issueInstallationSession_def bindS_def liftS_def retS_def split: prod.split sum.split)
  then show ?thesis using create_session_moves [OF assms] by simp
qed

lemma issue_after_vacant:
  fixes f :: "string \<times> installation_session \<Rightarrow> ('m extension_db_scheme, 'a) op"
  assumes "\<And>x. moves (f x)" and "device_ok (device_view s)" and "vacant (xi_id r) u (device_view s)"
  shows "device_step\<^sup>*\<^sup>* (device_view s) (device_view (fst (bindS (issueInstallationSession rt r u h) f s)))"
proof -
  obtain s3 z where iss: "issueInstallationSession rt r u h s = (s3, z)" by (cases "issueInstallationSession rt r u h s")
  have 3: "device_step\<^sup>*\<^sup>* (device_view s) (device_view s3)" using issue_moves [OF assms(3), of rt h] iss by simp
  have "device_step\<^sup>*\<^sup>* (device_view s3) (device_view (fst (bindS (issueInstallationSession rt r u h) f s)))"
  proof (cases z)
    case (Inr x)
    have "device_step\<^sup>*\<^sup>* (device_view s3) (device_view (fst (f x s3)))" using assms(1) stays_ok [OF 3 assms(2)] by (simp add: moves_def)
    then show ?thesis using iss Inr by (simp add: bindS_def)
  qed (simp add: iss bindS_def)
  with 3 show ?thesis by simp
qed

text \<open>The part of a binding that changes hands, and the part of a rotation that replaces the token.\<close>

lemma moves_claim [moves_intros]:
  fixes f :: "installation_row \<Rightarrow> int \<Rightarrow> string \<times> installation_session \<Rightarrow> ('m extension_db_scheme, 'a) op"
  assumes "\<And>r k x. moves (f r k x)"
  shows "moves (bindS (upsertBoundInstallation cuid now (bound_of rt' u n h' md)) (\<lambda>r.
      bindS (revokeActiveByInstallationId (xi_id r) t) (\<lambda>k. bindS (issueInstallationSession rt r u h) (f r k))))"
  unfolding moves_def
proof (intro allI impI)
  fix s :: "'m extension_db_scheme" assume ok: "device_ok (device_view s)"
  let ?b = "bound_of rt' u n h' md"
  obtain s1 y where up: "upsertBoundInstallation cuid now ?b s = (s1, y)" by (cases "upsertBoundInstallation cuid now ?b s")
  show "device_step\<^sup>*\<^sup>* (device_view s) (device_view (fst (bindS (upsertBoundInstallation cuid now ?b) (\<lambda>r.
      bindS (revokeActiveByInstallationId (xi_id r) t) (\<lambda>k. bindS (issueInstallationSession rt r u h) (f r k))) s)))"
  proof (cases y)
    case (Inl e)
    then show ?thesis using up upsert_failed by (fastforce simp: bindS_def)
  next
    case (Inr r)
    obtain s2 k where rev: "revokeActiveByInstallationId (xi_id r) t s1 = (s2, Inr k)" by (simp add: revokeActiveByInstallationId_def)
    have u: "bn_userId ?b = u" by (simp add: bound_of_def)
    note claim = claim_moves [OF up [unfolded Inr] rev ok, unfolded u]
    have ok2: "device_ok (device_view s2)" by (rule stays_ok [OF claim(1) ok])
    from issue_after_vacant [where f = "f r k" and rt = rt and h = h, OF assms ok2 claim(2)] claim(1) show ?thesis using up rev Inr by (simp add: bindS_def)
  qed
qed

lemma moves_bindInstallation: "moves (bindInstallationForCurrentSession rt session request)"
  unfolding bindInstallationForCurrentSession_def Let_def by (intro moves_intros)

lemma moves_replace [moves_intros]:
  fixes f :: "installation_row \<Rightarrow> int \<Rightarrow> string \<times> installation_session \<Rightarrow> ('m extension_db_scheme, 'a) op"
  assumes "\<And>r k x. moves (f r k x)"
  shows "moves (bindS (owned_installation session n) (\<lambda>r. bindS (revokeActiveByInstallationId (xi_id r) t) (\<lambda>k.
      bindS (issueInstallationSession rt r (xi_userId r) h) (f r k))))"
  unfolding moves_def
proof (intro allI impI)
  fix s :: "'m extension_db_scheme" assume ok: "device_ok (device_view s)"
  let ?m = "\<lambda>r. bindS (revokeActiveByInstallationId (xi_id r) t) (\<lambda>k. bindS (issueInstallationSession rt r (xi_userId r) h) (f r k))"
  obtain s1 y where own: "owned_installation session n s = (s1, y)" by (cases "owned_installation session n s")
  have s1: "s1 = s" using own
    by (auto simp: owned_installation_def bindS_def getS_def throwS_def retS_def split: option.splits if_splits)
  show "device_step\<^sup>*\<^sup>* (device_view s) (device_view (fst (bindS (owned_installation session n) ?m s)))"
  proof (cases y)
    case (Inr r)
    have "findByInstallationId n s = Some r" using own Inr
      by (auto simp: owned_installation_def bindS_def getS_def throwS_def retS_def split: option.splits if_splits)
    then have key: "(xi_id r, xi_installationId r, xi_userId r) \<in> set (fst (device_view s))"
      using findByInstallationId_key owner_listed by blast
    obtain s2 k where rev: "revokeActiveByInstallationId (xi_id r) t s = (s2, Inr k)" by (simp add: revokeActiveByInstallationId_def)
    have s2: "device_view s2 = (fst (device_view s), revoke_rows (open_for (xi_id r)) t (snd (device_view s)))"
      using revoke_view [of "xi_id r" t s] rev by simp
    have 2: "device_step\<^sup>*\<^sup>* (device_view s) (device_view s2)"
      using moves_run [OF moves_revoke rev ok] .
    have "vacant (xi_id r) (xi_userId r) (device_view s2)"
      using key none_open_after by (auto simp: vacant_def s2)
    from issue_after_vacant [where f = "f r k" and rt = rt and h = h, OF assms stays_ok [OF 2 ok] this] 2 show ?thesis
      using own s1 Inr rev by (simp add: bindS_def)
  qed (simp add: own s1 bindS_def)
qed

lemma moves_rotate: "moves (rotateInstallationSessionForCurrentSession rt session request)"
  unfolding rotateInstallationSessionForCurrentSession_def Let_def by (intro moves_intros)

lemma moves_disconnect: "moves (disconnectInstallationForCurrentSession rt session request)"
  and moves_self_disconnect: "moves (selfDisconnectInstallationForCurrentSession rt session request)"
  unfolding disconnectInstallationForCurrentSession_def selfDisconnectInstallationForCurrentSession_def disconnect_installation_def Let_def
  by (intro moves_intros)+

lemma moves_update_label: "moves (updateInstallationLabelForCurrentSession rt session i label)"
  unfolding updateInstallationLabelForCurrentSession_def Let_def by (intro moves_intros moves_label)

section \<open>Requests with the token of an installation\<close>

lemma resolve_current:
  assumes "resolveInstallationSession rt token endpoint s = (s', Inr x)"
  shows "s' = s" and "findActiveByTokenHash (xt_hmac rt token) (xt_now rt) s = Some x" and "in_force x (device_view s)"
proof -
  show found: "findActiveByTokenHash (xt_hmac rt token) (xt_now rt) s = Some x" and "s' = s"
    using assms by (auto simp: resolveInstallationSession_def split: option.splits)
  obtain r i where r: "find (\<lambda>r. xs_tokenHash r = xt_hmac rt token \<and> live_token (xt_now rt) r) (xd_sessions s) = Some r"
    and i: "find (\<lambda>i. xi_id i = xs_extensionInstallationId r) (xd_installations s) = Some i" and x: "x = \<lparr>ns_session = r, ns_installation = i\<rparr>"
    using found by (auto simp: findActiveByTokenHash_def include_installation_def bind_eq_Some_conv)
  have "r \<in> set (xd_sessions s)" "live_token (xt_now rt) r" using r by (auto simp: find_Some_iff)
  moreover have "i \<in> set (xd_installations s)" "xi_id i = xs_extensionInstallationId r" using i by (auto simp: find_Some_iff)
  ultimately show "in_force x (device_view s)" by (auto simp: in_force_def x device_view_def live_token_def)
qed

lemma require_current:
  "requireInstallationSession rt authorization endpoint s = (s', Inr x) \<Longrightarrow> s' = s \<and> in_force x (device_view s)"
  using resolve_current by (auto simp: requireInstallationSession_def throwS_def split: option.splits if_splits)

lemma policy_always: "\<exists>p. snd (resolveExtensionSessionPolicy rt s) = Inr p"
  by (simp add: resolveExtensionSessionPolicy_def Let_def split: prod.split)

lemma refresh_moves:
  assumes ok: "device_ok (device_view s)" and cur: "in_force x (device_view s)"
  shows "device_step\<^sup>*\<^sup>* (device_view s) (device_view (fst (refreshInstallationSessionForToken rt x s)))"
proof -
  let ?i = "xi_id (ns_installation x)" and ?k = "xs_id (ns_session x)"
  obtain s1 p where pol: "resolveExtensionSessionPolicy rt s = (s1, Inr p)" using policy_always [of rt s] by (metis prod.collapse)
  have v1: "device_view s1 = device_view s" using policy_view [of rt s] pol by simp
  then have ids: "?k \<in> xs_id ` set (xd_sessions s1)" using cur by (auto simp: in_force_def device_view_def)
  define s2 where "s2 = s1\<lparr>xd_sessions := revoke_rows (\<lambda>r. xs_id r = ?k) (xt_now rt) (xd_sessions s1)\<rparr>"
  have rev: "revokeSession ?k (xt_now rt) s1 = (s2, Inr ())" using ids by (simp add: revokeSession_def s2_def)
  have v2: "device_view s2 = (fst (device_view s), revoke_rows (\<lambda>r. xs_id r = ?k) (xt_now rt) (snd (device_view s)))"
    using v1 by (simp add: s2_def device_view_def)
  have 2: "device_step\<^sup>*\<^sup>* (device_view s) (device_view s2)"
    unfolding v2 using device_step.cleared [of "fst (device_view s)" "snd (device_view s)" "\<lambda>r. xs_id r = ?k" "xt_now rt"]
    by (simp add: r_into_rtranclp)
  have ok2: "device_ok (device_view s2)" by (rule stays_ok [OF 2 ok])
  have "\<not> open_for ?i y" if y: "y \<in> set (snd (device_view s2))" for y
  proof
    assume o: "open_for ?i y"
    then have y': "y \<in> set (snd (device_view s)) \<and> xs_id y \<noteq> ?k"
      using open_revoked [of y "\<lambda>r. xs_id r = ?k"] y by (auto simp: v2 open_for_def)
    then have "y = ns_session x" using ok cur o unfolding device_ok_def in_force_def by metis
    then show False using y' by simp
  qed
  then have "vacant ?i (xi_userId (ns_installation x)) (device_view s2)"
    using cur by (auto simp: vacant_def in_force_def v2 owner_key_def)
  note issue = issue_after_vacant [OF _ ok2 this]
  show ?thesis unfolding refreshInstallationSessionForToken_def Let_def
    using 2 pol rev by (simp add: thenS_def bindS_def) (intro rtranclp_trans [OF 2] issue [unfolded bindS_def thenS_def] moves_intros)
qed

lemma moves_token:
  fixes f :: "installation_session \<Rightarrow> ('m extension_db_scheme, 'a) op"
  assumes "\<And>x s. device_ok (device_view s) \<Longrightarrow> in_force x (device_view s) \<Longrightarrow> device_step\<^sup>*\<^sup>* (device_view s) (device_view (fst (f x s)))"
  shows "moves (bindS (requireInstallationSession rt authorization endpoint) f)"
  unfolding moves_def
proof (intro allI impI)
  fix s :: "'m extension_db_scheme" assume ok: "device_ok (device_view s)"
  obtain s1 y where r: "requireInstallationSession rt authorization endpoint s = (s1, y)"
    by (cases "requireInstallationSession rt authorization endpoint s")
  show "device_step\<^sup>*\<^sup>* (device_view s) (device_view (fst (bindS (requireInstallationSession rt authorization endpoint) f s)))"
  proof (cases y)
    case (Inl e)
    then show ?thesis using r moves_run [OF moves_require r ok] by (simp add: bindS_def)
  next
    case (Inr x)
    then show ?thesis using r require_current [of rt authorization endpoint s s1 x] assms [OF ok, of x] by (simp add: bindS_def)
  qed
qed

lemma moves_refresh: "moves (handleRefreshInstallationSession rt authorization endpoint)"
  unfolding handleRefreshInstallationSession_def by (rule moves_token) (rule refresh_moves)

text \<open>Operations that leave the view alone in the states where a session is in force.\<close>

definition rests :: "installation_session \<Rightarrow> ('m extension_db_scheme, 'a) op \<Rightarrow> bool" where
  "rests x m \<longleftrightarrow> (\<forall>s. device_ok (device_view s) \<and> in_force x (device_view s) \<longrightarrow> device_view (fst (m s)) = device_view s)"

named_theorems rests_intros \<open>operations that leave owners and sessions alone\<close>

lemma rests_still: "(\<And>s. device_view (fst (m s)) = device_view s) \<Longrightarrow> rests x m"
  by (simp add: rests_def)

lemma rests_basic [rests_intros]: "rests x (retS y)" "rests x (throwS e)" "rests x (getS f)" "rests x (liftS r)"
  by (simp_all add: rests_def op_simps)

lemma rests_bind [rests_intros]:
  fixes m :: "('m extension_db_scheme, 'a) op"
  assumes "rests x m" and "\<And>y. rests x (f y)"
  shows "rests x (bindS m f)"
  unfolding rests_def
proof (intro allI impI)
  fix s :: "'m extension_db_scheme" assume s: "device_ok (device_view s) \<and> in_force x (device_view s)"
  obtain s1 r where m: "m s = (s1, r)" by (cases "m s")
  then have 1: "device_view s1 = device_view s" using assms(1) s by (metis rests_def fst_conv)
  show "device_view (fst (bindS m f s)) = device_view s"
  proof (cases r)
    case (Inr y)
    have "device_view (fst (f y s1)) = device_view s1" using assms(2) s 1 by (simp add: rests_def)
    then show ?thesis using m 1 Inr by (simp add: bindS_def)
  qed (simp add: m 1 bindS_def)
qed

lemma rests_then [rests_intros]: "rests x m \<Longrightarrow> rests x k \<Longrightarrow> rests x (thenS m k)"
  by (simp add: thenS_def rests_bind)

lemma rests_catch [rests_intros]:
  fixes m :: "('m extension_db_scheme, 'a) op"
  assumes "rests x m" and "rests x k"
  shows "rests x (catchS m k)"
  unfolding rests_def
proof (intro allI impI)
  fix s :: "'m extension_db_scheme" assume s: "device_ok (device_view s) \<and> in_force x (device_view s)"
  obtain s1 r where m: "m s = (s1, r)" by (cases "m s")
  then have 1: "device_view s1 = device_view s" using assms(1) s by (metis rests_def fst_conv)
  then have "device_view (fst (k s1)) = device_view s" using assms(2) s by (simp add: rests_def)
  then show "device_view (fst (catchS m k s)) = device_view s" using m 1 by (cases r) (simp_all add: catchS_def)
qed

lemma rests_option [rests_intros]: "rests x m \<Longrightarrow> (\<And>y. rests x (f y)) \<Longrightarrow> rests x (case v of None \<Rightarrow> m | Some y \<Rightarrow> f y)"
  and rests_pair [rests_intros]: "(\<And>a b. rests x (g a b)) \<Longrightarrow> rests x (case p of (a, b) \<Rightarrow> g a b)"
  and rests_if [rests_intros]: "(c \<Longrightarrow> rests x m1) \<Longrightarrow> (\<not> c \<Longrightarrow> rests x m2) \<Longrightarrow> rests x (if c then m1 else m2)"
  by (simp_all split: option.split prod.split)

lemma rests_policy [rests_intros]: "rests x (resolveExtensionSessionPolicy rt)"
  by (rule rests_still) simp

lemma rests_record [rests_intros]: "rests x (recordLifecycleEventSafely rt i)"
  by (rule rests_still) simp

lemma rests_payload [rests_intros]: "rests x (buildBootstrapPayload rt i e h t n)"
  unfolding buildBootstrapPayload_def by (intro rests_intros)

lemma give_same:
  assumes "distinct (map (fst \<circ> snd) os)" and "(i, n, u) \<in> set os"
  shows "give n u os = os"
  unfolding give_def using one_owner [OF assms(1)] assms(2) by (intro map_idI) auto

lemma rests_upsert:
  "rests x (upsertBoundInstallation cuid now (bound_of rt (xi_userId (ns_installation x)) (xi_installationId (ns_installation x)) h md))"
  unfolding rests_def
proof (intro allI impI)
  fix s :: "'m extension_db_scheme" assume s: "device_ok (device_view s) \<and> in_force x (device_view s)"
  let ?i = "ns_installation x"
  let ?b = "bound_of rt (xi_userId ?i) (xi_installationId ?i) h md"
  have key: "(xi_id ?i, xi_installationId ?i, xi_userId ?i) \<in> set (fst (device_view s))"
    using s unfolding in_force_def owner_key_def by blast
  obtain s1 r where up: "upsertBoundInstallation cuid now ?b s = (s1, r)" by (cases "upsertBoundInstallation cuid now ?b s")
  show "device_view (fst (upsertBoundInstallation cuid now ?b s)) = device_view s"
  proof (cases r)
    case (Inl e)
    then show ?thesis using up upsert_failed by fastforce
  next
    case (Inr y)
    have "findByInstallationId (xi_installationId ?i) s \<noteq> None"
      using key by (auto simp: findByInstallationId_def find_None_iff device_view_def owner_key_def)
    then obtain old where old: "findByInstallationId (bn_installationId ?b) s = Some old" by (auto simp: bound_of_def)
    have "device_ok (device_view s)" using s by simp
    from upsert_view_known(2) [OF up [unfolded Inr] old this] show ?thesis
      using up give_same [OF _ key] s by (simp add: device_ok_def bound_of_def)
  qed
qed

lemma rests_moves: "(\<And>x. rests x (f x)) \<Longrightarrow> moves (bindS (requireInstallationSession rt authorization endpoint) f)"
  by (rule moves_token) (simp add: rests_def)

lemma rests_upsert_named [rests_intros]:
  "\<not> n \<noteq> xi_installationId (ns_installation x)
     \<Longrightarrow> rests x (upsertBoundInstallation cuid now (bound_of rt (xi_userId (ns_installation x)) n h md))"
  by (simp add: rests_upsert)

lemma moves_bootstrap: "moves (bootstrapV2 rt authorization request)"
  unfolding bootstrapV2_def
proof (rule rests_moves)
  fix x
  show "rests x (bootstrapInstallationSession rt x request)"
    unfolding bootstrapInstallationSession_def Let_def by (intro rests_intros) assumption+
qed

section \<open>Usage events\<close>

lemma moves_dispatch [moves_intros]: "moves (dispatch_usage rt e)"
  by (rule moves_still) (simp add: dispatch_usage_def device_view_def split: prod.split option.split)

lemma moves_usage_lifecycle [moves_intros]: "moves (recordUsageLifecycleEventIfNeeded rt r e)"
  unfolding recordUsageLifecycleEventIfNeeded_def Let_def by (intro moves_intros)

lemma moves_ingest [moves_intros]: "moves (ingestUsageEventForInstallationSession rt x e)"
  unfolding ingestUsageEventForInstallationSession_def Let_def by (intro moves_intros)

lemma moves_mapS [moves_intros]: "(\<And>x. moves (f x)) \<Longrightarrow> moves (mapS f xs)"
  by (induction xs) (simp_all add: moves_intros)

lemma moves_usage: "moves (ingestUsageEventV2 rt authorization envelope)"
  unfolding ingestUsageEventV2_def by (intro moves_intros)

section \<open>The service along its requests\<close>

text \<open>One request, of a user or of an extension, whatever it is answered.\<close>

inductive extension_request :: "extension_db \<Rightarrow> extension_db \<Rightarrow> bool" where
  bind: "extension_request s (fst (bindInstallationForCurrentSession rt session request s))"
| label: "extension_request s (fst (updateInstallationLabelForCurrentSession rt session i deviceLabel s))"
| disconnect: "extension_request s (fst (disconnectInstallationForCurrentSession rt session request s))"
| self_disconnect: "extension_request s (fst (selfDisconnectInstallationForCurrentSession rt session request s))"
| rotate: "extension_request s (fst (rotateInstallationSessionForCurrentSession rt session request s))"
| refresh: "extension_request s (fst (handleRefreshInstallationSession rt authorization endpoint s))"
| bootstrap: "extension_request s (fst (bootstrapV2 rt authorization request s))"
| usage: "extension_request s (fst (ingestUsageEventV2 rt authorization envelope s))"

inductive_cases extension_requestE: "extension_request s s'"

lemmas handlers_move = moves_bindInstallation moves_update_label moves_disconnect moves_self_disconnect moves_rotate moves_refresh
  moves_bootstrap moves_usage

lemma moves_from: "moves m \<Longrightarrow> device_ok (device_view s) \<Longrightarrow> device_step\<^sup>*\<^sup>* (device_view s) (device_view (fst (m s)))"
  by (simp add: moves_def)

lemma request_steps:
  assumes "extension_request s s'" and "device_ok (device_view s)"
  shows "device_step\<^sup>*\<^sup>* (device_view s) (device_view s')"
  using assms by (cases rule: extension_request.cases) (simp_all add: handlers_move [THEN moves_from])

lemma requests_steps:
  assumes "extension_request\<^sup>*\<^sup>* s s'" and "device_ok (device_view s)"
  shows "device_step\<^sup>*\<^sup>* (device_view s) (device_view s')"
  using assms(1)
proof (induction rule: rtranclp_induct)
  case (step y z)
  have "device_ok (device_view y)" by (rule stays_ok [OF step.IH assms(2)])
  with step show ?case by (meson request_steps rtranclp_trans)
qed simp

text \<open>The tables after any requests, from empty ones; the rest of the platform may do anything but touch owners and
  sessions.\<close>

inductive served :: "extension_db \<Rightarrow> bool" where
  start: "xd_installations s = [] \<Longrightarrow> xd_sessions s = [] \<Longrightarrow> served s"
| request: "served s \<Longrightarrow> extension_request s s' \<Longrightarrow> served s'"
| elsewhere: "served s \<Longrightarrow> device_view s' = device_view s \<Longrightarrow> served s'"

lemma served_ok: "served s \<Longrightarrow> device_ok (device_view s)"
proof (induction rule: served.induct)
  case (request s s')
  then show ?case by (meson request_steps stays_ok)
qed (simp_all add: device_ok_def device_view_def)

lemma filter_one: "distinct xs \<Longrightarrow> r \<in> set xs \<Longrightarrow> (\<And>x. x \<in> set xs \<Longrightarrow> P x \<longleftrightarrow> x = r) \<Longrightarrow> filter P xs = [r]"
proof (induction xs)
  case (Cons x xs)
  show ?case
  proof (cases "x = r")
    case True
    then have "filter P xs = []" using Cons.prems by (auto simp: filter_empty_conv)
    then show ?thesis using Cons.prems True by simp
  next
    case False
    then have "filter P xs = [r]" using Cons by simp
    then show ?thesis using Cons.prems False by simp
  qed
qed simp

text \<open>The recording of an event never fails, so what follows runs.\<close>

lemma record_bind [simp]:
  "bindS (recordLifecycleEventSafely rt i) f s = f () (fst (recordLifecycleEventSafely rt i s))"
proof -
  obtain s' where "recordLifecycleEventSafely rt i s = (s', Inr ())" using record_safely_ok [of rt i s] by (metis prod.collapse)
  then show ?thesis by (simp add: bindS_def)
qed

lemma record_sessions: "xd_sessions (fst (recordLifecycleEventSafely rt i s)) = xd_sessions s"
  using record_safely_view [of rt i s] by (simp add: device_view_def)

lemma record_then [simp]:
  "thenS (recordLifecycleEventSafely rt i) k s = k (fst (recordLifecycleEventSafely rt i s))"
  by (simp add: thenS_def)

lemma disconnect_view:
  assumes "run = disconnectInstallationForCurrentSession \<or> run = selfDisconnectInstallationForCurrentSession"
    and "run rt session request s = (s1, Inr d)"
  shows "\<exists>x. findByInstallationId (dx_installationId d) s = Some x
     \<and> device_view s1 = device_view (s\<lparr>xd_sessions := revoke_rows (open_for (xi_id x)) (xt_now rt) (xd_sessions s)\<rparr>)"
proof -
  have d: "device_view s' = device_view (s\<lparr>xd_sessions := revoke_rows (open_for (xi_id x)) (xt_now rt) (xd_sessions s)\<rparr>)
      \<and> dx_installationId d = xi_installationId x"
    if "disconnect_installation rt session x e t m p s = (s', Inr d)" for x e t m p s'
    using that by (auto simp: disconnect_installation_def revokeActiveByInstallationId_def op_elims record_then)
  have o: "s' = s \<and> findByInstallationId n s = Some x" if "owned_installation session n s = (s', Inr x)" for n s' x
    using that by (auto simp: owned_installation_def op_elims split: option.splits if_splits)
  have "\<exists>n s0 x e t m p. owned_installation session n s = (s0, Inr x) \<and> disconnect_installation rt session x e t m p s0 = (s1, Inr d)"
    using assms(1)
  proof
    assume "run = disconnectInstallationForCurrentSession"
    with assms(2) show ?thesis unfolding disconnectInstallationForCurrentSession_def Let_def by (simp only: op_elims) blast
  next
    assume "run = selfDisconnectInstallationForCurrentSession"
    with assms(2) show ?thesis unfolding selfDisconnectInstallationForCurrentSession_def Let_def by (simp only: op_elims) blast
  qed
  then obtain n s0 x e t m p where r: "owned_installation session n s = (s0, Inr x)" "disconnect_installation rt session x e t m p s0 = (s1, Inr d)"
    by blast
  note x = o [OF r(1)]
  have v: "device_view s1 = device_view (s\<lparr>xd_sessions := revoke_rows (open_for (xi_id x)) (xt_now rt) (xd_sessions s)\<rparr>)
      \<and> dx_installationId d = xi_installationId x"
    by (rule d) (use r(2) x in simp)
  from x have "xi_installationId x = n" using findByInstallationId_key by blast
  with x v show ?thesis by auto
qed

lemma same_installation:
  "device_ok (device_view s) \<Longrightarrow> x \<in> set (xd_installations s) \<Longrightarrow> y \<in> set (xd_installations s)
     \<Longrightarrow> xi_installationId x = xi_installationId y \<Longrightarrow> xi_id x = xi_id y"
  using one_owner [of "fst (device_view s)" "xi_id x" "xi_installationId x" "xi_userId x" "xi_id y" "xi_userId y"] owner_listed [of x s]
    owner_listed [of y s] by (simp add: device_ok_def)

lemma revoked_spent:
  assumes "device_ok (device_view s)" and "r \<in> set (xd_sessions s)" and "xs_extensionInstallationId r = i" 
  shows "spent_hash (xs_tokenHash r) (device_view (s\<lparr>xd_sessions := revoke_rows (open_for i) t (xd_sessions s)\<rparr>))"
proof -
  let ?ss = "revoke_rows (open_for i) t (xd_sessions s)"
  have "xs_revokedAt x \<noteq> None" if x: "x \<in> set ?ss" "xs_tokenHash x = xs_tokenHash r" for x
  proof
    assume "xs_revokedAt x = None"
    then have y: "x \<in> set (xd_sessions s)" "\<not> open_for i x" using open_revoked [of x "open_for i" t] x(1) by auto
    then have "x = r" using assms(1,2) x(2) by (auto simp: device_ok_def device_view_def distinct_map inj_on_def)
    then show False using y assms(3) \<open>xs_revokedAt x = None\<close> by (simp add: open_for_def)
  qed
  then show ?thesis using assms(2) by (auto simp: spent_hash_def device_view_def)
qed

lemma revoked_one_spent:
  assumes "device_ok (device_view s)" and "r \<in> set (xd_sessions s)"
  shows "spent_hash (xs_tokenHash r) (device_view (s\<lparr>xd_settings := c, xd_sessions := revoke_rows (\<lambda>y. xs_id y = xs_id r) t (xd_sessions s)\<rparr>))"
proof -
  have "xs_revokedAt x \<noteq> None" if x: "x \<in> set (revoke_rows (\<lambda>y. xs_id y = xs_id r) t (xd_sessions s))" "xs_tokenHash x = xs_tokenHash r" for x
  proof
    assume "xs_revokedAt x = None"
    then have y: "x \<in> set (xd_sessions s)" "xs_id x \<noteq> xs_id r" using open_revoked [of x "\<lambda>y. xs_id y = xs_id r" t] x(1) by auto
    then show False using assms x(2) by (auto simp: device_ok_def device_view_def distinct_map inj_on_def)
  qed
  then show ?thesis using assms(2) by (auto simp: spent_hash_def device_view_def)
qed

lemma spent_hidden:
  assumes "spent_hash h (device_view s)"
  shows "findActiveByTokenHash h t s = None"
proof -
  have "find (\<lambda>r. xs_tokenHash r = h \<and> live_token t r) (xd_sessions s) = None"
    using assms by (auto simp: spent_hash_def device_view_def live_token_def find_None_iff)
  then show ?thesis by (simp add: findActiveByTokenHash_def)
qed

lemma spent_refused:
  "spent_hash (xt_hmac rt token) (device_view s)
     \<Longrightarrow> snd (resolveInstallationSession rt token endpoint s) = Inl (Unauthorized ''Installation session is invalid or expired.'')"
  by (simp add: resolveInstallationSession_def spent_hidden)

text \<open>
  C4. An installation has at most one session that is not revoked, and that session belongs to the user the
  installation is bound to: whatever users and extensions ask for, one request after the other in any order,
  from empty tables. A bind that takes an installation over revokes the sessions of the former owner before it
  issues its own.
\<close>

theorem one_session_of_owner:
  assumes "served s" and "r \<in> set (xd_sessions s)" and "xs_revokedAt r = None"
  shows "(\<exists>i \<in> set (xd_installations s). xi_id i = xs_extensionInstallationId r \<and> xi_userId i = xs_userId r)
     \<and> filter (open_for (xs_extensionInstallationId r)) (xd_sessions s) = [r]"
proof -
  have ok: "device_ok (device_view s)" by (rule served_ok [OF assms(1)])
  have "\<exists>n. (xs_extensionInstallationId r, n, xs_userId r) \<in> set (map owner_key (xd_installations s))"
    using ok assms(2,3) by (simp add: device_ok_def device_view_def)
  then have "\<exists>i \<in> set (xd_installations s). xi_id i = xs_extensionInstallationId r \<and> xi_userId i = xs_userId r"
    by (auto simp: owner_key_def)
  moreover have "distinct (xd_sessions s)" using ok by (auto simp: device_ok_def device_view_def distinct_map)
  moreover have "open_for (xs_extensionInstallationId r) x \<longleftrightarrow> x = r" if "x \<in> set (xd_sessions s)" for x
    using ok assms(2,3) that unfolding device_ok_def device_view_def by (auto simp: open_for_def)
  ultimately show ?thesis using filter_one [OF _ assms(2)] by simp
qed

text \<open>
  C5. A disconnected installation is out for good: once a user, or the extension on their behalf, has
  disconnected it, every token it ever had is refused, whatever is requested afterwards. Only a token issued
  later is accepted.
\<close>

theorem disconnected_for_good:
  assumes "device_ok (device_view s)"
    and "run = disconnectInstallationForCurrentSession \<or> run = selfDisconnectInstallationForCurrentSession"
    and "run rt session request s = (s1, Inr d)" and "extension_request\<^sup>*\<^sup>* s1 s2"
    and "i \<in> set (xd_installations s)" and "xi_installationId i = dx_installationId d"
    and "r \<in> set (xd_sessions s)" and "xs_extensionInstallationId r = xi_id i" and "xt_hmac rt' token = xs_tokenHash r"
  shows "snd (resolveInstallationSession rt' token endpoint s2) = Inl (Unauthorized ''Installation session is invalid or expired.'')"
proof -
  obtain x where x: "findByInstallationId (dx_installationId d) s = Some x"
    and s1: "device_view s1 = device_view (s\<lparr>xd_sessions := revoke_rows (open_for (xi_id x)) (xt_now rt) (xd_sessions s)\<rparr>)"
    using disconnect_view [OF assms(2,3)] by blast
  have "xi_id x = xi_id i"
    by (rule same_installation [OF assms(1) _ assms(5)]) (simp_all add: findByInstallationId_key [OF x] assms(6))
  then have "spent_hash (xs_tokenHash r) (device_view s1)"
    using assms(1,7,8) unfolding s1 by (intro revoked_spent) simp_all
  moreover have m: "moves (run rt session request)" using assms(2) moves_disconnect moves_self_disconnect by auto
  have "device_ok (device_view s1)" by (rule stays_ok [OF moves_run [OF m assms(3,1)] assms(1)])
  ultimately have "spent_hash (xs_tokenHash r) (device_view s2)"
    using spent_token.steps_keep [OF requests_steps [OF assms(4)]] by simp
  then show ?thesis unfolding assms(9) [symmetric] by (rule spent_refused)
qed

text \<open>What a successful bind did, step by step.\<close>

lemma policy_run: "resolveExtensionSessionPolicy rt s = (s', r) \<Longrightarrow> device_view s' = device_view s"
  using policy_view [of rt s] by simp

lemma payload_run: "buildBootstrapPayload rt i e h t n s = (s', Inr b) \<Longrightarrow> s' = s"
  by (auto simp: buildBootstrapPayload_def op_elims split: if_splits)

lemma issue_token: "issueInstallationSession rt r u h s = (s', Inr (t, x)) \<Longrightarrow> t = xt_token rt"
  by (auto simp: issueInstallationSession_def op_elims)

lemma bind_steps:
  fixes s s' :: "'m extension_db_scheme"
  assumes "bindInstallationForCurrentSession rt session request s = (s', Inr res)"
  obtains n hs md h r k x and s0 s1 s2 s3 :: "'m extension_db_scheme" where "device_view s0 = device_view s"
    and "upsertBoundInstallation (xt_cuid rt) (xt_now rt) (bound_of rt (cs_user_id session) n hs md) s0 = (s1, Inr r)"
    and "revokeActiveByInstallationId (xi_id r) (xt_now rt) s1 = (s2, Inr k)"
    and "issueInstallationSession rt r (cs_user_id session) h s2 = (s3, Inr (xt_token rt, x))"
    and "device_view s' = device_view s3" and "tz_token (bx_session res) = xt_token rt"
    and "tz_expiresAt (bx_session res) = toISOString (xs_expiresAt (ns_session x))"
    and "bm_installationId (bx_installation res) = xi_installationId r"
proof -
  obtain s0 p md and hs :: bind_request and s1 r s2 k s3 t x s4 b where pol: "resolveExtensionSessionPolicy rt s = (s0, Inr p)"
    and up: "upsertBoundInstallation (xt_cuid rt) (xt_now rt) (bound_of rt (cs_user_id session) (nb_installationId hs) (nb_handshake hs) md) s0 = (s1, Inr r)"
    and rev: "revokeActiveByInstallationId (xi_id r) (xt_now rt) s1 = (s2, Inr k)"
    and iss: "issueInstallationSession rt r (cs_user_id session) (so_lifetimeHours p) s2 = (s3, Inr (t, x))"
    and pay: "buildBootstrapPayload rt r (nb_environment hs) (nb_handshake hs) (Some (toISOString (xt_now rt))) (so_refreshAfterSeconds p) s3 = (s4, Inr b)"
    and fin: "device_view s' = device_view s4"
    and res: "res = \<lparr>bx_installation = summary_of rt r (nb_handshake hs),
             bx_session = \<lparr>tz_token = t, tz_expiresAt = toISOString (xs_expiresAt (ns_session x)), tz_refreshAfterSeconds = so_refreshAfterSeconds p\<rparr>,
             bx_bootstrap = b\<rparr>"
    using assms unfolding bindInstallationForCurrentSession_def Let_def
    by (simp only: op_elims split_paired_Ex prod.case record_then record_safely_view)
      (clarify, rule that, assumption, assumption, assumption, assumption, assumption, simp_all)
  note e = payload_run [OF pay] issue_token [OF iss]
  show thesis
    by (rule that [OF policy_run [OF pol] up rev iss [unfolded e(2)]]) (simp_all add: fin e res summary_of_def)
qed

text \<open>A session that was created is found by the hash of its token until it expires.\<close>

lemma created_session_found:
  assumes "create_session cuid now i u h e s = (s', Inr x)"
  shows "findActiveByTokenHash h t s' = (if t < e then Some x else None)" and "xs_expiresAt (ns_session x) = e"
    and "xs_userId (ns_session x) = u" and "find (\<lambda>r. xi_id r = i) (xd_installations s') = Some (ns_installation x)"
proof -
  let ?row = "\<lparr>xs_id = cuid (ad_next s), xs_extensionInstallationId = i, xs_userId = u, xs_tokenHash = h, xs_expiresAt = e, xs_createdAt = now,
      xs_revokedAt = None\<rparr>"
  have fresh: "h \<notin> xs_tokenHash ` set (xd_sessions s)" and x: "include_installation s ?row = Some x"
    and s': "s' = s\<lparr>xd_sessions := xd_sessions s @ [?row], ad_next := Suc (ad_next s)\<rparr>"
    using assms by (auto simp: create_session_def Let_def split: if_splits option.splits)
  have "find (\<lambda>r. xs_tokenHash r = h \<and> live_token t r) (xd_sessions s @ [?row]) = (if t < e then Some ?row else None)"
    using fresh by (auto simp: find_append find_None_iff live_token_def split: option.splits dest: find_SomeD)
  then show "findActiveByTokenHash h t s' = (if t < e then Some x else None)"
    using x by (simp add: findActiveByTokenHash_def s' include_installation_def)
  show "xs_expiresAt (ns_session x) = e" "xs_userId (ns_session x) = u" "find (\<lambda>r. xi_id r = i) (xd_installations s') = Some (ns_installation x)"
    using x by (auto simp: include_installation_def s')
qed

lemma find_owner: "find (\<lambda>o'. fst o' = k) (map owner_key rows) = map_option owner_key (find (\<lambda>i. xi_id i = k) rows)"
  by (induction rows) (simp_all add: owner_key_def)

lemma include_view:
  "map_option (\<lambda>x. (ns_session x, owner_key (ns_installation x))) (include_installation u r)
     = map_option (Pair r) (find (\<lambda>o'. fst o' = xs_extensionInstallationId r) (fst (device_view u)))"
  unfolding device_view_def fst_conv find_owner include_installation_def by (simp add: option.map_comp comp_def)

lemma found_by_view:
  assumes "device_view s = device_view s'"
  shows "map_option (\<lambda>x. (ns_session x, owner_key (ns_installation x))) (findActiveByTokenHash h t s)
     = map_option (\<lambda>x. (ns_session x, owner_key (ns_installation x))) (findActiveByTokenHash h t s')"
proof -
  have "xd_sessions s = xd_sessions s'" using assms by (simp add: device_view_def)
  then show ?thesis unfolding findActiveByTokenHash_def
    by (cases "find (\<lambda>r. xs_tokenHash r = h \<and> live_token t r) (xd_sessions s')") (simp_all add: include_view assms)
qed

lemma upsert_listed:
  assumes "upsertBoundInstallation cuid now b s = (s', Inr r)"
  shows "r \<in> set (xd_installations s') \<and> xi_installationId r = bn_installationId b \<and> xi_userId r = bn_userId b"
  using assms findByInstallationId_key
  by (fastforce simp: upsertBoundInstallation_def Let_def new_installation_def bound_columns_def split: if_splits option.splits)

text \<open>
  C16. The token a bind answers with opens the installation it was issued for, in the name of the user who bound
  it, up to the instant of expiry the answer names, and is refused from then on.
\<close>

theorem bound_token_resolves:
  fixes s s' :: "'m extension_db_scheme"
  assumes "device_ok (device_view s)" and "bindInstallationForCurrentSession rt session request s = (s', Inr res)"
  shows "\<exists>e. tz_expiresAt (bx_session res) = toISOString e
     \<and> (\<forall>rt' endpoint. xt_hmac rt' = xt_hmac rt \<longrightarrow>
         (case snd (resolveInstallationSession rt' (tz_token (bx_session res)) endpoint s') of
            Inr x \<Rightarrow> xt_now rt' < e \<and> xi_installationId (ns_installation x) = bm_installationId (bx_installation res)
              \<and> xi_userId (ns_installation x) = cs_user_id session
          | Inl err \<Rightarrow> e \<le> xt_now rt' \<and> err = Unauthorized ''Installation session is invalid or expired.''))"
  using assms(2)
proof (rule bind_steps)
  fix n hs md h r k x and s0 s1 s2 s3 :: "'m extension_db_scheme"
  assume up: "upsertBoundInstallation (xt_cuid rt) (xt_now rt) (bound_of rt (cs_user_id session) n hs md) s0 = (s1, Inr r)"
    and rev: "revokeActiveByInstallationId (xi_id r) (xt_now rt) s1 = (s2, Inr k)"
    and iss: "issueInstallationSession rt r (cs_user_id session) h s2 = (s3, Inr (xt_token rt, x))"
    and v: "device_view s' = device_view s3" and t: "tz_token (bx_session res) = xt_token rt"
    and e: "tz_expiresAt (bx_session res) = toISOString (xs_expiresAt (ns_session x))"
    and i: "bm_installationId (bx_installation res) = xi_installationId r"
  obtain ex where cr: "create_session (xt_cuid rt) (xt_now rt) (xi_id r) (cs_user_id session) (xt_hmac rt (xt_token rt)) ex s2 = (s3, Inr x)"
    using iss by (auto simp: issueInstallationSession_def op_elims)
  note found = created_session_found [OF cr]
  have r: "r \<in> set (xd_installations s1)" "xi_userId r = cs_user_id session" using upsert_listed [OF up] by (simp_all add: bound_of_def)
  have "xd_installations s3 = xd_installations s1"
    using cr rev by (auto simp: create_session_def revokeActiveByInstallationId_def Let_def split: if_splits option.splits)
  moreover have "device_ok (device_view s3)"
    using stays_ok [OF moves_run [OF moves_bindInstallation assms(2,1)] assms(1)] v by simp
  then have "distinct (map xi_id (xd_installations s3))" by (simp add: device_ok_def device_view_def comp_def owner_key_def)
  ultimately have x: "ns_installation x = r" using found(4) find_unique r(1) by fastforce
  show ?thesis
  proof (intro exI conjI allI impI)
    show "tz_expiresAt (bx_session res) = toISOString (xs_expiresAt (ns_session x))" by (rule e)
    fix rt' :: extension_runtime and endpoint assume k: "xt_hmac rt' = xt_hmac rt"
    show "case snd (resolveInstallationSession rt' (tz_token (bx_session res)) endpoint s') of
            Inr y \<Rightarrow> xt_now rt' < xs_expiresAt (ns_session x) \<and> xi_installationId (ns_installation y) = bm_installationId (bx_installation res)
              \<and> xi_userId (ns_installation y) = cs_user_id session
          | Inl err \<Rightarrow> xs_expiresAt (ns_session x) \<le> xt_now rt' \<and> err = Unauthorized ''Installation session is invalid or expired.''"
      using found_by_view [OF v, of "xt_hmac rt (xt_token rt)" "xt_now rt'"] found(1,2) x r(2)
      by (cases "findActiveByTokenHash (xt_hmac rt (xt_token rt)) (xt_now rt') s'")
        (auto simp: resolveInstallationSession_def k t i owner_key_def split: if_splits)
  qed
qed

text \<open>The lifetime comes with the settings, which is all its computation may change.\<close>

lemma policy_shape:
  obtains c p where "resolveExtensionSessionPolicy rt s = (s\<lparr>xd_settings := c\<rparr>, Inr p)"
proof (cases "xt_settingsUp rt")
  case False
  have "s\<lparr>xd_settings := xd_settings s\<rparr> = s" by simp
  then show thesis using that [of "xd_settings s"] False by (simp add: resolveExtensionSessionPolicy_def Let_def)
next
  case True
  obtain c r where "getRetentionPolicy (xt_processEnv rt) (xt_now rt) (xd_settings s) = (c, r)" by (rule prod.exhaust)
  then show thesis using that True by (simp add: resolveExtensionSessionPolicy_def Let_def)
qed

text \<open>
  C6. A working extension stays connected: as long as its token is in force, its request for a new one is
  answered with a token that opens the same installation until the new instant of expiry, and from then on the
  old token is refused.
\<close>

theorem refresh_hands_over:
  assumes "device_ok (device_view s)" and "parseBearerToken authorization = Some token" and "token \<noteq> []"
    and "findActiveByTokenHash (xt_hmac rt token) (xt_now rt) s = Some x"
    and "findUserById (xi_userId (ns_installation x)) s \<noteq> None" and "xt_cuid rt (ad_next s) \<notin> xs_id ` set (xd_sessions s)"
    and "xt_hmac rt (xt_token rt) \<notin> xs_tokenHash ` set (xd_sessions s)"
    and "\<And>p. snd (resolveExtensionSessionPolicy rt s) = Inr p \<Longrightarrow> date_of_number (session_expiry (xt_now rt) (so_lifetimeHours p)) = Inr e"
  shows "\<exists>s' res. handleRefreshInstallationSession rt authorization endpoint s = (s', Inr res) \<and> rf_tokenExpiresAt res = toISOString e
     \<and> (\<forall>t < e. \<exists>y. findActiveByTokenHash (xt_hmac rt (rf_installationToken res)) t s' = Some y
           \<and> owner_key (ns_installation y) = owner_key (ns_installation x))
     \<and> (\<forall>t. findActiveByTokenHash (xt_hmac rt token) t s' = None)"
proof -
  let ?i = "ns_installation x" and ?r = "ns_session x"
  have inc: "include_installation s ?r = Some x" and r: "?r \<in> set (xd_sessions s)" "xs_tokenHash ?r = xt_hmac rt token"
    using assms(4) by (auto simp: findActiveByTokenHash_def include_installation_def bind_eq_Some_conv find_Some_iff)
  have key: "find (\<lambda>j. xi_id j = xs_extensionInstallationId ?r) (xd_installations s) = Some ?i"
    using inc by (auto simp: include_installation_def dest: arg_cong [where f = ns_installation])
  then have i: "find (\<lambda>j. xi_id j = xi_id ?i) (xd_installations s) = Some ?i" using find_SomeD [OF key] by simp
  obtain c p where pol: "resolveExtensionSessionPolicy rt s = (s\<lparr>xd_settings := c\<rparr>, Inr p)" by (rule policy_shape)
  let ?s2 = "s\<lparr>xd_settings := c, xd_sessions := revoke_rows (\<lambda>r. xs_id r = xs_id ?r) (xt_now rt) (xd_sessions s)\<rparr>"
  have rev: "revokeSession (xs_id ?r) (xt_now rt) (s\<lparr>xd_settings := c\<rparr>) = (?s2, Inr ())" using r by (auto simp: revokeSession_def)
  obtain s3 z where cr: "create_session (xt_cuid rt) (xt_now rt) (xi_id ?i) (xi_userId ?i) (xt_hmac rt (xt_token rt)) e ?s2 = (s3, Inr z)"
    using assms(5-7) i by (auto simp: create_session_def Let_def include_installation_def findUserById_def)
  have e: "date_of_number (session_expiry (xt_now rt) (so_lifetimeHours p)) = Inr e" using assms(8) pol by simp
  have iss: "issueInstallationSession rt ?i (xi_userId ?i) (so_lifetimeHours p) ?s2 = (s3, Inr (xt_token rt, z))"
    using cr e by (simp add: issueInstallationSession_def op_simps)
  note z = created_session_found [OF cr]
  have zi: "ns_installation z = ?i"
    using z(4) i cr by (auto simp: create_session_def Let_def split: if_splits option.splits)
  have res: "resolveInstallationSession rt token (Some endpoint) s = (s, Inr x)" using assms(4) by (simp add: resolveInstallationSession_def)
  obtain s' res' where run: "handleRefreshInstallationSession rt authorization endpoint s = (s', Inr res')" and v: "device_view s' = device_view s3"
    and out: "rf_tokenExpiresAt res' = toISOString e" "rf_installationToken res' = xt_token rt"
    using assms(2,3) res pol rev iss z(2)
    by (simp add: handleRefreshInstallationSession_def requireInstallationSession_def refreshInstallationSessionForToken_def Let_def op_simps)
  have "spent_hash (xt_hmac rt token) (device_view s3)"
  proof -
    have "spent_hash (xs_tokenHash ?r) (device_view ?s2)" using assms(1) r(1) by (rule revoked_one_spent)
    moreover have "device_view s3 = (fst (device_view ?s2), xd_sessions s3)" 
      using cr by (auto simp: create_session_def Let_def device_view_def split: if_splits option.splits)
    moreover have "xd_sessions s3 = xd_sessions ?s2 @ [ns_session z]"
      using cr by (auto simp: create_session_def Let_def include_installation_def split: if_splits option.splits)
    moreover have "xs_tokenHash (ns_session z) \<noteq> xs_tokenHash ?r"
      using cr r(1) assms(7) by (auto simp: create_session_def Let_def include_installation_def split: if_splits option.splits)
    ultimately show ?thesis using r(2) by (auto simp: spent_hash_def device_view_def)
  qed
  then have "\<forall>t. findActiveByTokenHash (xt_hmac rt token) t s' = None" using spent_hidden v by metis
  moreover have "\<exists>y. findActiveByTokenHash (xt_hmac rt (rf_installationToken res')) t s' = Some y \<and> owner_key (ns_installation y) = owner_key ?i"
    if "t < e" for t
    using found_by_view [OF v, of "xt_hmac rt (xt_token rt)" t] z(1) [of t] that zi out(2) by auto
  ultimately show ?thesis using run out(1) by blast
qed

text \<open>
  Two requests for a new token that both look up the session before either revokes it: both are answered, and the
  installation is left with two sessions. Nothing in the tables keeps the two apart.
\<close>

lemma refresh_sessions:
  assumes "refreshInstallationSessionForToken rt x s = (s', Inr res)"
  obtains z where "xd_sessions s' = revoke_rows (\<lambda>r. xs_id r = xs_id (ns_session x)) (xt_now rt) (xd_sessions s) @ [z]"
    and "open_for (xi_id (ns_installation x)) z" and "xs_id z \<notin> xs_id ` set (xd_sessions s)"
proof -
  obtain c p where pol: "resolveExtensionSessionPolicy rt s = (s\<lparr>xd_settings := c\<rparr>, Inr p)" by (rule policy_shape)
  let ?s2 = "s\<lparr>xd_settings := c, xd_sessions := revoke_rows (\<lambda>r. xs_id r = xs_id (ns_session x)) (xt_now rt) (xd_sessions s)\<rparr>"
  obtain s3 t y where iss: "issueInstallationSession rt (ns_installation x) (xi_userId (ns_installation x)) (so_lifetimeHours p) ?s2 = (s3, Inr (t, y))"
    and v: "xd_sessions s' = xd_sessions s3"
    using assms pol by (auto simp: refreshInstallationSessionForToken_def Let_def op_elims revokeSession_def record_sessions split: if_splits)
  then obtain e where "create_session (xt_cuid rt) (xt_now rt) (xi_id (ns_installation x)) (xi_userId (ns_installation x)) (xt_hmac rt (xt_token rt)) e ?s2 = (s3, Inr y)"
    by (auto simp: issueInstallationSession_def op_elims)
  then show thesis using that v
    by (auto simp: create_session_def Let_def open_for_def split: if_splits option.splits)
qed

lemma concurrent_refreshes_leave_two:
  assumes "refreshInstallationSessionForToken rt1 x s = (s1, Inr res1)" and "refreshInstallationSessionForToken rt2 x s1 = (s2, Inr res2)"
    and "ns_session x \<in> set (xd_sessions s)"
  shows "2 \<le> length (filter (open_for (xi_id (ns_installation x))) (xd_sessions s2))"
proof -
  obtain z1 where z1: "xd_sessions s1 = revoke_rows (\<lambda>r. xs_id r = xs_id (ns_session x)) (xt_now rt1) (xd_sessions s) @ [z1]"
    "open_for (xi_id (ns_installation x)) z1" "xs_id z1 \<notin> xs_id ` set (xd_sessions s)" by (rule refresh_sessions [OF assms(1)])
  obtain z2 where z2: "xd_sessions s2 = revoke_rows (\<lambda>r. xs_id r = xs_id (ns_session x)) (xt_now rt2) (xd_sessions s1) @ [z2]"
    "open_for (xi_id (ns_installation x)) z2" by (rule refresh_sessions [OF assms(2)])
  have "xs_id z1 \<noteq> xs_id (ns_session x)" using z1(3) assms(3) by auto
  then show ?thesis using z1(2) z2(2) by (simp add: z2(1) z1(1) revoke_rows_def)
qed

section \<open>What a user sees\<close>

text \<open>The statistics of an installation: there are none without a session, and else the expiry is that of one of them.\<close>

definition stats_match :: "token_row list \<Rightarrow> (string \<times> session_stats) list \<Rightarrow> bool" where
  "stats_match rows stats \<longleftrightarrow> (\<forall>k. case map_of stats k of
     None \<Rightarrow> \<forall>r \<in> set rows. xs_extensionInstallationId r \<noteq> k
   | Some x \<Rightarrow> 0 < ns_count x \<and> (\<exists>r \<in> set rows. xs_extensionInstallationId r = k \<and> ns_lastExpiresAt x = Some (toISOString (xs_expiresAt r))))"

lemma later_text_cases: "later_text current v = Some v \<or> (later_text current v = current \<and> current \<noteq> None)"
  by (auto simp: later_text_def truthy_def split: option.splits)

lemma stats_match_step: "stats_match rows stats \<Longrightarrow> stats_match (rows @ [r]) (count_session r stats)"
  unfolding stats_match_def
proof
  fix k
  assume m: "\<forall>k. case map_of stats k of None \<Rightarrow> \<forall>r \<in> set rows. xs_extensionInstallationId r \<noteq> k
     | Some x \<Rightarrow> 0 < ns_count x \<and> (\<exists>r \<in> set rows. xs_extensionInstallationId r = k \<and> ns_lastExpiresAt x = Some (toISOString (xs_expiresAt r)))"
  show "case map_of (count_session r stats) k of None \<Rightarrow> \<forall>q \<in> set (rows @ [r]). xs_extensionInstallationId q \<noteq> k
     | Some x \<Rightarrow> 0 < ns_count x \<and> (\<exists>q \<in> set (rows @ [r]). xs_extensionInstallationId q = k \<and> ns_lastExpiresAt x = Some (toISOString (xs_expiresAt q)))"
  proof (cases "xs_extensionInstallationId r = k")
    case False
    then show ?thesis using spec [OF m, of k] by (auto simp: count_session_def Let_def AList.update_conv' split: option.splits)
  next
    case True
    then show ?thesis
      using spec [OF m, of k] later_text_cases [of "ns_lastExpiresAt (nullish (map_of stats k) \<lparr>ns_count = 0, ns_lastIssuedAt = None, ns_lastExpiresAt = None\<rparr>)"
          "toISOString (xs_expiresAt r)"]
      by (cases "map_of stats k") (auto simp: count_session_def Let_def AList.update_conv' nullish_def)
  qed
qed

lemma stats_of_match: "stats_match rows (session_stats_of rows)"
proof (induction rows rule: rev_induct)
  case (snoc r rows)
  then show ?case using stats_match_step by (simp add: session_stats_of_def)
qed (simp add: stats_match_def session_stats_of_def)

lemma by_last_seen_mset:
  assumes "\<And>xs. mset (tie xs) = mset xs"
  shows "mset (by_last_seen tie rows) = mset rows"
proof -
  have "mset (filter (\<lambda>r. xi_lastSeenAt r = None) xs) + mset (filter (\<lambda>r. xi_lastSeenAt r \<noteq> None) xs) = mset xs" for xs
    by (induction xs) auto
  then show ?thesis using assms by (simp add: by_last_seen_def Let_def)
qed

lemma active_members:
  assumes "\<And>xs. mset (tie xs) = mset xs"
  shows "set (listActiveByInstallationIds tie ids now s) = {r \<in> set (xd_sessions s). xs_extensionInstallationId r \<in> set ids \<and> live_token now r}"
  using mset_eq_setD [OF assms] by (auto simp: listActiveByInstallationIds_def)

lemma status_of_live:
  assumes "stats_match rows stats" and "\<And>r. r \<in> set rows \<Longrightarrow> now < xs_expiresAt r \<and> xs_expiresAt r < 253402300800000"
    and "- 62167219200000 \<le> now"
  shows "computeConnectionStatus host (case map_of stats k of None \<Rightarrow> 0 | Some x \<Rightarrow> ns_count x) seen (Option.bind (map_of stats k) ns_lastExpiresAt) now
     \<noteq> ReconnectRequired \<longleftrightarrow> (\<exists>r \<in> set rows. xs_extensionInstallationId r = k)"
proof (cases "map_of stats k")
  case None
  then show ?thesis using assms(1) by (auto simp: stats_match_def computeConnectionStatus_def Let_def split: option.splits dest: spec [where x = k])
next
  case (Some x)
  then obtain r where r: "0 < ns_count x" "r \<in> set rows" "xs_extensionInstallationId r = k"
      "ns_lastExpiresAt x = Some (toISOString (xs_expiresAt r))"
    using assms(1) unfolding stats_match_def by (auto split: option.splits dest: spec [where x = k])
  then have "date_parse host (toISOString (xs_expiresAt r)) = Some (xs_expiresAt r)" using assms(2) [OF r(2)] assms(3) by (intro date_parse_toISOString) auto
  then show ?thesis using r Some assms(2) [OF r(2)] by (auto simp: computeConnectionStatus_def Let_def split: option.splits)
qed

text \<open>
  C17. The inventory of a user lists exactly the installations bound to them that have a session that is neither
  revoked nor expired, each once: an installation whose tokens are all spent_hash is not shown, nor is one of another user.
\<close>

theorem inventory_exact:
  assumes "listInstallationsForCurrentSession rt session s = Inr v"
    and "\<And>xs. mset (xt_installationTie rt xs) = mset xs" and "\<And>xs. mset (xt_sessionTie rt xs) = mset xs"
    and "- 62167219200000 \<le> xt_now rt" and "\<And>r. r \<in> set (xd_sessions s) \<Longrightarrow> xs_expiresAt r < 253402300800000"
  shows "mset (map vi_installationId (vs_items v)) = mset (map xi_installationId (filter (\<lambda>i. xi_userId i = cs_user_id session
     \<and> list_ex (\<lambda>r. xs_extensionInstallationId r = xi_id i \<and> xs_revokedAt r = None \<and> xt_now rt < xs_expiresAt r) (xd_sessions s))
       (xd_installations s)))"
proof -
  let ?ins = "listInstallationsByUserId (xt_installationTie rt) (cs_user_id session) s"
  let ?act = "listActiveByInstallationIds (xt_sessionTie rt) (map xi_id ?ins) (xt_now rt) s"
  let ?live = "\<lambda>i. list_ex (\<lambda>r. xs_extensionInstallationId r = xi_id i \<and> xs_revokedAt r = None \<and> xt_now rt < xs_expiresAt r) (xd_sessions s)"
  obtain policy where v: "vs_items v = filter (\<lambda>i. vi_connectionStatus i \<noteq> ReconnectRequired \<and> \<not> vi_requiresReconnect i)
      (map (\<lambda>r. mapInstallationInventoryItem rt r policy (session_stats_of ?act)) ?ins)"
    using assms(1) by (auto simp: listInstallationsForCurrentSession_def bindR_def Let_def split: sum.splits)
  have act: "set ?act = {r \<in> set (xd_sessions s). xs_extensionInstallationId r \<in> set (map xi_id ?ins) \<and> live_token (xt_now rt) r}"
    by (rule active_members [OF assms(3)])
  have "vi_connectionStatus (mapInstallationInventoryItem rt i policy (session_stats_of ?act)) \<noteq> ReconnectRequired \<longleftrightarrow> ?live i"
    if i: "i \<in> set ?ins" for i
  proof -
    have "vi_connectionStatus (mapInstallationInventoryItem rt i policy (session_stats_of ?act)) \<noteq> ReconnectRequired
        \<longleftrightarrow> (\<exists>r \<in> set ?act. xs_extensionInstallationId r = xi_id i)"
      unfolding mapInstallationInventoryItem_def Let_def inventory_item.simps
      by (rule status_of_live [OF stats_of_match _ assms(4)]) (use act assms(5) in \<open>auto simp: live_token_def\<close>)
    then show ?thesis using i act by (auto simp: list_ex_iff live_token_def)
  qed
  then have "map vi_installationId (vs_items v) = map xi_installationId (filter ?live ?ins)"
    unfolding v filter_map map_map comp_def
    by (intro map_cong filter_cong) (simp_all add: mapInstallationInventoryItem_def Let_def)
  moreover have "mset ?ins = mset (filter (\<lambda>i. xi_userId i = cs_user_id session) (xd_installations s))"
    unfolding listInstallationsByUserId_def by (rule by_last_seen_mset [OF assms(2)])
  ultimately show ?thesis by (simp add: filter_filter_mset)
qed

section \<open>The log of refused tokens\<close>

lemma prune_length: "length (prune_invalid limit now entries) \<le> limit"
  unfolding prune_invalid_def Let_def by (split if_split) (simp, arith)

lemma update_length: "length (AList.update k v entries) = (if k \<in> fst ` set entries then length entries else Suc (length entries))"
  by (induction entries) auto

lemma update_new: "k \<notin> fst ` set entries \<Longrightarrow> AList.update k v entries = entries @ [(k, v)]"
  by (induction entries) auto

text \<open>The entry just written survives the pruning.\<close>

lemma prune_keeps_fresh:
  assumes "length entries \<le> limit" and "0 < limit" and "now < it_nextLogAt st" and "distinct (map fst entries)"
  shows "map_of (prune_invalid limit now (AList.update k st entries)) k = Some st"
proof (cases "k \<in> fst ` set entries")
  case True
  then show ?thesis using assms(1) by (simp add: prune_invalid_def update_length update_conv')
next
  case False
  let ?kept = "filter (\<lambda>(_, st). \<not> it_nextLogAt st \<le> now) entries"
  have "length ?kept + 1 - limit \<le> length ?kept" using assms(2) by simp
  then have "drop (Suc (length ?kept) - limit) (?kept @ [(k, st)]) = drop (Suc (length ?kept) - limit) ?kept @ [(k, st)]" by simp
  moreover have "k \<notin> fst ` set (drop n ?kept)" for n using False set_drop_subset [of n ?kept] by auto
  ultimately show ?thesis using False assms(1,3)
    by (simp add: prune_invalid_def update_new Let_def map_add_Some_iff map_of_eq_None_iff) 
qed

text \<open>
  C18. The throttle of the log of refused tokens: what it remembers never exceeds its limit, and once a line is
  written for a token and an endpoint, the same refusal within the next ten minutes writes none and is counted.
\<close>

theorem refused_tokens_throttled:
  assumes "length entries \<le> limit" and "0 < limit" and "distinct (map fst entries)"
    and "logInvalidInstallationToken limit now h endpoint entries = (entries', Some n)" and "now \<le> now'" and "now' < now + 600000"
  shows "length entries' \<le> limit \<and> map_of entries' (token_log_key h endpoint) = Some \<lparr>it_nextLogAt = now + 600000, it_suppressed = 0\<rparr>
     \<and> logInvalidInstallationToken limit now' h endpoint entries'
       = (AList.update (token_log_key h endpoint) \<lparr>it_nextLogAt = now + 600000, it_suppressed = 1\<rparr> entries', None)"
proof -
  let ?st = "\<lparr>it_nextLogAt = now + 600000, it_suppressed = 0\<rparr>"
  have e: "entries' = prune_invalid limit now (AList.update (token_log_key h endpoint) ?st entries)"
    using assms(4) by (auto simp: logInvalidInstallationToken_def Let_def invalidInstallationTokenLogWindowMs_def split: option.splits if_splits)
  have "map_of entries' (token_log_key h endpoint) = Some ?st"
    unfolding e by (rule prune_keeps_fresh [OF assms(1,2) _ assms(3)]) simp
  then show ?thesis using prune_length e assms(6) by (simp add: logInvalidInstallationToken_def Let_def)
qed

section \<open>Examples\<close>

definition demo_device :: "string \<Rightarrow> string \<Rightarrow> installation_row" where
  "demo_device i u = \<lparr>xi_id = i, xi_userId = u, xi_installationId = i @ ''-inst'', xi_browser = ''chrome'', xi_extensionVersion = ''1.5.0'',
     xi_schemaVersion = ''2'', xi_capabilitiesJson = JArr [JStr ''quiz-capture''], xi_device = no_device, xi_createdAt = 1, xi_updatedAt = 1,
     xi_lastSeenAt = None\<rparr>"

definition demo_session_row :: "string \<Rightarrow> string \<Rightarrow> string \<Rightarrow> token_row" where
  "demo_session_row k i u = \<lparr>xs_id = k, xs_extensionInstallationId = i, xs_userId = u, xs_tokenHash = ''#'' @ k, xs_expiresAt = 900000,
     xs_createdAt = 2, xs_revokedAt = None\<rparr>"

definition demo_devices :: extension_db where
  "demo_devices = policy_db.extend demo_policies
     \<lparr>xd_installations = [demo_device ''a'' ''u0'', demo_device ''b'' ''u1''],
      xd_sessions = [demo_session_row ''k1'' ''a'' ''u0'', demo_session_row ''k2'' ''b'' ''u1''],
      xd_rules = [], xd_flags = \<lparr>fd_flags = [], fd_overrides = []\<rparr>, xd_config = \<lparr>cd_versions = [], cd_layers = []\<rparr>,
      xd_settings = \<lparr>ss_rows = [], ss_cache = None, ss_audit = []\<rparr>, xd_invalid = [], xd_jobs = []\<rparr>"

definition demo_runtime :: "string \<Rightarrow> int \<Rightarrow> extension_runtime" where
  "demo_runtime token now = \<lparr>xt_now = now, xt_cuid = demo_ids, xt_token = token, xt_hmac = (\<lambda>t. ''#'' @ t), xt_compare = (\<lambda>a b. 0),
     xt_parseDate = (\<lambda>t. None), xt_layerTie = (\<lambda>r. 0), xt_installationTie = id, xt_sessionTie = rev, xt_settingsUp = False,
     xt_bootstrapUp = True, xt_rowUp = True, xt_eventsUp = True, xt_readModelUp = True, xt_readModelFails = (\<lambda>d. False),
     xt_queueConnected = True, xt_queuePolicy = None, xt_queueError = None, xt_processEnv = (\<lambda>k. None), xt_ttlMinutes = 60,
     xt_platformAiProvider = ''openrouter''\<rparr>"

lemma demo_expiry:
  "date_of_number (session_expiry (xt_now (demo_runtime t 5)) (so_lifetimeHours (buildFallbackExtensionSessionPolicy (demo_runtime t 5)))) = Inr 3600005"
  using num_of_rat_of_int [of 1] num_of_rat_of_int [of 60] num_of_rat_of_int [of 3600] num_of_rat_of_int [of 3600000] num_of_rat_of_int [of 3600005]
  by (simp add: demo_runtime_def session_expiry_def buildFallbackExtensionSessionPolicy_def date_of_number_def trunc_num_def)

lemmas demo_defs = demo_devices_def demo_device_def demo_session_row_def demo_runtime_def demo_agent_def policy_db.defs

lemma demo_view: "device_view demo_devices = ([(''a'', ''a-inst'', ''u0''), (''b'', ''b-inst'', ''u1'')],
    [demo_session_row ''k1'' ''a'' ''u0'', demo_session_row ''k2'' ''b'' ''u1''])"
  by (simp add: device_view_def demo_devices_def policy_db.defs owner_key_def demo_device_def)

lemma demo_devices_ok: "device_ok (device_view demo_devices)"
  by (simp add: demo_view device_ok_def open_for_def demo_session_row_def)

definition demo_leave :: json_object where
  "demo_leave = [(''installationId'', JStr ''a-inst''), (''reason'', JStr ''lost'')]"

text \<open>A disconnect whose event is recorded succeeds.\<close>

lemma disconnect_succeeds:
  assumes "ad_allowed (canWriteExtensionInstallations (cs_principal session))" and "findByInstallationId n s = Some r"
    and "xi_userId r = cs_user_id session" and "readRequiredString (map_of raw ''installationId'') ''installationId'' = Inr n"
    and "readRequiredActionReason (map_of raw ''reason'') = Inr reason"
  shows "\<exists>s' d. disconnectInstallationForCurrentSession rt session (Some raw) s = (s', Inr d) \<and> dx_installationId d = xi_installationId r"
  using assms
  by (simp add: disconnectInstallationForCurrentSession_def Let_def op_simps requireDecision_def owned_installation_def disconnect_installation_def
      revokeActiveByInstallationId_def)

text \<open>A bind by the first user of the installation the second user has.\<close>

definition demo_bind :: json_object where
  "demo_bind = [(''installationId'', JStr ''b-inst''), (''handshake'', JObj [(''extensionVersion'', JStr ''1.6.0''), (''schemaVersion'', JStr ''2''),
     (''capabilities'', JArr [JStr ''quiz-capture'']), (''browser'', JStr ''edge'')])]"

definition demo_taken_over :: "extension_db \<times> bind_result result" where
  "demo_taken_over = bindInstallationForCurrentSession (demo_runtime ''t'' 5) demo_agent (Some demo_bind) demo_devices"

lemma upsert_keeps:
  assumes "upsertBoundInstallation cuid now b s = (s', Inr r)"
  shows "xd_sessions s' = xd_sessions s" and "ad_users s' = ad_users s" and "ad_next s' = ad_next s \<or> ad_next s' = Suc (ad_next s)"
    and "findUserById (bn_userId b) s \<noteq> None"
  using assms by (auto simp: upsertBoundInstallation_def Let_def split: if_splits option.splits)

lemma bind_succeeds:
  assumes "normalizeBindRequest raw = Inr n" and "normalizeDeviceMetadata (map_of raw ''metadata'') = Inr md" and "\<not> xt_settingsUp rt"
    and "xt_bootstrapUp rt"
    and "isOk (snd (upsertBoundInstallation (xt_cuid rt) (xt_now rt) (bound_of rt (cs_user_id session) (nb_installationId n) (nb_handshake n) md) s))"
    and "date_of_number (session_expiry (xt_now rt) (so_lifetimeHours (buildFallbackExtensionSessionPolicy rt))) = Inr e"
    and "xt_cuid rt (ad_next s) \<notin> xs_id ` set (xd_sessions s)" and "xt_cuid rt (Suc (ad_next s)) \<notin> xs_id ` set (xd_sessions s)"
    and "xt_hmac rt (xt_token rt) \<notin> xs_tokenHash ` set (xd_sessions s)"
  shows "isOk (snd (bindInstallationForCurrentSession rt session (Some raw) s))"
proof -
  let ?b = "bound_of rt (cs_user_id session) (nb_installationId n) (nb_handshake n) md"
  obtain s1 r where up: "upsertBoundInstallation (xt_cuid rt) (xt_now rt) ?b s = (s1, Inr r)"
    using assms(5) unfolding isOk_iff by (metis prod.collapse)
  note s1 = upsert_keeps [OF up]
  let ?s2 = "s1\<lparr>xd_sessions := revoke_rows (open_for (xi_id r)) (xt_now rt) (xd_sessions s1)\<rparr>"
  have "r \<in> set (xd_installations s1)" using upsert_listed [OF up] by simp
  then obtain i where i: "find (\<lambda>i. xi_id i = xi_id r) (xd_installations s1) = Some i"
    by (cases "find (\<lambda>i. xi_id i = xi_id r) (xd_installations s1)") (auto simp: find_None_iff)
  have "findUserById (cs_user_id session) ?s2 \<noteq> None" using s1(2,4) by (simp add: findUserById_def bound_of_def)
  moreover have "xt_cuid rt (ad_next ?s2) \<notin> xs_id ` set (xd_sessions ?s2)" using s1(1,3) assms(7,8) by auto
  ultimately have "isOk (snd (create_session (xt_cuid rt) (xt_now rt) (xi_id r) (cs_user_id session) (xt_hmac rt (xt_token rt)) e ?s2))"
    using i assms(9) s1(1) by (simp add: create_session_def Let_def include_installation_def isOk_def split: option.split)
  then obtain s3 x where cr: "create_session (xt_cuid rt) (xt_now rt) (xi_id r) (cs_user_id session) (xt_hmac rt (xt_token rt)) e ?s2 = (s3, Inr x)"
    unfolding isOk_iff by (metis prod.collapse)
  have iss: "issueInstallationSession rt r (cs_user_id session) (so_lifetimeHours (buildFallbackExtensionSessionPolicy rt)) ?s2
      = (s3, Inr (xt_token rt, x))"
    using assms(6) cr by (simp add: issueInstallationSession_def op_simps)
  show ?thesis using assms(1-4) up iss
    by (simp add: bindInstallationForCurrentSession_def Let_def op_simps resolveExtensionSessionPolicy_def revokeActiveByInstallationId_def
        buildBootstrapPayload_def)
qed

text \<open>A bind leaves an open session of the user.\<close>

lemma bind_opens:
  fixes s s' :: "'m extension_db_scheme"
  assumes "bindInstallationForCurrentSession rt session request s = (s', Inr res)"
  shows "\<exists>r \<in> set (xd_sessions s'). xs_revokedAt r = None \<and> xs_userId r = cs_user_id session"
  using assms
proof (rule bind_steps)
  fix h r x and s2 s3 :: "'m extension_db_scheme"
  assume iss: "issueInstallationSession rt r (cs_user_id session) h s2 = (s3, Inr (xt_token rt, x))" and v: "device_view s' = device_view s3"
  then have "\<exists>r \<in> set (xd_sessions s3). xs_revokedAt r = None \<and> xs_userId r = cs_user_id session"
    by (auto simp: issueInstallationSession_def op_elims create_session_def Let_def split: if_splits option.splits)
  then show ?thesis using v by (simp add: device_view_def)
qed

lemma upsert_succeeds:
  assumes "findUserById (bn_userId b) s \<noteq> None" and "xd_installations s = [] \<or> (\<exists>old. findByInstallationId (bn_installationId b) s = Some old)"
  shows "isOk (snd (upsertBoundInstallation cuid now b s))"
  using assms by (auto simp: upsertBoundInstallation_def Let_def findByInstallationId_def isOk_def)

definition demo_empty :: extension_db where
  "demo_empty = demo_devices\<lparr>xd_installations := [], xd_sessions := []\<rparr>"

lemma demo_bind_runs:
  assumes "s = demo_devices \<or> s = demo_empty"
  obtains s' res where "bindInstallationForCurrentSession (demo_runtime ''t'' 5) demo_agent (Some demo_bind) s = (s', Inr res)"
proof -
  have "case normalizeBindRequest demo_bind of Inr n \<Rightarrow> nb_installationId n = ''b-inst'' | Inl _ \<Rightarrow> False" by code_simp
  then obtain n where n: "normalizeBindRequest demo_bind = Inr n" "nb_installationId n = ''b-inst''" by (auto split: sum.splits)
  have ids: "show_int 7 = ''7''" "show_int 8 = ''8''" by code_simp+
  have rows: "ad_next s = 7" "xs_id ` set (xd_sessions s) \<subseteq> {''k1'', ''k2''}" "xs_tokenHash ` set (xd_sessions s) \<subseteq> {''#k1'', ''#k2''}"
    using assms by (elim disjE; simp add: demo_empty_def demo_devices_def policy_db.defs demo_policies_def support_db.defs demo_support_def demo_session_row_def)+
  have user: "findUserById ''u0'' s \<noteq> None"
    using assms by (elim disjE; simp add: findUserById_def demo_empty_def demo_devices_def policy_db.defs demo_policies_def support_db.defs
      demo_support_def demo_user_def)
  have known: "xd_installations s = [] \<or> (\<exists>old. findByInstallationId ''b-inst'' s = Some old)"
    using assms by (elim disjE; simp add: findByInstallationId_def demo_empty_def demo_devices_def policy_db.defs demo_device_def)
  have "isOk (snd (bindInstallationForCurrentSession (demo_runtime ''t'' 5) demo_agent (Some demo_bind) s))"
  proof (rule bind_succeeds [OF n(1), where md = None and e = 3600005])
    show "normalizeDeviceMetadata (map_of demo_bind ''metadata'') = Inr None" by code_simp
    show "\<not> xt_settingsUp (demo_runtime ''t'' 5)" "xt_bootstrapUp (demo_runtime ''t'' 5)" by (simp_all add: demo_runtime_def)
    show "isOk (snd (upsertBoundInstallation (xt_cuid (demo_runtime ''t'' 5)) (xt_now (demo_runtime ''t'' 5))
        (bound_of (demo_runtime ''t'' 5) (cs_user_id demo_agent) (nb_installationId n) (nb_handshake n) None) s))"
      by (rule upsert_succeeds) (use known n(2) user in \<open>simp_all add: bound_of_def demo_agent_def\<close>)
    show "date_of_number (session_expiry (xt_now (demo_runtime ''t'' 5)) (so_lifetimeHours (buildFallbackExtensionSessionPolicy (demo_runtime ''t'' 5))))
        = Inr 3600005" by (rule demo_expiry)
    show "xt_cuid (demo_runtime ''t'' 5) (ad_next s) \<notin> xs_id ` set (xd_sessions s)"
      "xt_cuid (demo_runtime ''t'' 5) (Suc (ad_next s)) \<notin> xs_id ` set (xd_sessions s)"
      "xt_hmac (demo_runtime ''t'' 5) (xt_token (demo_runtime ''t'' 5)) \<notin> xs_tokenHash ` set (xd_sessions s)"
      using rows ids by (auto simp: demo_runtime_def demo_ids_def)
  qed
  then obtain res where "snd (bindInstallationForCurrentSession (demo_runtime ''t'' 5) demo_agent (Some demo_bind) s) = Inr res"
    unfolding isOk_iff ..
  then show thesis by (intro that prod_eqI) simp_all
qed

theorem bound_token_resolves_witness:
  "case demo_taken_over of (s', Inr res) \<Rightarrow> \<exists>e. tz_expiresAt (bx_session res) = toISOString e
     \<and> (case snd (resolveInstallationSession (demo_runtime ''x'' 6) (tz_token (bx_session res)) None s') of
          Inr x \<Rightarrow> xi_userId (ns_installation x) = ''u0'' | Inl err \<Rightarrow> e \<le> 6)
   | _ \<Rightarrow> False"
proof (rule demo_bind_runs [OF disjI1 [OF HOL.refl]])
  fix s' res
  assume run: "bindInstallationForCurrentSession (demo_runtime ''t'' 5) demo_agent (Some demo_bind) demo_devices = (s', Inr res)"
  obtain e where e: "tz_expiresAt (bx_session res) = toISOString e"
    and all: "\<And>rt' endpoint. xt_hmac rt' = xt_hmac (demo_runtime ''t'' 5) \<Longrightarrow>
         (case snd (resolveInstallationSession rt' (tz_token (bx_session res)) endpoint s') of
            Inr x \<Rightarrow> xt_now rt' < e \<and> xi_installationId (ns_installation x) = bm_installationId (bx_installation res)
              \<and> xi_userId (ns_installation x) = cs_user_id demo_agent
          | Inl err \<Rightarrow> e \<le> xt_now rt' \<and> err = Unauthorized ''Installation session is invalid or expired.'')"
    using bound_token_resolves [OF demo_devices_ok run] by blast
  have "xt_hmac (demo_runtime ''x'' 6) = xt_hmac (demo_runtime ''t'' 5)" by (simp add: demo_runtime_def)
  from all [OF this, of None] e run show ?thesis
    by (auto simp: demo_taken_over_def demo_agent_def demo_runtime_def split: sum.splits)
qed

theorem one_session_of_owner_witness:
  "\<exists>s r. served s \<and> xs_userId r = ''u0'' \<and> (\<exists>i \<in> set (xd_installations s). xi_id i = xs_extensionInstallationId r \<and> xi_userId i = ''u0'')
     \<and> filter (open_for (xs_extensionInstallationId r)) (xd_sessions s) = [r]"
proof (rule demo_bind_runs [OF disjI2 [OF HOL.refl]])
  fix s' res
  assume run: "bindInstallationForCurrentSession (demo_runtime ''t'' 5) demo_agent (Some demo_bind) demo_empty = (s', Inr res)"
  have "served demo_empty" by (rule served.start) (simp_all add: demo_empty_def)
  then have s': "served s'" using served.request extension_request.bind run by (metis fst_conv)
  obtain r where r: "r \<in> set (xd_sessions s')" "xs_revokedAt r = None" "xs_userId r = ''u0''"
    using bind_opens [OF run] by (auto simp: demo_agent_def)
  from one_session_of_owner [OF s' r(1,2)] s' r(3) show ?thesis by auto
qed

theorem inventory_exact_witness:
  "case listInstallationsForCurrentSession (demo_runtime ''t'' 5) demo_agent demo_devices of
     Inr v \<Rightarrow> map vi_installationId (vs_items v) = [''a-inst''] | Inl _ \<Rightarrow> False"
proof -
  have "requireDecision (canReadExtensionInstallations (cs_principal demo_agent)) = Inr ()" by code_simp
  then obtain v where v: "listInstallationsForCurrentSession (demo_runtime ''t'' 5) demo_agent demo_devices = Inr v"
    by (simp add: listInstallationsForCurrentSession_def bindR_def Let_def)
  have "mset (map vi_installationId (vs_items v)) = {#''a-inst''#}"
    by (subst inventory_exact [OF v]) (auto simp: demo_defs)
  then have "map vi_installationId (vs_items v) = [''a-inst'']" by (simp only: mset_single_iff)
  then show ?thesis using v by simp
qed

theorem refresh_hands_over_witness:
  "case handleRefreshInstallationSession (demo_runtime ''n'' 5) (Some ''Bearer k1'') ''/x'' demo_devices of
     (s', Inr res) \<Rightarrow> rf_tokenExpiresAt res = toISOString 3600005 \<and> findActiveByTokenHash ''#k1'' 6 s' = None
   | _ \<Rightarrow> False"
proof -
  let ?rt = "demo_runtime ''n'' 5"
  have ids: "show_int 7 = ''7''" by code_simp
  note date = demo_expiry [of "''n''"]
  have "\<exists>s' res. handleRefreshInstallationSession ?rt (Some ''Bearer k1'') ''/x'' demo_devices = (s', Inr res)
     \<and> rf_tokenExpiresAt res = toISOString 3600005
     \<and> (\<forall>t < 3600005. \<exists>y. findActiveByTokenHash (xt_hmac ?rt (rf_installationToken res)) t s' = Some y
           \<and> owner_key (ns_installation y) = owner_key (demo_device ''a'' ''u0''))
     \<and> (\<forall>t. findActiveByTokenHash (xt_hmac ?rt ''k1'') t s' = None)"
  proof (rule refresh_hands_over [OF demo_devices_ok, of _ _ _ "\<lparr>ns_session = demo_session_row ''k1'' ''a'' ''u0'', ns_installation = demo_device ''a'' ''u0''\<rparr>",
        unfolded installation_session.simps])
    show "parseBearerToken (Some ''Bearer k1'') = Some ''k1''" by code_simp
    show "findActiveByTokenHash (xt_hmac ?rt ''k1'') (xt_now ?rt) demo_devices
        = Some \<lparr>ns_session = demo_session_row ''k1'' ''a'' ''u0'', ns_installation = demo_device ''a'' ''u0''\<rparr>"
      by (simp add: findActiveByTokenHash_def demo_defs live_token_def include_installation_def)
    show "findUserById (xi_userId (demo_device ''a'' ''u0'')) demo_devices \<noteq> None"
      by (simp add: findUserById_def demo_defs demo_policies_def support_db.defs demo_support_def demo_user_def)
    show "xt_cuid ?rt (ad_next demo_devices) \<notin> xs_id ` set (xd_sessions demo_devices)"
      "xt_hmac ?rt (xt_token ?rt) \<notin> xs_tokenHash ` set (xd_sessions demo_devices)"
      using ids by (simp_all add: demo_defs demo_policies_def support_db.defs demo_support_def demo_ids_def)
    fix p assume "snd (resolveExtensionSessionPolicy ?rt demo_devices) = Inr p"
    then show "date_of_number (session_expiry (xt_now ?rt) (so_lifetimeHours p)) = Inr 3600005"
      using date by (simp add: resolveExtensionSessionPolicy_def Let_def demo_runtime_def)
  qed simp
  then show ?thesis by (auto simp: demo_runtime_def)
qed

theorem disconnected_for_good_witness:
  "case disconnectInstallationForCurrentSession (demo_runtime ''t'' 5) demo_agent (Some demo_leave) demo_devices of
     (s1, Inr d) \<Rightarrow> snd (resolveInstallationSession (demo_runtime ''u'' 7) ''k1'' None
       (fst (handleRefreshInstallationSession (demo_runtime ''v'' 6) (Some ''Bearer k1'') ''/x'' s1)))
         = Inl (Unauthorized ''Installation session is invalid or expired.'')
   | _ \<Rightarrow> False"
proof -
  have "\<exists>s1 d. disconnectInstallationForCurrentSession (demo_runtime ''t'' 5) demo_agent (Some demo_leave) demo_devices = (s1, Inr d)
      \<and> dx_installationId d = xi_installationId (demo_device ''a'' ''u0'')"
    by (rule disconnect_succeeds [where n = "''a-inst''" and reason = "''lost''"]) (code_simp, code_simp, code_simp, code_simp, code_simp)
  then obtain s1 d where run: "disconnectInstallationForCurrentSession (demo_runtime ''t'' 5) demo_agent (Some demo_leave) demo_devices = (s1, Inr d)"
    and d: "dx_installationId d = ''a-inst''" by (auto simp: demo_device_def)
  have "extension_request\<^sup>*\<^sup>* s1 (fst (handleRefreshInstallationSession (demo_runtime ''v'' 6) (Some ''Bearer k1'') ''/x'' s1))"
    by (rule r_into_rtranclp, rule extension_request.refresh)
  from disconnected_for_good [where run = disconnectInstallationForCurrentSession, OF demo_devices_ok disjI1 [OF HOL.refl] run this, of "demo_device ''a'' ''u0''" "demo_session_row ''k1'' ''a'' ''u0''" "demo_runtime ''u'' 7" "''k1''" None]
  show ?thesis using d run by (simp add: demo_defs)
qed

definition demo_refusals :: "(string \<times> invalid_token_state) list" where
  "demo_refusals = [(''old:unknown'', \<lparr>it_nextLogAt = 7, it_suppressed = 4\<rparr>)]"

theorem refused_tokens_throttled_witness:
  "logInvalidInstallationToken 2 2000 ''h'' None (fst (logInvalidInstallationToken 2 1000 ''h'' None demo_refusals))
     = ([(''old:unknown'', \<lparr>it_nextLogAt = 7, it_suppressed = 4\<rparr>), (''h:unknown'', \<lparr>it_nextLogAt = 601000, it_suppressed = 1\<rparr>)], None)"
proof -
  have "logInvalidInstallationToken 2 1000 ''h'' None demo_refusals
      = ([(''old:unknown'', \<lparr>it_nextLogAt = 7, it_suppressed = 4\<rparr>), (''h:unknown'', \<lparr>it_nextLogAt = 601000, it_suppressed = 0\<rparr>)], Some 0)"
    by code_simp
  from refused_tokens_throttled [OF _ _ _ this, of 2000] this show ?thesis by (simp add: demo_refusals_def token_log_key_def)
qed

end
