(* ===== verification/Spec2Isabelle.thy ===== *)
theory Spec2Isabelle
  imports WorkerJobs AuthFlows Pricing BindCodes Impersonation ExtensionFlows
begin

text \<open>
  QuizMind Platform: a verification library for the parts of the platform that decide something. The
  program is a monorepo of an API (\<open>apps/api\<close>), a worker (\<open>apps/worker\<close>), a web application and a
  browser extension, with shared packages (\<open>packages/*\<close>) that hold the rules. Requests reach the API,
  which checks access, calls a service, writes database tables and hands jobs to Redis queues; the
  worker runs the jobs; the extension asks the API for its feature flags, configuration and quotas.

  \<^bold>\<open>Theories and sources.\<close>

  \<^item> \<open>Prelude\<close>: strings of the language, JSON values, results (\<open>error + 'a\<close>), operations on a state
    (\<open>('s, 'a) op\<close>: a new state and a result), database rows and the lemmas shared by all.
  \<^item> \<open>JsNumber\<close>: IEEE doubles as rationals with one rounding per operation, \<open>Number()\<close>, \<open>toFixed\<close> and
    number printing. \<open>Dates\<close>: times in milliseconds, ISO text, Date.parse.
  \<^item> \<open>Permissions\<close> (\<open>packages/permissions\<close>, \<open>packages/auth\<close>, \<open>apps/api/src/services/access-service.ts\<close>):
    roles, permissions, access decisions and the guards of the API.
  \<^item> \<open>AuthTokens\<close> (\<open>packages/auth\<close>): password policy, bearer headers, access tokens.
  \<^item> \<open>Operations\<close>: weakest preconditions of operations. \<open>Accounts\<close> (the repositories under
    \<open>apps/api/src/auth/repositories\<close>): the tables of users, sessions and password resets. \<open>UserAdmin\<close>
    (\<open>platform.service.ts\<close>): administration of users. \<open>AuthService\<close>, \<open>AuthFlows\<close> (\<open>auth.service.ts\<close>,
    \<open>jwt-auth.guard.ts\<close>): every handler of the service, and what they achieve along any sequence of requests.
  \<^item> \<open>Compatibility\<close>, \<open>FeatureFlags\<close>, \<open>RemoteConfig\<close> (\<open>packages/extension\<close>, the extension bootstrap, feature
    flag and remote configuration services and repositories): versions, handshakes, flags, layered
    configuration, publishing, bootstrap payloads.
  \<^item> \<open>Logger\<close>, \<open>Usage\<close> (\<open>packages/logger\<close>, \<open>packages/usage\<close>, the usage service and worker jobs).
  \<^item> \<open>Queue\<close>, \<open>Email\<close>, \<open>WorkerJobs\<close> (\<open>packages/queue\<close>, \<open>packages/email\<close>, \<open>apps/worker/src/jobs\<close>): job
    requests and identifiers, templates, delivery, history cleanup, blob paths, audit export.
  \<^item> \<open>Wallet\<close>, \<open>Billing\<close> (\<open>apps/api/src/wallet\<close>, \<open>apps/api/src/billing\<close>, \<open>packages/billing\<close>, the webhook
    job): wallet tables and their transactions, payments, webhook ingestion, signatures.
  \<^item> \<open>RateLimit\<close> (\<open>apps/api/src/security\<close>): both stores of the rate limiter, the Redis script, the guard
    and the CORS check.
  \<^item> \<open>BindCodes\<close> (\<open>apps/web/src/lib/extension-bind-code-store.ts\<close>, \<open>apps/web/src/app/bff/extension/bind\<close>):
    the one-time codes that bind an extension, in the memory of a web server and in Redis, both routes, and
    several servers running against one Redis.
  \<^item> \<open>Settings\<close>, \<open>Retention\<close>, \<open>Pricing\<close> (\<open>apps/api/src/settings\<close>, \<open>apps/api/src/ai/ai-pricing.service.ts\<close>,
    \<open>user-billing-override.repository.ts\<close>): stored policies behind a cache, their patches and merges, and
    the price of an AI request.

  \<^item> \<open>Keyset\<close>: reading a table page by page from a cursor, once for the backfill (ascending) and the log
    pages (descending). \<open>AdminLog\<close> (\<open>packages/database/src/admin-log-event.ts\<close>, \<open>admin-log-write-path.ts\<close>,
    \<open>admin-log-ai-sync.ts\<close>, \<open>admin-log-actor-enrichment.ts\<close>, \<open>admin-log-ai-request-candidates.ts\<close> of
    \<open>apps/api/src/logs\<close>): the rows of the administration log, their derivation and the dual write.
    \<open>AdminLogStore\<close> (\<open>admin-log.repository.ts\<close>, \<open>admin-log.backfill.ts\<close>): listing, lookup, pruning,
    backfill. \<open>AdminLogView\<close> (\<open>platform.service.ts\<close>): filters, snapshots, security overview, exports.
  \<^item> \<open>SupportTickets\<close> (\<open>services/support-service.ts\<close>, \<open>apps/api/src/support\<close>, \<open>platform.service.ts\<close>): the
    support queue, timelines, favourite presets and the workflow of a ticket. \<open>Impersonation\<close>
    (\<open>support-impersonation.repository.ts\<close>): entering and leaving the account of a user, and what both logs
    hold of it along any sequence of support requests.
  \<^item> \<open>AiPolicy\<close> (\<open>packages/providers\<close>, \<open>apps/api/src/providers/ai-provider-policy.service.ts\<close> and its
    repository): the provider catalogue, the policy of AI access, its updates and its history.
  \<^item> \<open>Installations\<close> (the repositories under \<open>apps/api/src/extension\<close>): installations, their sessions and
    lifecycle events, and the state machine of owners and sessions. \<open>ExtensionControl\<close>, \<open>ExtensionUsage\<close>
    (\<open>extension-control.service.ts\<close>, \<open>extension-control.controller.ts\<close>, \<open>extension-auth-session.ts\<close>): binding,
    refreshing, bootstrapping, listing, labelling, disconnecting and rotating installations, usage events and AI
    requests of the extension. \<open>ExtensionFlows\<close>: every handler as a sequence of steps of that machine, and what
    holds along any sequence of requests.

  \<^bold>\<open>How state and operations correspond.\<close> A database table is the list of its rows, a repository call an
  operation on it with the errors of the database as values (a unique key that exists, a missing row, an
  integer outside the 32 bits of its column); a transaction that throws leaves the state as it was. An
  in-memory map is an association list, Redis a keyspace with expiry in which a script is atomic. The
  operations keep the names of the functions they model; small helpers name a block of the function.
  Concurrency is a sequence of steps: the wallet's settlement is also split into its reads and its
  writes, so that two settlements interleave (\<open>Wallet\<close>), and two refreshes of one installation interleave
  after their lookups (\<open>ExtensionFlows\<close>); the other handlers run one at a time.

  \<^bold>\<open>Interfaces.\<close> Locales state what a client relies on and are interpreted on the model's definitions: the
  stores of the rate limiter (\<open>rate_limit_store\<close>: \<open>memory_store\<close>, \<open>redis_store\<close>), the webhook tables
  (\<open>webhook_store\<close>: \<open>worker_webhooks\<close>), the stored policies (\<open>policy_service\<close>: \<open>retention_service\<close>,
  \<open>pricing_service\<close>), the stores of bind codes (\<open>one_use_store\<close>: \<open>memory_codes\<close>, \<open>redis_codes\<close>),
  the orders rows are paged in (\<open>keyset\<close>: \<open>ascending\<close>, \<open>descending\<close>), what a sequence of account requests keeps (\<open>request_invariant\<close>: \<open>accounts\<close>,
  \<open>dead_session\<close>), what support requests keep of impersonations and logs (\<open>access_invariant\<close>:
  \<open>logged_access\<close>, \<open>settled_access\<close>), what the handlers of the extension keep of owners and tokens
  (\<open>device_invariant\<close>: \<open>owned_devices\<close>, \<open>spent_token\<close>), and those of the theories' own text blocks.

  \<^bold>\<open>What the lemmas show.\<close> Invariants of the stores (ledger sums, one active configuration), the exact
  effect of every handler with its error branches, refinement of reference definitions (version order,
  last writer of a configuration key, exact merges of policies), round trips (tokens, flags, published
  layers, policies), bounds (rate limits, rounded prices, metric status on doubles), termination of the
  cleanup loops, and safety (blob paths, escaped markup, redacted secrets, webhook deliveries). Some
  properties state what goes wrong as the code is: concurrent settlements, a failed webhook delivery, the
  cleanup walk of legacy rows, caps below the rounding.

  \<^bold>\<open>Bounds and fuel.\<close> Every function of the model is total: loops recurse structurally or have a
  termination proof, so there is no fuel. Rounding uses the real exponent range of doubles. Strings hold
  code units below 256; lengths and orders are those of the code for such strings.

  \<^bold>\<open>Parameters.\<close> Clock, random identifiers, hashing, HMAC, signatures, JSON and URL parsing of the
  runtime, the order of rows the database leaves open, HTTP and locale comparison are arguments of the
  definitions that use them; what a theorem needs of them is a hypothesis with a witness.

  \<^bold>\<open>Not modelled.\<close> The web application but for the bind codes (rendering and HTTP glue), controllers and modules of the
  framework, the generated database client, start-up code and configuration of the processes, and, so
  far, the AI proxy's upstream traffic with the endpoints of the extension that only pass requests on to it, and
  the remaining parts of the platform facade (orchestration of the services above); they are listed as such in
  the manifest.
\<close>

end
